(* ===== verification/Prelude.thy ===== *)
theory Prelude
  imports Main "HOL-Library.AList"
begin

section \<open>Shared vocabulary: Python effects, dictionaries and lists\<close>

text \<open>
  What every component of the model uses.  A Python statement that reads and writes the
  state of the process and may raise is a function from the state to a result and the new
  state: \<open>Inl e\<close> is the raised exception, and the state that comes with it is the one the
  statement had reached when it raised, as in Python, where the writes made before a raise
  stay.  A Python \<open>dict\<close> is an association list with distinct keys, in insertion order:
  assignment keeps the position of an existing key and appends a new one, which is what
  \<open>AList.update\<close> does.
\<close>

subsection \<open>Exceptions and effectful statements\<close>

datatype pyexn =
    KeyError
  | IndexError
  | ValueError
  | TypeError
  | AttributeError
  | RuntimeError
  | UnboundLocalError
  | ImportError
  | Exception string

type_synonym ('s, 'a) py = "'s \<Rightarrow> (pyexn + 'a) \<times> 's"

fun bind_res :: "(pyexn + 'a) \<times> 's \<Rightarrow> ('a \<Rightarrow> ('s, 'b) py) \<Rightarrow> (pyexn + 'b) \<times> 's" where
  "bind_res (Inl e, s) k = (Inl e, s)"
| "bind_res (Inr x, s) k = k x s"

definition bindp :: "('s, 'a) py \<Rightarrow> ('a \<Rightarrow> ('s, 'b) py) \<Rightarrow> ('s, 'b) py" where
  "bindp m k = (\<lambda>s. bind_res (m s) k)"

definition ret :: "'a \<Rightarrow> ('s, 'a) py" where
  "ret x = (\<lambda>s. (Inr x, s))"

definition raise :: "pyexn \<Rightarrow> ('s, 'a) py" where
  "raise e = (\<lambda>s. (Inl e, s))"

definition modify :: "('s \<Rightarrow> 's) \<Rightarrow> ('s, unit) py" where
  "modify f = (\<lambda>s. (Inr (), f s))"

fun block :: "('s, unit) py list \<Rightarrow> ('s, unit) py" where
  "block [] = ret ()"
| "block (m # ms) = bindp m (\<lambda>_. block ms)"

fun for_each :: "('x \<Rightarrow> ('s, unit) py) \<Rightarrow> 'x list \<Rightarrow> ('s, unit) py" where
  "for_each body [] = ret ()"
| "for_each body (x # xs) = bindp (body x) (\<lambda>_. for_each body xs)"

text \<open>Code without effects that may raise.\<close>

fun bindr :: "pyexn + 'a \<Rightarrow> ('a \<Rightarrow> pyexn + 'b) \<Rightarrow> pyexn + 'b" where
  "bindr (Inl e) k = Inl e"
| "bindr (Inr x) k = k x"

lemma bindr_Inr: "bindr r k = Inr x \<longleftrightarrow> (\<exists>y. r = Inr y \<and> k y = Inr x)"
  by (cases r) simp_all

text \<open>\<open>try: m except Exception: h\<close>.\<close>

definition try_except :: "('s, 'a) py \<Rightarrow> (pyexn \<Rightarrow> ('s, 'a) py) \<Rightarrow> ('s, 'a) py" where
  "try_except m h =
     (\<lambda>s. case m s of (Inl e, s') \<Rightarrow> h e s' | (Inr x, s') \<Rightarrow> (Inr x, s'))"

text \<open>The result of a statement, and the state it leaves.\<close>

definition result_of :: "(pyexn + 'a) \<times> 's \<Rightarrow> pyexn + 'a" where
  "result_of r = fst r"

definition state_of :: "(pyexn + 'a) \<times> 's \<Rightarrow> 's" where
  "state_of r = snd r"

lemma result_state_simps [simp]:
  "result_of (r, s) = r" "state_of (r, s) = s"
  by (simp_all add: result_of_def state_of_def)

lemma py_apply [simp]:
  "bindp m k s = bind_res (m s) k"
  "ret x s = (Inr x, s)"
  "raise e s = (Inl e, s)"
  "modify f s = (Inr (), f s)"
  by (simp_all add: bindp_def ret_def raise_def modify_def)

lemma try_except_apply:
  "m s = (Inr x, s') \<Longrightarrow> try_except m h s = (Inr x, s')"
  "m s = (Inl e, s') \<Longrightarrow> try_except m h s = h e s'"
  by (simp_all add: try_except_def)

lemma block_append:
  "block (xs @ ys) s = bind_res (block xs s) (\<lambda>_. block ys)"
proof (induction xs arbitrary: s)
  case Nil
  then show ?case by simp
next
  case (Cons x xs)
  show ?case
    by (cases "x s"; cases "fst (x s)") (auto simp: Cons.IH)
qed

lemma for_each_append:
  "for_each f (xs @ ys) s = bind_res (for_each f xs s) (\<lambda>_. for_each f ys)"
proof (induction xs arbitrary: s)
  case Nil
  then show ?case by simp
next
  case (Cons x xs)
  show ?case
    by (cases "f x s"; cases "fst (f x s)") (auto simp: Cons.IH)
qed

text \<open>A loop whose body always succeeds with a known effect is a fold of that effect.\<close>

lemma for_each_pure:
  assumes "\<And>x s. x \<in> set xs \<Longrightarrow> body x s = (Inr (), f x s)"
  shows "for_each body xs s = (Inr (), fold f xs s)"
  using assms by (induction xs arbitrary: s) auto

text \<open>
  An invariant of a loop: when each iteration keeps \<open>P\<close> whatever its outcome, the loop
  does too, even when an iteration raises.
\<close>

lemma for_each_inv:
  assumes "P s" and "\<And>x s. x \<in> set xs \<Longrightarrow> P s \<Longrightarrow> P (state_of (body x s))"
  shows "P (state_of (for_each body xs s))"
  using assms
proof (induction xs arbitrary: s)
  case Nil
  then show ?case by simp
next
  case (Cons x xs)
  from Cons.prems have *: "P (state_of (body x s))" by simp
  show ?case
  proof (cases "body x s")
    case (Pair r s')
    with * have "P s'" by simp
    then show ?thesis
      using Pair Cons.IH [of s'] Cons.prems by (cases r) auto
  qed
qed

subsection \<open>Dictionaries\<close>

type_synonym ('k, 'v) dict = "('k \<times> 'v) list"

abbreviation dget :: "('k, 'v) dict \<Rightarrow> 'k \<Rightarrow> 'v option" where
  "dget d k \<equiv> map_of d k"

abbreviation dset :: "'k \<Rightarrow> 'v \<Rightarrow> ('k, 'v) dict \<Rightarrow> ('k, 'v) dict" where
  "dset k v d \<equiv> AList.update k v d"

abbreviation ddel :: "'k \<Rightarrow> ('k, 'v) dict \<Rightarrow> ('k, 'v) dict" where
  "ddel k d \<equiv> AList.delete k d"

definition has_key :: "('k, 'v) dict \<Rightarrow> 'k \<Rightarrow> bool" where
  "has_key d k = (dget d k \<noteq> None)"

definition keys :: "('k, 'v) dict \<Rightarrow> 'k list" where
  "keys d = List.map fst d"

definition vals :: "('k, 'v) dict \<Rightarrow> 'v list" where
  "vals d = List.map snd d"

text \<open>\<open>d[k]\<close> and \<open>del d[k]\<close>, which raise on a missing key.\<close>

definition getitem :: "('k, 'v) dict \<Rightarrow> 'k \<Rightarrow> pyexn + 'v" where
  "getitem d k = (case dget d k of None \<Rightarrow> Inl KeyError | Some v \<Rightarrow> Inr v)"

definition delitem :: "'k \<Rightarrow> ('k, 'v) dict \<Rightarrow> pyexn + ('k, 'v) dict" where
  "delitem k d = (case dget d k of None \<Rightarrow> Inl KeyError | Some _ \<Rightarrow> Inr (ddel k d))"

definition lift_res :: "pyexn + 'a \<Rightarrow> ('s, 'a) py" where
  "lift_res r = (\<lambda>s. (r, s))"

lemma lift_res_apply [simp]: "lift_res r s = (r, s)"
  by (simp add: lift_res_def)

abbreviation wf_dict :: "('k, 'v) dict \<Rightarrow> bool" where
  "wf_dict d \<equiv> distinct (List.map fst d)"

lemma dget_dset [simp]: "dget (dset k v d) k' = (if k' = k then Some v else dget d k')"
  by (simp add: update_conv')

lemma dget_ddel [simp]: "dget (ddel k d) k' = (if k' = k then None else dget d k')"
  by (simp add: delete_conv')

lemma wf_dict_dset [simp]: "wf_dict d \<Longrightarrow> wf_dict (dset k v d)"
  by (rule distinct_update)

lemma wf_dict_ddel [simp]: "wf_dict d \<Longrightarrow> wf_dict (ddel k d)"
  by (rule distinct_delete)

lemma in_dict_iff: "wf_dict d \<Longrightarrow> (k, v) \<in> set d \<longleftrightarrow> dget d k = Some v"
  by simp

lemma has_key_iff: "has_key d k \<longleftrightarrow> k \<in> set (keys d)"
  by (simp add: has_key_def keys_def map_of_eq_None_iff)

lemma dset_new: "dget d k = None \<Longrightarrow> dset k v d = d @ [(k, v)]"
  by (induction d) (auto split: if_splits)

lemma ddel_dset_new: "dget d k = None \<Longrightarrow> ddel k (dset k v d) = d"
  by (induction d) (auto split: if_splits)

lemma vals_dset_new: "dget d k = None \<Longrightarrow> vals (dset k v d) = vals d @ [v]"
  by (simp add: dset_new vals_def)

lemma getitem_simps [simp]:
  "dget d k = Some v \<Longrightarrow> getitem d k = Inr v"
  "dget d k = None \<Longrightarrow> getitem d k = Inl KeyError"
  by (simp_all add: getitem_def)

lemma delitem_simps [simp]:
  "dget d k = Some v \<Longrightarrow> delitem k d = Inr (ddel k d)"
  "dget d k = None \<Longrightarrow> delitem k d = Inl KeyError"
  by (simp_all add: delitem_def)

text \<open>
  \<open>if k not in d: d[k] = [v] else: d[k].append(v)\<close>, the grouping idiom of the code, and
  \<open>if x not in xs: xs.append(x)\<close>.
\<close>

definition group_append :: "'k \<Rightarrow> 'v \<Rightarrow> ('k, 'v list) dict \<Rightarrow> ('k, 'v list) dict" where
  "group_append k v d = (case dget d k of None \<Rightarrow> dset k [v] d | Some vs \<Rightarrow> dset k (vs @ [v]) d)"

definition append_new :: "'a \<Rightarrow> 'a list \<Rightarrow> 'a list" where
  "append_new x xs = (if x \<in> set xs then xs else xs @ [x])"

lemma set_append_new [simp]: "set (append_new x xs) = insert x (set xs)"
  by (auto simp: append_new_def)

lemma distinct_append_new [simp]: "distinct xs \<Longrightarrow> distinct (append_new x xs)"
  by (auto simp: append_new_def)

lemma append_new_idem [simp]: "append_new x (append_new x xs) = append_new x xs"
  by (simp add: append_new_def)

lemma wf_dict_group_append [simp]: "wf_dict d \<Longrightarrow> wf_dict (group_append k v d)"
  by (simp add: group_append_def split: option.split)

text \<open>What the group of a key holds after a whole loop of \<open>group_append\<close>.\<close>

lemma dget_fold_group_append:
  "(case dget (fold (\<lambda>x. group_append (key x) (val x)) xs d) k of None \<Rightarrow> [] | Some vs \<Rightarrow> vs) =
   (case dget d k of None \<Rightarrow> [] | Some vs \<Rightarrow> vs) @
   List.map val (List.filter (\<lambda>x. key x = k) xs)"
  by (induction xs arbitrary: d) (auto simp: group_append_def split: option.splits)

lemma keys_fold_group_append:
  "dget (fold (\<lambda>x. group_append (key x) (val x)) xs d) k = None \<longleftrightarrow>
   dget d k = None \<and> k \<notin> key ` set xs"
  by (induction xs arbitrary: d) (auto simp: group_append_def split: option.splits)

subsection \<open>Registries\<close>

text \<open>
  The contract every manager of the engine promises for the objects it registers under
  their entity id: a lookup finds the object added last, a deletion removes that id and
  nothing else, and both are total.
\<close>

locale registry =
  fixes get :: "'s \<Rightarrow> 'k \<Rightarrow> 'v option"
    and add :: "'k \<Rightarrow> 'v \<Rightarrow> 's \<Rightarrow> 's"
    and del :: "'k \<Rightarrow> 's \<Rightarrow> 's"
  assumes get_add: "get (add k v s) k' = (if k' = k then Some v else get s k')"
    and get_del: "get (del k s) k' = (if k' = k then None else get s k')"
begin

lemma last_add_wins: "get (add k v (add k w s)) = get (add k v s)"
  by (rule ext) (simp add: get_add)

lemma del_after_add: "get (del k (add k v s)) = get (del k s)"
  by (rule ext) (simp add: get_add get_del)

lemma del_idem: "get (del k (del k s)) = get (del k s)"
  by (rule ext) (simp add: get_del)

lemma add_commute: "k \<noteq> k' \<Longrightarrow> get (add k v (add k' v' s)) = get (add k' v' (add k v s))"
  by (rule ext) (simp add: get_add)

text \<open>A whole history of additions and removals: only the last one of an id counts.\<close>

lemma get_fold_add:
  "get (fold (\<lambda>(k, v). add k v) kvs s) k =
   (case map_of (rev kvs) k of None \<Rightarrow> get s k | Some v \<Rightarrow> Some v)"
proof (induction kvs arbitrary: s)
  case Nil
  then show ?case by simp
next
  case (Cons kv kvs)
  then show ?case
    by (cases kv) (simp add: get_add map_add_def split: option.split)
qed

end

end
