(* ===== verification/Hub_State.thy ===== *)
theory Hub_State
  imports Prelude
begin

section \<open>The state of a hub process\<close>

text \<open>
  The Python half of a hub (\<open>server/engine\<close>) is one process whose state hangs off the
  \<open>app()\<close> singleton: the managers' tables, and the objects they refer to.  Objects are
  shared and mutated in place, and \<open>player_manager\<close> compares them by identity, so they
  live in heaps indexed by a reference.  A Python callable the application registers is an
  opaque \<open>fn\<close>; what calling it does to the process is a parameter, \<open>env_invoke\<close>, as is
  every abstract method the application overrides.  The native context (\<open>pyhub\<close>) is a
  parameter too: each method of \<open>context\<close> appends its call to \<open>outbox\<close> and returns the
  verdict \<open>env_send\<close> gives.
\<close>

type_synonym bytes = string
type_synonym fn = nat

subsection \<open>Calls into the native context\<close>

datatype ctx_call =
    Log string string
  | Register_service string
  | Deregister_service
  | Set_health_state bool
  | Flush_hub_host_cache
  | Query_service string string
  | Create_service_entity bool string string string string bytes
  | Forward_client_request_service string string string string string bytes
  | Forward_client_request_service_ext string string "(string \<times> string \<times> string \<times> bytes) list"
  | Hub_call_hub_rpc string string int string bytes
  | Hub_call_hub_rsp string string int bytes
  | Hub_call_hub_err string string int bytes
  | Hub_call_hub_ntf string string string bytes
  | Hub_call_hub_wait_migrate_entity string string
  | Hub_call_hub_migrate_entity string string string string string string "string list" "string list" bytes
  | Hub_call_hub_migrate_entity_complete string string
  | Hub_call_client_create_remote_entity string bool "string list" string string string bytes
  | Hub_call_client_delete_remote_entity string string
  | Hub_call_client_remove_remote_entity string string string
  | Hub_call_client_refresh_entity string bool string bool string string bytes
  | Hub_call_client_rpc string string int string bytes
  | Hub_call_client_rsp string string string int bytes
  | Hub_call_client_err string string string int bytes
  | Hub_call_client_ntf string "string option" string string bytes
  | Hub_call_client_global string string bytes
  | Hub_call_kick_off_client string string string
  | Hub_call_kick_off_client_complete string string
  | Hub_call_transfer_client string string string string bool string
  | Hub_call_gate_wait_migrate_entity string string
  | Hub_call_gate_migrate_entity_complete string string
  | Get_guid string string string string
  | Create_object string string string string bytes
  | Update_object string string string string bytes bytes bool
  | Find_and_modify string string string string bytes bytes bool bool
  | Remove_object string string string string bytes
  | Get_object_info string string string string bytes int int string bool
  | Get_object_count string string string string bytes

text \<open>The reply of the database, and the arguments an application callable is called with.\<close>

datatype db_arg = Db_int int | Db_bool bool | Db_doc bytes | Db_list "bytes list" | Db_none

datatype fargs =
    Hub_request_args string int bytes
  | Notify_args string bytes
  | Client_request_args string string int bytes
  | Rsp_args bytes
  | Db_args db_arg
  | No_args

subsection \<open>Timers\<close>

text \<open>
  \<open>threading.Timer(interval, fn)\<close> waits on an event with the interval as its timeout and
  calls \<open>fn\<close> when the wait times out.  With the interval \<open>None\<close> the wait has no timeout,
  and \<open>fn\<close> is never called.
\<close>

record timer =
  t_interval :: "int option"
  t_started :: bool
  t_cancelled :: bool

definition new_timer :: "int option \<Rightarrow> timer" where
  "new_timer i = \<lparr>t_interval = i, t_started = False, t_cancelled = False\<rparr>"

definition timer_start :: "timer \<Rightarrow> timer" where
  "timer_start t = t\<lparr>t_started := True\<rparr>"

definition timer_cancel :: "timer \<Rightarrow> timer" where
  "timer_cancel t = t\<lparr>t_cancelled := True\<rparr>"

definition timer_will_fire :: "timer \<Rightarrow> bool" where
  "timer_will_fire t = (t_started t \<and> \<not> t_cancelled t \<and> t_interval t \<noteq> None)"

subsection \<open>Objects\<close>

record callback =
  cb_callback :: "fn option"
  cb_error :: "fn option"
  cb_timeout :: "fn option"
  cb_timer :: "timer option"

record subentity =
  s_entity_type :: string
  s_entity_id :: string
  s_request_msg_cb_id :: int
  s_hub_notify_callback :: "(string, fn option) dict"
  s_hub_callback :: "(int, nat option) dict"
  s_source_hub_name :: string
  s_is_migrate :: bool
  s_cache_msg :: "(string \<Rightarrow> string \<Rightarrow> ctx_call) list"

record receiver =
  r_entity_type :: string
  r_entity_id :: string
  r_hub_notify_callback :: "(string, fn option) dict"
  r_source_hub_name :: string

record entity =
  e_entity_type :: string
  e_entity_id :: string
  e_hub_request_callback :: "(string, fn option) dict"
  e_hub_notify_callback :: "(string, fn option) dict"
  e_client_request_callback :: "(string, fn option) dict"
  e_client_notify_callback :: "(string, fn option) dict"
  e_service_name :: string
  e_conn_hub_server :: "string list"
  e_conn_client_gate :: "string list"
  e_is_dynamic :: bool
  e_migrate_timer :: "timer option"
  e_is_migrate :: bool

record player =
  p_entity_type :: string
  p_entity_id :: string
  p_hub_request_callback :: "(string, fn option) dict"
  p_hub_notify_callback :: "(string, fn option) dict"
  p_request_msg_cb_id :: int
  p_client_request_callback :: "(string, fn option) dict"
  p_client_notify_callback :: "(string, fn option) dict"
  p_client_callback :: "(int, nat option) dict"
  p_service_name :: string
  p_client_gate_name :: string
  p_client_conn_id :: string
  p_conn_hub_server :: "string list"
  p_conn_client_gate :: "string list"
  p_is_dynamic :: bool
  p_migrate_timer :: "timer option"
  p_is_migrate :: bool

record save =
  v_entity_id :: string
  v_is_dirty :: bool
  v_save_timer :: "timer option"
  v_dbproxy :: string

subsection \<open>Coroutines handed to the event loop\<close>

datatype fvalue = Fut_int int | Fut_none | Fut_doc bytes

datatype coro =
    Co_login string string string bytes
  | Co_reconnect string string string bytes
  | Co_player_start_migrate nat
  | Co_set_result nat fvalue
  | Co_set_exception nat pyexn

subsection \<open>The tables of pending database requests\<close>

text \<open>
  What a database request calls back: a callable of the application, the update callback of
  a \<open>save\<close>, the guid callback with the future it resolves, and the two callbacks of
  \<open>get_object_one\<close>.
\<close>

datatype db_fn =
    Db_app fn
  | Db_save nat
  | Db_guid nat
  | Db_one string string nat
  | Db_one_end

record dbproxy_msg_handle =
  h_get_guid_callback :: "(string, db_fn) dict"
  h_create_object_callback :: "(string, db_fn) dict"
  h_updata_object_callback :: "(string, db_fn) dict"
  h_find_and_modify_callback :: "(string, db_fn) dict"
  h_remove_object_callback :: "(string, db_fn) dict"
  h_get_object_count_callback :: "(string, db_fn) dict"
  h_get_object_info_callback :: "(string, db_fn) dict"
  h_get_object_info_end_callback :: "(string, db_fn) dict"

subsection \<open>The process\<close>

record hub = dbproxy_msg_handle +
  pobj :: "nat \<Rightarrow> player"
  eobj :: "nat \<Rightarrow> entity"
  sobj :: "nat \<Rightarrow> subentity"
  robj :: "nat \<Rightarrow> receiver"
  cobj :: "nat \<Rightarrow> callback"
  vobj :: "nat \<Rightarrow> save"
  players :: "(string, nat) dict"
  conn_id_players :: "(string, nat list) dict"
  entities :: "(string, nat) dict"
  subentities :: "(string, nat) dict"
  receivers :: "(string, nat) dict"
  services :: "(string, fn) dict"
  saves :: "(string, nat) dict"
  entity_create_method :: "(string, fn) dict"
  entity_migrate_method :: "(string, fn) dict"
  dbproxies :: "(string, string) dict"
  transfer_timeout :: "(string, timer \<times> string \<times> string \<times> string \<times> bytes) dict"
  flush_timer :: "timer option"
  reg_service_name :: "string option"
  is_idle :: bool
  is_run :: bool
  coros :: "coro list"
  outbox :: "ctx_call list"

record env =
  env_send :: "ctx_call \<Rightarrow> bool"
  env_invoke :: "fn \<Rightarrow> fargs \<Rightarrow> (hub, unit) py"
  env_player_client_info :: "nat \<Rightarrow> hub \<Rightarrow> pyexn + bytes"
  env_player_hub_info :: "nat \<Rightarrow> hub \<Rightarrow> pyexn + bytes"
  env_player_full_info :: "nat \<Rightarrow> hub \<Rightarrow> pyexn + bytes"
  env_entity_client_info :: "nat \<Rightarrow> hub \<Rightarrow> pyexn + bytes"
  env_entity_hub_info :: "nat \<Rightarrow> hub \<Rightarrow> pyexn + bytes"
  env_entity_full_info :: "nat \<Rightarrow> hub \<Rightarrow> pyexn + bytes"
  env_on_transfer_conn :: "nat \<Rightarrow> string \<Rightarrow> string \<Rightarrow> (hub, unit) py"
  env_player_offline :: "nat \<Rightarrow> (hub, unit) py"
  env_service_client_query :: "fn \<Rightarrow> string \<Rightarrow> string \<Rightarrow> bytes \<Rightarrow> (hub, unit) py"
  env_service_client_query_ext :: "fn \<Rightarrow> (string \<times> string \<times> bytes) list \<Rightarrow> (hub, unit) py"
  env_service_hub_query :: "fn \<Rightarrow> string \<Rightarrow> (hub, unit) py"
  env_service_on_migrate :: "fn \<Rightarrow> nat \<Rightarrow> (hub, unit) py"
  env_creator :: "fn \<Rightarrow> bool \<Rightarrow> string \<Rightarrow> string \<Rightarrow> bytes \<Rightarrow> (hub, unit) py"
  env_migrate_creator :: "fn \<Rightarrow> string \<Rightarrow> string \<Rightarrow> string \<Rightarrow> string list \<Rightarrow> string list \<Rightarrow> bytes \<Rightarrow> (hub, nat \<times> string) py"
  env_store :: "nat \<Rightarrow> hub \<Rightarrow> bytes"
  env_query :: "nat \<Rightarrow> bytes"
  env_uuid :: "hub \<Rightarrow> string"
  env_entry_dbproxy_service :: "hub \<Rightarrow> string"
  env_bson_decode :: "bytes \<Rightarrow> pyexn + bytes"
  env_bson_list :: "bytes \<Rightarrow> pyexn + bytes list"
  env_loads :: "bytes \<Rightarrow> pyexn + bytes"

subsection \<open>Access helpers\<close>

definition upd_player :: "nat \<Rightarrow> (player \<Rightarrow> player) \<Rightarrow> hub \<Rightarrow> hub" where
  "upd_player p f s = s\<lparr>pobj := (pobj s)(p := f (pobj s p))\<rparr>"

definition upd_entity :: "nat \<Rightarrow> (entity \<Rightarrow> entity) \<Rightarrow> hub \<Rightarrow> hub" where
  "upd_entity e f s = s\<lparr>eobj := (eobj s)(e := f (eobj s e))\<rparr>"

definition upd_sub :: "nat \<Rightarrow> (subentity \<Rightarrow> subentity) \<Rightarrow> hub \<Rightarrow> hub" where
  "upd_sub x f s = s\<lparr>sobj := (sobj s)(x := f (sobj s x))\<rparr>"

definition upd_recv :: "nat \<Rightarrow> (receiver \<Rightarrow> receiver) \<Rightarrow> hub \<Rightarrow> hub" where
  "upd_recv x f s = s\<lparr>robj := (robj s)(x := f (robj s x))\<rparr>"

definition upd_cb :: "nat \<Rightarrow> (callback \<Rightarrow> callback) \<Rightarrow> hub \<Rightarrow> hub" where
  "upd_cb c f s = s\<lparr>cobj := (cobj s)(c := f (cobj s c))\<rparr>"

definition upd_save :: "nat \<Rightarrow> (save \<Rightarrow> save) \<Rightarrow> hub \<Rightarrow> hub" where
  "upd_save v f s = s\<lparr>vobj := (vobj s)(v := f (vobj s v))\<rparr>"

lemmas upd_defs = upd_player_def upd_entity_def upd_sub_def upd_recv_def upd_cb_def upd_save_def

text \<open>A call into the native context, with and without the use of its result.\<close>

definition emit :: "ctx_call \<Rightarrow> hub \<Rightarrow> hub" where
  "emit c s = s\<lparr>outbox := outbox s @ [c]\<rparr>"

definition send :: "env \<Rightarrow> ctx_call \<Rightarrow> (hub, bool) py" where
  "send env c = (\<lambda>s. (Inr (env_send env c), emit c s))"

definition cast :: "ctx_call \<Rightarrow> (hub, unit) py" where
  "cast c = modify (emit c)"

definition read :: "('s \<Rightarrow> ('s, 'a) py) \<Rightarrow> ('s, 'a) py" where
  "read m = (\<lambda>s. m s s)"

lemma effect_apply [simp]:
  "send env c s = (Inr (env_send env c), emit c s)"
  "cast c s = (Inr (), emit c s)"
  by (simp_all add: send_def cast_def)

lemma read_apply [simp]: "read m s = m s s"
  by (simp add: read_def)

text \<open>A log line, by its level and the template the code formats.\<close>

definition app_log :: "string \<Rightarrow> string \<Rightarrow> (hub, unit) py" where
  "app_log level template = cast (Log level template)"

lemma app_log_apply [simp]: "app_log level template s = (Inr (), emit (Log level template) s)"
  by (simp add: app_log_def)

text \<open>
  A call of the value of a table: a callable runs, the value \<open>None\<close> cannot be called.
\<close>

definition call_fn :: "env \<Rightarrow> fn option \<Rightarrow> fargs \<Rightarrow> (hub, unit) py" where
  "call_fn env f args = (case f of None \<Rightarrow> raise TypeError | Some g \<Rightarrow> env_invoke env g args)"

lemma call_fn_simps [simp]:
  "call_fn env None args = raise TypeError"
  "call_fn env (Some g) args = env_invoke env g args"
  by (simp_all add: call_fn_def)

text \<open>
  The body all the method handlers of the engine share:
  \<open>h = table[method]; if h != None: h(...) else: self.error(...)\<close>.
\<close>

definition dispatch ::
  "env \<Rightarrow> (string, fn option) dict \<Rightarrow> string \<Rightarrow> fargs \<Rightarrow> string \<Rightarrow> (hub, unit) py" where
  "dispatch env table method args template =
     (case dget table method of
        None \<Rightarrow> raise KeyError
      | Some None \<Rightarrow> app_log ''error'' template
      | Some (Some f) \<Rightarrow> env_invoke env f args)"

lemma dispatch_simps [simp]:
  "dget t m = Some (Some f) \<Longrightarrow> dispatch env t m args tpl s = env_invoke env f args s"
  "dget t m = None \<Longrightarrow> dispatch env t m args tpl s = (Inl KeyError, s)"
  "dget t m = Some None \<Longrightarrow> dispatch env t m args tpl s = (Inr (), emit (Log ''error'' tpl) s)"
  by (simp_all add: dispatch_def)

lemma emit_simps [simp]:
  "outbox (emit c s) = outbox s @ [c]"
  "pobj (emit c s) = pobj s" "eobj (emit c s) = eobj s" "sobj (emit c s) = sobj s"
  "robj (emit c s) = robj s" "cobj (emit c s) = cobj s" "vobj (emit c s) = vobj s"
  "players (emit c s) = players s" "conn_id_players (emit c s) = conn_id_players s"
  "entities (emit c s) = entities s" "subentities (emit c s) = subentities s"
  "receivers (emit c s) = receivers s" "services (emit c s) = services s"
  "saves (emit c s) = saves s" "dbproxies (emit c s) = dbproxies s" "transfer_timeout (emit c s) = transfer_timeout s"
  "is_idle (emit c s) = is_idle s" "coros (emit c s) = coros s" "is_run (emit c s) = is_run s"
  by (simp_all add: emit_def)

text \<open>The effect of a loop of sends is to append the calls in order.\<close>

definition emits :: "ctx_call list \<Rightarrow> hub \<Rightarrow> hub" where
  "emits cs s = s\<lparr>outbox := outbox s @ cs\<rparr>"

lemma emits_simps [simp]:
  "outbox (emits cs s) = outbox s @ cs"
  "pobj (emits cs s) = pobj s" "eobj (emits cs s) = eobj s" "sobj (emits cs s) = sobj s"
  "players (emits cs s) = players s" "conn_id_players (emits cs s) = conn_id_players s"
  "entities (emits cs s) = entities s" "subentities (emits cs s) = subentities s"
  "emits [] s = s"
  by (simp_all add: emits_def)

lemma emit_emits: "emit c (emits cs s) = emits (cs @ [c]) s" "emits cs (emit c s) = emits (c # cs) s"
  by (simp_all add: emit_def emits_def)

lemma for_each_cast: "for_each (\<lambda>x. cast (f x)) xs s = (Inr (), emits (List.map f xs) s)"
  by (induction xs arbitrary: s) (simp_all add: emit_emits)


subsection \<open>A process with nothing registered, and an environment that does nothing\<close>

text \<open>Used to show that hypotheses can hold together.\<close>

definition blank_player :: player where
  "blank_player =
     \<lparr>p_entity_type = [], p_entity_id = [], p_hub_request_callback = [], p_hub_notify_callback = [],
      p_request_msg_cb_id = 100, p_client_request_callback = [], p_client_notify_callback = [],
      p_client_callback = [], p_service_name = [], p_client_gate_name = [], p_client_conn_id = [],
      p_conn_hub_server = [], p_conn_client_gate = [], p_is_dynamic = False,
      p_migrate_timer = None, p_is_migrate = False\<rparr>"

definition blank_entity :: entity where
  "blank_entity =
     \<lparr>e_entity_type = [], e_entity_id = [], e_hub_request_callback = [], e_hub_notify_callback = [],
      e_client_request_callback = [], e_client_notify_callback = [], e_service_name = [],
      e_conn_hub_server = [], e_conn_client_gate = [], e_is_dynamic = False,
      e_migrate_timer = None, e_is_migrate = False\<rparr>"

definition blank_sub :: subentity where
  "blank_sub =
     \<lparr>s_entity_type = [], s_entity_id = [], s_request_msg_cb_id = 100, s_hub_notify_callback = [],
      s_hub_callback = [], s_source_hub_name = [], s_is_migrate = False, s_cache_msg = []\<rparr>"

definition blank_hub :: hub where
  "blank_hub =
     \<lparr>h_get_guid_callback = [], h_create_object_callback = [], h_updata_object_callback = [],
      h_find_and_modify_callback = [], h_remove_object_callback = [],
      h_get_object_count_callback = [], h_get_object_info_callback = [],
      h_get_object_info_end_callback = [],
      pobj = (\<lambda>_. blank_player), eobj = (\<lambda>_. blank_entity), sobj = (\<lambda>_. blank_sub),
      robj = (\<lambda>_. \<lparr>r_entity_type = [], r_entity_id = [], r_hub_notify_callback = [],
                   r_source_hub_name = []\<rparr>),
      cobj = (\<lambda>_. \<lparr>cb_callback = None, cb_error = None, cb_timeout = None, cb_timer = None\<rparr>),
      vobj = (\<lambda>_. \<lparr>v_entity_id = [], v_is_dirty = False, v_save_timer = None, v_dbproxy = []\<rparr>),
      players = [], conn_id_players = [], entities = [], subentities = [], receivers = [],
      services = [], saves = [], entity_create_method = [], entity_migrate_method = [],
      dbproxies = [], transfer_timeout = [], flush_timer = None, reg_service_name = None,
      is_idle = True, is_run = True, coros = [], outbox = []\<rparr>"

definition quiet_env :: env where
  "quiet_env =
     \<lparr>env_send = (\<lambda>_. True), env_invoke = (\<lambda>_ _. ret ()),
      env_player_client_info = (\<lambda>_ _. Inr []), env_player_hub_info = (\<lambda>_ _. Inr []),
      env_player_full_info = (\<lambda>_ _. Inr []), env_entity_client_info = (\<lambda>_ _. Inr []),
      env_entity_hub_info = (\<lambda>_ _. Inr []), env_entity_full_info = (\<lambda>_ _. Inr []),
      env_on_transfer_conn = (\<lambda>_ _ _. ret ()), env_player_offline = (\<lambda>_. ret ()),
      env_service_client_query = (\<lambda>_ _ _ _. ret ()), env_service_client_query_ext = (\<lambda>_ _. ret ()),
      env_service_hub_query = (\<lambda>_ _. ret ()), env_service_on_migrate = (\<lambda>_ _. ret ()),
      env_creator = (\<lambda>_ _ _ _ _. ret ()), env_migrate_creator = (\<lambda>_ _ _ _ _ _ _. ret (0, [])),
      env_store = (\<lambda>_ _. []), env_query = (\<lambda>_. []), env_uuid = (\<lambda>s. replicate (length (outbox s)) (CHR ''u'')),
      env_entry_dbproxy_service = (\<lambda>_. ''db0''), env_bson_decode = Inr,
      env_bson_list = (\<lambda>b. Inr [b]), env_loads = Inr\<rparr>"

lemma quiet_env_simps [simp]:
  "env_send quiet_env c = True" "env_invoke quiet_env f a = ret ()"
  "env_player_client_info quiet_env p s = Inr []" "env_entity_client_info quiet_env e s = Inr []"
  "env_on_transfer_conn quiet_env p g d = ret ()" "env_player_offline quiet_env p = ret ()"
  "env_loads quiet_env b = Inr b" "env_uuid quiet_env s = replicate (length (outbox s)) (CHR ''u'')"
  by (simp_all add: quiet_env_def)

lemma blank_hub_simps [simp]:
  "players blank_hub = []" "conn_id_players blank_hub = []" "entities blank_hub = []"
  "subentities blank_hub = []" "outbox blank_hub = []" "pobj blank_hub = (\<lambda>_. blank_player)"
  "eobj blank_hub = (\<lambda>_. blank_entity)" "sobj blank_hub = (\<lambda>_. blank_sub)"
  "receivers blank_hub = []" "transfer_timeout blank_hub = []" "coros blank_hub = []"
  "is_idle blank_hub = True" "h_updata_object_callback blank_hub = []" "saves blank_hub = []"
  by (simp_all add: blank_hub_def)

end
