(* ===== verification/Context.thy ===== *)
theory Context
  imports Hub_State
begin

section \<open>The context: calls into the native hub\<close>

text \<open>
  \<open>context.py\<close> wraps \<open>pyhub.HubContext\<close>.  Its methods pass their arguments on in their order,
  which the constructors of \<open>ctx_call\<close> and \<open>send\<close> model; the ones below do more than that.
\<close>

text \<open>
  The two interval getters call the native getter and drop its value: both return \<open>None\<close>,
  and \<open>Timer\<close> gets \<open>None\<close> as its interval.
\<close>

definition save_time_interval :: "nat \<Rightarrow> int option" where
  "save_time_interval native_interval = None"

definition migrate_time_interval :: "nat \<Rightarrow> int option" where
  "migrate_time_interval native_interval = None"

definition context_register_service :: "string \<Rightarrow> (hub, unit) py" where
  "context_register_service service = block
     [modify (\<lambda>s. s\<lparr>reg_service_name := Some service\<rparr>),
      cast (Register_service service)]"

text \<open>
  Every ten seconds: the next run is scheduled first, then the host cache is flushed and the
  service, if one was registered, is registered again.
\<close>

definition flush_hub_host_cache :: "(hub, unit) py" where
  "flush_hub_host_cache = try_except
     (block
       [modify (\<lambda>s. s\<lparr>flush_timer := Some (timer_start (new_timer (Some 10)))\<rparr>),
        cast Flush_hub_host_cache,
        read (\<lambda>s. case reg_service_name s of
                    None \<Rightarrow> ret ()
                  | Some service \<Rightarrow> cast (Register_service service))])
     (\<lambda>e. app_log ''error'' ''flush_hub_host_cache python error:{e}'')"

text \<open>\<open>context.__init__\<close>: \<open>native\<close> is what \<open>HubContext(cfg_file)\<close> does.\<close>

definition context_init :: "pyexn + unit \<Rightarrow> (hub, unit) py" where
  "context_init native = block
     [lift_res native,
      modify (\<lambda>s. s\<lparr>reg_service_name := None\<rparr>),
      flush_hub_host_cache,
      modify (\<lambda>s. s\<lparr>transfer_timeout := []\<rparr>)]"

text \<open>
  A client moves to a new connection: a timer of 1000 seconds is the fallback that
  reconnects it when the gate never reports the end of the transfer.
\<close>

definition hub_call_replace_client ::
  "env \<Rightarrow> string \<Rightarrow> string \<Rightarrow> string \<Rightarrow> string \<Rightarrow> string \<Rightarrow> bytes \<Rightarrow> bool \<Rightarrow> string \<Rightarrow> (hub, bool) py" where
  "hub_call_replace_client env old_gate_name old_conn_id new_gate_name new_conn_id sdk_uuid argvs
       is_replace prompt_info =
     bindp (modify (\<lambda>s. s\<lparr>transfer_timeout := dset new_conn_id
              (timer_start (new_timer (Some 1000)), new_gate_name, new_conn_id, sdk_uuid, argvs)
              (transfer_timeout s)\<rparr>))
       (\<lambda>_. send env (Hub_call_transfer_client old_gate_name old_conn_id new_gate_name new_conn_id
                     is_replace prompt_info))"

text \<open>The fallback itself: \<open>pop\<close> the entry, and reconnect only when it was still there.\<close>

definition transfer_timeout_fire :: "string \<Rightarrow> string \<Rightarrow> string \<Rightarrow> bytes \<Rightarrow> hub \<Rightarrow> hub" where
  "transfer_timeout_fire new_gate_name new_conn_id sdk_uuid argvs s =
     (case dget (transfer_timeout s) new_conn_id of
        None \<Rightarrow> s
      | Some _ \<Rightarrow> s\<lparr>transfer_timeout := ddel new_conn_id (transfer_timeout s),
                    coros := coros s @ [Co_reconnect new_gate_name new_conn_id sdk_uuid argvs]\<rparr>)"

text \<open>\<open>conn_msg_handle.do_transfer_msg_end\<close>: the transfer ended, the fallback is dropped.\<close>

definition do_transfer_msg_end :: "string \<Rightarrow> bool \<Rightarrow> hub \<Rightarrow> hub" where
  "do_transfer_msg_end conn_id is_kick_off s =
     (case dget (transfer_timeout s) conn_id of
        None \<Rightarrow> s
      | Some (t, _) \<Rightarrow> s\<lparr>transfer_timeout := ddel conn_id (transfer_timeout s)\<rparr>)"

text \<open>
  The transfer either ends or times out: whichever comes first takes the entry, and the
  other finds nothing to do.
\<close>

lemma transfer_end_then_timeout:
  "transfer_timeout_fire g c u a (do_transfer_msg_end c k s) = do_transfer_msg_end c k s"
  by (cases "dget (transfer_timeout s) c")
     (auto simp: transfer_timeout_fire_def do_transfer_msg_end_def split: prod.splits)

lemma transfer_timeout_then_end:
  "do_transfer_msg_end c k (transfer_timeout_fire g c u a s) = transfer_timeout_fire g c u a s"
  by (cases "dget (transfer_timeout s) c")
     (auto simp: transfer_timeout_fire_def do_transfer_msg_end_def split: prod.splits)

lemma transfer_timeout_once:
  "transfer_timeout_fire g c u a (transfer_timeout_fire g' c u' a' s) = transfer_timeout_fire g' c u' a' s"
  by (cases "dget (transfer_timeout s) c") (auto simp: transfer_timeout_fire_def)


subsection \<open>Properties\<close>

text \<open>the end of a transfer and its timeout exclude each other: whichever comes first, the
  other has no effect, and the client is reconnected by the timeout at most once.\<close>

theorem transfer_end_excludes_timeout:
  "transfer_timeout_fire g c u a (do_transfer_msg_end c k s) = do_transfer_msg_end c k s \<and>
   do_transfer_msg_end c k (transfer_timeout_fire g c u a s) = transfer_timeout_fire g c u a s \<and>
   transfer_timeout_fire g c u a (transfer_timeout_fire g c u a s) = transfer_timeout_fire g c u a s"
  by (simp add: transfer_end_then_timeout transfer_timeout_then_end transfer_timeout_once)

end
