(* ===== verification/Dbproxy.thy ===== *)
theory Dbproxy
  imports Hub_State
begin

section \<open>The database proxy\<close>

text \<open>
  \<open>dbproxy.py\<close> and \<open>dbproxy_msg_handle.py\<close>.  A request registers its callback under a fresh id
  in the table of its kind, and the acknowledgement looks the id up, calls it and deletes the
  entry; the rows of a query may come in several messages, and only its end message deletes
  the two entries.  The fresh \<open>uuid4\<close> is an argument, and \<open>call\<close> is what calling a \<open>db_fn\<close>
  does (defined in \<open>Save\<close>, once the callbacks of the engine itself are known).  BSON encoding
  is the identity here: a document is its bytes.
\<close>

type_synonym db_call = "db_fn \<Rightarrow> db_arg \<Rightarrow> (hub, unit) py"

subsection \<open>Registration\<close>

definition reg_get_guid_callback :: "string \<Rightarrow> db_fn \<Rightarrow> hub \<Rightarrow> hub" where
  "reg_get_guid_callback i f s = s\<lparr>h_get_guid_callback := dset i f (h_get_guid_callback s)\<rparr>"

definition reg_create_object_callback :: "string \<Rightarrow> db_fn \<Rightarrow> hub \<Rightarrow> hub" where
  "reg_create_object_callback i f s =
     s\<lparr>h_create_object_callback := dset i f (h_create_object_callback s)\<rparr>"

definition reg_updata_object_callback :: "string \<Rightarrow> db_fn \<Rightarrow> hub \<Rightarrow> hub" where
  "reg_updata_object_callback i f s =
     s\<lparr>h_updata_object_callback := dset i f (h_updata_object_callback s)\<rparr>"

definition reg_find_and_modify_callback :: "string \<Rightarrow> db_fn \<Rightarrow> hub \<Rightarrow> hub" where
  "reg_find_and_modify_callback i f s =
     s\<lparr>h_find_and_modify_callback := dset i f (h_find_and_modify_callback s)\<rparr>"

definition reg_remove_object_callback :: "string \<Rightarrow> db_fn \<Rightarrow> hub \<Rightarrow> hub" where
  "reg_remove_object_callback i f s =
     s\<lparr>h_remove_object_callback := dset i f (h_remove_object_callback s)\<rparr>"

definition reg_get_object_count_callback :: "string \<Rightarrow> db_fn \<Rightarrow> hub \<Rightarrow> hub" where
  "reg_get_object_count_callback i f s =
     s\<lparr>h_get_object_count_callback := dset i f (h_get_object_count_callback s)\<rparr>"

definition reg_get_object_info_callback :: "string \<Rightarrow> db_fn \<Rightarrow> hub \<Rightarrow> hub" where
  "reg_get_object_info_callback i f s =
     s\<lparr>h_get_object_info_callback := dset i f (h_get_object_info_callback s)\<rparr>"

definition reg_get_object_info_end_callback :: "string \<Rightarrow> db_fn \<Rightarrow> hub \<Rightarrow> hub" where
  "reg_get_object_info_end_callback i f s =
     s\<lparr>h_get_object_info_end_callback := dset i f (h_get_object_info_end_callback s)\<rparr>"

subsection \<open>Acknowledgements\<close>

text \<open>\<open>cb = table[id]; cb(arg); del table[id]\<close>, over one of the tables.\<close>

definition ack ::
  "(hub \<Rightarrow> (string, db_fn) dict) \<Rightarrow> ((string, db_fn) dict \<Rightarrow> hub \<Rightarrow> hub) \<Rightarrow> db_call \<Rightarrow>
   string \<Rightarrow> db_arg \<Rightarrow> (hub, unit) py" where
  "ack table set_table call i arg = read (\<lambda>s.
     case dget (table s) i of
       None \<Rightarrow> raise KeyError
     | Some cb \<Rightarrow> block
         [call cb arg,
          read (\<lambda>s. case delitem i (table s) of
                      Inl e \<Rightarrow> raise e
                    | Inr d \<Rightarrow> modify (set_table d))])"

definition on_ack_get_guid :: "db_call \<Rightarrow> string \<Rightarrow> int \<Rightarrow> (hub, unit) py" where
  "on_ack_get_guid call callback_id guid =
     ack h_get_guid_callback (\<lambda>d s. s\<lparr>h_get_guid_callback := d\<rparr>) call callback_id (Db_int guid)"

definition on_ack_create_object :: "db_call \<Rightarrow> string \<Rightarrow> bool \<Rightarrow> (hub, unit) py" where
  "on_ack_create_object call callback_id result =
     ack h_create_object_callback (\<lambda>d s. s\<lparr>h_create_object_callback := d\<rparr>) call callback_id
       (Db_bool result)"

definition on_ack_updata_object :: "db_call \<Rightarrow> string \<Rightarrow> bool \<Rightarrow> (hub, unit) py" where
  "on_ack_updata_object call callback_id result =
     ack h_updata_object_callback (\<lambda>d s. s\<lparr>h_updata_object_callback := d\<rparr>) call callback_id
       (Db_bool result)"

text \<open>The id is looked up before the document is decoded; a decoding error keeps the entry.\<close>

definition on_ack_find_and_modify :: "env \<Rightarrow> db_call \<Rightarrow> string \<Rightarrow> bytes \<Rightarrow> (hub, unit) py" where
  "on_ack_find_and_modify env call callback_id obj =
     ack h_find_and_modify_callback (\<lambda>d s. s\<lparr>h_find_and_modify_callback := d\<rparr>)
       (\<lambda>cb _. case env_bson_decode env obj of Inl e \<Rightarrow> raise e | Inr doc \<Rightarrow> call cb (Db_doc doc))
       callback_id Db_none"

definition on_ack_remove_object :: "db_call \<Rightarrow> string \<Rightarrow> bool \<Rightarrow> (hub, unit) py" where
  "on_ack_remove_object call callback_id result =
     ack h_remove_object_callback (\<lambda>d s. s\<lparr>h_remove_object_callback := d\<rparr>) call callback_id
       (Db_bool result)"

definition on_ack_get_object_count :: "db_call \<Rightarrow> string \<Rightarrow> int \<Rightarrow> (hub, unit) py" where
  "on_ack_get_object_count call callback_id count =
     ack h_get_object_count_callback (\<lambda>d s. s\<lparr>h_get_object_count_callback := d\<rparr>) call callback_id
       (Db_int count)"

text \<open>A batch of rows keeps the entry; the end message deletes both.\<close>

definition on_ack_get_object_info :: "env \<Rightarrow> db_call \<Rightarrow> string \<Rightarrow> bytes \<Rightarrow> (hub, unit) py" where
  "on_ack_get_object_info env call callback_id objs = read (\<lambda>s.
     case dget (h_get_object_info_callback s) callback_id of
       None \<Rightarrow> raise KeyError
     | Some cb \<Rightarrow>
         (case env_bson_list env objs of
            Inl e \<Rightarrow> raise e
          | Inr rows \<Rightarrow> call cb (Db_list rows)))"

definition on_ack_get_object_info_end :: "db_call \<Rightarrow> string \<Rightarrow> (hub, unit) py" where
  "on_ack_get_object_info_end call callback_id = read (\<lambda>s.
     case dget (h_get_object_info_end_callback s) callback_id of
       None \<Rightarrow> raise KeyError
     | Some cb \<Rightarrow> block
         [call cb Db_none,
          read (\<lambda>s. case delitem callback_id (h_get_object_info_callback s) of
                      Inl e \<Rightarrow> raise e
                    | Inr d \<Rightarrow> modify (\<lambda>s. s\<lparr>h_get_object_info_callback := d\<rparr>)),
          read (\<lambda>s. case delitem callback_id (h_get_object_info_end_callback s) of
                      Inl e \<Rightarrow> raise e
                    | Inr d \<Rightarrow> modify (\<lambda>s. s\<lparr>h_get_object_info_end_callback := d\<rparr>))])"

subsection \<open>Requests\<close>

definition db_get_guid :: "env \<Rightarrow> string \<Rightarrow> string \<Rightarrow> string \<Rightarrow> string \<Rightarrow> db_fn \<Rightarrow> (hub, bool) py" where
  "db_get_guid env name uuid db collection callback =
     bindp (modify (reg_get_guid_callback uuid callback))
       (\<lambda>_. send env (Get_guid name db collection uuid))"

definition db_create_object ::
  "env \<Rightarrow> string \<Rightarrow> string \<Rightarrow> string \<Rightarrow> string \<Rightarrow> bytes \<Rightarrow> db_fn \<Rightarrow> (hub, bool) py" where
  "db_create_object env name uuid db collection obj callback =
     bindp (modify (reg_create_object_callback uuid callback))
       (\<lambda>_. send env (Create_object name db collection uuid obj))"

text \<open>\<open>set_doc\<close> stands for \<open>encode({"$set": update})\<close>.\<close>

definition db_updata_object ::
  "env \<Rightarrow> string \<Rightarrow> string \<Rightarrow> string \<Rightarrow> string \<Rightarrow> bytes \<Rightarrow> bytes \<Rightarrow> bool \<Rightarrow> db_fn \<Rightarrow> (hub, bool) py" where
  "db_updata_object env name uuid db collection query set_doc upsert callback =
     bindp (modify (reg_updata_object_callback uuid callback))
       (\<lambda>_. send env (Update_object name db collection uuid query set_doc upsert))"

definition db_find_and_modify ::
  "env \<Rightarrow> string \<Rightarrow> string \<Rightarrow> string \<Rightarrow> string \<Rightarrow> bytes \<Rightarrow> bytes \<Rightarrow> bool \<Rightarrow> bool \<Rightarrow> db_fn \<Rightarrow> (hub, bool) py" where
  "db_find_and_modify env name uuid db collection query update new upsert callback =
     bindp (modify (reg_find_and_modify_callback uuid callback))
       (\<lambda>_. send env (Find_and_modify name db collection uuid query update new upsert))"

definition db_remove_object ::
  "env \<Rightarrow> string \<Rightarrow> string \<Rightarrow> string \<Rightarrow> string \<Rightarrow> bytes \<Rightarrow> db_fn \<Rightarrow> (hub, bool) py" where
  "db_remove_object env name uuid db collection query callback =
     bindp (modify (reg_remove_object_callback uuid callback))
       (\<lambda>_. send env (Remove_object name db collection uuid query))"

definition db_get_object_count ::
  "env \<Rightarrow> string \<Rightarrow> string \<Rightarrow> string \<Rightarrow> string \<Rightarrow> bytes \<Rightarrow> db_fn \<Rightarrow> (hub, bool) py" where
  "db_get_object_count env name uuid db collection query callback =
     bindp (modify (reg_get_object_count_callback uuid callback))
       (\<lambda>_. send env (Get_object_count name db collection uuid query))"

definition db_get_object_info ::
  "env \<Rightarrow> string \<Rightarrow> string \<Rightarrow> string \<Rightarrow> string \<Rightarrow> bytes \<Rightarrow> int \<Rightarrow> int \<Rightarrow> string \<Rightarrow> bool \<Rightarrow> db_fn \<Rightarrow> db_fn \<Rightarrow>
   (hub, bool) py" where
  "db_get_object_info env name uuid db collection query skip limit sort_by ascending callback end_callback =
     bindp (block [modify (reg_get_object_info_callback uuid callback),
                   modify (reg_get_object_info_end_callback uuid end_callback)])
       (\<lambda>_. send env (Get_object_info name db collection uuid query skip limit sort_by ascending))"

definition db_get_object_info_simple ::
  "env \<Rightarrow> string \<Rightarrow> string \<Rightarrow> string \<Rightarrow> string \<Rightarrow> bytes \<Rightarrow> db_fn \<Rightarrow> db_fn \<Rightarrow> (hub, bool) py" where
  "db_get_object_info_simple env name uuid db collection query callback end_callback =
     db_get_object_info env name uuid db collection query 0 100 '''' False callback end_callback"

text \<open>
  \<open>get_object_one\<close> asks for up to 100 rows and resolves its future from a batch of rows: one
  row is the result, none is \<open>None\<close>, more are an error.
\<close>

definition get_object_one_callback_data :: "bytes list \<Rightarrow> string \<Rightarrow> string \<Rightarrow> nat \<Rightarrow> (hub, unit) py" where
  "get_object_one_callback_data data_list db collection future = block
     [app_log ''trace'' ''__get_object_one_callback_data__ data_list:{data_list}'',
      modify (\<lambda>s. s\<lparr>coros := coros s @
        [case data_list of
           [doc] \<Rightarrow> Co_set_result future (Fut_doc doc)
         | [] \<Rightarrow> Co_set_result future Fut_none
         | _ \<Rightarrow> Co_set_exception future (Exception ''db error more then one object'')]\<rparr>)]"

definition get_object_one ::
  "env \<Rightarrow> string \<Rightarrow> string \<Rightarrow> nat \<Rightarrow> string \<Rightarrow> string \<Rightarrow> bytes \<Rightarrow> (hub, unit) py" where
  "get_object_one env name uuid future db collection query =
     bindp (db_get_object_info env name uuid db collection query 0 100 '''' False
              (Db_one db collection future) Db_one_end)
       (\<lambda>_. ret ())"

subsection \<open>The manager of proxies\<close>

definition get_dbproxy :: "env \<Rightarrow> (hub, string) py" where
  "get_dbproxy env = (\<lambda>s.
     let name = env_entry_dbproxy_service env s;
         s' = (if has_key (dbproxies s) name then s
               else s\<lparr>dbproxies := dset name name (dbproxies s)\<rparr>)
     in (getitem (dbproxies s') name, s'))"

subsection \<open>The contract of a table of requests\<close>

locale request_table =
  fixes table :: "hub \<Rightarrow> (string, db_fn) dict"
    and set_table :: "(string, db_fn) dict \<Rightarrow> hub \<Rightarrow> hub"
    and reg :: "string \<Rightarrow> db_fn \<Rightarrow> hub \<Rightarrow> hub"
  assumes table_set: "table (set_table d s) = d"
    and table_reg: "table (reg i f s) = dset i f (table s)"
begin

text \<open>The registered callback runs on the reply's value, once, and its entry is gone after it.\<close>

lemma ack_reg:
  assumes "call f a (reg i f s) = (Inr (), t)" and "has_key (table t) i"
  shows "ack table set_table call i a (reg i f s) = (Inr (), set_table (ddel i (table t)) t)"
  using assms by (auto simp: ack_def table_reg has_key_def)

lemma ack_unknown:
  "dget (table s) i = None \<Longrightarrow> ack table set_table call i a s = (Inl KeyError, s)"
  by (simp add: ack_def)

lemma ack_twice:
  assumes "dget (table s) i = Some f"
    and "call f a s = (Inr (), t)" and "has_key (table t) i"
  shows "result_of (ack table set_table call i b (state_of (ack table set_table call i a s))) =
         Inl KeyError"
  using assms by (auto simp: ack_def has_key_def table_set)

text \<open>A callback that raises leaves its entry in the table.\<close>

lemma ack_raise_keeps:
  "dget (table s) i = Some f \<Longrightarrow> call f a s = (Inl e, t) \<Longrightarrow>
   ack table set_table call i a s = (Inl e, t)"
  by (simp add: ack_def)

text \<open>Replies to other requests do not touch the entry of a request.\<close>

lemma ack_other:
  assumes "i \<noteq> j" and "dget (table s) i = Some f" and "call f a s = (Inr (), t)"
    and "dget (table t) j = dget (table s) j"
  shows "dget (table (state_of (ack table set_table call i a s))) j = dget (table s) j"
  using assms by (cases "dget (table t) i") (auto simp: ack_def table_set)

end

interpretation tbl_guid: request_table h_get_guid_callback
  "\<lambda>d s. s\<lparr>h_get_guid_callback := d\<rparr>" reg_get_guid_callback
  by unfold_locales (simp_all add: reg_get_guid_callback_def)

interpretation tbl_create: request_table h_create_object_callback
  "\<lambda>d s. s\<lparr>h_create_object_callback := d\<rparr>" reg_create_object_callback
  by unfold_locales (simp_all add: reg_create_object_callback_def)

interpretation tbl_updata: request_table h_updata_object_callback
  "\<lambda>d s. s\<lparr>h_updata_object_callback := d\<rparr>" reg_updata_object_callback
  by unfold_locales (simp_all add: reg_updata_object_callback_def)

interpretation tbl_find: request_table h_find_and_modify_callback
  "\<lambda>d s. s\<lparr>h_find_and_modify_callback := d\<rparr>" reg_find_and_modify_callback
  by unfold_locales (simp_all add: reg_find_and_modify_callback_def)

interpretation tbl_remove: request_table h_remove_object_callback
  "\<lambda>d s. s\<lparr>h_remove_object_callback := d\<rparr>" reg_remove_object_callback
  by unfold_locales (simp_all add: reg_remove_object_callback_def)

interpretation tbl_count: request_table h_get_object_count_callback
  "\<lambda>d s. s\<lparr>h_get_object_count_callback := d\<rparr>" reg_get_object_count_callback
  by unfold_locales (simp_all add: reg_get_object_count_callback_def)


subsection \<open>Properties\<close>

text \<open>A guid reply runs the callback registered for its request on the guid and closes the
  request; a second reply to it is a \<open>KeyError\<close>.\<close>

theorem guid_reply_once:
  assumes "call f (Db_int g) (reg_get_guid_callback i f s) = (Inr (), t)"
    and "has_key (h_get_guid_callback t) i"
  defines "u \<equiv> state_of (on_ack_get_guid call i g (reg_get_guid_callback i f s))"
  shows "u = t\<lparr>h_get_guid_callback := ddel i (h_get_guid_callback t)\<rparr> \<and>
    on_ack_get_guid call i g' u = (Inl KeyError, u)"
proof -
  have u: "u = t\<lparr>h_get_guid_callback := ddel i (h_get_guid_callback t)\<rparr>"
    unfolding u_def on_ack_get_guid_def 
    using tbl_guid.ack_reg [where call = call and f = f and a = "Db_int g", OF assms(1,2)] by simp
  moreover have "on_ack_get_guid call i g' u = (Inl KeyError, u)"
    unfolding on_ack_get_guid_def by (rule tbl_guid.ack_unknown) (simp add: u)
  ultimately show ?thesis by blast
qed

theorem guid_reply_once_witness:
  "result_of (on_ack_get_guid (\<lambda>_ _. ret ()) ''u'' 6 (state_of
     (on_ack_get_guid (\<lambda>_ _. ret ()) ''u'' 5 (reg_get_guid_callback ''u'' (Db_app 1) blank_hub)))) = Inl KeyError"
proof -
  let ?s = "reg_get_guid_callback ''u'' (Db_app 1) blank_hub"
  have "has_key (h_get_guid_callback ?s) ''u''"
    by (simp add: reg_get_guid_callback_def has_key_def)
  then have "on_ack_get_guid (\<lambda>_ _. ret ()) ''u'' 6 (state_of (on_ack_get_guid (\<lambda>_ _. ret ()) ''u'' 5 ?s)) =
      (Inl KeyError, state_of (on_ack_get_guid (\<lambda>_ _. ret ()) ''u'' 5 ?s))"
    by (intro guid_reply_once [where t = ?s, THEN conjunct2]) (simp_all only: py_apply)
  then show ?thesis by (simp only: result_state_simps)
qed

text \<open>The batches of a query keep its callbacks registered, and its end message runs the
  end callback and removes both entries.\<close>

theorem query_end_closes:
  assumes "dget (h_get_object_info_callback s) i = Some f"
    and "dget (h_get_object_info_end_callback s) i = Some g"
    and "env_bson_list env objs = Inr rows"
    and "call f (Db_list rows) s = (Inr (), s)" and "call g Db_none s = (Inr (), s)"
  shows "on_ack_get_object_info env call i objs s = (Inr (), s) \<and>
    result_of (on_ack_get_object_info_end call i s) = Inr () \<and>
    dget (h_get_object_info_callback (state_of (on_ack_get_object_info_end call i s))) i = None \<and>
    dget (h_get_object_info_end_callback (state_of (on_ack_get_object_info_end call i s))) i = None"
  using assms by (simp add: on_ack_get_object_info_def on_ack_get_object_info_end_def)

theorem query_end_closes_witness:
  "let s = reg_get_object_info_end_callback ''q'' Db_one_end
             (reg_get_object_info_callback ''q'' (Db_app 1) blank_hub)
   in dget (h_get_object_info_callback (state_of
        (on_ack_get_object_info_end (\<lambda>_ _. ret ()) ''q'' s))) ''q'' = None"
proof -
  let ?s = "reg_get_object_info_end_callback ''q'' Db_one_end
             (reg_get_object_info_callback ''q'' (Db_app 1) blank_hub)"
  have "dget (h_get_object_info_callback ?s) ''q'' = Some (Db_app 1)"
    "dget (h_get_object_info_end_callback ?s) ''q'' = Some Db_one_end"
    "env_bson_list quiet_env ''x'' = Inr [''x'']"
    by (simp_all add: reg_get_object_info_callback_def reg_get_object_info_end_callback_def quiet_env_def)
  from query_end_closes [OF this, of "\<lambda>_ _. ret ()"] show ?thesis by simp
qed

end
