(* ===== verification/Save.thy ===== *)
theory Save
  imports Context Dbproxy
begin

section \<open>Persistence: saved entities and fresh ids\<close>

text \<open>
  \<open>save.py\<close>, \<open>base_dbproxy_handle.py\<close> and \<open>get_guid.py\<close>.  A \<open>save\<close> is dirty or clean; marking it
  dirty arms a timer that calls \<open>save_entity\<close>, which sends the whole document to the database
  proxy, and the acknowledgement marks it clean.  \<open>base_dbproxy_handle\<close> of this tree has no
  method \<open>__random_new_dbproxy__\<close>, which both files call when a proxy refuses a request: the
  call raises \<open>AttributeError\<close>, and what would follow it is not reached.
\<close>

subsection \<open>The handle\<close>

definition random_new_dbproxy :: "(hub, unit) py" where
  "random_new_dbproxy = raise AttributeError"

subsection \<open>One saved entity\<close>

definition add_save_entity :: "nat \<Rightarrow> hub \<Rightarrow> hub" where
  "add_save_entity v s = s\<lparr>saves := dset (v_entity_id (vobj s v)) v (saves s)\<rparr>"

definition save_init :: "env \<Rightarrow> nat \<Rightarrow> string \<Rightarrow> (hub, unit) py" where
  "save_init env v entity_id =
     bindp (get_dbproxy env) (\<lambda>proxy. block
       [modify (upd_save v (\<lambda>_. \<lparr>v_entity_id = entity_id, v_is_dirty = False,
                                  v_save_timer = None, v_dbproxy = proxy\<rparr>)),
        modify (add_save_entity v)])"

definition set_dirty :: "nat \<Rightarrow> nat \<Rightarrow> hub \<Rightarrow> hub" where
  "set_dirty native_interval v s =
     upd_save v (\<lambda>x. if v_save_timer x = None
         then x\<lparr>v_save_timer := Some (timer_start (new_timer (save_time_interval native_interval)))\<rparr>
         else x)
       (upd_save v (\<lambda>x. x\<lparr>v_is_dirty := True\<rparr>) s)"

definition save_updata_object_callback :: "nat \<Rightarrow> bool \<Rightarrow> (hub, unit) py" where
  "save_updata_object_callback v result =
     (if result then modify (upd_save v (\<lambda>x. x\<lparr>v_is_dirty := False\<rparr>))
      else random_new_dbproxy)"

definition save_entity :: "env \<Rightarrow> string \<Rightarrow> string \<Rightarrow> nat \<Rightarrow> (hub, unit) py" where
  "save_entity env db collection v = read (\<lambda>s.
     if \<not> v_is_dirty (vobj s v) then ret ()
     else block
       [modify (upd_save v (\<lambda>x. x\<lparr>v_save_timer := None\<rparr>)),
        app_log ''trace'' ''save_entity entity_id:{self.entity_id} data:{data}'',
        read (\<lambda>s. bindp
          (db_updata_object env (v_dbproxy (vobj s v)) (env_uuid env s) db collection
             (env_query env v) (env_store env v s) True (Db_save v))
          (\<lambda>result. if \<not> result then save_updata_object_callback v result else ret ()))])"

text \<open>
  \<open>load_or_create_entity\<close>, with the awaited row as an argument; every error is logged and
  swallowed.
\<close>

definition load_or_create_entity ::
  "env \<Rightarrow> (hub, bytes option) py \<Rightarrow> (hub, bytes) py \<Rightarrow> (bytes \<Rightarrow> (hub, unit) py) \<Rightarrow> (hub, unit) py" where
  "load_or_create_entity env awaited creator callback = try_except
     (bindp (get_dbproxy env) (\<lambda>_.
      bindp awaited (\<lambda>row.
      bindp (app_log ''trace'' ''load_or_create_entity db:{db} collection:{collection} query:{query} data:{data}'') (\<lambda>_.
      bindp (case row of None \<Rightarrow> creator | Some data \<Rightarrow> ret data) callback))))
     (\<lambda>e. app_log ''error'' ''save load_or_create_entity exception err:{err}'')"

subsection \<open>The manager\<close>

definition del_save_entity :: "string \<Rightarrow> (hub, unit) py" where
  "del_save_entity entity_id = (\<lambda>s.
     case delitem entity_id (saves s) of
       Inl e \<Rightarrow> (Inl e, s)
     | Inr d \<Rightarrow> (Inr (), s\<lparr>saves := d\<rparr>))"

definition for_each_entity :: "(nat \<Rightarrow> (hub, unit) py) \<Rightarrow> (hub, unit) py" where
  "for_each_entity callback = read (\<lambda>s. for_each callback (vals (saves s)))"

subsection \<open>Calling back\<close>

definition gen_callback :: "int \<Rightarrow> nat \<Rightarrow> (hub, unit) py" where
  "gen_callback guid future = modify (\<lambda>s. s\<lparr>coros := coros s @ [Co_set_result future (Fut_int guid)]\<rparr>)"

text \<open>What calling a \<open>db_fn\<close> does.\<close>

fun call_db :: "env \<Rightarrow> db_call" where
  "call_db env (Db_app f) a = env_invoke env f (Db_args a)"
| "call_db env (Db_save v) (Db_bool result) = save_updata_object_callback v result"
| "call_db env (Db_guid future) (Db_int guid) = gen_callback guid future"
| "call_db env (Db_one db collection future) (Db_list rows) =
     get_object_one_callback_data rows db collection future"
| "call_db env Db_one_end Db_none = app_log ''trace'' ''get_object_one end!''"
| "call_db env _ _ = raise TypeError"

text \<open>
  \<open>get_guid.gen\<close>: the loop asks its proxy until a send succeeds.  A refused send logs and then
  calls \<open>__random_new_dbproxy__\<close>, so the loop body never runs twice and \<open>gen\<close> returns or
  raises.
\<close>

definition get_guid_gen :: "env \<Rightarrow> string \<Rightarrow> string \<Rightarrow> string \<Rightarrow> nat \<Rightarrow> (hub, unit) py" where
  "get_guid_gen env name db collection future = block
     [app_log ''trace'' ''get_guid gen begin!'',
      read (\<lambda>s. bindp (db_get_guid env name (env_uuid env s) db collection (Db_guid future))
        (\<lambda>ok. if ok then app_log ''trace'' ''get_guid gen end!''
              else block [app_log ''error'' ''gen guid exception dbproxy:{} __db__:{} __collection__:{}'',
                          random_new_dbproxy]))]"

subsection \<open>Facts\<close>

lemma upd_save_simps [simp]:
  "vobj (upd_save v f s) = (vobj s)(v := f (vobj s v))"
  "outbox (upd_save v f s) = outbox s" "saves (upd_save v f s) = saves s"
  "h_updata_object_callback (upd_save v f s) = h_updata_object_callback s"
  by (simp_all add: upd_save_def)

lemma reg_updata_simps [simp]:
  "vobj (reg_updata_object_callback i f s) = vobj s"
  "outbox (reg_updata_object_callback i f s) = outbox s"
  "saves (reg_updata_object_callback i f s) = saves s"
  "h_updata_object_callback (reg_updata_object_callback i f s) =
     dset i f (h_updata_object_callback s)"
  by (simp_all add: reg_updata_object_callback_def)

lemma h_updata_emit [simp]: "h_updata_object_callback (emit c s) = h_updata_object_callback s"
  by (simp add: emit_def)

lemma set_dirty_simps [simp]:
  "v_is_dirty (vobj (set_dirty n v s) v) = True"
  "outbox (set_dirty n v s) = outbox s"
  "h_updata_object_callback (set_dirty n v s) = h_updata_object_callback s"
  by (simp_all add: set_dirty_def)

lemma save_entity_clean: "\<not> v_is_dirty (vobj s v) \<Longrightarrow> save_entity env db coll v s = (Inr (), s)"
  by (simp add: save_entity_def)

text \<open>The state in which a dirty entity is sent, and the request that is sent.\<close>

definition save_pre :: "nat \<Rightarrow> hub \<Rightarrow> hub" where
  "save_pre v s = emit (Log ''trace'' ''save_entity entity_id:{self.entity_id} data:{data}'')
                    (upd_save v (\<lambda>x. x\<lparr>v_save_timer := None\<rparr>) s)"

definition save_request :: "env \<Rightarrow> string \<Rightarrow> string \<Rightarrow> nat \<Rightarrow> hub \<Rightarrow> ctx_call" where
  "save_request env db coll v s =
     Update_object (v_dbproxy (vobj s v)) db coll (env_uuid env s) (env_query env v) (env_store env v s) True"

lemma save_entity_dirty:
  assumes "v_is_dirty (vobj s v)"
  defines "t \<equiv> save_pre v s"
  shows "save_entity env db coll v s =
    (if env_send env (save_request env db coll v t)
     then (Inr (), emit (save_request env db coll v t)
                     (reg_updata_object_callback (env_uuid env t) (Db_save v) t))
     else (Inl AttributeError, emit (save_request env db coll v t)
                     (reg_updata_object_callback (env_uuid env t) (Db_save v) t)))"
  using assms(1) unfolding t_def save_pre_def
  by (simp add: save_entity_def db_updata_object_def save_request_def
        save_updata_object_callback_def random_new_dbproxy_def)


subsection \<open>Properties\<close>

text \<open>saving sends the whole document of a dirty entity to its proxy, once, and the
  acknowledgement of that request makes it clean and is not pending any more.\<close>

theorem save_then_ack_cleans:
  fixes db coll :: string
  assumes dirty: "v_is_dirty (vobj s v)"
    and sent: "\<forall>c. env_send env c"
  defines "t \<equiv> state_of (save_entity env db coll v s)"
    and "i \<equiv> env_uuid env (save_pre v s)"
  shows "result_of (save_entity env db coll v s) = Inr () \<and>
    List.filter (\<lambda>c. \<exists>n d k j q u b. c = Update_object n d k j q u b) (outbox t) =
      List.filter (\<lambda>c. \<exists>n d k j q u b. c = Update_object n d k j q u b) (outbox s) @
      [save_request env db coll v (save_pre v s)] \<and>
    result_of (on_ack_updata_object (call_db env) i True t) = Inr () \<and>
    \<not> v_is_dirty (vobj (state_of (on_ack_updata_object (call_db env) i True t)) v) \<and>
    dget (h_updata_object_callback (state_of (on_ack_updata_object (call_db env) i True t))) i = None"
proof -
  have t: "save_entity env db coll v s = (Inr (), t)"
    "t = emit (save_request env db coll v (save_pre v s))
           (reg_updata_object_callback i (Db_save v) (save_pre v s))"
    unfolding t_def i_def using save_entity_dirty [OF dirty] sent by simp_all
  let ?u = "upd_save v (\<lambda>x. x\<lparr>v_is_dirty := False\<rparr>) t"
  let ?f = "List.filter (\<lambda>c. \<exists>n d k j q u b. c = Update_object n d k j q u b)"
  have get: "dget (h_updata_object_callback t) i = Some (Db_save v)" by (simp add: t(2))
  have ack: "on_ack_updata_object (call_db env) i True t =
      (Inr (), ?u\<lparr>h_updata_object_callback := ddel i (h_updata_object_callback ?u)\<rparr>)"
    using get by (simp add: on_ack_updata_object_def ack_def save_updata_object_callback_def)
  have "outbox t = outbox (save_pre v s) @ [save_request env db coll v (save_pre v s)]"
    by (subst t(2)) simp
  moreover have "?f (outbox (save_pre v s)) = ?f (outbox s)"
    by (simp add: save_pre_def)
  moreover have "?f [save_request env db coll v x] = [save_request env db coll v x]" for x
    by (auto simp: save_request_def)
  ultimately have "?f (outbox t) = ?f (outbox s) @ [save_request env db coll v (save_pre v s)]"
    by simp
  then show ?thesis unfolding ack t(1) by simp
qed

theorem save_then_ack_cleans_witness:
  "\<not> v_is_dirty (vobj (state_of (on_ack_updata_object (call_db quiet_env) ''u'' True
      (state_of (save_entity quiet_env ''db'' ''co'' 0 (set_dirty 60 0 blank_hub))))) 0)"
proof -
  have i: "env_uuid quiet_env (save_pre 0 (set_dirty 60 0 blank_hub)) = ''u''"
    by (simp add: quiet_env_def save_pre_def)
  have "v_is_dirty (vobj (set_dirty 60 0 blank_hub) 0)" by simp
  from save_then_ack_cleans [OF this, of quiet_env "''db''" "''co''"] i show ?thesis by simp
qed

text \<open>C38: an update made while a save is in flight is forgotten by its acknowledgement: the
  entity is clean, the next save sends nothing, and marking it dirty again arms no timer.\<close>

theorem update_during_save_lost:
  fixes db coll :: string and n :: nat
  assumes dirty: "v_is_dirty (vobj s v)" and sent: "\<forall>c. env_send env c"
  defines "i \<equiv> env_uuid env (save_pre v s)"
    and "t \<equiv> set_dirty n v (state_of (save_entity env db coll v s))"
  defines "w \<equiv> state_of (on_ack_updata_object (call_db env) i True t)"
  shows "v_is_dirty (vobj t v) \<and> \<not> v_is_dirty (vobj w v) \<and>
    save_entity env db coll v w = (Inr (), w) \<and>
    v_save_timer (vobj (set_dirty n v w) v) = v_save_timer (vobj t v)"
proof -
  have s1: "state_of (save_entity env db coll v s) =
      emit (save_request env db coll v (save_pre v s))
        (reg_updata_object_callback i (Db_save v) (save_pre v s))"
    unfolding i_def using save_entity_dirty [OF dirty] sent by simp
  have get: "dget (h_updata_object_callback t) i = Some (Db_save v)"
    unfolding t_def s1 by simp
  let ?u = "upd_save v (\<lambda>x. x\<lparr>v_is_dirty := False\<rparr>) t"
  have w: "w = ?u\<lparr>h_updata_object_callback := ddel i (h_updata_object_callback ?u)\<rparr>"
    unfolding w_def using get
    by (simp add: on_ack_updata_object_def ack_def save_updata_object_callback_def)
  have "v_is_dirty (vobj t v)" and "v_save_timer (vobj t v) \<noteq> None"
    unfolding t_def by (simp_all add: set_dirty_def)
  then show ?thesis
    by (simp add: w save_entity_clean) (simp add: set_dirty_def)
qed

theorem update_during_save_lost_witness:
  "\<not> v_is_dirty (vobj (state_of (on_ack_updata_object (call_db quiet_env) ''u'' True
      (set_dirty 60 0 (state_of (save_entity quiet_env ''db'' ''co'' 0 (set_dirty 60 0 blank_hub)))))) 0)"
proof -
  have i: "env_uuid quiet_env (save_pre 0 (set_dirty 60 0 blank_hub)) = ''u''"
    by (simp add: quiet_env_def save_pre_def)
  have "v_is_dirty (vobj (set_dirty 60 0 blank_hub) 0)" by simp
  from update_during_save_lost [OF this, of quiet_env 60 "''db''" "''co''"] i show ?thesis by simp
qed

text \<open>The save timer that marking an entity dirty arms is started with no interval, and
  never fires.\<close>

theorem save_timer_never_fires:
  assumes "v_save_timer (vobj s v) = None"
  shows "\<exists>tm. v_save_timer (vobj (set_dirty n v s) v) = Some tm \<and> t_started tm \<and> \<not> timer_will_fire tm"
  using assms
  by (simp add: set_dirty_def timer_will_fire_def timer_start_def new_timer_def save_time_interval_def)

theorem save_timer_never_fires_witness:
  "\<exists>tm. v_save_timer (vobj (set_dirty 60 0 blank_hub) 0) = Some tm \<and> t_started tm \<and> \<not> timer_will_fire tm"
  by (rule save_timer_never_fires) (simp add: blank_hub_def)

text \<open>A refused request makes a save raise \<open>AttributeError\<close> and leaves the entity dirty.\<close>

theorem save_refused_raises:
  assumes "v_is_dirty (vobj s v)" and "\<forall>c. \<not> env_send env c"
  shows "result_of (save_entity env db coll v s) = Inl AttributeError \<and>
    v_is_dirty (vobj (state_of (save_entity env db coll v s)) v)"
  using save_entity_dirty [OF assms(1)] assms by (simp add: save_pre_def)

theorem save_refused_raises_witness:
  "result_of (save_entity (quiet_env\<lparr>env_send := \<lambda>_. False\<rparr>) ''db'' ''co'' 0 (set_dirty 60 0 blank_hub))
     = Inl AttributeError"
proof -
  have "v_is_dirty (vobj (set_dirty 60 0 blank_hub) 0)" by simp
  from save_refused_raises [OF this, of "quiet_env\<lparr>env_send := \<lambda>_. False\<rparr>"] show ?thesis by simp
qed

end
