(* ===== verification/Callback.thy ===== *)
theory Callback
  imports Hub_State
begin

section \<open>Response callbacks\<close>

text \<open>
  \<open>callback.py\<close>: the object a caller hands out for one request.  It holds the response
  handler, the error handler and the timeout handler, and a \<open>release_handle\<close> that takes the
  request out of its owner's table; the timeout runs only when the release found it there,
  so a request is answered or timed out, not both.  The release is a parameter here: the
  generated code passes \<open>lambda: entity.del_callback(id)\<close>.
\<close>

definition new_callback :: callback where
  "new_callback = \<lparr>cb_callback = None, cb_error = None, cb_timeout = None, cb_timer = None\<rparr>"

definition callback_callback :: "nat \<Rightarrow> fn option \<Rightarrow> fn option \<Rightarrow> hub \<Rightarrow> hub" where
  "callback_callback c rsp_callback err_callback s =
     upd_cb c (\<lambda>x. x\<lparr>cb_callback := rsp_callback, cb_error := err_callback\<rparr>) s"

definition call_timeout :: "env \<Rightarrow> (hub, bool) py \<Rightarrow> nat \<Rightarrow> (hub, unit) py" where
  "call_timeout env release_handle c =
     bindp release_handle
       (\<lambda>released. if released then read (\<lambda>s. call_fn env (cb_timeout (cobj s c)) No_args)
                   else ret ())"

text \<open>\<open>Timer(_timeout / 1000, ...)\<close>: the interval is in milliseconds here.\<close>

definition callback_timeout :: "nat \<Rightarrow> int \<Rightarrow> fn option \<Rightarrow> hub \<Rightarrow> hub" where
  "callback_timeout c timeout time_callback s =
     upd_cb c (\<lambda>x. x\<lparr>cb_timeout := time_callback,
                     cb_timer := Some (timer_start (new_timer (Some timeout)))\<rparr>) s"

lemma callback_callback_obj [simp]:
  "cobj (callback_callback c r e s) c = (cobj s c)\<lparr>cb_callback := r, cb_error := e\<rparr>"
  "sobj (callback_callback c r e s) = sobj s" "pobj (callback_callback c r e s) = pobj s"
  by (simp_all add: callback_callback_def upd_defs)

lemma callback_timeout_obj [simp]:
  "cobj (callback_timeout c t f s) c =
     (cobj s c)\<lparr>cb_timeout := f, cb_timer := Some (timer_start (new_timer (Some t)))\<rparr>"
  by (simp add: callback_timeout_def upd_defs)

subsection \<open>The contract of a table of pending requests\<close>

text \<open>
  \<open>player.client_callback\<close> and \<open>subentity.hub_callback\<close> are such tables.  The owner
  registers a callback under a message id, and answering a request runs the handler and then
  deletes the entry, in that order.  \<open>pending\<close> reads the table, \<open>reg\<close> registers,
  \<open>answer\<close> handles a response and \<open>timeout_release\<close> is the release of the timeout.
\<close>

locale pending_requests =
  fixes pending :: "hub \<Rightarrow> (int, nat option) dict"
    and reg :: "int \<Rightarrow> nat option \<Rightarrow> hub \<Rightarrow> hub"
    and answer :: "env \<Rightarrow> int \<Rightarrow> bytes \<Rightarrow> (hub, unit) py"
    and release :: "int \<Rightarrow> (hub, bool) py"
    and handler :: "callback \<Rightarrow> fn option"
  assumes pending_reg: "pending (reg i co s) = dset i co (pending s)"
    and answer_unknown: "dget (pending s) i = None \<Longrightarrow> answer env i b s = (Inl KeyError, s)"
    and answer_known:
      "\<lbrakk> dget (pending s) i = Some (Some c); handler (cobj s c) = Some f;
         env_invoke env f (Rsp_args b) s = (Inr (), s'); has_key (pending s') i \<rbrakk>
       \<Longrightarrow> result_of (answer env i b s) = Inr () \<and>
           pending (state_of (answer env i b s)) = ddel i (pending s')"
    and answer_raises:
      "\<lbrakk> dget (pending s) i = Some (Some c); handler (cobj s c) = Some f;
         env_invoke env f (Rsp_args b) s = (Inl e, s') \<rbrakk>
       \<Longrightarrow> answer env i b s = (Inl e, s')"
    and release_unknown: "dget (pending s) i = None \<Longrightarrow> release i s = (Inr False, s)"
    and release_known: "has_key (pending s) i \<Longrightarrow>
       result_of (release i s) = Inr True \<and> pending (state_of (release i s)) = ddel i (pending s)"
begin

text \<open>A request is answered at most once: the second answer finds no entry.\<close>

lemma answered_once:
  assumes "dget (pending s) i = Some (Some c)" and "handler (cobj s c) = Some f"
    and "env_invoke env f (Rsp_args b) s = (Inr (), s')" and "has_key (pending s') i"
  shows "result_of (answer env i b' (state_of (answer env i b s))) = Inl KeyError"
proof -
  let ?t = "state_of (answer env i b s)"
  have "pending ?t = ddel i (pending s')"
    using answer_known [OF assms] by simp
  then have "dget (pending ?t) i = None" by simp
  from answer_unknown [OF this] show ?thesis by simp
qed

text \<open>After the answer, the timeout does nothing.\<close>

lemma answered_then_no_timeout:
  assumes "dget (pending s) i = Some (Some c)" and "handler (cobj s c) = Some f"
    and "env_invoke env f (Rsp_args b) s = (Inr (), s')" and "has_key (pending s') i"
  shows "call_timeout env (release i) c' (state_of (answer env i b s)) =
         (Inr (), state_of (answer env i b s))"
proof -
  let ?t = "state_of (answer env i b s)"
  have "dget (pending ?t) i = None"
    using answer_known [OF assms] by simp
  from release_unknown [OF this] show ?thesis by (simp add: call_timeout_def)
qed

text \<open>After the timeout, a late answer finds no entry.\<close>

lemma released_then_unanswerable:
  assumes "has_key (pending s) i"
  shows "answer env i b (state_of (release i s)) = (Inl KeyError, state_of (release i s))"
  using release_known [OF assms] by (intro answer_unknown) simp

text \<open>The last registration of an id is the one that answers.\<close>

lemma pending_after_reg:
  "dget (pending (reg i co s)) j = (if j = i then Some co else dget (pending s) j)"
  by (simp add: pending_reg)

end

end
