(* ===== verification/Entity.thy ===== *)
theory Entity
  imports Save Callback
begin

section \<open>Server entities\<close>

text \<open>
  \<open>entity.py\<close>: an object of the game that lives on this hub and is mirrored to clients (through
  their gates) and to other hubs.  The entity keeps the gates and hubs that hold a mirror, and
  four tables of handlers.  A coroutine that is called without being awaited does nothing;
  where the code does that, the model does nothing, and the body is a definition of its own.
\<close>

subsection \<open>The object\<close>

definition new_entity :: "nat \<Rightarrow> string \<Rightarrow> string \<Rightarrow> string \<Rightarrow> bool \<Rightarrow> entity" where
  "new_entity native_interval service_name entity_type entity_id is_dynamic =
     \<lparr>e_entity_type = entity_type, e_entity_id = entity_id,
      e_hub_request_callback = [], e_hub_notify_callback = [],
      e_client_request_callback = [], e_client_notify_callback = [],
      e_service_name = service_name, e_conn_hub_server = [], e_conn_client_gate = [],
      e_is_dynamic = is_dynamic,
      e_migrate_timer = (if is_dynamic
         then Some (timer_start (new_timer (migrate_time_interval native_interval))) else None),
      e_is_migrate = False\<rparr>"

definition add_entity :: "nat \<Rightarrow> hub \<Rightarrow> hub" where
  "add_entity e s = s\<lparr>entities := dset (e_entity_id (eobj s e)) e (entities s)\<rparr>"

definition entity_init :: "nat \<Rightarrow> nat \<Rightarrow> string \<Rightarrow> string \<Rightarrow> string \<Rightarrow> bool \<Rightarrow> hub \<Rightarrow> hub" where
  "entity_init native_interval e service_name entity_type entity_id is_dynamic s =
     add_entity e
       (upd_entity e (\<lambda>_. new_entity native_interval service_name entity_type entity_id is_dynamic) s)"

definition get_entity :: "hub \<Rightarrow> string \<Rightarrow> nat option" where
  "get_entity s entity_id = dget (entities s) entity_id"

definition del_entity :: "string \<Rightarrow> hub \<Rightarrow> hub" where
  "del_entity entity_id s =
     (if has_key (entities s) entity_id then s\<lparr>entities := ddel entity_id (entities s)\<rparr> else s)"

subsection \<open>Migration\<close>

definition entity_on_migrate_to_other_hub :: "nat \<Rightarrow> (hub, unit) py" where
  "entity_on_migrate_to_other_hub e = read (\<lambda>s. block
     [modify (del_entity (e_entity_id (eobj s e))),
      del_save_entity (e_entity_id (eobj s e))])"

text \<open>
  The timer's function; \<open>lucky\<close> is \<open>random.random() < 0.2\<close>.  The coroutine
  \<open>start_migrate_entity()\<close> is created and dropped, so the lucky branch changes nothing; on an
  idle hub nothing is scheduled again.
\<close>

definition entity_try_migrate_entity :: "nat \<Rightarrow> bool \<Rightarrow> nat \<Rightarrow> hub \<Rightarrow> hub" where
  "entity_try_migrate_entity native_interval lucky e s =
     (if \<not> e_is_dynamic (eobj s e) then s
      else if \<not> is_idle s then
        (if lucky then s
         else upd_entity e (\<lambda>x. x\<lparr>e_migrate_timer :=
                Some (timer_start (new_timer (migrate_time_interval native_interval)))\<rparr>) s)
      else s)"

definition entity_cancel_timer :: "nat \<Rightarrow> (hub, unit) py" where
  "entity_cancel_timer e = read (\<lambda>s.
     case e_migrate_timer (eobj s e) of
       None \<Rightarrow> raise AttributeError
     | Some t \<Rightarrow> modify (upd_entity e (\<lambda>x. x\<lparr>e_migrate_timer := Some (timer_cancel t)\<rparr>)))"

text \<open>
  The body of \<open>start_migrate_entity\<close> for the hub it awaited.  It passes the dict
  \<open>full_info()\<close>, not its bytes, and the native method takes bytes: \<open>TypeError\<close>.
\<close>

definition entity_start_migrate_entity :: "env \<Rightarrow> nat \<Rightarrow> string \<Rightarrow> (hub, unit) py" where
  "entity_start_migrate_entity env e migrate_hub =
     (if migrate_hub \<noteq> '''' then read (\<lambda>s. let x = eobj s e in block
        [bindp (lift_res (env_entity_full_info env e s)) (\<lambda>_. raise TypeError),
         for_each (\<lambda>hub. cast (Hub_call_hub_wait_migrate_entity hub (e_entity_id x))) (e_conn_hub_server x),
         for_each (\<lambda>gate. cast (Hub_call_gate_wait_migrate_entity gate (e_entity_id x))) (e_conn_client_gate x),
         modify (upd_entity e (\<lambda>x. x\<lparr>e_is_migrate := True\<rparr>)),
         entity_cancel_timer e])
      else ret ())"

definition entity_migrate_entity_complete :: "nat \<Rightarrow> (hub, unit) py" where
  "entity_migrate_entity_complete e = read (\<lambda>s. let x = eobj s e in block
     [for_each (\<lambda>hub. cast (Hub_call_hub_migrate_entity_complete hub (e_entity_id x))) (e_conn_hub_server x),
      for_each (\<lambda>gate. cast (Hub_call_gate_migrate_entity_complete gate (e_entity_id x))) (e_conn_client_gate x),
      entity_on_migrate_to_other_hub e])"

subsection \<open>Mirrors\<close>

definition entity_create_remote_entity :: "env \<Rightarrow> nat \<Rightarrow> string \<Rightarrow> string list \<Rightarrow> (hub, unit) py" where
  "entity_create_remote_entity env e gate_name conn_id = block
     [modify (upd_entity e (\<lambda>x. x\<lparr>e_conn_client_gate := append_new gate_name (e_conn_client_gate x)\<rparr>)),
      read (\<lambda>s. let x = eobj s e in
        bindp (lift_res (env_entity_client_info env e s))
          (\<lambda>info. cast (Hub_call_client_create_remote_entity gate_name (e_is_migrate x) conn_id ''''
                         (e_entity_id x) (e_entity_type x) info)))]"

text \<open>
  The context's method takes \<open>is_migrate\<close> first and the hub's name second; this call passes
  them the other way round, and the native method refuses a string for a bool.
\<close>

definition entity_create_remote_hub_entity :: "env \<Rightarrow> nat \<Rightarrow> string \<Rightarrow> (hub, unit) py" where
  "entity_create_remote_hub_entity env e hub_name = block
     [modify (upd_entity e (\<lambda>x. x\<lparr>e_conn_hub_server := append_new hub_name (e_conn_hub_server x)\<rparr>)),
      read (\<lambda>s. bindp (lift_res (env_entity_hub_info env e s)) (\<lambda>_. raise TypeError))]"

subsection \<open>Handlers\<close>

definition entity_handle_hub_request :: "env \<Rightarrow> nat \<Rightarrow> string \<Rightarrow> string \<Rightarrow> int \<Rightarrow> bytes \<Rightarrow> (hub, unit) py" where
  "entity_handle_hub_request env e source_hub method msg_cb_id argvs = read (\<lambda>s.
     dispatch env (e_hub_request_callback (eobj s e)) method (Hub_request_args source_hub msg_cb_id argvs)
       ''unhandle request method:{}, source:{}'')"

definition entity_handle_hub_notify :: "env \<Rightarrow> nat \<Rightarrow> string \<Rightarrow> string \<Rightarrow> bytes \<Rightarrow> (hub, unit) py" where
  "entity_handle_hub_notify env e source_hub method argvs = read (\<lambda>s.
     dispatch env (e_hub_notify_callback (eobj s e)) method (Notify_args source_hub argvs)
       ''unhandle notify method:{}, source:{}'')"

definition entity_handle_client_request ::
  "env \<Rightarrow> nat \<Rightarrow> string \<Rightarrow> string \<Rightarrow> string \<Rightarrow> int \<Rightarrow> bytes \<Rightarrow> (hub, unit) py" where
  "entity_handle_client_request env e gate_name conn_id method msg_cb_id argvs = read (\<lambda>s.
     dispatch env (e_client_request_callback (eobj s e)) method
       (Client_request_args gate_name conn_id msg_cb_id argvs)
       ''unhandle request method:{}, source:({}, {})'')"

definition entity_handle_client_notify :: "env \<Rightarrow> nat \<Rightarrow> string \<Rightarrow> string \<Rightarrow> bytes \<Rightarrow> (hub, unit) py" where
  "entity_handle_client_notify env e gate_name method argvs = read (\<lambda>s.
     dispatch env (e_client_notify_callback (eobj s e)) method (Notify_args gate_name argvs)
       ''unhandle notify method:{}, source:{}'')"

definition entity_reg_hub_request_callback :: "nat \<Rightarrow> string \<Rightarrow> fn option \<Rightarrow> hub \<Rightarrow> hub" where
  "entity_reg_hub_request_callback e method f s =
     upd_entity e (\<lambda>x. x\<lparr>e_hub_request_callback := dset method f (e_hub_request_callback x)\<rparr>) s"

definition entity_reg_hub_notify_callback :: "nat \<Rightarrow> string \<Rightarrow> fn option \<Rightarrow> hub \<Rightarrow> hub" where
  "entity_reg_hub_notify_callback e method f s =
     upd_entity e (\<lambda>x. x\<lparr>e_hub_notify_callback := dset method f (e_hub_notify_callback x)\<rparr>) s"

definition entity_reg_client_request_callback :: "nat \<Rightarrow> string \<Rightarrow> fn option \<Rightarrow> hub \<Rightarrow> hub" where
  "entity_reg_client_request_callback e method f s =
     upd_entity e (\<lambda>x. x\<lparr>e_client_request_callback := dset method f (e_client_request_callback x)\<rparr>) s"

definition entity_reg_client_notify_callback :: "nat \<Rightarrow> string \<Rightarrow> fn option \<Rightarrow> hub \<Rightarrow> hub" where
  "entity_reg_client_notify_callback e method f s =
     upd_entity e (\<lambda>x. x\<lparr>e_client_notify_callback := dset method f (e_client_notify_callback x)\<rparr>) s"

subsection \<open>Calls out\<close>

definition entity_call_hub_response :: "nat \<Rightarrow> string \<Rightarrow> int \<Rightarrow> bytes \<Rightarrow> (hub, unit) py" where
  "entity_call_hub_response e hub_name msg_cb_id argvs = read (\<lambda>s.
     cast (Hub_call_hub_rsp hub_name (e_entity_id (eobj s e)) msg_cb_id argvs))"

definition entity_call_hub_response_error :: "nat \<Rightarrow> string \<Rightarrow> int \<Rightarrow> bytes \<Rightarrow> (hub, unit) py" where
  "entity_call_hub_response_error e hub_name msg_cb_id argvs = read (\<lambda>s.
     cast (Hub_call_hub_err hub_name (e_entity_id (eobj s e)) msg_cb_id argvs))"

definition entity_call_hub_notify :: "nat \<Rightarrow> string \<Rightarrow> bytes \<Rightarrow> (hub, unit) py" where
  "entity_call_hub_notify e method argvs = read (\<lambda>s.
     for_each (\<lambda>hub_name. cast (Hub_call_hub_ntf hub_name (e_entity_id (eobj s e)) method argvs))
       (e_conn_hub_server (eobj s e)))"

definition entity_call_client_response ::
  "nat \<Rightarrow> string \<Rightarrow> string \<Rightarrow> int \<Rightarrow> bytes \<Rightarrow> (hub, unit) py" where
  "entity_call_client_response e gate_name conn_id msg_cb_id argvs = read (\<lambda>s.
     cast (Hub_call_client_rsp gate_name conn_id (e_entity_id (eobj s e)) msg_cb_id argvs))"

definition entity_call_client_response_error ::
  "nat \<Rightarrow> string \<Rightarrow> string \<Rightarrow> int \<Rightarrow> bytes \<Rightarrow> (hub, unit) py" where
  "entity_call_client_response_error e gate_name conn_id msg_cb_id argvs = read (\<lambda>s.
     cast (Hub_call_client_err gate_name conn_id (e_entity_id (eobj s e)) msg_cb_id argvs))"

definition entity_call_client_mutilcast :: "nat \<Rightarrow> string \<Rightarrow> bytes \<Rightarrow> (hub, unit) py" where
  "entity_call_client_mutilcast e method argvs = read (\<lambda>s.
     for_each (\<lambda>gate_name. cast (Hub_call_client_ntf gate_name None (e_entity_id (eobj s e)) method argvs))
       (e_conn_client_gate (eobj s e)))"

subsection \<open>The manager\<close>

definition update_entity_conn :: "env \<Rightarrow> string \<Rightarrow> bool \<Rightarrow> string \<Rightarrow> string \<Rightarrow> (hub, bool) py" where
  "update_entity_conn env entity_id is_reconnect gate_name conn_id = read (\<lambda>s.
     case get_entity s entity_id of
       None \<Rightarrow> ret False
     | Some e \<Rightarrow> bindp (block
         [modify (upd_entity e (\<lambda>x. x\<lparr>e_conn_client_gate := append_new gate_name (e_conn_client_gate x)\<rparr>)),
          read (\<lambda>s. let x = eobj s e in
            bindp (lift_res (env_entity_client_info env e s)) (\<lambda>info.
              if is_reconnect
              then bindp (send env (Hub_call_client_refresh_entity gate_name (e_is_migrate x) conn_id False
                                      (e_entity_id x) (e_entity_type x) info))
                     (\<lambda>ok. if \<not> ok then app_log ''error'' ''update_entity_conn refresh_entity faild send to gate!''
                           else ret ())
              else bindp (send env (Hub_call_client_create_remote_entity gate_name (e_is_migrate x) [conn_id] ''''
                                      (e_entity_id x) (e_entity_type x) info))
                     (\<lambda>ok. if \<not> ok then app_log ''error'' ''update_entity_conn create_remote_entity faild send to gate!''
                           else ret ())))])
         (\<lambda>_. ret True))"

interpretation entity_registry: registry get_entity
  "\<lambda>k e s. s\<lparr>entities := dset k e (entities s)\<rparr>" del_entity
  by unfold_locales (auto simp: get_entity_def del_entity_def has_key_def)

lemma upd_entity_simps [simp]:
  "eobj (upd_entity e f s) = (eobj s)(e := f (eobj s e))"
  "pobj (upd_entity e f s) = pobj s" "outbox (upd_entity e f s) = outbox s"
  "entities (upd_entity e f s) = entities s" "players (upd_entity e f s) = players s"
  "conn_id_players (upd_entity e f s) = conn_id_players s"
  by (simp_all add: upd_entity_def)

end
