(* ===== verification/Player.thy ===== *)
theory Player
  imports Entity
begin

section \<open>Players\<close>

text \<open>
  \<open>player.py\<close>, class \<open>player\<close>: an entity that has an owner, the client at
  \<open>client_gate_name\<close>, \<open>client_conn_id\<close>, which the server can call with a request of its own.
\<close>

subsection \<open>The object\<close>

definition new_player ::
  "nat \<Rightarrow> string \<Rightarrow> string \<Rightarrow> string \<Rightarrow> string \<Rightarrow> string \<Rightarrow> bool \<Rightarrow> int \<Rightarrow> player" where
  "new_player native_interval service_name entity_type entity_id gate_name conn_id is_dynamic rnd =
     \<lparr>p_entity_type = entity_type, p_entity_id = entity_id,
      p_hub_request_callback = [], p_hub_notify_callback = [],
      p_request_msg_cb_id = rnd,
      p_client_request_callback = [], p_client_notify_callback = [], p_client_callback = [],
      p_service_name = service_name, p_client_gate_name = gate_name, p_client_conn_id = conn_id,
      p_conn_hub_server = [], p_conn_client_gate = [],
      p_is_dynamic = is_dynamic,
      p_migrate_timer = (if is_dynamic
         then Some (timer_start (new_timer (migrate_time_interval native_interval))) else None),
      p_is_migrate = False\<rparr>"

subsection \<open>Migration\<close>

text \<open>
  \<open>on_migrate_to_other_hub\<close> deletes the player's id from the table of entities; the player
  stays in the tables of \<open>player_manager\<close>.
\<close>

definition player_on_migrate_to_other_hub :: "nat \<Rightarrow> (hub, unit) py" where
  "player_on_migrate_to_other_hub p = read (\<lambda>s. block
     [modify (del_entity (p_entity_id (pobj s p))),
      del_save_entity (p_entity_id (pobj s p))])"

text \<open>Here the coroutine is handed to the event loop.\<close>

definition player_try_migrate_entity :: "nat \<Rightarrow> bool \<Rightarrow> nat \<Rightarrow> hub \<Rightarrow> hub" where
  "player_try_migrate_entity native_interval lucky p s =
     (if \<not> p_is_dynamic (pobj s p) then s
      else if \<not> is_idle s then
        (if lucky then s\<lparr>coros := coros s @ [Co_player_start_migrate p]\<rparr>
         else upd_player p (\<lambda>x. x\<lparr>p_migrate_timer :=
                Some (timer_start (new_timer (migrate_time_interval native_interval)))\<rparr>) s)
      else s)"

definition player_cancel_timer :: "nat \<Rightarrow> (hub, unit) py" where
  "player_cancel_timer p = read (\<lambda>s.
     case p_migrate_timer (pobj s p) of
       None \<Rightarrow> raise AttributeError
     | Some t \<Rightarrow> modify (upd_player p (\<lambda>x. x\<lparr>p_migrate_timer := Some (timer_cancel t)\<rparr>)))"

definition start_migrate_entity_initiative :: "env \<Rightarrow> nat \<Rightarrow> string \<Rightarrow> (hub, unit) py" where
  "start_migrate_entity_initiative env p migrate_hub =
     (if migrate_hub \<noteq> '''' then read (\<lambda>s. let x = pobj s p in block
        [bindp (lift_res (env_player_full_info env p s)) (\<lambda>info.
           cast (Hub_call_hub_migrate_entity migrate_hub (p_service_name x) (p_entity_type x)
             (p_entity_id x) '''' '''' (p_conn_client_gate x) (p_conn_hub_server x) info)),
         for_each (\<lambda>hub. cast (Hub_call_hub_wait_migrate_entity hub (p_entity_id x))) (p_conn_hub_server x),
         for_each (\<lambda>gate. cast (Hub_call_gate_wait_migrate_entity gate (p_entity_id x))) (p_conn_client_gate x),
         modify (upd_player p (\<lambda>x. x\<lparr>p_is_migrate := True\<rparr>)),
         player_cancel_timer p])
      else ret ())"

text \<open>\<open>start_migrate_entity\<close>, for the hub it awaited.\<close>

definition player_start_migrate_entity :: "env \<Rightarrow> nat \<Rightarrow> string \<Rightarrow> (hub, unit) py" where
  "player_start_migrate_entity env p awaited_hub = start_migrate_entity_initiative env p awaited_hub"

definition player_migrate_entity_complete :: "nat \<Rightarrow> (hub, unit) py" where
  "player_migrate_entity_complete p = read (\<lambda>s. let x = pobj s p in block
     [for_each (\<lambda>hub. cast (Hub_call_hub_migrate_entity_complete hub (p_entity_id x))) (p_conn_hub_server x),
      for_each (\<lambda>gate. cast (Hub_call_gate_migrate_entity_complete gate (p_entity_id x))) (p_conn_client_gate x),
      (if p_client_gate_name x \<notin> set (p_conn_client_gate x)
       then cast (Hub_call_gate_migrate_entity_complete (p_client_gate_name x) (p_entity_id x))
       else ret ()),
      player_on_migrate_to_other_hub p])"

subsection \<open>Mirrors\<close>

text \<open>Every error is caught and logged, a refused send as well.\<close>

definition create_main_remote_entity :: "env \<Rightarrow> nat \<Rightarrow> (hub, unit) py" where
  "create_main_remote_entity env p = try_except
     (read (\<lambda>s. let x = pobj s p in
        bindp (lift_res (env_player_client_info env p s)) (\<lambda>info.
        bindp (send env (Hub_call_client_create_remote_entity (p_client_gate_name x) (p_is_migrate x) []
                           (p_client_conn_id x) (p_entity_id x) (p_entity_type x) info))
          (\<lambda>ok. if \<not> ok then app_log ''error'' ''create_main_remote_entity faild send to gate!'' else ret ()))))
     (\<lambda>e. app_log ''trace'' ''create_main_remote_entity err:{e}'')"

definition player_create_remote_entity :: "env \<Rightarrow> nat \<Rightarrow> string \<Rightarrow> string list \<Rightarrow> (hub, unit) py" where
  "player_create_remote_entity env p gate_name conn_id = block
     [modify (upd_player p (\<lambda>x. x\<lparr>p_conn_client_gate := append_new gate_name (p_conn_client_gate x)\<rparr>)),
      read (\<lambda>s. let x = pobj s p in
        bindp (lift_res (env_player_client_info env p s)) (\<lambda>info.
        bindp (send env (Hub_call_client_create_remote_entity gate_name (p_is_migrate x) conn_id ''''
                           (p_entity_id x) (p_entity_type x) info))
          (\<lambda>ok. if \<not> ok then app_log ''error'' ''create_remote_entity faild send to gate!'' else ret ())))]"

definition player_create_remote_hub_entity :: "env \<Rightarrow> nat \<Rightarrow> string \<Rightarrow> (hub, unit) py" where
  "player_create_remote_hub_entity env p hub_name = block
     [modify (upd_player p (\<lambda>x. x\<lparr>p_conn_hub_server := append_new hub_name (p_conn_hub_server x)\<rparr>)),
      read (\<lambda>s. let x = pobj s p in
        bindp (lift_res (env_player_hub_info env p s)) (\<lambda>info.
          cast (Create_service_entity (p_is_migrate x) hub_name (p_service_name x)
                  (p_entity_id x) (p_entity_type x) info)))]"

subsection \<open>Handlers\<close>

definition player_handle_hub_request :: "env \<Rightarrow> nat \<Rightarrow> string \<Rightarrow> string \<Rightarrow> int \<Rightarrow> bytes \<Rightarrow> (hub, unit) py" where
  "player_handle_hub_request env p source_hub method msg_cb_id argvs = read (\<lambda>s.
     dispatch env (p_hub_request_callback (pobj s p)) method (Hub_request_args source_hub msg_cb_id argvs)
       ''unhandle request method:{}, source:{}'')"

definition player_handle_hub_notify :: "env \<Rightarrow> nat \<Rightarrow> string \<Rightarrow> string \<Rightarrow> bytes \<Rightarrow> (hub, unit) py" where
  "player_handle_hub_notify env p source_hub method argvs = read (\<lambda>s.
     dispatch env (p_hub_notify_callback (pobj s p)) method (Notify_args source_hub argvs)
       ''unhandle notify method:{}, source:{}'')"

definition player_handle_client_request ::
  "env \<Rightarrow> nat \<Rightarrow> string \<Rightarrow> string \<Rightarrow> string \<Rightarrow> int \<Rightarrow> bytes \<Rightarrow> (hub, unit) py" where
  "player_handle_client_request env p gate_name conn_id method msg_cb_id argvs = read (\<lambda>s.
     dispatch env (p_client_request_callback (pobj s p)) method
       (Client_request_args gate_name conn_id msg_cb_id argvs)
       ''unhandle request method:{}, source:({}, {})'')"

definition player_handle_client_notify :: "env \<Rightarrow> nat \<Rightarrow> string \<Rightarrow> string \<Rightarrow> bytes \<Rightarrow> (hub, unit) py" where
  "player_handle_client_notify env p gate_name method argvs = read (\<lambda>s.
     dispatch env (p_client_notify_callback (pobj s p)) method (Notify_args gate_name argvs)
       ''unhandle notify method:{}, source:{}'')"

definition player_reg_hub_request_callback :: "nat \<Rightarrow> string \<Rightarrow> fn option \<Rightarrow> hub \<Rightarrow> hub" where
  "player_reg_hub_request_callback p method f s =
     upd_player p (\<lambda>x. x\<lparr>p_hub_request_callback := dset method f (p_hub_request_callback x)\<rparr>) s"

definition player_reg_hub_notify_callback :: "nat \<Rightarrow> string \<Rightarrow> fn option \<Rightarrow> hub \<Rightarrow> hub" where
  "player_reg_hub_notify_callback p method f s =
     upd_player p (\<lambda>x. x\<lparr>p_hub_notify_callback := dset method f (p_hub_notify_callback x)\<rparr>) s"

definition player_reg_client_request_callback :: "nat \<Rightarrow> string \<Rightarrow> fn option \<Rightarrow> hub \<Rightarrow> hub" where
  "player_reg_client_request_callback p method f s =
     upd_player p (\<lambda>x. x\<lparr>p_client_request_callback := dset method f (p_client_request_callback x)\<rparr>) s"

definition player_reg_client_notify_callback :: "nat \<Rightarrow> string \<Rightarrow> fn option \<Rightarrow> hub \<Rightarrow> hub" where
  "player_reg_client_notify_callback p method f s =
     upd_player p (\<lambda>x. x\<lparr>p_client_notify_callback := dset method f (p_client_notify_callback x)\<rparr>) s"

subsection \<open>Requests to the client\<close>

definition player_del_client_callback :: "nat \<Rightarrow> int \<Rightarrow> (hub, bool) py" where
  "player_del_client_callback p msg_cb_id = (\<lambda>s.
     if \<not> has_key (p_client_callback (pobj s p)) msg_cb_id then (Inr False, s)
     else (Inr True,
       upd_player p (\<lambda>x. x\<lparr>p_client_callback := ddel msg_cb_id (p_client_callback x)\<rparr>) s))"

text \<open>\<open>del self.client_callback[msg_cb_id]\<close>.\<close>

definition player_drop_callback :: "nat \<Rightarrow> int \<Rightarrow> (hub, unit) py" where
  "player_drop_callback p msg_cb_id = (\<lambda>s.
     case delitem msg_cb_id (p_client_callback (pobj s p)) of
       Inl e \<Rightarrow> (Inl e, s)
     | Inr d \<Rightarrow> (Inr (), upd_player p (\<lambda>x. x\<lparr>p_client_callback := d\<rparr>) s))"

definition player_handle_client_response :: "env \<Rightarrow> nat \<Rightarrow> string \<Rightarrow> int \<Rightarrow> bytes \<Rightarrow> (hub, unit) py" where
  "player_handle_client_response env p gate_name msg_cb_id argvs = read (\<lambda>s.
     case dget (p_client_callback (pobj s p)) msg_cb_id of
       None \<Rightarrow> raise KeyError
     | Some None \<Rightarrow> app_log ''error'' ''unhandle response callback:{}, source:{}''
     | Some (Some c) \<Rightarrow>
         block [call_fn env (cb_callback (cobj s c)) (Rsp_args argvs),
                player_drop_callback p msg_cb_id])"

definition player_handle_client_response_error ::
  "env \<Rightarrow> nat \<Rightarrow> string \<Rightarrow> int \<Rightarrow> bytes \<Rightarrow> (hub, unit) py" where
  "player_handle_client_response_error env p gate_name msg_cb_id argvs = read (\<lambda>s.
     case dget (p_client_callback (pobj s p)) msg_cb_id of
       None \<Rightarrow> raise KeyError
     | Some None \<Rightarrow> app_log ''error'' ''unhandle response error callback:{}, source:{}''
     | Some (Some c) \<Rightarrow>
         block [call_fn env (cb_error (cobj s c)) (Rsp_args argvs),
                player_drop_callback p msg_cb_id])"

definition player_call_client_request :: "nat \<Rightarrow> string \<Rightarrow> bytes \<Rightarrow> (hub, int) py" where
  "player_call_client_request p method argvs = read (\<lambda>s.
     let x = pobj s p; msg_cb_id = p_request_msg_cb_id x in
     bindp (block
       [modify (upd_player p (\<lambda>x. x\<lparr>p_request_msg_cb_id := p_request_msg_cb_id x + 1\<rparr>)),
        cast (Hub_call_client_rpc (p_client_gate_name x) (p_entity_id x) msg_cb_id method argvs)])
       (\<lambda>_. ret msg_cb_id))"

definition player_reg_client_callback :: "nat \<Rightarrow> int \<Rightarrow> nat option \<Rightarrow> hub \<Rightarrow> hub" where
  "player_reg_client_callback p msg_cb_id rsp s =
     upd_player p (\<lambda>x. x\<lparr>p_client_callback := dset msg_cb_id rsp (p_client_callback x)\<rparr>) s"

subsection \<open>Calls out\<close>

definition player_call_hub_response :: "nat \<Rightarrow> string \<Rightarrow> int \<Rightarrow> bytes \<Rightarrow> (hub, unit) py" where
  "player_call_hub_response p hub_name msg_cb_id argvs = read (\<lambda>s.
     cast (Hub_call_hub_rsp hub_name (p_entity_id (pobj s p)) msg_cb_id argvs))"

definition player_call_hub_response_error :: "nat \<Rightarrow> string \<Rightarrow> int \<Rightarrow> bytes \<Rightarrow> (hub, unit) py" where
  "player_call_hub_response_error p hub_name msg_cb_id argvs = read (\<lambda>s.
     cast (Hub_call_hub_err hub_name (p_entity_id (pobj s p)) msg_cb_id argvs))"

definition player_call_hub_notify :: "nat \<Rightarrow> string \<Rightarrow> bytes \<Rightarrow> (hub, unit) py" where
  "player_call_hub_notify p method argvs = read (\<lambda>s.
     for_each (\<lambda>hub_name. cast (Hub_call_hub_ntf hub_name (p_entity_id (pobj s p)) method argvs))
       (p_conn_hub_server (pobj s p)))"

definition player_call_client_response ::
  "nat \<Rightarrow> string \<Rightarrow> string \<Rightarrow> int \<Rightarrow> bytes \<Rightarrow> (hub, unit) py" where
  "player_call_client_response p gate_name conn_id msg_cb_id argvs = read (\<lambda>s.
     cast (Hub_call_client_rsp gate_name conn_id (p_entity_id (pobj s p)) msg_cb_id argvs))"

definition player_call_client_response_error ::
  "nat \<Rightarrow> string \<Rightarrow> string \<Rightarrow> int \<Rightarrow> bytes \<Rightarrow> (hub, unit) py" where
  "player_call_client_response_error p gate_name conn_id msg_cb_id argvs = read (\<lambda>s.
     cast (Hub_call_client_err gate_name conn_id (p_entity_id (pobj s p)) msg_cb_id argvs))"

definition call_client_main_notify :: "nat \<Rightarrow> string \<Rightarrow> bytes \<Rightarrow> (hub, unit) py" where
  "call_client_main_notify p method argvs = read (\<lambda>s. let x = pobj s p in
     cast (Hub_call_client_ntf (p_client_gate_name x) (Some (p_client_conn_id x)) (p_entity_id x) method argvs))"

definition player_call_client_mutilcast :: "nat \<Rightarrow> string \<Rightarrow> bytes \<Rightarrow> (hub, unit) py" where
  "player_call_client_mutilcast p method argvs = read (\<lambda>s.
     for_each (\<lambda>gate_name. cast (Hub_call_client_ntf gate_name None (p_entity_id (pobj s p)) method argvs))
       (p_conn_client_gate (pobj s p)))"

subsection \<open>Facts\<close>

lemma upd_player_simps [simp]:
  "pobj (upd_player p f s) = (pobj s)(p := f (pobj s p))"
  "cobj (upd_player p f s) = cobj s" "eobj (upd_player p f s) = eobj s"
  "outbox (upd_player p f s) = outbox s" "players (upd_player p f s) = players s"
  "conn_id_players (upd_player p f s) = conn_id_players s"
  "entities (upd_player p f s) = entities s"
  by (simp_all add: upd_player_def)

lemma player_drop_callback_known:
  "has_key (p_client_callback (pobj s p)) i \<Longrightarrow>
   player_drop_callback p i s =
     (Inr (), upd_player p (\<lambda>x. x\<lparr>p_client_callback := ddel i (p_client_callback (pobj s p))\<rparr>) s)"
  by (auto simp: player_drop_callback_def has_key_def)

interpretation player_rsp: pending_requests
  "\<lambda>s. p_client_callback (pobj s p)" "\<lambda>i c. player_reg_client_callback p i c"
  "\<lambda>env i b. player_handle_client_response env p g i b" "player_del_client_callback p" cb_callback
  for p g
  by unfold_locales
     (auto simp: player_reg_client_callback_def player_handle_client_response_def
        player_del_client_callback_def player_drop_callback_known has_key_def)

interpretation player_err: pending_requests
  "\<lambda>s. p_client_callback (pobj s p)" "\<lambda>i c. player_reg_client_callback p i c"
  "\<lambda>env i b. player_handle_client_response_error env p g i b" "player_del_client_callback p" cb_error
  for p g
  by unfold_locales
     (auto simp: player_reg_client_callback_def player_handle_client_response_error_def
        player_del_client_callback_def player_drop_callback_known has_key_def)

end
