(* ===== verification/Player_Manager.thy ===== *)
theory Player_Manager
  imports Player
begin

section \<open>The player manager\<close>

text \<open>
  \<open>player.py\<close>, class \<open>player_manager\<close>: the players by entity id, and the players of each client
  connection in the order they came.  A list of \<open>conn_id_players\<close> belongs to one key, so it is
  kept as a value; players are compared by identity, that is, by reference.  \<open>index_ok\<close> is what
  the two tables owe each other, and every operation keeps it.
\<close>

subsection \<open>Operations\<close>

definition detach_player_conn :: "nat \<Rightarrow> hub \<Rightarrow> hub" where
  "detach_player_conn p s =
     (let c = p_client_conn_id (pobj s p) in
      case dget (conn_id_players s) c of
        None \<Rightarrow> s
      | Some p_list \<Rightarrow>
          let p_list = (if p \<in> set p_list then remove1 p p_list else p_list) in
          if p_list = [] then s\<lparr>conn_id_players := ddel c (conn_id_players s)\<rparr>
          else s\<lparr>conn_id_players := dset c p_list (conn_id_players s)\<rparr>)"

definition add_player :: "nat \<Rightarrow> hub \<Rightarrow> hub" where
  "add_player p s =
     (let k = p_entity_id (pobj s p);
          s = (case dget (players s) k of
                 None \<Rightarrow> s
               | Some old \<Rightarrow> if old \<noteq> p then detach_player_conn old s else s);
          s = s\<lparr>players := dset k p (players s)\<rparr>;
          c = p_client_conn_id (pobj s p);
          s = (if \<not> has_key (conn_id_players s) c
               then s\<lparr>conn_id_players := dset c [] (conn_id_players s)\<rparr> else s)
      in case dget (conn_id_players s) c of
           None \<Rightarrow> s
         | Some p_list \<Rightarrow>
             if p \<notin> set p_list
             then s\<lparr>conn_id_players := dset c (p_list @ [p]) (conn_id_players s)\<rparr> else s)"

definition player_init ::
  "nat \<Rightarrow> nat \<Rightarrow> string \<Rightarrow> string \<Rightarrow> string \<Rightarrow> string \<Rightarrow> string \<Rightarrow> bool \<Rightarrow> int \<Rightarrow> (hub, unit) py" where
  "player_init native_interval p service_name entity_type entity_id gate_name conn_id is_dynamic rnd =
     block
       [modify (upd_player p (\<lambda>_. new_player native_interval service_name entity_type entity_id
                                     gate_name conn_id is_dynamic rnd)),
        modify (add_player p),
        app_log ''trace'' ''app player __init__ end!'']"

definition get_player :: "hub \<Rightarrow> string \<Rightarrow> nat option" where
  "get_player s entity_id = dget (players s) entity_id"

definition get_player_by_conn_id :: "hub \<Rightarrow> string \<Rightarrow> nat list" where
  "get_player_by_conn_id s conn_id =
     (case dget (conn_id_players s) conn_id of None \<Rightarrow> [] | Some p_list \<Rightarrow> p_list)"

text \<open>The body of the loop of \<open>update_player_conn\<close> over the players of the old connection.\<close>

definition move_player :: "env \<Rightarrow> string \<Rightarrow> string \<Rightarrow> nat \<Rightarrow> (hub, unit) py" where
  "move_player env gate_name conn_id q = block
     [modify (upd_player q (\<lambda>x. x\<lparr>p_conn_client_gate := append_new gate_name (p_conn_client_gate x)\<rparr>)),
      modify (upd_player q (\<lambda>x. x\<lparr>p_client_conn_id := conn_id\<rparr>)),
      modify (upd_player q (\<lambda>x. x\<lparr>p_client_gate_name := gate_name\<rparr>)),
      env_on_transfer_conn env q gate_name conn_id]"

text \<open>
  Its end: the client is told about the player, as a refresh on a reconnection and as a new
  entity otherwise, its own when \<open>is_main\<close>; a refused send is logged.
\<close>

definition announce_conn :: "env \<Rightarrow> nat \<Rightarrow> bool \<Rightarrow> bool \<Rightarrow> string \<Rightarrow> string \<Rightarrow> (hub, unit) py" where
  "announce_conn env p is_main is_reconnect gate_name conn_id = read (\<lambda>s. let x = pobj s p in
     bindp (lift_res (env_player_client_info env p s)) (\<lambda>info.
       if is_reconnect
       then bindp (send env (Hub_call_client_refresh_entity gate_name (p_is_migrate x) conn_id is_main
                               (p_entity_id x) (p_entity_type x) info))
              (\<lambda>ok. if \<not> ok then app_log ''error'' ''update_player_conn refresh_entity faild send to gate!'' else ret ())
       else if is_main
       then bindp (send env (Hub_call_client_create_remote_entity gate_name (p_is_migrate x) [] conn_id
                               (p_entity_id x) (p_entity_type x) info))
              (\<lambda>ok. if \<not> ok then app_log ''error'' ''update_player_conn create_remote_entity faild send to gate!'' else ret ())
       else bindp (send env (Hub_call_client_create_remote_entity gate_name (p_is_migrate x) [conn_id] ''''
                               (p_entity_id x) (p_entity_type x) info))
              (\<lambda>ok. if \<not> ok then app_log ''error'' ''update_player_conn create_remote_entity faild send to gate!'' else ret ())))"

definition update_player_conn ::
  "env \<Rightarrow> string \<Rightarrow> bool \<Rightarrow> bool \<Rightarrow> string \<Rightarrow> string \<Rightarrow> (hub, bool) py" where
  "update_player_conn env entity_id is_main is_reconnect gate_name conn_id = read (\<lambda>s.
     case dget (players s) entity_id of
       None \<Rightarrow> ret False
     | Some p \<Rightarrow>
        let old_conn_id = p_client_conn_id (pobj s p);
            known = dget (conn_id_players s) old_conn_id;
            p_list = append_new p (case known of None \<Rightarrow> [] | Some l \<Rightarrow> l)
        in bindp (block
          [(case known of None \<Rightarrow> ret ()
            | Some _ \<Rightarrow> modify (\<lambda>s. s\<lparr>conn_id_players := dset old_conn_id p_list (conn_id_players s)\<rparr>)),
           modify (upd_player p (\<lambda>x. x\<lparr>p_conn_client_gate := append_new gate_name (p_conn_client_gate x)\<rparr>)),
           for_each (move_player env gate_name conn_id) p_list,
           (if old_conn_id \<noteq> conn_id
            then modify (\<lambda>s. s\<lparr>conn_id_players := ddel old_conn_id (conn_id_players s)\<rparr>) else ret ()),
           modify (\<lambda>s. s\<lparr>conn_id_players := dset conn_id p_list (conn_id_players s)\<rparr>),
           announce_conn env p is_main is_reconnect gate_name conn_id])
          (\<lambda>_. ret True))"

text \<open>\<open>del_player(entity_id, _player = None)\<close>.\<close>

definition del_player :: "string \<Rightarrow> nat option \<Rightarrow> hub \<Rightarrow> hub" where
  "del_player entity_id inst s =
     (case dget (players s) entity_id of
        None \<Rightarrow> s
      | Some p \<Rightarrow>
          if inst \<noteq> None \<and> inst \<noteq> Some p then s
          else s\<lparr>players := ddel entity_id (players s)\<rparr>)"

definition del_player_list :: "string \<Rightarrow> hub \<Rightarrow> hub" where
  "del_player_list conn_id s =
     (if has_key (conn_id_players s) conn_id
      then s\<lparr>conn_id_players := ddel conn_id (conn_id_players s)\<rparr> else s)"

text \<open>One player of the loop of \<open>player_offline\<close>: the two \<open>continue\<close> guards, then the hook.\<close>

definition offline_one :: "env \<Rightarrow> string \<Rightarrow> nat \<Rightarrow> (hub, unit) py" where
  "offline_one env conn_id p = read (\<lambda>s.
     if p_client_conn_id (pobj s p) \<noteq> conn_id then ret ()
     else if dget (players s) (p_entity_id (pobj s p)) \<noteq> Some p then ret ()
     else block
       [env_player_offline env p,
        read (\<lambda>s. modify (del_player (p_entity_id (pobj s p)) (Some p)))])"

definition player_offline :: "env \<Rightarrow> string \<Rightarrow> (hub, unit) py" where
  "player_offline env conn_id = read (\<lambda>s. block
     [for_each (offline_one env conn_id) (get_player_by_conn_id s conn_id),
      modify (del_player_list conn_id)])"

interpretation player_registry: registry get_player
  "\<lambda>k p s. s\<lparr>players := dset k p (players s)\<rparr>" "\<lambda>k. del_player k None"
  by unfold_locales (auto simp: get_player_def del_player_def split: option.splits)

subsection \<open>The invariant\<close>

text \<open>
  Entries are keyed by the player's own id and by its connection, no list is empty or holds
  a player twice, and every registered player is in the list of its connection.
\<close>

definition index_ok :: "hub \<Rightarrow> bool" where
  "index_ok s = (
     (\<forall>k p. dget (players s) k = Some p \<longrightarrow> p_entity_id (pobj s p) = k \<and>
        p \<in> set (get_player_by_conn_id s (p_client_conn_id (pobj s p)))) \<and>
     (\<forall>c l. dget (conn_id_players s) c = Some l \<longrightarrow>
        l \<noteq> [] \<and> distinct l \<and> (\<forall>p \<in> set l. p_client_conn_id (pobj s p) = c)))"

lemma index_okI:
  assumes "\<And>k p. dget (players s) k = Some p \<Longrightarrow> p_entity_id (pobj s p) = k"
    and "\<And>k p. dget (players s) k = Some p \<Longrightarrow>
           p \<in> set (get_player_by_conn_id s (p_client_conn_id (pobj s p)))"
    and "\<And>c l. dget (conn_id_players s) c = Some l \<Longrightarrow>
           l \<noteq> [] \<and> distinct l \<and> (\<forall>p \<in> set l. p_client_conn_id (pobj s p) = c)"
  shows "index_ok s"
  using assms unfolding index_ok_def by blast

lemma index_ok_id: "index_ok s \<Longrightarrow> dget (players s) k = Some p \<Longrightarrow> p_entity_id (pobj s p) = k"
  unfolding index_ok_def by blast

lemma index_ok_listed:
  "index_ok s \<Longrightarrow> dget (players s) k = Some p \<Longrightarrow>
   p \<in> set (get_player_by_conn_id s (p_client_conn_id (pobj s p)))"
  unfolding index_ok_def by blast

lemma index_ok_list:
  "index_ok s \<Longrightarrow> dget (conn_id_players s) c = Some l \<Longrightarrow>
   l \<noteq> [] \<and> distinct l \<and> (\<forall>p \<in> set l. p_client_conn_id (pobj s p) = c)"
  unfolding index_ok_def by blast

lemma index_ok_member:
  "index_ok s \<Longrightarrow> p \<in> set (get_player_by_conn_id s c) \<Longrightarrow> p_client_conn_id (pobj s p) = c"
  by (cases "dget (conn_id_players s) c") (auto simp: get_player_by_conn_id_def dest: index_ok_list)

lemma index_ok_distinct: "index_ok s \<Longrightarrow> distinct (get_player_by_conn_id s c)"
  by (auto simp: get_player_by_conn_id_def dest: index_ok_list split: option.splits)

text \<open>The invariant reads three components of the state only.\<close>

lemma index_ok_cong:
  "players t = players s \<Longrightarrow> conn_id_players t = conn_id_players s \<Longrightarrow> pobj t = pobj s \<Longrightarrow>
   index_ok t = index_ok s"
  by (simp add: index_ok_def get_player_by_conn_id_def)

lemma index_ok_emit [simp]: "index_ok (emit c s) = index_ok s"
  by (rule index_ok_cong) simp_all

text \<open>A list per connection, as a function: how the operations change it.\<close>

definition set_list :: "string \<Rightarrow> nat list \<Rightarrow> hub \<Rightarrow> hub" where
  "set_list c l s = s\<lparr>conn_id_players :=
     (if l = [] then ddel c (conn_id_players s) else dset c l (conn_id_players s))\<rparr>"

lemma set_list_simps [simp]:
  "get_player_by_conn_id (set_list c l s) d = (if d = c then l else get_player_by_conn_id s d)"
  "players (set_list c l s) = players s" "pobj (set_list c l s) = pobj s"
  "dget (conn_id_players (set_list c l s)) d =
     (if d = c then (if l = [] then None else Some l) else dget (conn_id_players s) d)"
  by (simp_all add: set_list_def get_player_by_conn_id_def)

lemma detach_eq:
  assumes "dget (conn_id_players s) (p_client_conn_id (pobj s p)) = Some l"
  shows "detach_player_conn p s = set_list (p_client_conn_id (pobj s p)) (remove1 p l) s"
  using assms by (auto simp: detach_player_conn_def set_list_def Let_def remove1_idem)

lemma detach_simps [simp]:
  "players (detach_player_conn p s) = players s" "pobj (detach_player_conn p s) = pobj s"
  by (auto simp: detach_player_conn_def Let_def split: option.splits)

lemma detach_lists:
  "get_player_by_conn_id (detach_player_conn p s) c =
     (if c = p_client_conn_id (pobj s p) then remove1 p (get_player_by_conn_id s c)
      else get_player_by_conn_id s c)"
proof (cases "dget (conn_id_players s) (p_client_conn_id (pobj s p))")
  case None
  then show ?thesis by (simp add: detach_player_conn_def get_player_by_conn_id_def)
next
  case (Some l)
  then show ?thesis by (simp add: detach_eq get_player_by_conn_id_def [of s])
qed

text \<open>A list is stored only when it is not empty: the table is determined by the lists.\<close>

definition lists_ok :: "hub \<Rightarrow> bool" where
  "lists_ok s = (\<forall>c. dget (conn_id_players s) c =
     (if get_player_by_conn_id s c = [] then None else Some (get_player_by_conn_id s c)))"

lemma index_ok_lists_ok: "index_ok s \<Longrightarrow> lists_ok s"
  unfolding lists_ok_def
  by (auto simp: get_player_by_conn_id_def dest: index_ok_list split: option.splits)

lemma index_ok_by_lists:
  assumes "lists_ok s"
    and "\<And>k p. dget (players s) k = Some p \<Longrightarrow> p_entity_id (pobj s p) = k \<and>
           p \<in> set (get_player_by_conn_id s (p_client_conn_id (pobj s p)))"
    and "\<And>c. distinct (get_player_by_conn_id s c)"
    and "\<And>c p. p \<in> set (get_player_by_conn_id s c) \<Longrightarrow> p_client_conn_id (pobj s p) = c"
  shows "index_ok s"
proof (rule index_okI)
  fix c l
  assume "dget (conn_id_players s) c = Some l"
  then have "l = get_player_by_conn_id s c" and "l \<noteq> []"
    using assms(1) unfolding lists_ok_def by (auto split: if_splits)
  then show "l \<noteq> [] \<and> distinct l \<and> (\<forall>p \<in> set l. p_client_conn_id (pobj s p) = c)"
    using assms(3,4) by auto
qed (use assms(2) in auto)

lemma lists_ok_detach: "lists_ok s \<Longrightarrow> lists_ok (detach_player_conn p s)"
proof (cases "dget (conn_id_players s) (p_client_conn_id (pobj s p))")
  case None
  then show "lists_ok s \<Longrightarrow> ?thesis" by (simp add: detach_player_conn_def)
next
  case (Some l)
  then show "lists_ok s \<Longrightarrow> ?thesis" by (simp add: detach_eq lists_ok_def)
qed

subsection \<open>Adding a player\<close>

text \<open>The state after the takeover of the id, before the new instance is listed.\<close>

definition taken_over :: "nat \<Rightarrow> hub \<Rightarrow> hub" where
  "taken_over p s =
     (case dget (players s) (p_entity_id (pobj s p)) of
        None \<Rightarrow> s
      | Some old \<Rightarrow> if old \<noteq> p then detach_player_conn old s else s)"

lemma taken_over_simps [simp]:
  "players (taken_over p s) = players s" "pobj (taken_over p s) = pobj s"
  by (auto simp: taken_over_def split: option.splits)

lemma taken_over_lists:
  "get_player_by_conn_id (taken_over p s) c =
     (case dget (players s) (p_entity_id (pobj s p)) of
        Some old \<Rightarrow> if old \<noteq> p \<and> c = p_client_conn_id (pobj s old)
                    then remove1 old (get_player_by_conn_id s c) else get_player_by_conn_id s c
      | None \<Rightarrow> get_player_by_conn_id s c)"
  by (auto simp: taken_over_def detach_lists split: option.splits)

lemma lists_ok_taken_over: "lists_ok s \<Longrightarrow> lists_ok (taken_over p s)"
  by (auto simp: taken_over_def lists_ok_detach split: option.splits)

lemma add_player_fields [simp]:
  "players (add_player p s) = dset (p_entity_id (pobj s p)) p (players s)"
  "pobj (add_player p s) = pobj s"
  by (auto simp: add_player_def Let_def split: option.splits)

lemma add_player_lists:
  "get_player_by_conn_id (add_player p s) c =
     (if c = p_client_conn_id (pobj s p)
      then append_new p (get_player_by_conn_id (taken_over p s) c)
      else get_player_by_conn_id (taken_over p s) c)"
  unfolding add_player_def taken_over_def [symmetric] Let_def
  by (auto simp: get_player_by_conn_id_def append_new_def has_key_def split: option.splits)

lemma lists_ok_add: "lists_ok s \<Longrightarrow> lists_ok (add_player p s)"
proof -
  assume "lists_ok s"
  then have "lists_ok (taken_over p s)" by (rule lists_ok_taken_over)
  then show ?thesis
    unfolding add_player_def taken_over_def [symmetric] Let_def
    by (auto simp: lists_ok_def get_player_by_conn_id_def has_key_def split: option.splits if_splits)
qed

lemma add_player_index_ok:
  assumes ok: "index_ok s"
  shows "index_ok (add_player p s)"
proof (rule index_ok_by_lists)
  show "lists_ok (add_player p s)"
    by (rule lists_ok_add [OF index_ok_lists_ok [OF ok]])
  show "distinct (get_player_by_conn_id (add_player p s) c)" for c
    by (auto simp: add_player_lists taken_over_lists index_ok_distinct [OF ok]
             split: option.splits)
  show "p_client_conn_id (pobj (add_player p s) q) = c"
    if "q \<in> set (get_player_by_conn_id (add_player p s) c)" for c q
    using that index_ok_member [OF ok]
    by (auto simp: add_player_lists taken_over_lists index_ok_distinct [OF ok]
             split: option.splits if_splits)
next
  fix k q
  assume "dget (players (add_player p s)) k = Some q"
  then have q: "(if k = p_entity_id (pobj s p) then Some p else dget (players s) k) = Some q"
    by simp
  show "p_entity_id (pobj (add_player p s) q) = k \<and>
      q \<in> set (get_player_by_conn_id (add_player p s) (p_client_conn_id (pobj (add_player p s) q)))"
  proof (cases "k = p_entity_id (pobj s p)")
    case True
    with q show ?thesis by (simp add: add_player_lists)
  next
    case False
    with q have reg: "dget (players s) k = Some q" by simp
    from index_ok_id [OF ok reg] have id: "p_entity_id (pobj s q) = k" .
    have "q \<noteq> old" if "dget (players s) (p_entity_id (pobj s p)) = Some old" for old
      using index_ok_id [OF ok that] id False by auto
    then have "q \<in> set (get_player_by_conn_id (taken_over p s) (p_client_conn_id (pobj s q)))"
      using index_ok_listed [OF ok reg]
      by (auto simp: taken_over_lists index_ok_distinct [OF ok] split: option.split)
    then show ?thesis using id by (auto simp: add_player_lists)
  qed
qed


subsection \<open>Hooks\<close>

text \<open>
  The application's hooks are arbitrary statements.  What the facts below ask of them: that
  they leave the tables of the manager and the players' connections alone.
\<close>

definition keeps_index :: "(hub, 'a) py \<Rightarrow> bool" where
  "keeps_index m = (\<forall>s. players (state_of (m s)) = players s \<and>
     conn_id_players (state_of (m s)) = conn_id_players s \<and> pobj (state_of (m s)) = pobj s)"

lemma keeps_indexD:
  assumes "keeps_index m" and "m s = (r, t)"
  shows "players t = players s" "conn_id_players t = conn_id_players s" "pobj t = pobj s"
proof -
  from assms(1) have "players (state_of (m s)) = players s \<and>
     conn_id_players (state_of (m s)) = conn_id_players s \<and> pobj (state_of (m s)) = pobj s"
    unfolding keeps_index_def by blast
  with assms(2) show "players t = players s" "conn_id_players t = conn_id_players s" "pobj t = pobj s"
    by simp_all
qed

subsection \<open>Deleting players\<close>

lemma del_player_simps [simp]:
  "conn_id_players (del_player k i s) = conn_id_players s" "pobj (del_player k i s) = pobj s"
  by (auto simp: del_player_def split: option.splits)

lemma dget_del_player:
  "dget (players (del_player k i s)) k' =
     (if k' = k \<and> (i = None \<or> i = dget (players s) k) then None else dget (players s) k')"
  by (auto simp: del_player_def split: option.splits)

lemma get_list_cong:
  "conn_id_players t = conn_id_players s \<Longrightarrow> get_player_by_conn_id t c = get_player_by_conn_id s c"
  by (simp add: get_player_by_conn_id_def)

lemma del_player_index_ok:
  assumes "index_ok s"
  shows "index_ok (del_player k i s)"
proof (rule index_okI)
  fix k' p
  assume "dget (players (del_player k i s)) k' = Some p"
  then have "dget (players s) k' = Some p" by (simp add: dget_del_player split: if_splits)
  then show "p_entity_id (pobj (del_player k i s) p) = k'"
    and "p \<in> set (get_player_by_conn_id (del_player k i s) (p_client_conn_id (pobj (del_player k i s) p)))"
    using index_ok_id [OF assms] index_ok_listed [OF assms]
    by (simp_all add: get_list_cong [of "del_player k i s" s])
qed (use index_ok_list [OF assms] in auto)

text \<open>
  The list of a connection can go once no registered player is on it.
\<close>

lemma del_player_list_fields [simp]:
  "players (del_player_list c s) = players s" "pobj (del_player_list c s) = pobj s"
  "dget (conn_id_players (del_player_list c s)) c' =
     (if c' = c then None else dget (conn_id_players s) c')"
  by (auto simp: del_player_list_def has_key_def)

lemma del_player_list_index_ok:
  assumes ok: "index_ok s"
    and none: "\<And>k p. dget (players s) k = Some p \<Longrightarrow> p_client_conn_id (pobj s p) \<noteq> c"
  shows "index_ok (del_player_list c s)"
proof (rule index_okI)
  fix k p
  assume "dget (players (del_player_list c s)) k = Some p"
  then have reg: "dget (players s) k = Some p" by simp
  from index_ok_id [OF ok reg] show "p_entity_id (pobj (del_player_list c s) p) = k" by simp
  from index_ok_listed [OF ok reg] none [OF reg]
  show "p \<in> set (get_player_by_conn_id (del_player_list c s)
               (p_client_conn_id (pobj (del_player_list c s) p)))"
    by (simp add: get_player_by_conn_id_def)
next
  fix c' l
  assume "dget (conn_id_players (del_player_list c s)) c' = Some l"
  then have "dget (conn_id_players s) c' = Some l" by (simp split: if_splits)
  from index_ok_list [OF ok this]
  show "l \<noteq> [] \<and> distinct l \<and> (\<forall>p \<in> set l. p_client_conn_id (pobj (del_player_list c s) p) = c')"
    by simp
qed

subsection \<open>Going offline\<close>

text \<open>
  The loop, while the hooks keep the index: every player of the list that is on the
  connection and still in charge of its id loses its registration, in order; the loop stops
  early only when a hook raises.
\<close>

lemma offline_one_cases:
  assumes "keeps_index (env_player_offline env p)"
  shows "\<exists>t. state_of (offline_one env c p s) = t \<and> conn_id_players t = conn_id_players s \<and>
     pobj t = pobj s \<and>
     (\<forall>k. dget (players t) k = dget (players s) k \<or>
          dget (players t) k = None \<and> dget (players s) k = Some p \<and> p_client_conn_id (pobj s p) = c) \<and>
     (result_of (offline_one env c p s) = Inr () \<longrightarrow> p_client_conn_id (pobj s p) = c \<longrightarrow>
        dget (players t) (p_entity_id (pobj s p)) \<noteq> Some p)"
proof -
  obtain r t where h: "env_player_offline env p s = (r, t)" by (cases "env_player_offline env p s")
  note keep = keeps_indexD [OF assms h]
  show ?thesis
    using h keep by (cases r) (auto simp: offline_one_def dget_del_player split: if_splits)
qed

text \<open>What a run of the loop leaves of the tables.\<close>

definition offline_rel :: "string \<Rightarrow> nat list \<Rightarrow> hub \<Rightarrow> hub \<Rightarrow> bool" where
  "offline_rel c ps s t = (conn_id_players t = conn_id_players s \<and> pobj t = pobj s \<and>
     (\<forall>k. dget (players t) k = dget (players s) k \<or>
          (\<exists>p \<in> set ps. dget (players t) k = None \<and> dget (players s) k = Some p \<and>
             p_client_conn_id (pobj s p) = c)))"

lemma offline_relD:
  assumes "offline_rel c ps s t"
  shows "conn_id_players t = conn_id_players s" "pobj t = pobj s"
    "dget (players t) k = Some q \<Longrightarrow> dget (players s) k = Some q"
    "dget (players s) k = Some q \<Longrightarrow> p_client_conn_id (pobj s q) \<noteq> c \<Longrightarrow> dget (players t) k = Some q"
    "dget (players s) k = Some q \<Longrightarrow> q \<notin> set ps \<Longrightarrow> dget (players t) k = Some q"
proof -
  have kk: "dget (players t) k = dget (players s) k \<or>
          (\<exists>p \<in> set ps. dget (players t) k = None \<and> dget (players s) k = Some p \<and>
             p_client_conn_id (pobj s p) = c)" for k
    using assms unfolding offline_rel_def by blast
  show "conn_id_players t = conn_id_players s" "pobj t = pobj s"
    using assms unfolding offline_rel_def by blast+
  show "dget (players t) k = Some q \<Longrightarrow> dget (players s) k = Some q"
    "dget (players s) k = Some q \<Longrightarrow> p_client_conn_id (pobj s q) \<noteq> c \<Longrightarrow> dget (players t) k = Some q"
    "dget (players s) k = Some q \<Longrightarrow> q \<notin> set ps \<Longrightarrow> dget (players t) k = Some q"
    using kk [of k] by auto
qed

lemma offline_loop:
  assumes hook: "\<And>p. keeps_index (env_player_offline env p)"
  shows "offline_rel c ps s (state_of (for_each (offline_one env c) ps s)) \<and>
    (result_of (for_each (offline_one env c) ps s) = Inr () \<longrightarrow>
      (\<forall>p \<in> set ps. p_client_conn_id (pobj s p) = c \<longrightarrow>
        dget (players (state_of (for_each (offline_one env c) ps s))) (p_entity_id (pobj s p)) \<noteq> Some p))"
proof (induction ps arbitrary: s)
  case Nil
  then show ?case by (simp add: offline_rel_def)
next
  case (Cons p ps)
  obtain r t where pt: "offline_one env c p s = (r, t)" by (cases "offline_one env c p s")
  from offline_one_cases [OF hook [of p], of c s] pt have step:
    "conn_id_players t = conn_id_players s" "pobj t = pobj s"
    "\<And>k. dget (players t) k = dget (players s) k \<or>
        dget (players t) k = None \<and> dget (players s) k = Some p \<and> p_client_conn_id (pobj s p) = c"
    "r = Inr () \<Longrightarrow> p_client_conn_id (pobj s p) = c \<Longrightarrow>
        dget (players t) (p_entity_id (pobj s p)) \<noteq> Some p"
    by auto
  show ?case
  proof (cases r)
    case (Inl e)
    with pt step show ?thesis by (simp add: offline_rel_def) blast
  next
    case (Inr u)
    let ?run = "for_each (offline_one env c) ps t"
    have run: "for_each (offline_one env c) (p # ps) s = ?run" using pt Inr by simp
    note IH = Cons.IH [of t]
    then have rel: "offline_rel c ps t (state_of ?run)" by blast
    have all: "offline_rel c (p # ps) s (state_of ?run)"
      unfolding offline_rel_def
    proof (intro conjI allI)
      show "conn_id_players (state_of ?run) = conn_id_players s" "pobj (state_of ?run) = pobj s"
        using offline_relD(1,2) [OF rel] step(1,2) by simp_all
      show "dget (players (state_of ?run)) k = dget (players s) k \<or>
          (\<exists>q \<in> set (p # ps). dget (players (state_of ?run)) k = None \<and>
             dget (players s) k = Some q \<and> p_client_conn_id (pobj s q) = c)" for k
        using rel step(2) step(3) [of k] unfolding offline_rel_def
        by (metis list.set_intros(1) list.set_intros(2))
    qed
    have "dget (players (state_of ?run)) (p_entity_id (pobj s p)) \<noteq> Some p"
      if "p_client_conn_id (pobj s p) = c"
      using offline_relD(3) [OF rel] step(4) Inr that by auto
    with IH all run step(2) show ?thesis by auto
  qed
qed

lemma player_offline_apply:
  "player_offline env c s =
     (let loop = for_each (offline_one env c) (get_player_by_conn_id s c) s in
      case result_of loop of Inl e \<Rightarrow> (Inl e, state_of loop)
      | Inr _ \<Rightarrow> (Inr (), del_player_list c (state_of loop)))"
  by (cases "for_each (offline_one env c) (get_player_by_conn_id s c) s";
      cases "fst (for_each (offline_one env c) (get_player_by_conn_id s c) s)")
     (auto simp: player_offline_def Let_def)

lemma offline_rel_index_ok:
  assumes "index_ok s" and "offline_rel c ps s t"
  shows "index_ok t"
proof (rule index_okI)
  fix k p
  assume "dget (players t) k = Some p"
  note reg = offline_relD(3) [OF assms(2) this]
  show "p_entity_id (pobj t p) = k" and "p \<in> set (get_player_by_conn_id t (p_client_conn_id (pobj t p)))"
    using index_ok_id [OF assms(1) reg] index_ok_listed [OF assms(1) reg] offline_relD(1,2) [OF assms(2)]
    by (simp_all add: get_player_by_conn_id_def)
next
  fix c' l
  assume "dget (conn_id_players t) c' = Some l"
  then show "l \<noteq> [] \<and> distinct l \<and> (\<forall>p \<in> set l. p_client_conn_id (pobj t p) = c')"
    using index_ok_list [OF assms(1)] offline_relD(1,2) [OF assms(2)] by simp
qed


lemma player_offline_done:
  assumes ok: "index_ok s" and hook: "\<And>p. keeps_index (env_player_offline env p)"
    and ret: "player_offline env c s = (Inr (), t)"
  shows "index_ok t \<and> dget (conn_id_players t) c = None \<and>
    (\<forall>k. dget (players t) k =
       (case dget (players s) k of None \<Rightarrow> None
        | Some p \<Rightarrow> if p_client_conn_id (pobj s p) = c then None else Some p))"
proof -
  let ?ps = "get_player_by_conn_id s c"
  let ?loop = "for_each (offline_one env c) ?ps s"
  let ?u = "state_of ?loop"
  from ret have fin: "result_of ?loop = Inr ()" and t: "t = del_player_list c ?u"
    by (auto simp: player_offline_apply Let_def split: sum.splits)
  have rel: "offline_rel c ?ps s ?u"
    and gone: "\<And>p. p \<in> set ?ps \<Longrightarrow> p_client_conn_id (pobj s p) = c \<Longrightarrow>
        dget (players ?u) (p_entity_id (pobj s p)) \<noteq> Some p"
    using offline_loop [OF hook, of c ?ps s] fin by blast+
  have off: "dget (players ?u) k =
       (case dget (players s) k of None \<Rightarrow> None
        | Some p \<Rightarrow> if p_client_conn_id (pobj s p) = c then None else Some p)" for k
  proof (cases "dget (players s) k")
    case None
    then have "dget (players ?u) k \<noteq> Some q" for q using offline_relD(3) [OF rel] by fastforce
    with None show ?thesis by (cases "dget (players ?u) k") auto
  next
    case (Some p)
    have "dget (players ?u) k = None" if c: "p_client_conn_id (pobj s p) = c"
    proof -
      have "p \<in> set ?ps" using index_ok_listed [OF ok Some] c by simp
      from gone [OF this c] have "dget (players ?u) k \<noteq> Some p"
        using index_ok_id [OF ok Some] by simp
      then show ?thesis
        using offline_relD(3) [OF rel, of k] Some by (cases "dget (players ?u) k") auto
    qed
    then show ?thesis using Some offline_relD(4) [OF rel Some] by auto
  qed
  have "index_ok t" unfolding t
  proof (rule del_player_list_index_ok [OF offline_rel_index_ok [OF ok rel]])
    show "p_client_conn_id (pobj ?u p) \<noteq> c" if "dget (players ?u) k = Some p" for k p
      using that off [of k] offline_relD(2) [OF rel] by (auto split: option.splits if_splits)
  qed
  with off show ?thesis by (simp add: t)
qed

subsection \<open>Moving to another connection\<close>

definition moved :: "string \<Rightarrow> string \<Rightarrow> player \<Rightarrow> player" where
  "moved gate_name conn_id x = x\<lparr>p_conn_client_gate := append_new gate_name (p_conn_client_gate x),
     p_client_conn_id := conn_id, p_client_gate_name := gate_name\<rparr>"

lemma moved_simps [simp]:
  "p_client_conn_id (moved g c x) = c" "p_client_gate_name (moved g c x) = g"
  "p_entity_id (moved g c x) = p_entity_id x"
  "moved g c (moved g c x) = moved g c x"
  "moved g c (x\<lparr>p_conn_client_gate := append_new g (p_conn_client_gate x)\<rparr>) = moved g c x"
  by (simp_all add: moved_def)

definition hook_ok :: "(hub, unit) py \<Rightarrow> bool" where
  "hook_ok m = (keeps_index m \<and> (\<forall>s. result_of (m s) = Inr ()))"

lemma move_player_apply:
  assumes "hook_ok (env_on_transfer_conn env q g c)"
  shows "\<exists>t. move_player env g c q s = (Inr (), t) \<and> players t = players s \<and>
    conn_id_players t = conn_id_players s \<and> pobj t = (pobj s)(q := moved g c (pobj s q))"
proof -
  let ?s = "upd_player q (moved g c) s"
  obtain r t where h: "env_on_transfer_conn env q g c ?s = (r, t)"
    by (cases "env_on_transfer_conn env q g c ?s")
  have k: "keeps_index (env_on_transfer_conn env q g c)"
    and "result_of (env_on_transfer_conn env q g c ?s) = Inr ()"
    using assms unfolding hook_ok_def by blast+
  with h have r: "r = Inr ()" by simp
  have "move_player env g c q s = env_on_transfer_conn env q g c ?s"
    using h r by (simp add: move_player_def upd_player_def moved_def)
  with h r keeps_indexD [OF k h] show ?thesis by simp
qed

lemma move_loop:
  assumes "\<And>q. hook_ok (env_on_transfer_conn env q g c)"
  shows "\<exists>t. for_each (move_player env g c) ps s = (Inr (), t) \<and> players t = players s \<and>
    conn_id_players t = conn_id_players s \<and>
    pobj t = (\<lambda>q. if q \<in> set ps then moved g c (pobj s q) else pobj s q)"
proof (induction ps arbitrary: s)
  case Nil
  then show ?case by simp
next
  case (Cons q ps)
  obtain t where t: "move_player env g c q s = (Inr (), t)" "players t = players s"
    "conn_id_players t = conn_id_players s" "pobj t = (pobj s)(q := moved g c (pobj s q))"
    using move_player_apply [OF assms, of q s] by blast
  obtain u where u: "for_each (move_player env g c) ps t = (Inr (), u)" "players u = players t"
    "conn_id_players u = conn_id_players t"
    "pobj u = (\<lambda>q. if q \<in> set ps then moved g c (pobj t q) else pobj t q)"
    using Cons.IH [of t] by blast
  from t u show ?case by (auto simp: fun_eq_iff)
qed

text \<open>The players that move: those of the old connection's list, and the player itself.\<close>

definition movers :: "nat \<Rightarrow> hub \<Rightarrow> nat list" where
  "movers p s = append_new p (get_player_by_conn_id s (p_client_conn_id (pobj s p)))"

lemma announce_conn_keeps:
  "keeps_index (announce_conn env p m r g c)"
  unfolding keeps_index_def
proof
  fix s
  show "players (state_of (announce_conn env p m r g c s)) = players s \<and>
     conn_id_players (state_of (announce_conn env p m r g c s)) = conn_id_players s \<and>
     pobj (state_of (announce_conn env p m r g c s)) = pobj s"
    by (cases "env_player_client_info env p s") (simp_all add: announce_conn_def Let_def)
qed

lemma announce_conn_result:
  "result_of (announce_conn env p m r g c s) =
     (case env_player_client_info env p s of Inl e \<Rightarrow> Inl e | Inr _ \<Rightarrow> Inr ())"
  by (cases "env_player_client_info env p s") (simp_all add: announce_conn_def Let_def)

text \<open>The state before the announcement.\<close>

definition conn_tables :: "string \<Rightarrow> string \<Rightarrow> nat \<Rightarrow> hub \<Rightarrow> hub \<Rightarrow> bool" where
  "conn_tables g c p s u = (players u = players s \<and>
     pobj u = (\<lambda>q. if q \<in> set (movers p s) then moved g c (pobj s q) else pobj s q) \<and>
     (\<forall>d. dget (conn_id_players u) d = (if d = c then Some (movers p s)
           else if d = p_client_conn_id (pobj s p) then None else dget (conn_id_players s) d)))"

lemma update_player_conn_run:
  assumes reg: "dget (players s) k = Some p"
    and hook: "\<And>q. hook_ok (env_on_transfer_conn env q g c)"
  shows "\<exists>u. conn_tables g c p s u \<and>
    update_player_conn env k m r g c s = bind_res (announce_conn env p m r g c u) (\<lambda>_. ret True)"
proof -
  let ?old = "p_client_conn_id (pobj s p)"
  let ?l = "movers p s"
  define s1 where "s1 = (case dget (conn_id_players s) ?old of None \<Rightarrow> s
      | Some _ \<Rightarrow> s\<lparr>conn_id_players := dset ?old ?l (conn_id_players s)\<rparr>)"
  define s2 where "s2 = upd_player p (\<lambda>x. x\<lparr>p_conn_client_gate := append_new g (p_conn_client_gate x)\<rparr>) s1"
  have s1: "players s1 = players s" "pobj s1 = pobj s"
    "d \<noteq> ?old \<Longrightarrow> dget (conn_id_players s1) d = dget (conn_id_players s) d" for d
    by (auto simp: s1_def split: option.splits)
  obtain t where t: "for_each (move_player env g c) ?l s2 = (Inr (), t)" "players t = players s2"
    "conn_id_players t = conn_id_players s2"
    "pobj t = (\<lambda>q. if q \<in> set ?l then moved g c (pobj s2 q) else pobj s2 q)"
    using move_loop [OF hook] by blast
  have pt: "pobj t = (\<lambda>q. if q \<in> set ?l then moved g c (pobj s q) else pobj s q)"
    using t(4) s1(2) by (auto simp: s2_def fun_eq_iff movers_def)
  define s3 where "s3 = (if ?old \<noteq> c then t\<lparr>conn_id_players := ddel ?old (conn_id_players t)\<rparr> else t)"
  define s4 where "s4 = s3\<lparr>conn_id_players := dset c ?l (conn_id_players s3)\<rparr>"
  have "conn_tables g c p s s4"
    using t(2,3) s1 pt by (auto simp: conn_tables_def s4_def s3_def s2_def)
  moreover have l: "append_new p (case dget (conn_id_players s) ?old of None \<Rightarrow> [] | Some l \<Rightarrow> l) = ?l"
    by (simp add: movers_def get_player_by_conn_id_def)
  have "update_player_conn env k m r g c s =
      bind_res (bind_res (announce_conn env p m r g c s4) (\<lambda>_. ret ())) (\<lambda>_. ret True)"
    using t(1) reg l unfolding update_player_conn_def s4_def s3_def s2_def s1_def
    by (cases "dget (conn_id_players s) ?old") (auto simp: Let_def)
  then have "update_player_conn env k m r g c s =
      bind_res (announce_conn env p m r g c s4) (\<lambda>_. ret True)"
    by (cases "announce_conn env p m r g c s4"; cases "fst (announce_conn env p m r g c s4)") auto
  ultimately show ?thesis by blast
qed

lemma update_player_conn_tables:
  assumes reg: "dget (players s) k = Some p"
    and hook: "\<And>q. hook_ok (env_on_transfer_conn env q g c)"
  shows "conn_tables g c p s (state_of (update_player_conn env k m r g c s))"
proof -
  obtain u where u: "conn_tables g c p s u"
    "update_player_conn env k m r g c s = bind_res (announce_conn env p m r g c u) (\<lambda>_. ret True)"
    using update_player_conn_run [OF reg hook] by blast
  obtain a t where a: "announce_conn env p m r g c u = (a, t)" by (cases "announce_conn env p m r g c u")
  have "state_of (update_player_conn env k m r g c s) = t"
    using u(2) a by (cases a) auto
  then show ?thesis
    using u(1) keeps_indexD [OF announce_conn_keeps a] by (simp add: conn_tables_def)
qed

lemma update_player_conn_returns:
  assumes reg: "dget (players s) k = Some p"
    and hook: "\<And>q. hook_ok (env_on_transfer_conn env q g c)"
    and info: "\<And>t. \<exists>b. env_player_client_info env p t = Inr b"
  shows "result_of (update_player_conn env k m r g c s) = Inr True"
proof -
  obtain u where u:
    "update_player_conn env k m r g c s = bind_res (announce_conn env p m r g c u) (\<lambda>_. ret True)"
    using update_player_conn_run [OF reg hook] by blast
  obtain b where "env_player_client_info env p u = Inr b" using info by blast
  then have "result_of (announce_conn env p m r g c u) = Inr ()"
    by (simp add: announce_conn_result)
  then show ?thesis unfolding u by (cases "announce_conn env p m r g c u") auto
qed

text \<open>
  The tables stay consistent when the new connection is the old one or has no players of its
  own yet.
\<close>

lemma conn_tables_index_ok:
  assumes ok: "index_ok s" and reg: "dget (players s) k = Some p"
    and target: "c = p_client_conn_id (pobj s p) \<or> dget (conn_id_players s) c = None"
    and tab: "conn_tables g c p s u"
  shows "index_ok u"
proof -
  let ?old = "p_client_conn_id (pobj s p)"
  have mv: "set (movers p s) = set (get_player_by_conn_id s ?old)"
    using index_ok_listed [OF ok reg] by (auto simp: movers_def)
  have u: "players u = players s"
    "\<And>q. pobj u q = (if q \<in> set (movers p s) then moved g c (pobj s q) else pobj s q)"
    "\<And>d. dget (conn_id_players u) d = (if d = c then Some (movers p s)
           else if d = ?old then None else dget (conn_id_players s) d)"
    using tab unfolding conn_tables_def by simp_all
  show ?thesis
  proof (rule index_okI)
    fix k' q
    assume "dget (players u) k' = Some q"
    then have reg': "dget (players s) k' = Some q" using u(1) by simp
    show "p_entity_id (pobj u q) = k'"
      using index_ok_id [OF ok reg'] by (simp add: u(2))
    show "q \<in> set (get_player_by_conn_id u (p_client_conn_id (pobj u q)))"
    proof (cases "q \<in> set (movers p s)")
      case True
      then show ?thesis by (simp add: u(2,3) get_player_by_conn_id_def)
    next
      case False
      then have "q \<notin> set (get_player_by_conn_id s ?old)" using mv by simp
      then have "p_client_conn_id (pobj s q) \<noteq> ?old" using index_ok_listed [OF ok reg'] by auto
      moreover have "p_client_conn_id (pobj s q) \<noteq> c"
        using target index_ok_listed [OF ok reg'] calculation
        by (auto simp: get_player_by_conn_id_def)
      ultimately show ?thesis
        using index_ok_listed [OF ok reg'] False by (simp add: u(2,3) get_player_by_conn_id_def)
    qed
  next
    fix d l
    assume l: "dget (conn_id_players u) d = Some l"
    show "l \<noteq> [] \<and> distinct l \<and> (\<forall>q \<in> set l. p_client_conn_id (pobj u q) = d)"
    proof (cases "d = c")
      case True
      with l have "l = movers p s" by (simp add: u(3))
      with True show ?thesis
        using index_ok_distinct [OF ok]
        by (auto simp: u(2) movers_def append_new_def)
    next
      case False
      with l have d: "d \<noteq> ?old" "dget (conn_id_players s) d = Some l"
        by (auto simp: u(3) split: if_splits)
      note li = index_ok_list [OF ok d(2)]
      have "q \<notin> set (movers p s)" if "q \<in> set l" for q
        using that li d(1) mv index_ok_member [OF ok] by auto
      with li show ?thesis by (auto simp: u(2))
    qed
  qed
qed


subsection \<open>The two players of the examples\<close>

text \<open>
  Players 0 and 1 have the same id, on connections \<open>c0\<close> and \<open>c1\<close>; player 2 is another one,
  on \<open>c1\<close>.
\<close>

definition two_sessions :: hub where
  "two_sessions = blank_hub\<lparr>pobj := (\<lambda>n.
     if n = 0 then blank_player\<lparr>p_entity_id := ''hero'', p_client_conn_id := ''c0''\<rparr>
     else if n = 1 then blank_player\<lparr>p_entity_id := ''hero'', p_client_conn_id := ''c1''\<rparr>
     else blank_player\<lparr>p_entity_id := ''pet'', p_client_conn_id := ''c1''\<rparr>)\<rparr>"

lemma index_ok_blank: "players s = [] \<Longrightarrow> conn_id_players s = [] \<Longrightarrow> index_ok s"
  by (simp add: index_ok_def)

lemma two_sessions_ok: "index_ok (add_player 0 two_sessions)"
  by (rule add_player_index_ok) (simp add: index_ok_blank two_sessions_def)

lemma two_sessions_pets_ok: "index_ok (add_player 2 (add_player 0 two_sessions))"
  by (rule add_player_index_ok [OF two_sessions_ok])

lemma quiet_hooks [simp]:
  "keeps_index (ret ())" "hook_ok (ret ())"
  by (simp_all add: keeps_index_def hook_ok_def)

subsection \<open>Properties\<close>

text \<open>C1: a new instance of a player takes over its id and the old instance leaves every
  connection's list.\<close>

theorem add_player_takeover:
  assumes ok: "index_ok s" and old: "get_player s (p_entity_id (pobj s p)) = Some old"
    and new: "old \<noteq> p"
  shows "index_ok (add_player p s) \<and>
    get_player (add_player p s) (p_entity_id (pobj s p)) = Some p \<and>
    p \<in> set (get_player_by_conn_id (add_player p s) (p_client_conn_id (pobj s p))) \<and>
    (\<forall>c. old \<notin> set (get_player_by_conn_id (add_player p s) c))"
proof -
  from old have reg: "dget (players s) (p_entity_id (pobj s p)) = Some old"
    by (simp add: get_player_def)
  have "old \<notin> set (get_player_by_conn_id (taken_over p s) c)" for c
    using index_ok_member [OF ok] index_ok_distinct [OF ok] reg new
    by (auto simp: taken_over_lists)
  then show ?thesis
    using add_player_index_ok [OF ok] new by (auto simp: add_player_lists get_player_def)
qed

theorem add_player_takeover_witness:
  "get_player (add_player 1 (add_player 0 two_sessions)) ''hero'' = Some 1 \<and>
   0 \<notin> set (get_player_by_conn_id (add_player 1 (add_player 0 two_sessions)) ''c0'')"
  using add_player_takeover [OF two_sessions_ok, of 1 0]
  by (simp add: get_player_def two_sessions_def)

text \<open>C23: the disconnection of the old connection does not put the new instance offline.\<close>

theorem stale_disconnect_harmless:
  assumes ok: "index_ok s" and old: "get_player s (p_entity_id (pobj s p)) = Some old"
    and conn: "p_client_conn_id (pobj s old) \<noteq> p_client_conn_id (pobj s p)"
    and hook: "\<forall>q. keeps_index (env_player_offline env q)"
  shows "get_player (state_of (player_offline env (p_client_conn_id (pobj s old)) (add_player p s)))
           (p_entity_id (pobj s p)) = Some p"
proof -
  let ?c = "p_client_conn_id (pobj s old)"
  let ?t = "add_player p s"
  let ?loop = "for_each (offline_one env ?c) (get_player_by_conn_id ?t ?c) ?t"
  have rel: "offline_rel ?c (get_player_by_conn_id ?t ?c) ?t (state_of ?loop)"
    using offline_loop hook by blast
  have "dget (players ?t) (p_entity_id (pobj s p)) = Some p" by simp
  from offline_relD(4) [OF rel this] conn
  have "dget (players (state_of ?loop)) (p_entity_id (pobj s p)) = Some p" by simp
  then show ?thesis
    by (cases "result_of ?loop") (simp_all add: player_offline_apply Let_def get_player_def)
qed

theorem stale_disconnect_harmless_witness:
  "get_player (state_of (player_offline quiet_env ''c0'' (add_player 1 (add_player 0 two_sessions))))
     ''hero'' = Some 1"
  using stale_disconnect_harmless [OF two_sessions_ok, of 1 0 quiet_env]
  by (simp add: get_player_def two_sessions_def)

text \<open>C24: a disconnection puts exactly the players of that connection offline and keeps the
  tables consistent.\<close>

theorem player_offline_exact:
  assumes ok: "index_ok s" and hook: "\<forall>p. keeps_index (env_player_offline env p)"
    and ret: "result_of (player_offline env c s) = Inr ()"
  shows "index_ok (state_of (player_offline env c s)) \<and>
    get_player_by_conn_id (state_of (player_offline env c s)) c = [] \<and>
    get_player (state_of (player_offline env c s)) k =
       (case get_player s k of None \<Rightarrow> None
        | Some p \<Rightarrow> if p_client_conn_id (pobj s p) = c then None else Some p)"
proof -
  have "player_offline env c s = (Inr (), state_of (player_offline env c s))"
    using ret by (cases "player_offline env c s") simp
  from player_offline_done [OF ok _ this] hook show ?thesis
    by (simp add: get_player_def get_player_by_conn_id_def)
qed

theorem player_offline_exact_witness:
  "get_player (state_of (player_offline quiet_env ''c0'' (add_player 2 (add_player 0 two_sessions)))) ''hero'' = None \<and>
   get_player (state_of (player_offline quiet_env ''c0'' (add_player 2 (add_player 0 two_sessions)))) ''pet'' = Some 2"
proof -
  have "result_of (player_offline quiet_env ''c0'' (add_player 2 (add_player 0 two_sessions))) = Inr ()"
    by (simp add: player_offline_def offline_one_def add_player_def two_sessions_def Let_def
        get_player_by_conn_id_def has_key_def)
  from player_offline_exact [OF two_sessions_pets_ok _ this, of "''hero''"]
    player_offline_exact [OF two_sessions_pets_ok _ this, of "''pet''"]
  show ?thesis by (simp add: get_player_def two_sessions_def)
qed

text \<open>C22: a transfer moves every player of the old connection to the new one, keeps the tables
  consistent, and a later disconnection of the old connection does nothing.\<close>

theorem update_player_conn_moves:
  fixes m r :: bool
  assumes ok: "index_ok s" and reg: "get_player s k = Some p"
    and fresh: "c \<noteq> p_client_conn_id (pobj s p)" "get_player_by_conn_id s c = []"
    and hook: "\<forall>q. hook_ok (env_on_transfer_conn env q g c)"
    and info: "\<forall>t. \<exists>b. env_player_client_info env p t = Inr b"
  defines "u \<equiv> state_of (update_player_conn env k m r g c s)"
  shows "result_of (update_player_conn env k m r g c s) = Inr True \<and> index_ok u \<and>
    players u = players s \<and>
    (\<forall>q \<in> set (get_player_by_conn_id s (p_client_conn_id (pobj s p))).
       p_client_conn_id (pobj u q) = c \<and> p_client_gate_name (pobj u q) = g) \<and>
    player_offline env (p_client_conn_id (pobj s p)) u = (Inr (), u)"
proof -
  from reg have reg': "dget (players s) k = Some p" by (simp add: get_player_def)
  have none: "dget (conn_id_players s) c = None"
    using fresh(2) index_ok_lists_ok [OF ok] unfolding lists_ok_def by simp
  have tab: "conn_tables g c p s u"
    unfolding u_def using update_player_conn_tables [OF reg'] hook by blast
  have "index_ok u" using conn_tables_index_ok [OF ok reg' _ tab] none by blast
  moreover have "result_of (update_player_conn env k m r g c s) = Inr True"
    using update_player_conn_returns [OF reg'] hook info by blast
  moreover have "dget (conn_id_players u) (p_client_conn_id (pobj s p)) = None"
    using tab fresh(1) by (simp add: conn_tables_def)
  then have "player_offline env (p_client_conn_id (pobj s p)) u = (Inr (), u)"
    by (simp add: player_offline_def get_player_by_conn_id_def del_player_list_def has_key_def)
  ultimately show ?thesis
    using tab by (simp add: conn_tables_def movers_def)
qed

theorem update_player_conn_moves_witness:
  "p_client_conn_id (pobj (state_of
     (update_player_conn quiet_env ''hero'' True True ''g1'' ''c9'' (add_player 0 two_sessions))) 0) = ''c9''"
proof -
  have "get_player (add_player 0 two_sessions) ''hero'' = Some 0"
    "get_player_by_conn_id (add_player 0 two_sessions) ''c9'' = []"
    "''c9'' \<noteq> p_client_conn_id (pobj (add_player 0 two_sessions) 0)"
    "0 \<in> set (get_player_by_conn_id (add_player 0 two_sessions) ''c0'')"
    by (simp_all add: get_player_def get_player_by_conn_id_def add_player_def two_sessions_def
        Let_def has_key_def)
  with update_player_conn_moves [OF two_sessions_ok this(1) this(3) this(2),
      where env = quiet_env and g = "''g1''" and m = True and r = True]
  show ?thesis by (auto simp: two_sessions_def)
qed

text \<open>C37: a transfer to a connection that has players of its own drops them from the index:
  they stay registered, and the disconnection of their connection no longer reaches them.\<close>

theorem update_player_conn_drops_residents:
  fixes m r :: bool
  assumes ok: "index_ok s" and reg: "get_player s k = Some p"
    and res: "get_player s k' = Some q" "p_client_conn_id (pobj s q) = c"
    and other: "p_client_conn_id (pobj s p) \<noteq> c"
    and hook: "\<forall>q. hook_ok (env_on_transfer_conn env q g c)"
      "\<forall>q. keeps_index (env_player_offline env q)"
  defines "u \<equiv> state_of (update_player_conn env k m r g c s)"
  shows "q \<notin> set (get_player_by_conn_id u c) \<and> p_client_conn_id (pobj u q) = c \<and>
    get_player (state_of (player_offline env c u)) k' = Some q"
proof -
  from reg have reg': "dget (players s) k = Some p" by (simp add: get_player_def)
  have tab: "conn_tables g c p s u"
    unfolding u_def using update_player_conn_tables [OF reg'] hook(1) by blast
  have "q \<noteq> p" using res(2) other by auto
  moreover have "q \<notin> set (get_player_by_conn_id s (p_client_conn_id (pobj s p)))"
    using index_ok_member [OF ok, of q "p_client_conn_id (pobj s p)"] res(2) other by auto
  ultimately have "q \<notin> set (movers p s)" by (simp add: movers_def)
  moreover have "get_player_by_conn_id u c = movers p s" "players u = players s"
    "pobj u q = (if q \<in> set (movers p s) then moved g c (pobj s q) else pobj s q)"
    using tab unfolding conn_tables_def by (simp_all add: get_player_by_conn_id_def)
  ultimately have off: "q \<notin> set (get_player_by_conn_id u c)"
    and conn: "p_client_conn_id (pobj u q) = c"
    and reg_u: "dget (players u) k' = Some q"
    using res by (simp_all add: get_player_def)
  let ?loop = "for_each (offline_one env c) (get_player_by_conn_id u c) u"
  have "offline_rel c (get_player_by_conn_id u c) u (state_of ?loop)"
    using offline_loop hook(2) by blast
  from offline_relD(5) [OF this reg_u off]
  have "get_player (state_of (player_offline env c u)) k' = Some q"
    by (cases "result_of ?loop") (simp_all add: player_offline_apply Let_def get_player_def)
  with off conn show ?thesis by blast
qed

theorem update_player_conn_drops_residents_witness:
  "get_player (state_of (player_offline quiet_env ''c1'' (state_of
     (update_player_conn quiet_env ''hero'' True True ''g1'' ''c1''
        (add_player 2 (add_player 0 two_sessions)))))) ''pet'' = Some 2"
  using update_player_conn_drops_residents [OF two_sessions_pets_ok, of "''hero''" 0 "''pet''" 2 "''c1''"
      quiet_env "''g1''" True True]
  by (simp add: get_player_def two_sessions_def)

end
