(* ===== verification/Subentity.thy ===== *)
theory Subentity
  imports Callback
begin

section \<open>Sub-entities: the remote half of an entity of another hub\<close>

text \<open>
  \<open>subentity.py\<close>: a hub holds a \<open>subentity\<close> for an entity that lives on another hub.
  Calls go to that hub, and while the entity migrates (\<open>is_migrate\<close>) they are kept in
  \<open>cache_msg\<close>, as closures over the message but not over the hub to send to, and sent when the
  migration completes.
\<close>

subsection \<open>The object\<close>

definition new_subentity :: "bool \<Rightarrow> string \<Rightarrow> string \<Rightarrow> string \<Rightarrow> int \<Rightarrow> subentity" where
  "new_subentity is_migrate source_hub_name entity_type entity_id rnd =
     \<lparr>s_entity_type = entity_type, s_entity_id = entity_id, s_request_msg_cb_id = rnd,
      s_hub_notify_callback = [], s_hub_callback = [], s_source_hub_name = source_hub_name,
      s_is_migrate = is_migrate, s_cache_msg = []\<rparr>"

definition sub_add_subentity :: "nat \<Rightarrow> hub \<Rightarrow> hub" where
  "sub_add_subentity x s = s\<lparr>subentities := dset (s_entity_id (sobj s x)) x (subentities s)\<rparr>"

definition subentity_init :: "nat \<Rightarrow> bool \<Rightarrow> string \<Rightarrow> string \<Rightarrow> string \<Rightarrow> int \<Rightarrow> hub \<Rightarrow> hub" where
  "subentity_init x is_migrate source_hub_name entity_type entity_id rnd s =
     sub_add_subentity x
       (upd_sub x (\<lambda>_. new_subentity is_migrate source_hub_name entity_type entity_id rnd) s)"

definition sub_del_callback :: "nat \<Rightarrow> int \<Rightarrow> (hub, bool) py" where
  "sub_del_callback x msg_cb_id = (\<lambda>s.
     if \<not> has_key (s_hub_callback (sobj s x)) msg_cb_id then (Inr False, s)
     else (Inr True, upd_sub x (\<lambda>ob. ob\<lparr>s_hub_callback := ddel msg_cb_id (s_hub_callback ob)\<rparr>) s))"

text \<open>\<open>del self.hub_callback[msg_cb_id]\<close>.\<close>

definition sub_drop_callback :: "nat \<Rightarrow> int \<Rightarrow> (hub, unit) py" where
  "sub_drop_callback x msg_cb_id = (\<lambda>s.
     case delitem msg_cb_id (s_hub_callback (sobj s x)) of
       Inl e \<Rightarrow> (Inl e, s)
     | Inr d \<Rightarrow> (Inr (), upd_sub x (\<lambda>ob. ob\<lparr>s_hub_callback := d\<rparr>) s))"

definition sub_handle_hub_response :: "env \<Rightarrow> nat \<Rightarrow> string \<Rightarrow> int \<Rightarrow> bytes \<Rightarrow> (hub, unit) py" where
  "sub_handle_hub_response env x hub_name msg_cb_id argvs = read (\<lambda>s.
     case dget (s_hub_callback (sobj s x)) msg_cb_id of
       None \<Rightarrow> raise KeyError
     | Some None \<Rightarrow> app_log ''error'' ''unhandle response msg_cb_id:{}, hub:{}''
     | Some (Some c) \<Rightarrow>
         block [call_fn env (cb_callback (cobj s c)) (Rsp_args argvs),
                sub_drop_callback x msg_cb_id])"

definition sub_handle_hub_response_error :: "env \<Rightarrow> nat \<Rightarrow> string \<Rightarrow> int \<Rightarrow> bytes \<Rightarrow> (hub, unit) py" where
  "sub_handle_hub_response_error env x hub_name msg_cb_id argvs = read (\<lambda>s.
     case dget (s_hub_callback (sobj s x)) msg_cb_id of
       None \<Rightarrow> raise KeyError
     | Some None \<Rightarrow> app_log ''error'' ''unhandle response msg_cb_id:{}, hub:{}''
     | Some (Some c) \<Rightarrow>
         block [call_fn env (cb_error (cobj s c)) (Rsp_args argvs),
                sub_drop_callback x msg_cb_id])"

definition sub_handle_hub_notify :: "env \<Rightarrow> nat \<Rightarrow> string \<Rightarrow> string \<Rightarrow> bytes \<Rightarrow> (hub, unit) py" where
  "sub_handle_hub_notify env x source_hub method argvs = read (\<lambda>s.
     dispatch env (s_hub_notify_callback (sobj s x)) method (Notify_args source_hub argvs)
       ''unhandle notify method:{}, source:{}'')"

definition sub_reg_hub_notify_callback :: "nat \<Rightarrow> string \<Rightarrow> fn option \<Rightarrow> hub \<Rightarrow> hub" where
  "sub_reg_hub_notify_callback x method f s =
     upd_sub x (\<lambda>ob. ob\<lparr>s_hub_notify_callback := dset method f (s_hub_notify_callback ob)\<rparr>) s"

text \<open>
  The message id is taken and the counter advanced before the call is sent or cached, and
  the closure captures the id of this call.
\<close>

definition sub_call_hub_request :: "nat \<Rightarrow> string \<Rightarrow> bytes \<Rightarrow> (hub, int) py" where
  "sub_call_hub_request x method argvs = read (\<lambda>s.
     let ob = sobj s x; msg_cb_id = s_request_msg_cb_id ob in
     bindp (block
       [modify (upd_sub x (\<lambda>ob. ob\<lparr>s_request_msg_cb_id := s_request_msg_cb_id ob + 1\<rparr>)),
        (if \<not> s_is_migrate ob
         then cast (Hub_call_hub_rpc (s_source_hub_name ob) (s_entity_id ob) msg_cb_id method argvs)
         else modify (upd_sub x (\<lambda>ob. ob\<lparr>s_cache_msg := s_cache_msg ob @
                [\<lambda>hub eid. Hub_call_hub_rpc hub eid msg_cb_id method argvs]\<rparr>)))])
       (\<lambda>_. ret msg_cb_id))"

definition sub_reg_hub_callback :: "nat \<Rightarrow> int \<Rightarrow> nat option \<Rightarrow> hub \<Rightarrow> hub" where
  "sub_reg_hub_callback x msg_cb_id rsp s =
     upd_sub x (\<lambda>ob. ob\<lparr>s_hub_callback := dset msg_cb_id rsp (s_hub_callback ob)\<rparr>) s"

definition sub_call_hub_notify :: "nat \<Rightarrow> string \<Rightarrow> bytes \<Rightarrow> (hub, unit) py" where
  "sub_call_hub_notify x method argvs = read (\<lambda>s.
     let ob = sobj s x in
     if \<not> s_is_migrate ob
     then cast (Hub_call_hub_ntf (s_source_hub_name ob) (s_entity_id ob) method argvs)
     else modify (upd_sub x (\<lambda>ob. ob\<lparr>s_cache_msg := s_cache_msg ob @
            [\<lambda>hub eid. Hub_call_hub_ntf hub eid method argvs]\<rparr>)))"

definition sub_do_cache_msg :: "nat \<Rightarrow> string \<Rightarrow> (hub, unit) py" where
  "sub_do_cache_msg x hub_name = block
     [modify (upd_sub x (\<lambda>ob. ob\<lparr>s_is_migrate := False\<rparr>)),
      modify (upd_sub x (\<lambda>ob. ob\<lparr>s_source_hub_name := hub_name\<rparr>)),
      read (\<lambda>s. for_each (\<lambda>msg_call. cast (msg_call (s_source_hub_name (sobj s x)) (s_entity_id (sobj s x))))
                  (s_cache_msg (sobj s x))),
      modify (upd_sub x (\<lambda>ob. ob\<lparr>s_cache_msg := []\<rparr>))]"

subsection \<open>The manager\<close>

definition get_subentity :: "hub \<Rightarrow> string \<Rightarrow> nat option" where
  "get_subentity s entity_id = dget (subentities s) entity_id"

definition del_subentity :: "string \<Rightarrow> hub \<Rightarrow> hub" where
  "del_subentity entity_id s =
     (if has_key (subentities s) entity_id
      then s\<lparr>subentities := ddel entity_id (subentities s)\<rparr> else s)"

interpretation sub_registry: registry get_subentity
  "\<lambda>k x s. s\<lparr>subentities := dset k x (subentities s)\<rparr>" del_subentity
  by unfold_locales (auto simp: get_subentity_def del_subentity_def has_key_def)

lemma sub_add_subentity_eq:
  "sub_add_subentity x s = s\<lparr>subentities := dset (s_entity_id (sobj s x)) x (subentities s)\<rparr>"
  by (simp add: sub_add_subentity_def)

subsection \<open>Pending requests\<close>

lemma sub_drop_callback_known:
  "has_key (s_hub_callback (sobj s x)) i \<Longrightarrow>
   sub_drop_callback x i s =
     (Inr (), upd_sub x (\<lambda>ob. ob\<lparr>s_hub_callback := ddel i (s_hub_callback (sobj s x))\<rparr>) s)"
  by (auto simp: sub_drop_callback_def has_key_def)

lemma upd_sub_obj [simp]:
  "sobj (upd_sub x f s) = (sobj s)(x := f (sobj s x))"
  "cobj (upd_sub x f s) = cobj s" "outbox (upd_sub x f s) = outbox s"
  "subentities (upd_sub x f s) = subentities s"
  by (simp_all add: upd_sub_def)

interpretation sub_rsp: pending_requests
  "\<lambda>s. s_hub_callback (sobj s x)" "\<lambda>i c. sub_reg_hub_callback x i c"
  "\<lambda>env i b. sub_handle_hub_response env x h i b" "sub_del_callback x" cb_callback
  for x h
  by unfold_locales
     (auto simp: sub_reg_hub_callback_def sub_handle_hub_response_def sub_del_callback_def
        sub_drop_callback_known has_key_def)

interpretation sub_err: pending_requests
  "\<lambda>s. s_hub_callback (sobj s x)" "\<lambda>i c. sub_reg_hub_callback x i c"
  "\<lambda>env i b. sub_handle_hub_response_error env x h i b" "sub_del_callback x" cb_error
  for x h
  by unfold_locales
     (auto simp: sub_reg_hub_callback_def sub_handle_hub_response_error_def sub_del_callback_def
        sub_drop_callback_known has_key_def)


subsection \<open>No call is lost or reordered by a migration\<close>

lemma sub_do_cache_msg_apply:
  "sub_do_cache_msg x hub_name s =
     (Inr (), emits (List.map (\<lambda>c. c hub_name (s_entity_id (sobj s x))) (s_cache_msg (sobj s x)))
        (upd_sub x (\<lambda>ob. ob\<lparr>s_is_migrate := False, s_source_hub_name := hub_name,
                              s_cache_msg := []\<rparr>) s))"
  by (simp add: sub_do_cache_msg_def for_each_cast upd_sub_def emits_def)

text \<open>The payload of a call to the remote entity, without its target.\<close>

type_synonym payload = "int option \<times> string \<times> bytes"

fun payload_of :: "ctx_call \<Rightarrow> payload option" where
  "payload_of (Hub_call_hub_rpc hub eid i m a) = Some (Some i, m, a)"
| "payload_of (Hub_call_hub_ntf hub eid m a) = Some (None, m, a)"
| "payload_of _ = None"

text \<open>What may happen to a sub-entity, in any order, and the calls it issues.\<close>

datatype sub_op = Op_request string bytes | Op_notify string bytes | Op_wait | Op_complete string

fun sub_step :: "nat \<Rightarrow> sub_op \<Rightarrow> (hub, unit) py" where
  "sub_step x (Op_request m a) = bindp (sub_call_hub_request x m a) (\<lambda>_. ret ())"
| "sub_step x (Op_notify m a) = sub_call_hub_notify x m a"
| "sub_step x Op_wait = modify (upd_sub x (\<lambda>ob. ob\<lparr>s_is_migrate := True\<rparr>))"
| "sub_step x (Op_complete hub) = sub_do_cache_msg x hub"

fun issued :: "int \<Rightarrow> sub_op list \<Rightarrow> payload list" where
  "issued i [] = []"
| "issued i (Op_request m a # ops) = (Some i, m, a) # issued (i + 1) ops"
| "issued i (Op_notify m a # ops) = (None, m, a) # issued i ops"
| "issued i (_ # ops) = issued i ops"

text \<open>A cached closure whose payload does not depend on where it will be sent.\<close>

definition fixed_payload :: "(string \<Rightarrow> string \<Rightarrow> ctx_call) \<Rightarrow> bool" where
  "fixed_payload c = (\<forall>h e. payload_of (c h e) = payload_of (c [] []))"

lemma fixed_payloadD: "fixed_payload c \<Longrightarrow> payload_of (c h e) = payload_of (c [] [])"
  unfolding fixed_payload_def by blast

lemma fixed_payload_calls [simp]:
  "fixed_payload (\<lambda>hub eid. Hub_call_hub_rpc hub eid i m a)"
  "fixed_payload (\<lambda>hub eid. Hub_call_hub_ntf hub eid m a)"
  by (simp_all add: fixed_payload_def)

definition sub_inv :: "nat \<Rightarrow> hub \<Rightarrow> bool" where
  "sub_inv x s = ((\<not> s_is_migrate (sobj s x) \<longrightarrow> s_cache_msg (sobj s x) = []) \<and>
     (\<forall>c \<in> set (s_cache_msg (sobj s x)). fixed_payload c))"

text \<open>Everything issued so far: what was sent, then what is still cached.\<close>

definition sub_stream :: "nat \<Rightarrow> hub \<Rightarrow> payload option list" where
  "sub_stream x s = List.map payload_of (outbox s) @
                    List.map (\<lambda>c. payload_of (c [] [])) (s_cache_msg (sobj s x))"

lemma sub_init_inv: "sub_inv x (subentity_init x m h t e r s)"
  by (simp add: sub_inv_def subentity_init_def sub_add_subentity_def new_subentity_def upd_defs)

lemma sub_call_apply:
  "sub_step x (Op_request m a) s = (Inr (),
     let ob = sobj s x; i = s_request_msg_cb_id ob;
         s' = upd_sub x (\<lambda>ob. ob\<lparr>s_request_msg_cb_id := i + 1\<rparr>) s
     in if s_is_migrate ob
        then upd_sub x (\<lambda>ob. ob\<lparr>s_cache_msg := s_cache_msg (sobj s x) @
               [\<lambda>hub eid. Hub_call_hub_rpc hub eid i m a]\<rparr>) s'
        else emit (Hub_call_hub_rpc (s_source_hub_name ob) (s_entity_id ob) i m a) s')"
  "sub_step x (Op_notify m a) s = (Inr (),
     let ob = sobj s x
     in if s_is_migrate ob
        then upd_sub x (\<lambda>ob. ob\<lparr>s_cache_msg := s_cache_msg (sobj s x) @
               [\<lambda>hub eid. Hub_call_hub_ntf hub eid m a]\<rparr>) s
        else emit (Hub_call_hub_ntf (s_source_hub_name ob) (s_entity_id ob) m a) s)"
  by (simp_all add: sub_call_hub_request_def sub_call_hub_notify_def Let_def upd_sub_def)

definition sub_step_ok :: "nat \<Rightarrow> sub_op \<Rightarrow> hub \<Rightarrow> hub \<Rightarrow> bool" where
  "sub_step_ok x a s t = (sub_inv x t \<and>
    sub_stream x t = sub_stream x s @ List.map Some (issued (s_request_msg_cb_id (sobj s x)) [a]) \<and>
    (\<forall>ops. issued (s_request_msg_cb_id (sobj s x)) (a # ops) =
       issued (s_request_msg_cb_id (sobj s x)) [a] @ issued (s_request_msg_cb_id (sobj t x)) ops))"

lemma sub_step_stream:
  assumes inv: "sub_inv x s"
  shows "\<exists>t. sub_step x a s = (Inr (), t) \<and> sub_step_ok x a s t"
proof (cases a)
  case (Op_request m b)
  show ?thesis
    unfolding Op_request sub_call_apply Let_def
    using inv by (cases "s_is_migrate (sobj s x)") (simp_all add: sub_step_ok_def sub_inv_def sub_stream_def)
next
  case (Op_notify m b)
  show ?thesis
    unfolding Op_notify sub_call_apply Let_def
    using inv by (cases "s_is_migrate (sobj s x)") (simp_all add: sub_step_ok_def sub_inv_def sub_stream_def)
next
  case Op_wait
  with inv show ?thesis
    by (simp add: sub_step_ok_def sub_inv_def sub_stream_def)
next
  case (Op_complete hub)
  with inv show ?thesis
    by (auto simp: sub_step_ok_def sub_inv_def sub_stream_def sub_do_cache_msg_apply
             intro!: fixed_payloadD)
qed

lemma sub_run_stream:
  assumes "sub_inv x s"
  shows "\<exists>t. for_each (sub_step x) ops s = (Inr (), t) \<and> sub_inv x t \<and>
    sub_stream x t = sub_stream x s @ List.map Some (issued (s_request_msg_cb_id (sobj s x)) ops)"
  using assms
proof (induction ops arbitrary: s)
  case Nil
  then show ?case by simp
next
  case (Cons a ops)
  from sub_step_stream [OF Cons.prems, of a] obtain t where
    t: "sub_step x a s = (Inr (), t)" "sub_step_ok x a s t"
    by blast
  then have ti: "sub_inv x t"
    and st: "sub_stream x t =
      sub_stream x s @ List.map Some (issued (s_request_msg_cb_id (sobj s x)) [a])"
    and iss: "issued (s_request_msg_cb_id (sobj s x)) (a # ops) =
      issued (s_request_msg_cb_id (sobj s x)) [a] @ issued (s_request_msg_cb_id (sobj t x)) ops"
    unfolding sub_step_ok_def by blast+
  from Cons.IH [OF ti] obtain u where
    u: "for_each (sub_step x) ops t = (Inr (), u)" "sub_inv x u"
       "sub_stream x u = sub_stream x t @ List.map Some (issued (s_request_msg_cb_id (sobj t x)) ops)"
    by blast
  have "for_each (sub_step x) (a # ops) s = (Inr (), u)"
    using t(1) u(1) by simp
  moreover have "sub_stream x u = sub_stream x s @
      List.map Some (issued (s_request_msg_cb_id (sobj s x)) (a # ops))"
    unfolding iss u(3) st by (simp only: map_append append_assoc)
  ultimately show ?case using u(2) by blast
qed


subsection \<open>Properties\<close>

text \<open>C3: over any interleaving of requests, notifications and migrations, every call the
  sub-entity issued is either sent or still cached, once and in the order of the calls, and
  once the migration is over nothing is cached.\<close>

theorem sub_calls_in_order:
  assumes "sub_inv x s"
  shows "result_of (for_each (sub_step x) ops s) = Inr () \<and>
    sub_stream x (state_of (for_each (sub_step x) ops s)) =
      sub_stream x s @ List.map Some (issued (s_request_msg_cb_id (sobj s x)) ops) \<and>
    s_cache_msg (sobj (state_of (for_each (sub_step x) (ops @ [Op_complete h]) s)) x) = []"
proof -
  obtain t where t: "for_each (sub_step x) ops s = (Inr (), t)"
    "sub_stream x t = sub_stream x s @ List.map Some (issued (s_request_msg_cb_id (sobj s x)) ops)"
    using sub_run_stream [OF assms, of ops] by blast
  then show ?thesis by (simp add: for_each_append sub_do_cache_msg_apply emits_def)
qed

theorem sub_calls_in_order_witness:
  "s_cache_msg (sobj (state_of (for_each (sub_step 0)
     ([Op_wait, Op_notify ''m'' ''a'', Op_request ''r'' ''b''] @ [Op_complete ''hub2''])
     (subentity_init 0 False ''hub1'' ''t'' ''e'' 100 blank_hub))) 0) = []"
  using sub_calls_in_order [OF sub_init_inv [of 0 False "''hub1''" "''t''" "''e''" 100 blank_hub],
      of "[Op_wait, Op_notify ''m'' ''a'', Op_request ''r'' ''b'']" "''hub2''"] by blast

text \<open>The calls cached during a migration go to the new hub, in order, when it completes.\<close>

theorem sub_cache_flushed_to_new_hub:
  "outbox (state_of (sub_do_cache_msg x hub_name s)) =
     outbox s @ List.map (\<lambda>c. c hub_name (s_entity_id (sobj s x))) (s_cache_msg (sobj s x)) \<and>
   s_source_hub_name (sobj (state_of (sub_do_cache_msg x hub_name s)) x) = hub_name \<and>
   \<not> s_is_migrate (sobj (state_of (sub_do_cache_msg x hub_name s)) x)"
  by (simp add: sub_do_cache_msg_apply)

text \<open>C32: a request is answered at most once by a callback that returns: after the response ran, a
  second response raises \<open>KeyError\<close> and the timeout does nothing.  A callback that raises ends the
  response in front of the \<open>del\<close>: the exception leaves the handler and the request stays open, for a
  second response or the timeout to take.  The callback itself leaves the request registered.\<close>

theorem sub_request_answered_once:
  fixes h :: string
  assumes "dget (s_hub_callback (sobj s x)) i = Some (Some c)" and "cb_callback (cobj s c) = Some f"
    and "env_invoke env f (Rsp_args b) s = (r, s')" and "has_key (s_hub_callback (sobj s' x)) i"
  defines "t \<equiv> state_of (sub_handle_hub_response env x h i b s)"
  shows "case r of
      Inr _ \<Rightarrow> result_of (sub_handle_hub_response env x h i b' t) = Inl KeyError
        \<and> call_timeout env (sub_del_callback x i) c' t = (Inr (), t)
    | Inl e \<Rightarrow> sub_handle_hub_response env x h i b s = (Inl e, s')
        \<and> result_of (sub_del_callback x i t) = Inr True"
proof (cases r)
  case (Inl e)
  then have "sub_handle_hub_response env x h i b s = (Inl e, s')"
    using assms(1-3) by (simp add: sub_handle_hub_response_def)
  then show ?thesis using assms(4) by (simp add: Inl t_def sub_del_callback_def)
next
  case (Inr u)
  then have "env_invoke env f (Rsp_args b) s = (Inr (), s')" using assms(3) by simp
  then show ?thesis
    using sub_rsp.answered_once [OF assms(1,2) _ assms(4)] sub_rsp.answered_then_no_timeout [OF assms(1,2) _ assms(4)]
    by (simp add: Inr t_def)
qed

theorem sub_request_answered_once_witness:
  "result_of (sub_handle_hub_response quiet_env 0 [] 7 ''x'' (state_of
     (sub_handle_hub_response quiet_env 0 [] 7 ''x''
       (callback_callback 3 (Some 9) None (sub_reg_hub_callback 0 7 (Some 3) blank_hub))))) = Inl KeyError"
  using sub_request_answered_once [where env = quiet_env and x = 0 and i = 7 and c = 3 and f = 9
      and r = "Inr ()" and b = "''x''" and b' = "''x''" and h = "[]"
      and s = "callback_callback 3 (Some 9) None (sub_reg_hub_callback 0 7 (Some 3) blank_hub)"
      and s' = "callback_callback 3 (Some 9) None (sub_reg_hub_callback 0 7 (Some 3) blank_hub)"]
  by (simp add: sub_reg_hub_callback_def callback_callback_def upd_defs has_key_def)

end
