(* ===== verification/Service.thy ===== *)
theory Service
  imports Player_Manager Subentity
begin

section \<open>Receivers, services and the login coroutines\<close>

text \<open>
  \<open>receiver.py\<close>, \<open>service.py\<close>, \<open>login.py\<close>.  A receiver only takes notifications.  A service is an
  object of the application, registered by name; a query for a service goes to the hub that
  runs it, and is answered in place when that is this hub.  The coroutines take the value
  they await (the hub found, \<open>None\<close> or an empty name when there is none) as an argument.
\<close>

subsection \<open>Receivers\<close>

definition add_receiver :: "nat \<Rightarrow> hub \<Rightarrow> hub" where
  "add_receiver x s = s\<lparr>receivers := dset (r_entity_id (robj s x)) x (receivers s)\<rparr>"

definition receiver_init :: "nat \<Rightarrow> string \<Rightarrow> string \<Rightarrow> string \<Rightarrow> hub \<Rightarrow> hub" where
  "receiver_init x source_hub_name entity_type entity_id s =
     add_receiver x (upd_recv x (\<lambda>_. \<lparr>r_entity_type = entity_type, r_entity_id = entity_id,
       r_hub_notify_callback = [], r_source_hub_name = source_hub_name\<rparr>) s)"

definition receiver_handle_hub_notify :: "env \<Rightarrow> nat \<Rightarrow> string \<Rightarrow> string \<Rightarrow> bytes \<Rightarrow> (hub, unit) py" where
  "receiver_handle_hub_notify env x source_hub method argvs = read (\<lambda>s.
     dispatch env (r_hub_notify_callback (robj s x)) method (Notify_args source_hub argvs)
       ''unhandle notify method:{}, source:{}'')"

definition receiver_reg_hub_notify_callback :: "nat \<Rightarrow> string \<Rightarrow> fn option \<Rightarrow> hub \<Rightarrow> hub" where
  "receiver_reg_hub_notify_callback x method f s =
     upd_recv x (\<lambda>ob. ob\<lparr>r_hub_notify_callback := dset method f (r_hub_notify_callback ob)\<rparr>) s"

definition get_receiver :: "hub \<Rightarrow> string \<Rightarrow> nat option" where
  "get_receiver s entity_id = dget (receivers s) entity_id"

definition del_receiver :: "string \<Rightarrow> hub \<Rightarrow> hub" where
  "del_receiver entity_id s =
     (if has_key (receivers s) entity_id then s\<lparr>receivers := ddel entity_id (receivers s)\<rparr> else s)"

interpretation receiver_registry: registry get_receiver
  "\<lambda>k x s. s\<lparr>receivers := dset k x (receivers s)\<rparr>" del_receiver
  by unfold_locales (auto simp: get_receiver_def del_receiver_def has_key_def)

subsection \<open>Services\<close>

definition reg_service :: "string \<Rightarrow> fn \<Rightarrow> (hub, unit) py" where
  "reg_service service_name service = block
     [modify (\<lambda>s. s\<lparr>services := dset service_name service (services s)\<rparr>),
      context_register_service service_name]"

definition get_service :: "string \<Rightarrow> (hub, fn) py" where
  "get_service service_name = (\<lambda>s. (getitem (services s) service_name, s))"

definition query_service :: "env \<Rightarrow> string \<Rightarrow> string option \<Rightarrow> string \<Rightarrow> (hub, unit) py" where
  "query_service env self_name awaited service_name =
     (case awaited of
        None \<Rightarrow> app_log ''error'' ''query_service service not found! service_name:{service_name}''
      | Some hub_name \<Rightarrow>
          if hub_name = ''''
          then app_log ''error'' ''query_service service not found! service_name:{service_name}''
          else if self_name = hub_name
          then bindp (get_service service_name) (\<lambda>f. env_service_hub_query env f hub_name)
          else cast (Query_service hub_name service_name))"

text \<open>
  \<open>argvs\<close> is the decoded request; \<open>dumps\<close> of it is its bytes.  The wait for the gate on the
  local branch is awaited and its value unused.
\<close>

definition forward_client_query_service ::
  "env \<Rightarrow> string \<Rightarrow> string option \<Rightarrow> string \<Rightarrow> string \<Rightarrow> string \<Rightarrow> string \<Rightarrow> bytes \<Rightarrow> (hub, bool) py" where
  "forward_client_query_service env self_name awaited service_name gate_name gate_host conn_id argvs =
     bindp (app_log ''info'' ''app forward_client_query_service begin!'') (\<lambda>_.
       case awaited of
         None \<Rightarrow> bindp (app_log ''error'' ''forward_client_query_service service not found!'') (\<lambda>_. ret False)
       | Some hub_name \<Rightarrow>
          if hub_name = ''''
          then bindp (app_log ''error'' ''forward_client_query_service service not found!'') (\<lambda>_. ret False)
          else bindp (block
            [app_log ''info'' ''app forward_client_query_service begin!, hub_name:{hub_name}'',
             (if self_name = hub_name
              then bindp (get_service service_name)
                     (\<lambda>f. env_service_client_query env f gate_name conn_id argvs)
              else block
                [app_log ''info'' ''app forward_client_query_service hub_name:{hub_name}'',
                 cast (Forward_client_request_service hub_name service_name gate_name gate_host conn_id argvs)])])
            (\<lambda>_. ret True))"

definition forward_client_query_service_ext ::
  "env \<Rightarrow> string \<Rightarrow> string option \<Rightarrow> string \<Rightarrow> (string \<times> string \<times> string \<times> bytes) list \<Rightarrow> (hub, bool) py" where
  "forward_client_query_service_ext env self_name awaited service_name info =
     (case awaited of
        None \<Rightarrow> bindp (app_log ''error'' ''forward_client_query_service_ext service not found!'') (\<lambda>_. ret False)
      | Some hub_name \<Rightarrow>
         if hub_name = ''''
         then bindp (app_log ''error'' ''forward_client_query_service_ext service not found!'') (\<lambda>_. ret False)
         else bindp
           (if self_name = hub_name
            then bindp (get_service service_name)
                   (\<lambda>f. env_service_client_query_ext env f
                      (List.map (\<lambda>(gate_name, gate_host, conn_id, argvs). (gate_name, conn_id, argvs)) info))
            else cast (Forward_client_request_service_ext hub_name service_name info))
           (\<lambda>_. ret True))"

end
