(* ===== verification/Conn_Msg_Handle.thy ===== *)
theory Conn_Msg_Handle
  imports Service
begin

section \<open>Messages from gates and hubs\<close>

text \<open>
  \<open>conn_msg_handle.py\<close>: the callbacks the native message pump calls, one per message.  A message
  for an entity id goes to the player with that id, else to the entity, and for hub messages
  also to the sub-entity or the receiver, else it is logged.  \<open>login_handle\<close> and \<open>player_mgr\<close>
  are taken as built here; \<open>Conn_Dispatch\<close> has the hubs that build only one of them, or none.
\<close>

subsection \<open>Connections\<close>

definition on_client_request_login :: "env \<Rightarrow> string \<Rightarrow> string \<Rightarrow> string \<Rightarrow> bytes \<Rightarrow> (hub, unit) py" where
  "on_client_request_login env gate_name conn_id sdk_uuid argvs =
     bindp (lift_res (env_loads env argvs))
       (\<lambda>a. modify (\<lambda>s. s\<lparr>coros := coros s @ [Co_login gate_name conn_id sdk_uuid a]\<rparr>))"

definition on_client_request_reconnect :: "env \<Rightarrow> string \<Rightarrow> string \<Rightarrow> string \<Rightarrow> bytes \<Rightarrow> (hub, unit) py" where
  "on_client_request_reconnect env gate_name conn_id entity_id argvs =
     bindp (lift_res (env_loads env argvs))
       (\<lambda>a. modify (\<lambda>s. s\<lparr>coros := coros s @ [Co_reconnect gate_name conn_id entity_id a]\<rparr>))"

definition on_transfer_entity_control ::
  "env \<Rightarrow> string \<Rightarrow> bool \<Rightarrow> bool \<Rightarrow> string \<Rightarrow> string \<Rightarrow> (hub, unit) py" where
  "on_transfer_entity_control env entity_id is_main is_reconnect gate_name conn_id =
     bindp (update_player_conn env entity_id is_main is_reconnect gate_name conn_id) (\<lambda>is_entry_player.
     bindp (update_entity_conn env entity_id is_reconnect gate_name conn_id) (\<lambda>is_entry_entity.
       if \<not> is_entry_player \<and> \<not> is_entry_entity \<and> is_reconnect
       then cast (Hub_call_client_delete_remote_entity gate_name entity_id)
       else ret ()))"

definition on_client_disconnnect :: "env \<Rightarrow> string \<Rightarrow> string \<Rightarrow> (hub, unit) py" where
  "on_client_disconnnect env gate_name conn_id = player_offline env conn_id"

definition on_kick_off_client :: "env \<Rightarrow> string \<Rightarrow> string \<Rightarrow> (hub, unit) py" where
  "on_kick_off_client env gate_name conn_id = block
     [player_offline env conn_id,
      cast (Hub_call_kick_off_client_complete gate_name conn_id)]"

definition on_client_request_service :: "env \<Rightarrow> string \<Rightarrow> string \<Rightarrow> string \<Rightarrow> bytes \<Rightarrow> (hub, unit) py" where
  "on_client_request_service env service_name gate_name conn_id argvs =
     bindp (get_service service_name) (\<lambda>f.
     bindp (lift_res (env_loads env argvs)) (\<lambda>a. env_service_client_query env f gate_name conn_id a))"

subsection \<open>Calls from clients\<close>

definition on_client_call_rpc ::
  "env \<Rightarrow> string \<Rightarrow> string \<Rightarrow> string \<Rightarrow> int \<Rightarrow> string \<Rightarrow> bytes \<Rightarrow> (hub, unit) py" where
  "on_client_call_rpc env gate_name conn_id entity_id msg_cb_id method argvs = read (\<lambda>s.
     case get_player s entity_id of
       Some p \<Rightarrow> player_handle_client_request env p gate_name conn_id method msg_cb_id argvs
     | None \<Rightarrow>
        (case get_entity s entity_id of
           Some e \<Rightarrow> entity_handle_client_request env e gate_name conn_id method msg_cb_id argvs
         | None \<Rightarrow> app_log ''error'' ''app unhandle client request method:{} entity:{}, ''))"

definition on_client_call_rsp :: "env \<Rightarrow> string \<Rightarrow> string \<Rightarrow> int \<Rightarrow> bytes \<Rightarrow> (hub, unit) py" where
  "on_client_call_rsp env gate_name entity_id msg_cb_id argvs = read (\<lambda>s.
     case get_player s entity_id of
       Some p \<Rightarrow> player_handle_client_response env p gate_name msg_cb_id argvs
     | None \<Rightarrow> app_log ''error'' ''app unhandle client response msg_cb_id:{} entity:{}, '')"

definition on_client_call_err :: "env \<Rightarrow> string \<Rightarrow> string \<Rightarrow> int \<Rightarrow> bytes \<Rightarrow> (hub, unit) py" where
  "on_client_call_err env gate_name entity_id msg_cb_id argvs = read (\<lambda>s.
     case get_player s entity_id of
       Some p \<Rightarrow> player_handle_client_response_error env p gate_name msg_cb_id argvs
     | None \<Rightarrow> app_log ''error'' ''app unhandle client response error msg_cb_id:{} entity:{}, '')"

definition on_client_call_ntf :: "env \<Rightarrow> string \<Rightarrow> string \<Rightarrow> string \<Rightarrow> bytes \<Rightarrow> (hub, unit) py" where
  "on_client_call_ntf env gate_name entity_id method argvs = read (\<lambda>s.
     case get_player s entity_id of
       Some p \<Rightarrow> player_handle_client_notify env p gate_name method argvs
     | None \<Rightarrow>
        (case get_entity s entity_id of
           Some e \<Rightarrow> entity_handle_client_notify env e gate_name method argvs
         | None \<Rightarrow> app_log ''error'' ''app unhandle client notify method:{} entity:{}, ''))"

subsection \<open>Services\<close>

definition on_rge_hub :: "string \<Rightarrow> (hub, unit) py" where
  "on_rge_hub hub_name = app_log ''trace'' ''app on_rge_hub hub_name:{hub_name}''"

definition on_query_service_entity :: "env \<Rightarrow> string \<Rightarrow> string \<Rightarrow> (hub, unit) py" where
  "on_query_service_entity env hub_name service_name =
     bindp (get_service service_name) (\<lambda>f. env_service_hub_query env f hub_name)"

text \<open>\<open>app.create_entity\<close> and \<open>app.create_migrate_entity\<close>, with the registered creators.\<close>

definition app_create_entity :: "env \<Rightarrow> bool \<Rightarrow> string \<Rightarrow> string \<Rightarrow> string \<Rightarrow> bytes \<Rightarrow> (hub, unit) py" where
  "app_create_entity env is_migrate entity_type source_hub_name entity_id argvs = read (\<lambda>s.
     bindp (lift_res (getitem (entity_create_method s) entity_type))
       (\<lambda>creator. env_creator env creator is_migrate source_hub_name entity_id argvs))"

text \<open>The creator returns the entity and the name of its service.\<close>

definition app_create_migrate_entity ::
  "env \<Rightarrow> string \<Rightarrow> string \<Rightarrow> string \<Rightarrow> string \<Rightarrow> string list \<Rightarrow> string list \<Rightarrow> bytes \<Rightarrow> (hub, unit) py" where
  "app_create_migrate_entity env entity_type entity_id main_gate_name main_conn_id gates hubs argvs = read (\<lambda>s.
     bindp (lift_res (getitem (entity_migrate_method s) entity_type)) (\<lambda>creator.
     bindp (env_migrate_creator env creator entity_id main_gate_name main_conn_id gates hubs argvs)
       (\<lambda>(e, service_name). bindp (get_service service_name)
          (\<lambda>f. env_service_on_migrate env f e))))"

definition on_create_service_entity ::
  "env \<Rightarrow> string \<Rightarrow> bool \<Rightarrow> string \<Rightarrow> string \<Rightarrow> string \<Rightarrow> bytes \<Rightarrow> (hub, unit) py" where
  "on_create_service_entity env source_hub_name is_migrate service_name entity_id entity_type argvs =
     bindp (lift_res (env_loads env argvs))
       (\<lambda>a. app_create_entity env is_migrate entity_type source_hub_name entity_id a)"

definition on_forward_client_request_service ::
  "env \<Rightarrow> string \<Rightarrow> string \<Rightarrow> string \<Rightarrow> string \<Rightarrow> bytes \<Rightarrow> (hub, unit) py" where
  "on_forward_client_request_service env hub_name service_name gate_name conn_id argvs =
     bindp (get_service service_name) (\<lambda>f.
     bindp (lift_res (env_loads env argvs)) (\<lambda>a. env_service_client_query env f gate_name conn_id a))"

fun loads_all :: "env \<Rightarrow> (string \<times> string \<times> bytes) list \<Rightarrow> pyexn + (string \<times> string \<times> bytes) list" where
  "loads_all env [] = Inr []"
| "loads_all env ((gate_name, conn_id, argvs) # info) =
     (case env_loads env argvs of
        Inl e \<Rightarrow> Inl e
      | Inr a \<Rightarrow> (case loads_all env info of
                    Inl e \<Rightarrow> Inl e
                  | Inr rest \<Rightarrow> Inr ((gate_name, conn_id, a) # rest)))"

definition on_forward_client_request_service_ext ::
  "env \<Rightarrow> string \<Rightarrow> string \<Rightarrow> (string \<times> string \<times> bytes) list \<Rightarrow> (hub, unit) py" where
  "on_forward_client_request_service_ext env hub_name service_name info =
     bindp (lift_res (loads_all env info)) (\<lambda>info_ext.
     bindp (get_service service_name) (\<lambda>f. env_service_client_query_ext env f info_ext))"

subsection \<open>Calls from hubs\<close>

definition on_call_hub_rpc :: "env \<Rightarrow> string \<Rightarrow> string \<Rightarrow> int \<Rightarrow> string \<Rightarrow> bytes \<Rightarrow> (hub, unit) py" where
  "on_call_hub_rpc env source_hub_name entity_id msg_cb_id method argvs = read (\<lambda>s.
     case get_player s entity_id of
       Some p \<Rightarrow> player_handle_hub_request env p source_hub_name method msg_cb_id argvs
     | None \<Rightarrow>
        (case get_entity s entity_id of
           Some e \<Rightarrow> entity_handle_hub_request env e source_hub_name method msg_cb_id argvs
         | None \<Rightarrow> app_log ''error'' ''app unhandle hub request msg_cb_id:{} entity:{}, ''))"

definition on_call_hub_rsp :: "env \<Rightarrow> string \<Rightarrow> string \<Rightarrow> int \<Rightarrow> bytes \<Rightarrow> (hub, unit) py" where
  "on_call_hub_rsp env hub_name entity_id msg_cb_id argvs = read (\<lambda>s.
     case get_subentity s entity_id of
       Some x \<Rightarrow> sub_handle_hub_response env x hub_name msg_cb_id argvs
     | None \<Rightarrow> app_log ''error'' ''app unhandle hub response msg_cb_id:{} entity:{}, '')"

definition on_call_hub_err :: "env \<Rightarrow> string \<Rightarrow> string \<Rightarrow> int \<Rightarrow> bytes \<Rightarrow> (hub, unit) py" where
  "on_call_hub_err env hub_name entity_id msg_cb_id argvs = read (\<lambda>s.
     case get_subentity s entity_id of
       Some x \<Rightarrow> sub_handle_hub_response_error env x hub_name msg_cb_id argvs
     | None \<Rightarrow> app_log ''error'' ''app unhandle hub response error msg_cb_id:{} entity:{}, '')"

definition on_call_hub_ntf :: "env \<Rightarrow> string \<Rightarrow> string \<Rightarrow> string \<Rightarrow> bytes \<Rightarrow> (hub, unit) py" where
  "on_call_hub_ntf env source_hub_name entity_id method argvs = read (\<lambda>s.
     case get_player s entity_id of
       Some p \<Rightarrow> player_handle_hub_notify env p source_hub_name method argvs
     | None \<Rightarrow>
    (case get_entity s entity_id of
       Some e \<Rightarrow> entity_handle_hub_notify env e source_hub_name method argvs
     | None \<Rightarrow>
    (case get_subentity s entity_id of
       Some x \<Rightarrow> sub_handle_hub_notify env x source_hub_name method argvs
     | None \<Rightarrow>
    (case get_receiver s entity_id of
       Some x \<Rightarrow> receiver_handle_hub_notify env x source_hub_name method argvs
     | None \<Rightarrow> app_log ''error'' ''app unhandle hub request method:{} entity:{}, ''))))"

subsection \<open>Migration\<close>

definition on_wait_migrate_entity :: "string \<Rightarrow> string \<Rightarrow> (hub, unit) py" where
  "on_wait_migrate_entity hub_name entity_id = read (\<lambda>s.
     case get_subentity s entity_id of
       Some x \<Rightarrow> modify (upd_sub x (\<lambda>ob. ob\<lparr>s_is_migrate := True\<rparr>))
     | None \<Rightarrow> app_log ''error'' ''app unhandle hub on_wait_migrate_entity entity:{}, '')"

definition on_migrate_entity ::
  "env \<Rightarrow> string \<Rightarrow> string \<Rightarrow> string \<Rightarrow> string \<Rightarrow> string \<Rightarrow> string list \<Rightarrow> string list \<Rightarrow> bytes \<Rightarrow> (hub, unit) py" where
  "on_migrate_entity env hub_name entity_type entity_id main_gate_name main_conn_id gates hubs argvs =
     bindp (lift_res (env_loads env argvs))
       (\<lambda>a. app_create_migrate_entity env entity_type entity_id main_gate_name main_conn_id gates hubs a)"

text \<open>
  The new hub has created the entity.  \<open>migrate_entity_complete\<close> is a coroutine function, and
  the call only makes a coroutine object, which nothing awaits or schedules.
\<close>

definition on_create_migrate_entity :: "string \<Rightarrow> string \<Rightarrow> (hub, unit) py" where
  "on_create_migrate_entity svr_name entity_id = read (\<lambda>s.
     case get_player s entity_id of
       Some p \<Rightarrow> ret ()
     | None \<Rightarrow>
        (case get_entity s entity_id of
           Some e \<Rightarrow> ret ()
         | None \<Rightarrow> app_log ''error'' ''app unhandle on_response_migrate_entity entity:{}, ''))"

definition on_migrate_entity_complete :: "string \<Rightarrow> string \<Rightarrow> string \<Rightarrow> (hub, unit) py" where
  "on_migrate_entity_complete hub_name source_hub_name entity_id = read (\<lambda>s.
     case get_subentity s entity_id of
       Some x \<Rightarrow> sub_do_cache_msg x source_hub_name
     | None \<Rightarrow> app_log ''error'' ''app unhandle hub on_migrate_entity_complete entity:{}, '')"


subsection \<open>Properties\<close>

text \<open>After a client was kicked off, no registered player is left on its connection, and the
  completion is the last thing the gate is told.\<close>

theorem kick_off_completes:
  assumes ok: "index_ok s" and hook: "\<forall>p. keeps_index (env_player_offline env p)"
    and ret: "result_of (on_kick_off_client env g c s) = Inr ()"
  defines "t \<equiv> state_of (on_kick_off_client env g c s)"
  shows "index_ok t \<and> get_player_by_conn_id t c = [] \<and>
    (\<forall>k p. get_player t k = Some p \<longrightarrow> p_client_conn_id (pobj t p) \<noteq> c) \<and>
    last (outbox t) = Hub_call_kick_off_client_complete g c"
proof -
  obtain r u where u: "player_offline env c s = (r, u)" by (cases "player_offline env c s")
  with ret have r: "r = Inr ()" by (cases r) (auto simp: on_kick_off_client_def)
  from u r have t: "t = emit (Hub_call_kick_off_client_complete g c) u"
    unfolding t_def on_kick_off_client_def by simp
  have "result_of (player_offline env c s) = Inr ()" using u r by simp
  note off = player_offline_done [OF ok _ u [unfolded r], rule_format]
  from off hook have ok_u: "index_ok u" and none: "dget (conn_id_players u) c = None" by blast+
  have "p_client_conn_id (pobj u p) \<noteq> c" if "dget (players u) k = Some p" for k p
    using index_ok_listed [OF ok_u that] none by (auto simp: get_player_by_conn_id_def)
  with ok_u none show ?thesis by (simp add: t get_player_by_conn_id_def get_player_def)
qed

theorem kick_off_completes_witness:
  "last (outbox (state_of (on_kick_off_client quiet_env ''g0'' ''c0'' (add_player 0 two_sessions)))) =
     Hub_call_kick_off_client_complete ''g0'' ''c0''"
proof -
  have "result_of (on_kick_off_client quiet_env ''g0'' ''c0'' (add_player 0 two_sessions)) = Inr ()"
    by (simp add: on_kick_off_client_def player_offline_def offline_one_def add_player_def
        two_sessions_def Let_def get_player_by_conn_id_def has_key_def)
  from kick_off_completes [OF two_sessions_ok _ this] show ?thesis by simp
qed

text \<open>A reconnection for an entity this hub does not know tells the client's gate to delete
  it, and changes nothing else.\<close>

theorem unknown_reconnect_deletes:
  assumes "get_player s k = None" and "get_entity s k = None"
  shows "on_transfer_entity_control env k m True g c s =
           (Inr (), emit (Hub_call_client_delete_remote_entity g k) s)"
  using assms
  by (simp add: on_transfer_entity_control_def update_player_conn_def update_entity_conn_def get_player_def)

theorem unknown_reconnect_deletes_witness:
  "outbox (state_of (on_transfer_entity_control quiet_env ''e'' True True ''g'' ''c'' blank_hub)) =
     [Hub_call_client_delete_remote_entity ''g'' ''e'']"
  using unknown_reconnect_deletes [of blank_hub "''e''" quiet_env True "''g''" "''c''"]
  by (simp add: get_player_def get_entity_def)

text \<open>When the new hub reports that it created a migrated entity, the old hub does nothing:
  the gates and hubs that were told to wait are never told that the migration is complete.\<close>

theorem migrate_completion_never_runs:
  assumes "get_player s k \<noteq> None \<or> get_entity s k \<noteq> None"
  shows "on_create_migrate_entity svr k s = (Inr (), s)"
  using assms by (auto simp: on_create_migrate_entity_def split: option.splits)

theorem migrate_completion_never_runs_witness:
  "on_create_migrate_entity ''hub2'' ''hero'' (add_player 0 two_sessions) =
     (Inr (), add_player 0 two_sessions)"
  by (rule migrate_completion_never_runs) (simp add: get_player_def two_sessions_def)

text \<open>A request of a client reaches the handler its method is registered under: of the player
  with the entity id when there is one, of the entity otherwise.\<close>

theorem client_rpc_routed:
  "(get_player s k = Some p \<and> dget (p_client_request_callback (pobj s p)) method = Some (Some f) \<longrightarrow>
      on_client_call_rpc env g c k i method b s = env_invoke env f (Client_request_args g c i b) s) \<and>
   (get_player s k = None \<and> get_entity s k = Some e \<and>
    dget (e_client_request_callback (eobj s e)) method = Some (Some f) \<longrightarrow>
      on_client_call_rpc env g c k i method b s = env_invoke env f (Client_request_args g c i b) s)"
  by (simp add: on_client_call_rpc_def player_handle_client_request_def entity_handle_client_request_def)

theorem client_rpc_routed_witness:
  "on_client_call_rpc quiet_env ''g'' ''c'' ''hero'' 7 ''m'' ''b''
     (add_player 0 (player_reg_client_request_callback 0 ''m'' (Some 4) two_sessions)) =
   (Inr (), add_player 0 (player_reg_client_request_callback 0 ''m'' (Some 4) two_sessions))"
  using client_rpc_routed [of "add_player 0 (player_reg_client_request_callback 0 ''m'' (Some 4) two_sessions)"
      "''hero''" 0 "''m''" 4 quiet_env "''g''" "''c''" 7 "''b''"]
  by (simp add: get_player_def two_sessions_def player_reg_client_request_callback_def)

end
