(* ===== verification/Hub_Sessions.thy ===== *)
theory Hub_Sessions
  imports Conn_Msg_Handle
begin

section \<open>The sessions of a hub over time\<close>

text \<open>
  What can happen to the players of a hub, as a step relation: a player object is made, the
  gate transfers a client to another connection, a connection ends or is kicked off, the game
  deletes a player, a client calls.  The steps are the handlers of \<open>conn_msg_handle.py\<close>; one that
  raises leaves the hub as it was when it raised.  Two rules carry what the rest of the program
  does for them: an object is made at an address nothing refers to, and a client is
  transferred to a connection of its own.
\<close>

definition unused :: "nat \<Rightarrow> hub \<Rightarrow> bool" where
  "unused p s = ((\<forall>k. get_player s k \<noteq> Some p) \<and> (\<forall>c. p \<notin> set (get_player_by_conn_id s c)))"

inductive session_step :: "env \<Rightarrow> hub \<Rightarrow> hub \<Rightarrow> bool" for env where
  Join: "unused p s \<Longrightarrow>
    session_step env s (state_of (player_init n p svc ty k g c dyn rnd s))"
| Transfer: "(\<And>p. get_player s k = Some p \<Longrightarrow>
      c = p_client_conn_id (pobj s p) \<or> get_player_by_conn_id s c = []) \<Longrightarrow>
    session_step env s (state_of (on_transfer_entity_control env k is_main is_reconnect g c s))"
| Disconnect: "session_step env s (state_of (on_client_disconnnect env g c s))"
| Kick: "session_step env s (state_of (on_kick_off_client env g c s))"
| Delete: "session_step env s (del_player k i s)"
| Call: "session_step env s (state_of (on_client_call_rpc env g c k i method b s))"

text \<open>The callables of the game leave the tables and the objects of the players alone.\<close>

definition tame :: "env \<Rightarrow> bool" where
  "tame env = ((\<forall>p. keeps_index (env_player_offline env p)) \<and>
     (\<forall>q g c. hook_ok (env_on_transfer_conn env q g c)) \<and> (\<forall>f a. keeps_index (env_invoke env f a)))"

subsection \<open>The operations that leave the index alone\<close>

lemma keeps_index_ok: "keeps_index m \<Longrightarrow> index_ok (state_of (m s)) = index_ok s"
  by (rule index_ok_cong) (simp_all add: keeps_index_def)

lemma keeps_basic [simp]:
  "keeps_index (ret x)" "keeps_index (send env c)" "keeps_index (cast c)" "keeps_index (app_log a b)"
  "keeps_index (lift_res r)" "keeps_index (modify (upd_entity e f))" "keeps_index (raise err)"
  by (simp_all add: keeps_index_def)

lemma keeps_bind [intro]:
  assumes "keeps_index m" and "\<And>x. keeps_index (k x)"
  shows "keeps_index (bindp m k)"
  unfolding keeps_index_def
proof
  fix s
  obtain r t where m: "m s = (r, t)" by (cases "m s")
  note keeps_indexD [OF assms(1) m]
  then show "players (state_of (bindp m k s)) = players s \<and>
      conn_id_players (state_of (bindp m k s)) = conn_id_players s \<and> pobj (state_of (bindp m k s)) = pobj s"
    using m assms(2) by (cases r) (simp_all add: keeps_index_def)
qed

lemma bind_index:
  assumes "index_ok (state_of (m s))" and "\<And>x. keeps_index (k x)"
  shows "index_ok (state_of (bindp m k s))"
proof (cases "m s")
  case (Pair r t)
  then show ?thesis using assms keeps_index_ok [of "k x" t for x] by (cases r) simp_all
qed

lemma keeps_read [intro]: "(\<And>s. keeps_index (m s)) \<Longrightarrow> keeps_index (read m)"
  by (simp add: keeps_index_def)

lemma keeps_two [intro]: "keeps_index a \<Longrightarrow> keeps_index b \<Longrightarrow> keeps_index (block [a, b])"
  unfolding block.simps by (intro keeps_bind keeps_basic)

lemma update_entity_conn_keeps: "keeps_index (update_entity_conn env k r g c)"
  unfolding update_entity_conn_def Let_def
  by (intro keeps_read) (auto split: option.split intro!: keeps_bind keeps_two keeps_read simp del: block.simps)

lemma dispatch_keeps:
  assumes "\<forall>f. keeps_index (env_invoke env f a)"
  shows "keeps_index (dispatch env t m a tpl)"
proof -
  consider f where "dget t m = Some (Some f)" | "dget t m = None" | "dget t m = Some None"
    by (metis option.exhaust)
  then show ?thesis
    by cases (use assms in \<open>simp_all add: keeps_index_def\<close>)
qed

lemma call_rpc_keeps:
  assumes "tame env"
  shows "keeps_index (on_client_call_rpc env g c k i m b)"
proof -
  have d: "keeps_index (dispatch env t m (Client_request_args g c i b) tpl)" for t tpl
    using assms by (intro dispatch_keeps) (simp add: tame_def)
  show ?thesis
    using d unfolding keeps_index_def
    by (auto simp: on_client_call_rpc_def player_handle_client_request_def entity_handle_client_request_def split: option.split)
qed


subsection \<open>Each step keeps the index\<close>

lemma player_offline_index:
  assumes "index_ok s" and "tame env"
  shows "index_ok (state_of (player_offline env c s))"
proof -
  let ?loop = "for_each (offline_one env c) (get_player_by_conn_id s c) s"
  have hook: "\<And>p. keeps_index (env_player_offline env p)" using assms(2) by (simp add: tame_def)
  show ?thesis
  proof (cases "result_of ?loop")
    case (Inl e)
    have "index_ok (state_of ?loop)"
      using offline_rel_index_ok [OF assms(1)] offline_loop [of env, OF hook] by blast
    then show ?thesis by (simp add: player_offline_apply Let_def Inl)
  next
    case (Inr x)
    then have "player_offline env c s = (Inr (), state_of (player_offline env c s))"
      by (simp add: player_offline_apply Let_def)
    from player_offline_done [OF assms(1) hook this] show ?thesis by blast
  qed
qed

lemma join_index:
  assumes "index_ok s" and "unused p s"
  shows "index_ok (state_of (player_init n p svc ty k g c dyn rnd s))"
proof -
  let ?s = "upd_player p (\<lambda>_. new_player n svc ty k g c dyn rnd) s"
  have "index_ok ?s"
  proof (rule index_okI)
    fix k' q assume q: "dget (players ?s) k' = Some q"
    then have r: "dget (players s) k' = Some q" by simp
    with assms(2) have "q \<noteq> p" by (auto simp: unused_def get_player_def)
    with index_ok_id [OF assms(1) r] index_ok_listed [OF assms(1) r]
    show "p_entity_id (pobj ?s q) = k'" "q \<in> set (get_player_by_conn_id ?s (p_client_conn_id (pobj ?s q)))"
      by (simp_all add: get_player_by_conn_id_def)
  next
    fix c' l assume l: "dget (conn_id_players ?s) c' = Some l"
    then have "dget (conn_id_players s) c' = Some l" by simp
    moreover from this assms(2) have "p \<notin> set l"
      unfolding unused_def get_player_by_conn_id_def by (metis option.simps(5))
    ultimately show "l \<noteq> [] \<and> distinct l \<and> (\<forall>q \<in> set l. p_client_conn_id (pobj ?s q) = c')"
      using index_ok_list [OF assms(1)] by auto
  qed
  then show ?thesis by (simp add: player_init_def add_player_index_ok)
qed

lemma transfer_index:
  assumes ok: "index_ok s" and tame: "tame env"
    and own: "\<And>p. get_player s k = Some p \<Longrightarrow> c = p_client_conn_id (pobj s p) \<or> get_player_by_conn_id s c = []"
  shows "index_ok (state_of (on_transfer_entity_control env k m r g c s))"
proof -
  have "index_ok (state_of (update_player_conn env k m r g c s))"
  proof (cases "get_player s k")
    case None
    then show ?thesis using ok by (simp add: update_player_conn_def get_player_def)
  next
    case (Some p)
    then have reg: "dget (players s) k = Some p" by (simp add: get_player_def)
    have "get_player_by_conn_id s c = [] \<longrightarrow> dget (conn_id_players s) c = None"
      using index_ok_lists_ok [OF ok] unfolding lists_ok_def by simp
    with own [OF Some] have "c = p_client_conn_id (pobj s p) \<or> dget (conn_id_players s) c = None" by auto
    moreover have "conn_tables g c p s (state_of (update_player_conn env k m r g c s))"
      using update_player_conn_tables [OF reg] tame by (simp add: tame_def)
    ultimately show ?thesis by (rule conn_tables_index_ok [OF ok reg])
  qed
  moreover have "keeps_index (bindp (update_entity_conn env k r g c) (\<lambda>is_entry_entity.
      if \<not> x \<and> \<not> is_entry_entity \<and> r then cast (Hub_call_client_delete_remote_entity g k) else ret ()))" for x
    by (intro keeps_bind update_entity_conn_keeps) simp
  ultimately show ?thesis unfolding on_transfer_entity_control_def by (rule bind_index)
qed

lemma kick_index:
  assumes "index_ok s" and "tame env"
  shows "index_ok (state_of (on_kick_off_client env g c s))"
proof -
  obtain r t where t: "player_offline env c s = (r, t)" by (cases "player_offline env c s")
  have "index_ok t" using player_offline_index [OF assms, of c] by (simp add: t)
  then show ?thesis by (cases r) (simp_all add: on_kick_off_client_def t)
qed

text \<open>C2: the sessions of a hub.  From a hub with no players, whatever players join, are transferred to
  their own connection or to one without players, disconnect, are kicked off, are deleted or call, in
  any order, every registered player is under its own id and is in the list of exactly one
  connection, its own; no list is empty or holds a player twice.  The callables of the game leave the
  tables and the objects of the players alone, and its transfer hook does not raise.  A transfer to a
  connection that has players of its own is left out: it breaks the tables
  (\<open>update_player_conn_drops_residents\<close> in the theory of the player manager).\<close>

theorem sessions_consistent:
  assumes "(session_step env)\<^sup>*\<^sup>* s0 s" and "tame env" and "players s0 = []" and "conn_id_players s0 = []"
  shows "index_ok s \<and> (\<forall>k p. get_player s k = Some p \<longrightarrow> p_entity_id (pobj s p) = k \<and>
    (\<forall>c. p \<in> set (get_player_by_conn_id s c) \<longleftrightarrow> c = p_client_conn_id (pobj s p)))"
proof -
  have ok: "index_ok s"
    using assms(1)
  proof (induction rule: rtranclp_induct)
    case base
    show ?case using assms(3,4) by (rule index_ok_blank)
  next
    case (step s t)
    from step.hyps(2) step.IH show ?case
    proof (induction rule: session_step.induct)
      case (Call s g c k i mname bs)
      then show ?case using keeps_index_ok [OF call_rpc_keeps [OF assms(2)]] by blast
    qed (simp_all add: join_index transfer_index [OF _ assms(2)] player_offline_index [OF _ assms(2)]
        kick_index [OF _ assms(2)] del_player_index_ok on_client_disconnnect_def)
  qed
  moreover have "p_entity_id (pobj s p) = k \<and> (\<forall>c. p \<in> set (get_player_by_conn_id s c) \<longleftrightarrow> c = p_client_conn_id (pobj s p))"
    if "get_player s k = Some p" for k p
  proof -
    from that have reg: "dget (players s) k = Some p" by (simp add: get_player_def)
    show ?thesis
      using index_ok_id [OF ok reg] index_ok_listed [OF ok reg] index_ok_member [OF ok] by blast
  qed
  ultimately show ?thesis by blast
qed


lemma quiet_tame: "tame quiet_env"
  by (simp add: tame_def)

theorem sessions_consistent_witness:
  "\<exists>s. (session_step quiet_env)\<^sup>*\<^sup>* blank_hub s \<and> get_player s ''a'' = Some 0 \<and>
     0 \<in> set (get_player_by_conn_id s ''c'') \<and> 0 \<notin> set (get_player_by_conn_id s ''d'')"
proof -
  let ?s = "state_of (player_init 5 0 ''svc'' ''hero'' ''a'' ''g'' ''c'' False 1 blank_hub)"
  have "session_step quiet_env blank_hub ?s"
    by (rule Join) (simp add: unused_def get_player_def get_player_by_conn_id_def)
  then have run: "(session_step quiet_env)\<^sup>*\<^sup>* blank_hub ?s" by blast
  have got: "get_player ?s ''a'' = Some 0" "p_client_conn_id (pobj ?s 0) = ''c''"
    by (simp_all add: player_init_def get_player_def new_player_def)
  from sessions_consistent [OF run quiet_tame] got have
    "0 \<in> set (get_player_by_conn_id ?s ''c'')" "0 \<notin> set (get_player_by_conn_id ?s ''d'')" by simp_all
  with run got(1) show ?thesis by blast
qed

end
