(* ===== verification/Group_State.thy ===== *)
theory Group_State
  imports Hub_State
begin

section \<open>The state of a group, beside the state of the hub\<close>

text \<open>
  \<open>group.py\<close>: a group is an object of the application that lists the clients watching a
  region and the entities, players and scene objects they see.  Its methods change the group
  and send through the hub, so they run on the pair of both states.  A Python set is a list
  without duplicates; its order stands for the iteration order, which Python leaves open.
\<close>

record group =
  clients :: "(string, string \<times> string) dict"
  g_entities :: "(string, nat) dict"
  g_players :: "(string, nat) dict"
  scene_object_ids :: "string list"
  scene_manifest_path :: "string option"
  dynamic_cache :: "(string, bytes) dict"
  scene_cache :: "(string, bytes) dict option"

definition new_group :: group where
  "new_group = \<lparr>clients = [], g_entities = [], g_players = [], scene_object_ids = [],
     scene_manifest_path = None, dynamic_cache = [], scene_cache = None\<rparr>"

type_synonym world = "group \<times> hub"

definition on_hub :: "(hub, 'a) py \<Rightarrow> (world, 'a) py" where
  "on_hub m = (\<lambda>w. case m (snd w) of (r, s') \<Rightarrow> (r, (fst w, s')))"

definition on_group :: "(group \<Rightarrow> group) \<Rightarrow> (world, unit) py" where
  "on_group f = (\<lambda>w. (Inr (), (f (fst w), snd w)))"

lemma on_hub_apply [simp]: "m s = (r, s') \<Longrightarrow> on_hub m (g, s) = (r, (g, s'))"
  by (simp add: on_hub_def)

lemma on_group_apply [simp]: "on_group f (g, s) = (Inr (), (f g, s))"
  by (simp add: on_group_def)

lemma on_hub_cast [simp]: "on_hub (cast c) w = (Inr (), (fst w, emit c (snd w)))"
  by (simp add: on_hub_def)

lemma on_hub_group [simp]: "fst (state_of (on_hub m w)) = fst w"
  by (simp add: on_hub_def split: prod.split)

lemma for_each_on_hub_cast:
  "for_each (\<lambda>x. on_hub (cast (f x))) xs (g, s) = (Inr (), (g, emits (List.map f xs) s))"
  by (induction xs arbitrary: s) (simp_all add: emit_emits)

text \<open>What a loop of hub statements does to the pair is what it does to the hub.\<close>

lemma for_each_on_hub:
  "for_each (\<lambda>x. on_hub (f x)) xs (g, s) =
     (result_of (for_each f xs s), (g, state_of (for_each f xs s)))"
proof (induction xs arbitrary: s)
  case Nil
  then show ?case by simp
next
  case (Cons x xs)
  obtain r t where x: "f x s = (r, t)" by (cases "f x s")
  then show ?case using Cons.IH by (cases r) (simp_all add: on_hub_def)
qed

lemma new_group_simps [simp]:
  "clients new_group = []" "g_entities new_group = []" "g_players new_group = []"
  "scene_object_ids new_group = []" "scene_manifest_path new_group = None"
  "dynamic_cache new_group = []" "scene_cache new_group = None"
  by (simp_all add: new_group_def)

end
