(* ===== verification/Scene_Physics.thy ===== *)
theory Scene_Physics
  imports Group_State
begin

section \<open>Scene objects of a group\<close>

text \<open>
  \<open>scene_physics.py\<close>, the part that talks to clients: \<open>sync_scene_to_group\<close> sends the static
  objects of a scene manifest and caches their ids and messages in the group, and
  \<open>flush_scene_dirty\<close> sends the changes of the running scene.  The manifest is the value
  \<open>json.load\<close> returns, packing a message is the parameter \<open>dumps\<close>, and the native scene is
  the value its three methods return.
\<close>

subsection \<open>Values of \<open>json.load\<close>\<close>

text \<open>A number is opaque but for whether it is zero, which decides its truth value.\<close>

datatype json =
    JNull
  | JBool bool
  | JNum string bool
  | JStr string
  | JList "json list"
  | JObj "(string \<times> json) list"

fun jget :: "json \<Rightarrow> string \<Rightarrow> json \<Rightarrow> pyexn + json" where
  "jget (JObj d) k dflt = Inr (case dget d k of None \<Rightarrow> dflt | Some v \<Rightarrow> v)"
| "jget _ k dflt = Inl AttributeError"

fun jitem :: "json \<Rightarrow> string \<Rightarrow> pyexn + json" where
  "jitem (JObj d) k = getitem d k"
| "jitem _ k = Inl TypeError"

fun jiter :: "json \<Rightarrow> pyexn + json list" where
  "jiter (JList xs) = Inr xs"
| "jiter (JObj d) = Inr (List.map JStr (keys d))"
| "jiter (JStr s) = Inr (List.map (\<lambda>c. JStr [c]) s)"
| "jiter _ = Inl TypeError"

fun jtruthy :: "json \<Rightarrow> bool" where
  "jtruthy JNull = False"
| "jtruthy (JBool b) = b"
| "jtruthy (JNum n zero) = (\<not> zero)"
| "jtruthy (JStr s) = (s \<noteq> [])"
| "jtruthy (JList xs) = (xs \<noteq> [])"
| "jtruthy (JObj d) = (d \<noteq> [])"

definition j0 :: json where "j0 = JNum ''0.0'' True"
definition j1 :: json where "j1 = JNum ''1.0'' False"
definition jhalf :: json where "jhalf = JNum ''0.5'' False"
definition j000 :: json where "j000 = JList [j0, j0, j0]"
definition j111 :: json where "j111 = JList [j1, j1, j1]"

definition entity_type_static :: string where "entity_type_static = ''scene_object_static''"
definition entity_type_dynamic :: string where "entity_type_dynamic = ''scene_object_dynamic''"

subsection \<open>Sending the static objects\<close>

text \<open>
  One statement the function repeats: \<open>from .app import app\<close>, then the call.  The relative
  import needs the module to have been imported as part of the package; \<open>in_package\<close> says
  whether it was.
\<close>

definition create_static :: "bool \<Rightarrow> string \<Rightarrow> string list \<Rightarrow> string \<Rightarrow> bytes \<Rightarrow> (world, unit) py" where
  "create_static in_package gate_name conn_ids entity_id msg_bytes =
     (if in_package
      then on_hub (cast (Hub_call_client_create_remote_entity gate_name False conn_ids ''''
                           entity_id entity_type_static msg_bytes))
      else raise ImportError)"

text \<open>The message of a model and of a procedural object; the object is \<open>None\<close> when it is skipped.\<close>

definition model_msg :: "string \<Rightarrow> json \<Rightarrow> pyexn + json" where
  "model_msg entity_id model =
     bindr (jget model ''transform'' (JObj [])) (\<lambda>transform.
     bindr (jget transform ''translation'' j000) (\<lambda>translation.
     bindr (jget transform ''rotation'' j000) (\<lambda>rotation.
     bindr (jget transform ''scale'' j111) (\<lambda>scale.
     bindr (jitem model ''path'') (\<lambda>path.
       Inr (JObj [(''entity_id'', JStr entity_id), (''type'', JStr ''mesh_ref''),
          (''transform'', JObj [(''translation'', translation), (''rotation'', rotation), (''scale'', scale)]),
          (''mesh_ref'', JObj [(''gltf_path'', path), (''mesh_name'', JNull)])]))))))"

definition procedural_msg :: "string \<Rightarrow> json \<Rightarrow> pyexn + json option" where
  "procedural_msg entity_id obj_def =
     bindr (jget obj_def ''object_type'' (JStr '''')) (\<lambda>obj_type.
       if obj_type \<notin> {JStr ''plane'', JStr ''cube''} then Inr None else
     bindr (jget obj_def ''position'' j000) (\<lambda>pos.
     bindr (jget obj_def ''scale'' j111) (\<lambda>scale.
     bindr (jget obj_def ''rotation_euler'' JNull) (\<lambda>euler.
     bindr (jget obj_def ''color'' (JList [jhalf, jhalf, jhalf])) (\<lambda>color.
       let rot_euler = (if jtruthy euler then euler else j000)
       in Inr (Some (JObj [(''entity_id'', JStr entity_id), (''type'', obj_type),
          (''transform'', JObj [(''translation'', pos), (''rotation'', rot_euler), (''scale'', scale)]),
          (''color'', color), (''dimensions'', scale)])))))))"

text \<open>The two loops; they thread the cache and the list of ids the function returns.\<close>

fun sync_models :: "env \<Rightarrow> (json \<Rightarrow> bytes) \<Rightarrow> bool \<Rightarrow> string \<Rightarrow> string list \<Rightarrow> json list \<Rightarrow>
    (string, bytes) dict \<Rightarrow> string list \<Rightarrow> (world, (string, bytes) dict \<times> string list) py" where
  "sync_models env dumps in_package gate_name conn_ids [] cache ids = ret (cache, ids)"
| "sync_models env dumps in_package gate_name conn_ids (model # rest) cache ids = read (\<lambda>w.
     let entity_id = env_uuid env (snd w) in
     bindp (lift_res (model_msg entity_id model)) (\<lambda>msg.
     bindp (create_static in_package gate_name conn_ids entity_id (dumps msg)) (\<lambda>_.
       sync_models env dumps in_package gate_name conn_ids rest
         (dset entity_id (dumps msg) cache) (ids @ [entity_id]))))"

fun sync_objects :: "env \<Rightarrow> (json \<Rightarrow> bytes) \<Rightarrow> bool \<Rightarrow> string \<Rightarrow> string list \<Rightarrow> json list \<Rightarrow>
    (string, bytes) dict \<Rightarrow> string list \<Rightarrow> (world, (string, bytes) dict \<times> string list) py" where
  "sync_objects env dumps in_package gate_name conn_ids [] cache ids = ret (cache, ids)"
| "sync_objects env dumps in_package gate_name conn_ids (obj_def # rest) cache ids = read (\<lambda>w.
     let entity_id = env_uuid env (snd w) in
     bindp (lift_res (procedural_msg entity_id obj_def)) (\<lambda>m. case m of
         None \<Rightarrow> sync_objects env dumps in_package gate_name conn_ids rest cache ids
       | Some msg \<Rightarrow>
          bindp (create_static in_package gate_name conn_ids entity_id (dumps msg)) (\<lambda>_.
            sync_objects env dumps in_package gate_name conn_ids rest
              (dset entity_id (dumps msg) cache) (ids @ [entity_id]))))"

definition sync_scene_to_group ::
  "env \<Rightarrow> (json \<Rightarrow> bytes) \<Rightarrow> bool \<Rightarrow> string \<Rightarrow> json \<Rightarrow> string \<Rightarrow> string list \<Rightarrow> (world, string list) py" where
  "sync_scene_to_group env dumps in_package manifest_path manifest gate_name conn_ids = read (\<lambda>w.
     case scene_cache (fst w) of
       Some cached \<Rightarrow>
         bindp (for_each (\<lambda>(entity_id, msg_bytes).
                  create_static in_package gate_name conn_ids entity_id msg_bytes) cached)
           (\<lambda>_. ret (keys cached))
     | None \<Rightarrow>
         bindp (lift_res (jget manifest ''models'' (JList []))) (\<lambda>models.
         bindp (lift_res (jiter models)) (\<lambda>models.
         bindp (sync_models env dumps in_package gate_name conn_ids models [] []) (\<lambda>(cache, ids).
         bindp (lift_res (jget manifest ''objects'' (JList []))) (\<lambda>objects.
         bindp (lift_res (jiter objects)) (\<lambda>objects.
         bindp (sync_objects env dumps in_package gate_name conn_ids objects cache ids) (\<lambda>(cache, ids).
         bindp (on_group (\<lambda>g. g\<lparr>scene_cache := Some cache, scene_object_ids := keys cache,
                                  scene_manifest_path := Some manifest_path\<rparr>))
           (\<lambda>_. ret ids))))))))"

subsection \<open>Sending the changes of the running scene\<close>

text \<open>
  \<open>for gate_name, conn_id in group.clients\<close> iterates over the keys of the dict, which are
  entity ids, and unpacks each string into two characters.
\<close>

definition unpack2 :: "string \<Rightarrow> pyexn + string \<times> string" where
  "unpack2 s = (case s of [a, b] \<Rightarrow> Inr ([a], [b]) | _ \<Rightarrow> Inl ValueError)"

definition for_clients :: "(string \<Rightarrow> string \<Rightarrow> (world, unit) py) \<Rightarrow> (world, unit) py" where
  "for_clients body = read (\<lambda>w.
     for_each (\<lambda>k. bindp (lift_res (unpack2 k)) (\<lambda>(gate_name, conn_id). body gate_name conn_id))
       (keys (clients (fst w))))"

definition delete_scene_object :: "string \<Rightarrow> (world, unit) py" where
  "delete_scene_object entity_id = block
     [on_group (\<lambda>g. g\<lparr>scene_object_ids := removeAll entity_id (scene_object_ids g)\<rparr>),
      on_group (\<lambda>g. g\<lparr>scene_cache := map_option (ddel entity_id) (scene_cache g)\<rparr>),
      on_group (\<lambda>g. g\<lparr>dynamic_cache := ddel entity_id (dynamic_cache g)\<rparr>),
      for_clients (\<lambda>gate_name conn_id.
        on_hub (cast (Hub_call_client_delete_remote_entity gate_name entity_id)))]"

text \<open>The clients by gate.\<close>

fun gate_conns :: "string list \<Rightarrow> (string, string list) dict \<Rightarrow> pyexn + (string, string list) dict" where
  "gate_conns [] acc = Inr acc"
| "gate_conns (k # ks) acc = (case unpack2 k of Inl e \<Rightarrow> Inl e
     | Inr (gate_name, conn_id) \<Rightarrow> gate_conns ks (group_append gate_name conn_id acc))"

text \<open>One dirty object; its packed message is \<open>None\<close> when the object has no transform any more.\<close>

definition flush_dirty_object :: "(string, string list) dict \<Rightarrow> string \<times> bytes option \<Rightarrow> (world, unit) py" where
  "flush_dirty_object conns obj = (case obj of
     (entity_id, None) \<Rightarrow> ret ()
   | (entity_id, Some msg_bytes) \<Rightarrow> read (\<lambda>w.
       if entity_id \<notin> set (scene_object_ids (fst w))
       then block
         [on_group (\<lambda>g. g\<lparr>scene_object_ids := scene_object_ids g @ [entity_id]\<rparr>),
          on_group (\<lambda>g. g\<lparr>dynamic_cache := dset entity_id msg_bytes (dynamic_cache g)\<rparr>),
          for_each (\<lambda>(gate_name, conn_ids).
            on_hub (cast (Hub_call_client_create_remote_entity gate_name False conn_ids ''''
                            entity_id entity_type_dynamic msg_bytes))) conns]
       else for_clients (\<lambda>gate_name conn_id.
          on_hub (cast (Hub_call_client_refresh_entity gate_name False conn_id False
                          entity_id entity_type_dynamic msg_bytes)))))"

definition flush_scene_dirty :: "string list \<Rightarrow> (string \<times> bytes option) list \<Rightarrow> (world, unit) py" where
  "flush_scene_dirty deleted_ids dirty_objects = block
     [for_each delete_scene_object deleted_ids,
      read (\<lambda>w. bindp (lift_res (gate_conns (keys (clients (fst w))) [])) (\<lambda>conns.
        for_each (flush_dirty_object conns) dirty_objects))]"

subsection \<open>Facts\<close>

text \<open>A group without clients, or whose first client has an id of two characters, aside, every
  loop over the clients raises before its body runs.\<close>

lemma unpack2_long: "length k \<noteq> 2 \<Longrightarrow> unpack2 k = Inl ValueError"
  by (auto simp: unpack2_def split: list.splits)

lemma for_clients_raises:
  assumes "clients (fst w) = (k, c) # rest" and "length k \<noteq> 2"
  shows "for_clients body w = (Inl ValueError, w)"
  using assms by (simp add: for_clients_def keys_def unpack2_long)

lemma gate_conns_raises:
  "length k \<noteq> 2 \<Longrightarrow> gate_conns (keys ((k, c) # rest)) acc = Inl ValueError"
  by (simp add: keys_def unpack2_long)

text \<open>The calls that send a list of cached objects.\<close>

definition static_calls :: "string \<Rightarrow> string list \<Rightarrow> (string \<times> bytes) list \<Rightarrow> ctx_call list" where
  "static_calls gate conns objs =
     List.map (\<lambda>(i, b). Hub_call_client_create_remote_entity gate False conns '''' i entity_type_static b) objs"

lemma static_calls_append [simp]:
  "static_calls gate conns (xs @ ys) = static_calls gate conns xs @ static_calls gate conns ys"
  by (simp add: static_calls_def)

lemma for_each_static:
  "for_each (\<lambda>(i, b). create_static True gate conns i b) objs (g, s) =
     (Inr (), (g, emits (static_calls gate conns objs) s))"
  by (induction objs arbitrary: s) (auto simp: create_static_def static_calls_def emit_emits)

text \<open>
  What a loop of the first synchronisation adds: the objects it sends are the ones it caches,
  in the same order.  The ids it draws are those of states in which more was sent before.
\<close>

definition drawn :: "env \<Rightarrow> (string, bytes) dict \<Rightarrow> hub \<Rightarrow> bool" where
  "drawn env cache s = (\<forall>k \<in> set (keys cache). \<exists>t. k = env_uuid env t \<and> length (outbox t) < length (outbox s))"

definition fresh_uuids :: "env \<Rightarrow> bool" where
  "fresh_uuids env = (\<forall>s t. length (outbox s) \<noteq> length (outbox t) \<longrightarrow> env_uuid env s \<noteq> env_uuid env t)"

lemma drawn_new:
  assumes "fresh_uuids env" and "drawn env cache s"
  shows "dget cache (env_uuid env s) = None"
  using assms by (force simp: drawn_def fresh_uuids_def has_key_iff [symmetric] has_key_def)

lemma drawn_step:
  assumes "drawn env cache s"
  shows "drawn env (cache @ [(env_uuid env s, b)]) (emit c s)"
  using assms by (auto simp: drawn_def keys_def intro: less_SucI)

lemma sync_models_adds:
  assumes "fresh_uuids env" and "drawn env cache s"
    and "sync_models env dumps True gate conns models cache ids (g, s) = (Inr (cache', ids'), w)"
  shows "\<exists>new. cache' = cache @ new \<and> ids' = ids @ keys new \<and>
    w = (g, emits (static_calls gate conns new) s) \<and> drawn env cache' (snd w)"
  using assms(2,3)
proof (induction models arbitrary: cache ids s)
  case Nil
  then show ?case by (intro exI [of _ "[]"]) (auto simp: keys_def static_calls_def)
next
  case (Cons model models)
  let ?i = "env_uuid env s"
  from Cons.prems(2) obtain msg where msg: "model_msg ?i model = Inr msg"
    by (cases "model_msg ?i model") (simp_all add: Let_def)
  let ?c = "Hub_call_client_create_remote_entity gate False conns '''' ?i entity_type_static (dumps msg)"
  have new: "dset ?i (dumps msg) cache = cache @ [(?i, dumps msg)]"
    using drawn_new [OF assms(1) Cons.prems(1)] by (rule dset_new)
  have "sync_models env dumps True gate conns models (cache @ [(?i, dumps msg)]) (ids @ [?i])
      (g, emit ?c s) = (Inr (cache', ids'), w)"
    using Cons.prems(2) by (simp add: Let_def msg create_static_def new)
  from Cons.IH [OF drawn_step [OF Cons.prems(1)] this] obtain more
    where "cache' = (cache @ [(?i, dumps msg)]) @ more" "ids' = (ids @ [?i]) @ keys more"
      "w = (g, emits (static_calls gate conns more) (emit ?c s))" "drawn env cache' (snd w)"
    by blast
  then show ?case
    by (intro exI [of _ "(?i, dumps msg) # more"]) (simp add: keys_def static_calls_def emit_emits)
qed

lemma sync_objects_adds:
  assumes "fresh_uuids env" and "drawn env cache s"
    and "sync_objects env dumps True gate conns objs cache ids (g, s) = (Inr (cache', ids'), w)"
  shows "\<exists>new. cache' = cache @ new \<and> ids' = ids @ keys new \<and>
    w = (g, emits (static_calls gate conns new) s)"
  using assms(2,3)
proof (induction objs arbitrary: cache ids s)
  case Nil
  then show ?case by (intro exI [of _ "[]"]) (auto simp: keys_def static_calls_def)
next
  case (Cons obj objs)
  let ?i = "env_uuid env s"
  from Cons.prems(2) obtain m where m: "procedural_msg ?i obj = Inr m"
    by (cases "procedural_msg ?i obj") (simp_all add: Let_def)
  show ?case
  proof (cases m)
    case None
    with Cons m show ?thesis by (simp add: Let_def)
  next
    case (Some msg)
    let ?c = "Hub_call_client_create_remote_entity gate False conns '''' ?i entity_type_static (dumps msg)"
    have new: "dset ?i (dumps msg) cache = cache @ [(?i, dumps msg)]"
      using drawn_new [OF assms(1) Cons.prems(1)] by (rule dset_new)
    have "sync_objects env dumps True gate conns objs (cache @ [(?i, dumps msg)]) (ids @ [?i])
        (g, emit ?c s) = (Inr (cache', ids'), w)"
      using Cons.prems(2) by (simp add: Let_def m Some create_static_def new)
    from Cons.IH [OF drawn_step [OF Cons.prems(1)] this] obtain more
      where "cache' = (cache @ [(?i, dumps msg)]) @ more" "ids' = (ids @ [?i]) @ keys more"
        "w = (g, emits (static_calls gate conns more) (emit ?c s))"
      by blast
    then show ?thesis
      by (intro exI [of _ "(?i, dumps msg) # more"]) (simp add: keys_def static_calls_def emit_emits)
  qed
qed

text \<open>
  What the first synchronisation puts in the cache: under each id, once, the packed message
  of that id, with its type and transform.
\<close>

definition scene_msg :: "string \<Rightarrow> json \<Rightarrow> bool" where
  "scene_msg i m = (\<exists>d ty tr. m = JObj d \<and> dget d ''entity_id'' = Some (JStr i) \<and>
     dget d ''type'' = Some ty \<and> dget d ''transform'' = Some tr)"

definition scene_msgs :: "(json \<Rightarrow> bytes) \<Rightarrow> (string, bytes) dict \<Rightarrow> bool" where
  "scene_msgs dumps objs = (wf_dict objs \<and> (\<forall>(i, b) \<in> set objs. \<exists>m. b = dumps m \<and> scene_msg i m))"

lemma model_msg_ok: "model_msg i model = Inr m \<Longrightarrow> scene_msg i m"
  by (auto simp: model_msg_def bindr_Inr scene_msg_def)

lemma procedural_msg_ok: "procedural_msg i obj = Inr (Some m) \<Longrightarrow> scene_msg i m"
  by (auto simp: procedural_msg_def bindr_Inr scene_msg_def Let_def split: if_splits)

lemma scene_msgs_Nil: "scene_msgs dumps []"
  by (simp add: scene_msgs_def)

lemma scene_msgs_dset: "scene_msgs dumps objs \<Longrightarrow> scene_msg i m \<Longrightarrow> scene_msgs dumps (dset i (dumps m) objs)"
  by (induction objs) (auto simp: scene_msgs_def dom_update split: if_splits)

lemma sync_models_msgs:
  assumes "sync_models env dumps True gate conns models cache ids w = (Inr (cache', ids'), w')"
    and "scene_msgs dumps cache"
  shows "scene_msgs dumps cache'"
  using assms
proof (induction models arbitrary: cache ids w)
  case Nil
  then show ?case by simp
next
  case (Cons model models)
  let ?i = "env_uuid env (snd w)"
  from Cons.prems(1) obtain msg where msg: "model_msg ?i model = Inr msg"
    by (cases "model_msg ?i model") (simp_all add: Let_def)
  obtain g s where w: "w = (g, s)" by (cases w)
  from Cons.prems(1) show ?case
    by (simp add: Let_def msg [unfolded w snd_conv] w create_static_def)
       (rule Cons.IH, assumption, rule scene_msgs_dset [OF Cons.prems(2) model_msg_ok [OF msg, unfolded w snd_conv]])
qed

lemma sync_objects_msgs:
  assumes "sync_objects env dumps True gate conns objs cache ids w = (Inr (cache', ids'), w')"
    and "scene_msgs dumps cache"
  shows "scene_msgs dumps cache'"
  using assms
proof (induction objs arbitrary: cache ids w)
  case Nil
  then show ?case by simp
next
  case (Cons obj objs)
  let ?i = "env_uuid env (snd w)"
  from Cons.prems(1) obtain m where m: "procedural_msg ?i obj = Inr m"
    by (cases "procedural_msg ?i obj") (simp_all add: Let_def)
  obtain g s where w: "w = (g, s)" by (cases w)
  show ?case
  proof (cases m)
    case None
    with Cons m show ?thesis by (simp add: Let_def)
  next
    case (Some msg)
    from Cons.prems(1) show ?thesis
      by (simp add: Let_def m [unfolded w snd_conv] Some w create_static_def)
         (rule Cons.IH, assumption,
          rule scene_msgs_dset [OF Cons.prems(2) procedural_msg_ok [OF m [unfolded Some], unfolded w snd_conv]])
  qed
qed

lemma first_sync:
  fixes dumps :: "json \<Rightarrow> bytes"
  assumes uuid: "fresh_uuids env" and first: "scene_cache g = None"
    and run: "sync_scene_to_group env dumps True path manifest gate conns (g, s) = (Inr ids, (g', s'))"
  shows "\<exists>objs. ids = keys objs \<and> scene_object_ids g' = ids \<and> scene_manifest_path g' = Some path \<and>
    outbox s' = outbox s @ static_calls gate conns objs \<and>
    sync_scene_to_group env dumps True path' manifest' gate' conns' (g', t) =
      (Inr ids, (g', emits (static_calls gate' conns' objs) t)) \<and> scene_msgs dumps objs"
proof -
  have start: "drawn env [] s" by (simp add: drawn_def keys_def)
  from first run obtain models models' where m: "jget manifest ''models'' (JList []) = Inr models"
    "jiter models = Inr models'"
    by (cases "jget manifest ''models'' (JList [])"; cases "jiter (projr (jget manifest ''models'' (JList [])))")
       (simp_all add: sync_scene_to_group_def)
  obtain r w where r: "sync_models env dumps True gate conns models' [] [] (g, s) = (r, w)"
    by (cases "sync_models env dumps True gate conns models' [] [] (g, s)")
  with first run m obtain c1 i1 where c1: "r = Inr (c1, i1)"
    by (cases r) (auto simp: sync_scene_to_group_def)
  from sync_models_adds [OF uuid start r [unfolded c1]] obtain new1 where
    new1: "c1 = new1" "i1 = keys new1" "w = (g, emits (static_calls gate conns new1) s)" "drawn env c1 (snd w)"
    by auto
  let ?s1 = "emits (static_calls gate conns new1) s"
  from first run m r c1 new1 obtain objs objs' where ob: "jget manifest ''objects'' (JList []) = Inr objs"
    "jiter objs = Inr objs'"
    by (cases "jget manifest ''objects'' (JList [])"; cases "jiter (projr (jget manifest ''objects'' (JList [])))")
       (simp_all add: sync_scene_to_group_def)
  obtain r2 w2 where r2: "sync_objects env dumps True gate conns objs' new1 (keys new1) (g, ?s1) = (r2, w2)"
    by (cases "sync_objects env dumps True gate conns objs' new1 (keys new1) (g, ?s1)")
  with first run m r c1 new1 ob obtain c2 i2 where c2: "r2 = Inr (c2, i2)"
    by (cases r2) (auto simp: sync_scene_to_group_def)
  have "drawn env new1 ?s1" using new1 by simp
  from sync_objects_adds [OF uuid this r2 [unfolded c2]] obtain new2 where
    new2: "c2 = new1 @ new2" "i2 = keys new1 @ keys new2"
      "w2 = (g, emits (static_calls gate conns new2) ?s1)"
    by auto
  let ?objs = "new1 @ new2"
  have "ids = keys ?objs" "g' = g\<lparr>scene_cache := Some ?objs, scene_object_ids := keys ?objs,
      scene_manifest_path := Some path\<rparr>" "s' = emits (static_calls gate conns new2) ?s1"
    using first run m r c1 new1 ob r2 c2 new2 by (auto simp: sync_scene_to_group_def keys_def)
  moreover from this(2) have "sync_scene_to_group env dumps True path' manifest' gate' conns' (g', t) =
      (Inr (keys ?objs), (g', emits (static_calls gate' conns' ?objs) t))"
    by (simp add: sync_scene_to_group_def for_each_static)
  moreover have "scene_msgs dumps ?objs"
    using sync_objects_msgs [OF r2 [unfolded c2] sync_models_msgs [OF r [unfolded c1] scene_msgs_Nil, unfolded new1(1)]]
    by (simp add: new2(1))
  ultimately show ?thesis
    by (intro exI [of _ ?objs]) simp
qed

subsection \<open>Properties\<close>

text \<open>A client that joins later is sent the scene objects the first synchronisation sent, with
  the same ids and messages in the same order, and the group does not change.\<close>

theorem scene_resync_same:
  fixes dumps :: "json \<Rightarrow> bytes"
  assumes uuid: "fresh_uuids env" and first: "scene_cache g = None"
    and run: "sync_scene_to_group env dumps True path manifest gate conns (g, s) = (Inr ids, (g', s'))"
  shows "\<exists>objs. ids = keys objs \<and> scene_object_ids g' = ids \<and> scene_manifest_path g' = Some path \<and>
    outbox s' = outbox s @ static_calls gate conns objs \<and>
    sync_scene_to_group env dumps True path' manifest' gate' conns' (g', t) =
      (Inr ids, (g', emits (static_calls gate' conns' objs) t))"
  using first_sync [OF assms] by blast

lemma quiet_fresh: "fresh_uuids quiet_env"
proof -
  have "replicate m c \<noteq> replicate n c" if "m \<noteq> n" for m n and c :: char
    using that by (metis length_replicate)
  then show ?thesis by (simp add: fresh_uuids_def quiet_env_def)
qed

definition little_scene :: json where
  "little_scene = JObj [(''models'', JList [JObj [(''path'', JStr ''a.gltf'')]]),
     (''objects'', JList [JObj [(''object_type'', JStr ''cube'')], JObj [(''object_type'', JStr ''ball'')]])]"

theorem scene_resync_same_witness:
  "scene_object_ids (fst (state_of (sync_scene_to_group quiet_env (\<lambda>_. ''b'') True ''m'' little_scene
     ''g'' [''c''] (new_group, blank_hub)))) = ['''', ''u'']"
proof -
  let ?run = "sync_scene_to_group quiet_env (\<lambda>_. ''b'') True ''m'' little_scene ''g'' [''c''] (new_group, blank_hub)"
  have "result_of ?run = Inr ['''', ''u'']"
    by (simp add: sync_scene_to_group_def little_scene_def create_static_def model_msg_def
        procedural_msg_def Let_def)
  then obtain g' s' where run: "?run = (Inr ['''', ''u''], (g', s'))" by (cases ?run) auto
  from scene_resync_same [OF quiet_fresh new_group_simps(7) run, of "''n''" JNull "''h''" "[]" blank_hub]
  have "scene_object_ids g' = ['''', ''u'']" by blast
  with run show ?thesis by simp
qed

text \<open>Once a group has a client, every flush of the running scene raises \<open>ValueError\<close> and sends
  nothing; the first object that was deleted is forgotten by the group without being deleted
  on any client.\<close>

theorem flush_scene_dirty_raises:
  assumes "clients g = (k, c) # rest" and "length k \<noteq> 2"
  shows "result_of (flush_scene_dirty deleted dirty (g, s)) = Inl ValueError \<and>
    snd (state_of (flush_scene_dirty deleted dirty (g, s))) = s \<and>
    (case deleted of [] \<Rightarrow> True
     | d # _ \<Rightarrow> d \<notin> set (scene_object_ids (fst (state_of (flush_scene_dirty deleted dirty (g, s))))))"
  using assms
  by (cases deleted) (simp_all add: flush_scene_dirty_def delete_scene_object_def for_clients_raises
      gate_conns_raises)

theorem flush_scene_dirty_raises_witness:
  "result_of (flush_scene_dirty [''rock''] []
     (new_group\<lparr>clients := [(''hero'', ''g'', ''c'')], scene_object_ids := [''rock'']\<rparr>, blank_hub)) = Inl ValueError"
  using flush_scene_dirty_raises [where k = "''hero''" and c = "(''g'', ''c'')" and rest = "[]"] by simp

end
