(* ===== verification/Group.thy ===== *)
theory Group
  imports Scene_Physics Player_Manager
begin

section \<open>Groups\<close>

text \<open>
  \<open>group.py\<close>, every method.  \<open>join\<close> shows a client what the group holds and then registers
  it; \<open>leave\<close> takes it out; the other methods show or remove an entity or a player for the
  clients registered.  The manifest \<open>join\<close> would read, and the packing of its messages, are
  arguments.
\<close>

text \<open>
  \<open>for entity_id, msg_bytes in self.dynamic_cache.items()\<close> rebinds the parameter
  \<open>entity_id\<close>: what the method registers the client under is the key the loop left there.
\<close>

definition entity_id_after :: "string \<Rightarrow> (string, bytes) dict \<Rightarrow> string" where
  "entity_id_after entity_id cache = (if cache = [] then entity_id else fst (last cache))"

definition group_join ::
  "env \<Rightarrow> (json \<Rightarrow> bytes) \<Rightarrow> json \<Rightarrow> string \<Rightarrow> string \<times> string \<Rightarrow> (world, unit) py" where
  "group_join env dumps manifest entity_id client = (case client of (gate_name, conn_id) \<Rightarrow> block
     [on_hub (app_log ''trace'' ''app group join! gate_name:{gate_name} conn_id:{conn_id}''),
      read (\<lambda>w. for_each (\<lambda>e. on_hub (entity_create_remote_entity env e gate_name [conn_id]))
                  (vals (g_entities (fst w)))),
      read (\<lambda>w. for_each (\<lambda>p. read (\<lambda>w.
                    if p_entity_id (pobj (snd w) p) = entity_id then ret ()
                    else on_hub (player_create_remote_entity env p gate_name [conn_id])))
                  (vals (g_players (fst w)))),
      read (\<lambda>w. case scene_manifest_path (fst w) of
          Some path \<Rightarrow>
            if scene_object_ids (fst w) \<noteq> [] \<and> path \<noteq> ''''
            then bindp (sync_scene_to_group env dumps False path manifest gate_name [conn_id]) (\<lambda>_. ret ())
            else ret ()
        | None \<Rightarrow> ret ()),
      read (\<lambda>w. block
        [for_each (\<lambda>(entity_id, msg_bytes).
           on_hub (cast (Hub_call_client_create_remote_entity gate_name False [conn_id] ''''
                           entity_id entity_type_dynamic msg_bytes))) (dynamic_cache (fst w)),
         on_group (\<lambda>g. g\<lparr>clients :=
           dset (entity_id_after entity_id (dynamic_cache g)) client (clients g)\<rparr>)])])"

text \<open>\<open>leave\<close>: the first client with this gate and connection goes; none may match.\<close>

definition group_leave :: "string \<times> string \<Rightarrow> (world, unit) py" where
  "group_leave client = (case client of (cli_gate_name, cli_conn_id) \<Rightarrow> read (\<lambda>w.
     case List.find (\<lambda>(k, c). c = client) (clients (fst w)) of
       None \<Rightarrow> ret ()
     | Some (entity_id, _) \<Rightarrow> block
        [on_group (\<lambda>g. g\<lparr>clients := ddel entity_id (clients g)\<rparr>),
         for_each (\<lambda>e. on_hub (read (\<lambda>s. cast (Hub_call_client_remove_remote_entity cli_gate_name
                     (e_entity_id (eobj s e)) cli_conn_id)))) (vals (g_entities (fst w))),
         for_each (\<lambda>p. on_hub (read (\<lambda>s. cast (Hub_call_client_remove_remote_entity cli_gate_name
                     (p_entity_id (pobj s p)) cli_conn_id)))) (vals (g_players (fst w))),
         for_each (\<lambda>sid. on_hub (cast (Hub_call_client_remove_remote_entity cli_gate_name sid cli_conn_id)))
           (scene_object_ids (fst w))]))"

text \<open>The grouping of connections by gate that three methods build.\<close>

definition by_gate :: "(string \<times> string \<times> string) list \<Rightarrow> (string, string list) dict" where
  "by_gate cs = fold (\<lambda>(entity_id, gate_name, conn_id). group_append gate_name conn_id) cs []"

definition group_create_remote_entity :: "env \<Rightarrow> nat \<Rightarrow> (world, unit) py" where
  "group_create_remote_entity env e = block
     [read (\<lambda>w. on_group (\<lambda>g. g\<lparr>g_entities := dset (e_entity_id (eobj (snd w) e)) e (g_entities g)\<rparr>)),
      read (\<lambda>w. for_each (\<lambda>(gate_name, list_conn_id).
                    on_hub (entity_create_remote_entity env e gate_name list_conn_id))
                  (by_gate (clients (fst w))))]"

definition group_remove_entity :: "nat \<Rightarrow> (world, unit) py" where
  "group_remove_entity e = read (\<lambda>w. let entity_id = e_entity_id (eobj (snd w) e) in block
     [for_each (\<lambda>(gate_name, list_conn_id).
        on_hub (cast (Hub_call_client_delete_remote_entity gate_name entity_id))) (by_gate (clients (fst w))),
      bindp (lift_res (delitem entity_id (g_entities (fst w))))
        (\<lambda>d. on_group (\<lambda>g. g\<lparr>g_entities := d\<rparr>))])"

definition group_create_remote_player :: "env \<Rightarrow> nat \<Rightarrow> (world, unit) py" where
  "group_create_remote_player env p = block
     [read (\<lambda>w. on_group (\<lambda>g. g\<lparr>g_players := dset (p_entity_id (pobj (snd w) p)) p (g_players g)\<rparr>)),
      read (\<lambda>w. let x = pobj (snd w) p in
        for_each (\<lambda>(gate_name, list_conn_id). block
            [on_hub (app_log ''trace'' ''app group create_remote_player! gate_name:{gate_name} list_conn_id:{list_conn_id}''),
             on_hub (player_create_remote_entity env p gate_name list_conn_id)])
          (by_gate (List.filter (\<lambda>(entity_id, gate_name, conn_id).
             \<not> (conn_id = p_client_conn_id x \<or> entity_id = p_entity_id x)) (clients (fst w))))),
      on_hub (create_main_remote_entity env p)]"

text \<open>
  The instance check: when the id is registered for another instance, or for none, the group
  is left alone.  The two deletions at the end may raise, the second after the first is done.
\<close>

definition group_remove_player :: "nat \<Rightarrow> (world, unit) py" where
  "group_remove_player p = read (\<lambda>w. let entity_id = p_entity_id (pobj (snd w) p) in
     if dget (g_players (fst w)) entity_id \<noteq> Some p then ret () else block
     [for_each (\<lambda>gate_name. on_hub (cast (Hub_call_client_delete_remote_entity gate_name entity_id)))
        (fold (\<lambda>(k, gate_name, conn_id). append_new gate_name) (clients (fst w)) []),
      bindp (lift_res (delitem entity_id (g_players (fst w)))) (\<lambda>d. on_group (\<lambda>g. g\<lparr>g_players := d\<rparr>)),
      bindp (lift_res (delitem entity_id (clients (fst w)))) (\<lambda>d. on_group (\<lambda>g. g\<lparr>clients := d\<rparr>))])"

subsection \<open>Facts\<close>

lemma concat_singles: "concat (List.map (\<lambda>x. [f x]) xs) = List.map f xs"
  by (induction xs) simp_all

text \<open>A loop whose every step succeeds, keeps \<open>J\<close> and appends \<open>f x\<close> to what \<open>out\<close> reads.\<close>

lemma for_each_out:
  assumes "\<And>x s. x \<in> set xs \<Longrightarrow> J s \<Longrightarrow>
      \<exists>t. body x s = (Inr (), t) \<and> J t \<and> out t = out s @ f x"
    and "J s"
  shows "\<exists>t. for_each body xs s = (Inr (), t) \<and> J t \<and> out t = out s @ concat (List.map f xs)"
  using assms
proof (induction xs arbitrary: s)
  case Nil
  then show ?case by simp
next
  case (Cons x xs)
  from Cons.prems obtain t where t: "body x s = (Inr (), t)" "J t" "out t = out s @ f x"
    by (meson list.set_intros(1))
  from Cons.IH [OF _ t(2)] Cons.prems(1) obtain u
    where "for_each body xs t = (Inr (), u)" "J u" "out u = out t @ concat (List.map f xs)"
    by (meson list.set_intros(2))
  with t show ?case by simp
qed

lemma for_each_single:
  assumes "\<And>x s. J s \<Longrightarrow> \<exists>t. body x s = (Inr (), t) \<and> J t \<and> out t = out s @ [f x]" and "J s"
  shows "\<exists>t. for_each body xs s = (Inr (), t) \<and> J t \<and> out t = out s @ List.map f xs"
  using for_each_out [of xs J body out "\<lambda>x. [f x]", OF assms(1) assms(2)]
  by (simp add: concat_singles)

text \<open>What a client is shown, and what is taken from it: the entity id, the gate, the connections.\<close>

fun mirror_of :: "ctx_call \<Rightarrow> (string \<times> string \<times> string list) option" where
  "mirror_of (Hub_call_client_create_remote_entity g m cs mc k ty b) = Some (k, g, cs)"
| "mirror_of _ = None"

fun removal_of :: "ctx_call \<Rightarrow> (string \<times> string \<times> string list) option" where
  "removal_of (Hub_call_client_remove_remote_entity g k c) = Some (k, g, [c])"
| "removal_of _ = None"

definition mirrors :: "world \<Rightarrow> (string \<times> string \<times> string list) list" where
  "mirrors w = List.map_filter mirror_of (outbox (snd w))"

definition removals :: "world \<Rightarrow> (string \<times> string \<times> string list) list" where
  "removals w = List.map_filter removal_of (outbox (snd w))"

lemma map_filter_append: "List.map_filter f (xs @ ys) = List.map_filter f xs @ List.map_filter f ys"
  by (simp add: List.map_filter_def)

lemma mirrors_emit [simp]:
  "mirrors (g, emit c s) = mirrors (g, s) @ (case mirror_of c of None \<Rightarrow> [] | Some m \<Rightarrow> [m])"
  by (simp add: mirrors_def map_filter_append List.map_filter_def split: option.split)

lemma removals_emit [simp]:
  "removals (g, emit c s) = removals (g, s) @ (case removal_of c of None \<Rightarrow> [] | Some m \<Rightarrow> [m])"
  by (simp add: removals_def map_filter_append List.map_filter_def split: option.split)

text \<open>The group is \<open>g\<close> and the objects have the ids they have in \<open>s\<close>.\<close>

definition ids_of :: "group \<Rightarrow> hub \<Rightarrow> world \<Rightarrow> bool" where
  "ids_of g s w = (fst w = g \<and> (\<forall>e. e_entity_id (eobj (snd w) e) = e_entity_id (eobj s e)) \<and>
     (\<forall>p. p_entity_id (pobj (snd w) p) = p_entity_id (pobj s p)))"

lemma ids_of_refl: "ids_of g s (g, s)"
  by (simp add: ids_of_def)

lemma upd_group_simps [simp]:
  "e_entity_id (eobj (upd_entity e (\<lambda>x. x\<lparr>e_conn_client_gate := f x\<rparr>) s) e') = e_entity_id (eobj s e')"
  "pobj (upd_entity e h s) = pobj s" "outbox (upd_entity e h s) = outbox s"
  "p_entity_id (pobj (upd_player p (\<lambda>x. x\<lparr>p_conn_client_gate := k x\<rparr>) s) p') = p_entity_id (pobj s p')"
  "eobj (upd_player p j s) = eobj s" "outbox (upd_player p j s) = outbox s"
  by (simp_all add: upd_defs)

lemma mirrors_upd [simp]:
  "mirrors (g, upd_entity e h s) = mirrors (g, s)" "mirrors (g, upd_player p j s) = mirrors (g, s)"
  by (simp_all add: mirrors_def)

lemma show_entity:
  assumes "\<forall>e t. \<exists>b. env_entity_client_info env e t = Inr b" and "ids_of g s w"
  shows "\<exists>t. on_hub (entity_create_remote_entity env e gate cs) w = (Inr (), t) \<and> ids_of g s t \<and>
    mirrors t = mirrors w @ [(e_entity_id (eobj s e), gate, cs)]"
proof -
  obtain u where w: "w = (g, u)" using assms(2) by (cases w) (simp add: ids_of_def)
  let ?v = "upd_entity e (\<lambda>x. x\<lparr>e_conn_client_gate := append_new gate (e_conn_client_gate x)\<rparr>) u"
  obtain b where b: "env_entity_client_info env e ?v = Inr b" using assms(1) by blast
  show ?thesis
    using assms(2) b unfolding w
    by (auto simp: on_hub_def entity_create_remote_entity_def Let_def ids_of_def)
qed

lemma show_player:
  assumes "\<forall>p t. \<exists>b. env_player_client_info env p t = Inr b" and "ids_of g s w"
  shows "\<exists>t. on_hub (player_create_remote_entity env p gate cs) w = (Inr (), t) \<and> ids_of g s t \<and>
    mirrors t = mirrors w @ [(p_entity_id (pobj s p), gate, cs)]"
proof -
  obtain u where w: "w = (g, u)" using assms(2) by (cases w) (simp add: ids_of_def)
  let ?v = "upd_player p (\<lambda>x. x\<lparr>p_conn_client_gate := append_new gate (p_conn_client_gate x)\<rparr>) u"
  obtain b where b: "env_player_client_info env p ?v = Inr b" using assms(1) by blast
  show ?thesis
    using assms(2) b unfolding w
    by (auto simp: on_hub_def player_create_remote_entity_def Let_def ids_of_def)
qed

text \<open>What \<open>join\<close> shows: every entity, and every player but the client's own.\<close>

definition shown_to :: "string \<Rightarrow> string \<Rightarrow> string list \<Rightarrow> group \<Rightarrow> hub \<Rightarrow> (string \<times> string \<times> string list) list" where
  "shown_to entity_id gate cs g s =
     List.map (\<lambda>e. (e_entity_id (eobj s e), gate, cs)) (vals (g_entities g)) @
     concat (List.map (\<lambda>p. if p_entity_id (pobj s p) = entity_id then []
                      else [(p_entity_id (pobj s p), gate, cs)]) (vals (g_players g)))"



lemma join_shows:
  assumes "\<forall>e t. \<exists>b. env_entity_client_info env e t = Inr b"
    and "\<forall>p t. \<exists>b. env_player_client_info env p t = Inr b"
  shows "\<exists>t. block
     [on_hub (app_log l tpl),
      read (\<lambda>w. for_each (\<lambda>e. on_hub (entity_create_remote_entity env e gate cs))
                  (vals (g_entities (fst w)))),
      read (\<lambda>w. for_each (\<lambda>p. read (\<lambda>w.
                    if p_entity_id (pobj (snd w) p) = k then ret ()
                    else on_hub (player_create_remote_entity env p gate cs)))
                  (vals (g_players (fst w))))] (g, s) = (Inr (), t) \<and> ids_of g s t \<and>
    mirrors t = mirrors (g, s) @ shown_to k gate cs g s"
proof -
  have a: "on_hub (app_log l tpl) (g, s) = (Inr (), (g, emit (Log l tpl) s))"
    by (simp add: on_hub_def)
  have i: "ids_of g s (g, emit (Log l tpl) s)" by (simp add: ids_of_def)
  have "\<exists>u. for_each (\<lambda>e. on_hub (entity_create_remote_entity env e gate cs))
        (vals (g_entities g)) (g, emit (Log l tpl) s) = (Inr (), u) \<and> ids_of g s u \<and>
      mirrors u = mirrors (g, emit (Log l tpl) s) @
        List.map (\<lambda>e. (e_entity_id (eobj s e), gate, cs)) (vals (g_entities g))"
    by (rule for_each_single [where J = "ids_of g s", OF show_entity [OF assms(1)] i])
  then obtain u where u: "for_each (\<lambda>e. on_hub (entity_create_remote_entity env e gate cs))
        (vals (g_entities g)) (g, emit (Log l tpl) s) = (Inr (), u)" "ids_of g s u"
      "mirrors u = mirrors (g, s) @ List.map (\<lambda>e. (e_entity_id (eobj s e), gate, cs)) (vals (g_entities g))"
    by auto
  let ?body = "\<lambda>p. read (\<lambda>w. if p_entity_id (pobj (snd w) p) = k then ret ()
                    else on_hub (player_create_remote_entity env p gate cs))"
  have "\<exists>t. ?body p w = (Inr (), t) \<and> ids_of g s t \<and> mirrors t = mirrors w @
      (if p_entity_id (pobj s p) = k then [] else [(p_entity_id (pobj s p), gate, cs)])"
    if "ids_of g s w" for p w
  proof -
    have "p_entity_id (pobj (snd w) p) = p_entity_id (pobj s p)" using that by (simp add: ids_of_def)
    then show ?thesis
      using show_player [OF assms(2) that, of p gate cs] that
      by (cases "p_entity_id (pobj s p) = k") simp_all
  qed
  then have "\<exists>t. for_each ?body (vals (g_players g)) u = (Inr (), t) \<and> ids_of g s t \<and>
      mirrors t = mirrors u @ concat (List.map (\<lambda>p. if p_entity_id (pobj s p) = k then []
        else [(p_entity_id (pobj s p), gate, cs)]) (vals (g_players g)))"
    by (intro for_each_out [where J = "ids_of g s"] u(2))
  then obtain t where "for_each ?body (vals (g_players g)) u = (Inr (), t)" "ids_of g s t"
    "mirrors t = mirrors u @ concat (List.map (\<lambda>p. if p_entity_id (pobj s p) = k then []
        else [(p_entity_id (pobj s p), gate, cs)]) (vals (g_players g)))"
    by blast
  moreover have "fst u = g" using u(2) by (simp add: ids_of_def)
  ultimately show ?thesis using a u by (simp add: shown_to_def)
qed

lemma ids_of_emit: "ids_of g s (g', emit c t) = ids_of g s (g', t)"
  by (simp add: ids_of_def)

lemma ids_ofD:
  "ids_of g s (g', t) \<Longrightarrow> e_entity_id (eobj t e) = e_entity_id (eobj s e)"
  "ids_of g s (g', t) \<Longrightarrow> p_entity_id (pobj t p) = p_entity_id (pobj s p)"
  by (simp_all add: ids_of_def)

lemma find_append:
  "List.find P (xs @ ys) = (case List.find P xs of None \<Rightarrow> List.find P ys | Some x \<Rightarrow> Some x)"
  by (induction xs) auto

lemma take_one:
  assumes "ids_of g s w"
  shows "\<exists>t. on_hub (read (\<lambda>s. cast (Hub_call_client_remove_remote_entity gate (e_entity_id (eobj s e)) conn))) w =
      (Inr (), t) \<and> ids_of g s t \<and> removals t = removals w @ [(e_entity_id (eobj s e), gate, [conn])]"
    and "\<exists>t. on_hub (read (\<lambda>s. cast (Hub_call_client_remove_remote_entity gate (p_entity_id (pobj s p)) conn))) w =
      (Inr (), t) \<and> ids_of g s t \<and> removals t = removals w @ [(p_entity_id (pobj s p), gate, [conn])]"
    and "\<exists>t. on_hub (cast (Hub_call_client_remove_remote_entity gate sid conn)) w =
      (Inr (), t) \<and> ids_of g s t \<and> removals t = removals w @ [(sid, gate, [conn])]"
proof -
  obtain g' t where w: "w = (g', t)" by (cases w)
  note ids = ids_ofD [OF assms [unfolded w]] assms [unfolded w]
  show "\<exists>t. on_hub (read (\<lambda>s. cast (Hub_call_client_remove_remote_entity gate (e_entity_id (eobj s e)) conn))) w =
      (Inr (), t) \<and> ids_of g s t \<and> removals t = removals w @ [(e_entity_id (eobj s e), gate, [conn])]"
    using ids(3) by (simp add: w on_hub_def ids_of_emit ids(1))
  show "\<exists>t. on_hub (read (\<lambda>s. cast (Hub_call_client_remove_remote_entity gate (p_entity_id (pobj s p)) conn))) w =
      (Inr (), t) \<and> ids_of g s t \<and> removals t = removals w @ [(p_entity_id (pobj s p), gate, [conn])]"
    using ids(3) by (simp add: w on_hub_def ids_of_emit ids(2))
  show "\<exists>t. on_hub (cast (Hub_call_client_remove_remote_entity gate sid conn)) w =
      (Inr (), t) \<and> ids_of g s t \<and> removals t = removals w @ [(sid, gate, [conn])]"
    using ids(3) by (simp add: w ids_of_emit)
qed

text \<open>What \<open>leave\<close> takes: everything the group holds.\<close>

definition held_by :: "string \<Rightarrow> string list \<Rightarrow> group \<Rightarrow> hub \<Rightarrow> (string \<times> string \<times> string list) list" where
  "held_by gate cs g s =
     List.map (\<lambda>e. (e_entity_id (eobj s e), gate, cs)) (vals (g_entities g)) @
     List.map (\<lambda>p. (p_entity_id (pobj s p), gate, cs)) (vals (g_players g)) @
     List.map (\<lambda>i. (i, gate, cs)) (scene_object_ids g)"

lemma shown_held: "set (shown_to k gate cs g s) \<subseteq> set (held_by gate cs g s)"
  by (auto simp: shown_to_def held_by_def)

lemma leave_found:
  assumes find: "List.find (\<lambda>(k, c). c = (gate, conn)) (clients g) = Some (k, c)"
  shows "\<exists>t. group_leave (gate, conn) (g, s) = (Inr (), t) \<and>
    fst t = g\<lparr>clients := ddel k (clients g)\<rparr> \<and>
    removals t = removals (g, s) @ held_by gate [conn] g s"
proof -
  let ?g = "g\<lparr>clients := ddel k (clients g)\<rparr>"
  let ?e = "\<lambda>e. on_hub (read (\<lambda>s. cast (Hub_call_client_remove_remote_entity gate (e_entity_id (eobj s e)) conn)))"
  let ?p = "\<lambda>p. on_hub (read (\<lambda>s. cast (Hub_call_client_remove_remote_entity gate (p_entity_id (pobj s p)) conn)))"
  let ?i = "\<lambda>sid. on_hub (cast (Hub_call_client_remove_remote_entity gate sid conn))"
  have 0: "ids_of ?g s (?g, s)" "removals (?g, s) = removals (g, s)"
    by (simp_all add: ids_of_def removals_def)
  have "\<exists>t1. for_each ?e (vals (g_entities g)) (?g, s) = (Inr (), t1) \<and> ids_of ?g s t1 \<and>
    removals t1 = removals (?g, s) @ List.map (\<lambda>e. (e_entity_id (eobj s e), gate, [conn])) (vals (g_entities g))"
    by (rule for_each_single [where J = "ids_of ?g s", OF take_one(1) 0(1)])
  then obtain t1 where 1: "for_each ?e (vals (g_entities g)) (?g, s) = (Inr (), t1)" "ids_of ?g s t1"
    "removals t1 = removals (g, s) @ List.map (\<lambda>e. (e_entity_id (eobj s e), gate, [conn])) (vals (g_entities g))"
    unfolding 0(2) by blast
  have "\<exists>t2. for_each ?p (vals (g_players g)) t1 = (Inr (), t2) \<and> ids_of ?g s t2 \<and>
    removals t2 = removals t1 @ List.map (\<lambda>p. (p_entity_id (pobj s p), gate, [conn])) (vals (g_players g))"
    by (rule for_each_single [where J = "ids_of ?g s", OF take_one(2) 1(2)])
  then obtain t2 where 2: "for_each ?p (vals (g_players g)) t1 = (Inr (), t2)" "ids_of ?g s t2"
    "removals t2 = removals t1 @ List.map (\<lambda>p. (p_entity_id (pobj s p), gate, [conn])) (vals (g_players g))"
    by blast
  have "\<exists>t3. for_each ?i (scene_object_ids g) t2 = (Inr (), t3) \<and> ids_of ?g s t3 \<and>
    removals t3 = removals t2 @ List.map (\<lambda>i. (i, gate, [conn])) (scene_object_ids g)"
    by (rule for_each_single [where J = "ids_of ?g s", OF take_one(3) 2(2)])
  then obtain t3 where 3: "for_each ?i (scene_object_ids g) t2 = (Inr (), t3)" "ids_of ?g s t3"
    "removals t3 = removals t2 @ List.map (\<lambda>i. (i, gate, [conn])) (scene_object_ids g)"
    by blast
  have "group_leave (gate, conn) (g, s) = (Inr (), t3)"
    using 1 2 3 find by (simp add: group_leave_def)
  moreover have "fst t3 = ?g" using 3(2) by (simp add: ids_of_def)
  ultimately show ?thesis using 1 2 3 by (simp add: held_by_def concat_singles)
qed

text \<open>The rest of \<open>join\<close>, once the entities and players are shown.\<close>

definition join_scene ::
  "env \<Rightarrow> (json \<Rightarrow> bytes) \<Rightarrow> json \<Rightarrow> string \<Rightarrow> string \<Rightarrow> (world, unit) py" where
  "join_scene env dumps manifest gate conn = read (\<lambda>w. case scene_manifest_path (fst w) of
      Some path \<Rightarrow>
        if scene_object_ids (fst w) \<noteq> [] \<and> path \<noteq> ''''
        then bindp (sync_scene_to_group env dumps False path manifest gate [conn]) (\<lambda>_. ret ())
        else ret ()
    | None \<Rightarrow> ret ())"

definition join_dynamic :: "string \<Rightarrow> string \<Rightarrow> string \<Rightarrow> (world, unit) py" where
  "join_dynamic k gate conn = read (\<lambda>w. block
     [for_each (\<lambda>(entity_id, msg_bytes).
        on_hub (cast (Hub_call_client_create_remote_entity gate False [conn] ''''
                        entity_id entity_type_dynamic msg_bytes))) (dynamic_cache (fst w)),
      on_group (\<lambda>g. g\<lparr>clients :=
        dset (entity_id_after k (dynamic_cache g)) (gate, conn) (clients g)\<rparr>)])"

lemma group_join_apply:
  assumes "\<forall>e t. \<exists>b. env_entity_client_info env e t = Inr b"
    and "\<forall>p t. \<exists>b. env_player_client_info env p t = Inr b"
  shows "\<exists>t. ids_of g s (g, t) \<and> mirrors (g, t) = mirrors (g, s) @ shown_to k gate [conn] g s \<and>
    group_join env dumps manifest k (gate, conn) (g, s) =
      block [join_scene env dumps manifest gate conn, join_dynamic k gate conn] (g, t)"
proof -
  let ?shows = "[on_hub (app_log ''trace'' ''app group join! gate_name:{gate_name} conn_id:{conn_id}''),
      read (\<lambda>w. for_each (\<lambda>e. on_hub (entity_create_remote_entity env e gate [conn]))
                  (vals (g_entities (fst w)))),
      read (\<lambda>w. for_each (\<lambda>p. read (\<lambda>w.
                    if p_entity_id (pobj (snd w) p) = k then ret ()
                    else on_hub (player_create_remote_entity env p gate [conn])))
                  (vals (g_players (fst w))))]"
  have join: "group_join env dumps manifest k (gate, conn) =
      block (?shows @ [join_scene env dumps manifest gate conn, join_dynamic k gate conn])"
    by (simp add: group_join_def join_scene_def join_dynamic_def)
  obtain w where w: "block ?shows (g, s) = (Inr (), w)" "ids_of g s w"
    "mirrors w = mirrors (g, s) @ shown_to k gate [conn] g s"
    using join_shows [OF assms, where l = "''trace''" and g = g and s = s and gate = gate
        and cs = "[conn]" and k = k] by blast
  obtain t where t: "w = (g, t)" using w(2) by (cases w) (simp add: ids_of_def)
  have "group_join env dumps manifest k (gate, conn) (g, s) =
      block [join_scene env dumps manifest gate conn, join_dynamic k gate conn] (g, t)"
    unfolding join block_append w(1) t by (rule bind_res.simps)
  then show ?thesis using w(2,3) unfolding t by blast
qed

subsection \<open>Properties\<close>

text \<open>C27: for a group without scene objects and dynamic cache, and a client that is not yet in it under its
  id or its connection: \<open>join\<close> shows the client every entity of the group and every player but its own,
  each once, and registers it; \<open>leave\<close> takes the registration back and removes from the client
  everything it was shown.  What the entities and players write as their information does not raise.
  (A join of a group with scene objects raises \<open>ImportError\<close>.)\<close>

theorem join_then_leave:
  fixes dumps :: "json \<Rightarrow> bytes" and manifest :: json and s :: hub and k gate conn :: string
  assumes ent: "\<forall>e t. \<exists>b. env_entity_client_info env e t = Inr b"
    and pl: "\<forall>p t. \<exists>b. env_player_client_info env p t = Inr b"
    and plain: "scene_object_ids g = []" "dynamic_cache g = []"
    and new: "dget (clients g) k = None" "(gate, conn) \<notin> snd ` set (clients g)"
  defines "u \<equiv> state_of (group_join env dumps manifest k (gate, conn) (g, s))"
  shows "result_of (group_join env dumps manifest k (gate, conn) (g, s)) = Inr () \<and>
    mirrors u = mirrors (g, s) @ shown_to k gate [conn] g s \<and>
    dget (clients (fst u)) k = Some (gate, conn) \<and>
    clients (fst (state_of (group_leave (gate, conn) u))) = clients g \<and>
    set (shown_to k gate [conn] g s) \<subseteq> set (removals (state_of (group_leave (gate, conn) u)))"
proof -
  let ?g = "g\<lparr>clients := dset k (gate, conn) (clients g)\<rparr>"
  obtain t where t: "ids_of g s (g, t)" "mirrors (g, t) = mirrors (g, s) @ shown_to k gate [conn] g s"
    "group_join env dumps manifest k (gate, conn) (g, s) =
       block [join_scene env dumps manifest gate conn, join_dynamic k gate conn] (g, t)"
    using group_join_apply [OF ent pl] by blast
  have "block [join_scene env dumps manifest gate conn, join_dynamic k gate conn] (g, t) = (Inr (), (?g, t))"
    using plain by (simp add: join_scene_def join_dynamic_def entity_id_after_def split: option.split)
  with t(3) have join: "group_join env dumps manifest k (gate, conn) (g, s) = (Inr (), (?g, t))" by simp
  then have u: "u = (?g, t)" by (simp add: u_def)
  have "List.find (\<lambda>(k, c). c = (gate, conn)) (clients ?g) = Some (k, gate, conn)"
  proof -
    have "List.find (\<lambda>(k, c). c = (gate, conn)) (clients g) = None"
      using new(2) by (force simp: find_None_iff)
    then show ?thesis using new(1) by (simp add: dset_new find_append)
  qed
  from leave_found [OF this, of t] u obtain v where v: "group_leave (gate, conn) u = (Inr (), v)"
    "clients (fst v) = ddel k (dset k (gate, conn) (clients g))"
    "removals v = removals u @ held_by gate [conn] ?g t" by auto
  have "held_by gate [conn] ?g t = held_by gate [conn] g s"
    using t(1) by (simp add: held_by_def ids_of_def)
  then show ?thesis
    using v t(2) join u shown_held [of k gate "[conn]" g s] new(1)
    by (auto simp: ddel_dset_new mirrors_def)
qed

definition plaza :: group where
  "plaza = \<lparr>clients = [(''pet'', ''g0'', ''c2'')], g_entities = [(''tree'', 4)], g_players = [(''hero'', 0), (''pet'', 2)],
     scene_object_ids = [], scene_manifest_path = None, dynamic_cache = [], scene_cache = None\<rparr>"

theorem join_then_leave_witness:
  "clients (fst (state_of (group_leave (''g0'', ''c0'') (state_of
     (group_join quiet_env (\<lambda>_. []) JNull ''hero'' (''g0'', ''c0'') (plaza, two_sessions)))))) = clients plaza"
  using join_then_leave [of quiet_env plaza "''hero''" "''g0''" "''c0''" "\<lambda>_. []" JNull two_sessions]
  by (simp add: plaza_def)

text \<open>Joining a group that has static scene objects raises \<open>ImportError\<close>, after the client was
  shown the entities and players and before it is registered: it gets no later change.\<close>

theorem join_with_scene_raises:
  fixes dumps :: "json \<Rightarrow> bytes" and manifest :: json and s :: hub and k gate conn :: string
  assumes ent: "\<forall>e t. \<exists>b. env_entity_client_info env e t = Inr b"
    and pl: "\<forall>p t. \<exists>b. env_player_client_info env p t = Inr b"
    and scene: "scene_manifest_path g = Some path" "path \<noteq> ''''" "scene_object_ids g \<noteq> []"
      "scene_cache g = Some cache" "cache \<noteq> []"
  defines "u \<equiv> state_of (group_join env dumps manifest k (gate, conn) (g, s))"
  shows "result_of (group_join env dumps manifest k (gate, conn) (g, s)) = Inl ImportError \<and>
    fst u = g \<and> mirrors u = mirrors (g, s) @ shown_to k gate [conn] g s"
proof -
  obtain t where t: "mirrors (g, t) = mirrors (g, s) @ shown_to k gate [conn] g s"
    "group_join env dumps manifest k (gate, conn) (g, s) =
       block [join_scene env dumps manifest gate conn, join_dynamic k gate conn] (g, t)"
    using group_join_apply [OF ent pl] by blast
  obtain x rest where "cache = x # rest" using scene(5) by (cases cache) auto
  then have "join_scene env dumps manifest gate conn (g, t) = (Inl ImportError, (g, t))"
    using scene by (cases x) (simp add: join_scene_def sync_scene_to_group_def create_static_def)
  then show ?thesis using t by (simp add: u_def)
qed

theorem join_with_scene_raises_witness:
  "result_of (group_join quiet_env (\<lambda>_. []) JNull ''hero'' (''g0'', ''c0'')
     (plaza\<lparr>scene_manifest_path := Some ''m.json'', scene_object_ids := [''rock''],
            scene_cache := Some [(''rock'', ''b'')]\<rparr>, two_sessions)) = Inl ImportError"
  using join_with_scene_raises [where env = quiet_env and g = "plaza\<lparr>scene_manifest_path := Some ''m.json'',
      scene_object_ids := [''rock''], scene_cache := Some [(''rock'', ''b'')]\<rparr>" and path = "''m.json''"
      and cache = "[(''rock'', ''b'')]"]
  by simp

text \<open>Joining a group that has dynamic scene objects registers the client under the id of the
  last of them instead of the player's; removing the player then raises \<open>KeyError\<close> and the
  client stays registered.\<close>

theorem join_dynamic_wrong_id:
  fixes dumps :: "json \<Rightarrow> bytes" and manifest :: json and s :: hub and k gate conn :: string
  assumes ent: "\<forall>e t. \<exists>b. env_entity_client_info env e t = Inr b"
    and pl: "\<forall>p t. \<exists>b. env_player_client_info env p t = Inr b"
    and dyn: "scene_manifest_path g = None" "dynamic_cache g = d @ [(i, b)]" "i \<noteq> k"
    and new: "dget (clients g) k = None"
    and player: "dget (g_players g) k = Some p" "p_entity_id (pobj s p) = k"
  defines "u \<equiv> state_of (group_join env dumps manifest k (gate, conn) (g, s))"
  shows "clients (fst u) = dset i (gate, conn) (clients g) \<and> dget (clients (fst u)) k = None \<and>
    result_of (group_remove_player p u) = Inl KeyError \<and>
    dget (clients (fst (state_of (group_remove_player p u)))) i = Some (gate, conn)"
proof -
  obtain t where t: "ids_of g s (g, t)"
    "group_join env dumps manifest k (gate, conn) (g, s) =
       block [join_scene env dumps manifest gate conn, join_dynamic k gate conn] (g, t)"
    using group_join_apply [OF ent pl] by blast
  let ?g = "g\<lparr>clients := dset i (gate, conn) (clients g)\<rparr>"
  let ?cs = "List.map (\<lambda>(entity_id, msg_bytes). Hub_call_client_create_remote_entity gate False [conn] ''''
                 entity_id entity_type_dynamic msg_bytes) (dynamic_cache g)"
  have scene: "join_scene env dumps manifest gate conn (g, t) = (Inr (), (g, t))"
    using dyn(1) by (simp add: join_scene_def)
  have "for_each (\<lambda>(entity_id, msg_bytes). on_hub (cast (Hub_call_client_create_remote_entity gate False
        [conn] '''' entity_id entity_type_dynamic msg_bytes))) (dynamic_cache g) (g, t) = (Inr (), (g, emits ?cs t))"
    using for_each_on_hub_cast [where f = "\<lambda>(entity_id, msg_bytes). Hub_call_client_create_remote_entity
        gate False [conn] '''' entity_id entity_type_dynamic msg_bytes" and xs = "dynamic_cache g" and g = g and s = t]
    by (simp add: case_prod_beta')
  then have "join_dynamic k gate conn (g, t) = (Inr (), (?g, emits ?cs t))"
    using dyn(2) by (simp add: join_dynamic_def entity_id_after_def)
  with scene t(2) have u: "u = (?g, emits ?cs t)" by (simp add: u_def)
  have "p_entity_id (pobj (emits ?cs t) p) = k" using ids_ofD(2) [OF t(1)] player(2) by simp
  moreover have "for_each (\<lambda>gate. on_hub (cast (Hub_call_client_delete_remote_entity gate k))) gs (?g, w) =
      (Inr (), (?g, emits (List.map (\<lambda>gate. Hub_call_client_delete_remote_entity gate k) gs) w))" for gs w
    by (rule for_each_on_hub_cast)
  ultimately show ?thesis
    using player(1) dyn(3) new by (simp add: u group_remove_player_def Let_def)
qed

theorem join_dynamic_wrong_id_witness:
  "result_of (group_remove_player 0 (state_of (group_join quiet_env (\<lambda>_. []) JNull ''hero'' (''g0'', ''c0'')
     (plaza\<lparr>dynamic_cache := [] @ [(''ball'', ''b'')]\<rparr>, two_sessions)))) = Inl KeyError"
  using join_dynamic_wrong_id [where env = quiet_env and d = "[]" and i = "''ball''" and b = "''b''" and k = "''hero''"
      and p = 0 and g = "plaza\<lparr>dynamic_cache := [] @ [(''ball'', ''b'')]\<rparr>" and s = two_sessions
      and gate = "''g0''" and conn = "''c0''" and dumps = "\<lambda>_. []" and manifest = JNull]
  by (simp add: plaza_def two_sessions_def)

end
