(* ===== verification/Aoi.thy ===== *)
theory Aoi
  imports Group
begin

section \<open>Area of interest\<close>

text \<open>
  \<open>aoi.py\<close>: \<open>AoiManager\<close> numbers the entities for the native grid, keeps who sees whom in both
  directions, and takes what left a view out of the group.  The native grid is a parameter:
  the calls made to it are recorded in \<open>grid\<close>, and the events \<open>take_events\<close> returns are an
  argument of \<open>tick\<close>.  A position is an opaque value.
\<close>

type_synonym vec = string

datatype grid_call = Grid_insert int vec int | Grid_update int vec | Grid_remove int

datatype event_kind = Enter | Leave

record aoi =
  id_to_str :: "(int, string) dict"
  str_to_id :: "(string, int) dict"
  next_id :: int
  visible :: "(string, string list) dict"
  observers :: "(string, string list) dict"
  entity_registry :: "(string, nat) dict"
  player_registry :: "(string, nat) dict"
  on_enter :: "fn option"
  on_leave :: "fn option"
  grid :: "grid_call list"

definition new_aoi :: aoi where
  "new_aoi = \<lparr>id_to_str = [], str_to_id = [], next_id = 1, visible = [], observers = [],
     entity_registry = [], player_registry = [], on_enter = None, on_leave = None, grid = []\<rparr>"

definition reg_on_enter :: "fn \<Rightarrow> aoi \<Rightarrow> aoi" where
  "reg_on_enter callback a = a\<lparr>on_enter := Some callback\<rparr>"

definition reg_on_leave :: "fn \<Rightarrow> aoi \<Rightarrow> aoi" where
  "reg_on_leave callback a = a\<lparr>on_leave := Some callback\<rparr>"

subsection \<open>Numbering the entities\<close>

definition do_insert :: "string \<Rightarrow> vec \<Rightarrow> int \<Rightarrow> aoi \<Rightarrow> aoi" where
  "do_insert eid position radius a =
     (case dget (str_to_id a) eid of
        Some aoi_id \<Rightarrow> a\<lparr>grid := grid a @ [Grid_insert aoi_id position radius]\<rparr>
      | None \<Rightarrow> a\<lparr>next_id := next_id a + 1,
                  str_to_id := dset eid (next_id a) (str_to_id a),
                  id_to_str := dset (next_id a) eid (id_to_str a),
                  grid := grid a @ [Grid_insert (next_id a) position radius]\<rparr>)"

text \<open>\<open>d.get(k, set()).discard(x)\<close>.\<close>

definition discard_in :: "'k \<Rightarrow> 'x \<Rightarrow> ('k, 'x list) dict \<Rightarrow> ('k, 'x list) dict" where
  "discard_in k x d = (case dget d k of None \<Rightarrow> d | Some xs \<Rightarrow> dset k (removeAll x xs) d)"

definition set_at :: "('k, 'x list) dict \<Rightarrow> 'k \<Rightarrow> 'x list" where
  "set_at d k = (case dget d k of None \<Rightarrow> [] | Some xs \<Rightarrow> xs)"

definition do_remove :: "string \<Rightarrow> aoi \<Rightarrow> aoi" where
  "do_remove eid a =
     (case dget (str_to_id a) eid of
        None \<Rightarrow> a
      | Some aoi_id \<Rightarrow>
         let vis = fold (\<lambda>obs. discard_in obs eid) (set_at (observers a) eid) (visible a);
             seen = ddel eid (observers a);
             seen' = fold (\<lambda>tgt. discard_in tgt eid) (set_at vis eid) seen
         in a\<lparr>str_to_id := ddel eid (str_to_id a), id_to_str := ddel aoi_id (id_to_str a),
              grid := grid a @ [Grid_remove aoi_id], visible := ddel eid vis, observers := seen'\<rparr>)"

definition aoi_add_entity :: "hub \<Rightarrow> nat \<Rightarrow> vec \<Rightarrow> int \<Rightarrow> aoi \<Rightarrow> aoi" where
  "aoi_add_entity s e position radius a =
     do_insert (e_entity_id (eobj s e)) position radius
       (a\<lparr>entity_registry := dset (e_entity_id (eobj s e)) e (entity_registry a)\<rparr>)"

definition aoi_add_player :: "hub \<Rightarrow> nat \<Rightarrow> vec \<Rightarrow> int \<Rightarrow> aoi \<Rightarrow> aoi" where
  "aoi_add_player s p position radius a =
     do_insert (p_entity_id (pobj s p)) position radius
       (a\<lparr>player_registry := dset (p_entity_id (pobj s p)) p (player_registry a)\<rparr>)"

definition update_position :: "string \<Rightarrow> vec \<Rightarrow> aoi \<Rightarrow> aoi" where
  "update_position eid position a =
     (case dget (str_to_id a) eid of
        None \<Rightarrow> a
      | Some aoi_id \<Rightarrow> a\<lparr>grid := grid a @ [Grid_update aoi_id position]\<rparr>)"

definition aoi_remove :: "string \<Rightarrow> aoi \<Rightarrow> aoi" where
  "aoi_remove eid a = do_remove eid
     (a\<lparr>entity_registry := ddel eid (entity_registry a), player_registry := ddel eid (player_registry a)\<rparr>)"

definition observers_of :: "aoi \<Rightarrow> string \<Rightarrow> string list" where
  "observers_of a target_id = set_at (observers a) target_id"

definition visible_of :: "aoi \<Rightarrow> string \<Rightarrow> string list" where
  "visible_of a observer_id = set_at (visible a) observer_id"

definition has_entity :: "aoi \<Rightarrow> string \<Rightarrow> bool" where
  "has_entity a eid = has_key (str_to_id a) eid"

subsection \<open>The events of a frame\<close>

type_synonym aoi_world = "aoi \<times> world"

definition on_aoi :: "(aoi \<Rightarrow> aoi) \<Rightarrow> (aoi_world, unit) py" where
  "on_aoi f = (\<lambda>w. (Inr (), (f (fst w), snd w)))"

definition on_world :: "(world, 'a) py \<Rightarrow> (aoi_world, 'a) py" where
  "on_world m = (\<lambda>w. case m (snd w) of (r, w') \<Rightarrow> (r, (fst w, w')))"

lemma on_aoi_apply [simp]: "on_aoi f (a, w) = (Inr (), (f a, w))"
  by (simp add: on_aoi_def)

definition note_enter :: "string \<Rightarrow> string \<Rightarrow> aoi \<Rightarrow> aoi" where
  "note_enter obs tgt a = a\<lparr>
     visible := dset obs (append_new tgt (set_at (visible a) obs)) (visible a),
     observers := dset tgt (append_new obs (set_at (observers a) tgt)) (observers a)\<rparr>"

definition note_leave :: "string \<Rightarrow> string \<Rightarrow> aoi \<Rightarrow> aoi" where
  "note_leave obs tgt a = a\<lparr>visible := discard_in obs tgt (visible a),
                            observers := discard_in tgt obs (observers a)\<rparr>"

text \<open>
  A callback of the application gets both ids; what it does is the parameter \<open>call\<close>, and an
  exception it raises is printed.
\<close>

definition call_guarded ::
  "(fn \<Rightarrow> string \<Rightarrow> string \<Rightarrow> (aoi_world, unit) py) \<Rightarrow> fn option \<Rightarrow> string \<Rightarrow> string \<Rightarrow> (aoi_world, unit) py" where
  "call_guarded call f obs tgt =
     (case f of None \<Rightarrow> ret () | Some g \<Rightarrow> try_except (call g obs tgt) (\<lambda>_. ret ()))"

text \<open>What left a view is removed from the group, for every client.\<close>

definition evict :: "string \<Rightarrow> (aoi_world, unit) py" where
  "evict tgt = read (\<lambda>w.
     case dget (entity_registry (fst w)) tgt of
       Some e \<Rightarrow> on_world (group_remove_entity e)
     | None \<Rightarrow> (case dget (player_registry (fst w)) tgt of
         Some p \<Rightarrow> on_world (group_remove_player p)
       | None \<Rightarrow> ret ()))"

fun tick_event ::
  "(fn \<Rightarrow> string \<Rightarrow> string \<Rightarrow> (aoi_world, unit) py) \<Rightarrow> event_kind \<Rightarrow> string \<Rightarrow> string \<Rightarrow> (aoi_world, unit) py" where
  "tick_event call Enter obs tgt = block
     [on_aoi (note_enter obs tgt), read (\<lambda>w. call_guarded call (on_enter (fst w)) obs tgt)]"
| "tick_event call Leave obs tgt = block
     [on_aoi (note_leave obs tgt), evict tgt, read (\<lambda>w. call_guarded call (on_leave (fst w)) obs tgt)]"

fun tick_events ::
  "(fn \<Rightarrow> string \<Rightarrow> string \<Rightarrow> (aoi_world, unit) py) \<Rightarrow> (event_kind \<times> int \<times> int) list \<Rightarrow>
   (event_kind \<times> string \<times> string) list \<Rightarrow> (aoi_world, (event_kind \<times> string \<times> string) list) py" where
  "tick_events call [] result = ret result"
| "tick_events call ((kind, obs, tgt) # raw) result = read (\<lambda>w.
     case (dget (id_to_str (fst w)) obs, dget (id_to_str (fst w)) tgt) of
       (Some obs_str, Some tgt_str) \<Rightarrow>
         bindp (tick_event call kind obs_str tgt_str)
           (\<lambda>_. tick_events call raw (result @ [(kind, obs_str, tgt_str)]))
     | _ \<Rightarrow> tick_events call raw result)"

definition aoi_tick ::
  "(fn \<Rightarrow> string \<Rightarrow> string \<Rightarrow> (aoi_world, unit) py) \<Rightarrow> (event_kind \<times> int \<times> int) list \<Rightarrow>
   (aoi_world, (event_kind \<times> string \<times> string) list) py" where
  "aoi_tick call raw = tick_events call raw []"

subsection \<open>The mixin of entities and players\<close>

text \<open>
  \<open>AoiEntityMixin\<close>: registering inserts into the grid only; the registries of the manager,
  which \<open>tick\<close> evicts through, are not told.  The argument says whether \<open>_aoi_mgr\<close> is set.
\<close>

definition aoi_register :: "string \<Rightarrow> vec \<Rightarrow> int \<Rightarrow> aoi \<Rightarrow> aoi" where
  "aoi_register entity_id position radius a = do_insert entity_id position radius a"

definition aoi_update :: "bool \<Rightarrow> string \<Rightarrow> vec \<Rightarrow> aoi \<Rightarrow> aoi" where
  "aoi_update registered entity_id position a = (if registered then update_position entity_id position a else a)"

definition aoi_unregister :: "bool \<Rightarrow> string \<Rightarrow> aoi \<Rightarrow> aoi" where
  "aoi_unregister registered entity_id a = (if registered then do_remove entity_id a else a)"

definition visible_set :: "bool \<Rightarrow> string \<Rightarrow> aoi \<Rightarrow> string list" where
  "visible_set registered entity_id a = (if registered then visible_of a entity_id else [])"

definition observer_set :: "bool \<Rightarrow> string \<Rightarrow> aoi \<Rightarrow> string list" where
  "observer_set registered entity_id a = (if registered then observers_of a entity_id else [])"

text \<open>
  \<open>hub_call_client_ntf(gate, conn, method, argvs)\<close> misses the entity id: the method of
  \<open>context\<close> takes five arguments, so the first observer that has a connection is a
  \<open>TypeError\<close>.
\<close>

fun notify_observers :: "hub \<Rightarrow> string list \<Rightarrow> nat \<Rightarrow> pyexn + nat" where
  "notify_observers s [] sent = Inr sent"
| "notify_observers s (obs_id # rest) sent =
     (case get_player s obs_id of
        None \<Rightarrow> notify_observers s rest sent
      | Some p \<Rightarrow>
          if p_client_gate_name (pobj s p) = '''' \<or> p_client_conn_id (pobj s p) = ''''
          then notify_observers s rest sent
          else Inl TypeError)"

definition call_observers_notify :: "bool \<Rightarrow> string \<Rightarrow> aoi \<Rightarrow> hub \<Rightarrow> pyexn + nat" where
  "call_observers_notify registered entity_id a s =
     (if registered then notify_observers s (observers_of a entity_id) 0 else Inr 0)"

subsection \<open>Facts\<close>

lemma set_at_simps [simp]:
  "set_at (dset k xs d) k' = (if k' = k then xs else set_at d k')"
  "set_at (ddel k d) k' = (if k' = k then [] else set_at d k')"
  "set_at [] k' = []"
  by (simp_all add: set_at_def)

lemma set_at_discard:
  "set (set_at (discard_in k x d) k') = (if k' = k then set (set_at d k') - {x} else set (set_at d k'))"
proof (cases "dget d k")
  case None
  then show ?thesis by (simp add: discard_in_def set_at_def)
next
  case (Some xs)
  then have "discard_in k x d = dset k (removeAll x xs) d" "set_at d k = xs"
    by (simp_all add: discard_in_def set_at_def)
  then show ?thesis by simp
qed

lemma set_at_fold_discard:
  "set (set_at (fold (\<lambda>k. discard_in k x) ks d) k') =
     (if k' \<in> set ks then set (set_at d k') - {x} else set (set_at d k'))"
  by (induction ks arbitrary: d) (auto simp: set_at_discard)

text \<open>
  The invariant of the manager: the two numberings are inverse to each other and below the
  next number, an entity sees another exactly when it is one of the other's observers, and
  both have a number.
\<close>

definition numbering_ok :: "aoi \<Rightarrow> bool" where
  "numbering_ok a = ((\<forall>e i. dget (str_to_id a) e = Some i \<longleftrightarrow> dget (id_to_str a) i = Some e) \<and>
     (\<forall>i. dget (id_to_str a) i \<noteq> None \<longrightarrow> i < next_id a))"

definition views_ok :: "aoi \<Rightarrow> bool" where
  "views_ok a = (\<forall>v t. (t \<in> set (visible_of a v) \<longleftrightarrow> v \<in> set (observers_of a t)) \<and>
     (t \<in> set (visible_of a v) \<longrightarrow> has_entity a v \<and> has_entity a t))"

definition aoi_ok :: "aoi \<Rightarrow> bool" where
  "aoi_ok a = (numbering_ok a \<and> views_ok a)"

lemma new_aoi_ok: "aoi_ok new_aoi"
  by (simp add: aoi_ok_def numbering_ok_def views_ok_def new_aoi_def visible_of_def observers_of_def)

lemma do_insert_ok:
  assumes "aoi_ok a"
  shows "aoi_ok (do_insert eid pos r a)"
proof (cases "dget (str_to_id a) eid")
  case None
  have "dget (id_to_str a) j \<noteq> Some eid" for j
    using assms None unfolding aoi_ok_def numbering_ok_def by (metis option.distinct(1))
  then have "numbering_ok (do_insert eid pos r a)"
    using assms None unfolding aoi_ok_def numbering_ok_def
    by (auto simp: do_insert_def split: if_splits)
  moreover have "views_ok (do_insert eid pos r a)"
    using assms None unfolding aoi_ok_def views_ok_def
    by (auto simp: do_insert_def visible_of_def observers_of_def has_entity_def has_key_def)
  ultimately show ?thesis by (simp add: aoi_ok_def)
next
  case (Some i)
  then have "do_insert eid pos r a = a\<lparr>grid := grid a @ [Grid_insert i pos r]\<rparr>"
    by (simp add: do_insert_def)
  with assms show ?thesis
    by (simp add: aoi_ok_def numbering_ok_def views_ok_def visible_of_def
        observers_of_def has_entity_def)
qed

lemma do_remove_views:
  assumes "views_ok a" and "has_entity a eid"
  shows "set (visible_of (do_remove eid a) v) = (if v = eid then {} else set (visible_of a v) - {eid})"
    and "set (observers_of (do_remove eid a) t) = (if t = eid then {} else set (observers_of a t) - {eid})"
proof -
  obtain i where i: "dget (str_to_id a) eid = Some i" using assms(2) by (auto simp: has_entity_def has_key_def)
  have sym: "t \<in> set (set_at (visible a) v) \<longleftrightarrow> v \<in> set (set_at (observers a) t)" for v t
    using assms(1) unfolding views_ok_def visible_of_def observers_of_def by blast
  let ?vis = "fold (\<lambda>obs. discard_in obs eid) (set_at (observers a) eid) (visible a)"
  have vis: "set (set_at ?vis v) = set (set_at (visible a) v) - {eid}" for v
    using sym [of eid v] by (auto simp: set_at_fold_discard)
  show "set (visible_of (do_remove eid a) v) = (if v = eid then {} else set (visible_of a v) - {eid})"
    using i vis by (simp add: do_remove_def Let_def visible_of_def)
  show "set (observers_of (do_remove eid a) t) = (if t = eid then {} else set (observers_of a t) - {eid})"
    using i vis sym [of t eid] by (auto simp: do_remove_def Let_def observers_of_def set_at_fold_discard)
qed

lemma do_remove_unknown: "\<not> has_entity a eid \<Longrightarrow> do_remove eid a = a"
  by (simp add: do_remove_def has_entity_def has_key_def)

lemma do_remove_numbers:
  assumes "numbering_ok a" and "has_entity a eid"
  shows "numbering_ok (do_remove eid a)" and "has_entity (do_remove eid a) k \<longleftrightarrow> k \<noteq> eid \<and> has_entity a k"
proof -
  obtain i where i: "dget (str_to_id a) eid = Some i" using assms(2) by (auto simp: has_entity_def has_key_def)
  have inv: "dget (str_to_id a) e = Some j \<longleftrightarrow> dget (id_to_str a) j = Some e" for e j
    using assms(1) unfolding numbering_ok_def by blast
  have new: "str_to_id (do_remove eid a) = ddel eid (str_to_id a)"
    "id_to_str (do_remove eid a) = ddel i (id_to_str a)" "next_id (do_remove eid a) = next_id a"
    using i by (simp_all add: do_remove_def Let_def)
  show "numbering_ok (do_remove eid a)"
    unfolding numbering_ok_def new using assms(1) i inv
    by (auto simp: numbering_ok_def) (metis option.inject)
  show "has_entity (do_remove eid a) k \<longleftrightarrow> k \<noteq> eid \<and> has_entity a k"
    by (simp add: has_entity_def new has_key_def)
qed

lemma do_remove_ok:
  assumes "aoi_ok a"
  shows "aoi_ok (do_remove eid a)"
proof (cases "has_entity a eid")
  case True
  have ok: "numbering_ok a" "views_ok a" using assms by (simp_all add: aoi_ok_def)
  have "views_ok (do_remove eid a)"
    using ok(2) unfolding views_ok_def
    by (auto simp: do_remove_views [OF ok(2) True] do_remove_numbers(2) [OF ok(1) True])
  then show ?thesis using do_remove_numbers(1) [OF ok(1) True] by (simp add: aoi_ok_def)
qed (use assms do_remove_unknown in simp)

lemma note_ok:
  assumes "aoi_ok a" and "has_entity a v" and "has_entity a t"
  shows "aoi_ok (note_enter v t a)" and "aoi_ok (note_leave v t a)"
proof -
  have "views_ok (note_enter v t a)"
    using assms unfolding aoi_ok_def views_ok_def
    by (auto simp: note_enter_def visible_of_def observers_of_def has_entity_def)
  moreover have "views_ok (note_leave v t a)"
    using assms(1) unfolding aoi_ok_def views_ok_def
    by (auto simp: note_leave_def visible_of_def observers_of_def has_entity_def set_at_discard)
  moreover have "numbering_ok (note_enter v t a)" "numbering_ok (note_leave v t a)"
    using assms(1) by (simp_all add: aoi_ok_def numbering_ok_def note_enter_def note_leave_def)
  ultimately show "aoi_ok (note_enter v t a)" and "aoi_ok (note_leave v t a)"
    by (simp_all add: aoi_ok_def)
qed

subsection \<open>A frame keeps the invariant\<close>

definition keeps_aoi :: "(aoi_world, 'a) py \<Rightarrow> bool" where
  "keeps_aoi m = (\<forall>w. aoi_ok (fst w) \<longrightarrow> aoi_ok (fst (state_of (m w))))"

lemma keeps_aoiD: "keeps_aoi m \<Longrightarrow> aoi_ok (fst w) \<Longrightarrow> aoi_ok (fst (state_of (m w)))"
  unfolding keeps_aoi_def by blast

lemma on_world_aoi [simp]: "fst (state_of (on_world m w)) = fst w"
  by (simp add: on_world_def split: prod.split)

lemma bind_keeps:
  assumes "aoi_ok (fst (state_of (m w)))"
    and "\<And>x w'. aoi_ok (fst w') \<Longrightarrow> aoi_ok (fst (state_of (k x w')))"
  shows "aoi_ok (fst (state_of (bindp m k w)))"
proof -
  obtain r w' where r: "m w = (r, w')" using prod.exhaust by blast
  then show ?thesis using assms by (cases r) (simp_all add: result_state_simps)
qed

lemma keeps_guarded:
  assumes "\<forall>f v t. keeps_aoi (call f v t)"
  shows "keeps_aoi (call_guarded call g v t)"
proof (cases g)
  case None
  then show ?thesis by (simp add: call_guarded_def keeps_aoi_def)
next
  case (Some f)
  have "aoi_ok (fst (state_of (try_except (call f v t) (\<lambda>_. ret ()) w)))" if "aoi_ok (fst w)" for w
    using keeps_aoiD [OF assms [rule_format, of f v t] that]
    by (cases "call f v t w"; cases "fst (call f v t w)") (auto simp: try_except_def)
  then show ?thesis by (simp add: call_guarded_def Some keeps_aoi_def)
qed

lemma keeps_evict: "keeps_aoi (evict t)"
  by (simp add: keeps_aoi_def evict_def split: option.split)

lemma tick_event_ok:
  assumes "\<forall>f v t. keeps_aoi (call f v t)" and "aoi_ok (fst w)"
    and "has_entity (fst w) v" and "has_entity (fst w) t"
  shows "aoi_ok (fst (state_of (tick_event call kind v t w)))"
proof -
  obtain a gw where Pair: "w = (a, gw)" using prod.exhaust by blast
  have read: "aoi_ok (fst (state_of (read (\<lambda>w. call_guarded call (f (fst w)) v t) w')))"
    if "aoi_ok (fst w')" for w' :: aoi_world and f
    using keeps_aoiD [OF keeps_guarded [OF assms(1)] that] by simp
  show ?thesis
  proof (cases kind)
    case Enter
    have "aoi_ok (note_enter v t a)" using assms note_ok(1) by (simp add: Pair)
    then have "aoi_ok (fst (state_of (on_aoi (note_enter v t) w)))" by (simp add: Pair)
    with Enter show ?thesis
      by (simp only: tick_event.simps block.simps) (intro bind_keeps read; simp)
  next
    case Leave
    have "aoi_ok (note_leave v t a)" using assms note_ok(2) by (simp add: Pair)
    then have "aoi_ok (fst (state_of (on_aoi (note_leave v t) w)))" by (simp add: Pair)
    with Leave show ?thesis
      by (simp only: tick_event.simps block.simps)
         (intro bind_keeps read keeps_aoiD [OF keeps_evict]; simp)
  qed
qed

lemma numbered: "aoi_ok a \<Longrightarrow> dget (id_to_str a) i = Some e \<Longrightarrow> has_entity a e"
  by (simp add: aoi_ok_def numbering_ok_def has_entity_def has_key_def) metis

lemma tick_events_ok:
  assumes "\<forall>f v t. keeps_aoi (call f v t)" and "aoi_ok (fst w)"
  shows "aoi_ok (fst (state_of (tick_events call raw result w)))"
  using assms(2)
proof (induction raw arbitrary: result w)
  case Nil
  then show ?case by simp
next
  case (Cons ev raw)
  obtain kind i j where ev: "ev = (kind, i, j)" by (cases ev)
  show ?case
  proof (cases "dget (id_to_str (fst w)) i")
    case None
    with Cons ev show ?thesis by simp
  next
    case v: (Some v)
    show ?thesis
    proof (cases "dget (id_to_str (fst w)) j")
      case None
      with Cons ev v show ?thesis by simp
    next
      case t: (Some t)
      have "aoi_ok (fst (state_of (tick_event call kind v t w)))"
        using tick_event_ok [OF assms(1) Cons.prems] numbered [OF Cons.prems] v t by blast
      then have "aoi_ok (fst (state_of (bindp (tick_event call kind v t)
          (\<lambda>_. tick_events call raw (result @ [(kind, v, t)])) w)))"
        by (rule bind_keeps) (rule Cons.IH)
      then show ?thesis by (simp add: ev v t)
    qed
  qed
qed

subsection \<open>Properties\<close>

text \<open>C4: a frame, with any events of the grid and whether it ends or raises, keeps the two numberings
  inverse and the views symmetric, and after an entity is removed nothing sees it and it sees
  nothing.\<close>

theorem aoi_views_consistent:
  assumes "aoi_ok (fst w)" and "\<forall>f v t. keeps_aoi (call f v t)"
  shows "aoi_ok (fst (state_of (aoi_tick call raw w))) \<and>
    (let b = aoi_remove eid (fst (state_of (aoi_tick call raw w))) in aoi_ok b \<and>
       \<not> has_entity b eid \<and> visible_of b eid = [] \<and> observers_of b eid = [] \<and>
       (\<forall>k. eid \<notin> set (visible_of b k) \<and> eid \<notin> set (observers_of b k)))"
proof -
  let ?a = "fst (state_of (aoi_tick call raw w))"
  have ok: "aoi_ok ?a" unfolding aoi_tick_def by (rule tick_events_ok [OF assms(2,1)])
  let ?a' = "?a\<lparr>entity_registry := ddel eid (entity_registry ?a),
                player_registry := ddel eid (player_registry ?a)\<rparr>"
  let ?b = "aoi_remove eid ?a"
  have b: "?b = do_remove eid ?a'" by (simp add: aoi_remove_def)
  have "aoi_ok ?a'"
    using ok by (simp add: aoi_ok_def numbering_ok_def views_ok_def visible_of_def observers_of_def has_entity_def)
  then have okb: "aoi_ok ?b" unfolding b by (rule do_remove_ok)
  have gone: "\<not> has_entity ?b eid"
    using do_remove_numbers(2) [of ?a' eid] do_remove_unknown [of ?a' eid] \<open>aoi_ok ?a'\<close>
    by (cases "has_entity ?a' eid") (simp_all add: b aoi_ok_def)
  have views: "views_ok ?b" using okb by (simp add: aoi_ok_def)
  have none: "eid \<notin> set (visible_of ?b k)" "k \<notin> set (visible_of ?b eid)" for k
    using views gone unfolding views_ok_def by blast+
  then have obs: "eid \<notin> set (observers_of ?b k)" "k \<notin> set (observers_of ?b eid)" for k
    using views unfolding views_ok_def by blast+
  have "visible_of ?b eid = []" "observers_of ?b eid = []"
    using none(2) obs(2) by (metis ex_in_conv set_empty)+
  with ok okb gone none obs show ?thesis by (simp add: Let_def)
qed

theorem aoi_views_consistent_witness:
  "aoi_ok (fst (state_of (aoi_tick (\<lambda>_ _ _. ret ()) [(Enter, 1, 2), (Enter, 2, 1), (Leave, 1, 2)]
     (do_insert ''b'' ''p'' 64 (do_insert ''a'' ''p'' 64 new_aoi), (new_group, blank_hub)))))"
  using aoi_views_consistent [of "(do_insert ''b'' ''p'' 64 (do_insert ''a'' ''p'' 64 new_aoi), (new_group, blank_hub))"]
  by (simp add: do_insert_ok new_aoi_ok keeps_aoi_def Let_def)

lemma group_remove_entity_apply:
  fixes g :: group and s :: hub and e :: nat
  defines "k \<equiv> e_entity_id (eobj s e)"
  shows "\<exists>cs. group_remove_entity e (g, s) =
    (case dget (g_entities g) k of
       None \<Rightarrow> (Inl KeyError, (g, emits cs s))
     | Some _ \<Rightarrow> (Inr (), (g\<lparr>g_entities := ddel k (g_entities g)\<rparr>, emits cs s)))"
proof -
  let ?f = "\<lambda>c. case c of (gate, conns) \<Rightarrow> Hub_call_client_delete_remote_entity gate k"
  have "for_each (\<lambda>c. case c of (gate, conns) \<Rightarrow> on_hub (cast (Hub_call_client_delete_remote_entity gate k)))
      xs (g, s) = (Inr (), (g, emits (List.map ?f xs) s))" for xs :: "(string \<times> string list) list"
    using for_each_on_hub_cast [of ?f xs g s] by (simp add: case_prod_beta')
  then show ?thesis
    by (intro exI [of _ "List.map ?f (by_gate (clients g))"])
       (simp add: group_remove_entity_def Let_def k_def split: option.split)
qed

text \<open>When an entity of the group leaves the views of two observers in one frame, the second
  event removes it from the group again: \<open>tick\<close> raises \<open>KeyError\<close> and the other events of
  the frame, already taken from the grid, are lost.\<close>

theorem aoi_double_leave:
  fixes s :: hub
  assumes ids: "dget (id_to_str a) i = Some v" "dget (id_to_str a) j = Some w" "dget (id_to_str a) n = Some t"
    and reg: "dget (entity_registry a) t = Some e" "e_entity_id (eobj s e) = t"
    and grp: "dget (g_entities g) t \<noteq> None" and quiet: "on_leave a = None"
  shows "\<exists>a' g' cs. aoi_tick call ((Leave, i, n) # (Leave, j, n) # rest) (a, (g, s)) =
      (Inl KeyError, (a', (g', emits cs s))) \<and> dget (g_entities g') t = None"
proof -
  obtain x where x: "dget (g_entities g) t = Some x" using grp by blast
  let ?g = "g\<lparr>g_entities := ddel t (g_entities g)\<rparr>"
  obtain c1 where c1: "group_remove_entity e (g, s) = (Inr (), (?g, emits c1 s))"
    using group_remove_entity_apply [of e g s] x reg(2) by auto
  obtain c2 where c2: "group_remove_entity e (?g, emits c1 s) = (Inl KeyError, (?g, emits c2 (emits c1 s)))"
    using group_remove_entity_apply [of e ?g "emits c1 s"] reg(2) by auto
  let ?a = "note_leave v t a" and ?b = "note_leave w t (note_leave v t a)"
  have same: "id_to_str ?a = id_to_str a" "entity_registry ?a = entity_registry a"
    "on_leave ?a = on_leave a" "entity_registry ?b = entity_registry a" by (simp_all add: note_leave_def)
  have "aoi_tick call ((Leave, i, n) # (Leave, j, n) # rest) (a, (g, s)) =
      (Inl KeyError, (?b, (?g, emits c2 (emits c1 s))))"
    using ids reg(1) quiet c1 c2 same
    by (simp add: aoi_tick_def evict_def on_world_def call_guarded_def)
  moreover have "emits c2 (emits c1 s) = emits (c1 @ c2) s" by (simp add: emits_def)
  ultimately show ?thesis by auto
qed

definition crowd :: aoi where
  "crowd = (do_insert ''tree'' ''p'' 64 (do_insert ''b'' ''p'' 64 (do_insert ''a'' ''p'' 64 new_aoi)))
     \<lparr>entity_registry := [(''tree'', 4)]\<rparr>"

theorem aoi_double_leave_witness:
  "result_of (aoi_tick (\<lambda>_ _ _. ret ()) [(Leave, 1, 3), (Leave, 2, 3)]
     (crowd, (plaza, blank_hub\<lparr>eobj := \<lambda>_. blank_entity\<lparr>e_entity_id := ''tree''\<rparr>\<rparr>))) = Inl KeyError"
  using aoi_double_leave [of crowd 1 "''a''" 2 "''b''" 3 "''tree''" 4
      "blank_hub\<lparr>eobj := \<lambda>_. blank_entity\<lparr>e_entity_id := ''tree''\<rparr>\<rparr>" plaza "\<lambda>_ _ _. ret ()" "[]"]
  by (auto simp: crowd_def plaza_def do_insert_def new_aoi_def)

text \<open>A behaviour notification to the observers never reaches one: as soon as an observer is a
  connected player the call raises \<open>TypeError\<close>, and otherwise nothing is sent.\<close>

theorem observers_never_notified:
  "call_observers_notify r k a s =
     (if r \<and> (\<exists>v \<in> set (observers_of a k). \<exists>p. get_player s v = Some p \<and>
                p_client_gate_name (pobj s p) \<noteq> '''' \<and> p_client_conn_id (pobj s p) \<noteq> '''')
      then Inl TypeError else Inr 0)"
proof -
  have "notify_observers s vs 0 =
     (if \<exists>v \<in> set vs. \<exists>p. get_player s v = Some p \<and>
         p_client_gate_name (pobj s p) \<noteq> '''' \<and> p_client_conn_id (pobj s p) \<noteq> ''''
      then Inl TypeError else Inr 0)" for vs
    by (induction vs) (auto split: option.split)
  then show ?thesis by (simp add: call_observers_notify_def)
qed

theorem observers_never_notified_witness:
  "call_observers_notify True ''tree''
     (note_enter ''hero'' ''tree'' new_aoi) (add_player 0 (two_sessions\<lparr>pobj := \<lambda>_.
        blank_player\<lparr>p_entity_id := ''hero'', p_client_conn_id := ''c0'', p_client_gate_name := ''g0''\<rparr>\<rparr>)) = Inl TypeError"
proof -
  let ?s = "add_player 0 (two_sessions\<lparr>pobj := \<lambda>_.
        blank_player\<lparr>p_entity_id := ''hero'', p_client_conn_id := ''c0'', p_client_gate_name := ''g0''\<rparr>\<rparr>)"
  have "observers_of (note_enter ''hero'' ''tree'' new_aoi) ''tree'' = [''hero'']"
    by (simp add: note_enter_def new_aoi_def observers_of_def append_new_def set_at_def)
  moreover have "get_player ?s ''hero'' = Some 0" "p_client_gate_name (pobj ?s 0) = ''g0''"
    "p_client_conn_id (pobj ?s 0) = ''c0''"
    by (simp_all add: get_player_def)
  ultimately show ?thesis
    using observers_never_notified [of True "''tree''" "note_enter ''hero'' ''tree'' new_aoi" ?s] by simp
qed

end
