(* ===== verification/App.thy ===== *)
theory App
  imports Conn_Msg_Handle Save
begin

section \<open>The application object and its main loop\<close>

text \<open>
  \<open>app.py\<close>: the registration methods, the logs, the distributed lock, and \<open>poll\<close>, the main
  loop.  One turn of the loop takes what it reads from the outside as a record: the messages
  the native pump hands over, how long the turn took in milliseconds, and the hooks.  The
  loop runs over the turns the process lives through; a turn is only taken while the process
  is not closed.
\<close>

subsection \<open>Building the process\<close>

text \<open>
  \<open>config\<close>, \<open>native\<close> and \<open>redis\<close> are what reading the configuration, the native hub with its pumps and the
  redis client do; each may raise and leaves the rest unbuilt.
\<close>

definition app_build :: "pyexn + unit \<Rightarrow> pyexn + unit \<Rightarrow> pyexn + unit \<Rightarrow> (hub, unit) py" where
  "app_build config native redis = block
     [lift_res config,
      context_init native,
      modify (\<lambda>s. s\<lparr>h_get_guid_callback := [], h_create_object_callback := [], h_updata_object_callback := [],
        h_find_and_modify_callback := [], h_remove_object_callback := [], h_get_object_count_callback := [],
        h_get_object_info_callback := [], h_get_object_info_end_callback := [], dbproxies := [], services := [],
        saves := [], entities := [], subentities := [], receivers := []\<rparr>),
      lift_res redis]"

definition app_build_player_service :: "(hub, unit) py" where
  "app_build_player_service = modify (\<lambda>s. s\<lparr>players := [], conn_id_players := []\<rparr>)"

subsection \<open>Registration, logs, close\<close>

definition app_register_service :: "string \<Rightarrow> (hub, unit) py" where
  "app_register_service service = context_register_service service"

definition app_register :: "string \<Rightarrow> fn \<Rightarrow> hub \<Rightarrow> hub" where
  "app_register entity_type creator s =
     s\<lparr>entity_create_method := dset entity_type creator (entity_create_method s)\<rparr>"

definition app_register_migrate :: "string \<Rightarrow> fn \<Rightarrow> hub \<Rightarrow> hub" where
  "app_register_migrate entity_type migrate_creator s =
     s\<lparr>entity_migrate_method := dset entity_type migrate_creator (entity_migrate_method s)\<rparr>"

definition kick_off_client :: "string \<Rightarrow> string \<Rightarrow> string \<Rightarrow> (hub, unit) py" where
  "kick_off_client gate_name conn_id prompt_info =
     cast (Hub_call_kick_off_client gate_name conn_id prompt_info)"

definition run_coroutine_async :: "coro \<Rightarrow> (hub, unit) py" where
  "run_coroutine_async co = modify (\<lambda>s. s\<lparr>coros := coros s @ [co]\<rparr>)"

definition app_trace :: "string \<Rightarrow> (hub, unit) py" where
  "app_trace message = app_log ''trace'' (''app '' @ message)"

definition app_debug :: "string \<Rightarrow> (hub, unit) py" where
  "app_debug message = app_log ''debug'' (''app '' @ message)"

definition app_info :: "string \<Rightarrow> (hub, unit) py" where
  "app_info message = app_log ''info'' (''app '' @ message)"

definition app_warn :: "string \<Rightarrow> (hub, unit) py" where
  "app_warn message = app_log ''warn'' (''app '' @ message)"

definition app_error :: "string \<Rightarrow> (hub, unit) py" where
  "app_error message = app_log ''error'' (''app '' @ message)"

definition app_close :: "(hub, unit) py" where
  "app_close = block [modify (\<lambda>s. s\<lparr>is_run := False\<rparr>), cast Deregister_service]"

definition handle_sigterm :: "(hub, unit) py" where
  "handle_sigterm = app_close"

definition handle_exception :: "(hub, unit) py" where
  "handle_exception = app_error ''error Uncaught exception:{}, exc_value:{}, tb:{}''"

subsection \<open>Draining a message pump\<close>

text \<open>
  \<open>while True: if not pump.poll(handle): break\<close>.  The pump hands over one message per call, and
  \<open>handle m\<close> is that call; one that raises leaves the rest in the pump.  The result carries
  what is left there.  \<open>Conn_Dispatch\<close> has the calls of the native pump of this repository.
\<close>

fun drain :: "('m \<Rightarrow> (hub, unit) py) \<Rightarrow> 'm list \<Rightarrow> hub \<Rightarrow> (pyexn + unit) \<times> 'm list \<times> hub" where
  "drain handle [] s = (Inr (), [], s)"
| "drain handle (m # ms) s =
     (case handle m s of (Inl e, s') \<Rightarrow> (Inl e, ms, s') | (Inr _, s') \<Rightarrow> drain handle ms s')"

definition poll_conn_msg :: "('m \<Rightarrow> (hub, unit) py) \<Rightarrow> 'm list \<Rightarrow> hub \<Rightarrow> (pyexn + unit) \<times> 'm list \<times> hub" where
  "poll_conn_msg handle ms s = drain handle ms s"

definition poll_db_msg :: "('m \<Rightarrow> (hub, unit) py) \<Rightarrow> 'm list \<Rightarrow> hub \<Rightarrow> (pyexn + unit) \<times> 'm list \<times> hub" where
  "poll_db_msg handle ms s = drain handle ms s"

text \<open>One turn of the database thread.\<close>

definition poll_db_msg_turn :: "('m \<Rightarrow> (hub, unit) py) \<Rightarrow> 'm list \<Rightarrow> hub \<Rightarrow> 'm list \<times> hub" where
  "poll_db_msg_turn handle ms s =
     (case poll_db_msg handle ms s of
        (Inl e, rest, s') \<Rightarrow> (rest, state_of (app_error ''poll_db_msg_thread Exception:{0}'' s'))
      | (Inr _, rest, s') \<Rightarrow> (rest, s'))"

subsection \<open>The main loop\<close>

text \<open>
  The locals of \<open>poll\<close>.  \<open>physics_last_time\<close> is assigned in the function, so it is a local
  of it, and it is read before its first assignment: it starts unbound.
\<close>

record poll_vars =
  busy_count :: nat
  idle_count :: nat
  health_state :: bool
  physics_last_time :: "int option"

definition poll_start :: poll_vars where
  "poll_start = \<lparr>busy_count = 0, idle_count = 0, health_state = True, physics_last_time = None\<rparr>"

record 'm turn =
  tn_msgs :: "'m list"
  tn_conn_cost :: int
  tn_now :: int
  tn_tick :: int
  tn_physics_tick :: "(int \<Rightarrow> (hub, unit) py) option"
  tn_flush_physics :: "(hub, unit) py"
  tn_update :: "(hub, unit) py option"
  tn_update_cost :: int

type_synonym ('m, 'a) poll_py = "poll_vars \<times> 'm list \<times> hub \<Rightarrow> (pyexn + 'a) \<times> (poll_vars \<times> 'm list \<times> hub)"

definition in_hub :: "(hub, unit) py \<Rightarrow> poll_vars \<times> 'm list \<times> hub \<Rightarrow> (pyexn + unit) \<times> (poll_vars \<times> 'm list \<times> hub)" where
  "in_hub m = (\<lambda>(v, q, s). case m s of (r, s') \<Rightarrow> (r, (v, q, s')))"

text \<open>The messages of the turn join those a raising call left in the pump.\<close>

definition turn_conn :: "('m \<Rightarrow> (hub, unit) py) \<Rightarrow> 'm turn \<Rightarrow> ('m, unit) poll_py" where
  "turn_conn handle tn = (\<lambda>(v, q, s).
     case poll_conn_msg handle (q @ tn_msgs tn) s of
       (Inl e, rest, s') \<Rightarrow> in_hub (app_error ''poll Exception:{0}'') (v, rest, s')
     | (Inr _, rest, s') \<Rightarrow>
         if tn_conn_cost tn > 1000 then in_hub (app_warn ''poll_conn_msg slow cost:{0}'') (v, rest, s')
         else (Inr (), (v, rest, s')))"

definition turn_physics :: "'m turn \<Rightarrow> ('m, unit) poll_py" where
  "turn_physics tn = (case tn_physics_tick tn of
     None \<Rightarrow> ret ()
   | Some physics_tick \<Rightarrow> try_except
      (read (\<lambda>(v, _, _). case physics_last_time v of
         None \<Rightarrow> raise UnboundLocalError
       | Some before \<Rightarrow> block
          [modify (\<lambda>(v, r). (v\<lparr>physics_last_time := Some (tn_now tn)\<rparr>, r)),
           in_hub (physics_tick (min (tn_now tn - before) 50)),
           in_hub (tn_flush_physics tn)]))
      (\<lambda>e. in_hub (app_error ''physics tick Exception:{0}'')))"

definition turn_health :: "'m turn \<Rightarrow> ('m, unit) poll_py" where
  "turn_health tn = read (\<lambda>(v, _, _).
     if tn_tick tn < 33 then
       (if idle_count v + 1 > 5 then block
          [(if \<not> health_state v then in_hub (cast (Set_health_state True)) else ret ()),
           modify (\<lambda>(v, q, s). (v\<lparr>idle_count := idle_count v + 1, busy_count := 0, health_state := True\<rparr>, q,
                                s\<lparr>is_idle := True\<rparr>))]
        else modify (\<lambda>(v, r). (v\<lparr>idle_count := idle_count v + 1\<rparr>, r)))
     else if tn_tick tn > 100 then
       (if busy_count v + 1 > 5 then block
          [(if health_state v then in_hub (cast (Set_health_state False)) else ret ()),
           modify (\<lambda>(v, q, s). (v\<lparr>busy_count := busy_count v + 1, idle_count := 0, health_state := False\<rparr>, q,
                                s\<lparr>is_idle := False\<rparr>))]
        else modify (\<lambda>(v, r). (v\<lparr>busy_count := busy_count v + 1\<rparr>, r)))
     else ret ())"

definition turn_update :: "'m turn \<Rightarrow> ('m, unit) poll_py" where
  "turn_update tn = (case tn_update tn of
     None \<Rightarrow> ret ()
   | Some update \<Rightarrow> try_except
      (block [in_hub update,
              if tn_update_cost tn > 1000 then in_hub (app_warn ''update slow cost:{0}'') else ret ()])
      (\<lambda>e. in_hub (app_error (''poll update Exception:{0}'' @ [CHR 0x0A] @ ''{1}''))))"

definition poll_turn :: "('m \<Rightarrow> (hub, unit) py) \<Rightarrow> 'm turn \<Rightarrow> ('m, unit) poll_py" where
  "poll_turn handle tn = block
     [turn_conn handle tn, turn_physics tn, turn_health tn,
      read (\<lambda>(v, _, _). in_hub (cast (Set_health_state (health_state v)))),
      turn_update tn]"

fun poll_loop :: "('m \<Rightarrow> (hub, unit) py) \<Rightarrow> 'm turn list \<Rightarrow> ('m, unit) poll_py" where
  "poll_loop handle [] = ret ()"
| "poll_loop handle (tn # tns) = read (\<lambda>(_, _, s).
     if is_run s then bindp (poll_turn handle tn) (\<lambda>_. poll_loop handle tns) else ret ())"

text \<open>
  The whole of \<open>poll\<close> for a process that is closed within the given turns; while it is
  still running after them, the shutdown is not reached.
\<close>

definition poll ::
  "env \<Rightarrow> (nat \<Rightarrow> string \<times> string) \<Rightarrow> ('m \<Rightarrow> (hub, unit) py) \<Rightarrow> 'm turn list \<Rightarrow> ('m, unit) poll_py" where
  "poll env coll handle tns = block
     [in_hub (cast (Set_health_state True)),
      modify (\<lambda>(v, r). (poll_start, r)),
      poll_loop handle tns,
      read (\<lambda>(_, _, s). if is_run s then ret () else
        in_hub (for_each_entity (\<lambda>v. save_entity env (fst (coll v)) (snd (coll v)) v)))]"

text \<open>\<open>run\<close> starts the database thread, the thread of the coroutines and the loop.\<close>

definition app_run ::
  "env \<Rightarrow> (nat \<Rightarrow> string \<times> string) \<Rightarrow> ('m \<Rightarrow> (hub, unit) py) \<Rightarrow> 'm turn list \<Rightarrow> ('m, unit) poll_py" where
  "app_run env coll handle tns = poll env coll handle tns"

lemma app_build_index: "index_ok (state_of (app_build_player_service s))"
  by (simp add: app_build_player_service_def index_ok_def)

subsection \<open>The distributed lock\<close>

text \<open>
  The lock is a key of the redis store.  Redis keeps bytes; a client built without
  \<open>decode_responses\<close> answers with bytes, which in Python equal no \<open>str\<close>.
\<close>

datatype redis_value = Py_bytes string | Py_str string

definition redis_get :: "bool \<Rightarrow> (string, string) dict \<Rightarrow> string \<Rightarrow> redis_value option" where
  "redis_get decode store key = map_option (if decode then Py_str else Py_bytes) (dget store key)"

definition unlock_distributed_lock :: "bool \<Rightarrow> string \<Rightarrow> string \<Rightarrow> (string, string) dict \<Rightarrow> (string, string) dict" where
  "unlock_distributed_lock decode key value store =
     (if redis_get decode store key = Some (Py_str value) then ddel key store else store)"

text \<open>
  The attempts: before each, other processes change the store; after a failed one the loop
  looks at the clock.  \<open>None\<close> is a timeout, or that the attempts given ran out.
\<close>

fun distributed_lock ::
  "string \<Rightarrow> string \<Rightarrow> (((string, string) dict \<Rightarrow> (string, string) dict) \<times> bool) list \<Rightarrow>
   (string, string) dict \<Rightarrow> bool \<times> (string, string) dict" where
  "distributed_lock key value [] store = (False, store)"
| "distributed_lock key value ((others, late) # attempts) store =
     (let store = others store in
      if dget store key = None then (True, dset key value store)
      else if late then (False, store)
      else distributed_lock key value attempts store)"

subsection \<open>Facts about a turn\<close>

text \<open>The local counters after a turn: a function of how long the turn took.\<close>

definition health_next :: "int \<Rightarrow> poll_vars \<Rightarrow> poll_vars" where
  "health_next tick v =
     (if tick < 33 then
        (if idle_count v + 1 > 5
         then v\<lparr>idle_count := idle_count v + 1, busy_count := 0, health_state := True\<rparr>
         else v\<lparr>idle_count := idle_count v + 1\<rparr>)
      else if tick > 100 then
        (if busy_count v + 1 > 5
         then v\<lparr>busy_count := busy_count v + 1, idle_count := 0, health_state := False\<rparr>
         else v\<lparr>busy_count := busy_count v + 1\<rparr>)
      else v)"

lemma in_hub_apply: "m s = (r, s') \<Longrightarrow> in_hub m (v, q, s) = (r, (v, q, s'))"
  by (simp add: in_hub_def)

lemma in_hub_log [simp]:
  "in_hub (cast c) (v, q, s) = (Inr (), (v, q, emit c s))"
  "in_hub (app_error msg) (v, q, s) = (Inr (), (v, q, emit (Log ''error'' (''app '' @ msg)) s))"
  "in_hub (app_warn msg) (v, q, s) = (Inr (), (v, q, emit (Log ''warn'' (''app '' @ msg)) s))"
  by (simp_all add: in_hub_def app_error_def app_warn_def)

lemma turn_conn_apply: "\<exists>q' s'. turn_conn handle tn (v, q, s) = (Inr (), (v, q', s'))"
proof -
  obtain r rest s' where "poll_conn_msg handle (q @ tn_msgs tn) s = (r, rest, s')"
    using prod.exhaust by metis
  then show ?thesis by (cases r) (simp_all add: turn_conn_def)
qed

lemma turn_physics_apply:
  assumes "physics_last_time v = None"
  shows "turn_physics tn (v, q, s) = (Inr (), (v, q,
    if tn_physics_tick tn = None then s
    else emit (Log ''error'' (''app '' @ ''physics tick Exception:{0}'')) s))"
  using assms by (cases "tn_physics_tick tn") (simp_all add: turn_physics_def try_except_def)

lemma turn_health_apply:
  "\<exists>s'. turn_health tn (v, q, s) = (Inr (), (health_next (tn_tick tn) v, q, s')) \<and> is_run s' = is_run s"
  by (simp add: turn_health_def health_next_def)

lemma turn_update_apply: "\<exists>s'. turn_update tn (v, q, s) = (Inr (), (v, q, s'))"
proof (cases "tn_update tn")
  case None
  then show ?thesis by (simp add: turn_update_def)
next
  case (Some update)
  obtain r s' where "update s = (r, s')" using prod.exhaust by blast
  then show ?thesis
    by (cases r) (simp_all add: turn_update_def Some try_except_def in_hub_apply)
qed

lemma poll_turn_apply:
  assumes "physics_last_time v = None"
  shows "\<exists>q' s'. poll_turn handle tn (v, q, s) = (Inr (), (health_next (tn_tick tn) v, q', s'))"
proof -
  obtain q1 s1 where 1: "turn_conn handle tn (v, q, s) = (Inr (), (v, q1, s1))"
    using turn_conn_apply by blast
  obtain s2 where 2: "turn_physics tn (v, q1, s1) = (Inr (), (v, q1, s2))"
    using turn_physics_apply [OF assms] by blast
  let ?v = "health_next (tn_tick tn) v"
  obtain s3 where 3: "turn_health tn (v, q1, s2) = (Inr (), (?v, q1, s3))"
    using turn_health_apply by blast
  obtain s4 where 4: "turn_update tn (?v, q1, emit (Set_health_state (health_state ?v)) s3) = (Inr (), (?v, q1, s4))"
    using turn_update_apply by blast
  show ?thesis by (simp add: poll_turn_def 1 2 3 4)
qed

lemma health_next_physics [simp]: "physics_last_time (health_next t v) = physics_last_time v"
  by (simp add: health_next_def)

lemma poll_loop_apply:
  assumes "physics_last_time v = None"
  shows "\<exists>n q' s'. n \<le> length tns \<and> poll_loop handle tns (v, q, s) =
    (Inr (), (fold health_next (List.map tn_tick (take n tns)) v, q', s')) \<and>
    (is_run s' \<longrightarrow> n = length tns)"
  using assms
proof (induction tns arbitrary: v q s)
  case Nil
  then show ?case by simp
next
  case (Cons tn tns)
  show ?case
  proof (cases "is_run s")
    case False
    then show ?thesis by (intro exI [of _ 0]) simp
  next
    case True
    obtain q1 s1 where 1: "poll_turn handle tn (v, q, s) = (Inr (), (health_next (tn_tick tn) v, q1, s1))"
      using poll_turn_apply [OF Cons.prems] by blast
    have "physics_last_time (health_next (tn_tick tn) v) = None" using Cons.prems by simp
    from Cons.IH [OF this, of q1 s1] obtain n q2 s2 where "n \<le> length tns"
      "poll_loop handle tns (health_next (tn_tick tn) v, q1, s1) =
        (Inr (), (fold health_next (List.map tn_tick (take n tns)) (health_next (tn_tick tn) v), q2, s2))"
      "is_run s2 \<longrightarrow> n = length tns" by blast
    then show ?thesis
      using True 1 by (intro exI [of _ "Suc n"]) simp
  qed
qed

text \<open>The hysteresis: the state is unhealthy exactly while the count of slow turns is above five.\<close>

definition health_ok :: "poll_vars \<Rightarrow> bool" where
  "health_ok v = ((health_state v \<longleftrightarrow> busy_count v \<le> 5) \<and> (\<not> health_state v \<longrightarrow> idle_count v \<le> 5))"

lemma health_start: "health_ok poll_start"
  by (simp add: health_ok_def poll_start_def)

lemma health_next_ok: "health_ok v \<Longrightarrow> health_ok (health_next t v)"
  by (auto simp: health_ok_def health_next_def)

lemma health_fold_ok: "health_ok v \<Longrightarrow> health_ok (fold health_next ts v)"
  by (induction ts arbitrary: v) (simp_all add: health_next_ok)

lemma quick_count:
  assumes "\<forall>t \<in> set ts. t < 33"
  shows "idle_count (fold health_next ts v) = idle_count v + length ts"
  using assms by (induction ts arbitrary: v) (simp_all add: health_next_def)

lemma slow_count:
  assumes "\<forall>t \<in> set ts. t > 100"
  shows "busy_count (fold health_next ts v) = busy_count v + length ts"
  using assms by (induction ts arbitrary: v) (simp_all add: health_next_def)

text \<open>Any six quick turns restore the health; any six slow ones in a row lose it.\<close>

lemma six_quick:
  assumes "health_ok v" and "\<forall>t \<in> set ts. t < 33" and "length ts = 6"
  shows "health_state (fold health_next ts v)"
proof (rule ccontr)
  assume n: "\<not> health_state (fold health_next ts v)"
  then have "idle_count (fold health_next ts v) \<le> 5"
    using health_fold_ok [OF assms(1), of ts] by (simp add: health_ok_def)
  then show False using quick_count [OF assms(2), of v] assms(3) by simp
qed

lemma six_slow:
  assumes "health_ok v" and "\<forall>t \<in> set ts. t > 100" and "length ts = 6"
  shows "\<not> health_state (fold health_next ts v)"
  using health_fold_ok [OF assms(1), of ts] slow_count [OF assms(2), of v] assms(3)
  by (simp add: health_ok_def)

lemma few_slow:
  assumes "health_ok v" and "length (List.filter (\<lambda>t. t > 100) ts) + busy_count v \<le> 5"
  shows "health_state (fold health_next ts v)"
proof -
  have "busy_count (fold health_next ts v) \<le> length (List.filter (\<lambda>t. t > 100) ts) + busy_count v" for v
  proof (induction ts arbitrary: v)
    case Nil
    then show ?case by simp
  next
    case (Cons t ts)
    have "busy_count (health_next t v) \<le> busy_count v + (if t > 100 then 1 else 0)"
      by (simp add: health_next_def)
    with Cons.IH [of "health_next t v"] show ?case by (auto split: if_splits)
  qed
  then show ?thesis
    using health_fold_ok [OF assms(1), of ts] assms(2) le_trans by (fastforce simp: health_ok_def)
qed

subsection \<open>Facts about the shutdown and the physics hook\<close>

text \<open>What a save at shutdown does when no request is refused.\<close>

definition sent_update :: "env \<Rightarrow> (nat \<Rightarrow> string \<times> string) \<Rightarrow> hub \<Rightarrow> nat \<Rightarrow> hub \<Rightarrow> bool" where
  "sent_update env coll s x t = (\<exists>k data. Update_object (v_dbproxy (vobj s x)) (fst (coll x)) (snd (coll x)) k
     (env_query env x) data True \<in> set (outbox t))"

definition same_saves :: "hub \<Rightarrow> hub \<Rightarrow> bool" where
  "same_saves s t = (\<forall>x. v_is_dirty (vobj t x) = v_is_dirty (vobj s x) \<and> v_dbproxy (vobj t x) = v_dbproxy (vobj s x))"

lemma save_one:
  assumes "\<forall>c. env_send env c" and "same_saves s t"
  shows "\<exists>u. save_entity env (fst (coll x)) (snd (coll x)) x t = (Inr (), u) \<and> same_saves s u \<and>
    set (outbox t) \<subseteq> set (outbox u) \<and> (v_is_dirty (vobj s x) \<longrightarrow> sent_update env coll s x u)"
proof (cases "v_is_dirty (vobj t x)")
  case False
  then show ?thesis using assms(2) by (simp add: save_entity_clean same_saves_def)
next
  case True
  let ?u = "emit (save_request env (fst (coll x)) (snd (coll x)) x (save_pre x t))
      (reg_updata_object_callback (env_uuid env (save_pre x t)) (Db_save x) (save_pre x t))"
  have save: "save_entity env (fst (coll x)) (snd (coll x)) x t = (Inr (), ?u)"
    using save_entity_dirty [OF True] assms(1) by simp
  have "same_saves s ?u"
    using assms(2) by (simp add: same_saves_def save_pre_def)
  moreover have "sent_update env coll s x ?u"
    using assms(2) by (auto simp: sent_update_def save_request_def save_pre_def same_saves_def)
  moreover have "set (outbox t) \<subseteq> set (outbox ?u)" by (auto simp: save_pre_def)
  ultimately show ?thesis using save by blast
qed

lemma save_all:
  assumes "\<forall>c. env_send env c" and "same_saves s t"
  shows "\<exists>u. for_each (\<lambda>x. save_entity env (fst (coll x)) (snd (coll x)) x) xs t = (Inr (), u) \<and>
    set (outbox t) \<subseteq> set (outbox u) \<and>
    (\<forall>x \<in> set xs. v_is_dirty (vobj s x) \<longrightarrow> sent_update env coll s x u)"
  using assms(2)
proof (induction xs arbitrary: t)
  case Nil
  then show ?case by simp
next
  case (Cons x xs)
  from save_one [OF assms(1) Cons.prems] obtain u where u:
    "save_entity env (fst (coll x)) (snd (coll x)) x t = (Inr (), u)" "same_saves s u"
    "set (outbox t) \<subseteq> set (outbox u)" "v_is_dirty (vobj s x) \<longrightarrow> sent_update env coll s x u" by blast
  from Cons.IH [OF u(2)] obtain w where w:
    "for_each (\<lambda>x. save_entity env (fst (coll x)) (snd (coll x)) x) xs u = (Inr (), w)"
    "set (outbox u) \<subseteq> set (outbox w)" "\<forall>x \<in> set xs. v_is_dirty (vobj s x) \<longrightarrow> sent_update env coll s x w"
    by blast
  have "v_is_dirty (vobj s x) \<longrightarrow> sent_update env coll s x w"
    using u(4) w(2) unfolding sent_update_def by blast
  with u(1,3) w show ?case by auto
qed

definition with_physics :: "(int \<Rightarrow> (hub, unit) py) \<Rightarrow> 'm turn \<Rightarrow> 'm turn" where
  "with_physics f tn = tn\<lparr>tn_physics_tick := map_option (\<lambda>_. f) (tn_physics_tick tn)\<rparr>"

lemma with_physics_fields:
  "tn_msgs (with_physics f tn) = tn_msgs tn" "tn_conn_cost (with_physics f tn) = tn_conn_cost tn"
  "tn_tick (with_physics f tn) = tn_tick tn" "tn_update (with_physics f tn) = tn_update tn"
  "tn_update_cost (with_physics f tn) = tn_update_cost tn"
  by (simp_all add: with_physics_def)

lemma poll_turn_physics:
  assumes "physics_last_time v = None"
  shows "poll_turn handle (with_physics f tn) (v, q, s) = poll_turn handle tn (v, q, s)"
proof -
  obtain q1 s1 where 1: "turn_conn handle tn (v, q, s) = (Inr (), (v, q1, s1))"
    using turn_conn_apply by blast
  have "turn_conn handle (with_physics f tn) = turn_conn handle tn"
    "turn_health (with_physics f tn) = turn_health tn" "turn_update (with_physics f tn) = turn_update tn"
    unfolding turn_conn_def turn_health_def turn_update_def with_physics_fields by (rule refl)+
  moreover have "turn_physics (with_physics f tn) (v, q1, s1) = turn_physics tn (v, q1, s1)"
    by (simp add: turn_physics_apply [OF assms] with_physics_def)
  ultimately show ?thesis by (simp add: poll_turn_def 1)
qed

lemma poll_loop_physics:
  assumes "physics_last_time v = None"
  shows "poll_loop handle (List.map (with_physics f) tns) (v, q, s) = poll_loop handle tns (v, q, s)"
  using assms
proof (induction tns arbitrary: v q s)
  case Nil
  then show ?case by simp
next
  case (Cons tn tns)
  obtain q1 s1 where 1: "poll_turn handle tn (v, q, s) = (Inr (), (health_next (tn_tick tn) v, q1, s1))"
    using poll_turn_apply [OF Cons.prems] by blast
  show ?case
    using Cons.IH [of "health_next (tn_tick tn) v" q1 s1] Cons.prems
    by (simp add: poll_turn_physics [OF Cons.prems] 1)
qed

lemma poll_start_physics [simp]: "physics_last_time poll_start = None"
  by (simp add: poll_start_def)

lemma poll_split:
  "poll env coll handle tns (v, q, s) = bind_res
     (poll_loop handle tns (poll_start, q, emit (Set_health_state True) s))
     (\<lambda>_. block [read (\<lambda>(_, _, s). if is_run s then ret () else
        in_hub (for_each_entity (\<lambda>v. save_entity env (fst (coll v)) (snd (coll v)) v)))])"
  by (simp add: poll_def)

subsection \<open>Properties\<close>

text \<open>C25: nothing a message handler, the update hook or the physics hook raises ends the main loop:
  while the process is not closed, \<open>poll\<close> has not raised and has taken every turn.\<close>

theorem poll_survives:
  assumes "is_run (snd (snd (state_of (poll env coll handle tns (v, q, s)))))"
  shows "result_of (poll env coll handle tns (v, q, s)) = Inr () \<and>
    fst (state_of (poll env coll handle tns (v, q, s))) = fold health_next (List.map tn_tick tns) poll_start"
proof -
  obtain n q1 s1 where p: "poll_loop handle tns (poll_start, q, emit (Set_health_state True) s) =
      (Inr (), (fold health_next (List.map tn_tick (take n tns)) poll_start, q1, s1))"
    "is_run s1 \<longrightarrow> n = length tns"
    using poll_loop_apply [OF poll_start_physics] by metis
  have "is_run s1"
  proof (rule ccontr)
    assume n: "\<not> is_run s1"
    have run: "is_run (state_of (save_entity env d c x t)) = is_run t" for d c x t
      by (cases "v_is_dirty (vobj t x)")
         (simp_all add: save_entity_clean save_entity_dirty save_pre_def upd_save_def emit_def
            reg_updata_object_callback_def)
    have "\<not> is_run (state_of (for_each (\<lambda>v. save_entity env (fst (coll v)) (snd (coll v)) v) xs s1))" for xs
      by (rule for_each_inv) (use n run in simp_all)
    note stays = this
    obtain r t where t: "for_each_entity (\<lambda>v. save_entity env (fst (coll v)) (snd (coll v)) v) s1 = (r, t)"
      using prod.exhaust by blast
    have "for_each (\<lambda>v. save_entity env (fst (coll v)) (snd (coll v)) v) (vals (saves s1)) s1 = (r, t)"
      using t by (simp add: for_each_entity_def)
    with stays [of "vals (saves s1)"] have "\<not> is_run t" by simp
    have "poll env coll handle tns (v, q, s) =
        bind_res (r, (fold health_next (List.map tn_tick (take n tns)) poll_start, q1, t)) (\<lambda>_. ret ())"
      unfolding poll_split p(1) bind_res.simps block.simps py_apply read_apply prod.case
      using n t by (simp only: if_False in_hub_apply [where m = "for_each_entity _"])
    then have "snd (snd (state_of (poll env coll handle tns (v, q, s)))) = t" by (cases r) simp_all
    with \<open>\<not> is_run t\<close> assms show False by simp
  qed
  with p show ?thesis by (simp add: poll_split)
qed

theorem poll_survives_witness:
  "result_of (poll quiet_env (\<lambda>_. ('''', '''')) (\<lambda>_. raise KeyError)
     [\<lparr>tn_msgs = [''m''], tn_conn_cost = 0, tn_now = 0, tn_tick = 5, tn_physics_tick = None,
       tn_flush_physics = ret (), tn_update = Some (raise TypeError), tn_update_cost = 0\<rparr>]
     (poll_start, [], blank_hub)) = Inr ()"
proof -
  let ?p = "poll quiet_env (\<lambda>_. ('''', '''')) (\<lambda>_. raise KeyError)
     [\<lparr>tn_msgs = [''m''], tn_conn_cost = 0, tn_now = 0, tn_tick = 5, tn_physics_tick = None,
       tn_flush_physics = ret (), tn_update = Some (raise TypeError), tn_update_cost = 0\<rparr>]
     (poll_start, [], blank_hub)"
  have "is_run (snd (snd (state_of ?p)))"
    by (simp add: poll_split poll_turn_def turn_conn_def turn_physics_def turn_health_def turn_update_def
        poll_conn_msg_def try_except_def in_hub_def poll_start_def app_error_def blank_hub_def)
  from poll_survives [OF this] show ?thesis by blast
qed

text \<open>The health the loop reports: six quick turns in a row make it healthy, six slow turns in a
  row make it unhealthy, and up to five slow turns in all leave it healthy.\<close>

theorem poll_health:
  assumes run: "is_run (snd (snd (state_of (poll env coll handle (before @ now) (v, q, s)))))"
  defines "h \<equiv> health_state (fst (state_of (poll env coll handle (before @ now) (v, q, s))))"
  shows "(length now = 6 \<and> (\<forall>tn \<in> set now. tn_tick tn < 33) \<longrightarrow> h) \<and>
    (length now = 6 \<and> (\<forall>tn \<in> set now. tn_tick tn > 100) \<longrightarrow> \<not> h) \<and>
    (length (List.filter (\<lambda>tn. tn_tick tn > 100) (before @ now)) \<le> 5 \<longrightarrow> h)"
proof -
  have h: "h = health_state (fold health_next (List.map tn_tick now) (fold health_next (List.map tn_tick before) poll_start))"
    using poll_survives [OF run] by (simp add: h_def)
  let ?v = "fold health_next (List.map tn_tick before) poll_start"
  have ok: "health_ok ?v" by (rule health_fold_ok [OF health_start])
  have "length (List.filter (\<lambda>t. t > 100) (List.map tn_tick tns)) = length (List.filter (\<lambda>tn. tn_tick tn > 100) tns)"
    for tns :: "'a turn list" by (induction tns) simp_all
  then have "length (List.filter (\<lambda>tn. tn_tick tn > 100) (before @ now)) \<le> 5 \<longrightarrow> h"
    using few_slow [OF health_start, of "List.map tn_tick (before @ now)"] h by (simp add: poll_start_def)
  then show ?thesis
    using six_quick [OF ok, of "List.map tn_tick now"] six_slow [OF ok, of "List.map tn_tick now"] h
    by simp
qed

definition plain_turn :: "int \<Rightarrow> string turn" where
  "plain_turn t = \<lparr>tn_msgs = [], tn_conn_cost = 0, tn_now = 0, tn_tick = t, tn_physics_tick = None,
     tn_flush_physics = ret (), tn_update = None, tn_update_cost = 0\<rparr>"

theorem poll_health_witness:
  "\<not> health_state (fst (state_of (poll quiet_env (\<lambda>_. ('''', '''')) (\<lambda>_. ret ())
     ([plain_turn 5] @ replicate 6 (plain_turn 200)) (poll_start, [], blank_hub))))"
proof -
  have run: "is_run (snd (snd (state_of (poll_loop (\<lambda>_. ret ()) tns (v, q, s)))))"
    if "is_run s" "physics_last_time v = None" "set tns \<subseteq> {plain_turn 5, plain_turn 200}" for tns v q s
    using that
  proof (induction tns arbitrary: v q s)
    case Nil
    then show ?case by simp
  next
    case (Cons tn tns)
    then obtain t where t: "tn = plain_turn t" by auto
    have d: "drain (\<lambda>_. ret ()) ms s = (Inr (), [], s)" for ms :: "string list" and s
      by (induction ms) simp_all
    have c: "turn_conn (\<lambda>_. ret ()) (plain_turn t) (v, q, s) = (Inr (), (v, [], s))"
      unfolding turn_conn_def poll_conn_msg_def prod.case d by (simp add: plain_turn_def)
    have p: "turn_physics (plain_turn t) w = (Inr (), w)" "turn_update (plain_turn t) w = (Inr (), w)" for w
      by (simp_all add: turn_physics_def turn_update_def plain_turn_def)
    obtain s' where h: "turn_health (plain_turn t) (v, [], s) =
        (Inr (), (health_next (tn_tick (plain_turn t)) v, [], s'))" "is_run s' = is_run s"
      using turn_health_apply by blast
    let ?v = "health_next (tn_tick (plain_turn t)) v"
    have "poll_turn (\<lambda>_. ret ()) tn (v, q, s) =
        (Inr (), (?v, [], emit (Set_health_state (health_state ?v)) s'))"
      unfolding poll_turn_def t block.simps py_apply c bind_res.simps p h(1) by simp
    moreover have "is_run (snd (snd (state_of (poll_loop (\<lambda>_. ret ()) tns
        (?v, [], emit (Set_health_state (health_state ?v)) s')))))"
      by (rule Cons.IH) (use Cons.prems h(2) in simp_all)
    ultimately show ?case using Cons.prems(1)
      unfolding poll_loop.simps read_apply prod.case by (simp only: py_apply bind_res.simps if_True)
  qed
  let ?p = "poll quiet_env (\<lambda>_. ('''', '''')) (\<lambda>_. ret ())
     ([plain_turn 5] @ replicate 6 (plain_turn 200)) (poll_start, [], blank_hub)"
  have "is_run (emit (Set_health_state True) blank_hub)" by (simp add: blank_hub_def)
  from run [OF this poll_start_physics, of "[plain_turn 5] @ replicate 6 (plain_turn 200)" "[]"]
  have "is_run (snd (snd (state_of ?p)))"
    unfolding poll_split
    using poll_loop_apply [OF poll_start_physics, of "[plain_turn 5] @ replicate 6 (plain_turn 200)"
        "\<lambda>_. ret ()" "[]" "emit (Set_health_state True) blank_hub"] by auto
  from poll_health [OF this] show ?thesis by (simp add: plain_turn_def)
qed

text \<open>The physics hook is never called: whatever it does, the run is the same.\<close>

theorem physics_never_ticks:
  "poll env coll handle (List.map (with_physics f) tns) (v, q, s) = poll env coll handle tns (v, q, s)"
  by (simp add: poll_split poll_loop_physics)

text \<open>a process that is closed sends the update of every dirty entity before \<open>poll\<close> returns, when
  no request is refused.\<close>

theorem shutdown_saves_all:
  assumes sent: "\<forall>c. env_send env c" and closed: "\<not> is_run s"
    and mem: "x \<in> set (vals (saves s))" "v_is_dirty (vobj s x)"
  shows "result_of (poll env coll handle tns (v, q, s)) = Inr () \<and>
    sent_update env coll s x (snd (snd (state_of (poll env coll handle tns (v, q, s)))))"
proof -
  let ?s = "emit (Set_health_state True) s"
  have loop: "poll_loop handle tns (poll_start, q, ?s) = (Inr (), (poll_start, q, ?s))"
    using closed by (cases tns) simp_all
  have "same_saves s ?s" by (simp add: same_saves_def)
  from save_all [OF sent this, of coll "vals (saves s)"] obtain u where u:
    "for_each (\<lambda>x. save_entity env (fst (coll x)) (snd (coll x)) x) (vals (saves s)) ?s = (Inr (), u)"
    "\<forall>x \<in> set (vals (saves s)). v_is_dirty (vobj s x) \<longrightarrow> sent_update env coll s x u" by blast
  then have "for_each_entity (\<lambda>x. save_entity env (fst (coll x)) (snd (coll x)) x) ?s = (Inr (), u)"
    by (simp add: for_each_entity_def)
  then show ?thesis using loop closed mem u(2) by (simp add: poll_split in_hub_apply)
qed

theorem shutdown_saves_all_witness:
  "sent_update quiet_env (\<lambda>_. (''db'', ''co'')) (add_save_entity 0 (set_dirty 60 0 (blank_hub\<lparr>is_run := False\<rparr>))) 0
     (snd (snd (state_of (poll quiet_env (\<lambda>_. (''db'', ''co'')) (\<lambda>_. ret ()) [plain_turn 5]
       (poll_start, [], add_save_entity 0 (set_dirty 60 0 (blank_hub\<lparr>is_run := False\<rparr>)))))))"
proof -
  let ?s = "add_save_entity 0 (set_dirty 60 0 (blank_hub\<lparr>is_run := False\<rparr>))"
  have "\<not> is_run ?s" "0 \<in> set (vals (saves ?s))" "v_is_dirty (vobj ?s 0)"
    by (simp_all add: add_save_entity_def set_dirty_def upd_save_def vals_def blank_hub_def)
  note facts = this
  show ?thesis by (rule shutdown_saves_all [THEN conjunct2]) (use facts in simp_all)
qed

text \<open>A distributed lock taken with a redis client that answers bytes is never released by its
  own unlock; with one that answers strings, the unlock of the holder frees the key and no
  other value does.\<close>

theorem lock_never_released:
  assumes "distributed_lock key value attempts store = (True, held)"
  shows "dget held key = Some value \<and> unlock_distributed_lock False key value' held = held \<and>
    dget (unlock_distributed_lock True key value held) key = None \<and>
    (other \<noteq> value \<longrightarrow> unlock_distributed_lock True key other held = held)"
proof -
  have "dget held key = Some value"
    using assms by (induction key "value" attempts store rule: distributed_lock.induct)
      (auto simp: Let_def split: if_splits)
  then show ?thesis by (simp add: unlock_distributed_lock_def redis_get_def)
qed

theorem lock_never_released_witness:
  "unlock_distributed_lock False ''k'' ''v'' [(''k'', ''v'')] = [(''k'', ''v'')]"
proof -
  have "distributed_lock ''k'' ''v'' [(\<lambda>st. dset ''k'' ''w'' st, False), (ddel ''k'', False)] [] =
      (True, [(''k'', ''v'')])" by simp
  from lock_never_released [OF this] show ?thesis by blast
qed

end
