(* ===== verification/Physics_Sync.thy ===== *)
theory Physics_Sync
  imports Complex_Main Entity
begin

section \<open>Synchronising physics to entities\<close>

text \<open>
  \<open>physics_sync.py\<close>: after a step of the native physics world the manager compares each body's
  transform with the last one it pushed, refreshes the entities that moved on their clients,
  and hands the collision events to their handlers.  A component is what the native body
  answers at that moment: whether it still has its body (\<open>destroy\<close> sets it to \<open>None\<close>, and
  asking such a component anything raises), whether the body is alive, its position and rotation (\<open>None\<close> where
  reading raises) and its collider handle.  Floats are rationals here.
\<close>

type_synonym vec3 = "rat \<times> rat \<times> rat"
type_synonym quat = "rat \<times> rat \<times> rat \<times> rat"

record component =
  c_body :: bool
  c_alive :: bool
  c_position :: "vec3 option"
  c_rotation :: "quat option"
  c_collider :: "int option"

record psync =
  components :: "(string, nat) dict"
  last_transform :: "(string, vec3 \<times> quat) dict"
  collision_handlers :: "(string, fn) dict"
  collider_to_entity :: "(int, string) dict"

definition new_psync :: psync where
  "new_psync = \<lparr>components = [], last_transform = [], collision_handlers = [], collider_to_entity = []\<rparr>"

definition transform_of :: "component \<Rightarrow> (vec3 \<times> quat) option" where
  "transform_of x = (if \<not> c_body x then None
     else case (c_position x, c_rotation x) of (Some p, Some r) \<Rightarrow> Some (p, r) | _ \<Rightarrow> None)"

definition psync_attach :: "(nat \<Rightarrow> component) \<Rightarrow> string \<Rightarrow> nat \<Rightarrow> psync \<Rightarrow> psync" where
  "psync_attach body entity_id x ps =
     (let ps = ps\<lparr>components := dset entity_id x (components ps),
                  last_transform := dset entity_id
                    (case transform_of (body x) of Some t \<Rightarrow> t | None \<Rightarrow> ((0, 0, 0), (0, 0, 0, 1)))
                    (last_transform ps)\<rparr>
      in case (if c_body (body x) then c_collider (body x) else None) of
           None \<Rightarrow> ps
         | Some h \<Rightarrow> ps\<lparr>collider_to_entity := dset h entity_id (collider_to_entity ps)\<rparr>)"

definition psync_detach :: "string \<Rightarrow> psync \<Rightarrow> psync" where
  "psync_detach entity_id ps =
     ps\<lparr>components := ddel entity_id (components ps),
        last_transform := ddel entity_id (last_transform ps),
        collision_handlers := ddel entity_id (collision_handlers ps),
        collider_to_entity := fold ddel
          (List.map fst (List.filter (\<lambda>(k, v). v = entity_id) (collider_to_entity ps)))
          (collider_to_entity ps)\<rparr>"

definition psync_on_collision :: "string \<Rightarrow> fn \<Rightarrow> psync \<Rightarrow> psync" where
  "psync_on_collision body_id handler ps =
     ps\<lparr>collision_handlers := dset body_id handler (collision_handlers ps)\<rparr>"

definition near :: "rat \<Rightarrow> rat \<Rightarrow> bool" where
  "near a b = (\<bar>a - b\<bar> < 1 / 100000)"

fun transforms_equal :: "vec3 \<times> quat \<Rightarrow> vec3 \<times> quat \<Rightarrow> bool" where
  "transforms_equal ((ax, ay, az), (ai, aj, ak, aw)) ((bx, bz, bz'), (bi, bj, bk, bw)) =
     (near ax bx \<and> near ay bz \<and> near az bz' \<and> near ai bi \<and> near aj bj \<and> near ak bk \<and> near aw bw)"

text \<open>
  The first loop iterates over \<open>self._components.items()\<close>.  A dead component is detached
  from that very dict, and the iterator raises when it is advanced next.
\<close>

fun collect_moved ::
  "(nat \<Rightarrow> component) \<Rightarrow> (string \<times> nat) list \<Rightarrow> psync \<Rightarrow> string list \<Rightarrow> (pyexn + string list) \<times> psync" where
  "collect_moved body [] ps moved = (Inr moved, ps)"
| "collect_moved body ((entity_id, x) # rest) ps moved =
     (if \<not> c_body (body x) then (Inl AttributeError, ps)
      else if \<not> c_alive (body x) then (Inl RuntimeError, psync_detach entity_id ps)
      else case transform_of (body x) of
        None \<Rightarrow> collect_moved body rest ps moved
      | Some t \<Rightarrow>
          (case dget (last_transform ps) entity_id of
             Some l \<Rightarrow>
               if transforms_equal t l then collect_moved body rest ps moved
               else collect_moved body rest (ps\<lparr>last_transform := dset entity_id t (last_transform ps)\<rparr>)
                      (append_new entity_id moved)
           | None \<Rightarrow> collect_moved body rest (ps\<lparr>last_transform := dset entity_id t (last_transform ps)\<rparr>)
                      (append_new entity_id moved)))"

text \<open>
  \<open>for gate_name, conn_id in entity.conn_client_gate\<close>: the list holds gate names, and each
  string is unpacked.  The body asks \<open>app()\<close> for an attribute it does not have; that error
  is swallowed, so nothing is sent.
\<close>

definition refresh_body :: "(hub, unit) py" where
  "refresh_body = try_except (raise AttributeError) (\<lambda>_. ret ())"

definition refresh_entity :: "env \<Rightarrow> string \<Rightarrow> (hub, unit) py" where
  "refresh_entity env entity_id = read (\<lambda>s.
     case get_entity s entity_id of
       None \<Rightarrow> ret ()
     | Some e \<Rightarrow>
        (case env_entity_client_info env e s of
           Inl _ \<Rightarrow> ret ()
         | Inr info \<Rightarrow> for_each (\<lambda>gate. if length gate = 2 then refresh_body else raise ValueError)
                         (e_conn_client_gate (eobj s e))))"

text \<open>One event: the handlers of both bodies; what they raise is swallowed.\<close>

definition handler_of :: "psync \<Rightarrow> int \<Rightarrow> fn option" where
  "handler_of ps collider_handle =
     (case dget (collider_to_entity ps) collider_handle of
        None \<Rightarrow> None
      | Some entity_id \<Rightarrow> if entity_id = '''' then None else dget (collision_handlers ps) entity_id)"

definition dispatch_event :: "(fn \<Rightarrow> (psync \<times> hub, unit) py) \<Rightarrow> int \<times> int \<Rightarrow> (psync \<times> hub, unit) py" where
  "dispatch_event call ev = for_each (\<lambda>h. read (\<lambda>w.
       case handler_of (fst w) h of
         None \<Rightarrow> ret ()
       | Some f \<Rightarrow> try_except (call f) (\<lambda>_. ret ()))) [fst ev, snd ev]"

text \<open>The events are \<open>None\<close> when draining them raises.\<close>

definition flush_after_step ::
  "env \<Rightarrow> (nat \<Rightarrow> component) \<Rightarrow> (fn \<Rightarrow> (psync \<times> hub, unit) py) \<Rightarrow> (int \<times> int) list option \<Rightarrow> (psync \<times> hub, unit) py" where
  "flush_after_step env body call events = (\<lambda>(ps, s).
     case collect_moved body (components ps) ps [] of
       (Inl e, ps') \<Rightarrow> (Inl e, (ps', s))
     | (Inr moved, ps') \<Rightarrow>
        (case for_each (refresh_entity env) moved s of
           (Inl e, s') \<Rightarrow> (Inl e, (ps', s'))
         | (Inr _, s') \<Rightarrow>
            (case events of
               None \<Rightarrow> (Inr (), (ps', s'))
             | Some evs \<Rightarrow> for_each (dispatch_event call) evs (ps', s'))))"

subsection \<open>Facts\<close>

lemma refresh_body_apply [simp]: "refresh_body s = (Inr (), s)"
  by (simp add: refresh_body_def try_except_def)

lemma for_each_state: "(\<And>x s. x \<in> set xs \<Longrightarrow> state_of (f x s) = s) \<Longrightarrow> state_of (for_each f xs s) = s"
  by (rule for_each_inv [where P = "\<lambda>t. t = s"]) simp_all

lemma refresh_entity_state: "state_of (refresh_entity env k s) = s"
  by (auto simp: refresh_entity_def intro!: for_each_state split: option.split sum.split)

lemma fold_ddel_get: "dget (fold ddel ks d) k = (if k \<in> set ks then None else dget d k)"
  by (induction ks arbitrary: d) auto

lemma detach_get:
  "dget (components (psync_detach i ps)) k = (if k = i then None else dget (components ps) k)"
  "dget (last_transform (psync_detach i ps)) k = (if k = i then None else dget (last_transform ps) k)"
  "dget (collision_handlers (psync_detach i ps)) k = (if k = i then None else dget (collision_handlers ps) k)"
  by (simp_all add: psync_detach_def)

lemma detach_colliders:
  assumes "wf_dict (collider_to_entity ps)"
  shows "dget (collider_to_entity (psync_detach i ps)) h =
    (if dget (collider_to_entity ps) h = Some i then None else dget (collider_to_entity ps) h)"
proof -
  have "h \<in> fst ` set (List.filter (\<lambda>(k, v). v = i) (collider_to_entity ps)) \<longleftrightarrow>
      dget (collider_to_entity ps) h = Some i"
    using assms by (force simp: image_iff)
  then show ?thesis by (simp add: psync_detach_def fold_ddel_get)
qed

lemma collect_moved_dead:
  assumes "\<exists>(k, x) \<in> set xs. \<not> (c_body (body x) \<and> c_alive (body x))"
  shows "\<exists>e. fst (collect_moved body xs ps moved) = Inl e"
  using assms by (induction body xs ps moved rule: collect_moved.induct) (auto split: option.split)

text \<open>What a detached entity is registered for: nothing.\<close>

interpretation psync_registry: registry "\<lambda>ps k. dget (collision_handlers ps) k" psync_on_collision psync_detach
  by unfold_locales (simp_all add: psync_on_collision_def detach_get)

subsection \<open>Properties\<close>

text \<open>A flush sends no refresh to any client, whatever moved; and when a moved entity is mirrored
  on a gate whose name is not two characters long it raises \<open>ValueError\<close>.\<close>

theorem physics_never_refreshes:
  fixes ps :: psync and s :: hub
  assumes "\<forall>f w. outbox (snd (state_of (call f w))) = outbox (snd w)"
  shows "outbox (snd (state_of (flush_after_step env body call events (ps, s)))) = outbox s \<and>
    (collect_moved body (components ps) ps [] = (Inr [k], ps') \<longrightarrow> get_entity s k = Some e \<longrightarrow>
     env_entity_client_info env e s = Inr info \<longrightarrow>
     e_conn_client_gate (eobj s e) = gate # gates \<longrightarrow> length gate \<noteq> 2 \<longrightarrow>
     result_of (flush_after_step env body call events (ps, s)) = Inl ValueError)"
proof -
  obtain r p where c: "collect_moved body (components ps) ps [] = (r, p)" using prod.exhaust by blast
  have refresh: "state_of (for_each (refresh_entity env) ms s) = s" for ms
    by (rule for_each_state) (rule refresh_entity_state)
  have try_out: "outbox (snd (state_of (try_except (call f) (\<lambda>_. ret ()) w))) = outbox (snd w)" for f w
  proof -
    obtain r2 w2 where c: "call f w = (r2, w2)" using prod.exhaust by blast
    have "outbox (snd (state_of (call f w))) = outbox (snd w)" using assms by blast
    then have "outbox (snd w2) = outbox (snd w)" unfolding c by simp
    then show ?thesis by (cases r2) (simp_all add: try_except_def c)
  qed
  have one: "outbox (snd (state_of (read (\<lambda>w. case handler_of (fst w) h of None \<Rightarrow> ret ()
       | Some f \<Rightarrow> try_except (call f) (\<lambda>_. ret ())) w))) = outbox (snd w)" for h w
    by (cases "handler_of (fst w) h") (simp_all add: try_out)
  have dispatch: "outbox (snd (state_of (dispatch_event call ev w))) = outbox (snd w)" for ev w
    unfolding dispatch_event_def
    by (rule for_each_inv [where P = "\<lambda>t. outbox (snd t) = outbox (snd w)"]) (simp_all add: one del: read_apply)
  have events: "outbox (snd (state_of (for_each (dispatch_event call) evs w))) = outbox (snd w)" for evs w
    by (rule for_each_inv [where P = "\<lambda>t. outbox (snd t) = outbox (snd w)"]) (simp_all add: dispatch)
  have "outbox (snd (state_of (flush_after_step env body call events (ps, s)))) = outbox s"
  proof (cases r)
    case (Inl e)
    then show ?thesis by (simp add: flush_after_step_def c)
  next
    case (Inr ms)
    obtain r3 s3 where l: "for_each (refresh_entity env) ms s = (r3, s3)" using prod.exhaust by blast
    with refresh [of ms] have "s3 = s" by simp
    then show ?thesis
      by (cases r3; cases events) (simp_all add: flush_after_step_def c Inr l events)
  qed
  then show ?thesis by (simp add: flush_after_step_def refresh_entity_def)
qed

theorem physics_never_refreshes_witness:
  "outbox (snd (state_of (flush_after_step quiet_env (\<lambda>_. \<lparr>c_body = True, c_alive = True, c_position = Some (1, 2, 3),
     c_rotation = Some (0, 0, 0, 1), c_collider = None\<rparr>) (\<lambda>_. ret ()) (Some [(1, 2)])
     (new_psync\<lparr>components := [(''e'', 0)]\<rparr>, blank_hub)))) = []"
  using physics_never_refreshes [of "\<lambda>_. ret ()" quiet_env] by simp

text \<open>One dead or destroyed component makes the flush raise and end before anything is pushed
  and before any collision is handled; a dead one that is reached is detached.\<close>

theorem dead_component_aborts_flush:
  fixes ps :: psync and s :: hub
  assumes "(k, x) \<in> set (components ps)" and "\<not> (c_body (body x) \<and> c_alive (body x))"
  shows "(\<exists>e. result_of (flush_after_step env body call events (ps, s)) = Inl e) \<and>
    snd (state_of (flush_after_step env body call events (ps, s))) = s \<and>
    (components ps = (k, x) # rest \<and> c_body (body x) \<longrightarrow>
       flush_after_step env body call events (ps, s) = (Inl RuntimeError, (psync_detach k ps, s)))"
proof -
  obtain e where "fst (collect_moved body (components ps) ps []) = Inl e"
    using collect_moved_dead [of "components ps" body ps "[]"] assms by blast
  then show ?thesis
    using assms(2) by (cases "collect_moved body (components ps) ps []") (auto simp: flush_after_step_def)
qed

theorem dead_component_aborts_flush_witness:
  "\<exists>e. result_of (flush_after_step quiet_env (\<lambda>x. \<lparr>c_body = True, c_alive = (x = 0), c_position = None,
     c_rotation = None, c_collider = None\<rparr>) (\<lambda>_. ret ()) (Some [(1, 2)])
     (new_psync\<lparr>components := [(''a'', 0), (''b'', 1)]\<rparr>, blank_hub)) = Inl e"
  using dead_component_aborts_flush [of "''b''" 1 "new_psync\<lparr>components := [(''a'', 0), (''b'', 1)]\<rparr>"
      "\<lambda>x. \<lparr>c_body = True, c_alive = (x = 0), c_position = None, c_rotation = None, c_collider = None\<rparr>"] by simp

end
