(* ===== verification/Rank.thy ===== *)
theory Rank
  imports Prelude
begin

section \<open>Rankings\<close>

text \<open>
  \<open>rank.py\<close>: a ranking is a sorted set of redis whose members are the keys of the items.  The
  redis commands are parameters, functions on an abstract store, as is packing an item; the
  properties name what they rely on as hypotheses, in the words of the redis manual.
\<close>

record rank_item =
  i_key :: string
  i_score :: int
  i_profile :: string

record 'r redis_ops =
  r_set :: "string \<Rightarrow> string \<Rightarrow> 'r \<Rightarrow> 'r"
  r_get :: "'r \<Rightarrow> string \<Rightarrow> string option"
  r_delete :: "string list \<Rightarrow> 'r \<Rightarrow> 'r"
  r_zadd :: "string \<Rightarrow> string \<Rightarrow> int \<Rightarrow> 'r \<Rightarrow> 'r"
  r_zrem :: "string \<Rightarrow> string list \<Rightarrow> 'r \<Rightarrow> 'r"
  r_zrevrank :: "'r \<Rightarrow> string \<Rightarrow> string \<Rightarrow> nat option"
  r_zrevrange :: "'r \<Rightarrow> string \<Rightarrow> int \<Rightarrow> int \<Rightarrow> string list"

record packing =
  pack_item :: "rank_item \<Rightarrow> string"
  unpack_item :: "string \<Rightarrow> pyexn + rank_item"

definition create_rank_key :: "string \<Rightarrow> string" where
  "create_rank_key rank_name = ''rank:'' @ rank_name"

definition add_rank :: "'r redis_ops \<Rightarrow> packing \<Rightarrow> string \<Rightarrow> rank_item \<Rightarrow> 'r \<Rightarrow> 'r" where
  "add_rank ops pk rank item st =
     r_zadd ops rank (i_key item) (i_score item) (r_set ops (i_key item) (pack_item pk item) st)"

definition del_rank :: "'r redis_ops \<Rightarrow> string \<Rightarrow> string list \<Rightarrow> 'r \<Rightarrow> 'r" where
  "del_rank ops rank item_keys st = r_delete ops item_keys (r_zrem ops rank item_keys st)"

definition update_rank :: "'r redis_ops \<Rightarrow> packing \<Rightarrow> string \<Rightarrow> rank_item \<Rightarrow> 'r \<Rightarrow> 'r" where
  "update_rank ops pk rank item st = add_rank ops pk rank item (del_rank ops rank [i_key item] st)"

text \<open>\<open>loads(redis.get(k))\<close>: a missing key gives \<open>None\<close>, which \<open>loads\<close> refuses.\<close>

definition load_item :: "'r redis_ops \<Rightarrow> packing \<Rightarrow> 'r \<Rightarrow> string \<Rightarrow> pyexn + rank_item" where
  "load_item ops pk st k = (case r_get ops st k of None \<Rightarrow> Inl TypeError | Some b \<Rightarrow> unpack_item pk b)"

definition get_rank :: "'r redis_ops \<Rightarrow> packing \<Rightarrow> string \<Rightarrow> string \<Rightarrow> 'r \<Rightarrow> pyexn + nat option \<times> rank_item" where
  "get_rank ops pk rank k st = bindr (load_item ops pk st k) (\<lambda>item. Inr (r_zrevrank ops st rank k, item))"

fun load_items :: "'r redis_ops \<Rightarrow> packing \<Rightarrow> 'r \<Rightarrow> string list \<Rightarrow> pyexn + rank_item list" where
  "load_items ops pk st [] = Inr []"
| "load_items ops pk st (k # ks) =
     bindr (load_item ops pk st k) (\<lambda>item. bindr (load_items ops pk st ks) (\<lambda>items. Inr (item # items)))"

definition get_rank_list :: "'r redis_ops \<Rightarrow> packing \<Rightarrow> string \<Rightarrow> int \<Rightarrow> int \<Rightarrow> 'r \<Rightarrow> pyexn + rank_item list" where
  "get_rank_list ops pk rank start count st =
     load_items ops pk st (r_zrevrange ops st rank start (start + count))"

subsection \<open>Facts\<close>

lemma load_items_length: "load_items ops pk st ks = Inr items \<Longrightarrow> length items = length ks"
proof (induction ks arbitrary: items)
  case Nil
  then show ?case by simp
next
  case (Cons k ks)
  then show ?case
    by (cases "load_item ops pk st k"; cases "load_items ops pk st ks") auto
qed

text \<open>
  \<open>ZREVRANGE key start stop\<close>, both bounds inclusive: for bounds that are not negative, the
  members of the ranking \<open>order st rank\<close> at the places from start to stop.
\<close>

definition zrevrange_inclusive :: "'r redis_ops \<Rightarrow> ('r \<Rightarrow> string \<Rightarrow> string list) \<Rightarrow> bool" where
  "zrevrange_inclusive ops order = (\<forall>st rank. \<forall>i \<ge> 0. \<forall>j \<ge> 0.
     r_zrevrange ops st rank i j = take (nat (j - i + 1)) (drop (nat i) (order st rank)))"

subsection \<open>Properties\<close>

text \<open>A page of a ranking that asks for \<open>count\<close> items holds \<open>count + 1\<close> when there are as many,
  so that two consecutive pages both hold the item at the border.\<close>

theorem rank_page_one_too_many:
  assumes range: "zrevrange_inclusive ops order" and pos: "start \<ge> 0" "count \<ge> 0"
    and enough: "nat start + nat count < length (order st rank)"
    and page: "get_rank_list ops pk rank start count st = Inr items"
  shows "length items = nat count + 1 \<and>
    set (r_zrevrange ops st rank start (start + count)) \<inter>
      set (r_zrevrange ops st rank (start + count) (start + count + count)) \<noteq> {}"
proof -
  have "nat (1 + count) = Suc (nat count)" "nat (start + count) = nat start + nat count" using pos by simp_all
  moreover have r: "r_zrevrange ops st rank i j = take (nat (j - i + 1)) (drop (nat i) (order st rank))"
    if "i \<ge> 0" "j \<ge> 0" for i j using range that unfolding zrevrange_inclusive_def by blast
  ultimately have one: "r_zrevrange ops st rank start (start + count) =
      take (Suc (nat count)) (drop (nat start) (order st rank))"
    and two: "r_zrevrange ops st rank (start + count) (start + count + count) =
      take (Suc (nat count)) (drop (nat start + nat count) (order st rank))"
    using r [of start "start + count"] r [of "start + count" "start + count + count"] pos
    by (simp_all add: add.commute)
  have "length items = nat count + 1"
    using load_items_length [OF page [unfolded get_rank_list_def]] enough by (simp add: one)
  moreover let ?x = "order st rank ! (nat start + nat count)"
  have "?x \<in> set (take (Suc (nat count)) (drop (nat start) (order st rank)))"
    unfolding in_set_conv_nth using enough by (intro exI [of _ "nat count"]) simp
  moreover have "?x \<in> set (take (Suc (nat count)) (drop (nat start + nat count) (order st rank)))"
    unfolding in_set_conv_nth using enough by (intro exI [of _ 0]) simp
  ultimately show ?thesis unfolding one two by blast
qed

definition list_redis :: "string list redis_ops" where
  "list_redis = \<lparr>r_set = (\<lambda>_ _ st. st), r_get = (\<lambda>_ k. Some k), r_delete = (\<lambda>_ st. st),
     r_zadd = (\<lambda>_ k _ st. k # st), r_zrem = (\<lambda>_ ks st. List.filter (\<lambda>k. k \<notin> set ks) st),
     r_zrevrank = (\<lambda>_ _ _. None),
     r_zrevrange = (\<lambda>st _ i j. take (nat (j - i + 1)) (drop (nat i) st))\<rparr>"

theorem rank_page_one_too_many_witness:
  "length (projr (get_rank_list list_redis \<lparr>pack_item = i_key, unpack_item = (\<lambda>b. Inr \<lparr>i_key = b, i_score = 0, i_profile = []\<rparr>)\<rparr>
     ''rank:x'' 0 1 [''a'', ''b'', ''c''])) = 2"
proof -
  let ?pk = "\<lparr>pack_item = i_key, unpack_item = (\<lambda>b. Inr \<lparr>i_key = b, i_score = 0, i_profile = []\<rparr>)\<rparr>"
  have range: "zrevrange_inclusive list_redis (\<lambda>st _. st)"
    by (simp add: zrevrange_inclusive_def list_redis_def)
  have page: "get_rank_list list_redis ?pk ''rank:x'' 0 1 [''a'', ''b'', ''c''] =
      Inr (projr (get_rank_list list_redis ?pk ''rank:x'' 0 1 [''a'', ''b'', ''c'']))"
    by (simp add: get_rank_list_def list_redis_def load_item_def numeral_2_eq_2)
  from rank_page_one_too_many [OF range _ _ _ page] show ?thesis by simp
qed

end
