(* ===== verification/Juggle_Text.thy ===== *)
theory Juggle_Text
  imports Prelude "HOL-Library.Sublist"
begin

section \<open>Text of a .juggle file: stripping and comments\<close>

text \<open>
  \<open>src/rpc/parser/deletenonespacelstrip.py\<close> and \<open>deletenote.py\<close>: the two passes over characters
  that the RPC compiler's parser rests on.
\<close>

abbreviation cr :: char where "cr \<equiv> CHR 0x0D"
abbreviation nl :: char where "nl \<equiv> CHR 0x0A"
abbreviation tab :: char where "tab \<equiv> CHR 0x09"
abbreviation nul :: char where "nul \<equiv> CHR 0x00"
abbreviation space :: char where "space \<equiv> CHR 0x20"

subsection \<open>\<open>lstrip\<close> and \<open>rstrip\<close> of one character\<close>

definition lstrip1 :: "char \<Rightarrow> string \<Rightarrow> string" where
  "lstrip1 c s = dropWhile (\<lambda>x. x = c) s"

definition rstrip1 :: "char \<Rightarrow> string \<Rightarrow> string" where
  "rstrip1 c s = rev (dropWhile (\<lambda>x. x = c) (rev s))"

text \<open>
  \<open>deleteNoneSpacelstrip\<close>.  \<open>while s.lstrip(c) is not s: s = s.lstrip(c)\<close> strips \<open>c\<close> once, as
  \<open>lstrip\<close> answers the string itself when it has nothing to strip.  In each of the five
  passes the function also has a loop guarded by a strip that the loop before it exhausted
  (of \<open>tab\<close> on the left, of \<open>nl\<close> on the right): its guard is false and its body, a strip
  of both \<open>cr\<close> and \<open>nl\<close>, never runs; \<open>inert_guards\<close> below.
\<close>

definition lpass :: "string \<Rightarrow> string" where
  "lpass s = lstrip1 nul (lstrip1 tab (lstrip1 nl (lstrip1 cr s)))"

definition rpass :: "string \<Rightarrow> string" where
  "rpass s = rstrip1 nul (rstrip1 tab (rstrip1 nl (rstrip1 cr s)))"

definition delete_none_spacel_strip :: "string \<Rightarrow> string" where
  "delete_none_spacel_strip s =
     (let s = lpass (lpass (lpass (lpass (lpass s))));
          s = lstrip1 tab (lstrip1 space (lstrip1 tab s));
          s = rpass (rpass (rpass (rpass (rpass s))))
      in rstrip1 tab (rstrip1 space (rstrip1 tab s)))"

abbreviation strip :: "string \<Rightarrow> string" where
  "strip \<equiv> delete_none_spacel_strip"

lemma inert_guards:
  "lstrip1 tab (lstrip1 tab s) = lstrip1 tab s" "rstrip1 nl (rstrip1 nl s) = rstrip1 nl s"
  by (simp_all add: lstrip1_def rstrip1_def dropWhile_idem comp_def)

definition white :: "char \<Rightarrow> bool" where
  "white c = (c \<in> {cr, nl, tab, nul, space})"

lemma white_simps [simp]: "white cr" "white nl" "white tab" "white nul" "white space"
  by (simp_all add: white_def)

lemma lstrip1_id: "s \<noteq> [] \<Longrightarrow> hd s \<noteq> c \<Longrightarrow> lstrip1 c s = s"
  by (cases s) (simp_all add: lstrip1_def)

lemma rstrip1_id: "s \<noteq> [] \<Longrightarrow> last s \<noteq> c \<Longrightarrow> rstrip1 c s = s"
  by (cases s rule: rev_cases) (simp_all add: rstrip1_def)

lemma strip1_Nil [simp]: "lstrip1 c [] = []" "rstrip1 c [] = []"
  by (simp_all add: lstrip1_def rstrip1_def)

text \<open>A text with no white character at its ends is kept.\<close>

definition clean :: "string \<Rightarrow> bool" where
  "clean s = (s = [] \<or> \<not> white (hd s) \<and> \<not> white (last s))"

lemma strip_clean: "clean s \<Longrightarrow> strip s = s"
proof (cases "s = []")
  case True
  then show ?thesis by (simp add: delete_none_spacel_strip_def lpass_def rpass_def)
next
  case False
  assume "clean s"
  with False have "lstrip1 c s = s \<and> rstrip1 c s = s" if "white c" for c
    using that by (auto simp: clean_def intro: lstrip1_id rstrip1_id)
  then have "lstrip1 cr s = s" "lstrip1 nl s = s" "lstrip1 tab s = s" "lstrip1 nul s = s" "lstrip1 space s = s"
    "rstrip1 cr s = s" "rstrip1 nl s = s" "rstrip1 tab s = s" "rstrip1 nul s = s" "rstrip1 space s = s"
    using white_simps by blast+
  then show ?thesis by (simp add: delete_none_spacel_strip_def lpass_def rpass_def)
qed

lemma strip_Nil [simp]: "strip [] = []"
  by (rule strip_clean) (simp add: clean_def)

lemma strip_one_white: "white c \<Longrightarrow> strip [c] = []"
  by (auto simp: white_def delete_none_spacel_strip_def lpass_def rpass_def lstrip1_def rstrip1_def)

text \<open>A word: no white character at all.\<close>

definition word_chars :: "string \<Rightarrow> bool" where
  "word_chars s = list_all (\<lambda>c. \<not> white c) s"

lemma word_chars_simps [simp]:
  "word_chars []" "word_chars (c # s) \<longleftrightarrow> \<not> white c \<and> word_chars s"
  "word_chars (s @ t) \<longleftrightarrow> word_chars s \<and> word_chars t"
  by (simp_all add: word_chars_def)

lemma word_clean: "word_chars s \<Longrightarrow> clean s"
  by (auto simp: clean_def word_chars_def list_all_iff)

lemma strip_word [simp]: "word_chars s \<Longrightarrow> strip s = s"
  by (rule strip_clean) (rule word_clean)

subsection \<open>\<open>str.find\<close>\<close>

fun find_str :: "string \<Rightarrow> string \<Rightarrow> nat option" where
  "find_str pat [] = (if pat = [] then Some 0 else None)"
| "find_str pat (c # s) = (if prefix pat (c # s) then Some 0 else map_option Suc (find_str pat s))"

definition contains :: "string \<Rightarrow> string \<Rightarrow> bool" where
  "contains pat s = (find_str pat s \<noteq> None)"

lemma find_str_sublist: "find_str pat s \<noteq> None \<longleftrightarrow> sublist pat s"
proof (induction s)
  case Nil
  then show ?case by simp
next
  case (Cons c s)
  then show ?case by (cases "find_str pat s") (auto simp: sublist_Cons_right)
qed

lemma contains_sublist: "contains pat s \<longleftrightarrow> sublist pat s"
  unfolding contains_def by (rule find_str_sublist)

lemma find_str_absent: "c \<in> set pat \<Longrightarrow> c \<notin> set s \<Longrightarrow> find_str pat s = None"
  using find_str_sublist [of pat s] set_mono_sublist [of pat s] by auto

subsection \<open>Comments\<close>

text \<open>
  \<open>deletenote\<close>: \<open>count\<close> says whether a block comment is open at the start of the line.  A line is
  one pass of the \<open>while(1)\<close>, whose every path ends in a \<open>break\<close>: the result is what is left
  of the line (\<open>None\<close> when nothing is kept) and whether a comment is open after it.
\<close>

definition note_line :: "bool \<Rightarrow> string \<Rightarrow> string option \<times> bool" where
  "note_line opened line =
     (case (if opened then map_option (\<lambda>i. drop (i + 2) line) (find_str ''*/'' line) else Some line) of
        None \<Rightarrow> (None, True)
      | Some text \<Rightarrow>
         (case find_str ''//'' text of
            Some i \<Rightarrow> (Some (take i text), False)
          | None \<Rightarrow>
             (case find_str ''/*'' text of
                None \<Rightarrow> (Some text, False)
              | Some b \<Rightarrow>
                 (case find_str ''*/'' text of
                    None \<Rightarrow> (None, True)
                  | Some a \<Rightarrow> (Some (take b text @ drop (a + 2) text), False)))))"

fun note_lines :: "bool \<Rightarrow> string list \<Rightarrow> string list \<times> bool" where
  "note_lines opened [] = ([], opened)"
| "note_lines opened (line # rest) =
     (case note_line opened line of (kept, opened') \<Rightarrow>
      case note_lines opened' rest of (out, final) \<Rightarrow>
        ((case kept of Some text \<Rightarrow> if text = [] then out else text # out | None \<Rightarrow> out), final))"

definition deletenote :: "string list \<Rightarrow> pyexn + string list" where
  "deletenote filestr =
     (case note_lines False filestr of
        (out, opened) \<Rightarrow> if opened then Inl (Exception ''c/c++ coding error unpaired /* '') else Inr out)"

lemma note_line_plain:
  assumes "CHR ''/'' \<notin> set line"
  shows "note_line False line = (Some line, False)"
  using assms by (simp add: note_line_def find_str_absent [of "CHR ''/''"])

lemma deletenote_plain:
  assumes "\<forall>line \<in> set lines. CHR ''/'' \<notin> set line"
  shows "deletenote lines = Inr (List.filter (\<lambda>l. l \<noteq> []) lines)"
proof -
  have "note_lines False lines = (List.filter (\<lambda>l. l \<noteq> []) lines, False)"
    using assms by (induction lines) (simp_all add: note_line_plain)
  then show ?thesis by (simp add: deletenote_def)
qed

text \<open>The line that opens a block comment is dropped as a whole.\<close>

lemma find_str_skip:
  "c \<noteq> d \<Longrightarrow> find_str (d # pat) (c # s) = map_option Suc (find_str (d # pat) s)"
  by simp

lemma note_line_opening:
  assumes "CHR ''/'' \<notin> set before" "CHR ''*'' \<notin> set before" "CHR ''/'' \<notin> set after"
  shows "note_line False (before @ ''/*'' @ after) = (None, True)"
proof -
  have "find_str ''//'' (before @ ''/*'' @ after) = None"
    using assms by (induction before) (simp_all add: find_str_absent)
  moreover have "find_str ''*/'' (before @ ''/*'' @ after) = None"
    using assms by (induction before) (auto simp: find_str_absent [of "CHR ''/''"] prefix_def)
  moreover have "find_str ''/*'' (before @ ''/*'' @ after) \<noteq> None"
    unfolding find_str_sublist by (simp add: sublist_append)
  ultimately show ?thesis by (auto simp: note_line_def)
qed

end
