(* ===== verification/Juggle_Check.thy ===== *)
theory Juggle_Check
  imports Juggle_Text "HOL-Library.Word"
begin

section \<open>Default values of parameters\<close>

text \<open>
  \<open>src/rpc/parser/parametercheck.py\<close>: which texts are accepted as the default value of a
  parameter of a type.  Every exception counts as a refusal.  The numerals \<open>int\<close> and
  \<open>float\<close> accept are Python's, over ASCII; \<open>eval\<close>, which reads a \<open>bin\<close> default, is the
  parameter \<open>ev\<close>, a list of integers or an exception.
\<close>

definition py_space :: "char \<Rightarrow> bool" where
  "py_space c = (of_char c \<in> {9::nat, 10, 11, 12, 13, 28, 29, 30, 31, 32})"

definition py_trim :: "string \<Rightarrow> string" where
  "py_trim s = rev (dropWhile py_space (rev (dropWhile py_space s)))"

definition digit_of :: "char \<Rightarrow> int option" where
  "digit_of c = (let n = of_char c :: int in if 48 \<le> n \<and> n \<le> 57 then Some (n - 48) else None)"

text \<open>Digits with single underscores between them; \<open>after\<close> says whether a digit came before.\<close>

fun digits_value :: "bool \<Rightarrow> int \<Rightarrow> string \<Rightarrow> int option" where
  "digits_value after acc [] = (if after then Some acc else None)"
| "digits_value after acc (c # s) =
     (case digit_of c of
        Some d \<Rightarrow> digits_value True (acc * 10 + d) s
      | None \<Rightarrow> if c = CHR ''_'' \<and> after then digits_value False acc s else None)"

fun signed_digits :: "string \<Rightarrow> int option" where
  "signed_digits (CHR ''-'' # s) = map_option uminus (digits_value False 0 s)"
| "signed_digits (CHR ''+'' # s) = digits_value False 0 s"
| "signed_digits s = digits_value False 0 s"

definition py_int :: "string \<Rightarrow> pyexn + int" where
  "py_int s = (case signed_digits (py_trim s) of None \<Rightarrow> Inl ValueError | Some p \<Rightarrow> Inr p)"

text \<open>\<open>float\<close>: only whether it accepts matters here.\<close>

definition is_digits :: "string \<Rightarrow> bool" where
  "is_digits s = (digits_value False 0 s \<noteq> None)"

definition drop_sign :: "string \<Rightarrow> string" where
  "drop_sign s = (case s of c # r \<Rightarrow> if c \<in> {CHR ''-'', CHR ''+''} then r else s | [] \<Rightarrow> [])"

definition lower_char :: "char \<Rightarrow> char" where
  "lower_char c = (let n = of_char c :: nat in if 65 \<le> n \<and> n \<le> 90 then char_of (n + 32) else c)"

definition is_mantissa :: "string \<Rightarrow> bool" where
  "is_mantissa s = (let a = takeWhile (\<lambda>c. c \<noteq> CHR ''.'') s; b = dropWhile (\<lambda>c. c \<noteq> CHR ''.'') s in
     case b of [] \<Rightarrow> is_digits a
     | _ # f \<Rightarrow> (is_digits a \<or> is_digits f) \<and> (a = [] \<or> is_digits a) \<and> (f = [] \<or> is_digits f))"

definition py_float_ok :: "string \<Rightarrow> bool" where
  "py_float_ok t = (let s = drop_sign (py_trim t); l = List.map lower_char s;
       m = takeWhile (\<lambda>c. c \<notin> {CHR ''e'', CHR ''E''}) s; e = dropWhile (\<lambda>c. c \<notin> {CHR ''e'', CHR ''E''}) s
     in l \<in> {''inf'', ''infinity'', ''nan''} \<or>
        is_mantissa m \<and> (case e of [] \<Rightarrow> True | _ # x \<Rightarrow> is_digits (drop_sign x)))"

definition int_in :: "int \<Rightarrow> int \<Rightarrow> string \<Rightarrow> pyexn + bool" where
  "int_in lo hi s = bindr (py_int s) (\<lambda>p. Inr (p \<ge> lo \<and> p \<le> hi))"

definition parameter_int8_check :: "string \<Rightarrow> pyexn + bool" where
  "parameter_int8_check s = int_in (-128) 127 s"

definition parameter_int16_check :: "string \<Rightarrow> pyexn + bool" where
  "parameter_int16_check s = int_in (-32768) 32767 s"

definition parameter_int32_check :: "string \<Rightarrow> pyexn + bool" where
  "parameter_int32_check s = int_in (-2147483648) 2147483647 s"

definition parameter_int64_check :: "string \<Rightarrow> pyexn + bool" where
  "parameter_int64_check s = Inr True"

definition parameter_uint8_check :: "string \<Rightarrow> pyexn + bool" where
  "parameter_uint8_check s = int_in 0 255 s"

definition parameter_uint16_check :: "string \<Rightarrow> pyexn + bool" where
  "parameter_uint16_check s = int_in 0 65535 s"

definition parameter_uint32_check :: "string \<Rightarrow> pyexn + bool" where
  "parameter_uint32_check s = int_in 0 4294967295 s"

definition parameter_uint64_check :: "string \<Rightarrow> pyexn + bool" where
  "parameter_uint64_check s = Inr True"

definition parameter_float_check :: "string \<Rightarrow> pyexn + bool" where
  "parameter_float_check s = (if py_float_ok s then Inr True else Inl ValueError)"

definition parameter_double_check :: "string \<Rightarrow> pyexn + bool" where
  "parameter_double_check s = (if py_float_ok s then Inr True else Inl ValueError)"

definition parameter_bool_check :: "string \<Rightarrow> pyexn + bool" where
  "parameter_bool_check s = Inr (s = ''true'' \<or> s = ''false'')"

text \<open>\<open>s[0]\<close> and \<open>s[-1]\<close> raise on an empty text.\<close>

definition parameter_string_check :: "string \<Rightarrow> pyexn + bool" where
  "parameter_string_check s = (if s = [] then Inl IndexError
     else Inr (hd s = CHR 0x22 \<and> last s = CHR 0x22))"

definition parameter_bin_check :: "(string \<Rightarrow> pyexn + int list) \<Rightarrow> string \<Rightarrow> pyexn + bool" where
  "parameter_bin_check ev s = (if s = [] then Inl IndexError
     else if hd s = CHR ''['' \<and> last s = CHR '']''
     then bindr (ev s) (\<lambda>vs. Inr (\<forall>v \<in> set vs. \<not> (v < 0 \<or> v > 255)))
     else Inr False)"

definition check_of :: "(string \<Rightarrow> pyexn + int list) \<Rightarrow> (string \<times> (string \<Rightarrow> pyexn + bool)) list" where
  "check_of ev =
     [(''int8'', parameter_int8_check), (''int16'', parameter_int16_check),
      (''int32'', parameter_int32_check), (''int64'', parameter_int64_check),
      (''uint8'', parameter_uint8_check), (''uint16'', parameter_uint16_check),
      (''uint32'', parameter_uint32_check), (''uint64'', parameter_uint64_check),
      (''float'', parameter_float_check), (''double'', parameter_double_check),
      (''bool'', parameter_bool_check), (''string'', parameter_string_check),
      (''bin'', parameter_bin_check ev)]"

definition parameter_check :: "(string \<Rightarrow> pyexn + int list) \<Rightarrow> string \<Rightarrow> string \<Rightarrow> bool" where
  "parameter_check ev type_str parameter_str =
     (case map_of (check_of ev) type_str of
        None \<Rightarrow> True
      | Some check \<Rightarrow> (case check parameter_str of Inl _ \<Rightarrow> False | Inr b \<Rightarrow> b))"

subsection \<open>Facts\<close>

lemma parameter_check_simps:
  "parameter_check ev ''int8'' s = (parameter_int8_check s = Inr True)"
  "parameter_check ev ''int16'' s = (parameter_int16_check s = Inr True)"
  "parameter_check ev ''int32'' s = (parameter_int32_check s = Inr True)"
  "parameter_check ev ''int64'' s"
  "parameter_check ev ''uint8'' s = (parameter_uint8_check s = Inr True)"
  "parameter_check ev ''uint16'' s = (parameter_uint16_check s = Inr True)"
  "parameter_check ev ''uint32'' s = (parameter_uint32_check s = Inr True)"
  "parameter_check ev ''uint64'' s"
  by (auto simp: parameter_check_def check_of_def parameter_int64_check_def parameter_uint64_check_def
      split: sum.splits)

lemma int_in_true: "int_in lo hi s = Inr True \<longleftrightarrow> (\<exists>p. py_int s = Inr p \<and> lo \<le> p \<and> p \<le> hi)"
  by (cases "py_int s") (auto simp: int_in_def)

lemma sint_fits:
  "sint (word_of_int p :: 8 word) = p \<longleftrightarrow> -128 \<le> p \<and> p \<le> 127"
  "sint (word_of_int p :: 16 word) = p \<longleftrightarrow> -32768 \<le> p \<and> p \<le> 32767"
  "sint (word_of_int p :: 32 word) = p \<longleftrightarrow> -2147483648 \<le> p \<and> p \<le> 2147483647"
  by (auto simp: signed_of_int signed_take_bit_int_eq_self_iff)

lemma uint_fits:
  "uint (word_of_int p :: 8 word) = p \<longleftrightarrow> 0 \<le> p \<and> p \<le> 255"
  "uint (word_of_int p :: 16 word) = p \<longleftrightarrow> 0 \<le> p \<and> p \<le> 65535"
  "uint (word_of_int p :: 32 word) = p \<longleftrightarrow> 0 \<le> p \<and> p \<le> 4294967295"
  by (auto simp: unsigned_of_int take_bit_int_eq_self_iff)

subsection \<open>Properties\<close>

text \<open>C36: a default of an integer type of 8, 16 or 32 bits is accepted exactly when it is a numeral
  whose value survives the conversion to that machine integer; a default of a 64-bit type is
  accepted whatever it is.\<close>

theorem int_default_fits_width:
  "parameter_check ev ''int8'' s = (\<exists>p. py_int s = Inr p \<and> sint (word_of_int p :: 8 word) = p) \<and>
   parameter_check ev ''int16'' s = (\<exists>p. py_int s = Inr p \<and> sint (word_of_int p :: 16 word) = p) \<and>
   parameter_check ev ''int32'' s = (\<exists>p. py_int s = Inr p \<and> sint (word_of_int p :: 32 word) = p) \<and>
   parameter_check ev ''uint8'' s = (\<exists>p. py_int s = Inr p \<and> uint (word_of_int p :: 8 word) = p) \<and>
   parameter_check ev ''uint16'' s = (\<exists>p. py_int s = Inr p \<and> uint (word_of_int p :: 16 word) = p) \<and>
   parameter_check ev ''uint32'' s = (\<exists>p. py_int s = Inr p \<and> uint (word_of_int p :: 32 word) = p) \<and>
   parameter_check ev ''int64'' s \<and> parameter_check ev ''uint64'' s"
  by (simp add: parameter_check_simps parameter_int8_check_def parameter_int16_check_def
      parameter_int32_check_def parameter_uint8_check_def parameter_uint16_check_def
      parameter_uint32_check_def int_in_true sint_fits uint_fits)

end
