(* ===== verification/Juggle_Machines.thy ===== *)
theory Juggle_Machines
  imports Juggle_Check
begin

section \<open>The character machines of the .juggle parser\<close>

text \<open>
  \<open>src/rpc/parser\<close>: \<open>enummachine.py\<close>, \<open>structmachine.py\<close>, \<open>modulemachine.py\<close>,
  \<open>importmachine.py\<close> and \<open>statemachine.py\<close>.  Each machine consumes one character per \<open>push\<close>,
  and a push answers whether its element is complete; \<open>statemachine\<close> picks the machine of
  the next declaration by its keyword.  A push is a function from the machine to the answer
  and the new machine, or the exception raised.
\<close>

definition is_white :: "char \<Rightarrow> bool" where
  "is_white ch = (ch \<in> {space, cr, nl, tab, nul})"

lemma is_white_white: "is_white = white"
  by (rule ext) (auto simp: is_white_def white_def)

subsection \<open>Enumerations\<close>

record keyvalue =
  kv_keyworld :: string
  kv_key :: string
  kv_value :: string

definition new_keyvalue :: keyvalue where
  "new_keyvalue = \<lparr>kv_keyworld = [], kv_key = [], kv_value = []\<rparr>"

definition keyvalue_push :: "char \<Rightarrow> keyvalue \<Rightarrow> bool \<times> keyvalue" where
  "keyvalue_push ch m =
     (if ch = CHR ''='' then
        (let w = strip (kv_keyworld m)
         in (False, m\<lparr>kv_key := (if w \<noteq> [] then strip w else kv_key m), kv_keyworld := []\<rparr>))
      else if ch = CHR '';'' then
        (let w = strip (kv_keyworld m)
         in (True, m\<lparr>kv_value := (if w \<noteq> [] then strip w else kv_value m), kv_keyworld := []\<rparr>))
      else (False, m\<lparr>kv_keyworld := kv_keyworld m @ [ch]\<rparr>))"

record enum =
  en_keyworld :: string
  en_name :: string
  en_enum :: "(string \<times> string) list"
  en_machine :: "keyvalue option"

definition new_enum :: enum where
  "new_enum = \<lparr>en_keyworld = [], en_name = [], en_enum = [], en_machine = None\<rparr>"

definition enum_push :: "char \<Rightarrow> enum \<Rightarrow> bool \<times> enum" where
  "enum_push ch m =
     (if ch = CHR ''}'' then (True, m)
      else case en_machine m of
        Some kv \<Rightarrow>
          (case keyvalue_push ch kv of
             (True, kv') \<Rightarrow> (False, m\<lparr>en_enum := en_enum m @ [(kv_key kv', kv_value kv')],
                                      en_machine := Some new_keyvalue\<rparr>)
           | (False, kv') \<Rightarrow> (False, m\<lparr>en_machine := Some kv'\<rparr>))
      | None \<Rightarrow>
          if ch = CHR ''{'' then
            (let w = strip (en_keyworld m)
             in (False, m\<lparr>en_name := (if w \<noteq> [] then strip w else en_name m), en_keyworld := [],
                          en_machine := Some new_keyvalue\<rparr>))
          else (False, m\<lparr>en_keyworld := en_keyworld m @ [ch]\<rparr>))"

subsection \<open>Structures\<close>

datatype elem_step = Key | Value | Parameter | Done

record elem =
  el_keyworld :: string
  el_step :: elem_step
  el_key :: string
  el_value :: "string option"
  el_parameter :: "string option"
  el_list_parameter :: bool

definition new_elem :: elem where
  "new_elem = \<lparr>el_keyworld = [], el_step = Key, el_key = [], el_value = None,
     el_parameter = None, el_list_parameter = False\<rparr>"

definition elem_push :: "char \<Rightarrow> elem \<Rightarrow> bool \<times> elem" where
  "elem_push ch m0 =
     (let m = (if ch = CHR ''['' \<and> el_step m0 = Parameter then m0\<lparr>el_list_parameter := True\<rparr> else m0) in
      if el_step m = Parameter \<and> el_list_parameter m then
        (False, m\<lparr>el_keyworld := strip (el_keyworld m @ [ch]),
                  el_list_parameter := (if ch = CHR '']'' then False else el_list_parameter m)\<rparr>)
      else if is_white ch \<and> el_keyworld m \<noteq> [] then
        (let w = strip (el_keyworld m);
             m' = (if el_step m = Key \<and> w \<noteq> [] then m\<lparr>el_key := w, el_step := Value\<rparr>
                   else if el_step m = Value \<and> w \<noteq> [] then m\<lparr>el_value := Some w, el_step := Parameter\<rparr>
                   else if el_step m = Parameter \<and> w \<noteq> [] \<and> w \<noteq> ''=''
                        then m\<lparr>el_parameter := Some w, el_step := Done\<rparr>
                   else m)
         in (False, m'\<lparr>el_keyworld := []\<rparr>))
      else if ch = CHR '';'' then
        (let w = strip (el_keyworld m);
             m' = (if el_step m = Value \<and> w \<noteq> [] then m\<lparr>el_value := Some w\<rparr>
                   else if el_step m = Parameter \<and> w \<noteq> [] \<and> w \<noteq> ''='' then m\<lparr>el_parameter := Some w\<rparr>
                   else m)
         in (True, m'\<lparr>el_keyworld := []\<rparr>))
      else (False, m\<lparr>el_keyworld := strip (el_keyworld m @ [ch])\<rparr>))"

type_synonym struct_elem = "string \<times> string option \<times> string option"

record struct =
  st_keyworld :: string
  st_name :: string
  st_elem :: "struct_elem list"
  st_machine :: "elem option"

definition new_struct :: struct where
  "new_struct = \<lparr>st_keyworld = [], st_name = [], st_elem = [], st_machine = None\<rparr>"

text \<open>
  The message of the exception for a wrong default reads \<open>self.key\<close>, which \<open>struct\<close> does not
  have: what is raised is \<open>AttributeError\<close>.
\<close>

definition struct_push :: "(string \<Rightarrow> pyexn + int list) \<Rightarrow> char \<Rightarrow> struct \<Rightarrow> pyexn + bool \<times> struct" where
  "struct_push ev ch m =
     (if ch = CHR ''}'' then Inr (True, m)
      else case st_machine m of
        Some el \<Rightarrow>
          (case elem_push ch el of
             (True, el') \<Rightarrow>
               (case el_parameter el' of
                  Some p \<Rightarrow> if \<not> parameter_check ev (el_key el') p then Inl AttributeError
                    else Inr (False, m\<lparr>st_elem := st_elem m @ [(el_key el', el_value el', el_parameter el')],
                                       st_machine := Some new_elem\<rparr>)
                | None \<Rightarrow> Inr (False, m\<lparr>st_elem := st_elem m @ [(el_key el', el_value el', None)],
                                       st_machine := Some new_elem\<rparr>))
           | (False, el') \<Rightarrow> Inr (False, m\<lparr>st_machine := Some el'\<rparr>))
      | None \<Rightarrow>
          if ch = CHR ''{'' then
            (let w = strip (st_keyworld m)
             in Inr (False, m\<lparr>st_name := (if w \<noteq> [] then strip w else st_name m), st_keyworld := [],
                              st_machine := Some new_elem\<rparr>))
          else Inr (False, m\<lparr>st_keyworld := st_keyworld m @ [ch]\<rparr>))"

subsection \<open>Functions of a service\<close>

text \<open>
  \<open>func.func\<close> is a list of words and argument lists; an argument is a list of words that
  ends with \<open>None\<close> where it has no default.
\<close>

type_synonym arg = "string option list"

datatype func_item = Word string | Args "arg list"

record func =
  fu_keyworld :: string
  fu_func :: "func_item list"
  fu_argvtuple :: "arg list option"
  fu_argvPair :: arg
  fu_parameter :: bool
  fu_list_parameter :: bool
  fu_isdefaultparameter :: bool

definition new_func :: func where
  "new_func = \<lparr>fu_keyworld = [], fu_func = [], fu_argvtuple = None, fu_argvPair = [],
     fu_parameter = False, fu_list_parameter = False, fu_isdefaultparameter = False\<rparr>"

definition after_default_exn :: pyexn where
  "after_default_exn = Exception ''after default parameter mast have default parameter:%s,%s in func:%s''"

definition wrong_default_exn :: pyexn where
  "wrong_default_exn = Exception ''wrong type default parameter:%s,%s,%s in func:%s''"

text \<open>
  What \<open>,\<close> and \<open>)\<close> do with the words of an argument.  Two words need that no default came
  before; three are checked, and the third is the default.  Other counts pass as they are.
\<close>

definition close_arg :: "(string \<Rightarrow> pyexn + int list) \<Rightarrow> bool \<Rightarrow> arg \<Rightarrow> pyexn + arg" where
  "close_arg ev isdefault pair =
     (if length pair = 2 then (if isdefault then Inl after_default_exn else Inr (pair @ [None]))
      else if length pair = 3 then
        (case pair of
           [Some key, v, Some p] \<Rightarrow> if \<not> parameter_check ev key p then Inl wrong_default_exn else Inr pair
         | _ \<Rightarrow> Inr pair)
      else Inr pair)"

text \<open>
  The message of either exception names the function by \<open>self.func[0]\<close>, which raises \<open>IndexError\<close>
  itself while no word of the function has been read.
\<close>

definition named_arg :: "func_item list \<Rightarrow> pyexn + arg \<Rightarrow> pyexn + arg" where
  "named_arg fu r = (case r of Inl e \<Rightarrow> Inl (if fu = [] then IndexError else e) | Inr a \<Rightarrow> Inr a)"

lemma named_arg_Inr [simp]: "named_arg fu (Inr a) = Inr a"
  by (simp add: named_arg_def)

text \<open>
  \<open>argvPair\<close> and \<open>argvtuple\<close> are \<open>None\<close> together.  Words outside an argument list that reach
  \<open>argvPair.append\<close> (a comma or a closing bracket before any opening one) raise
  \<open>AttributeError\<close>.
\<close>

definition func_push :: "(string \<Rightarrow> pyexn + int list) \<Rightarrow> char \<Rightarrow> func \<Rightarrow> pyexn + bool \<times> func" where
  "func_push ev ch m0 =
     (let m = (if ch = CHR ''['' \<and> fu_parameter m0 then m0\<lparr>fu_list_parameter := True\<rparr> else m0) in
      if fu_parameter m \<and> fu_list_parameter m then
        Inr (False, m\<lparr>fu_keyworld := strip (fu_keyworld m @ [ch]),
                      fu_list_parameter := (if ch = CHR '']'' then False else fu_list_parameter m)\<rparr>)
      else if is_white ch then
        (let w = strip (fu_keyworld m);
             m' = (if w = ''='' then m\<lparr>fu_parameter := True, fu_keyworld := []\<rparr> else m\<lparr>fu_keyworld := w\<rparr>)
         in if fu_keyworld m' \<noteq> [] then
              (case fu_argvtuple m' of
                 None \<Rightarrow> Inr (False, m'\<lparr>fu_func := fu_func m' @ [Word (strip (fu_keyworld m'))], fu_keyworld := []\<rparr>)
               | Some _ \<Rightarrow> Inr (False, m'\<lparr>fu_argvPair := fu_argvPair m' @ [Some (strip (fu_keyworld m'))],
                                          fu_keyworld := []\<rparr>))
            else Inr (False, m'))
      else if ch = CHR '','' then
        (if fu_keyworld m \<noteq> [] then
           (case fu_argvtuple m of
              None \<Rightarrow> Inl AttributeError
            | Some tuple \<Rightarrow>
                (let pair = fu_argvPair m @ [Some (strip (fu_keyworld m))] in
                 bindr (named_arg (fu_func m) (close_arg ev (fu_isdefaultparameter m) pair)) (\<lambda>pair'.
                   Inr (False, m\<lparr>fu_argvtuple := Some (tuple @ [pair']), fu_argvPair := [], fu_keyworld := [],
                     fu_isdefaultparameter := (if length pair = 3 then True else fu_isdefaultparameter m),
                     fu_list_parameter := False\<rparr>))))
         else Inr (False, m))
      else if ch = CHR ''('' then
        (let w = strip (fu_keyworld m)
         in Inr (False, m\<lparr>fu_func := (if w \<noteq> [] then fu_func m @ [Word (strip w)] else fu_func m),
                          fu_argvtuple := Some [], fu_argvPair := [], fu_keyworld := []\<rparr>))
      else if ch = CHR '')'' then
        bindr (if fu_keyworld m \<noteq> [] then
                 (case fu_argvtuple m of
                    None \<Rightarrow> Inl AttributeError
                  | Some tuple \<Rightarrow>
                      bindr (named_arg (fu_func m) (close_arg ev (fu_isdefaultparameter m)
                               (fu_argvPair m @ [Some (strip (fu_keyworld m))])))
                        (\<lambda>pair'. Inr (Some (tuple @ [pair']))))
               else Inr (fu_argvtuple m))
          (\<lambda>tuple. Inr (False, m\<lparr>fu_func := fu_func m @ [Args (case tuple of None \<Rightarrow> [] | Some t \<Rightarrow> t)],
             fu_argvtuple := None, fu_argvPair := [], fu_keyworld := []\<rparr>))
      else if ch = CHR '';'' then Inr (True, m)
      else Inr (False, m\<lparr>fu_keyworld := fu_keyworld m @ [ch]\<rparr>))"

subsection \<open>Services\<close>

record module =
  mo_keyworld :: string
  mo_type :: string
  mo_name :: string
  mo_module :: "func_item list list"
  mo_machine :: "func option"

definition new_module :: "string \<Rightarrow> module" where
  "new_module ty = \<lparr>mo_keyworld = [], mo_type = ty, mo_name = [], mo_module = [], mo_machine = None\<rparr>"

text \<open>The name of a function is its first item, which may be an argument list.\<close>

fun repeat_func :: "string \<Rightarrow> func_item list \<Rightarrow> func_item list list \<Rightarrow> pyexn + unit" where
  "repeat_func module_name seen [] = Inr ()"
| "repeat_func module_name seen ([] # rest) = Inl IndexError"
| "repeat_func module_name seen ((name # items) # rest) =
     (if name \<in> set seen
      then (case name of
          Word w \<Rightarrow> Inl (Exception (''repeat func:'' @ w @ '' in module:'' @ module_name))
        | Args _ \<Rightarrow> Inl TypeError)
      else repeat_func module_name (seen @ [name]) rest)"

definition check_repeat_func :: "module \<Rightarrow> pyexn + unit" where
  "check_repeat_func m = repeat_func (mo_name m) [] (mo_module m)"

definition module_push :: "(string \<Rightarrow> pyexn + int list) \<Rightarrow> char \<Rightarrow> module \<Rightarrow> pyexn + bool \<times> module" where
  "module_push ev ch m =
     (if ch = CHR ''}'' then
        bindr (check_repeat_func m) (\<lambda>_. Inr (True, m\<lparr>mo_machine := None\<rparr>))
      else case mo_machine m of
        Some fu \<Rightarrow>
          bindr (func_push ev ch fu) (\<lambda>(complete, fu').
            if complete then Inr (False, m\<lparr>mo_module := mo_module m @ [fu_func fu'], mo_machine := Some new_func\<rparr>)
            else Inr (False, m\<lparr>mo_machine := Some fu'\<rparr>))
      | None \<Rightarrow>
          if ch = CHR ''{'' then
            Inr (False, m\<lparr>mo_name := strip (mo_keyworld m), mo_keyworld := [], mo_machine := Some new_func\<rparr>)
          else Inr (False, m\<lparr>mo_keyworld := mo_keyworld m @ [ch]\<rparr>))"

subsection \<open>Imports\<close>

record import =
  im_keyworld :: string
  im_name :: string

definition new_import :: import where
  "new_import = \<lparr>im_keyworld = [], im_name = []\<rparr>"

definition import_push :: "char \<Rightarrow> import \<Rightarrow> bool \<times> import" where
  "import_push ch m =
     (if is_white ch then
        (let w = strip (im_keyworld m) in
         if w \<noteq> [] then (True, m\<lparr>im_keyworld := w, im_name := strip w\<rparr>)
         else (False, m\<lparr>im_keyworld := w @ [ch]\<rparr>))
      else (False, m\<lparr>im_keyworld := im_keyworld m @ [ch]\<rparr>))"

subsection \<open>The top level\<close>

datatype machine = M_module module | M_enum enum | M_struct struct | M_import import

record statemachine =
  sm_keyworld :: string
  sm_module :: "(string, string \<times> func_item list list) dict"
  sm_enum :: "(string, (string \<times> string) list) dict"
  sm_struct :: "(string, struct_elem list) dict"
  sm_import :: "string list"
  sm_machine :: "machine option"

definition new_statemachine :: statemachine where
  "new_statemachine = \<lparr>sm_keyworld = [], sm_module = [], sm_enum = [], sm_struct = [],
     sm_import = [], sm_machine = None\<rparr>"

fun machine_push :: "(string \<Rightarrow> pyexn + int list) \<Rightarrow> char \<Rightarrow> machine \<Rightarrow> pyexn + bool \<times> machine" where
  "machine_push ev ch (M_module m) = bindr (module_push ev ch m) (\<lambda>(b, m'). Inr (b, M_module m'))"
| "machine_push ev ch (M_enum m) = Inr (map_prod id M_enum (enum_push ch m))"
| "machine_push ev ch (M_struct m) = bindr (struct_push ev ch m) (\<lambda>(b, m'). Inr (b, M_struct m'))"
| "machine_push ev ch (M_import m) = Inr (map_prod id M_import (import_push ch m))"

fun take_machine :: "machine \<Rightarrow> statemachine \<Rightarrow> statemachine" where
  "take_machine (M_module m) s =
     s\<lparr>sm_module := dset (mo_name m) (mo_type m, mo_module m) (sm_module s), sm_machine := None\<rparr>"
| "take_machine (M_enum m) s = s\<lparr>sm_enum := dset (en_name m) (en_enum m) (sm_enum s), sm_machine := None\<rparr>"
| "take_machine (M_struct m) s = s\<lparr>sm_struct := dset (st_name m) (st_elem m) (sm_struct s), sm_machine := None\<rparr>"
| "take_machine (M_import m) s = s\<lparr>sm_import := sm_import s @ [im_name m], sm_machine := None\<rparr>"

definition state_push :: "(string \<Rightarrow> pyexn + int list) \<Rightarrow> char \<Rightarrow> statemachine \<Rightarrow> pyexn + statemachine" where
  "state_push ev ch s =
     (case sm_machine s of
        Some m \<Rightarrow>
          bindr (machine_push ev ch m) (\<lambda>(complete, m').
            if complete then Inr (take_machine m' s) else Inr (s\<lparr>sm_machine := Some m'\<rparr>))
      | None \<Rightarrow>
          if is_white ch then
            (let w = strip (sm_keyworld s) in
             if contains ''service'' w then Inr (s\<lparr>sm_machine := Some (M_module (new_module w)), sm_keyworld := []\<rparr>)
             else if w = ''enum'' then Inr (s\<lparr>sm_machine := Some (M_enum new_enum), sm_keyworld := []\<rparr>)
             else if w = ''struct'' then Inr (s\<lparr>sm_machine := Some (M_struct new_struct), sm_keyworld := []\<rparr>)
             else if w = ''import'' then Inr (s\<lparr>sm_machine := Some (M_import new_import), sm_keyworld := []\<rparr>)
             else Inr (s\<lparr>sm_keyworld := w\<rparr>))
          else Inr (s\<lparr>sm_keyworld := sm_keyworld s @ [ch]\<rparr>))"

fun push_all :: "(string \<Rightarrow> pyexn + int list) \<Rightarrow> string \<Rightarrow> statemachine \<Rightarrow> pyexn + statemachine" where
  "push_all ev [] s = Inr s"
| "push_all ev (ch # chs) s = bindr (state_push ev ch s) (push_all ev chs)"

definition syntaxanalysis :: "(string \<Rightarrow> pyexn + int list) \<Rightarrow> string list \<Rightarrow> statemachine \<Rightarrow> pyexn + statemachine" where
  "syntaxanalysis ev genfilestr s = push_all ev (concat genfilestr) s"

text \<open>\<open>jparser.parser\<close>.\<close>

definition parser :: "(string \<Rightarrow> pyexn + int list) \<Rightarrow> string list \<Rightarrow> pyexn + statemachine" where
  "parser ev lines = bindr (deletenote lines) (\<lambda>text. syntaxanalysis ev text new_statemachine)"

end
