(* ===== verification/Juggle_Roundtrip.thy ===== *)
theory Juggle_Roundtrip
  imports Juggle_Machines
begin

section \<open>Printing and parsing .juggle files\<close>

text \<open>
  The specification of the parser: an abstract syntax of a .juggle file, its printed form, and
  the proof that the machines read a printed file back as what was printed.  A word of the
  language is made of plain characters; a type is a word followed by pairs of brackets.
\<close>

subsection \<open>Runs of a machine\<close>

text \<open>All pushes of a text answer that the element is not complete.\<close>

fun quiet_run :: "(char \<Rightarrow> 'm \<Rightarrow> pyexn + bool \<times> 'm) \<Rightarrow> string \<Rightarrow> 'm \<Rightarrow> 'm option" where
  "quiet_run push [] m = Some m"
| "quiet_run push (c # s) m =
     (case push c m of Inr (False, m') \<Rightarrow> quiet_run push s m' | _ \<Rightarrow> None)"

lemma quiet_run_append:
  "quiet_run push s m = Some m' \<Longrightarrow> quiet_run push (s @ t) m = quiet_run push t m'"
  by (induction push s m rule: quiet_run.induct) (auto split: sum.splits prod.splits bool.splits)

subsection \<open>Words\<close>

definition plain :: "char \<Rightarrow> bool" where
  "plain c = (\<not> white c \<and> c \<notin> set ''{}(),;=[]/'')"

definition plain_word :: "string \<Rightarrow> bool" where
  "plain_word s = (s \<noteq> [] \<and> list_all plain s)"

fun type_text :: "string \<times> nat \<Rightarrow> string" where
  "type_text (base, n) = base @ concat (replicate n ''[]'')"

lemma plain_not_white: "list_all plain s \<Longrightarrow> word_chars s"
  by (auto simp: word_chars_def plain_def list_all_iff)

lemma word_brackets: "word_chars (concat (replicate n ''[]''))"
  by (induction n) (simp_all add: white_def)

lemma word_type: "plain_word base \<Longrightarrow> word_chars (type_text (base, n))"
  by (simp add: plain_word_def plain_not_white word_brackets)

lemma plain_word_word [simp]: "plain_word s \<Longrightarrow> word_chars s"
  by (simp add: plain_word_def plain_not_white)

lemma not_white_is_white [simp]: "\<not> white c \<Longrightarrow> \<not> is_white c" "is_white space" "is_white nl"
  by (simp_all add: is_white_white)

lemma plain_simps:
  assumes "plain c"
  shows "\<not> is_white c" "\<not> white c" "c \<noteq> CHR ''{''" "c \<noteq> CHR ''}''" "c \<noteq> CHR ''(''" "c \<noteq> CHR '')''"
    "c \<noteq> CHR '',''" "c \<noteq> CHR '';''" "c \<noteq> CHR ''=''" "c \<noteq> CHR ''[''" "c \<noteq> CHR '']''" "c \<noteq> CHR ''/''"
  using assms by (auto simp: plain_def)

lemma plain_eq [simp]: "\<not> plain CHR ''=''"
  by (simp add: plain_def)

lemma plain_word_ne: "plain_word w \<Longrightarrow> w \<noteq> []"
  by (simp add: plain_word_def)

subsection \<open>Functions\<close>

type_synonym jarg = "(string \<times> nat) \<times> string \<times> string option"

text \<open>A function: its name and its clauses, each a keyword with arguments.\<close>

type_synonym jfunc = "string \<times> (string \<times> jarg list) list"

fun print_arg :: "jarg \<Rightarrow> string" where
  "print_arg (t, n, None) = type_text t @ '' '' @ n"
| "print_arg (t, n, Some d) = type_text t @ '' '' @ n @ '' = '' @ d"

fun print_args :: "jarg list \<Rightarrow> string" where
  "print_args [] = ''''"
| "print_args [a] = print_arg a"
| "print_args (a # b # r) = print_arg a @ '','' @ print_args (b # r)"

fun print_clause :: "string \<times> jarg list \<Rightarrow> string" where
  "print_clause (kind, args) = kind @ ''('' @ print_args args @ '')''"

fun print_func :: "jfunc \<Rightarrow> string" where
  "print_func (name, clauses) = name @ concat (List.map (\<lambda>c. '' '' @ print_clause c) clauses) @ '';''"

fun arg_words :: "jarg \<Rightarrow> arg" where
  "arg_words (t, n, d) = [Some (type_text t), Some n, d]"

fun clause_items :: "string \<times> jarg list \<Rightarrow> func_item list" where
  "clause_items (kind, args) = [Word kind, Args (List.map arg_words args)]"

fun func_items :: "jfunc \<Rightarrow> func_item list" where
  "func_items (name, clauses) = Word name # concat (List.map clause_items clauses)"

text \<open>
  When an argument is accepted: \<open>d\<close> says whether an argument with a default came before, in
  this clause or in an earlier one of the same function.
\<close>

definition has_default :: "jarg \<Rightarrow> bool" where
  "has_default a = (snd (snd a) \<noteq> None)"

fun arg_ok :: "(string \<Rightarrow> pyexn + int list) \<Rightarrow> bool \<Rightarrow> jarg \<Rightarrow> bool" where
  "arg_ok ev d ((base, k), n, dv) =
     (plain_word base \<and> plain_word n \<and>
      (case dv of None \<Rightarrow> \<not> d | Some v \<Rightarrow> plain_word v \<and> parameter_check ev (type_text (base, k)) v))"

fun args_ok :: "(string \<Rightarrow> pyexn + int list) \<Rightarrow> bool \<Rightarrow> jarg list \<Rightarrow> bool" where
  "args_ok ev d [] = True"
| "args_ok ev d [a] = arg_ok ev d a"
| "args_ok ev d (a # b # r) = (arg_ok ev d a \<and> args_ok ev (d \<or> has_default a) (b # r))"

fun default_after :: "bool \<Rightarrow> jarg list \<Rightarrow> bool" where
  "default_after d [] = d"
| "default_after d [a] = d"
| "default_after d (a # b # r) = default_after (d \<or> has_default a) (b # r)"

fun clauses_ok :: "(string \<Rightarrow> pyexn + int list) \<Rightarrow> bool \<Rightarrow> (string \<times> jarg list) list \<Rightarrow> bool" where
  "clauses_ok ev d [] = True"
| "clauses_ok ev d ((kind, args) # r) =
     (plain_word kind \<and> args_ok ev d args \<and> clauses_ok ev (default_after d args) r)"

fun func_ok :: "(string \<Rightarrow> pyexn + int list) \<Rightarrow> jfunc \<Rightarrow> bool" where
  "func_ok ev (name, clauses) = (plain_word name \<and> clauses \<noteq> [] \<and> clauses_ok ev False clauses)"

lemma run_word:
  assumes "list_all plain w" and "\<not> fu_list_parameter m"
  shows "quiet_run (func_push ev) w m = Some (m\<lparr>fu_keyworld := fu_keyworld m @ w\<rparr>)"
  using assms
proof (induction w arbitrary: m)
  case Nil
  then show ?case by simp
next
  case (Cons c w)
  then have "func_push ev c m = Inr (False, m\<lparr>fu_keyworld := fu_keyworld m @ [c]\<rparr>)"
    by (simp add: func_push_def plain_simps)
  with Cons show ?case by simp
qed

lemma run_brackets:
  assumes "word_chars (fu_keyworld m)" and "\<not> fu_list_parameter m"
  shows "quiet_run (func_push ev) (concat (replicate n ''[]'')) m =
    Some (m\<lparr>fu_keyworld := fu_keyworld m @ concat (replicate n ''[]'')\<rparr>)"
  using assms
proof (induction n arbitrary: m)
  case 0
  then show ?case by simp
next
  case (Suc n)
  have nw: "\<not> white CHR ''[''" "\<not> white CHR '']''" by (simp_all add: white_def)
  have "quiet_run (func_push ev) ''[]'' m = Some (m\<lparr>fu_keyworld := fu_keyworld m @ ''[]''\<rparr>)"
    using Suc.prems by (cases "fu_parameter m") (simp_all add: func_push_def nw)
  from quiet_run_append [OF this, of "concat (replicate n ''[]'')"]
  show ?case using Suc.IH [of "m\<lparr>fu_keyworld := fu_keyworld m @ ''[]''\<rparr>"] Suc.prems nw by simp
qed

text \<open>The state inside an argument list, and between the clauses.\<close>

definition inside :: "func_item list \<Rightarrow> arg list \<Rightarrow> bool \<Rightarrow> bool \<Rightarrow> func" where
  "inside items tuple p d = \<lparr>fu_keyworld = [], fu_func = items, fu_argvtuple = Some tuple, fu_argvPair = [],
     fu_parameter = p, fu_list_parameter = False, fu_isdefaultparameter = d\<rparr>"

definition outside :: "string \<Rightarrow> func_item list \<Rightarrow> bool \<Rightarrow> bool \<Rightarrow> func" where
  "outside w items p d = \<lparr>fu_keyworld = w, fu_func = items, fu_argvtuple = None, fu_argvPair = [],
     fu_parameter = p, fu_list_parameter = False, fu_isdefaultparameter = d\<rparr>"

text \<open>The words of an argument are read; the last is still in \<open>keyworld\<close>.\<close>

lemma run_arg:
  assumes "arg_ok ev d a"
  shows "\<exists>ws w. quiet_run (func_push ev) (print_arg a) (inside items tuple p d) =
      Some ((inside items tuple (p \<or> has_default a) d)\<lparr>fu_argvPair := ws, fu_keyworld := w\<rparr>) \<and>
    plain_word w \<and> close_arg ev d (ws @ [Some w]) = Inr (arg_words a) \<and>
    (length (ws @ [Some w]) = 3 \<longleftrightarrow> has_default a)"
proof -
  obtain base k n dv where a: "a = ((base, k), n, dv)" by (metis prod.exhaust)
  have base: "list_all plain base" "base \<noteq> []" and n: "list_all plain n" "n \<noteq> []"
    using assms by (simp_all add: a plain_word_def)
  let ?t = "type_text (base, k)"
  let ?m = "inside items tuple p d"
  have "quiet_run (func_push ev) base ?m = Some (?m\<lparr>fu_keyworld := base\<rparr>)"
    using run_word [OF base(1), of ?m] by (simp add: inside_def)
  moreover have "quiet_run (func_push ev) (concat (replicate k ''[]'')) (?m\<lparr>fu_keyworld := base\<rparr>) =
      Some (?m\<lparr>fu_keyworld := ?t\<rparr>)"
    using run_brackets [of "?m\<lparr>fu_keyworld := base\<rparr>"] plain_not_white [OF base(1)] by (simp add: inside_def)
  ultimately have t: "quiet_run (func_push ev) ?t ?m = Some (?m\<lparr>fu_keyworld := ?t\<rparr>)"
    by (simp add: quiet_run_append)
  have tw: "word_chars ?t" using assms by (simp only: a arg_ok.simps word_type)
  have tn0: "?t \<noteq> []" "?t \<noteq> ''=''" using base by (cases base; auto simp: plain_simps)+
  note tw = tw tn0
  let ?m1 = "?m\<lparr>fu_argvPair := [Some ?t]\<rparr>"
  have "func_push ev space (?m\<lparr>fu_keyworld := ?t\<rparr>) = Inr (False, ?m1)"
    using tw by (simp add: func_push_def inside_def del: type_text.simps)
  with t have t1: "quiet_run (func_push ev) (?t @ '' '') ?m = Some ?m1"
    by (simp add: quiet_run_append del: type_text.simps)
  have n1: "quiet_run (func_push ev) n ?m1 = Some (?m1\<lparr>fu_keyworld := n\<rparr>)"
    using run_word [OF n(1), of ?m1] by (simp add: inside_def)
  have tn: "quiet_run (func_push ev) ((?t @ '' '') @ n) ?m = Some (?m1\<lparr>fu_keyworld := n\<rparr>)"
    unfolding quiet_run_append [OF t1] by (rule n1)
  show ?thesis
  proof (cases dv)
    case None
    then show ?thesis
      using tn assms by (intro exI [of _ "[Some ?t]"] exI [of _ n])
        (simp add: a close_arg_def inside_def has_default_def del: type_text.simps)
  next
    case (Some v)
    have v: "list_all plain v" "v \<noteq> []" "parameter_check ev ?t v"
      using assms Some by (simp_all add: a plain_word_def)
    have nne: "n \<noteq> ''=''" using n by auto
    let ?m2 = "?m1\<lparr>fu_argvPair := [Some ?t, Some n], fu_parameter := True\<rparr>"
    have "func_push ev space (?m1\<lparr>fu_keyworld := n\<rparr>) = Inr (False, ?m1\<lparr>fu_argvPair := [Some ?t, Some n]\<rparr>)"
      using n nne plain_not_white by (simp add: func_push_def inside_def del: type_text.simps)
    moreover have "func_push ev CHR ''='' (?m1\<lparr>fu_argvPair := [Some ?t, Some n]\<rparr>) =
        Inr (False, ?m1\<lparr>fu_argvPair := [Some ?t, Some n], fu_keyworld := ''=''\<rparr>)"
      by (simp add: func_push_def inside_def is_white_def del: type_text.simps)
    moreover have "func_push ev space (?m1\<lparr>fu_argvPair := [Some ?t, Some n], fu_keyworld := ''=''\<rparr>) = Inr (False, ?m2)"
      by (simp add: func_push_def inside_def white_def del: type_text.simps)
    ultimately have eq: "quiet_run (func_push ev) '' = '' (?m1\<lparr>fu_keyworld := n\<rparr>) = Some ?m2"
      by (simp del: type_text.simps)
    have "quiet_run (func_push ev) v ?m2 = Some (?m2\<lparr>fu_keyworld := v\<rparr>)"
      using run_word [OF v(1), of ?m2] by (simp add: inside_def del: type_text.simps)
    with eq have "quiet_run (func_push ev) ('' = '' @ v) (?m1\<lparr>fu_keyworld := n\<rparr>) = Some (?m2\<lparr>fu_keyworld := v\<rparr>)"
      by (simp only: quiet_run_append)
    then have "quiet_run (func_push ev) (((?t @ '' '') @ n) @ ('' = '' @ v)) ?m = Some (?m2\<lparr>fu_keyworld := v\<rparr>)"
      unfolding quiet_run_append [OF tn] .
    then show ?thesis
      using v assms Some by (intro exI [of _ "[Some ?t, Some n]"] exI [of _ v])
        (simp add: a close_arg_def inside_def has_default_def plain_word_def del: type_text.simps)
  qed
qed

lemma run_args:
  assumes "args_ok ev d args"
  shows "\<exists>p'. quiet_run (func_push ev) (print_args args @ '')'') (inside items tuple p d) =
    Some (outside [] (items @ [Args (tuple @ List.map arg_words args)]) p' (default_after d args))"
  using assms
proof (induction args arbitrary: tuple p d rule: print_args.induct)
  case 1
  then show ?case by (simp add: func_push_def inside_def outside_def is_white_def)
next
  case (2 a)
  from run_arg [of ev d a items tuple p] 2 obtain ws w where a:
    "quiet_run (func_push ev) (print_arg a) (inside items tuple p d) =
      Some ((inside items tuple (p \<or> has_default a) d)\<lparr>fu_argvPair := ws, fu_keyworld := w\<rparr>)"
    "plain_word w" "close_arg ev d (ws @ [Some w]) = Inr (arg_words a)" by auto
  have "func_push ev CHR '')'' ((inside items tuple (p \<or> has_default a) d)\<lparr>fu_argvPair := ws, fu_keyworld := w\<rparr>) =
      Inr (False, outside [] (items @ [Args (tuple @ [arg_words a])]) (p \<or> has_default a) d)"
    using a(2,3) plain_word_ne [OF a(2)] by (auto simp: func_push_def inside_def outside_def is_white_def Let_def)
  then show ?case by (simp add: quiet_run_append [OF a(1)]) blast
next
  case (3 a b r)
  from run_arg [of ev d a items tuple p] 3(2) obtain ws w where a:
    "quiet_run (func_push ev) (print_arg a) (inside items tuple p d) =
      Some ((inside items tuple (p \<or> has_default a) d)\<lparr>fu_argvPair := ws, fu_keyworld := w\<rparr>)"
    "plain_word w" "close_arg ev d (ws @ [Some w]) = Inr (arg_words a)"
    "length (ws @ [Some w]) = 3 \<longleftrightarrow> has_default a" by auto
  have "w \<noteq> []" using a(2) by (simp add: plain_word_def)
  then have step: "func_push ev CHR '','' ((inside items tuple (p \<or> has_default a) d)\<lparr>fu_argvPair := ws, fu_keyworld := w\<rparr>) =
      Inr (False, inside items (tuple @ [arg_words a]) (p \<or> has_default a) (d \<or> has_default a))"
    using a(2,3,4) by (auto simp: func_push_def inside_def is_white_def Let_def)
  have "args_ok ev (d \<or> has_default a) (b # r)" using 3(2) by simp
  from 3(1) [OF this, of "tuple @ [arg_words a]" "p \<or> has_default a"] step
  show ?case by (simp add: quiet_run_append [OF a(1)])
qed

lemma run_clause:
  assumes "clauses_ok ev d [(kind, args)]" and "w = [] \<or> plain_word w"
  shows "\<exists>p'. quiet_run (func_push ev) ('' '' @ print_clause (kind, args)) (outside w items p d) =
    Some (outside [] (items @ (if w = [] then [] else [Word w]) @ clause_items (kind, args)) p' (default_after d args))"
proof -
  let ?items = "items @ (if w = [] then [] else [Word w])"
  have kind: "plain_word kind" "list_all plain kind" "kind \<noteq> []" and args: "args_ok ev d args"
    using assms(1) by (simp_all add: plain_word_def)
  have ne: "w \<noteq> ''=''" using assms(2) by (auto simp: plain_word_def)
  have sp: "func_push ev space (outside w items p d) = Inr (False, outside [] ?items p d)"
    using assms(2) ne by (auto simp: func_push_def outside_def)
  have k: "quiet_run (func_push ev) kind (outside [] ?items p d) = Some (outside kind ?items p d)"
    using run_word [OF kind(2), of "outside [] ?items p d"] by (simp add: outside_def)
  have op: "func_push ev CHR ''('' (outside kind ?items p d) = Inr (False, inside (?items @ [Word kind]) [] p d)"
    using kind by (simp add: func_push_def outside_def inside_def is_white_def)
  obtain p' where "quiet_run (func_push ev) (print_args args @ '')'') (inside (?items @ [Word kind]) [] p d) =
      Some (outside [] ((?items @ [Word kind]) @ [Args ([] @ List.map arg_words args)]) p' (default_after d args))"
    using run_args [OF args] by blast
  then have "quiet_run (func_push ev) (''('' @ print_args args @ '')'') (outside kind ?items p d) =
      Some (outside [] (?items @ clause_items (kind, args)) p' (default_after d args))"
    by (simp add: op)
  then have "quiet_run (func_push ev) (kind @ ''('' @ print_args args @ '')'') (outside [] ?items p d) =
      Some (outside [] (?items @ clause_items (kind, args)) p' (default_after d args))"
    unfolding quiet_run_append [OF k] .
  with sp show ?thesis by auto
qed

lemma run_clauses:
  assumes "clauses_ok ev d clauses" and "clauses \<noteq> []" and "w = [] \<or> plain_word w"
  shows "\<exists>p' d'. quiet_run (func_push ev) (concat (List.map (\<lambda>c. '' '' @ print_clause c) clauses)) (outside w items p d) =
    Some (outside [] (items @ (if w = [] then [] else [Word w]) @ concat (List.map clause_items clauses)) p' d')"
  using assms
proof (induction clauses arbitrary: w items p d)
  case Nil
  then show ?case by simp
next
  case (Cons c r)
  obtain kind args where c: "c = (kind, args)" by (cases c)
  have "clauses_ok ev d [(kind, args)]" and r: "clauses_ok ev (default_after d args) r"
    using Cons.prems(1) by (simp_all add: c)
  from run_clause [OF this(1) Cons.prems(3), of items p] obtain p' where one:
    "quiet_run (func_push ev) ('' '' @ print_clause c) (outside w items p d) =
      Some (outside [] (items @ (if w = [] then [] else [Word w]) @ clause_items c) p' (default_after d args))"
    unfolding c by blast
  show ?case
  proof (cases "r = []")
    case True
    with one show ?thesis by (simp del: print_clause.simps clause_items.simps) blast
  next
    case False
    from Cons.IH [OF r this, of "[]" "items @ (if w = [] then [] else [Word w]) @ clause_items c" p'] obtain p2 d2 where
      "quiet_run (func_push ev) (concat (List.map (\<lambda>c. '' '' @ print_clause c) r))
        (outside [] (items @ (if w = [] then [] else [Word w]) @ clause_items c) p' (default_after d args)) =
       Some (outside [] (items @ (if w = [] then [] else [Word w]) @ clause_items c @ concat (List.map clause_items r)) p2 d2)"
      by (auto simp del: print_clause.simps clause_items.simps)
    then have "quiet_run (func_push ev) (('' '' @ print_clause c) @ concat (List.map (\<lambda>c. '' '' @ print_clause c) r))
        (outside w items p d) =
       Some (outside [] (items @ (if w = [] then [] else [Word w]) @ clause_items c @ concat (List.map clause_items r)) p2 d2)"
      unfolding quiet_run_append [OF one] .
    then show ?thesis by (simp del: print_clause.simps clause_items.simps) blast
  qed
qed

text \<open>A printed function: everything up to the semicolon is quiet, and the semicolon completes it.\<close>

lemma run_func:
  assumes "func_ok ev f"
  shows "\<exists>s m. print_func f = s @ '';'' \<and> quiet_run (func_push ev) s new_func = Some m \<and>
    func_push ev CHR '';'' m = Inr (True, m) \<and> fu_func m = func_items f"
proof -
  obtain name clauses where f: "f = (name, clauses)" by (cases f)
  have name: "plain_word name" "list_all plain name" and c: "clauses \<noteq> []" "clauses_ok ev False clauses"
    using assms by (simp_all add: f plain_word_def)
  have start: "quiet_run (func_push ev) name new_func = Some (outside name [] False False)"
    using run_word [OF name(2), of new_func] by (simp add: new_func_def outside_def)
  obtain p' d' where "quiet_run (func_push ev) (concat (List.map (\<lambda>c. '' '' @ print_clause c) clauses))
      (outside name [] False False) =
      Some (outside [] ([] @ (if name = [] then [] else [Word name]) @ concat (List.map clause_items clauses)) p' d')"
    using run_clauses [OF c(2,1)] name(1) by blast
  then have "quiet_run (func_push ev) (name @ concat (List.map (\<lambda>c. '' '' @ print_clause c) clauses)) new_func =
      Some (outside [] (func_items f) p' d')"
    using name(1) unfolding quiet_run_append [OF start] by (simp add: f plain_word_def)
  moreover have "func_push ev CHR '';'' (outside [] (func_items f) p' d') = Inr (True, outside [] (func_items f) p' d')"
    by (simp add: func_push_def outside_def is_white_def)
  ultimately show ?thesis
    by (intro exI [of _ "name @ concat (List.map (\<lambda>c. '' '' @ print_clause c) clauses)"]
        exI [of _ "outside [] (func_items f) p' d'"]) (simp add: f outside_def)
qed

subsection \<open>Declarations\<close>

type_synonym jelem = "(string \<times> nat) \<times> string \<times> string option"

datatype jdecl =
    J_import string
  | J_enum string "(string \<times> string) list"
  | J_struct string "jelem list"
  | J_service string string "jfunc list"

fun print_kv :: "string \<times> string \<Rightarrow> string" where
  "print_kv (k, v) = k @ ''='' @ v @ '';''"

fun print_elem :: "jelem \<Rightarrow> string" where
  "print_elem (t, n, None) = type_text t @ '' '' @ n @ '';''"
| "print_elem (t, n, Some d) = type_text t @ '' '' @ n @ '' = '' @ d @ '';''"

fun print_decl :: "jdecl \<Rightarrow> string" where
  "print_decl (J_import n) = ''import '' @ n @ [nl]"
| "print_decl (J_enum n kvs) = ''enum '' @ n @ ''{'' @ concat (List.map print_kv kvs) @ ''}'' @ [nl]"
| "print_decl (J_struct n es) = ''struct '' @ n @ ''{'' @ concat (List.map print_elem es) @ ''}'' @ [nl]"
| "print_decl (J_service ty n fs) = ty @ '' '' @ n @ ''{'' @ concat (List.map print_func fs) @ ''}'' @ [nl]"

fun elem_entry :: "jelem \<Rightarrow> struct_elem" where
  "elem_entry (t, n, d) = (type_text t, Some n, d)"

fun add_decl :: "jdecl \<Rightarrow> statemachine \<Rightarrow> statemachine" where
  "add_decl (J_import n) s = s\<lparr>sm_import := sm_import s @ [n]\<rparr>"
| "add_decl (J_enum n kvs) s = s\<lparr>sm_enum := dset n kvs (sm_enum s)\<rparr>"
| "add_decl (J_struct n es) s = s\<lparr>sm_struct := dset n (List.map elem_entry es) (sm_struct s)\<rparr>"
| "add_decl (J_service ty n fs) s = s\<lparr>sm_module := dset n (ty, List.map func_items fs) (sm_module s)\<rparr>"

fun elem_ok :: "(string \<Rightarrow> pyexn + int list) \<Rightarrow> jelem \<Rightarrow> bool" where
  "elem_ok ev ((base, k), n, d) = (plain_word base \<and> plain_word n \<and>
     (case d of None \<Rightarrow> True | Some v \<Rightarrow> plain_word v \<and> parameter_check ev (type_text (base, k)) v))"

fun decl_ok :: "(string \<Rightarrow> pyexn + int list) \<Rightarrow> jdecl \<Rightarrow> bool" where
  "decl_ok ev (J_import n) = plain_word n"
| "decl_ok ev (J_enum n kvs) = (plain_word n \<and> (\<forall>(k, v) \<in> set kvs. plain_word k \<and> plain_word v))"
| "decl_ok ev (J_struct n es) = (plain_word n \<and> (\<forall>e \<in> set es. elem_ok ev e))"
| "decl_ok ev (J_service ty n fs) = (plain_word ty \<and> contains ''service'' ty \<and> plain_word n \<and>
     (\<forall>f \<in> set fs. func_ok ev f) \<and> distinct (List.map fst fs))"

subsection \<open>Services\<close>

lemma no_brace_plain: "list_all plain s \<Longrightarrow> CHR ''}'' \<notin> set s \<and> CHR ''/'' \<notin> set s"
  by (auto simp: list_all_iff plain_def)

lemma no_brace_type: "plain_word base \<Longrightarrow> CHR ''}'' \<notin> set (type_text (base, k)) \<and> CHR ''/'' \<notin> set (type_text (base, k))"
  using no_brace_plain [of base] by (auto simp: plain_word_def)

lemma no_brace_arg: "arg_ok ev d a \<Longrightarrow> CHR ''}'' \<notin> set (print_arg a) \<and> CHR ''/'' \<notin> set (print_arg a)"
proof -
  assume ok: "arg_ok ev d a"
  obtain base k n dv where a: "a = ((base, k), n, dv)" by (metis prod.exhaust)
  have "plain_word base" "list_all plain n" "dv = Some v \<Longrightarrow> list_all plain v" for v
    using ok by (auto simp: a plain_word_def)
  with no_brace_type [OF this(1), of k] no_brace_plain [OF this(2)] no_brace_plain [OF this(3)]
  show ?thesis by (cases dv) (simp_all add: a del: type_text.simps)
qed

lemma no_brace_args: "args_ok ev d args \<Longrightarrow> CHR ''}'' \<notin> set (print_args args) \<and> CHR ''/'' \<notin> set (print_args args)"
  by (induction args arbitrary: d rule: print_args.induct) (auto dest: no_brace_arg)

lemma no_brace_clauses:
  "clauses_ok ev d cs \<Longrightarrow> CHR ''}'' \<notin> set (concat (List.map (\<lambda>c. '' '' @ print_clause c) cs)) \<and>
     CHR ''/'' \<notin> set (concat (List.map (\<lambda>c. '' '' @ print_clause c) cs))"
proof (induction cs arbitrary: d)
  case Nil
  then show ?case by simp
next
  case (Cons c cs)
  obtain kind args where c: "c = (kind, args)" by (cases c)
  from Cons.prems have "plain_word kind" "args_ok ev d args" "clauses_ok ev (default_after d args) cs"
    by (simp_all add: c)
  with Cons.IH [OF this(3)] no_brace_args [OF this(2)] no_brace_plain [of kind]
  show ?case by (simp add: c plain_word_def)
qed

lemma no_brace_func: "func_ok ev f \<Longrightarrow> CHR ''}'' \<notin> set (print_func f) \<and> CHR ''/'' \<notin> set (print_func f)"
proof -
  assume ok: "func_ok ev f"
  obtain name cs where f: "f = (name, cs)" by (cases f)
  have "list_all plain name" "clauses_ok ev False cs" using ok by (simp_all add: f plain_word_def)
  with no_brace_clauses [OF this(2)] no_brace_plain [OF this(1)] show ?thesis by (simp add: f)
qed

lemma module_lift:
  assumes "quiet_run (func_push ev) s fu = Some fu'" and "CHR ''}'' \<notin> set s"
  shows "quiet_run (module_push ev) s (m\<lparr>mo_machine := Some fu\<rparr>) = Some (m\<lparr>mo_machine := Some fu'\<rparr>)"
  using assms
proof (induction s arbitrary: fu)
  case Nil
  then show ?case by simp
next
  case (Cons c s)
  then obtain fu1 where f: "func_push ev c fu = Inr (False, fu1)" "quiet_run (func_push ev) s fu1 = Some fu'"
    by (auto split: sum.splits prod.splits bool.splits)
  then have "module_push ev c (m\<lparr>mo_machine := Some fu\<rparr>) = Inr (False, m\<lparr>mo_machine := Some fu1\<rparr>)"
    using Cons.prems(2) by (auto simp: module_push_def)
  with Cons f show ?case by simp
qed

lemma module_funcs:
  assumes "\<forall>f \<in> set fs. func_ok ev f"
  shows "quiet_run (module_push ev) (concat (List.map print_func fs)) (m\<lparr>mo_machine := Some new_func\<rparr>) =
    Some (m\<lparr>mo_module := mo_module m @ List.map func_items fs, mo_machine := Some new_func\<rparr>)"
  using assms
proof (induction fs arbitrary: m)
  case Nil
  then show ?case by simp
next
  case (Cons f fs)
  from Cons.prems have ok: "func_ok ev f" by simp
  from run_func [OF ok] obtain s fu where f: "print_func f = s @ '';''"
    "quiet_run (func_push ev) s new_func = Some fu"
    "func_push ev CHR '';'' fu = Inr (True, fu)" "fu_func fu = func_items f" by blast
  have "CHR ''}'' \<notin> set s" using no_brace_func [OF ok] f(1) by simp
  from module_lift [OF f(2) this] have s: "quiet_run (module_push ev) s (m\<lparr>mo_machine := Some new_func\<rparr>) =
      Some (m\<lparr>mo_machine := Some fu\<rparr>)" .
  have "module_push ev CHR '';'' (m\<lparr>mo_machine := Some fu\<rparr>) =
      Inr (False, m\<lparr>mo_module := mo_module m @ [func_items f], mo_machine := Some new_func\<rparr>)"
    using f(3,4) by (simp add: module_push_def)
  then show ?case
    using Cons.IH [of "m\<lparr>mo_module := mo_module m @ [func_items f]\<rparr>"] Cons.prems f(1)
    by (simp add: quiet_run_append [OF s])
qed

lemma module_word:
  assumes "list_all plain w" and "mo_machine m = None"
  shows "quiet_run (module_push ev) w m = Some (m\<lparr>mo_keyworld := mo_keyworld m @ w\<rparr>)"
  using assms
proof (induction w arbitrary: m)
  case Nil
  then show ?case by simp
next
  case (Cons c w)
  then have "module_push ev c m = Inr (False, m\<lparr>mo_keyworld := mo_keyworld m @ [c]\<rparr>)"
    by (simp add: module_push_def plain_simps)
  with Cons show ?case by simp
qed

lemma names_distinct:
  assumes "distinct (List.map fst fs)"
  shows "repeat_func n [] (List.map func_items fs) = Inr ()"
proof -
  have "repeat_func n seen (List.map func_items fs) = Inr ()"
    if "distinct (List.map fst fs)" "\<forall>f \<in> set fs. Word (fst f) \<notin> set seen" for seen
    using that
  proof (induction fs arbitrary: seen)
    case Nil
    then show ?case by simp
  next
    case (Cons f fs)
    obtain name cs where f: "f = (name, cs)" by (cases f)
    have "\<forall>g \<in> set fs. Word (fst g) \<notin> set (seen @ [Word name])"
      using Cons.prems by (force simp: f)
    with Cons show ?case by (simp add: f)
  qed
  then show ?thesis using assms by simp
qed

text \<open>A service body: what follows the keyword, up to the closing brace.\<close>

lemma module_body:
  assumes "plain_word n" and "\<forall>f \<in> set fs. func_ok ev f" and "distinct (List.map fst fs)"
  shows "\<exists>m. quiet_run (module_push ev) (n @ ''{'' @ concat (List.map print_func fs)) (new_module ty) = Some m \<and>
    module_push ev CHR ''}'' m = Inr (True, m\<lparr>mo_machine := None\<rparr>) \<and> mo_name m = n \<and> mo_type m = ty \<and>
    mo_module m = List.map func_items fs"
proof -
  have n: "list_all plain n" "word_chars n" using assms(1) by (simp_all add: plain_word_def plain_not_white)
  have name: "quiet_run (module_push ev) n (new_module ty) = Some ((new_module ty)\<lparr>mo_keyworld := n\<rparr>)"
    using module_word [OF n(1), of "new_module ty"] by (simp add: new_module_def)
  let ?m = "(new_module ty)\<lparr>mo_name := n\<rparr>"
  have brace: "module_push ev CHR ''{'' ((new_module ty)\<lparr>mo_keyworld := n\<rparr>) = Inr (False, ?m\<lparr>mo_machine := Some new_func\<rparr>)"
    using n(2) by (simp add: module_push_def new_module_def)
  let ?closed = "?m\<lparr>mo_module := List.map func_items fs, mo_machine := Some new_func\<rparr>"
  have "quiet_run (module_push ev) (n @ ''{'' @ concat (List.map print_func fs)) (new_module ty) = Some ?closed"
    using module_funcs [OF assms(2), of ?m]
    by (simp add: quiet_run_append [OF name] brace) (simp add: new_module_def)
  moreover have "module_push ev CHR ''}'' ?closed = Inr (True, ?closed\<lparr>mo_machine := None\<rparr>)"
    using names_distinct [OF assms(3)] by (simp add: module_push_def check_repeat_func_def)
  ultimately show ?thesis by (intro exI [of _ ?closed]) (simp add: new_module_def)
qed

subsection \<open>Enumerations\<close>

abbreviation enum_run :: "string \<Rightarrow> enum \<Rightarrow> enum option" where
  "enum_run \<equiv> quiet_run (\<lambda>c m. Inr (enum_push c m))"

lemma enum_word:
  assumes "list_all plain w"
  shows "en_machine m = None \<Longrightarrow> enum_run w m = Some (m\<lparr>en_keyworld := en_keyworld m @ w\<rparr>)"
    and "en_machine m = Some kv \<Longrightarrow>
      enum_run w m = Some (m\<lparr>en_machine := Some (kv\<lparr>kv_keyworld := kv_keyworld kv @ w\<rparr>)\<rparr>)"
  using assms
proof (induction w arbitrary: m kv)
  case Nil
  case 1
  then show ?case by simp
next
  case Nil
  case 2
  then show ?case by simp
next
  case (Cons c w)
  case 1
  have "enum_push c m = (False, m\<lparr>en_keyworld := en_keyworld m @ [c]\<rparr>)"
    using 1 by (simp add: enum_push_def plain_simps)
  with 1 Cons.IH(1) show ?case by simp
next
  case (Cons c w)
  case 2
  let ?kv = "kv\<lparr>kv_keyworld := kv_keyworld kv @ [c]\<rparr>"
  have "enum_push c m = (False, m\<lparr>en_machine := Some ?kv\<rparr>)"
    using 2 by (simp add: enum_push_def keyvalue_push_def plain_simps)
  with 2 Cons.IH(2) [of "m\<lparr>en_machine := Some ?kv\<rparr>" ?kv] show ?case by simp
qed

lemma enum_kv:
  assumes "plain_word k" and "plain_word v" and "en_machine m = Some new_keyvalue"
  shows "enum_run (print_kv (k, v)) m = Some (m\<lparr>en_enum := en_enum m @ [(k, v)]\<rparr>)"
proof -
  have plain: "list_all plain k" "list_all plain v" and ne: "k \<noteq> []" "v \<noteq> []"
    using assms by (simp_all add: plain_word_def)
  let ?m1 = "m\<lparr>en_machine := Some (new_keyvalue\<lparr>kv_keyworld := k\<rparr>)\<rparr>"
  let ?m2 = "m\<lparr>en_machine := Some (new_keyvalue\<lparr>kv_key := k\<rparr>)\<rparr>"
  let ?m3 = "m\<lparr>en_machine := Some (new_keyvalue\<lparr>kv_key := k, kv_keyworld := v\<rparr>)\<rparr>"
  have 1: "enum_run k m = Some ?m1"
    using enum_word(2) [OF plain(1) assms(3)] by (simp add: new_keyvalue_def)
  have 2: "enum_push CHR ''='' ?m1 = (False, ?m2)"
    using ne assms(1) by (simp add: enum_push_def keyvalue_push_def new_keyvalue_def)
  have 3: "enum_run v ?m2 = Some ?m3"
    using enum_word(2) [OF plain(2), of ?m2 "new_keyvalue\<lparr>kv_key := k\<rparr>"] by (simp add: new_keyvalue_def)
  have 4: "enum_push CHR '';'' ?m3 = (False, m\<lparr>en_enum := en_enum m @ [(k, v)]\<rparr>)"
    using ne assms(2,3) by (simp add: enum_push_def keyvalue_push_def new_keyvalue_def)
  show ?thesis
    by (simp add: quiet_run_append [OF 1] 2 quiet_run_append [OF 3] 4)
qed

lemma enum_kvs:
  assumes "\<forall>(k, v) \<in> set kvs. plain_word k \<and> plain_word v" and "en_machine m = Some new_keyvalue"
  shows "enum_run (concat (List.map print_kv kvs)) m = Some (m\<lparr>en_enum := en_enum m @ kvs\<rparr>)"
  using assms
proof (induction kvs arbitrary: m)
  case Nil
  then show ?case by simp
next
  case (Cons kv kvs)
  obtain k v where kv: "kv = (k, v)" by (cases kv)
  from Cons.prems have "plain_word k" "plain_word v" by (simp_all add: kv)
  from enum_kv [OF this Cons.prems(2)] Cons show ?case
    by (simp add: kv quiet_run_append del: print_kv.simps)
qed

lemma enum_body:
  assumes "plain_word n" and "\<forall>(k, v) \<in> set kvs. plain_word k \<and> plain_word v"
  shows "\<exists>m. enum_run (n @ ''{'' @ concat (List.map print_kv kvs)) new_enum = Some m \<and>
    enum_push CHR ''}'' m = (True, m) \<and> en_name m = n \<and> en_enum m = kvs"
proof -
  have plain: "list_all plain n" "n \<noteq> []" using assms(1) by (simp_all add: plain_word_def)
  have 1: "enum_run n new_enum = Some (new_enum\<lparr>en_keyworld := n\<rparr>)"
    using enum_word(1) [OF plain(1), of new_enum] by (simp add: new_enum_def)
  let ?m = "new_enum\<lparr>en_name := n, en_machine := Some new_keyvalue\<rparr>"
  have 2: "enum_push CHR ''{'' (new_enum\<lparr>en_keyworld := n\<rparr>) = (False, ?m)"
    using plain assms(1) by (simp add: enum_push_def new_enum_def)
  have 3: "enum_run (concat (List.map print_kv kvs)) ?m = Some (?m\<lparr>en_enum := kvs\<rparr>)"
    using enum_kvs [OF assms(2), of ?m] by (simp add: new_enum_def)
  have "enum_run (n @ ''{'' @ concat (List.map print_kv kvs)) new_enum = Some (?m\<lparr>en_enum := kvs\<rparr>)"
    by (simp add: quiet_run_append [OF 1] 2 3)
  then show ?thesis
    by (intro exI [of _ "?m\<lparr>en_enum := kvs\<rparr>"]) (simp add: enum_push_def)
qed

subsection \<open>Structures\<close>

lemma elem_word:
  assumes "word_chars (el_keyworld m @ w)" and "CHR '';'' \<notin> set w"
    and "el_step m = Parameter \<Longrightarrow> CHR ''['' \<notin> set w" and "\<not> el_list_parameter m"
  shows "quiet_run (\<lambda>c m. Inr (elem_push c m)) w m = Some (m\<lparr>el_keyworld := el_keyworld m @ w\<rparr>)"
  using assms
proof (induction w arbitrary: m)
  case Nil
  then show ?case by simp
next
  case (Cons c w)
  then have step: "elem_push c m = (False, m\<lparr>el_keyworld := el_keyworld m @ [c]\<rparr>)"
    by (auto simp: elem_push_def Let_def)
  have "quiet_run (\<lambda>c m. Inr (elem_push c m)) w (m\<lparr>el_keyworld := el_keyworld m @ [c]\<rparr>) =
      Some (m\<lparr>el_keyworld := (el_keyworld m @ [c]) @ w\<rparr>)"
    using Cons.IH [of "m\<lparr>el_keyworld := el_keyworld m @ [c]\<rparr>"] Cons.prems by auto
  then show ?case by (simp add: step)
qed

lemma plain_elem: "list_all plain w \<Longrightarrow> word_chars w \<and> CHR '';'' \<notin> set w \<and> CHR ''['' \<notin> set w"
  by (auto simp: plain_not_white list_all_iff plain_def)

lemma type_elem: "plain_word b \<Longrightarrow> word_chars (type_text (b, k)) \<and> CHR '';'' \<notin> set (type_text (b, k)) \<and> type_text (b, k) \<noteq> []"
  using plain_elem [of b] word_type [of b k] by (auto simp: plain_word_def)

text \<open>An element up to its semicolon, and the semicolon.\<close>

lemma elem_run:
  assumes "elem_ok ev e"
  shows "\<exists>s m m'. print_elem e = s @ '';'' \<and> quiet_run (\<lambda>c m. Inr (elem_push c m)) s new_elem = Some m \<and>
    elem_push CHR '';'' m = (True, m') \<and> (el_key m', el_value m', el_parameter m') = elem_entry e"
proof -
  obtain base k n d where e: "e = ((base, k), n, d)" by (metis prod.exhaust)
  let ?run = "quiet_run (\<lambda>c m. Inr (elem_push c m))"
  let ?t = "type_text (base, k)"
  have t: "word_chars ?t" "CHR '';'' \<notin> set ?t" "?t \<noteq> []"
    using assms type_elem [of base k] by (simp_all add: e del: type_text.simps)
  have n: "word_chars n" "CHR '';'' \<notin> set n" "CHR ''['' \<notin> set n" "n \<noteq> []"
    using assms plain_elem [of n] by (simp_all add: e plain_word_def)
  let ?m1 = "new_elem\<lparr>el_key := ?t, el_step := Value\<rparr>"
  have 1: "?run ?t new_elem = Some (new_elem\<lparr>el_keyworld := ?t\<rparr>)"
    using elem_word [of new_elem ?t] t by (simp add: new_elem_def del: type_text.simps)
  have 2: "elem_push space (new_elem\<lparr>el_keyworld := ?t\<rparr>) = (False, ?m1)"
    using t by (simp add: elem_push_def new_elem_def del: type_text.simps)
  have 3: "?run n ?m1 = Some (?m1\<lparr>el_keyworld := n\<rparr>)"
    using elem_word [of ?m1 n] n by (simp add: new_elem_def del: type_text.simps)
  have "?run (?t @ '' '') new_elem = Some ?m1"
    by (simp add: quiet_run_append [OF 1] 2 del: type_text.simps)
  from quiet_run_append [OF this, of n] 3
  have tn: "?run ((?t @ '' '') @ n) new_elem = Some (?m1\<lparr>el_keyworld := n\<rparr>)" by simp
  show ?thesis
  proof (cases d)
    case None
    have "elem_push CHR '';'' (?m1\<lparr>el_keyworld := n\<rparr>) = (True, ?m1\<lparr>el_value := Some n\<rparr>)"
      using n by (simp add: elem_push_def new_elem_def is_white_def del: type_text.simps)
    with tn show ?thesis
      by (intro exI [of _ "(?t @ '' '') @ n"] exI [of _ "?m1\<lparr>el_keyworld := n\<rparr>"] exI [of _ "?m1\<lparr>el_value := Some n\<rparr>"])
         (simp add: e None new_elem_def del: type_text.simps)
  next
    case (Some v)
    have v: "word_chars v" "CHR '';'' \<notin> set v" "CHR ''['' \<notin> set v" "v \<noteq> []" "v \<noteq> ''=''"
      using assms plain_elem [of v] by (auto simp: e Some plain_word_def)
    let ?m2 = "?m1\<lparr>el_value := Some n, el_step := Parameter\<rparr>"
    have 4: "elem_push space (?m1\<lparr>el_keyworld := n\<rparr>) = (False, ?m2)"
      using n by (simp add: elem_push_def new_elem_def del: type_text.simps)
    have w: "\<not> white CHR ''=''" by (simp add: white_def)
    have 5: "elem_push CHR ''='' ?m2 = (False, ?m2\<lparr>el_keyworld := ''=''\<rparr>)"
      using w by (simp add: elem_push_def new_elem_def is_white_def del: type_text.simps)
    have 6: "elem_push space (?m2\<lparr>el_keyworld := ''=''\<rparr>) = (False, ?m2)"
      using w by (simp add: elem_push_def new_elem_def del: type_text.simps)
    have "?run '' = '' (?m1\<lparr>el_keyworld := n\<rparr>) = Some ?m2"
      using 4 5 6 by (simp del: type_text.simps)
    moreover have "?run v ?m2 = Some (?m2\<lparr>el_keyworld := v\<rparr>)"
      using elem_word [of ?m2 v] v by (simp add: new_elem_def del: type_text.simps)
    ultimately have "?run ('' = '' @ v) (?m1\<lparr>el_keyworld := n\<rparr>) = Some (?m2\<lparr>el_keyworld := v\<rparr>)"
      by (simp only: quiet_run_append)
    then have run: "?run (((?t @ '' '') @ n) @ ('' = '' @ v)) new_elem = Some (?m2\<lparr>el_keyworld := v\<rparr>)"
      unfolding quiet_run_append [OF tn] .
    have "elem_push CHR '';'' (?m2\<lparr>el_keyworld := v\<rparr>) = (True, ?m2\<lparr>el_parameter := Some v\<rparr>)"
      using v by (simp add: elem_push_def new_elem_def is_white_def del: type_text.simps)
    with run show ?thesis
      by (intro exI [of _ "((?t @ '' '') @ n) @ ('' = '' @ v)"] exI [of _ "?m2\<lparr>el_keyworld := v\<rparr>"]
          exI [of _ "?m2\<lparr>el_parameter := Some v\<rparr>"])
         (simp add: e Some new_elem_def del: type_text.simps)
  qed
qed

lemma struct_lift:
  assumes "quiet_run (\<lambda>c m. Inr (elem_push c m)) s el = Some el'" and "CHR ''}'' \<notin> set s"
  shows "quiet_run (struct_push ev) s (m\<lparr>st_machine := Some el\<rparr>) = Some (m\<lparr>st_machine := Some el'\<rparr>)"
  using assms
proof (induction s arbitrary: el)
  case Nil
  then show ?case by simp
next
  case (Cons c s)
  then obtain el1 where f: "elem_push c el = (False, el1)" "quiet_run (\<lambda>c m. Inr (elem_push c m)) s el1 = Some el'"
    by (auto split: sum.splits prod.splits bool.splits)
  then have "struct_push ev c (m\<lparr>st_machine := Some el\<rparr>) = Inr (False, m\<lparr>st_machine := Some el1\<rparr>)"
    using Cons.prems(2) by (auto simp: struct_push_def)
  with Cons f show ?case by simp
qed

lemma no_brace_elem: "elem_ok ev e \<Longrightarrow> CHR ''}'' \<notin> set (print_elem e) \<and> CHR ''/'' \<notin> set (print_elem e)"
proof -
  assume ok: "elem_ok ev e"
  obtain base k n d where e: "e = ((base, k), n, d)" by (metis prod.exhaust)
  have "plain_word base" "list_all plain n" "d = Some v \<Longrightarrow> list_all plain v" for v
    using ok by (auto simp: e plain_word_def)
  with no_brace_type [OF this(1), of k] no_brace_plain [OF this(2)] no_brace_plain [OF this(3)]
  show ?thesis by (cases d) (simp_all add: e del: type_text.simps)
qed

lemma elem_entry_param: "elem_ok ev e \<Longrightarrow> elem_entry e = (key, v, Some p) \<Longrightarrow> parameter_check ev key p"
  by (cases e) (auto split: option.splits)

lemma struct_elems:
  assumes "\<forall>e \<in> set es. elem_ok ev e"
  shows "quiet_run (struct_push ev) (concat (List.map print_elem es)) (m\<lparr>st_machine := Some new_elem\<rparr>) =
    Some (m\<lparr>st_elem := st_elem m @ List.map elem_entry es, st_machine := Some new_elem\<rparr>)"
  using assms
proof (induction es arbitrary: m)
  case Nil
  then show ?case by simp
next
  case (Cons e es)
  from Cons.prems have ok: "elem_ok ev e" by simp
  from elem_run [OF ok] obtain s el el' where e: "print_elem e = s @ '';''"
    "quiet_run (\<lambda>c m. Inr (elem_push c m)) s new_elem = Some el" "elem_push CHR '';'' el = (True, el')"
    "(el_key el', el_value el', el_parameter el') = elem_entry e" by blast
  have "CHR ''}'' \<notin> set s" using no_brace_elem [OF ok] e(1) by simp
  note s = struct_lift [OF e(2) this, of ev m]
  have "struct_push ev CHR '';'' (m\<lparr>st_machine := Some el\<rparr>) =
      Inr (False, m\<lparr>st_elem := st_elem m @ [elem_entry e], st_machine := Some new_elem\<rparr>)"
  proof (cases "el_parameter el'")
    case None
    with e(3,4) show ?thesis by (auto simp: struct_push_def)
  next
    case (Some p)
    have "parameter_check ev (el_key el') p"
      using elem_entry_param [OF ok, of "el_key el'" "el_value el'" p] e(4) Some by simp
    with e(3,4) Some show ?thesis by (auto simp: struct_push_def)
  qed
  then show ?case
    using Cons.IH [of "m\<lparr>st_elem := st_elem m @ [elem_entry e]\<rparr>"] Cons.prems e(1)
    by (simp add: quiet_run_append [OF s])
qed

lemma struct_word:
  assumes "list_all plain w" and "st_machine m = None"
  shows "quiet_run (struct_push ev) w m = Some (m\<lparr>st_keyworld := st_keyworld m @ w\<rparr>)"
  using assms
proof (induction w arbitrary: m)
  case Nil
  then show ?case by simp
next
  case (Cons c w)
  then have "struct_push ev c m = Inr (False, m\<lparr>st_keyworld := st_keyworld m @ [c]\<rparr>)"
    by (simp add: struct_push_def plain_simps)
  with Cons show ?case by simp
qed

lemma struct_body:
  assumes "plain_word n" and "\<forall>e \<in> set es. elem_ok ev e"
  shows "\<exists>m. quiet_run (struct_push ev) (n @ ''{'' @ concat (List.map print_elem es)) new_struct = Some m \<and>
    struct_push ev CHR ''}'' m = Inr (True, m) \<and> st_name m = n \<and> st_elem m = List.map elem_entry es"
proof -
  have n: "list_all plain n" "n \<noteq> []" "word_chars n" using assms(1) by (simp_all add: plain_word_def plain_not_white)
  have 1: "quiet_run (struct_push ev) n new_struct = Some (new_struct\<lparr>st_keyworld := n\<rparr>)"
    using struct_word [OF n(1), of new_struct] by (simp add: new_struct_def)
  let ?m = "new_struct\<lparr>st_name := n\<rparr>"
  have 2: "struct_push ev CHR ''{'' (new_struct\<lparr>st_keyworld := n\<rparr>) = Inr (False, ?m\<lparr>st_machine := Some new_elem\<rparr>)"
    using n by (simp add: struct_push_def new_struct_def)
  let ?closed = "?m\<lparr>st_elem := List.map elem_entry es, st_machine := Some new_elem\<rparr>"
  have "quiet_run (struct_push ev) (n @ ''{'' @ concat (List.map print_elem es)) new_struct = Some ?closed"
    using struct_elems [OF assms(2), of ?m] by (simp add: quiet_run_append [OF 1] 2) (simp add: new_struct_def)
  then show ?thesis by (intro exI [of _ ?closed]) (simp add: struct_push_def)
qed

subsection \<open>The top level\<close>

lemma push_all_quiet:
  assumes "quiet_run (machine_push ev) t m = Some m'"
  shows "push_all ev (t @ rest) (s\<lparr>sm_machine := Some m\<rparr>) = push_all ev rest (s\<lparr>sm_machine := Some m'\<rparr>)"
  using assms
proof (induction t arbitrary: m)
  case Nil
  then show ?case by simp
next
  case (Cons c t)
  then obtain m1 where "machine_push ev c m = Inr (False, m1)" "quiet_run (machine_push ev) t m1 = Some m'"
    by (auto split: sum.splits prod.splits bool.splits)
  with Cons show ?case by (simp add: state_push_def)
qed

text \<open>The run of one kind of machine is a run of the machine of the top level.\<close>

lemma quiet_run_map:
  assumes "\<And>c m m'. push c m = Inr (False, m') \<Longrightarrow> machine_push ev c (wrap m) = Inr (False, wrap m')"
  shows "quiet_run push t m = Some m' \<Longrightarrow> quiet_run (machine_push ev) t (wrap m) = Some (wrap m')"
proof (induction t arbitrary: m)
  case Nil
  then show ?case by simp
next
  case (Cons c t)
  then obtain m1 where m1: "push c m = Inr (False, m1)" "quiet_run push t m1 = Some m'"
    by (auto split: sum.splits prod.splits bool.splits)
  from Cons.IH [OF m1(2)] show ?case by (simp add: assms [OF m1(1)])
qed

lemma push_keyword:
  assumes "word_chars w" and "sm_machine s = None"
  shows "push_all ev (w @ rest) s = push_all ev rest (s\<lparr>sm_keyworld := sm_keyworld s @ w\<rparr>)"
  using assms
proof (induction w arbitrary: s)
  case Nil
  then show ?case by simp
next
  case (Cons c w)
  then have "state_push ev c s = Inr (s\<lparr>sm_keyworld := sm_keyworld s @ [c]\<rparr>)"
    by (simp add: state_push_def)
  with Cons show ?case by simp
qed

definition idle :: "statemachine \<Rightarrow> bool" where
  "idle s = (sm_machine s = None \<and> sm_keyworld s = [])"

lemma service_Nil [simp]: "\<not> contains ''service'' []"
  by (simp add: contains_def)

lemma push_newline: "idle s \<Longrightarrow> push_all ev (nl # rest) s = push_all ev rest s"
  by (cases s) (simp add: idle_def state_push_def)

lemma add_decl_idle: "idle s \<Longrightarrow> idle (add_decl d s)"
  by (cases d) (simp_all add: idle_def)

text \<open>A declaration: its keyword and a space, its body, its closing character.\<close>

lemma push_decl:
  assumes "idle s" and "word_chars key"
    and start: "state_push ev space (s\<lparr>sm_keyworld := key\<rparr>) = Inr (s\<lparr>sm_machine := Some (wrap m0)\<rparr>)"
    and lift: "\<And>c m m'. push c m = Inr (False, m') \<Longrightarrow> machine_push ev c (wrap m) = Inr (False, wrap m')"
    and body: "quiet_run push body m0 = Some m"
    and finish: "machine_push ev e (wrap m) = Inr (True, wrap m1)"
  shows "push_all ev (key @ '' '' @ body @ [e] @ rest) s =
    push_all ev rest (take_machine (wrap m1) (s\<lparr>sm_machine := Some (wrap m)\<rparr>))"
proof -
  have "push_all ev (key @ '' '' @ body @ [e] @ rest) s = push_all ev ('' '' @ body @ [e] @ rest) (s\<lparr>sm_keyworld := key\<rparr>)"
    using push_keyword [OF assms(2), of s ev] assms(1) by (simp add: idle_def)
  also have "\<dots> = push_all ev (body @ [e] @ rest) (s\<lparr>sm_machine := Some (wrap m0)\<rparr>)"
    by (simp add: start)
  also have "\<dots> = push_all ev ([e] @ rest) (s\<lparr>sm_machine := Some (wrap m)\<rparr>)"
    by (rule push_all_quiet [OF quiet_run_map [where push = push, OF lift body]])
  also have "\<dots> = push_all ev rest (take_machine (wrap m1) (s\<lparr>sm_machine := Some (wrap m)\<rparr>))"
    by (simp add: state_push_def finish)
  finally show ?thesis .
qed

lemma no_service: "\<not> contains ''service'' ''enum''" "\<not> contains ''service'' ''struct''" "\<not> contains ''service'' ''import''"
  by (simp_all add: contains_def)

lemma keyword_chars: "word_chars ''enum''" "word_chars ''struct''" "word_chars ''import''"
  by (simp_all add: white_def)

lemma strip_keywords: "strip ''enum'' = ''enum''" "strip ''struct'' = ''struct''" "strip ''import'' = ''import''"
  by (simp_all add: white_def)

lemma import_body:
  assumes "plain_word n"
  shows "quiet_run (\<lambda>c m. Inr (import_push c m)) n new_import = Some (new_import\<lparr>im_keyworld := n\<rparr>)"
    and "import_push nl (new_import\<lparr>im_keyworld := n\<rparr>) = (True, \<lparr>im_keyworld = n, im_name = n\<rparr>)"
proof -
  have "quiet_run (\<lambda>c m. Inr (import_push c m)) w m = Some (m\<lparr>im_keyworld := im_keyworld m @ w\<rparr>)"
    if "list_all plain w" for w m
    using that
  proof (induction w arbitrary: m)
    case Nil
    then show ?case by simp
  next
    case (Cons c w)
    then have "import_push c m = (False, m\<lparr>im_keyworld := im_keyworld m @ [c]\<rparr>)"
      by (simp add: import_push_def plain_simps)
    with Cons show ?case by simp
  qed
  from this [of n new_import] assms
  show "quiet_run (\<lambda>c m. Inr (import_push c m)) n new_import = Some (new_import\<lparr>im_keyworld := n\<rparr>)"
    by (simp add: new_import_def plain_word_def)
  show "import_push nl (new_import\<lparr>im_keyworld := n\<rparr>) = (True, \<lparr>im_keyworld = n, im_name = n\<rparr>)"
    using assms plain_word_ne [OF assms] by (simp add: import_push_def new_import_def)
qed

lemma parse_decl:
  assumes "decl_ok ev d" and "idle s"
  shows "push_all ev (print_decl d @ rest) s = push_all ev rest (add_decl d s)"
proof (cases d)
  case (J_import n)
  have ok: "plain_word n" using assms(1) by (simp add: J_import)
  have start: "state_push ev space (s\<lparr>sm_keyworld := ''import''\<rparr>) = Inr (s\<lparr>sm_machine := Some (M_import new_import)\<rparr>)"
    using assms(2) by (cases s) (simp add: state_push_def Let_def no_service strip_keywords idle_def)
  have "push_all ev (''import'' @ '' '' @ n @ [nl] @ rest) s = push_all ev rest
      (take_machine (M_import \<lparr>im_keyworld = n, im_name = n\<rparr>) (s\<lparr>sm_machine := Some (M_import (new_import\<lparr>im_keyworld := n\<rparr>))\<rparr>))"
    by (rule push_decl [where wrap = M_import, OF assms(2) keyword_chars(3) start _ import_body(1) [OF ok]])
       (simp_all add: import_body(2) [OF ok])
  moreover have "take_machine (M_import \<lparr>im_keyworld = n, im_name = n\<rparr>)
      (s\<lparr>sm_machine := Some (M_import (new_import\<lparr>im_keyworld := n\<rparr>))\<rparr>) = add_decl d s"
    using assms(2) by (cases s) (simp add: J_import idle_def)
  ultimately show ?thesis by (simp add: J_import)
next
  case (J_enum n kvs)
  have ok: "plain_word n" "\<forall>(k, v) \<in> set kvs. plain_word k \<and> plain_word v"
    using assms(1) by (simp_all add: J_enum)
  from enum_body [OF ok] obtain m where m:
    "enum_run (n @ ''{'' @ concat (List.map print_kv kvs)) new_enum = Some m"
    "enum_push CHR ''}'' m = (True, m)" "en_name m = n" "en_enum m = kvs" by blast
  have start: "state_push ev space (s\<lparr>sm_keyworld := ''enum''\<rparr>) = Inr (s\<lparr>sm_machine := Some (M_enum new_enum)\<rparr>)"
    using assms(2) by (cases s) (simp add: state_push_def Let_def no_service strip_keywords idle_def)
  have "push_all ev (''enum'' @ '' '' @ (n @ ''{'' @ concat (List.map print_kv kvs)) @ [CHR ''}''] @ (nl # rest)) s =
      push_all ev (nl # rest) (take_machine (M_enum m) (s\<lparr>sm_machine := Some (M_enum m)\<rparr>))"
    by (rule push_decl [where wrap = M_enum, OF assms(2) keyword_chars(1) start _ m(1)]) (simp_all add: m(2))
  moreover have "take_machine (M_enum m) (s\<lparr>sm_machine := Some (M_enum m)\<rparr>) = add_decl d s"
    using m(3,4) assms(2) by (cases s) (simp add: J_enum idle_def)
  moreover have "print_decl d @ rest = ''enum'' @ '' '' @ (n @ ''{'' @ concat (List.map print_kv kvs)) @ [CHR ''}''] @ (nl # rest)"
    by (simp add: J_enum)
  ultimately show ?thesis
    using push_newline [OF add_decl_idle [OF assms(2)], of ev rest d] by (simp only:)
next
  case (J_struct n es)
  have ok: "plain_word n" "\<forall>e \<in> set es. elem_ok ev e" using assms(1) by (simp_all add: J_struct)
  from struct_body [OF ok] obtain m where m:
    "quiet_run (struct_push ev) (n @ ''{'' @ concat (List.map print_elem es)) new_struct = Some m"
    "struct_push ev CHR ''}'' m = Inr (True, m)" "st_name m = n" "st_elem m = List.map elem_entry es" by blast
  have start: "state_push ev space (s\<lparr>sm_keyworld := ''struct''\<rparr>) = Inr (s\<lparr>sm_machine := Some (M_struct new_struct)\<rparr>)"
    using assms(2) by (cases s) (simp add: state_push_def Let_def no_service strip_keywords idle_def)
  have "push_all ev (''struct'' @ '' '' @ (n @ ''{'' @ concat (List.map print_elem es)) @ [CHR ''}''] @ (nl # rest)) s =
      push_all ev (nl # rest) (take_machine (M_struct m) (s\<lparr>sm_machine := Some (M_struct m)\<rparr>))"
    by (rule push_decl [where wrap = M_struct, OF assms(2) keyword_chars(2) start _ m(1)]) (simp_all add: m(2))
  moreover have "take_machine (M_struct m) (s\<lparr>sm_machine := Some (M_struct m)\<rparr>) = add_decl d s"
    using m(3,4) assms(2) by (cases s) (simp add: J_struct idle_def)
  moreover have "print_decl d @ rest = ''struct'' @ '' '' @ (n @ ''{'' @ concat (List.map print_elem es)) @ [CHR ''}''] @ (nl # rest)"
    by (simp add: J_struct)
  ultimately show ?thesis
    using push_newline [OF add_decl_idle [OF assms(2)], of ev rest d] by (simp only:)
next
  case (J_service ty n fs)
  have ok: "plain_word n" "\<forall>f \<in> set fs. func_ok ev f" "distinct (List.map fst fs)"
    and ty: "word_chars ty" "contains ''service'' ty"
    using assms(1) by (simp_all add: J_service)
  from module_body [OF ok, of ty] obtain m where m:
    "quiet_run (module_push ev) (n @ ''{'' @ concat (List.map print_func fs)) (new_module ty) = Some m"
    "module_push ev CHR ''}'' m = Inr (True, m\<lparr>mo_machine := None\<rparr>)" "mo_name m = n" "mo_type m = ty"
    "mo_module m = List.map func_items fs" by blast
  have start: "state_push ev space (s\<lparr>sm_keyworld := ty\<rparr>) = Inr (s\<lparr>sm_machine := Some (M_module (new_module ty))\<rparr>)"
    using assms(2) ty by (cases s) (simp add: state_push_def Let_def idle_def)
  have "push_all ev (ty @ '' '' @ (n @ ''{'' @ concat (List.map print_func fs)) @ [CHR ''}''] @ (nl # rest)) s =
      push_all ev (nl # rest) (take_machine (M_module (m\<lparr>mo_machine := None\<rparr>)) (s\<lparr>sm_machine := Some (M_module m)\<rparr>))"
    by (rule push_decl [where wrap = M_module, OF assms(2) ty(1) start _ m(1)]) (simp_all add: m(2))
  moreover have "take_machine (M_module (m\<lparr>mo_machine := None\<rparr>)) (s\<lparr>sm_machine := Some (M_module m)\<rparr>) = add_decl d s"
    using m(3-5) assms(2) by (cases s) (simp add: J_service idle_def)
  moreover have "print_decl d @ rest = ty @ '' '' @ (n @ ''{'' @ concat (List.map print_func fs)) @ [CHR ''}''] @ (nl # rest)"
    by (simp add: J_service)
  ultimately show ?thesis
    using push_newline [OF add_decl_idle [OF assms(2)], of ev rest d] by (simp only:)
qed

lemma parse_decls:
  assumes "\<forall>d \<in> set ds. decl_ok ev d" and "idle s"
  shows "push_all ev (concat (List.map print_decl ds)) s = Inr (fold add_decl ds s)"
  using assms
proof (induction ds arbitrary: s)
  case Nil
  then show ?case by simp
next
  case (Cons d ds)
  then show ?case
    using parse_decl [of ev d s "concat (List.map print_decl ds)"] add_decl_idle [of s d] by simp
qed

lemma no_slash: "decl_ok ev d \<Longrightarrow> CHR ''/'' \<notin> set (print_decl d)"
proof (cases d)
  case (J_enum n kvs)
  assume "decl_ok ev d"
  then show ?thesis
    using no_brace_plain by (fastforce simp: J_enum plain_word_def)
next
  case (J_struct n es)
  assume "decl_ok ev d"
  then show ?thesis
    using no_brace_plain [of n] no_brace_elem by (fastforce simp: J_struct plain_word_def)
next
  case (J_service ty n fs)
  assume "decl_ok ev d"
  then show ?thesis
    using no_brace_plain [of n] no_brace_plain [of ty] no_brace_func by (fastforce simp: J_service plain_word_def)
next
  case (J_import n)
  assume "decl_ok ev d"
  then show ?thesis using no_brace_plain [of n] by (simp add: J_import plain_word_def)
qed

subsection \<open>Properties\<close>

text \<open>C7: parsing a printed file gives back what was printed: the imports, enumerations, structures
  and services, with every function, argument, type and default, in their order.\<close>

theorem parse_print_roundtrip:
  assumes "\<forall>d \<in> set ds. decl_ok ev d"
  shows "parser ev (List.map print_decl ds) = Inr (fold add_decl ds new_statemachine)"
proof -
  have "\<forall>line \<in> set (List.map print_decl ds). CHR ''/'' \<notin> set line"
    using assms no_slash by auto
  then have "deletenote (List.map print_decl ds) = Inr (List.filter (\<lambda>l. l \<noteq> []) (List.map print_decl ds))"
    by (rule deletenote_plain)
  moreover have "concat (List.filter (\<lambda>l. l \<noteq> []) ls) = concat ls" for ls :: "string list"
    by (induction ls) simp_all
  moreover have "idle new_statemachine" by (simp add: idle_def new_statemachine_def)
  ultimately show ?thesis
    using parse_decls [OF assms] by (simp add: parser_def syntaxanalysis_def)
qed

definition sample_file :: "jdecl list" where
  "sample_file =
     [J_import ''common'', J_enum ''color'' [(''red'', ''0''), (''blue'', ''1'')],
      J_struct ''kv'' [((''int32'', 0), ''k1'', None), ((''string'', 1), ''ks'', None), ((''int8'', 0), ''v'', Some ''12'')],
      J_service ''entity_service'' ''name''
        [(''func2'', [(''req'', [((''kv'', 0), ''a'', None), ((''int32'', 0), ''b'', Some ''7'')]), (''rsp'', []),
           (''err'', [((''int32'', 2), ''i'', None)])]),
         (''func3'', [(''ntf'', [])])]]"

theorem parse_print_roundtrip_witness:
  "parser (\<lambda>_. Inl TypeError) (List.map print_decl sample_file) =
     Inr (fold add_decl sample_file new_statemachine)"
proof -
  have "py_int ''12'' = Inr 12" "py_int ''7'' = Inr 7"
    by (simp_all add: py_int_def py_trim_def py_space_def digit_of_def)
  then have "parameter_check ev ''int8'' ''12''" "parameter_check ev ''int32'' ''7''" for ev
    by (simp_all add: parameter_check_simps parameter_int8_check_def parameter_int32_check_def int_in_def)
  then have "\<forall>d \<in> set sample_file. decl_ok (\<lambda>_. Inl TypeError) d"
    by (simp add: sample_file_def plain_word_def plain_def white_def contains_def has_default_def)
  then show ?thesis by (rule parse_print_roundtrip)
qed

end
