(* ===== verification/Client_Events.thy ===== *)
theory Client_Events
  imports Hub_State
begin

section \<open>Client: the event system and the animation markers\<close>

text \<open>
  \<open>src/client/engine/event_system.py\<close> and \<open>animation_events.py\<close>.  Both walk a list of callbacks
  with a Python \<open>for\<close>, which keeps an index into the list object: a callback that changes the
  list changes what the walk sees next, and a list that grows at every step makes it run for
  ever.  The walk is therefore a \<open>partial_function\<close>: \<open>None\<close> is a tick that does not return.  The
  callbacks are parameters; they act on the whole state of the process, of which \<open>rd\<close> reads
  the handler, and \<open>report\<close> is the \<open>print\<close> of a caught exception.
\<close>

subsection \<open>A guarded walk over a list that may change\<close>

text \<open>\<open>xs s\<close> is the content of the list object in state \<open>s\<close>, \<open>body\<close> the guarded loop body.\<close>

partial_function (option) walk ::
  "('s \<Rightarrow> 'x list) \<Rightarrow> ('x \<Rightarrow> 's \<Rightarrow> 's) \<Rightarrow> nat \<Rightarrow> 's \<Rightarrow> 's option" where
  "walk xs body i s = (if i < length (xs s) then walk xs body (Suc i) (body (xs s ! i) s) else Some s)"

lemma walk_step: "i < length (xs s) \<Longrightarrow> walk xs body i s = walk xs body (Suc i) (body (xs s ! i) s)"
  by (subst walk.simps) simp

lemma walk_end: "length (xs s) \<le> i \<Longrightarrow> walk xs body i s = Some s"
  by (subst walk.simps) simp

text \<open>When no call changes the list, the walk returns and has run every entry once, in order.\<close>

lemma walk_kept:
  assumes "\<And>x t. x \<in> set (drop i (xs s)) \<Longrightarrow> xs (body x t) = xs t"
  shows "walk xs body i s = Some (fold body (drop i (xs s)) s)"
  using assms
proof (induction "length (xs s) - i" arbitrary: i s)
  case 0
  then show ?case by (simp add: walk_end)
next
  case (Suc n)
  then have i: "i < length (xs s)" by simp
  then have split: "drop i (xs s) = xs s ! i # drop (Suc i) (xs s)" by (rule Cons_nth_drop_Suc [symmetric])
  let ?t = "body (xs s ! i) s"
  have same: "xs ?t = xs s" by (rule Suc.prems) (simp add: split)
  have "walk xs body (Suc i) ?t = Some (fold body (drop (Suc i) (xs ?t)) ?t)"
    using Suc.hyps(2) by (intro Suc.hyps(1) Suc.prems) (simp_all add: same split)
  with i show ?case by (simp add: walk_step same split)
qed

text \<open>A walk whose every call lengthens the list does not return.\<close>

lemma walk_grows:
  fixes xs :: "'s \<Rightarrow> 'x list"
  assumes "\<And>x s. inside s \<Longrightarrow> inside (body x s)"
    and "\<And>x s. inside s \<Longrightarrow> length (xs s) < length (xs (body x s))"
    and "inside s" and "i < length (xs s)"
  shows "walk xs body i s = None"
proof -
  let ?P = "\<lambda>xs' body' j t (u::'s). xs' = xs \<longrightarrow> body' = body \<longrightarrow> inside t \<longrightarrow> \<not> j < length (xs t)"
  have "\<not> i < length (xs s)" if "walk xs body i s = Some u" for u
  proof -
    have "?P xs body i s u"
    proof (rule walk.raw_induct [of ?P, OF _ that])
      fix w xs' body' j t u
      assume IH: "\<And>xs' body' j t u. w xs' body' j t = Some u \<Longrightarrow> ?P xs' body' j t u"
        and eq: "(if j < length (xs' t) then w xs' body' (Suc j) (body' (xs' t ! j) t) else Some t) = Some u"
      show "?P xs' body' j t u"
      proof (intro impI notI)
        assume *: "xs' = xs" "body' = body" "inside t" "j < length (xs t)"
        with eq have "w xs body (Suc j) (body (xs t ! j) t) = Some u" by simp
        from IH [OF this] have "\<not> Suc j < length (xs (body (xs t ! j) t))"
          using assms(1) [OF *(3)] by simp
        with assms(2) [OF *(3), of "xs t ! j"] *(4) show False by simp
      qed
    qed
    with assms(3) show ?thesis by simp
  qed
  with assms(4) show ?thesis by (cases "walk xs body i s") auto
qed

subsection \<open>The event system\<close>

type_synonym event_entry = "fn \<times> fn"

definition new_event_system :: "event_entry list" where
  "new_event_system = []"

definition event_register :: "fn \<Rightarrow> fn \<Rightarrow> event_entry list \<Rightarrow> event_entry list" where
  "event_register trigger response events = events @ [(trigger, response)]"

text \<open>\<open>list.remove\<close> takes the first equal entry out; its \<open>ValueError\<close> is caught.\<close>

definition event_unregister :: "fn \<Rightarrow> fn \<Rightarrow> event_entry list \<Rightarrow> event_entry list" where
  "event_unregister trigger response events = remove1 (trigger, response) events"

definition event_clear :: "event_entry list \<Rightarrow> event_entry list" where
  "event_clear events = []"

definition event_count :: "event_entry list \<Rightarrow> nat" where
  "event_count events = length events"

definition event_body ::
  "(fn \<Rightarrow> ('s, bool) py) \<Rightarrow> (fn \<Rightarrow> ('s, unit) py) \<Rightarrow> (pyexn \<Rightarrow> 's \<Rightarrow> 's) \<Rightarrow> event_entry \<Rightarrow> 's \<Rightarrow> 's" where
  "event_body trig resp report entry s = state_of (try_except
     (bindp (trig (fst entry)) (\<lambda>b. if b then resp (snd entry) else ret ()))
     (\<lambda>e. modify (report e)) s)"

definition event_tick ::
  "('s \<Rightarrow> event_entry list) \<Rightarrow> (fn \<Rightarrow> ('s, bool) py) \<Rightarrow> (fn \<Rightarrow> ('s, unit) py) \<Rightarrow> (pyexn \<Rightarrow> 's \<Rightarrow> 's) \<Rightarrow>
   's \<Rightarrow> 's option" where
  "event_tick rd trig resp report = walk rd (event_body trig resp report) 0"

lemma event_body_keeps:
  assumes "rd (state_of (trig t s)) = rd s" and "\<And>s. rd (state_of (resp r s)) = rd s" and "\<And>e s. rd (report e s) = rd s"
  shows "rd (event_body trig resp report (t, r) s) = rd s"
proof (cases "trig t s")
  case (Pair res u)
  show ?thesis
  proof (cases res)
    case (Inl e)
    with Pair assms show ?thesis by (simp add: event_body_def try_except_def)
  next
    case (Inr b)
    obtain res' v where v: "resp r u = (res', v)" by (cases "resp r u")
    with assms(2) [of u] have "rd v = rd u" by simp
    with v Inr Pair assms show ?thesis
      by (cases res') (simp_all add: event_body_def try_except_def)
  qed
qed

subsection \<open>The animation markers\<close>

text \<open>
  A marker maps to a list object; \<open>fire\<close> walks the object it found when it started, also after
  the marker was taken out of the dict.  List objects are addresses into a store.
\<close>

record anim =
  an_handlers :: "(string, nat) dict"
  an_lists :: "nat \<Rightarrow> fn list"
  an_next :: nat

definition new_anim :: anim where
  "new_anim = \<lparr>an_handlers = [], an_lists = (\<lambda>_. []), an_next = 0\<rparr>"

definition anim_entry :: "string \<Rightarrow> anim \<Rightarrow> anim" where
  "anim_entry marker_name a =
     (if has_key (an_handlers a) marker_name then a
      else a\<lparr>an_handlers := dset marker_name (an_next a) (an_handlers a),
             an_lists := (an_lists a)(an_next a := []), an_next := Suc (an_next a)\<rparr>)"

definition anim_register :: "string \<Rightarrow> fn \<Rightarrow> anim \<Rightarrow> anim" where
  "anim_register marker_name cb a =
     (let a = anim_entry marker_name a in
      case dget (an_handlers a) marker_name of
        None \<Rightarrow> a
      | Some l \<Rightarrow> a\<lparr>an_lists := (an_lists a)(l := an_lists a l @ [cb])\<rparr>)"

definition anim_unregister :: "string \<Rightarrow> fn \<Rightarrow> anim \<Rightarrow> anim" where
  "anim_unregister marker_name cb a =
     (case dget (an_handlers a) marker_name of
        None \<Rightarrow> a
      | Some l \<Rightarrow>
         (if cb \<notin> set (an_lists a l) then a else
          let a = a\<lparr>an_lists := (an_lists a)(l := remove1 cb (an_lists a l))\<rparr> in
          if an_lists a l = [] then a\<lparr>an_handlers := ddel marker_name (an_handlers a)\<rparr> else a))"

definition anim_body ::
  "(fn \<Rightarrow> string \<Rightarrow> string \<Rightarrow> string \<Rightarrow> ('s, unit) py) \<Rightarrow> (pyexn \<Rightarrow> 's \<Rightarrow> 's) \<Rightarrow> string \<Rightarrow> string \<Rightarrow> string \<Rightarrow> fn \<Rightarrow> 's \<Rightarrow> 's" where
  "anim_body call report marker_name clip_name time cb s =
     state_of (try_except (call cb marker_name clip_name time) (\<lambda>e. modify (report e)) s)"

definition anim_fire ::
  "('s \<Rightarrow> anim) \<Rightarrow> (fn \<Rightarrow> string \<Rightarrow> string \<Rightarrow> string \<Rightarrow> ('s, unit) py) \<Rightarrow> (pyexn \<Rightarrow> 's \<Rightarrow> 's) \<Rightarrow>
   string \<Rightarrow> string \<Rightarrow> string \<Rightarrow> 's \<Rightarrow> 's option" where
  "anim_fire rd call report marker_name clip_name time s =
     (case dget (an_handlers (rd s)) marker_name of
        None \<Rightarrow> Some s
      | Some l \<Rightarrow> walk (\<lambda>t. an_lists (rd t) l) (anim_body call report marker_name clip_name time) 0 s)"

fun anim_fire_all ::
  "('s \<Rightarrow> anim) \<Rightarrow> (fn \<Rightarrow> string \<Rightarrow> string \<Rightarrow> string \<Rightarrow> ('s, unit) py) \<Rightarrow> (pyexn \<Rightarrow> 's \<Rightarrow> 's) \<Rightarrow>
   (string \<times> string \<times> string) list \<Rightarrow> 's \<Rightarrow> 's option" where
  "anim_fire_all rd call report [] s = Some s"
| "anim_fire_all rd call report ((name, clip, time) # events) s =
     Option.bind (anim_fire rd call report name clip time s) (anim_fire_all rd call report events)"

definition anim_clear :: "anim \<Rightarrow> anim" where
  "anim_clear a = a\<lparr>an_handlers := []\<rparr>"

definition registered_markers :: "anim \<Rightarrow> string list" where
  "registered_markers a = keys (an_handlers a)"

text \<open>The callbacks of a marker, and what the handler keeps true of its lists.\<close>

definition anim_of :: "anim \<Rightarrow> string \<Rightarrow> fn list" where
  "anim_of a name = (case dget (an_handlers a) name of None \<Rightarrow> [] | Some l \<Rightarrow> an_lists a l)"

definition anim_ok :: "anim \<Rightarrow> bool" where
  "anim_ok a = (wf_dict (an_handlers a) \<and> distinct (vals (an_handlers a)) \<and>
     list_all (\<lambda>l. l < an_next a \<and> an_lists a l \<noteq> []) (vals (an_handlers a)))"

subsection \<open>Facts\<close>

lemma one_key: "distinct (vals d) \<Longrightarrow> dget d k = Some l \<Longrightarrow> dget d k' = Some l \<Longrightarrow> k = k'"
  unfolding vals_def by (drule map_of_SomeD)+ (metis distinct_map inj_onD prod.inject snd_conv)

lemma vals_ddel: "set (vals (ddel k d)) \<subseteq> set (vals d)" "distinct (vals d) \<Longrightarrow> distinct (vals (ddel k d))"
  by (auto simp: vals_def AList.delete_eq distinct_map_filter)

lemma vals_ddel_other: "distinct (vals d) \<Longrightarrow> dget d k = Some l \<Longrightarrow> l \<notin> set (vals (ddel k d))"
proof
  assume *: "distinct (vals d)" "dget d k = Some l" and "l \<in> set (vals (ddel k d))"
  then obtain k' where "(k', l) \<in> set d" "k' \<noteq> k" by (auto simp: vals_def AList.delete_eq)
  moreover from * have "(k, l) \<in> set d" by (simp add: map_of_SomeD)
  ultimately show False
    using *(1) unfolding vals_def distinct_map inj_on_def by fastforce
qed

lemma in_vals: "dget d k = Some l \<Longrightarrow> l \<in> set (vals d)"
  by (auto simp: vals_def dest: map_of_SomeD intro: rev_image_eqI)

lemma anim_okD:
  assumes "anim_ok a"
  shows "wf_dict (an_handlers a)" "distinct (vals (an_handlers a))"
    "l \<in> set (vals (an_handlers a)) \<Longrightarrow> l < an_next a" "l \<in> set (vals (an_handlers a)) \<Longrightarrow> an_lists a l \<noteq> []"
  using assms by (auto simp: anim_ok_def list_all_iff)

lemma anim_ofE:
  assumes "anim_ok a" and "dget (an_handlers a) n = Some l" and "dget (an_handlers a) m = Some l'" and "m \<noteq> n"
  shows "l' \<noteq> l"
  using one_key [OF anim_okD(2) [OF assms(1)] assms(2)] assms(3,4) by auto

lemma register_of:
  assumes "anim_ok a"
  shows "anim_of (anim_register n cb a) m = (if m = n then anim_of a m @ [cb] else anim_of a m)"
proof (cases "dget (an_handlers a) n")
  case None
  have "l \<noteq> an_next a" if "dget (an_handlers a) m = Some l" for l
    using anim_okD(3) [OF assms in_vals [OF that]] by simp
  with None show ?thesis
    by (auto simp: anim_of_def anim_register_def anim_entry_def has_key_def split: option.split)
next
  case (Some l)
  with anim_ofE [OF assms Some] show ?thesis
    by (auto simp: anim_of_def anim_register_def anim_entry_def has_key_def split: option.split)
qed

lemma unregister_of:
  assumes "anim_ok a"
  shows "anim_of (anim_unregister n cb a) m = (if m = n then remove1 cb (anim_of a m) else anim_of a m)"
proof (cases "dget (an_handlers a) n")
  case None
  then show ?thesis by (auto simp: anim_of_def anim_unregister_def)
next
  case (Some l)
  with anim_ofE [OF assms Some] show ?thesis
    by (cases "m = n") (auto simp: anim_of_def anim_unregister_def remove1_idem Let_def split: option.split)
qed

lemma register_ok:
  assumes "anim_ok a"
  shows "anim_ok (anim_register n cb a)"
proof (cases "dget (an_handlers a) n")
  case None
  have "l < an_next a" if "l \<in> set (vals (an_handlers a))" for l
    using anim_okD(3) [OF assms that] .
  with anim_okD [OF assms] None show ?thesis
    by (fastforce simp: anim_ok_def anim_register_def anim_entry_def has_key_def vals_dset_new list_all_iff)
next
  case (Some l)
  with anim_okD [OF assms] in_vals [OF Some] show ?thesis
    by (auto simp: anim_ok_def anim_register_def anim_entry_def has_key_def list_all_iff)
qed

lemma unregister_ok:
  assumes "anim_ok a"
  shows "anim_ok (anim_unregister n cb a)"
proof (cases "dget (an_handlers a) n")
  case None
  with assms show ?thesis by (simp add: anim_unregister_def)
next
  case (Some l)
  note d = anim_okD [OF assms] and l = in_vals [OF Some]
  show ?thesis
  proof (cases "remove1 cb (an_lists a l) = []")
    case True
    with d Some l vals_ddel(1) [of n "an_handlers a"] vals_ddel(2) [of "an_handlers a" n] vals_ddel_other [OF d(2) Some] assms show ?thesis
      by (fastforce simp: anim_ok_def anim_unregister_def list_all_iff)
  next
    case False
    with d Some l assms show ?thesis
      by (auto simp: anim_ok_def anim_unregister_def list_all_iff)
  qed
qed

subsection \<open>Properties\<close>

text \<open>C35: a tick of the event system runs every entry once, in order, whatever any of them raises, and
  returns, when no handler changes the list; when each handler makes the list longer it never
  returns.\<close>

theorem event_tick_visits:
  "((\<forall>x \<in> set (rd s). \<forall>t. rd (event_body trig resp report x t) = rd t) \<longrightarrow>
      event_tick rd trig resp report s = Some (fold (event_body trig resp report) (rd s) s)) \<and>
   (rd s \<noteq> [] \<and> (\<forall>x t. length (rd t) < length (rd (event_body trig resp report x t))) \<longrightarrow>
      event_tick rd trig resp report s = None)"
  using walk_kept [of 0 rd s "event_body trig resp report"]
    walk_grows [of "\<lambda>_. True" "event_body trig resp report" rd s 0]
  by (simp add: event_tick_def del: split_paired_All)

lemma event_tick_visits_witness:
  "event_tick fst (\<lambda>f s. (Inr True, s)) (\<lambda>f s. (if f = 5 then Inl KeyError else Inr (), (fst s, snd s @ [f])))
     (\<lambda>e s. (fst s, snd s @ [99])) ([(1, 4), (2, 5), (3, 6)], []) =
     Some ([(1, 4), (2, 5), (3, 6)], [4, 5, 99, 6 :: nat]) \<and>
   event_tick fst (\<lambda>f s. (Inr True, s)) (\<lambda>f s. (Inr (), (event_register 1 4 (fst s), snd s)))
     (\<lambda>e s. s) ([(1, 4)], [] :: nat list) = None"
  using event_tick_visits [of fst "([(1, 4), (2, 5), (3, 6)], [])" "\<lambda>f s. (Inr True, s)"
      "\<lambda>f s. (if f = 5 then Inl KeyError else Inr (), (fst s, snd s @ [f]))" "\<lambda>e s. (fst s, snd s @ [99])"]
    event_tick_visits [of fst "([(1, 4)], [] :: nat list)" "\<lambda>f s. (Inr True, s)"
      "\<lambda>f s. (Inr (), (event_register 1 4 (fst s), snd s))" "\<lambda>e s. s"]
  by (simp add: event_body_def try_except_def event_register_def)

text \<open>A response that unregisters itself makes the tick skip the entry registered after it.\<close>

theorem event_unregister_skips:
  assumes entries: "rd s = (t, r) # (t', r') # rest"
    and runs: "trig t s = (Inr True, s)" "resp r s = (Inr (), u)"
    and itself: "rd u = event_unregister t r (rd s)"
    and quiet: "\<forall>x \<in> set rest. \<forall>v. rd (event_body trig resp report x v) = rd v"
  shows "event_tick rd trig resp report s = Some (fold (event_body trig resp report) rest u)"
proof -
  have "event_body trig resp report (t, r) s = u"
    using runs by (simp add: event_body_def try_except_def)
  then have "event_tick rd trig resp report s = walk rd (event_body trig resp report) 1 u"
    by (simp add: event_tick_def walk_step entries)
  moreover have "drop 1 (rd u) = rest" by (simp add: itself event_unregister_def entries)
  ultimately show ?thesis using walk_kept [of 1 rd u "event_body trig resp report"] quiet by simp
qed

lemma event_unregister_skips_witness:
  "event_tick fst (\<lambda>f s. (Inr True, s))
     (\<lambda>f s. (Inr (), (if f = 4 then event_unregister 1 4 (fst s) else fst s, snd s @ [f])))
     (\<lambda>e s. s) ([(1, 4), (2, 5), (3, 6)], []) = Some ([(2, 5), (3, 6)], [4, 6 :: nat])"
  using event_unregister_skips [of fst "([(1, 4), (2, 5), (3, 6)], [])" 1 4 2 5 "[(3, 6)]" "\<lambda>f s. (Inr True, s)"
      "\<lambda>f s. (Inr (), (if f = 4 then event_unregister 1 4 (fst s) else fst s, snd s @ [f]))"
      "([(2, 5), (3, 6)], [4])" "\<lambda>e s. s"]
  by (simp add: event_body_def try_except_def event_unregister_def)

text \<open>C29: the marker handler implements a table from marker names to callback lists: registering
  appends, unregistering takes the first occurrence out, other markers are untouched, no empty
  list stays registered, and unregistering a new callback undoes its registration.\<close>

theorem anim_refines_table:
  assumes "anim_ok a"
  shows "anim_ok (anim_register n cb a) \<and> anim_ok (anim_unregister n cb a) \<and>
    anim_of (anim_register n cb a) = (anim_of a)(n := anim_of a n @ [cb]) \<and>
    anim_of (anim_unregister n cb a) = (anim_of a)(n := remove1 cb (anim_of a n)) \<and>
    (cb \<notin> set (anim_of a n) \<longrightarrow> anim_of (anim_unregister n cb (anim_register n cb a)) = anim_of a) \<and>
    (n \<in> set (registered_markers a) \<longleftrightarrow> anim_of a n \<noteq> [])"
proof (intro conjI)
  show ok: "anim_ok (anim_register n cb a)" and "anim_ok (anim_unregister n cb a)"
    by (rule register_ok unregister_ok assms)+
  show "anim_of (anim_register n cb a) = (anim_of a)(n := anim_of a n @ [cb])"
    "anim_of (anim_unregister n cb a) = (anim_of a)(n := remove1 cb (anim_of a n))"
    by (simp_all add: fun_eq_iff register_of unregister_of assms)
  show "cb \<notin> set (anim_of a n) \<longrightarrow> anim_of (anim_unregister n cb (anim_register n cb a)) = anim_of a"
    by (simp add: fun_eq_iff unregister_of [OF ok] register_of [OF assms] remove1_append)
  show "n \<in> set (registered_markers a) \<longleftrightarrow> anim_of a n \<noteq> []"
    using anim_okD(4) [OF assms in_vals [of "an_handlers a" n]]
    by (auto simp: registered_markers_def has_key_iff [symmetric] has_key_def anim_of_def split: option.splits)
qed

lemma anim_refines_table_witness:
  "anim_of (anim_unregister ''step'' 7 (anim_register ''step'' 7 (anim_register ''step'' 3 new_anim))) ''step'' = [3]"
proof -
  have "anim_ok new_anim" by (simp add: anim_ok_def new_anim_def vals_def)
  note 1 = anim_refines_table [OF this, of "''step''" 3]
  note 2 = anim_refines_table [OF 1 [THEN conjunct1], of "''step''" 7]
  have "anim_of new_anim = (\<lambda>_. [])" by (simp add: fun_eq_iff anim_of_def new_anim_def)
  with 1 2 show ?thesis by simp
qed

end
