(* ===== verification/Client_State.thy ===== *)
theory Client_State
  imports Client_Events Scene_Physics
begin

section \<open>Client: the state of the process\<close>

text \<open>
  \<open>src/client/engine\<close>: the Python side of a game client.  The state is what the singleton
  \<open>app()\<close> holds after \<open>build\<close>: the managers with their objects, the callbacks, and the
  calls made into the native \<open>ClientContext\<close> (\<open>context.py\<close> passes each on), in order.
  Objects are addresses, as several tables can hold one.  Callables the game registers are
  numbers that \<open>ce_invoke\<close> runs.  Messages are unpacked by the parameter \<open>ce_loads\<close>.
\<close>

subsection \<open>The objects\<close>

text \<open>A class of the game: its name, and the names of its bases in the order attributes are looked up.\<close>

type_synonym game_class = "string \<times> string list"

record client_player =
  cp_class :: game_class
  cp_entity_type :: string
  cp_entity_id :: string
  cp_request_msg_cb_id :: int
  cp_hub_request_callback :: "(string, fn option) dict"
  cp_hub_notify_callback :: "(string, fn option) dict"
  cp_hub_callback :: "(int, nat option) dict"

record client_sub =
  cs_entity_type :: string
  cs_entity_id :: string
  cs_request_msg_cb_id :: int
  cs_hub_notify_callback :: "(string, fn option) dict"
  cs_hub_callback :: "(int, nat option) dict"

record client_recv =
  cr_entity_type :: string
  cr_entity_id :: string
  cr_hub_notify_callback :: "(string, fn option) dict"

record scene_object =
  so_entity_type :: string
  so_entity_id :: string
  so_object_type :: json
  so_transform :: json
  so_mesh_ref :: json
  so_color :: json
  so_dimensions :: json

subsection \<open>Calls and callables\<close>

datatype client_call =
    C_connect_tcp string int
  | C_connect_ws string
  | C_login string bytes
  | C_reconnect string bytes
  | C_request_hub_service string bytes
  | C_heartbeats
  | C_call_rpc string int string bytes
  | C_call_rsp string int bytes
  | C_call_err string int bytes
  | C_call_ntf string string bytes

datatype cargs =
    Ca_none
  | Ca_conn_id string
  | Ca_create string json
  | Ca_request string int bytes
  | Ca_response bytes
  | Ca_notify string bytes
  | Ca_marker string string string

datatype creator = Scene_creator string | User_creator fn

text \<open>\<open>cl_next_msg_cb_id\<close>: the classes that have an attribute \<open>_next_msg_cb_id\<close> of their own.\<close>

record client =
  cl_is_run :: bool
  cl_conn_id :: "string option"
  cl_conn_id_callback :: "fn option"
  cl_create_method :: "(string, creator) dict"
  cl_players :: "(string, nat) dict"
  cl_subentities :: "(string, nat) dict"
  cl_receivers :: "(string, nat) dict"
  cl_scene_objects :: "(string, scene_object) dict"
  cl_global_callback :: "(string, fn option) dict"
  cl_anim :: anim
  cl_heartbeat_timer :: "timer option"
  cl_next_msg_cb_id :: "(string, int) dict"
  cl_pobj :: "nat \<Rightarrow> client_player"
  cl_sobj :: "nat \<Rightarrow> client_sub"
  cl_robj :: "nat \<Rightarrow> client_recv"
  cl_cobj :: "nat \<Rightarrow> callback"
  cl_sent :: "client_call list"
  cl_printed :: "string list"
  cl_coros :: "coro list"

text \<open>
  The parameters: running a callable of the game, the abstract methods \<open>update\<close> of the game's
  classes and the two methods of its \<open>client_event_handle\<close>, the answer of the native side to
  a call, and the two directions of \<open>msgpack\<close>.
\<close>

record cenv =
  ce_invoke :: "fn \<Rightarrow> cargs \<Rightarrow> (client, unit) py"
  ce_player_update :: "nat \<Rightarrow> json \<Rightarrow> (client, unit) py"
  ce_sub_update :: "nat \<Rightarrow> json \<Rightarrow> (client, unit) py"
  ce_recv_update :: "nat \<Rightarrow> json \<Rightarrow> (client, unit) py"
  ce_on_kick_off :: "string \<Rightarrow> (client, unit) py"
  ce_on_transfer_complete :: "(client, unit) py"
  ce_answer :: "client \<Rightarrow> client_call \<Rightarrow> bool"
  ce_loads :: "bytes \<Rightarrow> pyexn + json"
  ce_dumps :: "json \<Rightarrow> bytes"

definition cl_read :: "(client \<Rightarrow> (client, 'a) py) \<Rightarrow> (client, 'a) py" where
  "cl_read k = (\<lambda>s. k s s)"

definition cl_upd_player :: "nat \<Rightarrow> (client_player \<Rightarrow> client_player) \<Rightarrow> client \<Rightarrow> client" where
  "cl_upd_player p f s = s\<lparr>cl_pobj := (cl_pobj s)(p := f (cl_pobj s p))\<rparr>"

definition cl_upd_sub :: "nat \<Rightarrow> (client_sub \<Rightarrow> client_sub) \<Rightarrow> client \<Rightarrow> client" where
  "cl_upd_sub x f s = s\<lparr>cl_sobj := (cl_sobj s)(x := f (cl_sobj s x))\<rparr>"

definition cl_upd_recv :: "nat \<Rightarrow> (client_recv \<Rightarrow> client_recv) \<Rightarrow> client \<Rightarrow> client" where
  "cl_upd_recv x f s = s\<lparr>cl_robj := (cl_robj s)(x := f (cl_robj s x))\<rparr>"

definition cl_upd_cb :: "nat \<Rightarrow> (callback \<Rightarrow> callback) \<Rightarrow> client \<Rightarrow> client" where
  "cl_upd_cb c f s = s\<lparr>cl_cobj := (cl_cobj s)(c := f (cl_cobj s c))\<rparr>"

definition cl_print :: "string \<Rightarrow> (client, unit) py" where
  "cl_print t = modify (\<lambda>s. s\<lparr>cl_printed := cl_printed s @ [t]\<rparr>)"

text \<open>One method of \<open>context\<close>: the call and the native answer.\<close>

definition cl_send :: "cenv \<Rightarrow> client_call \<Rightarrow> (client, bool) py" where
  "cl_send env c = (\<lambda>s. (Inr (ce_answer env s c), s\<lparr>cl_sent := cl_sent s @ [c]\<rparr>))"

definition cl_cast :: "cenv \<Rightarrow> client_call \<Rightarrow> (client, unit) py" where
  "cl_cast env c = bindp (cl_send env c) (\<lambda>_. ret ())"

definition cl_call_fn :: "cenv \<Rightarrow> fn option \<Rightarrow> cargs \<Rightarrow> (client, unit) py" where
  "cl_call_fn env f args = (case f of None \<Rightarrow> raise TypeError | Some g \<Rightarrow> ce_invoke env g args)"

text \<open>\<open>h = table.get(method); if h is not None: h(...) else: print(...)\<close>.\<close>

definition cl_dispatch :: "cenv \<Rightarrow> (string, fn option) dict \<Rightarrow> string \<Rightarrow> cargs \<Rightarrow> (client, unit) py \<Rightarrow> (client, unit) py" where
  "cl_dispatch env table method args unknown =
     (case dget table method of
        Some (Some f) \<Rightarrow> ce_invoke env f args
      | _ \<Rightarrow> unknown)"

lemma cl_effects [simp]:
  "cl_read k s = k s s"
  "cl_print t s = (Inr (), s\<lparr>cl_printed := cl_printed s @ [t]\<rparr>)"
  "cl_send env c s = (Inr (ce_answer env s c), s\<lparr>cl_sent := cl_sent s @ [c]\<rparr>)"
  "cl_cast env c s = (Inr (), s\<lparr>cl_sent := cl_sent s @ [c]\<rparr>)"
  by (simp_all add: cl_read_def cl_print_def cl_send_def cl_cast_def)

lemmas cl_upd_defs = cl_upd_player_def cl_upd_sub_def cl_upd_recv_def cl_upd_cb_def

end
