(* ===== verification/Client_Entities.thy ===== *)
theory Client_Entities
  imports Client_State
begin

section \<open>Client: players, sub-entities, receivers and scene objects\<close>

text \<open>
  \<open>player.py\<close>, \<open>subentity.py\<close>, \<open>receiver.py\<close>, \<open>callback.py\<close> and \<open>scene_object_receiver.py\<close> of
  \<open>src/client/engine\<close>: the mirrors of the entities of the hubs, each in the table of its
  manager under its entity id, and the requests a mirror has open.
\<close>

subsection \<open>Response callbacks\<close>

definition cl_new_callback :: "nat \<Rightarrow> client \<Rightarrow> client" where
  "cl_new_callback c s = cl_upd_cb c (\<lambda>_. \<lparr>cb_callback = None, cb_error = None, cb_timeout = None, cb_timer = None\<rparr>) s"

definition cl_callback_callback :: "nat \<Rightarrow> fn option \<Rightarrow> fn option \<Rightarrow> client \<Rightarrow> client" where
  "cl_callback_callback c rsp_callback err_callback s =
     cl_upd_cb c (\<lambda>x. x\<lparr>cb_callback := rsp_callback, cb_error := err_callback\<rparr>) s"

definition cl_call_timeout :: "cenv \<Rightarrow> (client, bool) py \<Rightarrow> nat \<Rightarrow> (client, unit) py" where
  "cl_call_timeout env release_handle c =
     bindp release_handle (\<lambda>released.
       if released then cl_read (\<lambda>s. cl_call_fn env (cb_timeout (cl_cobj s c)) Ca_none) else ret ())"

definition cl_callback_timeout :: "nat \<Rightarrow> int \<Rightarrow> fn option \<Rightarrow> client \<Rightarrow> client" where
  "cl_callback_timeout c timeout time_callback s =
     cl_upd_cb c (\<lambda>x. x\<lparr>cb_timeout := time_callback,
                        cb_timer := Some (timer_start (new_timer (Some timeout)))\<rparr>) s"

subsection \<open>Players\<close>

text \<open>
  \<open>cls._next_msg_cb_id += 1\<close> of a class method: the attribute is read from the first class of the
  lookup order that has it, and written to \<open>cls\<close>, the class of the player.
\<close>

fun class_attr :: "(string, 'v) dict \<Rightarrow> string list \<Rightarrow> 'v option" where
  "class_attr d [] = None"
| "class_attr d (c # cs) = (case dget d c of Some v \<Rightarrow> Some v | None \<Rightarrow> class_attr d cs)"

definition cl_get_next_cb_id :: "game_class \<Rightarrow> (client, int) py" where
  "cl_get_next_cb_id cls = (\<lambda>s.
     case class_attr (cl_next_msg_cb_id s) (fst cls # snd cls) of
       None \<Rightarrow> (Inl AttributeError, s)
     | Some n \<Rightarrow> (Inr (n + 1), s\<lparr>cl_next_msg_cb_id := dset (fst cls) (n + 1) (cl_next_msg_cb_id s)\<rparr>))"

definition cl_player_add :: "nat \<Rightarrow> client \<Rightarrow> client" where
  "cl_player_add p s = s\<lparr>cl_players := dset (cp_entity_id (cl_pobj s p)) p (cl_players s)\<rparr>"

definition cl_player_init :: "nat \<Rightarrow> game_class \<Rightarrow> string \<Rightarrow> string \<Rightarrow> (client, unit) py" where
  "cl_player_init p cls entity_type entity_id =
     bindp (cl_get_next_cb_id cls) (\<lambda>n. block
       [modify (cl_upd_player p (\<lambda>_. \<lparr>cp_class = cls, cp_entity_type = entity_type, cp_entity_id = entity_id,
          cp_request_msg_cb_id = n, cp_hub_request_callback = [], cp_hub_notify_callback = [],
          cp_hub_callback = []\<rparr>)),
        modify (cl_player_add p)])"

definition cl_player_handle_hub_request :: "cenv \<Rightarrow> nat \<Rightarrow> string \<Rightarrow> string \<Rightarrow> int \<Rightarrow> bytes \<Rightarrow> (client, unit) py" where
  "cl_player_handle_hub_request env p method hub_name msg_cb_id argvs = cl_read (\<lambda>s.
     cl_dispatch env (cp_hub_request_callback (cl_pobj s p)) method (Ca_request hub_name msg_cb_id argvs)
       (cl_print ''unhandle request method:{}''))"

definition cl_player_del_callback :: "nat \<Rightarrow> int \<Rightarrow> (client, bool) py" where
  "cl_player_del_callback p msg_cb_id = (\<lambda>s.
     if \<not> has_key (cp_hub_callback (cl_pobj s p)) msg_cb_id then (Inr False, s)
     else (Inr True, cl_upd_player p (\<lambda>ob. ob\<lparr>cp_hub_callback := ddel msg_cb_id (cp_hub_callback ob)\<rparr>) s))"

definition cl_player_drop_callback :: "nat \<Rightarrow> int \<Rightarrow> (client, unit) py" where
  "cl_player_drop_callback p msg_cb_id = (\<lambda>s.
     case delitem msg_cb_id (cp_hub_callback (cl_pobj s p)) of
       Inl e \<Rightarrow> (Inl e, s)
     | Inr d \<Rightarrow> (Inr (), cl_upd_player p (\<lambda>ob. ob\<lparr>cp_hub_callback := d\<rparr>) s))"

definition cl_player_handle_hub_response :: "cenv \<Rightarrow> nat \<Rightarrow> int \<Rightarrow> bytes \<Rightarrow> (client, unit) py" where
  "cl_player_handle_hub_response env p msg_cb_id argvs = cl_read (\<lambda>s.
     case dget (cp_hub_callback (cl_pobj s p)) msg_cb_id of
       Some (Some c) \<Rightarrow> block
         [cl_call_fn env (cb_callback (cl_cobj s c)) (Ca_response argvs),
          cl_player_drop_callback p msg_cb_id]
     | _ \<Rightarrow> cl_print ''unhandle response callback:{}'')"

definition cl_player_handle_hub_response_error :: "cenv \<Rightarrow> nat \<Rightarrow> int \<Rightarrow> bytes \<Rightarrow> (client, unit) py" where
  "cl_player_handle_hub_response_error env p msg_cb_id argvs = cl_read (\<lambda>s.
     case dget (cp_hub_callback (cl_pobj s p)) msg_cb_id of
       Some (Some c) \<Rightarrow> block
         [cl_call_fn env (cb_error (cl_cobj s c)) (Ca_response argvs),
          cl_player_drop_callback p msg_cb_id]
     | _ \<Rightarrow> cl_print ''unhandle response error callback:{}'')"

definition cl_player_handle_hub_notify :: "cenv \<Rightarrow> nat \<Rightarrow> string \<Rightarrow> string \<Rightarrow> bytes \<Rightarrow> (client, unit) py" where
  "cl_player_handle_hub_notify env p method hub_name argvs = cl_read (\<lambda>s.
     cl_dispatch env (cp_hub_notify_callback (cl_pobj s p)) method (Ca_notify hub_name argvs)
       (cl_print ''unhandle notify method:{}''))"

definition cl_player_reg_hub_request_callback :: "nat \<Rightarrow> string \<Rightarrow> fn option \<Rightarrow> client \<Rightarrow> client" where
  "cl_player_reg_hub_request_callback p method f s =
     cl_upd_player p (\<lambda>ob. ob\<lparr>cp_hub_request_callback := dset method f (cp_hub_request_callback ob)\<rparr>) s"

definition cl_player_reg_hub_notify_callback :: "nat \<Rightarrow> string \<Rightarrow> fn option \<Rightarrow> client \<Rightarrow> client" where
  "cl_player_reg_hub_notify_callback p method f s =
     cl_upd_player p (\<lambda>ob. ob\<lparr>cp_hub_notify_callback := dset method f (cp_hub_notify_callback ob)\<rparr>) s"

definition cl_player_call_hub_request :: "cenv \<Rightarrow> nat \<Rightarrow> string \<Rightarrow> bytes \<Rightarrow> (client, int) py" where
  "cl_player_call_hub_request env p method argvs = cl_read (\<lambda>s.
     let msg_cb_id = cp_request_msg_cb_id (cl_pobj s p) in
     bindp (cl_get_next_cb_id (cp_class (cl_pobj s p))) (\<lambda>n.
     bindp (modify (cl_upd_player p (\<lambda>ob. ob\<lparr>cp_request_msg_cb_id := n\<rparr>))) (\<lambda>_. cl_read (\<lambda>s.
     bindp (cl_cast env (C_call_rpc (cp_entity_id (cl_pobj s p)) msg_cb_id method argvs)) (\<lambda>_.
       ret msg_cb_id)))))"

definition cl_player_reg_hub_callback :: "nat \<Rightarrow> int \<Rightarrow> nat option \<Rightarrow> client \<Rightarrow> client" where
  "cl_player_reg_hub_callback p msg_cb_id rsp s =
     cl_upd_player p (\<lambda>ob. ob\<lparr>cp_hub_callback := dset msg_cb_id rsp (cp_hub_callback ob)\<rparr>) s"

text \<open>\<open>call_hub_response\<close> hands \<open>context.call_rsp\<close> the entity id twice, one argument too many.\<close>

definition cl_player_call_hub_response :: "cenv \<Rightarrow> nat \<Rightarrow> int \<Rightarrow> bytes \<Rightarrow> (client, unit) py" where
  "cl_player_call_hub_response env p msg_cb_id argvs = raise TypeError"

definition cl_player_call_hub_response_error :: "cenv \<Rightarrow> nat \<Rightarrow> int \<Rightarrow> bytes \<Rightarrow> (client, unit) py" where
  "cl_player_call_hub_response_error env p msg_cb_id argvs = cl_read (\<lambda>s.
     cl_cast env (C_call_err (cp_entity_id (cl_pobj s p)) msg_cb_id argvs))"

definition cl_player_call_hub_notify :: "cenv \<Rightarrow> nat \<Rightarrow> string \<Rightarrow> bytes \<Rightarrow> (client, unit) py" where
  "cl_player_call_hub_notify env p method argvs = cl_read (\<lambda>s.
     cl_cast env (C_call_ntf (cp_entity_id (cl_pobj s p)) method argvs))"

definition cl_player_get :: "client \<Rightarrow> string \<Rightarrow> nat option" where
  "cl_player_get s entity_id = dget (cl_players s) entity_id"

definition cl_player_update :: "cenv \<Rightarrow> string \<Rightarrow> json \<Rightarrow> (client, unit) py" where
  "cl_player_update env entity_id argvs = cl_read (\<lambda>s. case cl_player_get s entity_id of
     None \<Rightarrow> ret () | Some p \<Rightarrow> ce_player_update env p argvs)"

definition cl_player_remove :: "string \<Rightarrow> client \<Rightarrow> client" where
  "cl_player_remove entity_id s =
     (if has_key (cl_players s) entity_id then s\<lparr>cl_players := ddel entity_id (cl_players s)\<rparr> else s)"

interpretation cl_player_registry: registry cl_player_get
  "\<lambda>k p s. s\<lparr>cl_players := dset k p (cl_players s)\<rparr>" cl_player_remove
  by unfold_locales (auto simp: cl_player_get_def cl_player_remove_def has_key_def)

subsection \<open>Sub-entities\<close>

definition cl_sub_add :: "nat \<Rightarrow> client \<Rightarrow> client" where
  "cl_sub_add x s = s\<lparr>cl_subentities := dset (cs_entity_id (cl_sobj s x)) x (cl_subentities s)\<rparr>"

definition cl_sub_init :: "nat \<Rightarrow> string \<Rightarrow> string \<Rightarrow> int \<Rightarrow> client \<Rightarrow> client" where
  "cl_sub_init x entity_type entity_id rnd s =
     cl_sub_add x (cl_upd_sub x (\<lambda>_. \<lparr>cs_entity_type = entity_type, cs_entity_id = entity_id,
       cs_request_msg_cb_id = rnd, cs_hub_notify_callback = [], cs_hub_callback = []\<rparr>) s)"

definition cl_sub_del_callback :: "nat \<Rightarrow> int \<Rightarrow> (client, bool) py" where
  "cl_sub_del_callback x msg_cb_id = (\<lambda>s.
     if \<not> has_key (cs_hub_callback (cl_sobj s x)) msg_cb_id then (Inr False, s)
     else (Inr True, cl_upd_sub x (\<lambda>ob. ob\<lparr>cs_hub_callback := ddel msg_cb_id (cs_hub_callback ob)\<rparr>) s))"

definition cl_sub_drop_callback :: "nat \<Rightarrow> int \<Rightarrow> (client, unit) py" where
  "cl_sub_drop_callback x msg_cb_id = (\<lambda>s.
     case delitem msg_cb_id (cs_hub_callback (cl_sobj s x)) of
       Inl e \<Rightarrow> (Inl e, s)
     | Inr d \<Rightarrow> (Inr (), cl_upd_sub x (\<lambda>ob. ob\<lparr>cs_hub_callback := d\<rparr>) s))"

definition cl_sub_handle_hub_response :: "cenv \<Rightarrow> nat \<Rightarrow> int \<Rightarrow> bytes \<Rightarrow> (client, unit) py" where
  "cl_sub_handle_hub_response env x msg_cb_id argvs = cl_read (\<lambda>s.
     case dget (cs_hub_callback (cl_sobj s x)) msg_cb_id of
       None \<Rightarrow> raise KeyError
     | Some None \<Rightarrow> cl_print ''unhandle response callback:{}''
     | Some (Some c) \<Rightarrow> block
         [cl_call_fn env (cb_callback (cl_cobj s c)) (Ca_response argvs), cl_sub_drop_callback x msg_cb_id])"

definition cl_sub_handle_hub_response_error :: "cenv \<Rightarrow> nat \<Rightarrow> int \<Rightarrow> bytes \<Rightarrow> (client, unit) py" where
  "cl_sub_handle_hub_response_error env x msg_cb_id argvs = cl_read (\<lambda>s.
     case dget (cs_hub_callback (cl_sobj s x)) msg_cb_id of
       None \<Rightarrow> raise KeyError
     | Some None \<Rightarrow> cl_print ''unhandle response error callback:{}''
     | Some (Some c) \<Rightarrow> block
         [cl_call_fn env (cb_error (cl_cobj s c)) (Ca_response argvs), cl_sub_drop_callback x msg_cb_id])"

definition cl_sub_handle_hub_notify :: "cenv \<Rightarrow> nat \<Rightarrow> string \<Rightarrow> string \<Rightarrow> bytes \<Rightarrow> (client, unit) py" where
  "cl_sub_handle_hub_notify env x method hub_name argvs = cl_read (\<lambda>s.
     if \<not> has_key (cs_hub_notify_callback (cl_sobj s x)) method then raise KeyError
     else cl_dispatch env (cs_hub_notify_callback (cl_sobj s x)) method (Ca_notify hub_name argvs)
       (cl_print ''unhandle notify method:{}''))"

definition cl_sub_reg_hub_notify_callback :: "nat \<Rightarrow> string \<Rightarrow> fn option \<Rightarrow> client \<Rightarrow> client" where
  "cl_sub_reg_hub_notify_callback x method f s =
     cl_upd_sub x (\<lambda>ob. ob\<lparr>cs_hub_notify_callback := dset method f (cs_hub_notify_callback ob)\<rparr>) s"

definition cl_sub_call_hub_request :: "cenv \<Rightarrow> nat \<Rightarrow> string \<Rightarrow> bytes \<Rightarrow> (client, int) py" where
  "cl_sub_call_hub_request env x method argvs = cl_read (\<lambda>s.
     let ob = cl_sobj s x; msg_cb_id = cs_request_msg_cb_id ob in
     bindp (block
       [modify (cl_upd_sub x (\<lambda>ob. ob\<lparr>cs_request_msg_cb_id := cs_request_msg_cb_id ob + 1\<rparr>)),
        cl_cast env (C_call_rpc (cs_entity_id ob) msg_cb_id method argvs)])
       (\<lambda>_. ret msg_cb_id))"

definition cl_sub_reg_hub_callback :: "nat \<Rightarrow> int \<Rightarrow> nat option \<Rightarrow> client \<Rightarrow> client" where
  "cl_sub_reg_hub_callback x msg_cb_id rsp s =
     cl_upd_sub x (\<lambda>ob. ob\<lparr>cs_hub_callback := dset msg_cb_id rsp (cs_hub_callback ob)\<rparr>) s"

text \<open>\<open>call_hub_notify\<close> reads \<open>self.source_hub_name\<close>, an attribute the client's class does not have.\<close>

definition cl_sub_call_hub_notify :: "cenv \<Rightarrow> nat \<Rightarrow> string \<Rightarrow> bytes \<Rightarrow> (client, unit) py" where
  "cl_sub_call_hub_notify env x method argvs = raise AttributeError"

definition cl_sub_get :: "client \<Rightarrow> string \<Rightarrow> nat option" where
  "cl_sub_get s entity_id = dget (cl_subentities s) entity_id"

definition cl_sub_update :: "cenv \<Rightarrow> string \<Rightarrow> json \<Rightarrow> (client, unit) py" where
  "cl_sub_update env entity_id argvs = cl_read (\<lambda>s. case cl_sub_get s entity_id of
     None \<Rightarrow> ret () | Some x \<Rightarrow> ce_sub_update env x argvs)"

definition cl_sub_remove :: "string \<Rightarrow> client \<Rightarrow> client" where
  "cl_sub_remove entity_id s =
     (if has_key (cl_subentities s) entity_id then s\<lparr>cl_subentities := ddel entity_id (cl_subentities s)\<rparr> else s)"

interpretation cl_sub_registry: registry cl_sub_get
  "\<lambda>k x s. s\<lparr>cl_subentities := dset k x (cl_subentities s)\<rparr>" cl_sub_remove
  by unfold_locales (auto simp: cl_sub_get_def cl_sub_remove_def has_key_def)

subsection \<open>Receivers\<close>

definition cl_recv_add :: "nat \<Rightarrow> client \<Rightarrow> client" where
  "cl_recv_add x s = s\<lparr>cl_receivers := dset (cr_entity_id (cl_robj s x)) x (cl_receivers s)\<rparr>"

definition cl_recv_init :: "nat \<Rightarrow> string \<Rightarrow> string \<Rightarrow> client \<Rightarrow> client" where
  "cl_recv_init x entity_type entity_id s =
     cl_recv_add x (cl_upd_recv x (\<lambda>_. \<lparr>cr_entity_type = entity_type, cr_entity_id = entity_id,
       cr_hub_notify_callback = []\<rparr>) s)"

text \<open>The unknown method is reported by \<open>self.error\<close>, which the client's classes do not have.\<close>

definition cl_recv_handle_hub_notify :: "cenv \<Rightarrow> nat \<Rightarrow> string \<Rightarrow> string \<Rightarrow> bytes \<Rightarrow> (client, unit) py" where
  "cl_recv_handle_hub_notify env x method hub_name argvs = cl_read (\<lambda>s.
     cl_dispatch env (cr_hub_notify_callback (cl_robj s x)) method (Ca_notify hub_name argvs)
       (raise AttributeError))"

definition cl_recv_reg_hub_notify_callback :: "nat \<Rightarrow> string \<Rightarrow> fn option \<Rightarrow> client \<Rightarrow> client" where
  "cl_recv_reg_hub_notify_callback x method f s =
     cl_upd_recv x (\<lambda>ob. ob\<lparr>cr_hub_notify_callback := dset method f (cr_hub_notify_callback ob)\<rparr>) s"

definition cl_recv_get :: "client \<Rightarrow> string \<Rightarrow> nat option" where
  "cl_recv_get s entity_id = dget (cl_receivers s) entity_id"

definition cl_recv_update :: "cenv \<Rightarrow> string \<Rightarrow> json \<Rightarrow> (client, unit) py" where
  "cl_recv_update env entity_id argvs = cl_read (\<lambda>s. case cl_recv_get s entity_id of
     None \<Rightarrow> ret () | Some x \<Rightarrow> ce_recv_update env x argvs)"

definition cl_recv_remove :: "string \<Rightarrow> client \<Rightarrow> client" where
  "cl_recv_remove entity_id s =
     (if has_key (cl_receivers s) entity_id then s\<lparr>cl_receivers := ddel entity_id (cl_receivers s)\<rparr> else s)"

interpretation cl_recv_registry: registry cl_recv_get
  "\<lambda>k x s. s\<lparr>cl_receivers := dset k x (cl_receivers s)\<rparr>" cl_recv_remove
  by unfold_locales (auto simp: cl_recv_get_def cl_recv_remove_def has_key_def)

subsection \<open>Scene objects\<close>

text \<open>
  The manager is the only holder of a scene object, so the object is the value in its table.
  Of the reads of the message only the first can raise, when it is not a dict.
\<close>

definition parse_and_store :: "json \<Rightarrow> scene_object \<Rightarrow> pyexn + scene_object" where
  "parse_and_store argvs x =
     bindr (jget argvs ''type'' (JStr [])) (\<lambda>ty.
     bindr (jget argvs ''transform'' (JObj [])) (\<lambda>tr.
     bindr (jget argvs ''mesh_ref'' JNull) (\<lambda>mesh.
     bindr (jget argvs ''color'' JNull) (\<lambda>color.
     bindr (jget argvs ''dimensions'' JNull) (\<lambda>dims.
       Inr (x\<lparr>so_object_type := ty, so_transform := tr, so_mesh_ref := mesh,
              so_color := color, so_dimensions := dims\<rparr>))))))"

definition blank_scene_object :: "string \<Rightarrow> string \<Rightarrow> scene_object" where
  "blank_scene_object entity_type entity_id = \<lparr>so_entity_type = entity_type, so_entity_id = entity_id,
     so_object_type = JNull, so_transform = JNull, so_mesh_ref = JNull, so_color = JNull, so_dimensions = JNull\<rparr>"

definition scene_manager_add :: "scene_object \<Rightarrow> client \<Rightarrow> client" where
  "scene_manager_add r s = s\<lparr>cl_scene_objects := dset (so_entity_id r) r (cl_scene_objects s)\<rparr>"

definition create_scene_object :: "string \<Rightarrow> string \<Rightarrow> json \<Rightarrow> (client, unit) py" where
  "create_scene_object entity_type entity_id argvs =
     bindp (lift_res (parse_and_store argvs (blank_scene_object entity_type entity_id)))
       (\<lambda>r. modify (scene_manager_add r))"

definition scene_manager_update :: "string \<Rightarrow> json \<Rightarrow> (client, unit) py" where
  "scene_manager_update entity_id argvs = cl_read (\<lambda>s. case dget (cl_scene_objects s) entity_id of
     None \<Rightarrow> ret ()
   | Some r \<Rightarrow> bindp (lift_res (parse_and_store argvs r))
       (\<lambda>r'. modify (\<lambda>s. s\<lparr>cl_scene_objects := dset entity_id r' (cl_scene_objects s)\<rparr>)))"

definition scene_manager_remove :: "string \<Rightarrow> client \<Rightarrow> client" where
  "scene_manager_remove entity_id s = s\<lparr>cl_scene_objects := ddel entity_id (cl_scene_objects s)\<rparr>"

subsection \<open>The contract of a table of open requests\<close>

text \<open>
  What the response tables of players and sub-entities promise their callers: an answer that
  returns has closed its request, and the release of a timeout reports whether the request
  was still open.
\<close>

locale open_requests =
  fixes pending :: "client \<Rightarrow> (int, nat option) dict"
    and answer :: "int \<Rightarrow> bytes \<Rightarrow> (client, unit) py"
    and release :: "int \<Rightarrow> (client, bool) py"
  assumes answer_closes: "dget (pending s) i = Some (Some c) \<Longrightarrow> answer i b s = (Inr (), t) \<Longrightarrow> dget (pending t) i = None"
    and release_unknown: "dget (pending s) i = None \<Longrightarrow> release i s = (Inr False, s)"
    and release_known: "dget (pending s) i = Some co \<Longrightarrow> \<exists>t. release i s = (Inr True, t) \<and> dget (pending t) i = None"
begin

lemma no_timeout_after_answer:
  "dget (pending s) i = Some (Some c) \<Longrightarrow> answer i b s = (Inr (), t) \<Longrightarrow>
   cl_call_timeout env (release i) c' t = (Inr (), t)"
  by (simp add: cl_call_timeout_def release_unknown [OF answer_closes])

lemma one_timeout:
  "release i s = (Inr True, t) \<Longrightarrow> cl_call_timeout env (release i) c' t = (Inr (), t)"
proof -
  assume *: "release i s = (Inr True, t)"
  then obtain co where "dget (pending s) i = Some co"
    using release_unknown [of s i] by (cases "dget (pending s) i") auto
  from release_known [OF this] * have "dget (pending t) i = None" by simp
  then show ?thesis by (simp add: cl_call_timeout_def release_unknown)
qed

end

lemma closes_player:
  assumes "bindp m (\<lambda>_. bindp (cl_player_drop_callback p i) (\<lambda>_. ret ())) s = (Inr (), t)"
  shows "dget (cp_hub_callback (cl_pobj t p)) i = None"
proof -
  obtain r u where u: "m s = (r, u)" by (cases "m s")
  with assms obtain v where "r = Inr v" by (cases r) auto
  with assms u show ?thesis
    by (cases "dget (cp_hub_callback (cl_pobj u p)) i")
       (auto simp: cl_player_drop_callback_def cl_upd_defs)
qed

lemma closes_sub:
  assumes "bindp m (\<lambda>_. bindp (cl_sub_drop_callback x i) (\<lambda>_. ret ())) s = (Inr (), t)"
  shows "dget (cs_hub_callback (cl_sobj t x)) i = None"
proof -
  obtain r u where u: "m s = (r, u)" by (cases "m s")
  with assms obtain v where "r = Inr v" by (cases r) auto
  with assms u show ?thesis
    by (cases "dget (cs_hub_callback (cl_sobj u x)) i")
       (auto simp: cl_sub_drop_callback_def cl_upd_defs)
qed

interpretation cl_player_rsp: open_requests "\<lambda>s. cp_hub_callback (cl_pobj s p)"
  "cl_player_handle_hub_response env p" "cl_player_del_callback p" for env p
  by unfold_locales
     (auto simp: cl_player_handle_hub_response_def cl_player_del_callback_def has_key_def cl_upd_defs
        simp del: py_apply intro: closes_player)

interpretation cl_player_err: open_requests "\<lambda>s. cp_hub_callback (cl_pobj s p)"
  "cl_player_handle_hub_response_error env p" "cl_player_del_callback p" for env p
  by unfold_locales
     (auto simp: cl_player_handle_hub_response_error_def cl_player_del_callback_def has_key_def cl_upd_defs
        simp del: py_apply intro: closes_player)

interpretation cl_sub_rsp: open_requests "\<lambda>s. cs_hub_callback (cl_sobj s x)"
  "cl_sub_handle_hub_response env x" "cl_sub_del_callback x" for env x
  by unfold_locales
     (auto simp: cl_sub_handle_hub_response_def cl_sub_del_callback_def has_key_def cl_upd_defs
        simp del: py_apply intro: closes_sub)

interpretation cl_sub_err: open_requests "\<lambda>s. cs_hub_callback (cl_sobj s x)"
  "cl_sub_handle_hub_response_error env x" "cl_sub_del_callback x" for env x
  by unfold_locales
     (auto simp: cl_sub_handle_hub_response_error_def cl_sub_del_callback_def has_key_def cl_upd_defs
        simp del: py_apply intro: closes_sub)

end
