(* ===== verification/Client_App.thy ===== *)
theory Client_App
  imports Client_Entities
begin

section \<open>Client: the application, its message handlers and its loop\<close>

text \<open>
  \<open>app.py\<close> and \<open>conn_msg_handle.py\<close> of \<open>src/client/engine\<close>.  \<open>app()\<close> is the singleton, so every
  operation acts on the state of the process.  A message of the native side is one call of a
  handler; the heartbeat timer is the one value the process keeps, and \<open>heartbeat_due\<close> is what
  the timer thread does when its three seconds are over.
\<close>

subsection \<open>The application\<close>

definition new_client :: client where
  "new_client = \<lparr>cl_is_run = True, cl_conn_id = None, cl_conn_id_callback = None, cl_create_method = [],
     cl_players = [], cl_subentities = [], cl_receivers = [], cl_scene_objects = [],
     cl_global_callback = [], cl_anim = new_anim, cl_heartbeat_timer = None, cl_next_msg_cb_id = [(''player'', 100000)],
     cl_pobj = (\<lambda>_. \<lparr>cp_class = (''player'', []), cp_entity_type = [], cp_entity_id = [], cp_request_msg_cb_id = 0,
       cp_hub_request_callback = [], cp_hub_notify_callback = [], cp_hub_callback = []\<rparr>),
     cl_sobj = (\<lambda>_. \<lparr>cs_entity_type = [], cs_entity_id = [], cs_request_msg_cb_id = 0,
       cs_hub_notify_callback = [], cs_hub_callback = []\<rparr>),
     cl_robj = (\<lambda>_. \<lparr>cr_entity_type = [], cr_entity_id = [], cr_hub_notify_callback = []\<rparr>),
     cl_cobj = (\<lambda>_. \<lparr>cb_callback = None, cb_error = None, cb_timeout = None, cb_timer = None\<rparr>),
     cl_sent = [], cl_printed = [], cl_coros = []\<rparr>"

definition cl_register :: "string \<Rightarrow> creator \<Rightarrow> client \<Rightarrow> client" where
  "cl_register entity_type creator s =
     s\<lparr>cl_create_method := dset entity_type creator (cl_create_method s)\<rparr>"

definition cl_heartbeats :: "cenv \<Rightarrow> (client, unit) py" where
  "cl_heartbeats env = cl_read (\<lambda>s. if \<not> cl_is_run s then ret () else block
     [modify (\<lambda>s. s\<lparr>cl_heartbeat_timer := Some (timer_start (new_timer (Some 3000)))\<rparr>),
      cl_cast env C_heartbeats])"

definition heartbeat_due :: "cenv \<Rightarrow> (client, unit) py" where
  "heartbeat_due env = cl_read (\<lambda>s. case cl_heartbeat_timer s of
     Some t \<Rightarrow> if timer_will_fire t then cl_heartbeats env else ret ()
   | None \<Rightarrow> ret ())"

definition cl_build :: "cenv \<Rightarrow> (client, unit) py" where
  "cl_build env = block
     [modify (\<lambda>s. s\<lparr>cl_players := [], cl_subentities := [], cl_receivers := [], cl_scene_objects := []\<rparr>),
      modify (cl_register entity_type_static (Scene_creator entity_type_static)),
      modify (cl_register entity_type_dynamic (Scene_creator entity_type_dynamic)),
      cl_heartbeats env]"

text \<open>\<open>on_call_global\<close> of the application takes a method, a hub and the arguments.\<close>

definition cl_app_on_call_global :: "cenv \<Rightarrow> string \<Rightarrow> string \<Rightarrow> bytes \<Rightarrow> (client, unit) py" where
  "cl_app_on_call_global env method hub_name argvs = cl_read (\<lambda>s.
     cl_dispatch env (cl_global_callback s) method (Ca_notify hub_name argvs)
       (cl_print ''unhandle global method:{}''))"

definition cl_register_global_method :: "string \<Rightarrow> fn option \<Rightarrow> client \<Rightarrow> client" where
  "cl_register_global_method method f s = s\<lparr>cl_global_callback := dset method f (cl_global_callback s)\<rparr>"

definition cl_connect_tcp :: "cenv \<Rightarrow> string \<Rightarrow> int \<Rightarrow> fn option \<Rightarrow> (client, bool) py" where
  "cl_connect_tcp env addr port cb = bindp (block
     [cl_print ''connect_tcp begin!'', modify (\<lambda>s. s\<lparr>cl_conn_id_callback := cb\<rparr>)])
     (\<lambda>_. cl_send env (C_connect_tcp addr port))"

definition cl_connect_ws :: "cenv \<Rightarrow> string \<Rightarrow> fn option \<Rightarrow> (client, bool) py" where
  "cl_connect_ws env host cb = bindp (block
     [cl_print ''connect_ws begin!'', modify (\<lambda>s. s\<lparr>cl_conn_id_callback := cb\<rparr>)])
     (\<lambda>_. cl_send env (C_connect_ws host))"

definition cl_login :: "cenv \<Rightarrow> string \<Rightarrow> json \<Rightarrow> (client, bool) py" where
  "cl_login env sdk_uuid argvs = cl_send env (C_login sdk_uuid (ce_dumps env argvs))"

definition cl_reconnect :: "cenv \<Rightarrow> string \<Rightarrow> json \<Rightarrow> (client, bool) py" where
  "cl_reconnect env account_id argvs = cl_send env (C_reconnect account_id (ce_dumps env argvs))"

definition cl_request_hub_service :: "cenv \<Rightarrow> string \<Rightarrow> json \<Rightarrow> (client, bool) py" where
  "cl_request_hub_service env service_name argvs =
     cl_send env (C_request_hub_service service_name (ce_dumps env argvs))"

definition cl_create_entity :: "cenv \<Rightarrow> string \<Rightarrow> string \<Rightarrow> json \<Rightarrow> (client, unit) py" where
  "cl_create_entity env entity_type entity_id argvs = cl_read (\<lambda>s.
     case dget (cl_create_method s) entity_type of
       None \<Rightarrow> cl_print ''Warning: No creator registered for entity type''
     | Some (Scene_creator ty) \<Rightarrow> create_scene_object ty entity_id argvs
     | Some (User_creator f) \<Rightarrow> ce_invoke env f (Ca_create entity_id argvs))"

definition cl_update_entity :: "cenv \<Rightarrow> string \<Rightarrow> string \<Rightarrow> json \<Rightarrow> (client, unit) py" where
  "cl_update_entity env entity_type entity_id argvs = block
     [cl_player_update env entity_id argvs, cl_sub_update env entity_id argvs,
      cl_recv_update env entity_id argvs, scene_manager_update entity_id argvs]"

definition cl_delete_entity :: "string \<Rightarrow> client \<Rightarrow> client" where
  "cl_delete_entity entity_id s = scene_manager_remove entity_id (cl_recv_remove entity_id
     (cl_sub_remove entity_id (cl_player_remove entity_id s)))"

definition cl_run_coroutine_async :: "coro \<Rightarrow> client \<Rightarrow> client" where
  "cl_run_coroutine_async c s = s\<lparr>cl_coros := cl_coros s @ [c]\<rparr>"

definition cl_close :: "client \<Rightarrow> client" where
  "cl_close s = s\<lparr>cl_is_run := False, cl_heartbeat_timer := map_option timer_cancel (cl_heartbeat_timer s)\<rparr>"

subsection \<open>The messages of the native side\<close>

definition cl_on_conn_id :: "cenv \<Rightarrow> string \<Rightarrow> (client, unit) py" where
  "cl_on_conn_id env conn_id = block
     [cl_print ''on_conn_id begin'',
      modify (\<lambda>s. s\<lparr>cl_conn_id := Some conn_id\<rparr>),
      cl_read (\<lambda>s. cl_call_fn env (cl_conn_id_callback s) (Ca_conn_id conn_id)),
      modify (\<lambda>s. s\<lparr>cl_conn_id_callback := None\<rparr>),
      cl_print ''on_conn_id end'']"

definition cl_on_create_remote_entity :: "cenv \<Rightarrow> string \<Rightarrow> string \<Rightarrow> bytes \<Rightarrow> (client, unit) py" where
  "cl_on_create_remote_entity env entity_type entity_id argvs =
     bindp (lift_res (ce_loads env argvs)) (cl_create_entity env entity_type entity_id)"

definition cl_on_delete_remote_entity :: "string \<Rightarrow> (client, unit) py" where
  "cl_on_delete_remote_entity entity_id = modify (cl_delete_entity entity_id)"

definition cl_on_refresh_entity :: "cenv \<Rightarrow> string \<Rightarrow> string \<Rightarrow> bytes \<Rightarrow> (client, unit) py" where
  "cl_on_refresh_entity env entity_type entity_id argvs =
     bindp (lift_res (ce_loads env argvs)) (cl_update_entity env entity_type entity_id)"

definition cl_on_kick_off :: "cenv \<Rightarrow> string \<Rightarrow> (client, unit) py" where
  "cl_on_kick_off env prompt_info = block [modify cl_close, ce_on_kick_off env prompt_info]"

definition cl_on_transfer_complete :: "cenv \<Rightarrow> (client, unit) py" where
  "cl_on_transfer_complete env = ce_on_transfer_complete env"

definition cl_on_call_rpc :: "cenv \<Rightarrow> string \<Rightarrow> string \<Rightarrow> int \<Rightarrow> string \<Rightarrow> bytes \<Rightarrow> (client, unit) py" where
  "cl_on_call_rpc env hub_name entity_id msg_cb_id method argvs = cl_read (\<lambda>s.
     case cl_player_get s entity_id of
       Some p \<Rightarrow> cl_player_handle_hub_request env p method hub_name msg_cb_id argvs
     | None \<Rightarrow> cl_print ''unhandle hub request method:{} entity:{}'')"

definition cl_on_call_rsp :: "cenv \<Rightarrow> string \<Rightarrow> int \<Rightarrow> bytes \<Rightarrow> (client, unit) py" where
  "cl_on_call_rsp env entity_id msg_cb_id argvs = cl_read (\<lambda>s.
     case cl_player_get s entity_id of
       Some p \<Rightarrow> cl_player_handle_hub_response env p msg_cb_id argvs
     | None \<Rightarrow> (case cl_sub_get s entity_id of
         Some x \<Rightarrow> cl_sub_handle_hub_response env x msg_cb_id argvs
       | None \<Rightarrow> cl_print ''unhandle hub response msg_cb_id:{} entity:{}''))"

definition cl_on_call_err :: "cenv \<Rightarrow> string \<Rightarrow> int \<Rightarrow> bytes \<Rightarrow> (client, unit) py" where
  "cl_on_call_err env entity_id msg_cb_id argvs = cl_read (\<lambda>s.
     case cl_player_get s entity_id of
       Some p \<Rightarrow> cl_player_handle_hub_response_error env p msg_cb_id argvs
     | None \<Rightarrow> (case cl_sub_get s entity_id of
         Some x \<Rightarrow> cl_sub_handle_hub_response_error env x msg_cb_id argvs
       | None \<Rightarrow> cl_print ''unhandle hub response error msg_cb_id:{} entity:{}''))"

definition cl_on_call_ntf :: "cenv \<Rightarrow> string \<Rightarrow> string \<Rightarrow> string \<Rightarrow> bytes \<Rightarrow> (client, unit) py" where
  "cl_on_call_ntf env hub_name entity_id method argvs = cl_read (\<lambda>s.
     case cl_player_get s entity_id of
       Some p \<Rightarrow> cl_player_handle_hub_notify env p method hub_name argvs
     | None \<Rightarrow> (case cl_sub_get s entity_id of
         Some x \<Rightarrow> cl_sub_handle_hub_notify env x method hub_name argvs
       | None \<Rightarrow> (case cl_recv_get s entity_id of
           Some x \<Rightarrow> cl_recv_handle_hub_notify env x method hub_name argvs
         | None \<Rightarrow> cl_print ''unhandle hub response notify msg_cb_id:{} entity:{}'')))"

text \<open>The handler passes the method and the arguments on, without the hub.\<close>

definition cl_on_call_global :: "cenv \<Rightarrow> string \<Rightarrow> bytes \<Rightarrow> (client, unit) py" where
  "cl_on_call_global env method argvs = raise TypeError"

subsection \<open>The loop\<close>

text \<open>
  A call of the native pump, \<open>handle m\<close>, hands over one message; one that raises is reported
  and the loop goes on with the next.  A turn of \<open>poll\<close> has the messages that arrived and the marker events of the native side, \<open>None\<close> while
  it has no \<open>drain_marker_events\<close>.  The result is \<open>None\<close> when a marker callback never returns.
\<close>

fun cl_poll_conn_msg :: "('m \<Rightarrow> (client, unit) py) \<Rightarrow> 'm list \<Rightarrow> client \<Rightarrow> client" where
  "cl_poll_conn_msg handle [] s = s"
| "cl_poll_conn_msg handle (m # ms) s =
     cl_poll_conn_msg handle ms (state_of (try_except (handle m) (\<lambda>e. cl_print ''Poll error: {e}'') s))"

definition cl_fire_all :: "cenv \<Rightarrow> (string \<times> string \<times> string) list \<Rightarrow> client \<Rightarrow> client option" where
  "cl_fire_all env = anim_fire_all cl_anim (\<lambda>f name clip time. ce_invoke env f (Ca_marker name clip time))
     (\<lambda>e s. s\<lparr>cl_printed := cl_printed s @ [''[AnimationEvents] Error in handler for marker_name: {e}'']\<rparr>)"

fun cl_poll :: "cenv \<Rightarrow> ('m \<Rightarrow> (client, unit) py) \<Rightarrow> ('m list \<times> (string \<times> string \<times> string) list option) list \<Rightarrow>
    client \<Rightarrow> client option" where
  "cl_poll env handle [] s = Some s"
| "cl_poll env handle ((ms, evs) # turns) s =
     (if cl_is_run s then
        Option.bind (cl_fire_all env (case evs of None \<Rightarrow> [] | Some es \<Rightarrow> es) (cl_poll_conn_msg handle ms s))
          (cl_poll env handle turns)
      else Some s)"

subsection \<open>Request ids\<close>

text \<open>
  A run of the game's code: players are made, each of a class of the game, and ask the hub
  things.  \<open>id_run\<close> collects the ids \<open>call_hub_request\<close> returns, each with the class that drew it.
\<close>

datatype id_op = Make_player nat game_class string string | Ask nat string bytes

fun id_run :: "cenv \<Rightarrow> id_op list \<Rightarrow> client \<Rightarrow> (string \<times> int) list \<times> client" where
  "id_run env [] s = ([], s)"
| "id_run env (Make_player p cls ty k # ops) s = id_run env ops (state_of (cl_player_init p cls ty k s))"
| "id_run env (Ask p method b # ops) s =
     (case cl_player_call_hub_request env p method b s of
        (Inr i, t) \<Rightarrow> (case id_run env ops t of (js, u) \<Rightarrow> ((fst (cp_class (cl_pobj s p)), i) # js, u))
      | (Inl e, t) \<Rightarrow> id_run env ops t)"

text \<open>Only players that exist ask, a new player is a new object, and its class is one of players.\<close>

fun ops_ok :: "nat set \<Rightarrow> id_op list \<Rightarrow> bool" where
  "ops_ok live [] = True"
| "ops_ok live (Make_player p cls ty k # ops) =
     (p \<notin> live \<and> ''player'' \<in> set (fst cls # snd cls) \<and> ops_ok (insert p live) ops)"
| "ops_ok live (Ask p method b # ops) = (p \<in> live \<and> ops_ok live ops)"

fun rpc_id :: "client_call \<Rightarrow> int option" where
  "rpc_id (C_call_rpc k i method b) = Some i"
| "rpc_id _ = None"

text \<open>The id a player holds, with its class, and the counter of a class.\<close>

definition held_id :: "client \<Rightarrow> nat \<Rightarrow> string \<times> int" where
  "held_id s p = (fst (cp_class (cl_pobj s p)), cp_request_msg_cb_id (cl_pobj s p))"

definition beyond :: "client \<Rightarrow> string \<times> int \<Rightarrow> bool" where
  "beyond s j = (\<forall>n. dget (cl_next_msg_cb_id s) (fst j) = Some n \<longrightarrow> n < snd j)"

definition ids_ok :: "nat set \<Rightarrow> client \<Rightarrow> bool" where
  "ids_ok live s = (inj_on (held_id s) live \<and> has_key (cl_next_msg_cb_id s) ''player'' \<and>
     (\<forall>p \<in> live. has_key (cl_next_msg_cb_id s) (fst (held_id s p)) \<and> \<not> beyond s (held_id s p)))"

lemma class_attr_found: "c \<in> set cs \<Longrightarrow> has_key d c \<Longrightarrow> \<exists>v. class_attr d cs = Some v"
  by (induction cs) (auto simp: has_key_def split: option.split)

lemma class_attr_own: "dget d c = Some v \<Longrightarrow> class_attr d (c # cs) = Some v"
  by simp

text \<open>A draw of player \<open>p\<close>, of the class \<open>c\<close>: the counter of the class is raised and its value held.\<close>

definition draws :: "nat \<Rightarrow> string \<Rightarrow> client \<Rightarrow> client \<Rightarrow> bool" where
  "draws p c s t = (\<exists>n. cl_next_msg_cb_id t = dset c n (cl_next_msg_cb_id s) \<and> held_id t p = (c, n) \<and>
     beyond s (c, n) \<and> (\<forall>q. q \<noteq> p \<longrightarrow> held_id t q = held_id s q))"

lemma draws_beyond: "draws p c s t \<Longrightarrow> beyond t j \<Longrightarrow> beyond s j"
  by (fastforce simp: draws_def beyond_def split: if_splits)

lemma draws_held: "draws p c s t \<Longrightarrow> beyond s (held_id t p)"
  by (auto simp: draws_def)

lemma ids_ok_draws:
  assumes ok: "ids_ok live s" and d: "draws p c s t"
  shows "ids_ok (insert p live) t"
proof -
  obtain n where n: "cl_next_msg_cb_id t = dset c n (cl_next_msg_cb_id s)" "held_id t p = (c, n)"
    "beyond s (c, n)" "\<And>q. q \<noteq> p \<Longrightarrow> held_id t q = held_id s q"
    using d by (auto simp: draws_def)
  have new: "held_id t q \<noteq> held_id t p" if "q \<in> live" "q \<noteq> p" for q
    using ok n that by (auto simp: ids_ok_def)
  have "inj_on (held_id t) (insert p live)"
  proof (rule inj_onI)
    fix q r assume *: "q \<in> insert p live" "r \<in> insert p live" "held_id t q = held_id t r"
    show "q = r"
    proof (cases "q = p \<or> r = p")
      case True
      with * new show ?thesis by (metis insertE)
    next
      case False
      with * n(4) have "q \<in> live" "r \<in> live" "held_id s q = held_id s r" by auto
      with ok show ?thesis by (auto simp: ids_ok_def inj_on_def)
    qed
  qed
  moreover have "has_key (cl_next_msg_cb_id t) (fst (held_id t q)) \<and> \<not> beyond t (held_id t q)"
    if "q \<in> insert p live" for q
  proof (cases "q = p")
    case True
    then show ?thesis by (simp add: n(1,2) beyond_def has_key_def)
  next
    case False
    with that ok n(4) have "has_key (cl_next_msg_cb_id s) (fst (held_id t q))" "\<not> beyond s (held_id t q)"
      by (auto simp: ids_ok_def)
    moreover from this(2) have "\<not> beyond t (held_id t q)" using draws_beyond [OF d] by blast
    ultimately show ?thesis by (simp add: n(1) has_key_def)
  qed
  ultimately show ?thesis using ok by (auto simp: ids_ok_def n(1) has_key_def)
qed

lemma init_draws:
  assumes "ids_ok live s" and "''player'' \<in> set (fst cls # snd cls)"
  shows "draws p (fst cls) s (state_of (cl_player_init p cls ty k s))"
    and "cl_sent (state_of (cl_player_init p cls ty k s)) = cl_sent s"
proof -
  have "has_key (cl_next_msg_cb_id s) ''player''" using assms(1) by (simp add: ids_ok_def)
  from class_attr_found [OF assms(2) this] obtain v where
    v: "class_attr (cl_next_msg_cb_id s) (fst cls # snd cls) = Some v" by blast
  then have "beyond s (fst cls, v + 1)" by (auto simp: beyond_def)
  with v show "draws p (fst cls) s (state_of (cl_player_init p cls ty k s))"
    "cl_sent (state_of (cl_player_init p cls ty k s)) = cl_sent s"
    by (auto simp: cl_player_init_def cl_get_next_cb_id_def cl_player_add_def cl_upd_defs draws_def held_id_def
        simp del: class_attr.simps)
qed

lemma ask_draws:
  assumes "ids_ok live s" and "p \<in> live"
  obtains t where "cl_player_call_hub_request env p method b s = (Inr (snd (held_id s p)), t)"
    "draws p (fst (held_id s p)) s t"
    "cl_sent t = cl_sent s @ [C_call_rpc (cp_entity_id (cl_pobj s p)) (snd (held_id s p)) method b]"
proof -
  let ?cls = "cp_class (cl_pobj s p)"
  obtain v where v: "dget (cl_next_msg_cb_id s) (fst ?cls) = Some v"
    using assms by (auto simp: ids_ok_def held_id_def has_key_def)
  then have "class_attr (cl_next_msg_cb_id s) (fst ?cls # snd ?cls) = Some v" by (rule class_attr_own)
  moreover have "beyond s (fst ?cls, v + 1)" using v by (simp add: beyond_def)
  ultimately show thesis
    by (intro that [of "state_of (cl_player_call_hub_request env p method b s)"])
       (simp_all add: cl_player_call_hub_request_def cl_get_next_cb_id_def cl_upd_defs Let_def
        draws_def held_id_def del: class_attr.simps)
qed

text \<open>Every id of a run is one a living player holds at its start, or is drawn in the run.\<close>

lemma id_run_ids:
  assumes "ids_ok live s" and "ops_ok live ops"
  shows "distinct (fst (id_run env ops s)) \<and>
    (\<forall>j \<in> set (fst (id_run env ops s)). j \<in> held_id s ` live \<or> beyond s j) \<and>
    List.map_filter rpc_id (cl_sent (snd (id_run env ops s))) =
      List.map_filter rpc_id (cl_sent s) @ List.map snd (fst (id_run env ops s))"
  using assms
proof (induction ops arbitrary: live s)
  case Nil
  then show ?case by simp
next
  case (Cons op ops)
  show ?case
  proof (cases op)
    case (Make_player p cls ty k)
    let ?t = "state_of (cl_player_init p cls ty k s)"
    have cls: "''player'' \<in> set (fst cls # snd cls)" and ops: "ops_ok (insert p live) ops" and p: "p \<notin> live"
      using Cons.prems(2) by (simp_all add: Make_player)
    note d = init_draws [OF Cons.prems(1) cls, of p ty k]
    note IH = Cons.IH [OF ids_ok_draws [OF Cons.prems(1) d(1)] ops]
    have "j \<in> held_id s ` live \<or> beyond s j" if "j \<in> held_id ?t ` insert p live \<or> beyond ?t j" for j
    proof -
      have "\<And>q. q \<in> live \<Longrightarrow> held_id ?t q = held_id s q"
        using d(1) p by (auto simp: draws_def)
      with that show ?thesis
      proof (elim disjE imageE insertE)
        fix q assume "j = held_id ?t q" "q = p"
        with draws_held [OF d(1)] show ?thesis by simp
      qed (use draws_beyond [OF d(1)] in auto)
    qed
    with IH d(2) show ?thesis by (auto simp: Make_player)
  next
    case (Ask p mname bs)
    then have p: "p \<in> live" "ops_ok live ops" "insert p live = live" using Cons.prems(2) by auto
    let ?j = "held_id s p"
    obtain t where t: "cl_player_call_hub_request env p mname bs s = (Inr (snd ?j), t)" "draws p (fst ?j) s t"
      "cl_sent t = cl_sent s @ [C_call_rpc (cp_entity_id (cl_pobj s p)) (snd ?j) mname bs]"
      using ask_draws [OF Cons.prems(1) p(1)] by metis
    note IH = Cons.IH [OF ids_ok_draws [OF Cons.prems(1) t(2), unfolded p(3)] p(2)]
    have run: "id_run env (op # ops) s = (?j # fst (id_run env ops t), snd (id_run env ops t))"
      by (simp add: Ask t(1) held_id_def split: prod.split)
    have old: "\<not> beyond s ?j" using Cons.prems(1) p(1) by (simp add: ids_ok_def)
    have other: "held_id t q \<noteq> ?j" if "q \<in> live" for q
      using t(2) draws_held [OF t(2)] old Cons.prems(1) p(1) that
      by (cases "q = p") (auto simp: draws_def ids_ok_def inj_on_def)
    then have "?j \<notin> set (fst (id_run env ops t))"
      using IH draws_beyond [OF t(2)] old by fastforce
    moreover have "j \<in> held_id s ` live \<or> beyond s j" if "j \<in> set (fst (id_run env ops t))" for j
    proof -
      from IH that consider q where "q \<in> live" "j = held_id t q" | "beyond t j" by blast
      then show ?thesis
      proof cases
        case 1
        then show ?thesis using t(2) draws_held [OF t(2)] by (cases "q = p") (auto simp: draws_def)
      next
        case 2
        then show ?thesis using draws_beyond [OF t(2)] by blast
      qed
    qed
    ultimately show ?thesis using IH p(1) t(3) by (auto simp: run map_filter_def)
  qed
qed

subsection \<open>Properties\<close>

text \<open>C26: the ids of the requests that players of one class of the game send are distinct, however
  the creations and requests of all players of the client interleave, and the hub is sent exactly
  the ids drawn, in order.  Players of different classes draw from counters of their own.\<close>

theorem client_request_ids_unique:
  assumes "ids_ok live s" and "ops_ok live ops"
  shows "distinct (fst (id_run env ops s)) \<and>
    List.map_filter rpc_id (cl_sent (snd (id_run env ops s))) =
      List.map_filter rpc_id (cl_sent s) @ List.map snd (fst (id_run env ops s))"
  using id_run_ids [OF assms] by blast

text \<open>A quiet game for examples: every callable prints its arguments' kind and returns.\<close>

definition quiet_cenv :: cenv where
  "quiet_cenv = \<lparr>ce_invoke = (\<lambda>f a. cl_print ''called''), ce_player_update = (\<lambda>p v. cl_print ''update''),
     ce_sub_update = (\<lambda>p v. cl_print ''update''), ce_recv_update = (\<lambda>p v. cl_print ''update''),
     ce_on_kick_off = (\<lambda>m. cl_print m), ce_on_transfer_complete = cl_print ''transfer'',
     ce_answer = (\<lambda>s c. True), ce_loads = (\<lambda>b. Inr (JStr b)),
     ce_dumps = (\<lambda>v. case v of JStr b \<Rightarrow> b | _ \<Rightarrow> [])\<rparr>"

lemma quiet_cenv_simps [simp]:
  "ce_invoke quiet_cenv f a = cl_print ''called''" "ce_on_kick_off quiet_cenv m = cl_print m"
  "ce_loads quiet_cenv b = Inr (JStr b)"
  by (simp_all add: quiet_cenv_def)

lemma new_client_simps [simp]:
  "cl_is_run new_client" "cl_sent new_client = []" "cl_scene_objects new_client = []"
  "cl_next_msg_cb_id new_client = [(''player'', 100000)]" "cl_printed new_client = []"
  by (simp_all add: new_client_def)

lemma client_request_ids_unique_witness:
  "distinct (fst (id_run quiet_cenv [Make_player 1 (''hero'', [''player'']) ''hero'' ''a'', Ask 1 ''m'' ''x'',
     Make_player 2 (''pet'', [''player'']) ''pet'' ''b'', Ask 2 ''m'' ''x'', Ask 1 ''m'' ''y''] new_client))"
  using client_request_ids_unique [of "{}" new_client "[Make_player 1 (''hero'', [''player'']) ''hero'' ''a'',
      Ask 1 ''m'' ''x'', Make_player 2 (''pet'', [''player'']) ''pet'' ''b'', Ask 2 ''m'' ''x'', Ask 1 ''m'' ''y'']"
      quiet_cenv]
  by (simp add: ids_ok_def has_key_def)

text \<open>Two classes draw the same ids: each starts from the counter of \<open>player\<close>, which nothing raises.\<close>

lemma classes_reuse_ids:
  "fst (id_run quiet_cenv [Make_player 1 (''hero'', [''player'']) ''hero'' ''a'',
     Make_player 2 (''pet'', [''player'']) ''pet'' ''b'', Ask 1 ''m'' ''x'', Ask 2 ''m'' ''x''] new_client) =
   [(''hero'', 100001), (''pet'', 100001)]"
  by (simp add: cl_player_init_def cl_player_call_hub_request_def cl_get_next_cb_id_def cl_player_add_def
      cl_upd_defs Let_def)

text \<open>a response that returns has closed its request: a second response reports an unknown
  request and calls nothing, and the timeout does nothing; after a timeout a late response calls
  nothing and the timeout does not run twice.\<close>

theorem client_response_once:
  assumes pending: "dget (cp_hub_callback (cl_pobj s p)) i = Some (Some c)"
    and ran: "cl_player_handle_hub_response env p i b s = (Inr (), t)"
  shows "cl_player_handle_hub_response env p i b' t =
      (Inr (), t\<lparr>cl_printed := cl_printed t @ [''unhandle response callback:{}'']\<rparr>) \<and>
    cl_call_timeout env (cl_player_del_callback p i) c t = (Inr (), t) \<and>
    (cl_player_del_callback p i s = (Inr True, u) \<longrightarrow>
      cl_player_handle_hub_response env p i b' u =
        (Inr (), u\<lparr>cl_printed := cl_printed u @ [''unhandle response callback:{}'']\<rparr>) \<and>
      cl_call_timeout env (cl_player_del_callback p i) c u = (Inr (), u))"
proof (intro conjI impI)
  have unknown: "cl_player_handle_hub_response env p i b' v =
      (Inr (), v\<lparr>cl_printed := cl_printed v @ [''unhandle response callback:{}'']\<rparr>)"
    if "dget (cp_hub_callback (cl_pobj v p)) i = None" for v
    using that by (simp add: cl_player_handle_hub_response_def)
  show "cl_player_handle_hub_response env p i b' t =
      (Inr (), t\<lparr>cl_printed := cl_printed t @ [''unhandle response callback:{}'']\<rparr>)"
    by (rule unknown) (rule cl_player_rsp.answer_closes [OF assms])
  show "cl_call_timeout env (cl_player_del_callback p i) c t = (Inr (), t)"
    by (rule cl_player_rsp.no_timeout_after_answer [OF assms])
  assume *: "cl_player_del_callback p i s = (Inr True, u)"
  then show "cl_call_timeout env (cl_player_del_callback p i) c u = (Inr (), u)"
    by (rule cl_player_rsp.one_timeout)
  from cl_player_rsp.release_known [OF pending] * show "cl_player_handle_hub_response env p i b' u =
        (Inr (), u\<lparr>cl_printed := cl_printed u @ [''unhandle response callback:{}'']\<rparr>)"
    by (intro unknown) simp
qed

definition one_open :: client where
  "one_open = cl_player_reg_hub_callback 1 100001 (Some 3)
     (cl_callback_callback 3 (Some 7) None (state_of (cl_player_init 1 (''hero'', [''player'']) ''hero'' ''a'' new_client)))"

lemma client_response_once_witness:
  "result_of (cl_player_handle_hub_response quiet_cenv 1 100001 ''x'' one_open) = Inr () \<and>
   cl_printed (state_of (cl_player_handle_hub_response quiet_cenv 1 100001 ''y''
     (state_of (cl_player_handle_hub_response quiet_cenv 1 100001 ''x'' one_open)))) =
     [''called'', ''unhandle response callback:{}'']"
proof -
  have o: "dget (cp_hub_callback (cl_pobj one_open 1)) 100001 = Some (Some 3)"
    "cb_callback (cl_cobj one_open 3) = Some 7" "cl_printed one_open = []"
    by (simp_all add: one_open_def cl_player_reg_hub_callback_def cl_callback_callback_def
        cl_player_init_def cl_get_next_cb_id_def cl_player_add_def cl_upd_defs Let_def)
  obtain t where t: "cl_player_handle_hub_response quiet_cenv 1 100001 ''x'' one_open = (Inr (), t)"
    "cl_printed t = [''called'']"
    using o by (simp add: cl_player_handle_hub_response_def cl_call_fn_def cl_player_drop_callback_def
        delitem_def cl_upd_defs)
  from client_response_once [OF o(1) t(1), of "''y''"] t show ?thesis by simp
qed

text \<open>After the hub deleted an entity, every message for its id is reported and runs no handler of
  the game, and the other entities are registered as before.\<close>

theorem client_delete_silences:
  "let t = cl_delete_entity k s in
     (\<exists>m. cl_on_call_rpc env h k i method b t = (Inr (), t\<lparr>cl_printed := cl_printed t @ [m]\<rparr>)) \<and>
     (\<exists>m. cl_on_call_rsp env k i b t = (Inr (), t\<lparr>cl_printed := cl_printed t @ [m]\<rparr>)) \<and>
     (\<exists>m. cl_on_call_err env k i b t = (Inr (), t\<lparr>cl_printed := cl_printed t @ [m]\<rparr>)) \<and>
     (\<exists>m. cl_on_call_ntf env h k method b t = (Inr (), t\<lparr>cl_printed := cl_printed t @ [m]\<rparr>)) \<and>
     cl_update_entity env ty k v t = (Inr (), t) \<and>
     cl_player_get t = (cl_player_get s)(k := None) \<and> cl_sub_get t = (cl_sub_get s)(k := None) \<and>
     cl_recv_get t = (cl_recv_get s)(k := None) \<and>
     dget (cl_scene_objects t) = (dget (cl_scene_objects s))(k := None)"
proof -
  let ?t = "cl_delete_entity k s"
  have get: "cl_player_get ?t = (cl_player_get s)(k := None)" "cl_sub_get ?t = (cl_sub_get s)(k := None)"
    "cl_recv_get ?t = (cl_recv_get s)(k := None)"
    "dget (cl_scene_objects ?t) = (dget (cl_scene_objects s))(k := None)"
    by (auto simp: fun_eq_iff cl_delete_entity_def cl_player_get_def cl_sub_get_def cl_recv_get_def
        cl_player_remove_def cl_sub_remove_def cl_recv_remove_def scene_manager_remove_def has_key_def)
  then have none: "cl_player_get ?t k = None" "cl_sub_get ?t k = None" "cl_recv_get ?t k = None"
    "dget (cl_scene_objects ?t) k = None" by simp_all
  from none have "cl_update_entity env ty k v ?t = (Inr (), ?t)"
    by (simp add: cl_update_entity_def cl_player_update_def cl_sub_update_def cl_recv_update_def
        scene_manager_update_def)
  moreover have "\<exists>m. cl_on_call_rpc env h k i method b ?t = (Inr (), ?t\<lparr>cl_printed := cl_printed ?t @ [m]\<rparr>)"
    unfolding cl_on_call_rpc_def cl_effects none option.case by (rule exI) (rule refl)
  moreover have "\<exists>m. cl_on_call_rsp env k i b ?t = (Inr (), ?t\<lparr>cl_printed := cl_printed ?t @ [m]\<rparr>)"
    unfolding cl_on_call_rsp_def cl_effects none option.case by (rule exI) (rule refl)
  moreover have "\<exists>m. cl_on_call_err env k i b ?t = (Inr (), ?t\<lparr>cl_printed := cl_printed ?t @ [m]\<rparr>)"
    unfolding cl_on_call_err_def cl_effects none option.case by (rule exI) (rule refl)
  moreover have "\<exists>m. cl_on_call_ntf env h k method b ?t = (Inr (), ?t\<lparr>cl_printed := cl_printed ?t @ [m]\<rparr>)"
    unfolding cl_on_call_ntf_def cl_effects none option.case by (rule exI) (rule refl)
  ultimately show ?thesis
    unfolding Let_def using get by (intro conjI) assumption+
qed

fun heartbeat_run :: "cenv \<Rightarrow> nat \<Rightarrow> client \<Rightarrow> client" where
  "heartbeat_run env 0 s = s"
| "heartbeat_run env (Suc n) s = heartbeat_run env n (state_of (heartbeat_due env s))"

definition armed :: "client \<Rightarrow> bool" where
  "armed s = (cl_is_run s \<and> (\<exists>t. cl_heartbeat_timer s = Some t \<and> timer_will_fire t))"

lemma heartbeat_armed:
  assumes "cl_is_run s"
  shows "armed (state_of (cl_heartbeats env s))"
    "cl_sent (state_of (cl_heartbeats env s)) = cl_sent s @ [C_heartbeats]"
  using assms by (simp_all add: cl_heartbeats_def armed_def timer_will_fire_def timer_start_def new_timer_def)

lemma heartbeat_run_sent:
  "armed s \<Longrightarrow> armed (heartbeat_run env n s) \<and>
     cl_sent (heartbeat_run env n s) = cl_sent s @ replicate n C_heartbeats"
proof (induction n arbitrary: s)
  case 0
  then show ?case by simp
next
  case (Suc n)
  then obtain t where "cl_is_run s" "cl_heartbeat_timer s = Some t" "timer_will_fire t"
    by (auto simp: armed_def)
  then have "heartbeat_due env s = cl_heartbeats env s" by (simp add: heartbeat_due_def)
  with Suc.IH [OF heartbeat_armed(1)] heartbeat_armed(2) \<open>cl_is_run s\<close> show ?case by simp
qed

text \<open>A built client sends one heartbeat at once and one each time the timer is due, for ever,
  until it is closed; after that no timer, fired or pending, sends one, and the loop ends.\<close>

theorem heartbeats_until_closed:
  assumes "cl_is_run s"
  shows "cl_sent (heartbeat_run env n (state_of (cl_build env s))) = cl_sent s @ replicate (Suc n) C_heartbeats \<and>
    cl_heartbeats env (cl_close t) = (Inr (), cl_close t) \<and> heartbeat_run env n (cl_close t) = cl_close t \<and>
    cl_poll env handle turns (cl_close t) = Some (cl_close t)"
proof (intro conjI)
  let ?u = "s\<lparr>cl_players := [], cl_subentities := [], cl_receivers := [], cl_scene_objects := []\<rparr>"
  let ?v = "cl_register entity_type_dynamic (Scene_creator entity_type_dynamic)
     (cl_register entity_type_static (Scene_creator entity_type_static) ?u)"
  have v: "cl_is_run ?v" "cl_sent ?v = cl_sent s" using assms by (simp_all add: cl_register_def)
  have "state_of (cl_build env s) = state_of (cl_heartbeats env ?v)"
    using v by (simp add: cl_build_def cl_heartbeats_def)
  with heartbeat_run_sent [OF heartbeat_armed(1) [OF v(1)]] heartbeat_armed(2) [OF v(1)] v(2)
  show "cl_sent (heartbeat_run env n (state_of (cl_build env s))) = cl_sent s @ replicate (Suc n) C_heartbeats"
    by simp
  show quiet: "cl_heartbeats env (cl_close t) = (Inr (), cl_close t)"
    by (simp add: cl_heartbeats_def cl_close_def)
  have "state_of (heartbeat_due env (cl_close t)) = cl_close t"
    using quiet by (simp add: heartbeat_due_def split: option.split)
  then show "heartbeat_run env n (cl_close t) = cl_close t" by (induction n) simp_all
  show "cl_poll env handle turns (cl_close t) = Some (cl_close t)"
    by (cases turns) (auto simp: cl_close_def)
qed

lemma heartbeats_until_closed_witness:
  "cl_sent (heartbeat_run quiet_cenv 2 (state_of (cl_build quiet_cenv new_client))) =
     [C_heartbeats, C_heartbeats, C_heartbeats]"
  using heartbeats_until_closed [of new_client quiet_cenv 2, THEN conjunct1] by (simp add: numeral_eq_Suc)

end
