(* ===== verification/Client_Scene.thy ===== *)
theory Client_Scene
  imports Client_App "HOL-Library.Countable"
begin

section \<open>Hub and client: the scene objects end to end\<close>

text \<open>
  The first synchronisation of a scene (\<open>sync_scene_to_group\<close> on the hub) composed with the
  client's handlers.  Between them the gate hands a create call of the hub to the client as
  \<open>on_create_remote_entity\<close>; \<open>deliver\<close> is that step, and the packing of one side is undone by
  the unpacking of the other.
\<close>

fun deliver :: "cenv \<Rightarrow> ctx_call \<Rightarrow> (client, unit) py" where
  "deliver env (Hub_call_client_create_remote_entity gate m conns main k ty b) =
     cl_on_create_remote_entity env ty k b"
| "deliver env _ = ret ()"

text \<open>A scene object that shows a message.\<close>

definition displays :: "string \<Rightarrow> json \<Rightarrow> scene_object \<Rightarrow> bool" where
  "displays i m x = (so_entity_type x = entity_type_static \<and> so_entity_id x = i \<and>
     (\<exists>d. m = JObj d \<and> dget d ''type'' = Some (so_object_type x) \<and>
          dget d ''transform'' = Some (so_transform x) \<and>
          so_mesh_ref x = (case dget d ''mesh_ref'' of None \<Rightarrow> JNull | Some v \<Rightarrow> v) \<and>
          so_color x = (case dget d ''color'' of None \<Rightarrow> JNull | Some v \<Rightarrow> v)))"

lemma create_displays:
  assumes "scene_msg i m"
  shows "\<exists>x. create_scene_object entity_type_static i m c =
      (Inr (), c\<lparr>cl_scene_objects := dset i x (cl_scene_objects c)\<rparr>) \<and> displays i m x"
proof -
  from assms obtain d ty tr where m: "m = JObj d" "dget d ''type'' = Some ty" "dget d ''transform'' = Some tr"
    by (auto simp: scene_msg_def)
  then show ?thesis
    by (auto simp: create_scene_object_def parse_and_store_def blank_scene_object_def
        scene_manager_add_def displays_def)
qed

lemma deliver_static:
  assumes "\<forall>m. ce_loads cenv (dumps m) = Inr m"
    and "dget (cl_create_method c) entity_type_static = Some (Scene_creator entity_type_static)"
    and "scene_msg i m"
  shows "\<exists>x. deliver cenv (Hub_call_client_create_remote_entity gate False conns [] i entity_type_static (dumps m)) c =
      (Inr (), c\<lparr>cl_scene_objects := dset i x (cl_scene_objects c)\<rparr>) \<and> displays i m x"
  using create_displays [OF assms(3), of c] assms(1,2)
  by (simp add: cl_on_create_remote_entity_def cl_create_entity_def)

lemma deliver_all:
  assumes wire: "\<forall>m. ce_loads cenv (dumps m) = Inr m"
    and "dget (cl_create_method c) entity_type_static = Some (Scene_creator entity_type_static)"
    and "scene_msgs dumps objs" and "set (keys objs) \<inter> set (keys (cl_scene_objects c)) = {}"
  shows "\<exists>t. for_each (deliver cenv) (static_calls gate conns objs) c = (Inr (), t) \<and>
    keys (cl_scene_objects t) = keys (cl_scene_objects c) @ keys objs \<and>
    (\<forall>i. i \<notin> set (keys objs) \<longrightarrow> dget (cl_scene_objects t) i = dget (cl_scene_objects c) i) \<and>
    (\<forall>(i, b) \<in> set objs. \<exists>m x. b = dumps m \<and> dget (cl_scene_objects t) i = Some x \<and> displays i m x)"
  using assms(2-4)
proof (induction objs arbitrary: c)
  case Nil
  then show ?case by (simp add: static_calls_def keys_def)
next
  case (Cons ob objs)
  obtain i b where ob: "ob = (i, b)" by (cases ob)
  with Cons.prems(2) obtain m where m: "b = dumps m" "scene_msg i m" "scene_msgs dumps objs"
    "i \<notin> set (keys objs)" by (auto simp: scene_msgs_def keys_def)
  from deliver_static [OF wire Cons.prems(1) m(2), of gate conns] obtain x where
    x: "deliver cenv (Hub_call_client_create_remote_entity gate False conns [] i entity_type_static b) c =
      (Inr (), c\<lparr>cl_scene_objects := dset i x (cl_scene_objects c)\<rparr>)" "displays i m x"
    by (auto simp: m(1))
  let ?c = "c\<lparr>cl_scene_objects := dset i x (cl_scene_objects c)\<rparr>"
  from Cons.prems(3) ob have "dget (cl_scene_objects c) i = None"
    by (auto simp: keys_def map_of_eq_None_iff)
  then have ks: "keys (cl_scene_objects ?c) = keys (cl_scene_objects c) @ [i]"
    by (simp add: dset_new keys_def)
  have "set (keys objs) \<inter> set (keys (cl_scene_objects ?c)) = {}"
    using Cons.prems(3) m(4) ks ob by (auto simp: keys_def)
  from Cons.IH [OF _ m(3) this] Cons.prems(1) obtain t where
    t: "for_each (deliver cenv) (static_calls gate conns objs) ?c = (Inr (), t)"
      "keys (cl_scene_objects t) = keys (cl_scene_objects ?c) @ keys objs"
      "\<forall>k. k \<notin> set (keys objs) \<longrightarrow> dget (cl_scene_objects t) k = dget (cl_scene_objects ?c) k"
      "\<forall>(k, b) \<in> set objs. \<exists>m x. b = dumps m \<and> dget (cl_scene_objects t) k = Some x \<and> displays k m x"
    by auto
  have run: "for_each (deliver cenv) (static_calls gate conns (ob # objs)) c = (Inr (), t)"
    using x(1) t(1) by (simp add: static_calls_def ob)
  have shown: "dget (cl_scene_objects t) i = Some x" using t(3) m(4) by simp
  have other: "dget (cl_scene_objects t) k = dget (cl_scene_objects c) k" if "k \<notin> set (keys (ob # objs))" for k
    using t(3) that ob by (simp add: keys_def)
  from run t(2) ks ob shown x(2) m(1) t(4) other show ?case
    by (intro exI [of _ t]) (auto simp: keys_def)
qed

text \<open>C21: when a group first synchronises its scene, a client that has none ends up with exactly the
  objects of the scene, under the ids the hub keeps for them, each showing the type, transform,
  mesh and colour of the message the hub packed.\<close>

theorem scene_reaches_client:
  fixes dumps :: "json \<Rightarrow> bytes"
  assumes uuid: "fresh_uuids env" and first: "scene_cache g = None"
    and run: "sync_scene_to_group env dumps True path manifest gate conns (g, s) = (Inr ids, (g', s'))"
    and wire: "\<forall>m. ce_loads cenv (dumps m) = Inr m"
    and built: "dget (cl_create_method c) entity_type_static = Some (Scene_creator entity_type_static)"
      "cl_scene_objects c = []"
  shows "\<exists>calls t. outbox s' = outbox s @ calls \<and> for_each (deliver cenv) calls c = (Inr (), t) \<and>
    keys (cl_scene_objects t) = ids \<and> scene_object_ids g' = ids \<and>
    (\<forall>i \<in> set ids. \<exists>m x. Hub_call_client_create_remote_entity gate False conns [] i entity_type_static (dumps m) \<in> set calls \<and>
       dget (cl_scene_objects t) i = Some x \<and> displays i m x)"
proof -
  from first_sync [OF uuid first run] obtain objs where o: "ids = keys objs" "scene_object_ids g' = ids"
    "outbox s' = outbox s @ static_calls gate conns objs" "scene_msgs dumps objs" by blast
  from deliver_all [OF wire built(1) o(4), of gate conns] built(2) obtain t where
    t: "for_each (deliver cenv) (static_calls gate conns objs) c = (Inr (), t)"
      "keys (cl_scene_objects t) = keys objs"
      "\<forall>(i, b) \<in> set objs. \<exists>m x. b = dumps m \<and> dget (cl_scene_objects t) i = Some x \<and> displays i m x"
    by (auto simp: keys_def)
  have "\<exists>m x. Hub_call_client_create_remote_entity gate False conns [] i entity_type_static (dumps m) \<in>
      set (static_calls gate conns objs) \<and> dget (cl_scene_objects t) i = Some x \<and> displays i m x"
    if "i \<in> set ids" for i
  proof -
    from that o(1) obtain b where "(i, b) \<in> set objs" by (auto simp: keys_def)
    with t(3) obtain m x where "(i, dumps m) \<in> set objs" "dget (cl_scene_objects t) i = Some x" "displays i m x"
      by fastforce
    then show ?thesis by (force simp: static_calls_def)
  qed
  with o(1-3) t(1,2) show ?thesis
    by (intro exI [of _ "static_calls gate conns objs"] exI [of _ t]) simp
qed

text \<open>
  A packing for examples: the values are countable, so a value can be packed as a number of
  bytes.
\<close>

instance json :: countable
  by countable_datatype

definition count_dumps :: "json \<Rightarrow> bytes" where
  "count_dumps m = replicate (to_nat m) CHR 0x78"

definition count_loads :: "bytes \<Rightarrow> pyexn + json" where
  "count_loads b = Inr (from_nat (length b))"

lemma count_loads_dumps: "count_loads (count_dumps m) = Inr m"
  by (simp add: count_loads_def count_dumps_def)

theorem scene_reaches_client_witness:
  "\<exists>calls t. for_each (deliver (quiet_cenv\<lparr>ce_loads := count_loads\<rparr>)) calls
       (state_of (cl_build quiet_cenv new_client)) = (Inr (), t) \<and>
     keys (cl_scene_objects t) = ['''', ''u'']"
proof -
  let ?run = "sync_scene_to_group quiet_env count_dumps True ''m'' little_scene ''g'' [''c''] (new_group, blank_hub)"
  have "result_of ?run = Inr ['''', ''u'']"
    by (simp add: sync_scene_to_group_def little_scene_def create_static_def model_msg_def
        procedural_msg_def Let_def)
  then obtain g' s' where run: "?run = (Inr ['''', ''u''], (g', s'))" by (cases ?run) auto
  have wire: "\<forall>m. ce_loads (quiet_cenv\<lparr>ce_loads := count_loads\<rparr>) (count_dumps m) = Inr m"
    by (simp add: count_loads_dumps)
  have built: "dget (cl_create_method (state_of (cl_build quiet_cenv new_client))) entity_type_static =
      Some (Scene_creator entity_type_static)" "cl_scene_objects (state_of (cl_build quiet_cenv new_client)) = []"
    by (simp_all add: cl_build_def cl_heartbeats_def cl_register_def entity_type_static_def entity_type_dynamic_def)
  from scene_reaches_client [OF quiet_fresh new_group_simps(7) run wire built] show ?thesis by blast
qed

end
