(* ===== verification/Client_Requests.thy ===== *)
theory Client_Requests
  imports Conn_Msg_Handle Client_App "HOL-Library.Multiset"
begin

section \<open>Client and hub: requests and their answers end to end\<close>

text \<open>
  A client asks the hub through a player it mirrors, the hub runs the handlers its player
  registered, and the answers come back through the gate, in any order.  The steps are the
  operations of both sides; between them the gate hands \<open>call_rpc\<close> of the client to
  \<open>on_client_call_rpc\<close> with its own name and the id of the connection, and
  \<open>hub_call_client_rsp\<close> of the hub to \<open>on_call_rsp\<close> of that connection.
\<close>

text \<open>One request as the generated caller makes it: method, arguments, callback, address of the callback object.\<close>

type_synonym ask = "string \<times> bytes \<times> fn \<times> nat"

fun ask_all :: "cenv \<Rightarrow> nat \<Rightarrow> ask list \<Rightarrow> client \<Rightarrow> int list \<times> client" where
  "ask_all env p [] s = ([], s)"
| "ask_all env p ((m, b, f, c) # rs) s = (case cl_player_call_hub_request env p m b s of
     (Inl e, s) \<Rightarrow> ([], s)
   | (Inr i, s) \<Rightarrow>
       (case ask_all env p rs (cl_callback_callback c (Some f) None
                (cl_player_reg_hub_callback p i (Some c) (cl_new_callback c s))) of
          (ids, t) \<Rightarrow> (i # ids, t)))"

text \<open>What the gate does with the calls of the two sides.\<close>

fun to_hub :: "env \<Rightarrow> string \<Rightarrow> string \<Rightarrow> client_call \<Rightarrow> (hub, unit) py" where
  "to_hub env gate conn (C_call_rpc k i m b) = on_client_call_rpc env gate conn k i m b"
| "to_hub env gate conn _ = ret ()"

fun to_client :: "cenv \<Rightarrow> string \<Rightarrow> ctx_call \<Rightarrow> (client, unit) py" where
  "to_client cenv conn (Hub_call_client_rsp gate c k i b) =
     (if c = conn then cl_on_call_rsp cenv k i b else ret ())"
| "to_client cenv conn _ = ret ()"

text \<open>The answers the hub sends, and what the client hears.\<close>

definition answers :: "string \<Rightarrow> string \<Rightarrow> string \<Rightarrow> (string \<Rightarrow> bytes \<Rightarrow> bytes) \<Rightarrow> (int \<times> ask) list \<Rightarrow> ctx_call list" where
  "answers gate conn k reply rs = List.map (\<lambda>(i, m, b, f, c). Hub_call_client_rsp gate conn k i (reply m b)) rs"

definition calls :: "string \<Rightarrow> (int \<times> ask) list \<Rightarrow> client_call list" where
  "calls k rs = List.map (\<lambda>(i, m, b, f, c). C_call_rpc k i m b) rs"

subsection \<open>Asking\<close>

text \<open>The counter of the class of a player, and the state after one draw from it.\<close>

definition drawn_last :: "nat \<Rightarrow> client \<Rightarrow> int option" where
  "drawn_last p s = (let cls = cp_class (cl_pobj s p) in class_attr (cl_next_msg_cb_id s) (fst cls # snd cls))"

definition fresh_ids :: "nat \<Rightarrow> client \<Rightarrow> bool" where
  "fresh_ids p s = ((\<exists>n. drawn_last p s = Some n \<and> cp_request_msg_cb_id (cl_pobj s p) \<le> n) \<and>
     (\<forall>i \<in> set (keys (cp_hub_callback (cl_pobj s p))). i < cp_request_msg_cb_id (cl_pobj s p)))"

definition asked :: "nat \<Rightarrow> ask \<Rightarrow> client \<Rightarrow> client" where
  "asked p a s = (case a of (m, b, f, c) \<Rightarrow>
     let i = cp_request_msg_cb_id (cl_pobj s p); n = the (drawn_last p s) + 1 in
     cl_callback_callback c (Some f) None (cl_player_reg_hub_callback p i (Some c) (cl_new_callback c
       ((cl_upd_player p (\<lambda>ob. ob\<lparr>cp_request_msg_cb_id := n\<rparr>) (s\<lparr>cl_next_msg_cb_id := dset (fst (cp_class (cl_pobj s p))) n (cl_next_msg_cb_id s)\<rparr>))
         \<lparr>cl_sent := cl_sent s @ [C_call_rpc (cp_entity_id (cl_pobj s p)) i m b]\<rparr>))))"

lemma ask_all_Cons:
  assumes "fresh_ids p s"
  shows "ask_all env p (a # rs) s =
    (cp_request_msg_cb_id (cl_pobj s p) # fst (ask_all env p rs (asked p a s)), snd (ask_all env p rs (asked p a s)))"
proof -
  obtain m b f c where a: "a = (m, b, f, c)" by (cases a)
  let ?n = "the (drawn_last p s) + 1"
  have "drawn_last p s = Some (the (drawn_last p s))" using assms by (auto simp: fresh_ids_def)
  then have n: "class_attr (cl_next_msg_cb_id s) (fst (cp_class (cl_pobj s p)) # snd (cp_class (cl_pobj s p))) =
      Some (the (drawn_last p s))"
    unfolding drawn_last_def Let_def by simp
  have "cl_player_call_hub_request env p m b s = (Inr (cp_request_msg_cb_id (cl_pobj s p)),
      (cl_upd_player p (\<lambda>ob. ob\<lparr>cp_request_msg_cb_id := ?n\<rparr>) (s\<lparr>cl_next_msg_cb_id :=
          dset (fst (cp_class (cl_pobj s p))) ?n (cl_next_msg_cb_id s)\<rparr>))
        \<lparr>cl_sent := cl_sent s @ [C_call_rpc (cp_entity_id (cl_pobj s p)) (cp_request_msg_cb_id (cl_pobj s p)) m b]\<rparr>)"
    using n by (simp add: cl_player_call_hub_request_def cl_get_next_cb_id_def cl_upd_player_def Let_def
        del: class_attr.simps)
  then show ?thesis by (simp add: a asked_def Let_def split: prod.split)
qed

lemmas asked_defs = asked_def Let_def cl_upd_defs cl_callback_callback_def cl_player_reg_hub_callback_def
  cl_new_callback_def

lemma asked_simps [simp]:
  "cl_sent (asked p (m, b, f, c) s) =
     cl_sent s @ [C_call_rpc (cp_entity_id (cl_pobj s p)) (cp_request_msg_cb_id (cl_pobj s p)) m b]"
  "cp_entity_id (cl_pobj (asked p a s) p) = cp_entity_id (cl_pobj s p)"
  "cb_callback (cl_cobj (asked p (m, b, f, c) s) c) = Some f"
  "d \<noteq> c \<Longrightarrow> cl_cobj (asked p (m, b, f, c) s) d = cl_cobj s d"
  "cl_players (asked p a s) = cl_players s" "cl_printed (asked p a s) = cl_printed s"
  by (cases a; simp add: asked_defs)+

lemma asked_opens:
  assumes "fresh_ids p s"
  shows "cp_hub_callback (cl_pobj (asked p (m, b, f, c) s) p) =
      cp_hub_callback (cl_pobj s p) @ [(cp_request_msg_cb_id (cl_pobj s p), Some c)]"
    and "fresh_ids p (asked p (m, b, f, c) s)"
    and "cp_request_msg_cb_id (cl_pobj s p) < cp_request_msg_cb_id (cl_pobj (asked p (m, b, f, c) s) p)"
proof -
  have new: "dget (cp_hub_callback (cl_pobj s p)) (cp_request_msg_cb_id (cl_pobj s p)) = None"
    using assms by (auto simp: fresh_ids_def keys_def map_of_eq_None_iff)
  show opens: "cp_hub_callback (cl_pobj (asked p (m, b, f, c) s) p) =
      cp_hub_callback (cl_pobj s p) @ [(cp_request_msg_cb_id (cl_pobj s p), Some c)]"
    by (simp add: asked_defs dset_new [OF new])
  show less: "cp_request_msg_cb_id (cl_pobj s p) < cp_request_msg_cb_id (cl_pobj (asked p (m, b, f, c) s) p)"
    using assms by (auto simp: asked_defs fresh_ids_def)
  have "drawn_last p (asked p (m, b, f, c) s) = Some (cp_request_msg_cb_id (cl_pobj (asked p (m, b, f, c) s) p))"
    by (simp add: asked_defs drawn_last_def)
  then show "fresh_ids p (asked p (m, b, f, c) s)"
    using assms less unfolding fresh_ids_def opens by (auto simp: keys_def)
qed

lemma ask_all_opens:
  assumes "fresh_ids p s" and "distinct (List.map (\<lambda>(m, b, f, c). c) rs)"
    and "ask_all env p rs s = (ids, t)"
  shows "length ids = length rs \<and> distinct ids \<and> (\<forall>i \<in> set ids. cp_request_msg_cb_id (cl_pobj s p) \<le> i) \<and>
    cl_sent t = cl_sent s @ calls (cp_entity_id (cl_pobj s p)) (zip ids rs) \<and>
    cp_hub_callback (cl_pobj t p) = cp_hub_callback (cl_pobj s p) @ List.map (\<lambda>(i, m, b, f, c). (i, Some c)) (zip ids rs) \<and>
    cp_entity_id (cl_pobj t p) = cp_entity_id (cl_pobj s p) \<and>
    (\<forall>(i, m, b, f, c) \<in> set (zip ids rs). cb_callback (cl_cobj t c) = Some f) \<and>
    (\<forall>d. d \<notin> set (List.map (\<lambda>(m, b, f, c). c) rs) \<longrightarrow> cl_cobj t d = cl_cobj s d) \<and>
    cl_players t = cl_players s \<and> cl_printed t = cl_printed s"
  using assms
proof (induction rs arbitrary: s ids t)
  case Nil
  then show ?case by (simp add: calls_def)
next
  case (Cons a rs)
  obtain m b f c where a: "a = (m, b, f, c)" by (cases a)
  let ?i = "cp_request_msg_cb_id (cl_pobj s p)" and ?s = "asked p (m, b, f, c) s"
  obtain ids' where r: "ask_all env p rs ?s = (ids', t)" "ids = ?i # ids'"
    using Cons.prems(3) by (cases "ask_all env p rs ?s") (auto simp: a ask_all_Cons [OF Cons.prems(1)] simp del: ask_all.simps)
  note o1 = asked_opens [OF Cons.prems(1), of m b f c]
  have d: "distinct (List.map (\<lambda>(m, b, f, c). c) rs)" and c: "c \<notin> set (List.map (\<lambda>(m, b, f, c). c) rs)"
    using Cons.prems(2) by (auto simp: a)
  note IH = Cons.IH [OF o1(2) d r(1)]
  have "\<forall>i \<in> set ids'. ?i < i" using IH o1(3) by force
  moreover have "cl_cobj t c = cl_cobj ?s c" using IH c by blast
  ultimately show ?case
    using IH o1(1) unfolding r(2) by (auto simp: a calls_def)
qed

subsection \<open>Answering\<close>

lemma hub_answers:
  assumes "get_player s k = Some q" and "p_entity_id (pobj s q) = k"
    and "\<forall>(i, m, b, f, c) \<in> set rs. \<exists>h. dget (p_client_request_callback (pobj s q)) m = Some (Some h) \<and>
      env_invoke env h (Client_request_args gate conn i b) = player_call_client_response q gate conn i (reply m b)"
  shows "for_each (to_hub env gate conn) (calls k rs) s = (Inr (), emits (answers gate conn k reply rs) s)"
  using assms
proof (induction rs arbitrary: s)
  case Nil
  then show ?case by (simp add: calls_def answers_def emits_def)
next
  case (Cons a rs)
  obtain i m b f c where a: "a = (i, m, b, f, c)" by (cases a)
  with Cons.prems(3) obtain h where h: "dget (p_client_request_callback (pobj s q)) m = Some (Some h)"
    "env_invoke env h (Client_request_args gate conn i b) = player_call_client_response q gate conn i (reply m b)" by auto
  let ?r = "Hub_call_client_rsp gate conn k i (reply m b)"
  have one: "to_hub env gate conn (C_call_rpc k i m b) s = (Inr (), emit ?r s)"
    using Cons.prems(1,2) h
    by (simp add: on_client_call_rpc_def player_handle_client_request_def player_call_client_response_def)
  have "get_player (emit ?r s) k = Some q" using Cons.prems(1) by (simp add: get_player_def)
  from Cons.IH [OF this] Cons.prems(2,3)
  have "for_each (to_hub env gate conn) (calls k rs) (emit ?r s) = (Inr (), emits (answers gate conn k reply rs) (emit ?r s))"
    by simp
  with one show ?case by (simp add: calls_def answers_def a emit_emits del: to_hub.simps)
qed

lemma client_hears:
  assumes noting: "\<And>f a. ce_invoke cenv f a = modify (\<lambda>s. s\<lparr>cl_printed := cl_printed s @ [note f a]\<rparr>)"
    and "cl_player_get s k = Some p" and "distinct (List.map fst zs)"
    and "\<forall>(i, m, b, f, c) \<in> set zs. dget (cp_hub_callback (cl_pobj s p)) i = Some (Some c) \<and>
      cb_callback (cl_cobj s c) = Some f"
  shows "\<exists>t. for_each (to_client cenv conn) (answers gate conn k reply zs) s = (Inr (), t) \<and>
    cl_printed t = cl_printed s @ List.map (\<lambda>(i, m, b, f, c). note f (Ca_response (reply m b))) zs \<and>
    cp_hub_callback (cl_pobj t p) = filter (\<lambda>(i, v). i \<notin> fst ` set zs) (cp_hub_callback (cl_pobj s p))"
  using assms(2-4)
proof (induction zs arbitrary: s)
  case Nil
  then show ?case by (simp add: answers_def)
next
  case (Cons a zs)
  obtain i m b f c where a: "a = (i, m, b, f, c)" by (cases a)
  let ?s = "(cl_upd_player p (\<lambda>ob. ob\<lparr>cp_hub_callback := ddel i (cp_hub_callback ob)\<rparr>)
    (s\<lparr>cl_printed := cl_printed s @ [note f (Ca_response (reply m b))]\<rparr>))"
  have open_i: "dget (cp_hub_callback (cl_pobj s p)) i = Some (Some c)" "cb_callback (cl_cobj s c) = Some f"
    using Cons.prems(3) by (auto simp: a)
  then have one: "to_client cenv conn (Hub_call_client_rsp gate conn k i (reply m b)) s = (Inr (), ?s)"
    using Cons.prems(1)
    by (simp add: cl_on_call_rsp_def cl_player_handle_hub_response_def cl_call_fn_def noting
        cl_player_drop_callback_def cl_upd_player_def)
  have get: "cl_player_get ?s k = Some p" using Cons.prems(1) by (simp add: cl_player_get_def cl_upd_player_def)
  have table: "cp_hub_callback (cl_pobj ?s p) = ddel i (cp_hub_callback (cl_pobj s p))"
    by (simp add: cl_upd_player_def)
  have "\<forall>(j, m, b, f, c) \<in> set zs. dget (cp_hub_callback (cl_pobj ?s p)) j = Some (Some c) \<and>
      cb_callback (cl_cobj ?s c) = Some f"
    using Cons.prems(2,3) unfolding table by (force simp: a cl_upd_player_def)
  from Cons.IH [OF get _ this] Cons.prems(2) obtain t where
    t: "for_each (to_client cenv conn) (answers gate conn k reply zs) ?s = (Inr (), t)"
      "cl_printed t = cl_printed ?s @ List.map (\<lambda>(i, m, b, f, c). note f (Ca_response (reply m b))) zs"
      "cp_hub_callback (cl_pobj t p) = filter (\<lambda>(i, v). i \<notin> fst ` set zs) (cp_hub_callback (cl_pobj ?s p))"
    by auto
  have "for_each (to_client cenv conn) (answers gate conn k reply (a # zs)) s = (Inr (), t)"
    using one t(1) by (simp add: answers_def a del: to_client.simps)
  moreover have "cl_printed t = cl_printed s @ List.map (\<lambda>(i, m, b, f, c). note f (Ca_response (reply m b))) (a # zs)"
    using t(2) by (simp add: a cl_upd_player_def)
  moreover have "cp_hub_callback (cl_pobj t p) =
      filter (\<lambda>(j, v). j \<notin> fst ` set (a # zs)) (cp_hub_callback (cl_pobj s p))"
    unfolding t(3) table by (auto simp: a AList.delete_eq intro: filter_cong)
  ultimately show ?case by blast
qed


lemma zip_table:
  assumes "length ids = length rs" and "distinct ids"
  defines "new \<equiv> List.map (\<lambda>(i, m, b, f, c). (i, Some c)) (zip ids rs)"
  shows "(i, m, b, f, c) \<in> set (zip ids rs) \<Longrightarrow> dget new i = Some (Some c)"
    and "fst ` set (zip ids rs) = set ids" and "fst ` set new = set ids"
proof -
  have "List.map fst new = List.map fst (zip ids rs)" by (auto simp: new_def)
  then have keys: "List.map fst new = ids" using assms(1) by simp
  show "dget new i = Some (Some c)" if "(i, m, b, f, c) \<in> set (zip ids rs)"
  proof (rule map_of_is_SomeI)
    show "distinct (List.map fst new)" unfolding keys by (rule assms(2))
    show "(i, Some c) \<in> set new" unfolding new_def set_map by (rule image_eqI [OF _ that]) simp
  qed
  show "fst ` set (zip ids rs) = set ids" using assms(1) by (metis list.set_map map_fst_zip)
  show "fst ` set new = set ids" using keys by (metis list.set_map)
qed

lemma asked_table:
  assumes "fresh_ids p c0" "distinct (List.map (\<lambda>(m, b, f, c). c) rs)" "ask_all cenv p rs c0 = (ids, c1)"
    and zs: "set zs = set (zip ids rs)"
  shows "\<forall>(i, m, b, f, c) \<in> set zs. dget (cp_hub_callback (cl_pobj c1 p)) i = Some (Some c) \<and>
      cb_callback (cl_cobj c1 c) = Some f"
    and "filter (\<lambda>(i, v). i \<notin> fst ` set zs) (cp_hub_callback (cl_pobj c1 p)) = cp_hub_callback (cl_pobj c0 p)"
proof -
  let ?d = "cp_hub_callback (cl_pobj c0 p)"
  note made = ask_all_opens [OF assms(1-3)]
  then have len: "length ids = length rs" and dist: "distinct ids"
    and now: "cp_hub_callback (cl_pobj c1 p) = ?d @ List.map (\<lambda>(i, m, b, f, c). (i, Some c)) (zip ids rs)"
    by blast+
  have old: "\<forall>i \<in> set ids. dget ?d i = None" "\<forall>(i, v) \<in> set ?d. i \<notin> set ids"
    using made assms(1) by (force simp: fresh_ids_def keys_def map_of_eq_None_iff)+
  note new = zip_table [OF len dist]
  show "\<forall>(i, m, b, f, c) \<in> set zs. dget (cp_hub_callback (cl_pobj c1 p)) i = Some (Some c) \<and>
      cb_callback (cl_cobj c1 c) = Some f"
  proof (clarify)
    fix i m b f c assume "(i, m, b, f, c) \<in> set zs"
    then have m: "(i, m, b, f, c) \<in> set (zip ids rs)" unfolding zs .
    then have "i \<in> set ids" by (rule set_zip_leftD)
    with old(1) new(1) [OF m] have "dget (cp_hub_callback (cl_pobj c1 p)) i = Some (Some c)"
      unfolding now map_of_append by (simp add: map_add_def)
    moreover have "cb_callback (cl_cobj c1 c) = Some f" using made m by fastforce
    ultimately show "dget (cp_hub_callback (cl_pobj c1 p)) i = Some (Some c) \<and> cb_callback (cl_cobj c1 c) = Some f" ..
  qed
  show "filter (\<lambda>(i, v). i \<notin> fst ` set zs) (cp_hub_callback (cl_pobj c1 p)) = ?d"
    unfolding now zs filter_append new(2) using old(2) new(3)
    by (force simp: filter_id_conv filter_empty_conv)
qed

text \<open>C8: requests and answers, end to end.  A client sends any number of requests through one of its
  players; the hub's player answers each from the handler of its method; the gate brings the
  answers back in any order.  Then the hub has sent exactly one answer per request, each callback
  of the client is called exactly once, with the answer to its own request, and no request stays
  open.\<close>

theorem requests_answered:
  assumes asks: "ask_all cenv p rs c0 = (ids, c1)" "distinct (List.map (\<lambda>(m, b, f, c). c) rs)"
    and client: "fresh_ids p c0" "cl_player_get c0 k = Some p" "cp_entity_id (cl_pobj c0 p) = k"
    and hub: "get_player s0 k = Some q" "p_entity_id (pobj s0 q) = k"
    and handlers: "\<forall>(m, b, f, c) \<in> set rs. \<exists>h. dget (p_client_request_callback (pobj s0 q)) m = Some (Some h) \<and>
      (\<forall>i. env_invoke env h (Client_request_args gate conn i b) = player_call_client_response q gate conn i (reply m b))"
    and noting: "\<And>f a. ce_invoke cenv f a = modify (\<lambda>s. s\<lparr>cl_printed := cl_printed s @ [note f a]\<rparr>)"
    and order: "mset zs = mset (zip ids rs)"
  shows "\<exists>s1 c2. for_each (to_hub env gate conn) (drop (length (cl_sent c0)) (cl_sent c1)) s0 = (Inr (), s1) \<and>
    outbox s1 = outbox s0 @ answers gate conn k reply (zip ids rs) \<and> length ids = length rs \<and> distinct ids \<and>
    for_each (to_client cenv conn) (answers gate conn k reply zs) c1 = (Inr (), c2) \<and>
    cl_printed c2 = cl_printed c0 @ List.map (\<lambda>(i, m, b, f, c). note f (Ca_response (reply m b))) zs \<and>
    cp_hub_callback (cl_pobj c2 p) = cp_hub_callback (cl_pobj c0 p)"
proof -
  note made = ask_all_opens [OF client(1) asks(2,1), unfolded client(3)]
  have sent: "drop (length (cl_sent c0)) (cl_sent c1) = calls k (zip ids rs)" using made by simp
  have "\<forall>(i, m, b, f, c) \<in> set (zip ids rs). \<exists>h. dget (p_client_request_callback (pobj s0 q)) m = Some (Some h) \<and>
      env_invoke env h (Client_request_args gate conn i b) = player_call_client_response q gate conn i (reply m b)"
    using handlers by (fastforce dest: set_zip_rightD)
  note hubs = hub_answers [OF hub this]
  have zs: "set zs = set (zip ids rs)" using order by (metis set_mset_mset)
  have dz: "distinct (List.map fst zs)"
    using order made by (metis distinct_map mset_eq_imp_distinct_iff map_fst_zip mset_map)
  note table = asked_table [OF client(1) asks(2,1) zs]
  have "cl_player_get c1 k = Some p" "cl_printed c1 = cl_printed c0"
    using made client(2) by (simp_all add: cl_player_get_def)
  with client_hears [OF noting this(1) dz table(1)] obtain c2 where
    "for_each (to_client cenv conn) (answers gate conn k reply zs) c1 = (Inr (), c2)"
    "cl_printed c2 = cl_printed c0 @ List.map (\<lambda>(i, m, b, f, c). note f (Ca_response (reply m b))) zs"
    "cp_hub_callback (cl_pobj c2 p) = cp_hub_callback (cl_pobj c0 p)" unfolding table(2) by metis
  then show ?thesis
    using hubs made unfolding sent by (intro exI [of _ "emits (answers gate conn k reply (zip ids rs)) s0"]) auto
qed

text \<open>A client whose callbacks print the answer, and a hub whose handlers add a mark to the arguments.\<close>

definition echo_cenv :: cenv where
  "echo_cenv = quiet_cenv\<lparr>ce_invoke := (\<lambda>f a. modify (\<lambda>s. s\<lparr>cl_printed := cl_printed s @
     [case a of Ca_response b \<Rightarrow> b | _ \<Rightarrow> []]\<rparr>))\<rparr>"

definition mark_env :: env where
  "mark_env = quiet_env\<lparr>env_invoke := (\<lambda>h a. case a of
     Client_request_args g cn i b \<Rightarrow> player_call_client_response 0 g cn i (b @ ''!'') | _ \<Rightarrow> ret ())\<rparr>"

definition asking :: client where
  "asking = state_of (cl_player_init 1 (''hero'', [''player'']) ''hero'' ''hero'' new_client)"

definition answering :: hub where
  "answering = add_player 0 (player_reg_client_request_callback 0 ''m'' (Some 4) two_sessions)"

lemma asking_simps:
  "fresh_ids 1 asking" "cl_player_get asking ''hero'' = Some 1" "cp_entity_id (cl_pobj asking 1) = ''hero''"
  "cl_printed asking = []"
  by (simp_all add: asking_def fresh_ids_def drawn_last_def cl_player_init_def cl_get_next_cb_id_def cl_player_add_def
      cl_player_get_def cl_upd_defs Let_def keys_def)

lemma answering_simps:
  "get_player answering ''hero'' = Some 0" "p_entity_id (pobj answering 0) = ''hero''"
  "dget (p_client_request_callback (pobj answering 0)) ''m'' = Some (Some 4)" "outbox answering = []"
  by (simp_all add: answering_def get_player_def two_sessions_def player_reg_client_request_callback_def upd_player_def
      add_player_def Let_def)

theorem requests_answered_witness:
  "\<exists>ids c1 c2 calls. ask_all echo_cenv 1 [(''m'', ''a'', 7, 3), (''m'', ''b'', 8, 4)] asking = (ids, c1) \<and>
     for_each (to_client echo_cenv ''c'') calls c1 = (Inr (), c2) \<and> length calls = 2 \<and>
     cl_printed c2 = [''b!'', ''a!'']"
proof -
  let ?rs = "[(''m'', ''a'', 7, 3), (''m'', ''b'', 8, 4)] :: ask list"
  obtain ids c1 where r: "ask_all echo_cenv 1 ?rs asking = (ids, c1)" by fastforce
  have d: "distinct (List.map (\<lambda>(m, b, f, c). c) ?rs)" by simp
  have h: "\<forall>(m, b, f, c) \<in> set ?rs. \<exists>h. dget (p_client_request_callback (pobj answering 0)) m = Some (Some h) \<and>
      (\<forall>i. env_invoke mark_env h (Client_request_args ''g'' ''c'' i b) =
         player_call_client_response 0 ''g'' ''c'' i ((\<lambda>m b. b @ ''!'') m b))"
    by (simp add: answering_simps mark_env_def)
  have n: "ce_invoke echo_cenv f a =
      modify (\<lambda>s. s\<lparr>cl_printed := cl_printed s @ [(\<lambda>f a. case a of Ca_response b \<Rightarrow> b | _ \<Rightarrow> []) f a]\<rparr>)" for f a
    by (simp add: echo_cenv_def)
  note all = requests_answered [OF r d asking_simps(1-3) answering_simps(1,2) h n]
  obtain i j where ij: "ids = [i, j]"
    using all [OF refl] by (auto simp: length_Suc_conv)
  let ?zs = "[(j, ''m'', ''b'', 8, 4), (i, ''m'', ''a'', 7, 3)]"
  have "mset ?zs = mset (zip ids ?rs)" by (simp add: ij)
  let ?calls = "answers ''g'' ''c'' ''hero'' (\<lambda>m b. b @ ''!'') ?zs"
  from all [OF \<open>mset ?zs = mset (zip ids ?rs)\<close>] obtain c2 where
    c2: "for_each (to_client echo_cenv ''c'') ?calls c1 = (Inr (), c2)" "cl_printed c2 = cl_printed asking @ [''b!'', ''a!'']"
    by auto
  have "length ?calls = 2" by (simp add: answers_def)
  moreover have "cl_printed c2 = [''b!'', ''a!'']" using c2(2) asking_simps(4) by simp
  ultimately show ?thesis using r c2(1) by blast
qed

end
