(* ===== verification/Juggle_Process.thy ===== *)
theory Juggle_Process
  imports Juggle_Machines
begin

section \<open>Interface language: names across files\<close>

text \<open>
  \<open>src/rpc/parser/postprocess.py\<close> and the driver \<open>jparser.batch\<close>: the files of a run are parsed
  one by one, then their names are checked for uniqueness and each file is given the types it
  may use, its own and those of the files it imports, with the file they come from.
\<close>

subsection \<open>The data of a file\<close>

record pretreatment =
  pt_name :: string
  pt_import :: "string list"
  pt_module :: "(string, string \<times> func_item list list) dict"
  pt_enum :: "(string, (string \<times> string) list) dict"
  pt_struct :: "(string, struct_elem list) dict"
  pt_def_struct :: "string list"
  pt_dependent_struct :: "(string \<times> string) list"
  pt_def_enum :: "string list"
  pt_dependent_enum :: "(string \<times> string) list"
  pt_all_enum :: "(string, (string \<times> string) list) dict option"

definition new_pretreatment ::
  "string \<Rightarrow> string list \<Rightarrow> (string, string \<times> func_item list list) dict \<Rightarrow>
   (string, (string \<times> string) list) dict \<Rightarrow> (string, struct_elem list) dict \<Rightarrow> pretreatment" where
  "new_pretreatment fname imports module enum struct = \<lparr>pt_name = fname, pt_import = imports,
     pt_module = module, pt_enum = enum, pt_struct = struct, pt_def_struct = [], pt_dependent_struct = [],
     pt_def_enum = [], pt_dependent_enum = [], pt_all_enum = None\<rparr>"

subsection \<open>\<open>process\<close>\<close>

text \<open>\<open>for k in keys: if k in names: raise ...; names.append(k)\<close>.\<close>

fun add_names :: "string \<Rightarrow> string \<Rightarrow> string list \<Rightarrow> string list \<Rightarrow> pyexn + string list" where
  "add_names kind fname [] names = Inr names"
| "add_names kind fname (k # ks) names =
     (if k \<in> set names
      then Inl (Exception (''repeat '' @ kind @ '' key:'' @ k @ '' in file:'' @ fname))
      else add_names kind fname ks (names @ [k]))"

fun check_names :: "pretreatment list \<Rightarrow> string list \<Rightarrow> pyexn + string list" where
  "check_names [] names = Inr names"
| "check_names (e # es) names =
     bindr (add_names ''module'' (pt_name e) (keys (pt_module e)) names) (\<lambda>names.
     bindr (add_names ''enum'' (pt_name e) (keys (pt_enum e)) names) (\<lambda>names.
     bindr (add_names ''struct'' (pt_name e) (keys (pt_struct e)) names) (\<lambda>names.
       check_names es names)))"

text \<open>The second loop: what each file defines, and the enumerations of all files together.\<close>

definition own_types :: "pretreatment \<Rightarrow> pretreatment" where
  "own_types e =
     (let def_enum = pt_def_enum e @ keys (pt_enum e);
          def_struct = pt_def_struct e @ keys (pt_struct e)
      in e\<lparr>pt_def_enum := def_enum,
           pt_dependent_enum := pt_dependent_enum e @ List.map (\<lambda>t. (t, [])) def_enum,
           pt_def_struct := def_struct,
           pt_dependent_struct := pt_dependent_struct e @ List.map (\<lambda>t. (t, [])) def_struct\<rparr>)"

definition all_enums :: "pretreatment list \<Rightarrow> (string, (string \<times> string) list) dict" where
  "all_enums es = fold (\<lambda>e d. fold (\<lambda>(k, v). dset k v) (pt_enum e) d) es []"

definition get_import_elem :: "string \<Rightarrow> pretreatment list \<Rightarrow> pretreatment option" where
  "get_import_elem imp es = List.find (\<lambda>e. pt_name e = imp) es"

text \<open>The third loop; an import of a file that is not there is \<open>None.def_struct\<close>.\<close>

fun import_types :: "pretreatment list \<Rightarrow> string list \<Rightarrow> pretreatment \<Rightarrow> pyexn + pretreatment" where
  "import_types es [] e = Inr e"
| "import_types es (imp # imps) e = (case get_import_elem imp es of
     None \<Rightarrow> Inl AttributeError
   | Some f \<Rightarrow> import_types es imps
       (e\<lparr>pt_dependent_struct := pt_dependent_struct e @ List.map (\<lambda>t. (t, imp)) (pt_def_struct f),
          pt_dependent_enum := pt_dependent_enum e @ List.map (\<lambda>t. (t, imp)) (pt_def_enum f)\<rparr>))"

fun map_res :: "('a \<Rightarrow> pyexn + 'b) \<Rightarrow> 'a list \<Rightarrow> pyexn + 'b list" where
  "map_res f [] = Inr []"
| "map_res f (x # xs) = bindr (f x) (\<lambda>y. bindr (map_res f xs) (\<lambda>ys. Inr (y # ys)))"

definition process :: "pretreatment list \<Rightarrow> pyexn + pretreatment list" where
  "process es =
     bindr (check_names es []) (\<lambda>_.
       let own = List.map own_types es in
       bindr (map_res (\<lambda>e. import_types own (pt_import e) e) own) (\<lambda>linked.
         Inr (List.map (\<lambda>e. e\<lparr>pt_all_enum := Some (all_enums es)\<rparr>) linked)))"

subsection \<open>\<open>jparser.batch\<close>\<close>

text \<open>
  A directory is the list of its entries: the name, the extension and the lines.  \<open>ev\<close> is the
  evaluation of the literals of defaults, as in the parser.
\<close>

fun read_dir :: "(string \<Rightarrow> pyexn + int list) \<Rightarrow> bool \<Rightarrow> (string \<times> string \<times> string list) list \<Rightarrow>
    pyexn + pretreatment list" where
  "read_dir ev common [] = Inr []"
| "read_dir ev common ((fname, fex, genfilestr) # files) =
     (if fex \<noteq> ''.juggle'' then read_dir ev common files else
      bindr (parser ev genfilestr) (\<lambda>m.
        if common \<and> sm_module m \<noteq> []
        then Inl (Exception (''fname:'' @ fname @ '' is common, could not define module''))
        else bindr (read_dir ev common files) (\<lambda>es.
          Inr (new_pretreatment fname (sm_import m) (sm_module m) (sm_enum m) (sm_struct m) # es))))"

definition batch :: "(string \<Rightarrow> pyexn + int list) \<Rightarrow> (string \<times> string \<times> string list) list \<Rightarrow>
    (string \<times> string \<times> string list) list option \<Rightarrow> pyexn + pretreatment list" where
  "batch ev inputdir commondir =
     bindr (read_dir ev False inputdir) (\<lambda>es.
     bindr (case commondir of None \<Rightarrow> Inr [] | Some files \<Rightarrow> read_dir ev True files) (\<lambda>cs.
       process (es @ cs)))"

subsection \<open>Facts\<close>

text \<open>All names of a list of files, in the order they are checked.\<close>

definition names_of :: "pretreatment \<Rightarrow> string list" where
  "names_of e = keys (pt_module e) @ keys (pt_enum e) @ keys (pt_struct e)"

lemma add_names_Inr:
  "add_names kind fname ks names = Inr names' \<longleftrightarrow>
     names' = names @ ks \<and> distinct ks \<and> set ks \<inter> set names = {}"
  by (induction ks arbitrary: names) auto

lemma check_names_Inr:
  "distinct names \<Longrightarrow> check_names es names = Inr names' \<Longrightarrow>
     names' = names @ concat (List.map names_of es) \<and> distinct names'"
proof (induction es arbitrary: names)
  case Nil
  then show ?case by simp
next
  case (Cons e es)
  from Cons.prems(2) obtain n1 n2 n3 where n:
    "add_names ''module'' (pt_name e) (keys (pt_module e)) names = Inr n1"
    "add_names ''enum'' (pt_name e) (keys (pt_enum e)) n1 = Inr n2"
    "add_names ''struct'' (pt_name e) (keys (pt_struct e)) n2 = Inr n3"
    "check_names es n3 = Inr names'"
    by (auto simp: bindr_Inr)
  then have n3: "n3 = names @ names_of e" "distinct n3"
    using Cons.prems(1) by (auto simp: add_names_Inr names_of_def)
  from Cons.IH [OF n3(2) n(4)] have "names' = n3 @ concat (List.map names_of es)" "distinct names'"
    by blast+
  then show ?case using n3(1) by (intro conjI) simp_all
qed

lemma check_names_Inl:
  "distinct names \<Longrightarrow> check_names es names = Inl x \<Longrightarrow> \<not> distinct (names @ concat (List.map names_of es))"
proof (induction es arbitrary: names)
  case Nil
  then show ?case by simp
next
  case (Cons e es)
  show ?case
  proof (cases "distinct (names @ names_of e)")
    case True
    then have "add_names ''module'' (pt_name e) (keys (pt_module e)) names = Inr (names @ keys (pt_module e))"
      "add_names ''enum'' (pt_name e) (keys (pt_enum e)) (names @ keys (pt_module e)) =
         Inr ((names @ keys (pt_module e)) @ keys (pt_enum e))"
      "add_names ''struct'' (pt_name e) (keys (pt_struct e)) ((names @ keys (pt_module e)) @ keys (pt_enum e)) =
         Inr (names @ names_of e)"
      by (auto simp: add_names_Inr names_of_def)
    with Cons.prems(2) have "check_names es (names @ names_of e) = Inl x" by simp
    from Cons.IH [OF True this] show ?thesis by simp
  next
    case False
    then show ?thesis by auto
  qed
qed

lemma map_res_nth:
  "map_res f xs = Inr ys \<Longrightarrow> length ys = length xs \<and> (\<forall>i < length xs. f (xs ! i) = Inr (ys ! i))"
proof (induction xs arbitrary: ys)
  case Nil
  then show ?case by simp
next
  case (Cons x xs)
  then obtain y zs where "f x = Inr y" "map_res f xs = Inr zs" "ys = y # zs"
    by (auto simp: bindr_Inr)
  with Cons.IH [of zs] show ?case by (auto simp: nth_Cons split: nat.split)
qed

lemma import_types_Inr:
  "import_types es imps e = Inr e' \<Longrightarrow>
     set (pt_dependent_struct e') = set (pt_dependent_struct e) \<union>
       {(t, imp). imp \<in> set imps \<and> (\<exists>f. get_import_elem imp es = Some f \<and> t \<in> set (pt_def_struct f))} \<and>
     set (pt_dependent_enum e') = set (pt_dependent_enum e) \<union>
       {(t, imp). imp \<in> set imps \<and> (\<exists>f. get_import_elem imp es = Some f \<and> t \<in> set (pt_def_enum f))} \<and>
     (\<forall>imp \<in> set imps. get_import_elem imp es \<noteq> None)"
proof (induction imps arbitrary: e)
  case Nil
  then show ?case by simp
next
  case (Cons imp imps)
  then obtain f where f: "get_import_elem imp es = Some f" by (cases "get_import_elem imp es") auto
  let ?e = "e\<lparr>pt_dependent_struct := pt_dependent_struct e @ List.map (\<lambda>t. (t, imp)) (pt_def_struct f),
          pt_dependent_enum := pt_dependent_enum e @ List.map (\<lambda>t. (t, imp)) (pt_def_enum f)\<rparr>"
  have "import_types es imps ?e = Inr e'" using Cons.prems f by simp
  note IH = Cons.IH [OF this]
  have s: "set (pt_dependent_struct ?e) = set (pt_dependent_struct e) \<union> {(t, i). i = imp \<and> t \<in> set (pt_def_struct f)}"
    "set (pt_dependent_enum ?e) = set (pt_dependent_enum e) \<union> {(t, i). i = imp \<and> t \<in> set (pt_def_enum f)}"
    by auto
  show ?case
  proof (intro conjI)
    show "set (pt_dependent_struct e') = set (pt_dependent_struct e) \<union>
       {(t, i). i \<in> set (imp # imps) \<and> (\<exists>f. get_import_elem i es = Some f \<and> t \<in> set (pt_def_struct f))}"
      unfolding IH [THEN conjunct1] s using f by auto
    show "set (pt_dependent_enum e') = set (pt_dependent_enum e) \<union>
       {(t, i). i \<in> set (imp # imps) \<and> (\<exists>f. get_import_elem i es = Some f \<and> t \<in> set (pt_def_enum f))}"
      unfolding IH [THEN conjunct2, THEN conjunct1] s using f by auto
    show "\<forall>i \<in> set (imp # imps). get_import_elem i es \<noteq> None" using IH f by auto
  qed
qed

subsection \<open>Properties\<close>

lemma own_types_simps [simp]:
  "pt_name (own_types e) = pt_name e" "pt_import (own_types e) = pt_import e"
  by (simp_all add: own_types_def Let_def)

lemma find_own: "get_import_elem imp (List.map own_types es) = map_option own_types (get_import_elem imp es)"
  unfolding get_import_elem_def by (induction es) simp_all

lemma own_types_defs:
  assumes "pt_def_struct e = []" "pt_def_enum e = []" "pt_dependent_struct e = []" "pt_dependent_enum e = []"
  shows "pt_def_struct (own_types e) = keys (pt_struct e)" "pt_def_enum (own_types e) = keys (pt_enum e)"
    "pt_dependent_struct (own_types e) = List.map (\<lambda>t. (t, [])) (keys (pt_struct e))"
    "pt_dependent_enum (own_types e) = List.map (\<lambda>t. (t, [])) (keys (pt_enum e))"
  using assms by (simp_all add: own_types_def Let_def)

text \<open>A file as the parser hands it over.\<close>

definition fresh_file :: "pretreatment \<Rightarrow> bool" where
  "fresh_file e = (pt_def_struct e = [] \<and> pt_def_enum e = [] \<and> pt_dependent_struct e = [] \<and> pt_dependent_enum e = [])"

lemma process_succeeds:
  "(\<exists>out. process es = Inr out) \<longleftrightarrow> distinct (concat (List.map names_of es)) \<and>
    (\<forall>e \<in> set es. \<forall>imp \<in> set (pt_import e). \<exists>f \<in> set es. pt_name f = imp)"
proof -
  let ?own = "List.map own_types es"
  have find: "get_import_elem imp es \<noteq> None \<longleftrightarrow> (\<exists>f \<in> set es. pt_name f = imp)" for imp
    by (auto simp: get_import_elem_def find_None_iff)
  have links: "(\<exists>e'. import_types ?own imps e = Inr e') \<longleftrightarrow> (\<forall>imp \<in> set imps. get_import_elem imp es \<noteq> None)" for imps e
    by (induction imps arbitrary: e) (auto simp: find_own split: option.split)
  have all: "(\<exists>ys. map_res (\<lambda>e. import_types ?own (pt_import e) e) xs = Inr ys) \<longleftrightarrow>
      (\<forall>e \<in> set xs. \<exists>e'. import_types ?own (pt_import e) e = Inr e')" for xs
    by (induction xs) (auto simp: bindr_Inr)
  have names: "(\<exists>ns. check_names es [] = Inr ns) \<longleftrightarrow> distinct (concat (List.map names_of es))"
    using check_names_Inr [of "[]" es] check_names_Inl [of "[]" es] by (cases "check_names es []") auto
  have "(\<exists>out. process es = Inr out) \<longleftrightarrow> (\<exists>ns. check_names es [] = Inr ns) \<and>
      (\<exists>ys. map_res (\<lambda>e. import_types ?own (pt_import e) e) ?own = Inr ys)"
    by (auto simp: process_def bindr_Inr Let_def)
  then show ?thesis
    unfolding names all links find by simp
qed

text \<open>C28: \<open>process\<close>, the step behind the parsing of the files: it succeeds exactly when the names of the
  parsed structures, enumerations and services are distinct over all files and every import names one
  of the files; then a file may use exactly the structures and enumerations it declares, under no
  import, and those of the files it imports, under the import.  It is about what the parser made of
  each file: a service, an enumeration or a structure that is declared twice in one file is one entry of the
  parser's dict, the last.\<close>

theorem names_resolve:
  assumes "\<forall>e \<in> set es. fresh_file e"
  shows "((\<exists>out. process es = Inr out) \<longleftrightarrow>
      distinct (concat (List.map names_of es)) \<and>
      (\<forall>e \<in> set es. \<forall>imp \<in> set (pt_import e). \<exists>f \<in> set es. pt_name f = imp)) \<and>
    (\<forall>out i. process es = Inr out \<longrightarrow> i < length es \<longrightarrow>
      set (pt_dependent_struct (out ! i)) =
        {(t, []) |t. t \<in> set (keys (pt_struct (es ! i)))} \<union>
        {(t, imp) |t imp f. imp \<in> set (pt_import (es ! i)) \<and> get_import_elem imp es = Some f \<and> t \<in> set (keys (pt_struct f))} \<and>
      set (pt_dependent_enum (out ! i)) =
        {(t, []) |t. t \<in> set (keys (pt_enum (es ! i)))} \<union>
        {(t, imp) |t imp f. imp \<in> set (pt_import (es ! i)) \<and> get_import_elem imp es = Some f \<and> t \<in> set (keys (pt_enum f))})"
proof (intro conjI allI impI)
  let ?own = "List.map own_types es"
  show "(\<exists>out. process es = Inr out) \<longleftrightarrow> distinct (concat (List.map names_of es)) \<and>
      (\<forall>e \<in> set es. \<forall>imp \<in> set (pt_import e). \<exists>f \<in> set es. pt_name f = imp)"
    by (rule process_succeeds)
  fix out i
  assume "process es = Inr out" and i: "i < length es"
  then obtain linked where l: "map_res (\<lambda>e. import_types ?own (pt_import e) e) ?own = Inr linked"
    "out = List.map (\<lambda>e. e\<lparr>pt_all_enum := Some (all_enums es)\<rparr>) linked"
    by (auto simp: process_def bindr_Inr Let_def)
  from map_res_nth [OF l(1)] i have "import_types ?own (pt_import (es ! i)) (own_types (es ! i)) = Inr (linked ! i)"
    "length linked = length es" by auto
  note imp = import_types_Inr [OF this(1)]
  have out: "pt_dependent_struct (out ! i) = pt_dependent_struct (linked ! i)"
    "pt_dependent_enum (out ! i) = pt_dependent_enum (linked ! i)"
    using l(2) i \<open>length linked = length es\<close> by simp_all
  have own: "pt_def_struct (own_types e) = keys (pt_struct e)" "pt_def_enum (own_types e) = keys (pt_enum e)"
    "pt_dependent_struct (own_types e) = List.map (\<lambda>t. (t, [])) (keys (pt_struct e))"
    "pt_dependent_enum (own_types e) = List.map (\<lambda>t. (t, [])) (keys (pt_enum e))" if "e \<in> set es" for e
    using own_types_defs [of e] assms that by (simp_all add: fresh_file_def)
  have mem: "get_import_elem m es = Some f \<Longrightarrow> f \<in> set es" for m f
    by (auto simp: get_import_elem_def find_Some_iff)
  from i have e: "es ! i \<in> set es" by simp
  show "set (pt_dependent_struct (out ! i)) =
        {(t, []) |t. t \<in> set (keys (pt_struct (es ! i)))} \<union>
        {(t, imp) |t imp f. imp \<in> set (pt_import (es ! i)) \<and> get_import_elem imp es = Some f \<and> t \<in> set (keys (pt_struct f))}"
    unfolding out imp [THEN conjunct1] own(3) [OF e] find_own by (auto simp: own(1) mem)
  show "set (pt_dependent_enum (out ! i)) =
        {(t, []) |t. t \<in> set (keys (pt_enum (es ! i)))} \<union>
        {(t, imp) |t imp f. imp \<in> set (pt_import (es ! i)) \<and> get_import_elem imp es = Some f \<and> t \<in> set (keys (pt_enum f))}"
    unfolding out imp [THEN conjunct2, THEN conjunct1] own(4) [OF e] find_own by (auto simp: own(2) mem)
qed

definition two_files :: "pretreatment list" where
  "two_files = [new_pretreatment ''game'' [''common''] [(''login'', (''entity_service'', []))] [] [(''hero'', [])],
     new_pretreatment ''common'' [] [] [(''kind'', [])] [(''item'', [])]]"

lemma names_resolve_witness:
  "\<exists>out. process two_files = Inr out \<and>
     set (pt_dependent_struct (out ! 0)) = {(''hero'', ''''), (''item'', ''common'')} \<and>
     set (pt_dependent_enum (out ! 0)) = {(''kind'', ''common'')}"
proof -
  have fresh: "\<forall>e \<in> set two_files. fresh_file e"
    by (simp add: two_files_def new_pretreatment_def fresh_file_def)
  note r = names_resolve [OF fresh]
  have "distinct (concat (List.map names_of two_files)) \<and>
      (\<forall>e \<in> set two_files. \<forall>imp \<in> set (pt_import e). \<exists>f \<in> set two_files. pt_name f = imp)"
    by (simp add: two_files_def new_pretreatment_def names_of_def keys_def)
  from r [THEN conjunct1, THEN iffD2, OF this] obtain out where out: "process two_files = Inr out" ..
  have "0 < length two_files" by (simp add: two_files_def)
  note deps = r [THEN conjunct2, rule_format, OF out this]
  have e: "pt_struct (two_files ! 0) = [(''hero'', [])]" "pt_enum (two_files ! 0) = []"
    "pt_import (two_files ! 0) = [''common'']"
    "get_import_elem ''common'' two_files = Some (new_pretreatment ''common'' [] [] [(''kind'', [])] [(''item'', [])])"
    by (simp_all add: two_files_def new_pretreatment_def get_import_elem_def)
  have "set (pt_dependent_struct (out ! 0)) = {(''hero'', ''''), (''item'', ''common'')}"
    unfolding deps [THEN conjunct1] e by (auto simp: keys_def e new_pretreatment_def)
  moreover have "set (pt_dependent_enum (out ! 0)) = {(''kind'', ''common'')}"
    unfolding deps [THEN conjunct2] e by (auto simp: keys_def e new_pretreatment_def)
  ultimately show ?thesis using out by blast
qed

end
