(* ===== verification/Decimal.thy ===== *)
theory Decimal
  imports Main
begin

section \<open>Decimal texts of numbers\<close>

text \<open>
  \<open>str(n)\<close> of a natural number, its inverse, and texts that end in an underscore and a number.
\<close>

definition digit :: "nat \<Rightarrow> char" where
  "digit k = char_of (48 + k)"

fun nat_str :: "nat \<Rightarrow> string" where
  "nat_str n = (if n < 10 then [digit n] else nat_str (n div 10) @ [digit (n mod 10)])"

declare nat_str.simps [simp del]

lemma of_char_digit: "k < 10 \<Longrightarrow> of_char (digit k) = 48 + k"
  by (simp add: digit_def)

definition digits_value :: "string \<Rightarrow> nat" where
  "digits_value s = foldl (\<lambda>a c. 10 * a + (of_char c - 48)) 0 s"

lemma digits_value_nat_str: "digits_value (nat_str n) = n"
proof (induction n rule: nat_str.induct)
  case (1 n)
  show ?case
  proof (cases "n < 10")
    case True
    then show ?thesis by (simp add: nat_str.simps [of n] digits_value_def of_char_digit)
  next
    case False
    with 1 show ?thesis
      by (subst nat_str.simps) (simp add: digits_value_def of_char_digit)
  qed
qed

lemma nat_str_inject [simp]: "nat_str m = nat_str n \<longleftrightarrow> m = n"
  using digits_value_nat_str by metis

lemma digit_not_underscore: "k < 10 \<Longrightarrow> digit k \<noteq> CHR ''_''"
  using of_char_digit [of k] by (auto simp: eval_nat_numeral)

lemma underscore_not_in_nat_str: "CHR ''_'' \<notin> set (nat_str n)"
proof (induction n rule: nat_str.induct)
  case (1 n)
  then show ?case
    using digit_not_underscore [of n] digit_not_underscore [of "n mod 10"]
    by (subst nat_str.simps) (auto simp: eq_commute)
qed

text \<open>The number after the last underscore of a text is determined by the text.\<close>

lemma numbered_inject:
  assumes "a @ ''_'' @ nat_str m = b @ ''_'' @ nat_str n"
  shows "m = n"
proof -
  have t: "takeWhile (\<lambda>c. c \<noteq> CHR ''_'') (rev (x @ ''_'' @ nat_str k)) = rev (nat_str k)" for x k
  proof -
    have "\<And>c. c \<in> set (rev (nat_str k)) \<Longrightarrow> c \<noteq> CHR ''_''" using underscore_not_in_nat_str [of k] by auto
    from takeWhile_append2 [of "rev (nat_str k)" "\<lambda>c. c \<noteq> CHR ''_''", OF this]
    show ?thesis by simp
  qed
  from assms have "rev (nat_str m) = rev (nat_str n)" by (metis t)
  then show ?thesis by simp
qed

end
