(* ===== verification/Rpc_Tools.thy ===== *)
theory Rpc_Tools
  imports Juggle_Process Decimal
begin

section \<open>Interface compiler: types, defaults and the code of one value\<close>

text \<open>
  \<open>src/rpc/tools/python/tools.py\<close> and \<open>gen_tools.py\<close>, which the generators of Python code
  share.  The code is text; a generator that raises is \<open>Inl\<close>.  The names made from
  \<open>uuid.uuid3\<close> and \<open>uuid.uuid5\<close> of a name are the parameters \<open>u3\<close> and \<open>u5\<close>.  A type the file
  may use comes with the file it is imported from, empty for its own.
\<close>

subsection \<open>Types\<close>

datatype type_type = T_Enum | T_Custom | T_String | T_Int8 | T_Int16 | T_Int32 | T_Int64
  | T_Uint8 | T_Uint16 | T_Uint32 | T_Uint64 | T_Float | T_Double | T_Bool | T_Bin | T_List

type_synonym dependents = "(string \<times> string) list"

fun check_in_dependent :: "string \<Rightarrow> dependents \<Rightarrow> bool" where
  "check_in_dependent typestr [] = False"
| "check_in_dependent typestr ((ty, imp) # rest) = (ty = typestr \<or> check_in_dependent typestr rest)"

fun get_import :: "string \<Rightarrow> dependents \<Rightarrow> string" where
  "get_import typestr [] = []"
| "get_import typestr ((ty, imp) # rest) = (if ty = typestr then imp else get_import typestr rest)"

definition base_types :: "(string, type_type) dict" where
  "base_types = [(''int8'', T_Int8), (''int16'', T_Int16), (''int32'', T_Int32), (''int64'', T_Int64),
     (''uint8'', T_Uint8), (''uint16'', T_Uint16), (''uint32'', T_Uint32), (''uint64'', T_Uint64),
     (''string'', T_String), (''float'', T_Float), (''double'', T_Double), (''bool'', T_Bool), (''bin'', T_Bin)]"

text \<open>\<open>typestr[-2] == '['\<close> raises on a name of one character.\<close>

definition is_list_type :: "string \<Rightarrow> bool" where
  "is_list_type t = (length t \<ge> 2 \<and> drop (length t - 2) t = ''[]'')"

definition check_type :: "string \<Rightarrow> dependents \<Rightarrow> dependents \<Rightarrow> pyexn + type_type" where
  "check_type typestr dependent_struct dependent_enum =
     (case dget base_types typestr of
        Some k \<Rightarrow> Inr k
      | None \<Rightarrow>
          if check_in_dependent typestr dependent_struct then Inr T_Custom
          else if check_in_dependent typestr dependent_enum then Inr T_Enum
          else if length typestr < 2 then Inl IndexError
          else if is_list_type typestr then Inr T_List
          else Inl (Exception (''non exist type:'' @ typestr)))"

definition check_type_original :: "type_type \<Rightarrow> bool" where
  "check_type_original t = (t \<in> {T_Enum, T_String, T_Int8, T_Int16, T_Int32, T_Int64, T_Uint8, T_Uint16,
     T_Uint32, T_Uint64, T_Float, T_Double, T_Bool, T_Bin})"

text \<open>\<open>typestr[0:-2]\<close>.\<close>

definition child_type :: "string \<Rightarrow> string" where
  "child_type t = take (length t - 2) t"

lemma check_type_list:
  "check_type t ds de = Inr T_List \<Longrightarrow> is_list_type t \<and> dget base_types t = None"
  by (auto simp: check_type_def base_types_def split: option.splits if_splits)

lemma child_type_shorter: "check_type t ds de = Inr T_List \<Longrightarrow> length (child_type t) < length t"
  using check_type_list [of t ds de] by (auto simp: is_list_type_def child_type_def)

definition python_types :: "(string, string) dict" where
  "python_types = [(''int8'', ''int''), (''int16'', ''int''), (''int32'', ''int''), (''int64'', ''int''),
     (''uint8'', ''int''), (''uint16'', ''int''), (''uint32'', ''int''), (''uint64'', ''int''),
     (''string'', ''str''), (''float'', ''float''), (''double'', ''float''), (''bool'', ''bool''), (''bin'', ''bytes'')]"

function convert_type :: "string \<Rightarrow> dependents \<Rightarrow> dependents \<Rightarrow> pyexn + string" where
  "convert_type typestr dependent_struct dependent_enum =
     (case dget python_types typestr of
        Some t \<Rightarrow> Inr t
      | None \<Rightarrow>
          if check_in_dependent typestr dependent_struct then Inr typestr
          else if check_in_dependent typestr dependent_enum then Inr typestr
          else (case check_type typestr dependent_struct dependent_enum of
              Inl e \<Rightarrow> Inl e
            | Inr k \<Rightarrow> if k = T_List
                then bindr (convert_type (child_type typestr) dependent_struct dependent_enum)
                       (\<lambda>array_type. Inr (''list['' @ array_type @ '']''))
                else Inl (Exception (''non exist type:'' @ typestr))))"
  by pat_completeness auto
termination
  by (relation "measure (\<lambda>(t, ds, de). length t)") (auto simp: child_type_shorter)

declare convert_type.simps [simp del]

subsection \<open>Defaults\<close>

text \<open>
  \<open>None\<close> is the value of a Python function that ends without \<open>return\<close>; concatenating it to a
  text is a \<open>TypeError\<close>.  The enumeration default \<open>Kind.member\<close> is checked against the members
  and then written after the enumeration's name, which it contains already.
\<close>

definition dot :: string where "dot = [CHR 0x2E]"

definition split_dot0 :: "string \<Rightarrow> string" where
  "split_dot0 p = takeWhile (\<lambda>c. c \<noteq> CHR 0x2E) p"

definition split_dot1 :: "string \<Rightarrow> pyexn + string" where
  "split_dot1 p = (case dropWhile (\<lambda>c. c \<noteq> CHR 0x2E) p of
     [] \<Rightarrow> Inl IndexError | c # rest \<Rightarrow> Inr (takeWhile (\<lambda>c. c \<noteq> CHR 0x2E) rest))"

definition convert_parameter ::
  "string \<Rightarrow> string \<Rightarrow> dependents \<Rightarrow> (string, (string \<times> string) list) dict \<Rightarrow> pyexn + string option" where
  "convert_parameter typestr parameter dependent_enum enum =
     (if typestr \<in> {''int8'', ''int16'', ''int32'', ''int64'', ''uint8'', ''uint16'', ''uint32'', ''uint64'', ''string''}
      then Inr (Some parameter)
      else if typestr \<in> {''float'', ''double''} then Inr (Some (''float('' @ parameter @ '')''))
      else if typestr = ''bool'' then Inr (Some parameter)
      else if check_in_dependent typestr dependent_enum then
        bindr (split_dot1 parameter) (\<lambda>member.
        bindr (getitem enum typestr) (\<lambda>enum_elems.
          if member \<in> set (List.map fst enum_elems) \<and> split_dot0 parameter = typestr then
            (let imp = get_import typestr dependent_enum in
             if imp = [] then Inr (Some (typestr @ dot @ parameter))
             else Inr (Some (imp @ dot @ typestr @ dot @ parameter)))
          else Inl (Exception (''parameter:'' @ parameter @ '' not '' @ typestr @ '' member''))))
      else if typestr = ''bin'' then Inr (Some (''bytes(['' @ tl (butlast parameter) @ ''])''))
      else Inr None)"

definition get_type_default :: "string \<Rightarrow> dependents \<Rightarrow> dependents \<Rightarrow> pyexn + string option" where
  "get_type_default typestr dependent_struct dependent_enum =
     (if typestr \<in> {''int8'', ''int16'', ''int32'', ''int64'', ''uint8'', ''uint16'', ''uint32'', ''uint64''}
      then Inr (Some ''0'')
      else if typestr = ''string'' then Inr (Some [CHR 0x22, CHR 0x22])
      else if typestr \<in> {''float'', ''double''} then Inr (Some ''0.0'')
      else if typestr = ''bool'' then Inr (Some ''False'')
      else if check_in_dependent typestr dependent_enum then Inr (Some ''0'')
      else if check_in_dependent typestr dependent_struct then Inr (Some ''None'')
      else if typestr = ''bin'' then Inr (Some [CHR 0x62, CHR 0x27, CHR 0x27])
      else (case check_type typestr dependent_struct dependent_enum of
          Inl e \<Rightarrow> Inl e
        | Inr k \<Rightarrow> Inr (if k = T_List then Some ''[]'' else None)))"

subsection \<open>The code that packs a value\<close>

definition eol :: string where "eol = [CHR 0x0A]"
definition dq :: string where "dq = [CHR 0x22]"

definition space_of :: "nat \<Rightarrow> string" where
  "space_of depth = concat (replicate depth ''    '')"

text \<open>The two names made from a name, with the hyphens of the uuid replaced.\<close>

record uuids =
  u3 :: "string \<Rightarrow> string"
  u5 :: "string \<Rightarrow> string"

text \<open>
  Every caller passes \<open>''list''\<close> as the kind of the container; \<open>gen_list...\<close> and \<open>gen_type...\<close>
  call each other, on the type of the elements.
\<close>

lemma check_type_child_measure:
  "check_type (child_type t) ds de = Inr k \<Longrightarrow>
   2 * length (child_type t) + (if k = T_List then 2 else 0) < 2 * length t + 1"
proof (cases "k = T_List")
  case True
  assume "check_type (child_type t) ds de = Inr k"
  with True have "is_list_type (child_type t)" using check_type_list by blast
  then have "2 \<le> length (child_type t)" by (simp add: is_list_type_def)
  then show ?thesis by (simp add: child_type_def True)
next
  case False
  then show ?thesis by (simp add: child_type_def)
qed

function gen_type_code_type_to_protcol ::
    "uuids \<Rightarrow> nat \<Rightarrow> string \<Rightarrow> string \<Rightarrow> string \<Rightarrow> type_type \<Rightarrow> string \<Rightarrow> string \<Rightarrow> dependents \<Rightarrow> dependents \<Rightarrow> pyexn + string"
  and gen_list_type_code_type_to_protcol ::
    "uuids \<Rightarrow> nat \<Rightarrow> string \<Rightarrow> string \<Rightarrow> string \<Rightarrow> string \<Rightarrow> string \<Rightarrow> dependents \<Rightarrow> dependents \<Rightarrow> pyexn + string" where
  "gen_type_code_type_to_protcol u depth container c_type ty ty_enum name func_name ds de =
     (if ty_enum = T_List then gen_list_type_code_type_to_protcol u depth container c_type ty name func_name ds de
      else if c_type = ''list'' \<and> check_type_original ty_enum then
        Inr (space_of depth @ container @ ''.append('' @ name @ '')'' @ eol)
      else if c_type = ''list'' \<and> ty_enum = T_Custom then
        Inr (space_of depth @ container @ ''.append('' @ ty @ ''_to_protcol('' @ name @ ''))'' @ eol)
      else Inl (Exception (''not support type:'' @ ty @ '' in func:'' @ func_name)))"
| "gen_list_type_code_type_to_protcol u depth container c_type ty name func_name ds de =
     (case check_type (child_type ty) ds de of
        Inl e \<Rightarrow> Inl e
      | Inr child_enum \<Rightarrow>
          bindr (gen_type_code_type_to_protcol u (depth + 1) (''_list_'' @ u3 u name) ''list'' (child_type ty)
                   child_enum (''v_'' @ u5 u name) func_name ds de) (\<lambda>inner.
            Inr (space_of depth @ ''_list_'' @ u3 u name @ '' = []'' @ eol @
                 space_of depth @ ''for v_'' @ u5 u name @ '' in '' @ name @ '':'' @ eol @
                 inner @
                 (if c_type = ''list'' then space_of depth @ container @ ''.append(_list_'' @ u3 u name @ '')'' @ eol else []))))"
  by pat_completeness auto

termination
  by (relation "measure (\<lambda>x. case x of
      Inl (u, depth, container, c_type, ty, ty_enum, name, fn, ds, de) \<Rightarrow> 2 * length ty + (if ty_enum = T_List then 2 else 0)
    | Inr (u, depth, container, c_type, ty, name, fn, ds, de) \<Rightarrow> 2 * length ty + 1)")
     (auto dest: check_type_child_measure)

declare gen_type_code_type_to_protcol.simps [simp del] gen_list_type_code_type_to_protcol.simps [simp del]

subsection \<open>The code that unpacks a value\<close>

text \<open>
  The element type of a list inside a list is taken with \<open>_type[5:-1]\<close>, the line that makes the
  list is overwritten by the line of the loop (\<open>code =\<close>), and the elements of a structure type are
  appended through \<open>..._to_protcol\<close>, as if they were being packed.
\<close>

definition slice51 :: "string \<Rightarrow> string" where
  "slice51 t = drop 5 (butlast t)"

lemma slice51_measure:
  "check_type (slice51 t) ds de = Inr k \<Longrightarrow>
   2 * length (slice51 t) + (if k = T_List then 2 else 0) < 2 * length t + 1"
proof (cases "k = T_List")
  case True
  assume "check_type (slice51 t) ds de = Inr k"
  with True have "is_list_type (slice51 t)" using check_type_list by blast
  then have "2 \<le> length (slice51 t)" by (simp add: is_list_type_def)
  then show ?thesis by (simp add: slice51_def True)
next
  case False
  then show ?thesis by (simp add: slice51_def)
qed

function gen_type_code_protcol_to_type ::
    "uuids \<Rightarrow> nat \<Rightarrow> string \<Rightarrow> string \<Rightarrow> string \<Rightarrow> type_type \<Rightarrow> string \<Rightarrow> string \<Rightarrow> dependents \<Rightarrow> dependents \<Rightarrow> pyexn + string"
  and gen_list_type_code_protcol_to_type ::
    "uuids \<Rightarrow> nat \<Rightarrow> string \<Rightarrow> string \<Rightarrow> string \<Rightarrow> string \<Rightarrow> string \<Rightarrow> dependents \<Rightarrow> dependents \<Rightarrow> pyexn + string" where
  "gen_type_code_protcol_to_type u depth container c_type ty ty_enum name func_name ds de =
     (if ty_enum = T_List then gen_list_type_code_protcol_to_type u depth container c_type ty name func_name ds de
      else if c_type = ''list'' \<and> check_type_original ty_enum then
        Inr (space_of depth @ container @ ''.append('' @ name @ '')'' @ eol)
      else if c_type = ''list'' \<and> ty_enum = T_Custom then
        Inr (space_of depth @ container @ ''.append('' @ ty @ ''_to_protcol('' @ name @ ''))'' @ eol)
      else Inl (Exception (''not support type:'' @ ty @ '' in func:'' @ func_name)))"
| "gen_list_type_code_protcol_to_type u depth container c_type ty name func_name ds de =
     (case check_type (slice51 ty) ds de of
        Inl e \<Rightarrow> Inl e
      | Inr child_enum \<Rightarrow>
          bindr (gen_type_code_protcol_to_type u (depth + 1) (''_list_'' @ u3 u name) ''list'' (slice51 ty)
                   child_enum (''v_'' @ u5 u name) func_name ds de) (\<lambda>inner.
            Inr (space_of depth @ ''for v_'' @ u5 u name @ '' in '' @ name @ '':'' @ eol @
                 inner @
                 (if c_type = ''list'' then space_of depth @ container @ ''.append(_list_'' @ u3 u name @ '')'' @ eol else []))))"
  by pat_completeness auto

termination
  by (relation "measure (\<lambda>x. case x of
      Inl (u, depth, container, c_type, ty, ty_enum, name, fn, ds, de) \<Rightarrow> 2 * length ty + (if ty_enum = T_List then 2 else 0)
    | Inr (u, depth, container, c_type, ty, name, fn, ds, de) \<Rightarrow> 2 * length ty + 1)")
     (auto dest: slice51_measure)

declare gen_type_code_protcol_to_type.simps [simp del] gen_list_type_code_protcol_to_type.simps [simp del]

subsection \<open>Dictionaries\<close>

text \<open>
  Two functions that nothing calls.  The element type is taken with \<open>_type[4:-1]\<close>, the line that makes the
  dictionary is overwritten, and an element that is not a list is not supported.
\<close>

definition slice41 :: "string \<Rightarrow> string" where
  "slice41 t = drop 4 (butlast t)"

definition gen_dict_type_code_type_to_protcol ::
  "uuids \<Rightarrow> nat \<Rightarrow> string \<Rightarrow> string \<Rightarrow> string \<Rightarrow> string \<Rightarrow> string \<Rightarrow> dependents \<Rightarrow> dependents \<Rightarrow> pyexn + string" where
  "gen_dict_type_code_type_to_protcol u depth container c_type ty name func_name ds de =
     bindr (check_type (slice41 ty) ds de) (\<lambda>child_enum.
     bindr (gen_type_code_type_to_protcol u (depth + 1) (''_list_'' @ u3 u name) ''dict'' (slice41 ty)
              child_enum (''v_'' @ u5 u name) func_name ds de) (\<lambda>inner.
       Inr (space_of depth @ ''for k_'' @ u5 u name @ '', v_'' @ u5 u name @ '' in '' @ name @ ''.items():'' @ eol @
            inner @
            (if c_type = ''list'' then space_of depth @ container @ ''.append(_dict_'' @ u3 u name @ '')'' @ eol else []))))"

definition gen_dict_type_code_protcol_to_type ::
  "uuids \<Rightarrow> nat \<Rightarrow> string \<Rightarrow> string \<Rightarrow> string \<Rightarrow> string \<Rightarrow> string \<Rightarrow> dependents \<Rightarrow> dependents \<Rightarrow> pyexn + string" where
  "gen_dict_type_code_protcol_to_type u depth container c_type ty name func_name ds de =
     bindr (check_type (slice41 ty) ds de) (\<lambda>child_enum.
     bindr (gen_type_code_protcol_to_type u (depth + 1) (''_list_'' @ u3 u name) ''dict'' (slice41 ty)
              child_enum (''v_'' @ u5 u name) func_name ds de) (\<lambda>inner.
       Inr (space_of depth @ ''for k_'' @ u5 u name @ '', v_'' @ u5 u name @ '' in '' @ name @ ''.items():'' @ eol @
            inner @
            (if c_type = ''list'' then space_of depth @ container @ ''.append(_dict_'' @ u3 u name @ '')'' @ eol else []))))"

lemma gen_dict_rejects:
  assumes "check_type (slice41 ty) ds de = Inr k" and "k \<noteq> T_List"
  shows "isl (gen_dict_type_code_type_to_protcol u depth container c_type ty name fn ds de)"
    and "isl (gen_dict_type_code_protcol_to_type u depth container c_type ty name fn ds de)"
  using assms by (simp_all add: gen_dict_type_code_type_to_protcol_def gen_dict_type_code_protcol_to_type_def
      gen_type_code_type_to_protcol.simps gen_type_code_protcol_to_type.simps)

subsection \<open>The code of one argument of a handler\<close>

definition gen_type_code_module ::
  "uuids \<Rightarrow> nat \<Rightarrow> nat \<Rightarrow> string \<Rightarrow> type_type \<Rightarrow> string \<Rightarrow> string \<Rightarrow> dependents \<Rightarrow> dependents \<Rightarrow> pyexn + string" where
  "gen_type_code_module u depth count ty ty_enum name func_name ds de =
     (if ty_enum = T_List then
        bindr (check_type (child_type ty) ds de) (\<lambda>child_enum.
        bindr (gen_type_code_protcol_to_type u (depth + 1) (''_'' @ name) ''list'' (child_type ty) child_enum
                 (''v_'' @ u5 u name) func_name ds de) (\<lambda>inner.
          Inr (space_of depth @ ''_'' @ name @ '' = []'' @ eol @
               space_of depth @ ''for v_'' @ u5 u name @ '' in inArray['' @ nat_str count @ '']:'' @ eol @ inner)))
      else if check_type_original ty_enum then
        Inr (space_of depth @ ''_'' @ name @ '' = inArray['' @ nat_str count @ '']'' @ eol)
      else
        Inr (space_of depth @ ''_'' @ name @ '' = protcol_to_'' @ ty @ ''(inArray['' @ nat_str count @ ''])'' @ eol))"

subsection \<open>The code of a list field of a structure\<close>

text \<open>
  The two generators, for packing and for unpacking, have the same body: both end in
  \<open>..._to_protcol\<close>, and both take the elements of an inner list with \<open>[5:-1]\<close>.
\<close>

lemma slice51_shorter: "check_type t ds de = Inr T_List \<Longrightarrow> length (slice51 t) < length t"
  using check_type_list [of t ds de] by (auto simp: is_list_type_def slice51_def)

function gen_struct_container_protocol ::
    "uuids \<Rightarrow> nat \<Rightarrow> string \<Rightarrow> string \<Rightarrow> string \<Rightarrow> dependents \<Rightarrow> dependents \<Rightarrow> pyexn + string" where
  "gen_struct_container_protocol u depth container array_type value_name ds de =
     (case check_type array_type ds de of
        Inl e \<Rightarrow> Inl e
      | Inr k \<Rightarrow>
          if k = T_List then
            bindr (gen_struct_container_protocol u (depth + 1) (''_array_'' @ u5 u value_name) (slice51 array_type)
                     (''v_'' @ u5 u value_name) ds de) (\<lambda>inner.
              Inr (space_of depth @ ''_array_'' @ u5 u value_name @ '' = []'' @ eol @
                   space_of depth @ ''for v_'' @ u5 u value_name @ '' in '' @ value_name @ '':'' @ eol @
                   inner @ space_of depth @ container @ ''.append(_array_'' @ u5 u value_name @ '')'' @ eol))
          else if check_type_original k then Inr (space_of depth @ container @ ''.append('' @ value_name @ '')'' @ eol)
          else Inr (space_of depth @ container @ ''.append('' @ array_type @ ''_to_protcol('' @ value_name @ ''))'' @ eol))"
  by pat_completeness auto

termination
  by (relation "measure (\<lambda>(u, depth, container, ty, v, ds, de). length ty)") (auto simp: slice51_shorter)

declare gen_struct_container_protocol.simps [simp del]

definition gen_struct_protocol_container ::
    "uuids \<Rightarrow> nat \<Rightarrow> string \<Rightarrow> string \<Rightarrow> string \<Rightarrow> dependents \<Rightarrow> dependents \<Rightarrow> pyexn + string" where
  "gen_struct_protocol_container = gen_struct_container_protocol"

end
