(* ===== verification/Rpc_Gen.thy ===== *)
theory Rpc_Gen
  imports Rpc_Tools
begin

section \<open>Interface compiler: the generators of Python code\<close>

text \<open>
  \<open>src/rpc/gen\<close>, the Python targets.  For each direction of calls (\<open>hub_call_hub\<close>,
  \<open>client_call_hub\<close>, \<open>hub_call_client\<close>) a file generates the caller of a service and a file its
  module, the side that handles the calls.  The three callers differ in a few texts, and so do
  the three modules: those texts are the fields of a record, the rest is one definition, and
  the generator of each file is its instance.  A function of a service is the list the parser
  made: its name, \<open>req\<close> with \<open>rsp\<close> and \<open>err\<close>, or \<open>ntf\<close>, and the argument lists.
\<close>

subsection \<open>Walking the arguments of a function\<close>

definition item :: "'a list \<Rightarrow> nat \<Rightarrow> pyexn + 'a" where
  "item xs n = (if n < length xs then Inr (xs ! n) else Inl IndexError)"

definition word_of :: "func_item \<Rightarrow> pyexn + string" where
  "word_of x = (case x of Word w \<Rightarrow> Inr w | Args _ \<Rightarrow> Inl TypeError)"

text \<open>Iterating a word gives its characters, which do not unpack into three.\<close>

definition args_of :: "func_item \<Rightarrow> pyexn + arg list" where
  "args_of x = (case x of Args as \<Rightarrow> Inr as | Word w \<Rightarrow> if w = [] then Inr [] else Inl ValueError)"

definition unpack3 :: "arg \<Rightarrow> pyexn + string \<times> string \<times> string option" where
  "unpack3 a = (case a of [Some ty, Some name, p] \<Rightarrow> Inr (ty, name, p)
     | [_, _, _] \<Rightarrow> Inl TypeError | _ \<Rightarrow> Inl ValueError)"

text \<open>\<open>for _type, _name, _parameter in i[n]\<close>, and the same with a counter.\<close>

definition for_args :: "(string \<times> string \<times> string option \<Rightarrow> pyexn + 'b) \<Rightarrow> func_item \<Rightarrow> pyexn + 'b list" where
  "for_args f x = bindr (args_of x) (map_res (\<lambda>a. bindr (unpack3 a) f))"

fun count_res :: "(nat \<Rightarrow> 'a \<Rightarrow> pyexn + 'b) \<Rightarrow> nat \<Rightarrow> 'a list \<Rightarrow> pyexn + 'b list" where
  "count_res f n [] = Inr []"
| "count_res f n (x # xs) = bindr (f n x) (\<lambda>y. bindr (count_res f (Suc n) xs) (\<lambda>ys. Inr (y # ys)))"

definition for_args_count :: "(nat \<Rightarrow> string \<times> string \<times> string option \<Rightarrow> pyexn + 'b) \<Rightarrow> func_item \<Rightarrow> pyexn + 'b list" where
  "for_args_count f x = bindr (args_of x) (count_res (\<lambda>n a. bindr (unpack3 a) (f n)) 0)"

text \<open>
  \<open>code += x; count += 1; if count < n: code += ", "\<close>: a comma follows an element while fewer
  than \<open>n\<close> were written.
\<close>

fun comma_upto :: "nat \<Rightarrow> nat \<Rightarrow> string list \<Rightarrow> string" where
  "comma_upto n count [] = []"
| "comma_upto n count (x # xs) = x @ (if Suc count < n then '', '' else []) @ comma_upto n (Suc count) xs"

text \<open>\<open>name:type\<close>, with the default when there is one.\<close>

definition sig_arg :: "dependents \<Rightarrow> dependents \<Rightarrow> (string, (string \<times> string) list) dict \<Rightarrow>
    string \<times> string \<times> string option \<Rightarrow> pyexn + string" where
  "sig_arg ds de enum a = (case a of (ty, name, parameter) \<Rightarrow>
     bindr (convert_type ty ds de) (\<lambda>t. case parameter of
         None \<Rightarrow> Inr (name @ '':'' @ t)
       | Some p \<Rightarrow> bindr (convert_parameter ty p de enum) (\<lambda>v. case v of
             None \<Rightarrow> Inl TypeError
           | Some v \<Rightarrow> Inr (name @ '':'' @ t @ '' = '' @ v))))"

definition type_arg :: "dependents \<Rightarrow> dependents \<Rightarrow> string \<times> string \<times> string option \<Rightarrow> pyexn + string" where
  "type_arg ds de a = (case a of (ty, name, parameter) \<Rightarrow> convert_type ty ds de)"

definition pack_arg :: "uuids \<Rightarrow> string \<Rightarrow> string \<Rightarrow> dependents \<Rightarrow> dependents \<Rightarrow>
    string \<times> string \<times> string option \<Rightarrow> pyexn + string" where
  "pack_arg u container func_name ds de a = (case a of (ty, name, parameter) \<Rightarrow>
     bindr (check_type ty ds de) (\<lambda>k.
       gen_type_code_type_to_protcol u 2 container ''list'' ty k name func_name ds de))"

definition unpack_arg :: "uuids \<Rightarrow> string \<Rightarrow> dependents \<Rightarrow> dependents \<Rightarrow> nat \<Rightarrow>
    string \<times> string \<times> string option \<Rightarrow> pyexn + string" where
  "unpack_arg u func_name ds de count a = (case a of (ty, name, parameter) \<Rightarrow>
     bindr (check_type ty ds de) (\<lambda>k. gen_type_code_module u 2 count ty k name func_name ds de))"

definition name_arg :: "string \<times> string \<times> string option \<Rightarrow> pyexn + string" where
  "name_arg a = (case a of (ty, name, parameter) \<Rightarrow> Inr (''_'' @ name))"

text \<open>\<open>Callable[[...], None]\<close> of an argument list, after some first arguments.\<close>

definition callable_of :: "string \<Rightarrow> string list \<Rightarrow> string" where
  "callable_of first ts = ''Callable[['' @ first @ comma_upto (length ts) 0 ts @ ''], None]''"

subsection \<open>The callers\<close>

record caller_texts =
  ct_entity :: string
  ct_notify :: string
  ct_request :: string
  ct_del :: string
  ct_reg :: string
  ct_err_gap :: string

definition line :: "string \<Rightarrow> string" where
  "line s = s @ eol"

text \<open>The method that packs the arguments; \<open>final\<close> is what it does with them.\<close>

definition caller_method :: "uuids \<Rightarrow> string \<Rightarrow> func_item \<Rightarrow> string \<Rightarrow> dependents \<Rightarrow> dependents \<Rightarrow>
    (string, (string \<times> string) list) dict \<Rightarrow> pyexn + string" where
  "caller_method u func_name i2 final ds de enum =
     bindr (for_args (\<lambda>a. bindr (sig_arg ds de enum a) (\<lambda>t. Inr ('', '' @ t))) i2) (\<lambda>sigs.
     bindr (for_args (pack_arg u (''_argv_'' @ u3 u func_name) func_name ds de) i2) (\<lambda>packs.
       Inr (line (''    def '' @ func_name @ ''(self'' @ concat sigs @ ''):'') @
            line (''        _argv_'' @ u3 u func_name @ '' = []'') @ concat packs @ final)))"

definition caller_ntf :: "uuids \<Rightarrow> string \<Rightarrow> string \<Rightarrow> func_item \<Rightarrow> dependents \<Rightarrow> dependents \<Rightarrow>
    (string, (string \<times> string) list) dict \<Rightarrow> pyexn + string" where
  "caller_ntf u call func_name i2 ds de enum = caller_method u func_name i2
     (''        '' @ call @ ''('' @ dq @ func_name @ dq @ '', dumps(_argv_'' @ u3 u func_name @ ''))'' @ eol @ eol)
     ds de enum"

text \<open>\<open>on_rsp\<close> and \<open>on_err\<close>; the commas of \<open>on_err\<close> are counted against the response.\<close>

definition on_answer :: "uuids \<Rightarrow> string \<Rightarrow> string \<Rightarrow> string \<Rightarrow> string \<Rightarrow> func_item \<Rightarrow> nat \<Rightarrow> dependents \<Rightarrow> dependents \<Rightarrow> pyexn + string" where
  "on_answer u method call gap func_name args n ds de =
     bindr (for_args_count (unpack_arg u func_name ds de) args) (\<lambda>unpacks.
     bindr (for_args name_arg args) (\<lambda>names.
       Inr (line (''    def '' @ method @ ''(self, bin:bytes):'') @ line ''        inArray = loads(bin)'' @
            concat unpacks @ gap @ ''        '' @ call @ ''('' @ comma_upto n 0 names @ '')'' @ eol @ eol)))"

definition caller_cb :: "uuids \<Rightarrow> caller_texts \<Rightarrow> string \<Rightarrow> string \<Rightarrow> func_item \<Rightarrow> func_item \<Rightarrow> string \<Rightarrow> string \<Rightarrow>
    dependents \<Rightarrow> dependents \<Rightarrow> pyexn + string" where
  "caller_cb u d module_name func_name i4 i6 rsp_fn err_fn ds de =
     bindr (args_of i4) (\<lambda>a4.
     bindr (on_answer u ''on_rsp'' ''self.cb'' [] func_name i4 (length a4) ds de) (\<lambda>on_rsp.
     bindr (on_answer u ''on_err'' ''self.err'' (ct_err_gap d) func_name i6 (length a4) ds de) (\<lambda>on_err.
       Inr (line (''class '' @ module_name @ ''_'' @ func_name @ ''_cb(object):'') @
            line (''    def __init__(self, _cb_uuid:int, _entity:'' @ ct_entity d @ ''):'') @
            line ''        self.entity = _entity'' @
            line (''        self.cb:'' @ rsp_fn @ '' = None'') @
            line (''        self.err:'' @ err_fn @ '' = None'') @
            line (''        self.rsp = callback(lambda: self.entity.'' @ ct_del d @ ''(_cb_uuid))'') @
            ''        self.entity.'' @ ct_reg d @ ''(_cb_uuid, self.rsp)'' @ eol @ eol @
            on_rsp @ on_err @
            line (''    def callBack(self, _cb:'' @ rsp_fn @ '', _err:'' @ err_fn @ ''):'') @
            line ''        self.cb = _cb'' @ line ''        self.err = _err'' @
            line ''        self.rsp.callback(self.on_rsp, self.on_err)'' @
            ''        return self.rsp'' @ eol @ eol))))"

text \<open>One function of a service: the code of the callback class and of the method.\<close>

definition str_item :: "func_item \<Rightarrow> string" where
  "str_item x = (case x of Word w \<Rightarrow> w | Args _ \<Rightarrow> ''[...]'')"

definition wrong_rpc :: "string \<Rightarrow> string \<Rightarrow> func_item \<Rightarrow> pyexn + 'a" where
  "wrong_rpc must func_name k = Inl (Exception (''func:'' @ func_name @ '' wrong rpc type:'' @ str_item k @ must))"

text \<open>\<open>i[1] == "req" and i[3] == "rsp" and i[5] == "err"\<close>, read from left to right.\<close>

definition is_request :: "func_item list \<Rightarrow> pyexn + bool" where
  "is_request i = bindr (item i 1) (\<lambda>k. if k \<noteq> Word ''req'' then Inr False else
     bindr (item i 3) (\<lambda>r. if r \<noteq> Word ''rsp'' then Inr False else
     bindr (item i 5) (\<lambda>e. Inr (e = Word ''err''))))"

definition caller_func :: "uuids \<Rightarrow> caller_texts \<Rightarrow> string \<Rightarrow> dependents \<Rightarrow> dependents \<Rightarrow>
    (string, (string \<times> string) list) dict \<Rightarrow> func_item list \<Rightarrow> pyexn + string \<times> string" where
  "caller_func u d module_name ds de enum i =
     bindr (item i 0) (\<lambda>f. bindr (item i 1) (\<lambda>k.
     if k = Word ''ntf'' then
       bindr (word_of f) (\<lambda>func_name. bindr (item i 2) (\<lambda>i2.
       bindr (caller_ntf u (''self.entity.'' @ ct_notify d) func_name i2 ds de enum) (\<lambda>code. Inr ([], code))))
     else bindr (is_request i) (\<lambda>req.
       if \<not> req then bindr (word_of f) (\<lambda>func_name. wrong_rpc '', must req or ntf'' func_name k) else
       bindr (item i 4) (\<lambda>i4. bindr (for_args (type_arg ds de) i4) (\<lambda>t4.
       bindr (item i 6) (\<lambda>i6. bindr (for_args (type_arg ds de) i6) (\<lambda>t6.
       bindr (word_of f) (\<lambda>func_name.
       bindr (caller_cb u d module_name func_name i4 i6 (callable_of [] t4) (callable_of [] t6) ds de) (\<lambda>cb.
       bindr (item i 2) (\<lambda>i2.
       bindr (caller_method u func_name i2
         (''        _cb_uuid = self.entity.'' @ ct_request d @ ''('' @ dq @ func_name @ dq @ '', dumps(_argv_'' @
            u3 u func_name @ ''))'' @ eol @ eol @
          ''        return '' @ module_name @ ''_'' @ func_name @ ''_cb(_cb_uuid, self.entity)'' @ eol @ eol)
         ds de enum) (\<lambda>code. Inr (cb, code))))))))))))"

definition gen_caller :: "uuids \<Rightarrow> caller_texts \<Rightarrow> string \<Rightarrow> func_item list list \<Rightarrow> dependents \<Rightarrow> dependents \<Rightarrow>
    (string, (string \<times> string) list) dict \<Rightarrow> pyexn + string" where
  "gen_caller u d module_name funcs ds de enum =
     bindr (map_res (caller_func u d module_name ds de enum) funcs) (\<lambda>codes.
       Inr (concat (List.map fst codes) @
            line (''class '' @ module_name @ ''_caller(object):'') @
            line (''    def __init__(self, entity:'' @ ct_entity d @ ''):'') @
            ''        self.entity = entity'' @ eol @ eol @ concat (List.map snd codes)))"

definition hub_call_hub_entity_caller where
  "hub_call_hub_entity_caller u = gen_caller u \<lparr>ct_entity = ''subentity'', ct_notify = ''call_hub_notify'',
     ct_request = ''call_hub_request'', ct_del = ''del_callback'', ct_reg = ''reg_hub_callback'', ct_err_gap = eol\<rparr>"

definition client_call_hub_entity_caller where
  "client_call_hub_entity_caller u = gen_caller u \<lparr>ct_entity = ''subentity|player'', ct_notify = ''call_hub_notify'',
     ct_request = ''call_hub_request'', ct_del = ''del_callback'', ct_reg = ''reg_hub_callback'', ct_err_gap = []\<rparr>"

definition hub_call_client_entity_caller where
  "hub_call_client_entity_caller u = gen_caller u \<lparr>ct_entity = ''player'', ct_notify = ''call_client_main_notify'',
     ct_request = ''call_client_request'', ct_del = ''del_client_callback'', ct_reg = ''reg_client_callback'', ct_err_gap = []\<rparr>"

subsection \<open>The modules\<close>

record module_texts =
  mt_entity :: string
  mt_reg_notify :: string
  mt_reg_request :: string
  mt_source :: string
  mt_params :: string
  mt_args :: string
  mt_rsp_entity :: string
  mt_conn :: string
  mt_rsp :: string
  mt_err :: string

text \<open>The line of the constructor that keeps the handlers, and the one that registers the method.\<close>

definition module_constructor :: "string \<Rightarrow> string \<Rightarrow> string \<Rightarrow> string" where
  "module_constructor func_name func_type reg =
     line (''        self.on_'' @ func_name @ '':list['' @ func_type @ ''] = []'') @
     line (''        '' @ reg @ ''('' @ dq @ func_name @ dq @ '', self.'' @ func_name @ '')'')"

text \<open>The method: unpack, make the first argument, call every handler.\<close>

definition module_method :: "uuids \<Rightarrow> string \<Rightarrow> string \<Rightarrow> string \<Rightarrow> string \<Rightarrow> func_item \<Rightarrow>
    dependents \<Rightarrow> dependents \<Rightarrow> pyexn + string" where
  "module_method u func_name params first made i2 ds de =
     bindr (for_args_count (unpack_arg u func_name ds de) i2) (\<lambda>unpacks.
     bindr (for_args name_arg i2) (\<lambda>names.
       Inr (line (''    def '' @ func_name @ ''(self, '' @ params @ '', bin:bytes):'') @
            line ''        inArray = loads(bin)'' @ concat unpacks @
            line (''        '' @ first @ '' = '' @ made) @
            line (''        for fn in self.on_'' @ func_name @ '':'') @
            ''            fn('' @ first @ '', '' @ comma_upto (length names) 0 names @ '')'' @ eol @ eol)))"

definition module_ntf :: "uuids \<Rightarrow> string \<Rightarrow> string \<Rightarrow> string \<Rightarrow> func_item \<Rightarrow> func_item \<Rightarrow>
    dependents \<Rightarrow> dependents \<Rightarrow> pyexn + string \<times> string" where
  "module_ntf u reg source params f i2 ds de =
     bindr (for_args (type_arg ds de) i2) (\<lambda>ts.
     bindr (word_of f) (\<lambda>func_name.
     bindr (module_method u func_name params ''s'' (''session('' @ source @ '')'') i2 ds de) (\<lambda>code.
       Inr (module_constructor func_name (callable_of ''session, '' ts) reg, code))))"

text \<open>The methods \<open>rsp\<close> and \<open>err\<close> of the answer object.\<close>

definition answer_method :: "uuids \<Rightarrow> string \<Rightarrow> string \<Rightarrow> func_item \<Rightarrow> string \<Rightarrow> dependents \<Rightarrow> dependents \<Rightarrow> pyexn + string" where
  "answer_method u head func_name args call ds de =
     bindr (for_args (pack_arg u (''_argv_'' @ u3 u func_name) func_name ds de) args) (\<lambda>packs.
       Inr (line (head @ ''):'') @ line ''        if self.is_rsp:'' @ line ''            return'' @
            ''        self.is_rsp = True'' @ eol @ eol @
            line (''        _argv_'' @ u3 u func_name @ '' = []'') @ concat packs @
            ''        self.entity.'' @ call @ ''self.msg_cb_id, dumps(_argv_'' @ u3 u func_name @ ''))'' @ eol @ eol))"

definition module_rsp :: "uuids \<Rightarrow> module_texts \<Rightarrow> string \<Rightarrow> string \<Rightarrow> func_item \<Rightarrow> pyexn + func_item \<Rightarrow>
    dependents \<Rightarrow> dependents \<Rightarrow> (string, (string \<times> string) list) dict \<Rightarrow> pyexn + string" where
  "module_rsp u d module_name func_name i4 item6 ds de enum =
     bindr (for_args (\<lambda>a. bindr (sig_arg ds de enum a) (\<lambda>t. Inr ('', '' @ t))) i4) (\<lambda>rsigs.
     bindr (answer_method u (''    def rsp(self'' @ concat rsigs) func_name i4 (mt_rsp d) ds de) (\<lambda>rsp.
     bindr item6 (\<lambda>i6.
     bindr (for_args (sig_arg ds de enum) i6) (\<lambda>esigs.
     bindr (answer_method u (''    def err(self, '' @ comma_upto (length esigs) 0 esigs) func_name i6 (mt_err d) ds de) (\<lambda>err.
       Inr (line (''class '' @ module_name @ ''_'' @ func_name @ ''_rsp(session):'') @
            line (''    def __init__(self, '' @ mt_params d @ '', msg_cb_id:int, entity:'' @ mt_rsp_entity d @ ''):'') @
            line (''        session.__init__(self, '' @ mt_source d @ '')'') @
            line ''        self.entity = entity'' @ mt_conn d @
            line ''        self.is_rsp = False'' @ ''        self.msg_cb_id = msg_cb_id'' @ eol @ eol @
            rsp @ err))))))"

text \<open>One function: the answer class, the lines of the constructor, the method.\<close>

definition module_func :: "uuids \<Rightarrow> module_texts \<Rightarrow> string \<Rightarrow> dependents \<Rightarrow> dependents \<Rightarrow>
    (string, (string \<times> string) list) dict \<Rightarrow> func_item list \<Rightarrow> pyexn + string \<times> string \<times> string" where
  "module_func u d module_name ds de enum i =
     bindr (item i 0) (\<lambda>f. bindr (item i 1) (\<lambda>k.
     if k = Word ''ntf'' then
       bindr (item i 2) (\<lambda>i2.
       bindr (module_ntf u (''self.entity.'' @ mt_reg_notify d) (mt_source d) (mt_source d @ '':str'') f i2 ds de)
         (\<lambda>(ctor, code). Inr ([], ctor, code)))
     else bindr (is_request i) (\<lambda>req. if \<not> req then wrong_rpc '' must req or ntf'' (str_item f) k else
       bindr (word_of f) (\<lambda>func_name.
       bindr (item i 2) (\<lambda>i2. bindr (for_args (type_arg ds de) i2) (\<lambda>ts.
       bindr (module_method u func_name (mt_params d @ '', msg_cb_id:int'') ''rsp''
         (module_name @ ''_'' @ func_name @ ''_rsp('' @ mt_args d @ '', msg_cb_id, self.entity)'') i2 ds de) (\<lambda>code.
       bindr (item i 4) (\<lambda>i4.
       bindr (module_rsp u d module_name func_name i4 (item i 6) ds de enum) (\<lambda>rsp.
         Inr (rsp, module_constructor func_name
           (callable_of (module_name @ ''_'' @ func_name @ ''_rsp, '') ts)
           (''self.entity.'' @ mt_reg_request d), code))))))))))"

definition gen_module :: "uuids \<Rightarrow> module_texts \<Rightarrow> string \<Rightarrow> func_item list list \<Rightarrow> dependents \<Rightarrow> dependents \<Rightarrow>
    (string, (string \<times> string) list) dict \<Rightarrow> pyexn + string" where
  "gen_module u d module_name funcs ds de enum =
     bindr (map_res (module_func u d module_name ds de enum) funcs) (\<lambda>codes.
       Inr (concat (List.map fst codes) @
            line (''class '' @ module_name @ ''_module(object):'') @
            line (''    def __init__(self, entity:'' @ mt_entity d @ ''):'') @
            ''        self.entity = entity'' @ eol @ eol @
            concat (List.map (\<lambda>c. fst (snd c)) codes) @ eol @ concat (List.map (\<lambda>c. snd (snd c)) codes) @ eol))"

definition hub_call_hub_entity_module where
  "hub_call_hub_entity_module u = gen_module u \<lparr>mt_entity = ''player|entity'',
     mt_reg_notify = ''reg_hub_notify_callback'', mt_reg_request = ''reg_hub_request_callback'',
     mt_source = ''source'', mt_params = ''source:str'', mt_args = ''source'',
     mt_rsp_entity = ''player|entity'', mt_conn = [],
     mt_rsp = ''call_hub_response(self.source, '', mt_err = ''call_hub_response_error(self.source, ''\<rparr>"

definition client_call_hub_entity_module where
  "client_call_hub_entity_module u = gen_module u \<lparr>mt_entity = ''player|entity'',
     mt_reg_notify = ''reg_client_notify_callback'', mt_reg_request = ''reg_client_request_callback'',
     mt_source = ''gate_name'', mt_params = ''gate_name:str, conn_id:str'', mt_args = ''gate_name, conn_id'',
     mt_rsp_entity = ''player|entity'', mt_conn = line ''        self.conn_id = conn_id'',
     mt_rsp = ''call_client_response(self.source, self.conn_id, '',
     mt_err = ''call_client_response_error(self.source, self.conn_id, ''\<rparr>"

definition hub_call_client_entity_module where
  "hub_call_client_entity_module u = gen_module u \<lparr>mt_entity = ''player'',
     mt_reg_notify = ''reg_hub_notify_callback'', mt_reg_request = ''reg_hub_request_callback'',
     mt_source = ''hub_name'', mt_params = ''hub_name:str'', mt_args = ''hub_name'',
     mt_rsp_entity = ''player'', mt_conn = [],
     mt_rsp = ''call_hub_response('', mt_err = ''call_hub_response_error(''\<rparr>"

subsection \<open>Multicast and global services: notifications only\<close>

definition ntf_caller_func :: "uuids \<Rightarrow> string \<Rightarrow> dependents \<Rightarrow> dependents \<Rightarrow>
    (string, (string \<times> string) list) dict \<Rightarrow> func_item list \<Rightarrow> pyexn + string" where
  "ntf_caller_func u call ds de enum i =
     bindr (item i 0) (\<lambda>f. bindr (item i 1) (\<lambda>k. bindr (word_of f) (\<lambda>func_name.
     if k = Word ''ntf'' then bindr (item i 2) (\<lambda>i2. caller_ntf u call func_name i2 ds de enum)
     else wrong_rpc '', must ntf'' func_name k)))"

definition gen_ntf_caller :: "uuids \<Rightarrow> string \<Rightarrow> string \<Rightarrow> string \<Rightarrow> func_item list list \<Rightarrow>
    dependents \<Rightarrow> dependents \<Rightarrow> (string, (string \<times> string) list) dict \<Rightarrow> pyexn + string" where
  "gen_ntf_caller u constructor call module_name funcs ds de enum =
     bindr (map_res (ntf_caller_func u call ds de enum) funcs) (\<lambda>codes.
       Inr (line (''class '' @ module_name @ ''_caller(object):'') @ constructor @ concat codes))"

definition ntf_module_func :: "uuids \<Rightarrow> string \<Rightarrow> string \<Rightarrow> string \<Rightarrow> dependents \<Rightarrow> dependents \<Rightarrow>
    func_item list \<Rightarrow> pyexn + string \<times> string" where
  "ntf_module_func u reg source params ds de i =
     bindr (item i 0) (\<lambda>f. bindr (item i 1) (\<lambda>k.
     if k = Word ''ntf'' then bindr (item i 2) (\<lambda>i2. module_ntf u reg source params f i2 ds de)
     else wrong_rpc '' must ntf'' (str_item f) k))"

definition gen_ntf_module :: "uuids \<Rightarrow> string \<Rightarrow> string \<Rightarrow> string \<Rightarrow> string \<Rightarrow> string \<Rightarrow> func_item list list \<Rightarrow>
    dependents \<Rightarrow> dependents \<Rightarrow> (string, (string \<times> string) list) dict \<Rightarrow> pyexn + string" where
  "gen_ntf_module u constructor reg source params module_name funcs ds de enum =
     bindr (map_res (ntf_module_func u reg source params ds de) funcs) (\<lambda>codes.
       Inr (line (''class '' @ module_name @ ''_module(object):'') @ constructor @
            concat (List.map fst codes) @ eol @ concat (List.map snd codes) @ eol))"

definition entity_constructor :: "string \<Rightarrow> string" where
  "entity_constructor ty = line (''    def __init__(self, entity:'' @ ty @ ''):'') @ ''        self.entity = entity'' @ eol @ eol"

definition bare_constructor :: string where
  "bare_constructor = line ''    def __init__(self):'' @ ''        pass'' @ eol @ eol"

definition hub_call_hub_mutil_caller where
  "hub_call_hub_mutil_caller u = gen_ntf_caller u (entity_constructor ''player|entity'') ''self.entity.call_hub_notify''"

definition hub_call_client_mutil_caller where
  "hub_call_client_mutil_caller u =
     gen_ntf_caller u (entity_constructor ''player|entity'') ''self.entity.call_client_mutilcast''"

definition hub_call_client_global_caller where
  "hub_call_client_global_caller u = gen_ntf_caller u bare_constructor ''global_entity().call_client''"

definition hub_call_hub_mutil_module where
  "hub_call_hub_mutil_module u = gen_ntf_module u (entity_constructor ''subentity|receiver'')
     ''self.entity.reg_hub_notify_callback'' ''source'' ''source:str''"

definition hub_call_client_mutil_module where
  "hub_call_client_mutil_module u = gen_ntf_module u (entity_constructor ''player|subentity|receiver'')
     ''self.entity.reg_hub_notify_callback'' ''hub_name'' ''hub_name''"

definition hub_call_client_global_module where
  "hub_call_client_global_module u = gen_ntf_module u bare_constructor
     ''app().register_global_method'' ''hub_name'' ''hub_name:str''"

subsection \<open>Whole files\<close>

text \<open>
  \<open>gencaller\<close> and \<open>genmodule\<close> of a direction: every service of a kind they know adds its code,
  other kinds add nothing.  The defaults are looked up in the enumerations of the file itself.
\<close>

type_synonym service_gen = "string \<Rightarrow> func_item list list \<Rightarrow> dependents \<Rightarrow> dependents \<Rightarrow>
  (string, (string \<times> string) list) dict \<Rightarrow> pyexn + string"

definition gen_services :: "string \<Rightarrow> (string, service_gen) dict \<Rightarrow> pretreatment \<Rightarrow> pyexn + string" where
  "gen_services header gens e =
     bindr (map_res (\<lambda>(module_name, ty, funcs). case dget gens ty of
         None \<Rightarrow> Inr []
       | Some g \<Rightarrow> g module_name funcs (pt_dependent_struct e) (pt_dependent_enum e) (pt_enum e)) (pt_module e))
       (\<lambda>codes. Inr (line header @ concat codes))"

definition caller_header :: string where
  "caller_header = ''#this caller code is codegen by geese codegen for python''"

definition module_header :: string where
  "module_header = ''#this module code is codegen by geese codegen for python''"

definition hub_call_hub_gencaller where
  "hub_call_hub_gencaller u = gen_services caller_header
     [(''entity_service'', hub_call_hub_entity_caller u), (''mutil_service'', hub_call_hub_mutil_caller u)]"

definition hub_call_hub_genmodule where
  "hub_call_hub_genmodule u = gen_services module_header
     [(''entity_service'', hub_call_hub_entity_module u), (''mutil_service'', hub_call_hub_mutil_module u)]"

definition client_call_hub_gencaller where
  "client_call_hub_gencaller u = gen_services caller_header [(''entity_service'', client_call_hub_entity_caller u)]"

definition client_call_hub_genmodule where
  "client_call_hub_genmodule u = gen_services module_header [(''entity_service'', client_call_hub_entity_module u)]"

definition hub_call_client_gencaller where
  "hub_call_client_gencaller u = gen_services caller_header
     [(''entity_service'', hub_call_client_entity_caller u), (''mutil_service'', hub_call_client_mutil_caller u),
      (''global_service'', hub_call_client_global_caller u)]"

definition hub_call_client_genmodule where
  "hub_call_client_genmodule u = gen_services module_header
     [(''entity_service'', hub_call_client_entity_module u), (''mutil_service'', hub_call_client_mutil_module u),
      (''global_service'', hub_call_client_global_module u)]"

subsection \<open>Enumerations and structures\<close>

fun enum_lines :: "string \<Rightarrow> string list \<Rightarrow> (string \<times> string) list \<Rightarrow> pyexn + string" where
  "enum_lines enum_name names [] = Inr []"
| "enum_lines enum_name names ((key, v) # enums) =
     (if key \<in> set names
      then Inl (Exception (''repeat enum elem:'' @ key @ '' in enum:'' @ enum_name))
      else bindr (enum_lines enum_name (names @ [key]) enums) (\<lambda>rest.
        Inr (line (''    '' @ key @ '' = '' @ v) @ rest)))"

definition genenum :: "pretreatment \<Rightarrow> pyexn + string" where
  "genenum e = bindr (map_res (\<lambda>(enum_name, enums).
       bindr (enum_lines enum_name [] enums) (\<lambda>ls.
         Inr (line (''class '' @ enum_name @ ''(IntFlag):'') @ ls @ eol @ eol))) (pt_enum e))
     (\<lambda>codes. Inr (''# this enum code is codegen by geese codegen for python'' @ eol @ eol @ concat codes))"

text \<open>A field of a structure: the type, the name, which the parser may leave out, and the default.\<close>

fun struct_lines :: "string \<Rightarrow> dependents \<Rightarrow> dependents \<Rightarrow> (string, (string \<times> string) list) dict \<Rightarrow>
    string list \<Rightarrow> struct_elem list \<Rightarrow> pyexn + string" where
  "struct_lines struct_name ds de enum names [] = Inr []"
| "struct_lines struct_name ds de enum names ((key, None, parameter) # elems) = Inl TypeError"
| "struct_lines struct_name ds de enum names ((key, Some v, parameter) # elems) =
     (if v \<in> set names
      then Inl (Exception (''repeat struct elem:'' @ key @ '' in struct:'' @ struct_name))
      else bindr (convert_type key ds de) (\<lambda>ty.
        bindr (case parameter of None \<Rightarrow> get_type_default key ds de | Some p \<Rightarrow> convert_parameter key p de enum) (\<lambda>dflt.
        bindr (case dflt of None \<Rightarrow> Inl TypeError | Some d \<Rightarrow> Inr d) (\<lambda>d.
        bindr (struct_lines struct_name ds de enum (names @ [v]) elems) (\<lambda>rest.
          Inr (line (''        self.'' @ v @ '':'' @ ty @ '' = '' @ d) @ rest))))))"

definition genmainstruct :: "string \<Rightarrow> struct_elem list \<Rightarrow> dependents \<Rightarrow> dependents \<Rightarrow>
    (string, (string \<times> string) list) dict \<Rightarrow> pyexn + string" where
  "genmainstruct struct_name elems ds de enum =
     bindr (struct_lines struct_name ds de enum [] elems) (\<lambda>ls.
       Inr (line (''class '' @ struct_name @ ''(object):'') @ line ''    def __init__(self):'' @ ls @ eol @ eol))"

definition field_name :: "string option \<Rightarrow> pyexn + string" where
  "field_name v = (case v of None \<Rightarrow> Inl TypeError | Some n \<Rightarrow> Inr n)"

definition pack_field :: "uuids \<Rightarrow> dependents \<Rightarrow> dependents \<Rightarrow> struct_elem \<Rightarrow> pyexn + string" where
  "pack_field u ds de x = (case x of (key, name, parameter) \<Rightarrow>
     bindr (check_type key ds de) (\<lambda>k. bindr (field_name name) (\<lambda>v.
       if check_type_original k then
         Inr (line (''    _protocol['' @ dq @ v @ dq @ ''] = _struct.'' @ v))
       else if k = T_Custom then
         Inr (line (''    _protocol['' @ dq @ v @ dq @ ''] = '' @ key @ ''_to_protcol(_struct.'' @ v @ '')''))
       else bindr (gen_struct_container_protocol u 3 (''_array_'' @ v) (child_type key) ''v_'' ds de) (\<lambda>inner.
         Inr (line (''    if _struct.'' @ v @ '':'') @ line (''        _array_'' @ v @ '' = []'') @
              line (''        for v_ in _struct.'' @ v @ '':'') @ inner @
              line (''        _protocol['' @ dq @ v @ dq @ ''] = _array_'' @ v))))))"

definition genstructprotocol :: "uuids \<Rightarrow> string \<Rightarrow> struct_elem list \<Rightarrow> dependents \<Rightarrow> dependents \<Rightarrow> pyexn + string" where
  "genstructprotocol u struct_name elems ds de =
     bindr (map_res (pack_field u ds de) elems) (\<lambda>fields.
       Inr (line (''def '' @ struct_name @ ''_to_protcol(_struct:'' @ struct_name @ ''):'') @
            line ''    if _struct is None:'' @ line ''        return None'' @ line ''    _protocol = {}'' @
            concat fields @ ''    return _protocol'' @ eol @ eol))"

definition unpack_field :: "uuids \<Rightarrow> dependents \<Rightarrow> dependents \<Rightarrow> nat \<Rightarrow> struct_elem \<Rightarrow> pyexn + string" where
  "unpack_field u ds de count x = (case x of (key, name, parameter) \<Rightarrow>
     bindr (check_type key ds de) (\<lambda>k. bindr (convert_type key ds de) (\<lambda>_. bindr (field_name name) (\<lambda>v.
       let test = line ((if count = 0 then ''        if key == '' else ''        elif key == '') @ dq @ v @ dq @ '':'') in
       if check_type_original k then Inr (test @ line (''            _struct.'' @ v @ '' = val''))
       else if k = T_Custom then
         Inr (test @ line (''            _struct.'' @ v @ '' = protcol_to_'' @ key @ ''(val)''))
       else bindr (gen_struct_protocol_container u 4 (''_struct.'' @ v) (child_type key) ''v_'' ds de) (\<lambda>inner.
         Inr (test @ line (''            _struct.'' @ v @ '' = []'') @ line ''            for v_ in val:'' @ inner))))))"

definition genprotocolstruct :: "uuids \<Rightarrow> string \<Rightarrow> struct_elem list \<Rightarrow> dependents \<Rightarrow> dependents \<Rightarrow> pyexn + string" where
  "genprotocolstruct u struct_name elems ds de =
     bindr (count_res (unpack_field u ds de) 0 elems) (\<lambda>fields.
       Inr (line (''def protcol_to_'' @ struct_name @ ''(_protocol:dict):'') @
            line (''    _struct = '' @ struct_name @ ''()'') @
            line ''    for (key, val) in _protocol.items():'' @
            concat fields @ ''    return _struct'' @ eol @ eol))"

text \<open>Here the defaults are looked up in the enumerations of all files.\<close>

definition genstruct :: "uuids \<Rightarrow> pretreatment \<Rightarrow> pyexn + string" where
  "genstruct u e =
     (let ds = pt_dependent_struct e; de = pt_dependent_enum e;
          enum = (case pt_all_enum e of Some d \<Rightarrow> d | None \<Rightarrow> [])
      in bindr (map_res (\<lambda>(struct_name, elems).
           bindr (genmainstruct struct_name elems ds de enum) (\<lambda>a.
           bindr (genstructprotocol u struct_name elems ds de) (\<lambda>b.
           bindr (genprotocolstruct u struct_name elems ds de) (\<lambda>c. Inr (a @ b @ c))))) (pt_struct e))
         (\<lambda>codes. Inr (line ''#this struct code is codegen by geese codegen for python'' @ concat codes)))"

end
