(* ===== verification/Rpc_Codec.thy ===== *)
theory Rpc_Codec
  imports Rpc_Gen "HOL-Library.Sublist"
begin

section \<open>Interface compiler: what the generated code does with the arguments\<close>

text \<open>
  The code that packs the arguments of a call and the code that unpacks them are generated
  apart, as text.  Here both texts are shown to be the rendering of small programs, which are
  then executed: packing on one side and unpacking on the other gives the arguments back, for
  the types the generators treat alike on both sides.
\<close>

subsection \<open>The statements the generators write\<close>

datatype pexp = E_var string | E_index nat | E_call string pexp

datatype pstmt = S_new string | S_assign string pexp | S_append string pexp | S_for string pexp "pstmt list"

fun exp_text :: "pexp \<Rightarrow> string" where
  "exp_text (E_var x) = x"
| "exp_text (E_index n) = ''inArray['' @ nat_str n @ '']''"
| "exp_text (E_call f e) = f @ ''('' @ exp_text e @ '')''"

fun render :: "nat \<Rightarrow> pstmt \<Rightarrow> string" where
  "render d (S_new x) = space_of d @ x @ '' = []'' @ eol"
| "render d (S_assign x e) = space_of d @ x @ '' = '' @ exp_text e @ eol"
| "render d (S_append c e) = space_of d @ c @ ''.append('' @ exp_text e @ '')'' @ eol"
| "render d (S_for v e body) = space_of d @ ''for '' @ v @ '' in '' @ exp_text e @ '':'' @ eol @
     concat (List.map (render (d + 1)) body)"

definition render_all :: "nat \<Rightarrow> pstmt list \<Rightarrow> string" where
  "render_all d ss = concat (List.map (render d) ss)"

text \<open>
  Execution.  A value is opaque but for being a list; the functions a program calls are the
  parameter \<open>cv\<close>; \<open>None\<close> is a run that raises.
\<close>

datatype pval = PV string | PL "pval list"

type_synonym penv = "string \<Rightarrow> pval option"

fun exp_val :: "(string \<Rightarrow> pval \<Rightarrow> pval) \<Rightarrow> pval list \<Rightarrow> penv \<Rightarrow> pexp \<Rightarrow> pval option" where
  "exp_val cv arr e (E_var x) = e x"
| "exp_val cv arr e (E_index n) = (if n < length arr then Some (arr ! n) else None)"
| "exp_val cv arr e (E_call f x) = map_option (cv f) (exp_val cv arr e x)"

definition append_val :: "string \<Rightarrow> pval option \<Rightarrow> penv \<Rightarrow> penv option" where
  "append_val c x e = (case e c of
     Some (PL vs) \<Rightarrow> map_option (\<lambda>v. e(c \<mapsto> PL (vs @ [v]))) x
   | _ \<Rightarrow> None)"

text \<open>A loop runs its body for every element of the list it starts with.\<close>

fun iterate :: "(pval \<Rightarrow> penv \<Rightarrow> penv option) \<Rightarrow> pval list \<Rightarrow> penv \<Rightarrow> penv option" where
  "iterate f [] e = Some e"
| "iterate f (v # vs) e = Option.bind (f v e) (iterate f vs)"

fun exec :: "(string \<Rightarrow> pval \<Rightarrow> pval) \<Rightarrow> pval list \<Rightarrow> pstmt \<Rightarrow> penv \<Rightarrow> penv option"
  and exec_all :: "(string \<Rightarrow> pval \<Rightarrow> pval) \<Rightarrow> pval list \<Rightarrow> pstmt list \<Rightarrow> penv \<Rightarrow> penv option" where
  "exec cv arr (S_new x) e = Some (e(x \<mapsto> PL []))"
| "exec cv arr (S_assign x ex) e = map_option (\<lambda>v. e(x \<mapsto> v)) (exp_val cv arr e ex)"
| "exec cv arr (S_append c ex) e = append_val c (exp_val cv arr e ex) e"
| "exec cv arr (S_for v ex body) e = (case exp_val cv arr e ex of
     Some (PL vs) \<Rightarrow> iterate (\<lambda>x e. exec_all cv arr body (e(v \<mapsto> x))) vs e
   | _ \<Rightarrow> None)"
| "exec_all cv arr [] e = Some e"
| "exec_all cv arr (s # ss) e = Option.bind (exec cv arr s e) (exec_all cv arr ss)"

lemma exec_all_append:
  "exec_all cv arr (xs @ ys) e = Option.bind (exec_all cv arr xs e) (exec_all cv arr ys)"
proof (induction xs arbitrary: e)
  case Nil
  then show ?case by simp
next
  case (Cons x xs)
  then show ?case by (cases "exec cv arr x e") simp_all
qed

subsection \<open>The types both sides treat alike, and the programs for them\<close>

text \<open>
  A flat argument is of a basic type, an enumeration or a structure, or a list of basic values
  or enumerations.  \<open>Plain\<close>, \<open>Struct\<close> and \<open>Many\<close> say which.
\<close>

datatype shape = Plain | Struct | Many

definition shape_of :: "dependents \<Rightarrow> dependents \<Rightarrow> string \<Rightarrow> shape option" where
  "shape_of ds de ty = (case check_type ty ds de of
     Inl e \<Rightarrow> None
   | Inr k \<Rightarrow> if check_type_original k then Some Plain
       else if k = T_Custom then Some Struct
       else (case check_type (child_type ty) ds de of
           Inl e \<Rightarrow> None
         | Inr k' \<Rightarrow> if check_type_original k' then Some Many else None))"

definition list_var :: "uuids \<Rightarrow> string \<Rightarrow> string" where
  "list_var u name = ''_list_'' @ u3 u name"

definition loop_var :: "uuids \<Rightarrow> string \<Rightarrow> string" where
  "loop_var u name = ''v_'' @ u5 u name"

fun pack_stmts :: "uuids \<Rightarrow> string \<Rightarrow> shape \<Rightarrow> string \<Rightarrow> string \<Rightarrow> pstmt list" where
  "pack_stmts u c Plain ty name = [S_append c (E_var name)]"
| "pack_stmts u c Struct ty name = [S_append c (E_call (ty @ ''_to_protcol'') (E_var name))]"
| "pack_stmts u c Many ty name =
     [S_new (list_var u name),
      S_for (loop_var u name) (E_var name) [S_append (list_var u name) (E_var (loop_var u name))],
      S_append c (E_var (list_var u name))]"

fun unpack_stmts :: "uuids \<Rightarrow> shape \<Rightarrow> nat \<Rightarrow> string \<Rightarrow> string \<Rightarrow> pstmt list" where
  "unpack_stmts u Plain n ty name = [S_assign (''_'' @ name) (E_index n)]"
| "unpack_stmts u Struct n ty name = [S_assign (''_'' @ name) (E_call (''protcol_to_'' @ ty) (E_index n))]"
| "unpack_stmts u Many n ty name =
     [S_new (''_'' @ name),
      S_for (loop_var u name) (E_index n) [S_append (''_'' @ name) (E_var (loop_var u name))]]"

lemma original_not_list [simp]: "\<not> check_type_original T_List" "\<not> check_type_original T_Custom"
  by (simp_all add: check_type_original_def)

lemma kinds: "check_type_original k \<or> k = T_Custom \<or> k = T_List"
  by (cases k) (simp_all add: check_type_original_def)

lemma shape_cases:
  assumes "shape_of ds de ty = Some sh"
  obtains (Plain) k where "sh = Plain" "check_type ty ds de = Inr k" "check_type_original k" "k \<noteq> T_List"
  | (Struct) "sh = Struct" "check_type ty ds de = Inr T_Custom"
  | (Many) k where "sh = Many" "check_type ty ds de = Inr T_List" "check_type (child_type ty) ds de = Inr k"
      "check_type_original k" "k \<noteq> T_List"
proof -
  obtain k where k: "check_type ty ds de = Inr k"
    using assms by (cases "check_type ty ds de") (auto simp: shape_of_def)
  consider "check_type_original k" | "k = T_Custom" | "k = T_List" using kinds by blast
  then show thesis
  proof cases
    case 1
    with assms k Plain show thesis by (cases "k = T_List") (auto simp: shape_of_def)
  next
    case 2
    with assms k Struct show thesis by (auto simp: shape_of_def)
  next
    case 3
    with assms k obtain k' where "check_type (child_type ty) ds de = Inr k'" "check_type_original k'" "sh = Many"
      by (auto simp: shape_of_def split: sum.splits if_splits)
    with 3 k Many show thesis by (cases "k' = T_List") auto
  qed
qed

lemma pack_text:
  assumes "shape_of ds de ty = Some sh"
  shows "pack_arg u c fn ds de (ty, name, p) = Inr (render_all 2 (pack_stmts u c sh ty name))"
  using assms
  by (cases rule: shape_cases)
     (auto simp: pack_arg_def render_all_def gen_type_code_type_to_protcol.simps
        gen_list_type_code_type_to_protcol.simps list_var_def loop_var_def)

lemma unpack_text:
  assumes "shape_of ds de ty = Some sh"
  shows "unpack_arg u fn ds de n (ty, name, p) = Inr (render_all 2 (unpack_stmts u sh n ty name))"
  using assms
  by (cases rule: shape_cases)
     (auto simp: unpack_arg_def render_all_def gen_type_code_module_def gen_type_code_protcol_to_type.simps loop_var_def)

subsection \<open>Running one argument\<close>

definition packed :: "(string \<Rightarrow> pval \<Rightarrow> pval) \<Rightarrow> shape \<Rightarrow> string \<Rightarrow> pval \<Rightarrow> pval" where
  "packed cv sh ty v = (if sh = Struct then cv (ty @ ''_to_protcol'') v else v)"

definition unpacked :: "(string \<Rightarrow> pval \<Rightarrow> pval) \<Rightarrow> shape \<Rightarrow> string \<Rightarrow> pval \<Rightarrow> pval" where
  "unpacked cv sh ty v = (if sh = Struct then cv (''protcol_to_'' @ ty) v else v)"

definition is_many :: "shape \<Rightarrow> pval \<Rightarrow> bool" where
  "is_many sh v = (sh = Many \<longrightarrow> (\<exists>vs. v = PL vs))"

lemma map_loop:
  fixes cv :: "string \<Rightarrow> pval \<Rightarrow> pval" and arr :: "pval list" and l w :: string and ex :: pexp
  defines "body \<equiv> \<lambda>x e. exec_all cv arr [S_append l ex] (e(w \<mapsto> x))"
  assumes "e l = Some (PL ys)" and "l \<noteq> w" and g: "\<And>e v. e w = Some v \<Longrightarrow> exp_val cv arr e ex = Some (g v)"
  shows "\<exists>e'. iterate body xs e = Some e' \<and> e' l = Some (PL (ys @ List.map g xs)) \<and>
    (\<forall>x. x \<noteq> l \<longrightarrow> x \<noteq> w \<longrightarrow> e' x = e x)"
  using assms(2)
proof (induction xs arbitrary: e ys)
  case Nil
  then show ?case by simp
next
  case (Cons x xs)
  let ?e = "(e(w \<mapsto> x))(l \<mapsto> PL (ys @ [g x]))"
  have step: "body x e = Some ?e"
    using Cons.prems assms(3) by (simp add: append_val_def body_def g)
  have "?e l = Some (PL (ys @ [g x]))" by simp
  from Cons.IH [of ?e "ys @ [g x]", OF this] obtain e' where e':
    "iterate body xs ?e = Some e'" "e' l = Some (PL ((ys @ [g x]) @ List.map g xs))"
    "\<forall>y. y \<noteq> l \<longrightarrow> y \<noteq> w \<longrightarrow> e' y = ?e y" by blast
  have "iterate body (x # xs) e = Some e'" by (simp only: iterate.simps step e'(1) Option.bind.bind_lunit)
  moreover have "e' y = e y" if "y \<noteq> l" "y \<noteq> w" for y using that e'(3) by simp
  ultimately show ?case using e'(2) by (intro exI [of _ e'] conjI) simp_all
qed

lemma copy_loop:
  assumes "e l = Some (PL ys)" and "l \<noteq> w"
  shows "\<exists>e'. iterate (\<lambda>x e. exec_all cv arr [S_append l (E_var w)] (e(w \<mapsto> x))) xs e = Some e' \<and>
    e' l = Some (PL (ys @ xs)) \<and> (\<forall>x. x \<noteq> l \<longrightarrow> x \<noteq> w \<longrightarrow> e' x = e x)"
  using map_loop [where e = e and l = l and w = w and ex = "E_var w" and g = "\<lambda>v. v" and xs = xs, OF assms] by simp

lemma vars_differ [simp]:
  "list_var u m \<noteq> loop_var u n" "loop_var u n \<noteq> list_var u m"
  "''_argv_'' @ s \<noteq> list_var u m" "''_argv_'' @ s \<noteq> loop_var u m"
  "list_var u m \<noteq> ''_argv_'' @ s" "loop_var u m \<noteq> ''_argv_'' @ s"
  "''_'' @ s \<noteq> loop_var u m" "loop_var u m \<noteq> ''_'' @ s"
  by (simp_all add: list_var_def loop_var_def)

text \<open>
  Names of arguments with which the generated function is one of Python and means what \<open>exec\<close> says:
  identifiers that are no keywords and that hide nothing the generated code uses itself, that is its
  own variables, \<open>self\<close>, \<open>dumps\<close>, \<open>loads\<close>, \<open>inArray\<close> and the functions that encode structures.
\<close>

definition python_keywords :: "string list" where
  "python_keywords = [''False'', ''None'', ''True'', ''and'', ''as'', ''assert'', ''async'', ''await'', ''break'',
     ''class'', ''continue'', ''def'', ''del'', ''elif'', ''else'', ''except'', ''finally'', ''for'', ''from'',
     ''global'', ''if'', ''import'', ''in'', ''is'', ''lambda'', ''nonlocal'', ''not'', ''or'', ''pass'', ''raise'',
     ''return'', ''try'', ''while'', ''with'', ''yield'']"

definition name_letters :: string where
  "name_letters = ''_abcdefghijklmnopqrstuvwxyzABCDEFGHIJKLMNOPQRSTUVWXYZ''"

definition python_identifier :: "string \<Rightarrow> bool" where
  "python_identifier n = (case n of
     [] \<Rightarrow> False
   | c # cs \<Rightarrow> c \<in> set name_letters \<and> set cs \<subseteq> set (name_letters @ ''0123456789'') \<and> n \<notin> set python_keywords)"

definition plain_name :: "string \<Rightarrow> bool" where
  "plain_name n = (python_identifier n \<and> n \<notin> {''self'', ''dumps'', ''loads'', ''inArray''}
     \<and> \<not> suffix ''_to_protcol'' n \<and> \<not> prefix ''protcol_to_'' n
     \<and> \<not> prefix ''_argv_'' n \<and> \<not> prefix ''_list_'' n \<and> \<not> prefix ''v_'' n)"

lemma plain_nameD:
  assumes "plain_name n"
  shows "n \<noteq> ''_argv_'' @ s" "n \<noteq> list_var u m" "n \<noteq> loop_var u m"
  using assms by (auto simp: plain_name_def list_var_def loop_var_def prefix_def)

lemma run_pack:
  assumes c: "c = ''_argv_'' @ s" "e c = Some (PL vs)" and n: "plain_name name"
    and v: "e name = Some v" "is_many sh v"
  shows "\<exists>e'. exec_all cv arr (pack_stmts u c sh ty name) e = Some e' \<and>
    e' c = Some (PL (vs @ [packed cv sh ty v])) \<and> (\<forall>x. plain_name x \<longrightarrow> e' x = e x)"
proof (cases sh)
  case Plain
  with c v show ?thesis by (auto simp: append_val_def packed_def dest: plain_nameD(1))
next
  case Struct
  with c v show ?thesis by (auto simp: append_val_def packed_def dest: plain_nameD(1))
next
  case Many
  with v(2) obtain xs where xs: "v = PL xs" by (auto simp: is_many_def)
  let ?l = "list_var u name" and ?w = "loop_var u name"
  let ?e = "e(?l \<mapsto> PL [])"
  have "?e ?l = Some (PL [])" and lw: "?l \<noteq> ?w" by simp_all
  from copy_loop [where e = ?e and l = ?l and w = ?w and ys = "[]" and cv = cv and arr = arr and xs = xs, OF this, unfolded append_Nil] obtain e1 where
    e1: "iterate (\<lambda>x e. exec_all cv arr [S_append ?l (E_var ?w)] (e(?w \<mapsto> x))) xs ?e = Some e1"
      "e1 ?l = Some (PL xs)" "\<forall>x. x \<noteq> ?l \<longrightarrow> x \<noteq> ?w \<longrightarrow> e1 x = ?e x" by blast
  have cn: "c \<noteq> ?l" "c \<noteq> ?w" unfolding c(1) by (rule vars_differ)+
  have ce: "e1 c = Some (PL vs)" using e1(3) [rule_format, OF cn] cn c(2) by simp
  have ne: "?e name = Some (PL xs)" using plain_nameD(2) [OF n, of u name] v(1) xs by simp
  let ?e' = "e1(c \<mapsto> PL (vs @ [PL xs]))"
  have "exec_all cv arr (pack_stmts u c sh ty name) e = Some ?e'"
    using ne e1(1) e1(2) ce by (simp add: Many append_val_def)
  moreover have "?e' x = e x" if "plain_name x" for x
  proof -
    have "x \<noteq> c" unfolding c(1) by (rule plain_nameD(1) [OF that])
    then show ?thesis using e1(3) [rule_format, OF plain_nameD(2,3) [OF that]] plain_nameD(2) [OF that] by simp
  qed
  ultimately show ?thesis by (intro exI [of _ ?e']) (simp add: packed_def Many xs)
qed

lemma run_unpack:
  assumes i: "i < length arr" and v: "is_many sh (arr ! i)"
  shows "\<exists>e'. exec_all cv arr (unpack_stmts u sh i ty name) e = Some e' \<and>
    e' (''_'' @ name) = Some (unpacked cv sh ty (arr ! i)) \<and> (\<forall>m. m \<noteq> name \<longrightarrow> e' (''_'' @ m) = e (''_'' @ m))"
proof (cases sh)
  case Plain
  with i show ?thesis by (simp add: unpacked_def)
next
  case Struct
  with i show ?thesis by (simp add: unpacked_def)
next
  case Many
  with v obtain xs where xs: "arr ! i = PL xs" by (auto simp: is_many_def)
  let ?l = "''_'' @ name" and ?w = "loop_var u name"
  let ?e = "e(?l \<mapsto> PL [])"
  have "?e ?l = Some (PL [])" and lw: "?l \<noteq> ?w" by (simp_all add: loop_var_def)
  from copy_loop [where e = ?e and l = ?l and w = ?w and ys = "[]" and cv = cv and arr = arr and xs = xs, OF this, unfolded append_Nil] obtain e1 where
    e1: "iterate (\<lambda>x e. exec_all cv arr [S_append ?l (E_var ?w)] (e(?w \<mapsto> x))) xs ?e = Some e1"
      "e1 ?l = Some (PL xs)" "\<forall>x. x \<noteq> ?l \<longrightarrow> x \<noteq> ?w \<longrightarrow> e1 x = ?e x" by blast
  have "exec_all cv arr (unpack_stmts u sh i ty name) e = Some e1"
    using i xs e1(1) by (simp add: Many)
  with e1(2) e1(3) show ?thesis by (intro exI [of _ e1]) (simp add: unpacked_def Many xs loop_var_def)
qed

subsection \<open>Running all arguments of a call\<close>

type_synonym rpc_arg = "string \<times> string \<times> string option"

definition arg_item :: "rpc_arg list \<Rightarrow> func_item" where
  "arg_item args = Args (List.map (\<lambda>(ty, name, p). [Some ty, Some name, p]) args)"

definition pack_prog :: "uuids \<Rightarrow> string \<Rightarrow> (string \<Rightarrow> shape) \<Rightarrow> rpc_arg list \<Rightarrow> pstmt list" where
  "pack_prog u c sh args = concat (List.map (\<lambda>(ty, name, p). pack_stmts u c (sh ty) ty name) args)"

fun unpack_prog :: "uuids \<Rightarrow> (string \<Rightarrow> shape) \<Rightarrow> nat \<Rightarrow> rpc_arg list \<Rightarrow> pstmt list" where
  "unpack_prog u sh n [] = []"
| "unpack_prog u sh n ((ty, name, p) # args) = unpack_stmts u (sh ty) n ty name @ unpack_prog u sh (Suc n) args"

lemma render_all_append [simp]: "render_all d (xs @ ys) = render_all d xs @ render_all d ys"
  by (simp add: render_all_def)

lemma pack_texts:
  assumes "\<forall>(ty, name, p) \<in> set args. shape_of ds de ty = Some (sh ty)"
  shows "\<exists>ts. for_args (pack_arg u c fn ds de) (arg_item args) = Inr ts \<and> concat ts = render_all 2 (pack_prog u c sh args)"
  using assms
proof (induction args)
  case Nil
  then show ?case by (simp add: for_args_def arg_item_def args_of_def pack_prog_def render_all_def)
next
  case (Cons a args)
  obtain ty name p where a: "a = (ty, name, p)" by (rule prod_cases3)
  from Cons.IH Cons.prems obtain ts where ts: "for_args (pack_arg u c fn ds de) (arg_item args) = Inr ts"
    "concat ts = render_all 2 (pack_prog u c sh args)" by auto
  from Cons.prems a have "pack_arg u c fn ds de (ty, name, p) = Inr (render_all 2 (pack_stmts u c (sh ty) ty name))"
    by (intro pack_text) auto
  with ts a show ?case
    by (simp add: for_args_def arg_item_def args_of_def unpack3_def pack_prog_def)
qed

lemma unpack_texts_from:
  assumes "\<forall>(ty, name, p) \<in> set args. shape_of ds de ty = Some (sh ty)"
  shows "\<exists>ts. count_res (\<lambda>n a. bindr (unpack3 a) (unpack_arg u fn ds de n)) n
      (List.map (\<lambda>(ty, name, p). [Some ty, Some name, p]) args) = Inr ts \<and>
    concat ts = render_all 2 (unpack_prog u sh n args)"
  using assms
proof (induction args arbitrary: n)
  case Nil
  then show ?case by (simp add: render_all_def)
next
  case (Cons a args)
  obtain ty name p where a: "a = (ty, name, p)" by (rule prod_cases3)
  from Cons.IH [of "Suc n"] Cons.prems obtain ts where
    ts: "count_res (\<lambda>n a. bindr (unpack3 a) (unpack_arg u fn ds de n)) (Suc n)
      (List.map (\<lambda>(ty, name, p). [Some ty, Some name, p]) args) = Inr ts"
    "concat ts = render_all 2 (unpack_prog u sh (Suc n) args)" by auto
  from Cons.prems a have "unpack_arg u fn ds de n (ty, name, p) = Inr (render_all 2 (unpack_stmts u (sh ty) n ty name))"
    by (intro unpack_text) auto
  with ts a show ?case by (simp add: unpack3_def)
qed

lemma unpack_texts:
  assumes "\<forall>(ty, name, p) \<in> set args. shape_of ds de ty = Some (sh ty)"
  shows "\<exists>ts. for_args_count (unpack_arg u fn ds de) (arg_item args) = Inr ts \<and>
    concat ts = render_all 2 (unpack_prog u sh 0 args)"
  using unpack_texts_from [OF assms, of u fn 0] by (simp add: for_args_count_def arg_item_def args_of_def)

definition sent_of :: "(string \<Rightarrow> pval \<Rightarrow> pval) \<Rightarrow> (string \<Rightarrow> shape) \<Rightarrow> penv \<Rightarrow> rpc_arg \<Rightarrow> pval" where
  "sent_of cv sh e a = (case a of (ty, name, p) \<Rightarrow> packed cv (sh ty) ty (the (e name)))"

lemma run_packs:
  assumes "\<forall>(ty, name, p) \<in> set args. plain_name name \<and> (\<exists>v. e name = Some v \<and> is_many (sh ty) v)"
    and "c = ''_argv_'' @ s" and "e c = Some (PL vs)"
  shows "\<exists>e'. exec_all cv arr (pack_prog u c sh args) e = Some e' \<and>
    e' c = Some (PL (vs @ List.map (sent_of cv sh e) args))"
  using assms
proof (induction args arbitrary: e vs)
  case Nil
  then show ?case by (simp add: pack_prog_def)
next
  case (Cons a args)
  obtain ty name p where a: "a = (ty, name, p)" by (rule prod_cases3)
  with Cons.prems(1) obtain v where v: "plain_name name" "e name = Some v" "is_many (sh ty) v" by auto
  from run_pack [OF Cons.prems(2,3) v, of cv arr u ty] obtain e1 where
    e1: "exec_all cv arr (pack_stmts u c (sh ty) ty name) e = Some e1"
      "e1 c = Some (PL (vs @ [packed cv (sh ty) ty v]))" "\<forall>x. plain_name x \<longrightarrow> e1 x = e x" by blast
  have rest: "\<forall>(ty, name, p) \<in> set args. plain_name name \<and> (\<exists>v. e1 name = Some v \<and> is_many (sh ty) v)"
    using Cons.prems(1) e1(3) by fastforce
  have same: "List.map (sent_of cv sh e1) args = List.map (sent_of cv sh e) args"
    using Cons.prems(1) e1(3) by (intro map_cong refl) (auto simp: sent_of_def)
  from Cons.IH [OF rest Cons.prems(2) e1(2)] same e1(1) v(2) show ?case
    by (auto simp: pack_prog_def a exec_all_append sent_of_def)
qed

lemma run_unpacks:
  assumes "n + length args = length arr" and "distinct (List.map (\<lambda>(ty, name, p). name) args)"
    and "\<forall>i < length args. is_many (sh (fst (args ! i))) (arr ! (n + i))"
  shows "\<exists>e'. exec_all cv arr (unpack_prog u sh n args) e = Some e' \<and>
    (\<forall>i < length args. case args ! i of (ty, name, p) \<Rightarrow>
       e' (''_'' @ name) = Some (unpacked cv (sh ty) ty (arr ! (n + i)))) \<and>
    (\<forall>m. m \<notin> (\<lambda>(ty, name, p). name) ` set args \<longrightarrow> e' (''_'' @ m) = e (''_'' @ m))"
  using assms
proof (induction args arbitrary: n e)
  case Nil
  then show ?case by simp
next
  case (Cons a args)
  obtain ty name p where a: "a = (ty, name, p)" by (rule prod_cases3)
  have n: "n < length arr" "is_many (sh ty) (arr ! n)"
    using Cons.prems(1) Cons.prems(3) [rule_format, of 0] by (auto simp: a)
  from run_unpack [OF n, of cv u ty name e] obtain e1 where
    e1: "exec_all cv arr (unpack_stmts u (sh ty) n ty name) e = Some e1"
      "e1 (''_'' @ name) = Some (unpacked cv (sh ty) ty (arr ! n))"
      "\<forall>m. m \<noteq> name \<longrightarrow> e1 (''_'' @ m) = e (''_'' @ m)" by blast
  have "\<forall>i < length args. is_many (sh (fst (args ! i))) (arr ! (Suc n + i))"
    using Cons.prems(3) by fastforce
  with Cons.IH [of "Suc n" e1] Cons.prems(1,2) obtain e2 where
    e2: "exec_all cv arr (unpack_prog u sh (Suc n) args) e1 = Some e2"
      "\<forall>i < length args. case args ! i of (ty, name, p) \<Rightarrow>
         e2 (''_'' @ name) = Some (unpacked cv (sh ty) ty (arr ! (Suc n + i)))"
      "\<forall>m. m \<notin> (\<lambda>(ty, name, p). name) ` set args \<longrightarrow> e2 (''_'' @ m) = e1 (''_'' @ m)"
    by auto
  have "name \<notin> (\<lambda>(ty, name, p). name) ` set args" using Cons.prems(2) by (simp add: a)
  with e2(3) e1(2) have first: "e2 (''_'' @ name) = Some (unpacked cv (sh ty) ty (arr ! n))" by simp
  have all: "case (a # args) ! i of (ty, name, p) \<Rightarrow>
      e2 (''_'' @ name) = Some (unpacked cv (sh ty) ty (arr ! (n + i)))" if "i < length (a # args)" for i
    using that first e2(2) by (cases i) (auto simp: a)
  have other: "e2 (''_'' @ m) = e (''_'' @ m)" if "m \<notin> (\<lambda>(ty, name, p). name) ` set (a # args)" for m
    using that e2(3) e1(3) by (auto simp: a)
  show ?case
    using e1(1) e2(1) all other by (intro exI [of _ e2]) (simp add: a exec_all_append)
qed


subsection \<open>The argument list crosses the connection\<close>

lemma module_method_text:
  assumes "\<forall>(ty, name, p) \<in> set args. shape_of ds de ty = Some (sh ty)"
    and "module_method u fn params first made (arg_item args) ds de = Inr t"
  shows "sublist (line ''        inArray = loads(bin)'' @ render_all 2 (unpack_prog u sh 0 args)) t"
proof -
  from unpack_texts [OF assms(1)] obtain ts where
    ts: "for_args_count (unpack_arg u fn ds de) (arg_item args) = Inr ts" "concat ts = render_all 2 (unpack_prog u sh 0 args)"
    by blast
  show ?thesis
  proof (cases "for_args name_arg (arg_item args)")
    case (Inl x)
    then show ?thesis using assms(2) ts(1) by (simp add: module_method_def)
  next
    case (Inr names)
    let ?a = "line (''    def '' @ fn @ ''(self, '' @ params @ '', bin:bytes):'')"
    obtain z where "t = ?a @ (line ''        inArray = loads(bin)'' @ render_all 2 (unpack_prog u sh 0 args)) @ z"
      using assms(2) ts Inr by (auto simp: module_method_def)
    then show ?thesis unfolding sublist_def by blast
  qed
qed

lemma caller_ntf_text:
  fixes u :: uuids and fn :: string
  defines "c \<equiv> ''_argv_'' @ u3 u fn"
  assumes "\<forall>(ty, name, p) \<in> set args. shape_of ds de ty = Some (sh ty)"
    and "caller_ntf u call fn (arg_item args) ds de enum = Inr t"
  shows "suffix (render_all 2 (S_new c # pack_prog u c sh args) @
    ''        '' @ call @ ''('' @ dq @ fn @ dq @ '', dumps('' @ c @ ''))'' @ eol @ eol) t"
proof -
  from pack_texts [OF assms(2), of u c fn] obtain ts where
    ts: "for_args (pack_arg u c fn ds de) (arg_item args) = Inr ts" "concat ts = render_all 2 (pack_prog u c sh args)"
    by blast
  have d: "line (''        _argv_'' @ u3 u fn @ '' = []'') = render 2 (S_new c)"
    by (simp add: line_def space_of_def c_def numeral_2_eq_2)
  show ?thesis
    using assms(3) ts d
    by (cases "for_args (\<lambda>a. bindr (sig_arg ds de enum a) (\<lambda>t. Inr ('', '' @ t))) (arg_item args)")
       (auto simp: caller_ntf_def caller_method_def c_def render_all_def suffix_def)
qed

text \<open>The two sides may be two programs: \<open>cv\<close> are the functions of the caller, \<open>cv'\<close> those of the handler.\<close>

lemma roundtrip_run:
  assumes vals: "\<forall>(ty, name, p) \<in> set args. plain_name name \<and> (\<exists>v. e name = Some v \<and> is_many (sh ty) v)"
    and names: "distinct (List.map (\<lambda>(ty, name, p). name) args)"
    and codec: "\<forall>(ty, name, p) \<in> set args. sh ty = Struct \<longrightarrow>
      cv' (''protcol_to_'' @ ty) (cv (ty @ ''_to_protcol'') (the (e name))) = the (e name)"
    and c: "c = ''_argv_'' @ s"
  shows "\<exists>e1 arr e2. exec_all cv [] (S_new c # pack_prog u c sh args) e = Some e1 \<and> e1 c = Some (PL arr) \<and>
    length arr = length args \<and> exec_all cv' arr (unpack_prog u' sh 0 args) e' = Some e2 \<and>
    (\<forall>(ty, name, p) \<in> set args. e2 (''_'' @ name) = e name)"
proof -
  define e0 where "e0 = e(c \<mapsto> PL [])"
  have same: "e0 name = e name" if "(ty, name, p) \<in> set args" for ty name p
    using vals that plain_nameD(1) [of name s] unfolding c e0_def by fastforce
  have vals': "\<forall>(ty, name, p) \<in> set args. plain_name name \<and> (\<exists>v. e0 name = Some v \<and> is_many (sh ty) v)"
  proof (clarify)
    fix ty name p assume m: "(ty, name, p) \<in> set args"
    with vals have "plain_name name \<and> (\<exists>v. e name = Some v \<and> is_many (sh ty) v)" by fastforce
    then show "plain_name name \<and> (\<exists>v. e0 name = Some v \<and> is_many (sh ty) v)" unfolding same [OF m] .
  qed
  have "e0 c = Some (PL [])" by (simp add: e0_def)
  from run_packs [OF vals' c this, of cv "[]" u] obtain e1 where
    e1: "exec_all cv [] (pack_prog u c sh args) e0 = Some e1" "e1 c = Some (PL (List.map (sent_of cv sh e0) args))"
    unfolding append_Nil by blast
  let ?arr = "List.map (sent_of cv sh e0) args"
  have many: "\<forall>i < length args. is_many (sh (fst (args ! i))) (?arr ! (0 + i))"
  proof (intro allI impI)
    fix i assume i: "i < length args"
    obtain ty name p where a: "args ! i = (ty, name, p)" by (rule prod_cases3)
    then have "(ty, name, p) \<in> set args" using i by (metis nth_mem)
    with vals' i a show "is_many (sh (fst (args ! i))) (?arr ! (0 + i))"
      by (fastforce simp: sent_of_def packed_def is_many_def)
  qed
  from run_unpacks [OF _ names many, of cv' u' e'] obtain e2 where
    e2: "exec_all cv' ?arr (unpack_prog u' sh 0 args) e' = Some e2"
      "\<forall>i < length args. case args ! i of (ty, name, p) \<Rightarrow>
         e2 (''_'' @ name) = Some (unpacked cv' (sh ty) ty (?arr ! (0 + i)))" by auto
  have "e2 (''_'' @ name) = e name" if m: "(ty, name, p) \<in> set args" for ty name p
  proof -
    from m obtain i where i: "i < length args" "args ! i = (ty, name, p)" by (auto simp: in_set_conv_nth)
    from e2(2) i have "e2 (''_'' @ name) = Some (unpacked cv' (sh ty) ty (sent_of cv sh e0 (ty, name, p)))" by fastforce
    also have "\<dots> = e name"
      using codec vals same [OF m] m by (fastforce simp: sent_of_def packed_def unpacked_def)
    finally show ?thesis .
  qed
  then have got: "\<forall>(ty, name, p) \<in> set args. e2 (''_'' @ name) = e name" by blast
  have run: "exec_all cv [] (S_new c # pack_prog u c sh args) e = Some e1"
    using e1(1) by (simp add: e0_def)
  show ?thesis
    by (rule exI [of _ e1], rule exI [of _ ?arr], rule exI [of _ e2]) (intro conjI run e1(2) e2(1) got length_map)
qed


text \<open>C9: the generated caller and the generated handler of a notification agree on its arguments, when
  every argument is of a basic type, an enumeration, a structure, or a list of basic values or
  enumerations (not a list of structures or of lists), the names are distinct and \<open>plain_name\<close>s, and
  decoding a structure undoes encoding it: the code of the caller ends in the packing program
  followed by the call, the code of the handler contains the unpacking program, both programs run
  without raising, and after them the local \<open>_name\<close> of the handler holds the value the caller passed
  as \<open>name\<close>, for every argument.\<close>

theorem rpc_args_roundtrip:
  fixes u :: uuids and fn :: string
  defines "c \<equiv> ''_argv_'' @ u3 u fn"
  assumes types: "\<forall>(ty, name, p) \<in> set args. shape_of ds de ty = Some (sh ty)"
    and caller: "caller_ntf u call fn (arg_item args) ds de enum = Inr sender"
    and handler: "module_method u fn params first made (arg_item args) ds de = Inr receiver"
    and vals: "\<forall>(ty, name, p) \<in> set args. plain_name name \<and> (\<exists>v. e name = Some v \<and> is_many (sh ty) v)"
    and names: "distinct (List.map (\<lambda>(ty, name, p). name) args)"
    and codec: "\<forall>(ty, name, p) \<in> set args. sh ty = Struct \<longrightarrow>
      cv (''protcol_to_'' @ ty) (cv (ty @ ''_to_protcol'') (the (e name))) = the (e name)"
  shows "suffix (render_all 2 (S_new c # pack_prog u c sh args) @
      ''        '' @ call @ ''('' @ dq @ fn @ dq @ '', dumps('' @ c @ ''))'' @ eol @ eol) sender \<and>
    sublist (line ''        inArray = loads(bin)'' @ render_all 2 (unpack_prog u sh 0 args)) receiver \<and>
    (\<exists>e1 arr e2. exec_all cv [] (S_new c # pack_prog u c sh args) e = Some e1 \<and> e1 c = Some (PL arr) \<and>
      length arr = length args \<and> exec_all cv arr (unpack_prog u sh 0 args) e' = Some e2 \<and>
      (\<forall>(ty, name, p) \<in> set args. e2 (''_'' @ name) = e name))"
proof (intro conjI)
  show "suffix (render_all 2 (S_new c # pack_prog u c sh args) @
      ''        '' @ call @ ''('' @ dq @ fn @ dq @ '', dumps('' @ c @ ''))'' @ eol @ eol) sender"
    unfolding c_def by (rule caller_ntf_text [OF types caller])
  show "sublist (line ''        inArray = loads(bin)'' @ render_all 2 (unpack_prog u sh 0 args)) receiver"
    by (rule module_method_text [OF types handler])
  show "\<exists>e1 arr e2. exec_all cv [] (S_new c # pack_prog u c sh args) e = Some e1 \<and> e1 c = Some (PL arr) \<and>
      length arr = length args \<and> exec_all cv arr (unpack_prog u sh 0 args) e' = Some e2 \<and>
      (\<forall>(ty, name, p) \<in> set args. e2 (''_'' @ name) = e name)"
    by (rule roundtrip_run [OF vals names codec c_def [THEN meta_eq_to_obj_eq]])
qed

text \<open>A call with a number, a structure and a list of texts, on a machine where packing wraps a structure.\<close>

definition demo_args :: "rpc_arg list" where
  "demo_args = [(''int32'', ''count'', None), (''Item'', ''what'', None), (''string[]'', ''names'', None)]"

definition demo_shape :: "string \<Rightarrow> shape" where
  "demo_shape ty = (if ty = ''Item'' then Struct else if ty = ''string[]'' then Many else Plain)"

definition demo_env :: penv where
  "demo_env = [''count'' \<mapsto> PV ''3'', ''what'' \<mapsto> PV ''sword'', ''names'' \<mapsto> PL [PV ''a'', PV ''b'']]"

definition demo_codec :: "string \<Rightarrow> pval \<Rightarrow> pval" where
  "demo_codec f v = (if f = ''Item_to_protcol'' then PL [v]
     else case v of PL [x] \<Rightarrow> x | _ \<Rightarrow> v)"

definition demo_uuids :: uuids where
  "demo_uuids = \<lparr>u3 = \<lambda>x. x, u5 = \<lambda>x. x\<rparr>"

lemma demo_plain [simp]:
  "plain_name ''count''" "plain_name ''what''" "plain_name ''names''" "plain_name ''bag''"
  by code_simp+

lemma demo_u3: "u3 demo_uuids x = x"
  by (simp add: demo_uuids_def)

lemma not_isl: "\<not> isl x \<Longrightarrow> \<exists>y. x = Inr y"
  by (cases x) simp_all

lemma demo_codes:
  "\<not> isl (caller_ntf demo_uuids ''self.entity.call_hub_notify'' ''give'' (arg_item demo_args) [(''Item'', [])] [] [])"
  "\<not> isl (module_method demo_uuids ''give'' ''source:str'' ''s'' ''session(source)'' (arg_item demo_args) [(''Item'', [])] [])"
  by code_simp+

theorem rpc_args_roundtrip_witness:
  "\<exists>e1 arr e2. exec_all demo_codec [] (S_new ''_argv_give'' # pack_prog demo_uuids ''_argv_give'' demo_shape demo_args) demo_env = Some e1 \<and>
     e1 ''_argv_give'' = Some (PL arr) \<and> length arr = 3 \<and>
     exec_all demo_codec arr (unpack_prog demo_uuids demo_shape 0 demo_args) Map.empty = Some e2 \<and>
     e2 ''_count'' = Some (PV ''3'') \<and> e2 ''_what'' = Some (PV ''sword'') \<and> e2 ''_names'' = Some (PL [PV ''a'', PV ''b''])"
proof -
  obtain s where s: "caller_ntf demo_uuids ''self.entity.call_hub_notify'' ''give'' (arg_item demo_args) [(''Item'', [])] [] [] = Inr s"
    using not_isl [OF demo_codes(1)] by blast
  obtain r where r: "module_method demo_uuids ''give'' ''source:str'' ''s'' ''session(source)'' (arg_item demo_args) [(''Item'', [])] [] = Inr r"
    using not_isl [OF demo_codes(2)] by blast
  have types: "\<forall>(ty, name, p) \<in> set demo_args. shape_of [(''Item'', [])] [] ty = Some (demo_shape ty)"
    by code_simp
  have vals: "\<forall>(ty, name, p) \<in> set demo_args. plain_name name \<and>
      (\<exists>v. demo_env name = Some v \<and> is_many (demo_shape ty) v)"
    by (simp add: demo_args_def demo_env_def demo_shape_def is_many_def)
  have codec: "\<forall>(ty, name, p) \<in> set demo_args. demo_shape ty = Struct \<longrightarrow>
      demo_codec (''protcol_to_'' @ ty) (demo_codec (ty @ ''_to_protcol'') (the (demo_env name))) = the (demo_env name)"
    by (simp add: demo_args_def demo_env_def demo_shape_def demo_codec_def)
  have names: "distinct (List.map (\<lambda>(ty, name, p). name) demo_args)" by code_simp
  from rpc_args_roundtrip [OF types s r vals names codec, of Map.empty, unfolded demo_u3, THEN conjunct2, THEN conjunct2]
  obtain e1 arr e2 where run:
    "exec_all demo_codec [] (S_new (''_argv_'' @ ''give'') # pack_prog demo_uuids (''_argv_'' @ ''give'') demo_shape demo_args) demo_env = Some e1"
    "e1 (''_argv_'' @ ''give'') = Some (PL arr)" "length arr = length demo_args"
    "exec_all demo_codec arr (unpack_prog demo_uuids demo_shape 0 demo_args) Map.empty = Some e2"
    "\<forall>(ty, name, p) \<in> set demo_args. e2 (''_'' @ name) = demo_env name" by blast
  have c: "''_argv_give'' = ''_argv_'' @ ''give''" by simp
  have "length arr = 3" using run(3) by (simp add: demo_args_def)
  moreover have "e2 ''_count'' = Some (PV ''3'')" "e2 ''_what'' = Some (PV ''sword'')"
    "e2 ''_names'' = Some (PL [PV ''a'', PV ''b''])"
    using run(5) by (simp_all add: demo_args_def demo_env_def)
  ultimately show ?thesis unfolding c using run(1,2,4) by blast
qed


subsection \<open>Which types the interface compiler accepts\<close>

definition named_type :: "string \<Rightarrow> dependents \<Rightarrow> dependents \<Rightarrow> bool" where
  "named_type b ds de = (dget base_types b \<noteq> None \<or> check_in_dependent b ds \<or> check_in_dependent b de)"

definition lists_of :: "string \<Rightarrow> nat \<Rightarrow> string" where
  "lists_of b n = b @ concat (replicate n ''[]'')"

lemma lists_of_Suc: "lists_of b (Suc n) = lists_of b n @ ''[]''"
  by (induction n) (simp_all add: lists_of_def)

lemma lists_of_0 [simp]: "lists_of b 0 = b"
  by (simp add: lists_of_def)

lemma child_of_list [simp]: "child_type (t @ ''[]'') = t"
  by (simp add: child_type_def)

lemma list_is_child: "is_list_type t \<Longrightarrow> t = child_type t @ ''[]''"
  by (metis append_take_drop_id child_type_def is_list_type_def)

lemma same_names: "(dget python_types t = None) = (dget base_types t = None)"
  by (simp add: python_types_def base_types_def)

lemma check_list:
  "\<not> named_type (t @ ''[]'') ds de \<Longrightarrow> check_type (t @ ''[]'') ds de = Inr T_List"
  by (simp add: named_type_def check_type_def is_list_type_def)

lemma convert_named: "named_type t ds de \<Longrightarrow> \<exists>s. convert_type t ds de = Inr s"
  using same_names [of t]
  by (cases "dget python_types t") (auto simp: named_type_def convert_type.simps [of t])

lemma convert_list:
  assumes "\<not> named_type (t @ ''[]'') ds de"
  shows "convert_type (t @ ''[]'') ds de =
    bindr (convert_type t ds de) (\<lambda>a. Inr (''list['' @ a @ '']''))"
  using assms check_list [OF assms] same_names [of "t @ ''[]''"]
  by (simp add: named_type_def convert_type.simps [of "t @ ''[]''"])

lemma convert_sound: "convert_type t ds de = Inr s \<Longrightarrow> \<exists>b n. t = lists_of b n \<and> named_type b ds de"
proof (induction t arbitrary: s rule: measure_induct_rule [of length])
  case (less t)
  show ?case
  proof (cases "named_type t ds de")
    case True
    then show ?thesis by (intro exI [of _ t] exI [of _ 0]) simp
  next
    case False
    then have k: "check_type t ds de = Inr T_List"
      using less.prems same_names [of t]
      by (auto simp: named_type_def convert_type.simps [of t] split: sum.splits if_splits)
    then have t: "t = child_type t @ ''[]''" using check_type_list [of t ds de] list_is_child by blast
    then have nt: "\<not> named_type (child_type t @ ''[]'') ds de" using False by metis
    obtain a where "convert_type (child_type t) ds de = Inr a"
      using less.prems convert_list [OF nt] t by (cases "convert_type (child_type t) ds de") auto
    from less.IH [OF child_type_shorter [OF k] this] obtain b n where
      "child_type t = lists_of b n" "named_type b ds de" by blast
    with t show ?thesis by (metis lists_of_Suc)
  qed
qed

lemma convert_complete: "named_type b ds de \<Longrightarrow> \<exists>s. convert_type (lists_of b n) ds de = Inr s"
proof (induction n)
  case 0
  then show ?case using convert_named by simp
next
  case (Suc n)
  then obtain s where s: "convert_type (lists_of b n) ds de = Inr s" by blast
  show ?case
  proof (cases "named_type (lists_of b (Suc n)) ds de")
    case True
    then show ?thesis by (rule convert_named)
  next
    case False
    then show ?thesis using convert_list [of "lists_of b n" ds de] s by (simp add: lists_of_Suc)
  qed
qed

text \<open>C34: the type checker of the interface compiler.  \<open>convert_type\<close> gives a Python type for
  exactly the basic types, the structures and the enumerations in scope, and the lists of them
  of any depth; every other name makes the generator raise.\<close>

theorem convert_type_accepts:
  "(\<exists>s. convert_type t ds de = Inr s) = (\<exists>b n. t = lists_of b n \<and> named_type b ds de)"
proof
  assume "\<exists>s. convert_type t ds de = Inr s"
  then show "\<exists>b n. t = lists_of b n \<and> named_type b ds de" by (elim exE) (rule convert_sound)
next
  assume "\<exists>b n. t = lists_of b n \<and> named_type b ds de"
  then show "\<exists>s. convert_type t ds de = Inr s" by (elim exE conjE) (simp add: convert_complete)
qed

subsection \<open>Where the two sides disagree\<close>

text \<open>Names the parser makes are not empty and have no bracket.\<close>

definition clean_names :: "dependents \<Rightarrow> bool" where
  "clean_names ds = (\<forall>(ty, imp) \<in> set ds. ty \<noteq> [] \<and> CHR ''['' \<notin> set ty)"

lemma clean_not_in: "clean_names ds \<Longrightarrow> t = [] \<or> CHR ''['' \<in> set t \<Longrightarrow> \<not> check_in_dependent t ds"
  by (induction ds) (auto simp: clean_names_def)

lemma base_names: "\<forall>x \<in> set (List.map fst base_types). x \<noteq> [] \<and> CHR ''['' \<notin> set x"
  by (simp add: base_types_def)

lemma bracket_not_base: "t = [] \<or> CHR ''['' \<in> set t \<Longrightarrow> dget base_types t = None"
  using base_names by (cases "dget base_types t") (force dest: map_of_SomeD)+

text \<open>The element type of an inner list keeps its opening bracket, or is cut to nothing.\<close>

lemma slice51_list: "slice51 (t @ ''[]'') = drop 5 (t @ ''['')"
  by (simp add: slice51_def butlast_append)

lemma slice51_rejected:
  assumes "clean_names ds" "clean_names de"
  shows "\<exists>x. check_type (slice51 (t @ ''[]'')) ds de = Inl x"
proof -
  let ?t = "drop 5 (t @ ''['')"
  have d: "?t = [] \<or> CHR ''['' \<in> set ?t" by (auto simp: drop_Cons split: nat.split)
  have "\<not> is_list_type ?t"
    by (cases "5 \<le> length t") (auto simp: is_list_type_def drop_Cons split: nat.split)
  moreover have "\<exists>x. check_type z ds de = Inl x" if "z = [] \<or> CHR ''['' \<in> set z" "\<not> is_list_type z" for z
    using clean_not_in [OF assms(1) that(1)] clean_not_in [OF assms(2) that(1)] bracket_not_base [OF that(1)] that(2)
    by (simp add: check_type_def)
  ultimately show ?thesis using d unfolding slice51_list by blast
qed


lemma check_named: "named_type t ds de \<Longrightarrow> \<exists>k. check_type t ds de = Inr k"
  by (cases "dget base_types t") (auto simp: named_type_def check_type_def)

lemma list_not_named:
  assumes "check_type t ds de = Inr T_List"
  shows "\<not> named_type t ds de"
proof -
  have "dget base_types t = None" using check_type_list [OF assms] by blast
  with assms show ?thesis by (simp add: named_type_def check_type_def split: if_splits)
qed

lemma pack_flat:
  "k \<noteq> T_List \<Longrightarrow> \<exists>s. gen_type_code_type_to_protcol u d c ''list'' t k name fn ds de = Inr s"
  using kinds [of k] by (auto simp: gen_type_code_type_to_protcol.simps)

lemma pack_list:
  assumes "check_type t ds de = Inr k"
    and "\<And>d c name. \<exists>s. gen_type_code_type_to_protcol u d c ''list'' t k name fn ds de = Inr s"
  shows "\<exists>s. gen_type_code_type_to_protcol u d c ''list'' (t @ ''[]'') T_List name fn ds de = Inr s"
proof -
  obtain s where "gen_type_code_type_to_protcol u (d + 1) (''_list_'' @ u3 u name) ''list'' t k (''v_'' @ u5 u name) fn ds de = Inr s"
    using assms(2) by blast
  then show ?thesis
    using assms(1) gen_type_code_type_to_protcol.simps [of u d c "''list''" "t @ ''[]''" T_List name fn ds de]
      gen_list_type_code_type_to_protcol.simps [of u d c "''list''" "t @ ''[]''" name fn ds de]
    by simp
qed

lemma pack_total:
  assumes "named_type b ds de"
  shows "\<exists>k. check_type (lists_of b n) ds de = Inr k \<and>
    (\<forall>d c name. \<exists>s. gen_type_code_type_to_protcol u d c ''list'' (lists_of b n) k name fn ds de = Inr s)"
proof (induction n)
  case 0
  obtain k where k: "check_type b ds de = Inr k" using check_named [OF assms] by blast
  show ?case
  proof (cases "k = T_List")
    case True
    with k list_not_named [of b ds de] assms show ?thesis by simp
  next
    case False
    with k pack_flat show ?thesis by (intro exI [of _ k]) simp
  qed
next
  case (Suc n)
  then obtain k where k: "check_type (lists_of b n) ds de = Inr k"
    "\<And>d c name. \<exists>s. gen_type_code_type_to_protcol u d c ''list'' (lists_of b n) k name fn ds de = Inr s" by blast
  show ?case
  proof (cases "named_type (lists_of b n @ ''[]'') ds de")
    case False
    from check_list [OF this] pack_list [OF k] show ?thesis
      by (intro exI [of _ T_List]) (simp add: lists_of_Suc)
  next
    case True
    obtain k' where k': "check_type (lists_of b (Suc n)) ds de = Inr k'"
      using check_named [OF True] by (auto simp: lists_of_Suc)
    show ?thesis
    proof (cases "k' = T_List")
      case True
      with k' pack_list [OF k] show ?thesis by (intro exI [of _ T_List]) (simp add: lists_of_Suc)
    next
      case False
      with k' pack_flat show ?thesis by (intro exI [of _ k']) simp
    qed
  qed
qed

lemma list_of_clean:
  assumes "clean_names ds" "clean_names de"
  shows "check_type (t @ ''[]'') ds de = Inr T_List"
proof -
  have d: "t @ ''[]'' = [] \<or> CHR ''['' \<in> set (t @ ''[]'')" by simp
  show ?thesis
    using clean_not_in [OF assms(1) d] clean_not_in [OF assms(2) d] bracket_not_base [OF d]
    by (intro check_list) (simp add: named_type_def)
qed

text \<open>Lists of lists work on one side only.  For every accepted type, the generator of the
  caller produces the packing code of a list of lists of it, and the generator of the module
  raises on the same argument, because it cuts the element type out with \<open>[5:-1]\<close>.\<close>

theorem rpc_nested_list_rejected:
  assumes "clean_names ds" and "clean_names de" and "named_type b ds de"
  shows "(\<exists>s. pack_arg u c fn ds de (lists_of b (Suc (Suc n)), name, p) = Inr s) \<and>
    (\<exists>x. unpack_arg u fn ds de i (lists_of b (Suc (Suc n)), name, p) = Inl x)"
proof
  show "\<exists>s. pack_arg u c fn ds de (lists_of b (Suc (Suc n)), name, p) = Inr s"
    using pack_total [OF assms(3), of "Suc (Suc n)" u fn] by (auto simp: pack_arg_def)
  obtain x where "check_type (slice51 (lists_of b n @ ''[]'')) ds de = Inl x"
    using slice51_rejected [OF assms(1,2)] by blast
  then show "\<exists>x. unpack_arg u fn ds de i (lists_of b (Suc (Suc n)), name, p) = Inl x"
    using list_of_clean [OF assms(1,2)]
    by (simp add: unpack_arg_def lists_of_Suc gen_type_code_module_def
        gen_type_code_protcol_to_type.simps gen_list_type_code_protcol_to_type.simps child_of_list
        del: append_assoc)
qed

theorem rpc_nested_list_rejected_witness:
  "\<exists>x. unpack_arg demo_uuids ''walk'' [] [] 0 (lists_of ''int32'' 2, ''path'', None) = Inl x"
  using rpc_nested_list_rejected [of "[]" "[]" "''int32''" demo_uuids "''_argv''" "''walk''" 0 "''path''" None 0]
  by (simp add: clean_names_def named_type_def base_types_def numeral_2_eq_2)


text \<open>The two programs for a list of structures.\<close>

definition pack_structs :: "uuids \<Rightarrow> string \<Rightarrow> string \<Rightarrow> string \<Rightarrow> pstmt list" where
  "pack_structs u c ty name =
     [S_new (list_var u name),
      S_for (loop_var u name) (E_var name)
        [S_append (list_var u name) (E_call (ty @ ''_to_protcol'') (E_var (loop_var u name)))],
      S_append c (E_var (list_var u name))]"

definition unpack_structs :: "uuids \<Rightarrow> nat \<Rightarrow> string \<Rightarrow> string \<Rightarrow> pstmt list" where
  "unpack_structs u n ty name =
     [S_new (''_'' @ name),
      S_for (loop_var u name) (E_index n)
        [S_append (''_'' @ name) (E_call (ty @ ''_to_protcol'') (E_var (loop_var u name)))]]"

lemma struct_texts:
  assumes "check_type (ty @ ''[]'') ds de = Inr T_List" "check_type ty ds de = Inr T_Custom"
  shows "pack_arg u c fn ds de (ty @ ''[]'', name, p) = Inr (render_all 2 (pack_structs u c ty name))"
    and "unpack_arg u fn ds de n (ty @ ''[]'', name, p) = Inr (render_all 2 (unpack_structs u n ty name))"
  using assms
  by (simp_all add: pack_arg_def unpack_arg_def render_all_def pack_structs_def unpack_structs_def
      gen_type_code_type_to_protcol.simps gen_list_type_code_type_to_protcol.simps
      gen_type_code_module_def gen_type_code_protcol_to_type.simps list_var_def loop_var_def)

lemma run_pack_structs:
  assumes "c = ''_argv_'' @ s" "e c = Some (PL ws)" "plain_name name" "e name = Some (PL vs)"
  shows "\<exists>e'. exec_all cv arr (pack_structs u c ty name) e = Some e' \<and>
    e' c = Some (PL (ws @ [PL (List.map (cv (ty @ ''_to_protcol'')) vs)]))"
proof -
  let ?l = "list_var u name" and ?w = "loop_var u name" and ?g = "cv (ty @ ''_to_protcol'')"
  let ?e = "e(?l \<mapsto> PL [])" and ?x = "E_call (ty @ ''_to_protcol'') (E_var (loop_var u name))"
  have "?e ?l = Some (PL [])" and "?l \<noteq> ?w" by simp_all
  moreover have "\<And>e v. e ?w = Some v \<Longrightarrow> exp_val cv arr e ?x = Some (?g v)" by simp
  ultimately obtain e1 where
    e1: "iterate (\<lambda>x e. exec_all cv arr [S_append ?l ?x] (e(?w \<mapsto> x))) vs ?e = Some e1"
      "e1 ?l = Some (PL (List.map ?g vs))" "\<forall>x. x \<noteq> ?l \<longrightarrow> x \<noteq> ?w \<longrightarrow> e1 x = ?e x"
    using map_loop [where e = ?e and l = ?l and w = ?w and ys = "[]" and cv = cv and arr = arr and ex = ?x
        and g = ?g and xs = vs, unfolded append_Nil] by blast
  have cn: "c \<noteq> ?l" "c \<noteq> ?w" unfolding assms(1) by (rule vars_differ)+
  have ce: "e1 c = Some (PL ws)" using e1(3) [rule_format, OF cn] cn assms(2) by simp
  have ne: "?e name = Some (PL vs)" using plain_nameD(2) [OF assms(3), of u name] assms(4) by simp
  show ?thesis
    using ne e1(1) e1(2) ce by (simp add: pack_structs_def append_val_def)
qed

lemma run_unpack_structs:
  assumes "n < length arr" "arr ! n = PL vs"
  shows "\<exists>e'. exec_all cv arr (unpack_structs u n ty name) e = Some e' \<and>
    e' (''_'' @ name) = Some (PL (List.map (cv (ty @ ''_to_protcol'')) vs))"
proof -
  let ?l = "''_'' @ name" and ?w = "loop_var u name" and ?g = "cv (ty @ ''_to_protcol'')"
  let ?e = "e(?l \<mapsto> PL [])" and ?x = "E_call (ty @ ''_to_protcol'') (E_var (loop_var u name))"
  have "?e ?l = Some (PL [])" and "?l \<noteq> ?w" by (simp_all add: loop_var_def)
  moreover have "\<And>e v. e ?w = Some v \<Longrightarrow> exp_val cv arr e ?x = Some (?g v)" by simp
  ultimately obtain e1 where
    e1: "iterate (\<lambda>x e. exec_all cv arr [S_append ?l ?x] (e(?w \<mapsto> x))) vs ?e = Some e1"
      "e1 ?l = Some (PL (List.map ?g vs))"
    using map_loop [where e = ?e and l = ?l and w = ?w and ys = "[]" and cv = cv and arr = arr and ex = ?x
        and g = ?g and xs = vs, unfolded append_Nil] by blast
  then show ?thesis using assms by (simp add: unpack_structs_def)
qed

text \<open>a list of structures is packed twice.  For an argument of type \<open>T[]\<close> with \<open>T\<close> a
  structure, the code of the handler runs every element through \<open>T_to_protcol\<close> again, where
  \<open>protcol_to_T\<close> would undo what the caller did: the handler receives the elements packed
  twice.\<close>

theorem rpc_struct_list_twice_packed:
  fixes u :: uuids and fn :: string
  defines "c \<equiv> ''_argv_'' @ u3 u fn"
  assumes scope: "clean_names ds" "clean_names de" "check_type ty ds de = Inr T_Custom"
    and vals: "plain_name name" "e name = Some (PL vs)" "e c = Some (PL [])"
  shows "\<exists>pack unpack e1 sent e2.
    pack_arg u c fn ds de (ty @ ''[]'', name, p) = Inr (render_all 2 pack) \<and>
    unpack_arg u fn ds de 0 (ty @ ''[]'', name, p) = Inr (render_all 2 unpack) \<and>
    exec_all cv [] pack e = Some e1 \<and> e1 c = Some (PL sent) \<and>
    exec_all cv sent unpack e' = Some e2 \<and>
    e2 (''_'' @ name) = Some (PL (List.map (\<lambda>v. cv (ty @ ''_to_protcol'') (cv (ty @ ''_to_protcol'') v)) vs))"
proof -
  note texts = struct_texts [OF list_of_clean [OF scope(1,2)] scope(3)]
  let ?sent = "[PL (List.map (cv (ty @ ''_to_protcol'')) vs)]"
  from run_pack_structs [OF c_def [THEN meta_eq_to_obj_eq] vals(3,1,2), of cv "[]" u ty, unfolded append_Nil]
  obtain e1 where e1: "exec_all cv [] (pack_structs u c ty name) e = Some e1" "e1 c = Some (PL ?sent)" by blast
  have "0 < length ?sent" "?sent ! 0 = PL (List.map (cv (ty @ ''_to_protcol'')) vs)" by simp_all
  from run_unpack_structs [OF this, of cv u ty name e', unfolded list.map_comp comp_def]
  obtain e2 where e2: "exec_all cv ?sent (unpack_structs u 0 ty name) e' = Some e2"
    "e2 (''_'' @ name) = Some (PL (List.map (\<lambda>v. cv (ty @ ''_to_protcol'') (cv (ty @ ''_to_protcol'') v)) vs))"
    by blast
  show ?thesis using texts(1) [of u c fn name p] texts(2) [of u fn 0 name p] e1 e2 by blast
qed

theorem rpc_struct_list_twice_packed_witness:
  "\<exists>unpack sent e2. unpack_arg demo_uuids ''give'' [(''Item'', [])] [] 0 (''Item[]'', ''bag'', None) = Inr (render_all 2 unpack) \<and>
     exec_all demo_codec sent unpack Map.empty = Some e2 \<and> e2 ''_bag'' = Some (PL [PL [PL [PV ''sword'']]])"
proof -
  let ?e = "[''_argv_give'' \<mapsto> PL [], ''bag'' \<mapsto> PL [PV ''sword'']]"
  have "clean_names [(''Item'', [])]" "clean_names []" "check_type ''Item'' [(''Item'', [])] [] = Inr T_Custom"
    "plain_name ''bag''" "?e ''bag'' = Some (PL [PV ''sword''])" "?e (''_argv_'' @ u3 demo_uuids ''give'') = Some (PL [])"
    by (simp_all add: clean_names_def check_type_def base_types_def demo_u3)
  from rpc_struct_list_twice_packed [OF this, of None demo_codec Map.empty]
  show ?thesis by (simp add: demo_codec_def) blast
qed

end
