(* ===== verification/Rpc_Struct.thy ===== *)
theory Rpc_Struct
  imports Rpc_Codec
begin

section \<open>Interface compiler: what the generated code does with a structure\<close>

text \<open>
  \<open>genstructprotocol\<close> writes \<open>S_to_protcol\<close>, which packs an object into a dict, and
  \<open>genprotocolstruct\<close> writes \<open>protcol_to_S\<close>, which makes an object of the defaults and stores the
  items of the dict into it.  Their bodies are the statements of \<open>Rpc_Codec\<close>, with the attributes
  of the object and the entries of the dict as variables, under a test on one side and as the
  branches of a loop over the items on the other.
\<close>

definition attr_of :: "string \<Rightarrow> string" where
  "attr_of f = ''_struct.'' @ f"

definition slot_of :: "string \<Rightarrow> string" where
  "slot_of f = ''_protocol['' @ dq @ f @ dq @ '']''"

definition array_of :: "string \<Rightarrow> string" where
  "array_of f = ''_array_'' @ f"

lemma slots_differ [simp]:
  "attr_of f \<noteq> slot_of g" "slot_of g \<noteq> attr_of f" "attr_of f \<noteq> array_of g" "array_of g \<noteq> attr_of f"
  "slot_of f \<noteq> array_of g" "array_of g \<noteq> slot_of f"
  "attr_of f \<noteq> ''v_''" "''v_'' \<noteq> attr_of f" "slot_of f \<noteq> ''v_''" "''v_'' \<noteq> slot_of f"
  "array_of f \<noteq> ''v_''" "''v_'' \<noteq> array_of f"
  "attr_of f \<noteq> ''val''" "''val'' \<noteq> attr_of f" "attr_of f \<noteq> ''key''" "''key'' \<noteq> attr_of f"
  "(attr_of f = attr_of g) = (f = g)" "(slot_of f = slot_of g) = (f = g)"
  by (simp_all add: attr_of_def slot_of_def array_of_def dq_def)

subsection \<open>The programs\<close>

datatype fpack = Always "pstmt list" | If_true string "pstmt list"

fun render_pack :: "fpack \<Rightarrow> string" where
  "render_pack (Always ss) = render_all 1 ss"
| "render_pack (If_true x ss) = line (''    if '' @ x @ '':'') @ render_all 2 ss"

text \<open>An empty list is false.\<close>

fun exec_pack :: "(string \<Rightarrow> pval \<Rightarrow> pval) \<Rightarrow> fpack \<Rightarrow> penv \<Rightarrow> penv option" where
  "exec_pack cv (Always ss) e = exec_all cv [] ss e"
| "exec_pack cv (If_true x ss) e = (case e x of
     None \<Rightarrow> None | Some v \<Rightarrow> if v = PL [] then Some e else exec_all cv [] ss e)"

fun exec_packs :: "(string \<Rightarrow> pval \<Rightarrow> pval) \<Rightarrow> fpack list \<Rightarrow> penv \<Rightarrow> penv option" where
  "exec_packs cv [] e = Some e"
| "exec_packs cv (x # xs) e = Option.bind (exec_pack cv x e) (exec_packs cv xs)"

fun field_prog :: "shape \<Rightarrow> string \<Rightarrow> string \<Rightarrow> fpack" where
  "field_prog Plain ty f = Always [S_assign (slot_of f) (E_var (attr_of f))]"
| "field_prog Struct ty f = Always [S_assign (slot_of f) (E_call (ty @ ''_to_protcol'') (E_var (attr_of f)))]"
| "field_prog Many ty f = If_true (attr_of f)
     [S_new (array_of f), S_for ''v_'' (E_var (attr_of f)) [S_append (array_of f) (E_var ''v_'')],
      S_assign (slot_of f) (E_var (array_of f))]"

fun field_branch :: "shape \<Rightarrow> string \<Rightarrow> string \<Rightarrow> pstmt list" where
  "field_branch Plain ty f = [S_assign (attr_of f) (E_var ''val'')]"
| "field_branch Struct ty f = [S_assign (attr_of f) (E_call (''protcol_to_'' @ ty) (E_var ''val''))]"
| "field_branch Many ty f =
     [S_new (attr_of f), S_for ''v_'' (E_var ''val'') [S_append (attr_of f) (E_var ''v_'')]]"

definition branch_text :: "nat \<Rightarrow> string \<Rightarrow> pstmt list \<Rightarrow> string" where
  "branch_text n f ss =
     line ((if n = 0 then ''        if key == '' else ''        elif key == '') @ dq @ f @ dq @ '':'') @ render_all 3 ss"

text \<open>\<open>for (key, val) in _protocol.items()\<close>: the first branch whose name is the key runs.\<close>

fun exec_items :: "(string \<Rightarrow> pval \<Rightarrow> pval) \<Rightarrow> (string \<times> pstmt list) list \<Rightarrow> (string \<times> pval) list \<Rightarrow> penv \<Rightarrow> penv option" where
  "exec_items cv bs [] e = Some e"
| "exec_items cv bs ((k, v) # its) e = Option.bind
     (case map_of bs k of
        None \<Rightarrow> Some (e(''key'' \<mapsto> PV k, ''val'' \<mapsto> v))
      | Some ss \<Rightarrow> exec_all cv [] ss (e(''key'' \<mapsto> PV k, ''val'' \<mapsto> v)))
     (exec_items cv bs its)"

text \<open>The items of the dict, in the order the fields were stored.\<close>

fun items_of :: "string list \<Rightarrow> penv \<Rightarrow> (string \<times> pval) list" where
  "items_of [] e = []"
| "items_of (f # fs) e = (case e (slot_of f) of None \<Rightarrow> [] | Some v \<Rightarrow> [(f, v)]) @ items_of fs e"

subsection \<open>The generated text is the rendering of the programs\<close>

definition elem_of :: "rpc_arg \<Rightarrow> struct_elem" where
  "elem_of a = (case a of (ty, f, p) \<Rightarrow> (ty, Some f, p))"

lemma pack_field_text:
  assumes "shape_of ds de ty = Some sh"
  shows "pack_field u ds de (ty, Some f, p) = Inr (render_pack (field_prog sh ty f))"
  using assms
  by (cases rule: shape_cases)
     (auto simp: pack_field_def field_name_def render_all_def line_def space_of_def attr_of_def slot_of_def
        array_of_def numeral_2_eq_2 numeral_3_eq_3 gen_struct_container_protocol.simps)

lemma check_names_it: "check_type t ds de = Inr k \<Longrightarrow> k \<noteq> T_List \<Longrightarrow> named_type t ds de"
  by (auto simp: named_type_def check_type_def split: option.splits if_splits)

lemma shape_converts:
  assumes "shape_of ds de ty = Some sh"
  shows "\<exists>t. convert_type ty ds de = Inr t"
  using assms
proof (cases rule: shape_cases)
  case (Plain k)
  then show ?thesis using check_names_it convert_named by blast
next
  case Struct
  then show ?thesis using check_names_it convert_named by blast
next
  case (Many k)
  then have "named_type (child_type ty) ds de" using check_names_it by blast
  moreover have "ty = lists_of (child_type ty) (Suc 0)"
    using check_type_list [OF Many(2)] list_is_child [of ty] lists_of_Suc [of "child_type ty" 0] by simp
  ultimately show ?thesis using convert_complete by metis
qed

lemma unpack_field_text:
  assumes "shape_of ds de ty = Some sh"
  shows "unpack_field u ds de n (ty, Some f, p) = Inr (branch_text n f (field_branch sh ty f))"
proof -
  obtain t where "convert_type ty ds de = Inr t" using shape_converts [OF assms] by blast
  with assms show ?thesis
  by (cases rule: shape_cases)
     (auto simp: unpack_field_def field_name_def render_all_def line_def space_of_def attr_of_def branch_text_def
        numeral_3_eq_3 eval_nat_numeral Let_def gen_struct_protocol_container_def gen_struct_container_protocol.simps)
qed


subsection \<open>Packing an object\<close>

definition sends :: "(string \<Rightarrow> pval \<Rightarrow> pval) \<Rightarrow> shape \<Rightarrow> string \<Rightarrow> pval \<Rightarrow> pval option" where
  "sends cv sh ty v = (if sh = Many \<and> v = PL [] then None else Some (packed cv sh ty v))"

lemma run_field:
  assumes v: "e (attr_of f) = Some v" "is_many sh v" and new: "e (slot_of f) = None"
  shows "\<exists>e'. exec_pack cv (field_prog sh ty f) e = Some e' \<and> e' (slot_of f) = sends cv sh ty v \<and>
    (\<forall>g. g \<noteq> f \<longrightarrow> e' (slot_of g) = e (slot_of g)) \<and> (\<forall>g. e' (attr_of g) = e (attr_of g))"
proof (cases sh)
  case Plain
  with v show ?thesis by (simp add: sends_def packed_def)
next
  case Struct
  with v show ?thesis by (simp add: sends_def packed_def)
next
  case Many
  with v(2) obtain xs where xs: "v = PL xs" by (auto simp: is_many_def)
  show ?thesis
  proof (cases "xs = []")
    case True
    then show ?thesis using v(1) new by (simp add: Many xs sends_def)
  next
    case False
    let ?l = "array_of f" and ?w = "''v_''"
    let ?e = "e(?l \<mapsto> PL [])"
    have "?e ?l = Some (PL [])" and lw: "?l \<noteq> ?w" by simp_all
    from copy_loop [where e = ?e and l = ?l and w = ?w and ys = "[]" and cv = cv and arr = "[]" and xs = xs,
        OF this, unfolded append_Nil] obtain e1 where
      e1: "iterate (\<lambda>x e. exec_all cv [] [S_append ?l (E_var ?w)] (e(?w \<mapsto> x))) xs ?e = Some e1"
        "e1 ?l = Some (PL xs)" "\<forall>x. x \<noteq> ?l \<longrightarrow> x \<noteq> ?w \<longrightarrow> e1 x = ?e x" by blast
    let ?e' = "e1(slot_of f \<mapsto> PL xs)"
    have "exec_pack cv (field_prog sh ty f) e = Some ?e'"
      using v(1) False e1(1,2) by (simp add: Many xs)
    moreover have "?e' (slot_of f) = sends cv sh ty v" using False by (simp add: sends_def packed_def Many xs)
    moreover have "?e' (slot_of g) = e (slot_of g)" if "g \<noteq> f" for g using that e1(3) by simp
    moreover have "?e' (attr_of g) = e (attr_of g)" for g using e1(3) by simp
    ultimately show ?thesis by blast
  qed
qed

definition names_in :: "rpc_arg list \<Rightarrow> string list" where
  "names_in fs = List.map (\<lambda>(ty, f, p). f) fs"

lemma names_in_simps [simp]: "names_in [] = []" "names_in ((ty, f, p) # fs) = f # names_in fs"
  by (simp_all add: names_in_def)

definition pack_object :: "(string \<Rightarrow> shape) \<Rightarrow> rpc_arg list \<Rightarrow> fpack list" where
  "pack_object sh fs = List.map (\<lambda>(ty, f, p). field_prog (sh ty) ty f) fs"

definition branches_of :: "(string \<Rightarrow> shape) \<Rightarrow> rpc_arg list \<Rightarrow> (string \<times> pstmt list) list" where
  "branches_of sh fs = List.map (\<lambda>(ty, f, p). (f, field_branch (sh ty) ty f)) fs"

lemma run_fields:
  assumes "\<forall>(ty, f, p) \<in> set fs. \<exists>v. e (attr_of f) = Some v \<and> is_many (sh ty) v"
    and "distinct (names_in fs)" and "\<forall>f \<in> set (names_in fs). e (slot_of f) = None"
  shows "\<exists>e'. exec_packs cv (pack_object sh fs) e = Some e' \<and>
    (\<forall>(ty, f, p) \<in> set fs. e' (slot_of f) = sends cv (sh ty) ty (the (e (attr_of f)))) \<and>
    (\<forall>g. g \<notin> set (names_in fs) \<longrightarrow> e' (slot_of g) = e (slot_of g)) \<and> (\<forall>g. e' (attr_of g) = e (attr_of g))"
  using assms
proof (induction fs arbitrary: e)
  case Nil
  then show ?case by (simp add: pack_object_def)
next
  case (Cons a fs)
  obtain ty f p where a: "a = (ty, f, p)" by (rule prod_cases3)
  with Cons.prems obtain v where v: "e (attr_of f) = Some v" "is_many (sh ty) v" "e (slot_of f) = None" by auto
  from run_field [OF v, of cv ty] obtain e1 where
    e1: "exec_pack cv (field_prog (sh ty) ty f) e = Some e1" "e1 (slot_of f) = sends cv (sh ty) ty v"
      "\<forall>g. g \<noteq> f \<longrightarrow> e1 (slot_of g) = e (slot_of g)" "\<forall>g. e1 (attr_of g) = e (attr_of g)" by blast
  have vals: "\<forall>(ty, f, p) \<in> set fs. \<exists>v. e1 (attr_of f) = Some v \<and> is_many (sh ty) v"
    using Cons.prems(1) unfolding e1(4) [rule_format] by simp
  have d: "distinct (names_in fs)" and n: "f \<notin> set (names_in fs)" using Cons.prems(2) by (simp_all add: a)
  have new: "\<forall>g \<in> set (names_in fs). e1 (slot_of g) = None" using Cons.prems(3) e1(3) n by (auto simp: a)
  from Cons.IH [OF vals d new] obtain e2 where
    e2: "exec_packs cv (pack_object sh fs) e1 = Some e2"
      "\<forall>(ty, f, p) \<in> set fs. e2 (slot_of f) = sends cv (sh ty) ty (the (e1 (attr_of f)))"
      "\<forall>g. g \<notin> set (names_in fs) \<longrightarrow> e2 (slot_of g) = e1 (slot_of g)" "\<forall>g. e2 (attr_of g) = e1 (attr_of g)" by blast
  have "exec_packs cv (pack_object sh (a # fs)) e = Some e2"
    using e1(1) e2(1) by (simp add: pack_object_def a)
  moreover have "\<forall>(ty, f, p) \<in> set (a # fs). e2 (slot_of f) = sends cv (sh ty) ty (the (e (attr_of f)))"
    using e2(2) e2(3) n e1(2,4) v(1) by (auto simp: a)
  moreover have "\<forall>g. g \<notin> set (names_in (a # fs)) \<longrightarrow> e2 (slot_of g) = e (slot_of g)"
    using e2(3) e1(3) by (simp add: a)
  ultimately show ?case using e2(4) e1(4) by auto
qed


subsection \<open>Unpacking the dict\<close>

lemma run_branch:
  assumes "is_many sh v"
  shows "\<exists>e'. exec_all cv [] (field_branch sh ty f) (e(''key'' \<mapsto> PV k, ''val'' \<mapsto> v)) = Some e' \<and>
    e' (attr_of f) = Some (unpacked cv sh ty v) \<and> (\<forall>g. g \<noteq> f \<longrightarrow> e' (attr_of g) = e (attr_of g))"
proof (cases sh)
  case Plain
  then show ?thesis by (simp add: unpacked_def)
next
  case Struct
  then show ?thesis by (simp add: unpacked_def)
next
  case Many
  with assms obtain xs where xs: "v = PL xs" by (auto simp: is_many_def)
  let ?l = "attr_of f" and ?w = "''v_''"
  let ?e = "(e(''key'' \<mapsto> PV k, ''val'' \<mapsto> v))(?l \<mapsto> PL [])"
  have "?e ?l = Some (PL [])" and lw: "?l \<noteq> ?w" by simp_all
  from copy_loop [where e = ?e and l = ?l and w = ?w and ys = "[]" and cv = cv and arr = "[]" and xs = xs,
      OF this, unfolded append_Nil] obtain e1 where
    e1: "iterate (\<lambda>x e. exec_all cv [] [S_append ?l (E_var ?w)] (e(?w \<mapsto> x))) xs ?e = Some e1"
      "e1 ?l = Some (PL xs)" "\<forall>x. x \<noteq> ?l \<longrightarrow> x \<noteq> ?w \<longrightarrow> e1 x = ?e x" by blast
  have "exec_all cv [] (field_branch sh ty f) (e(''key'' \<mapsto> PV k, ''val'' \<mapsto> v)) = Some e1"
    using e1(1) by (simp add: Many xs)
  moreover have "e1 (attr_of g) = e (attr_of g)" if "g \<noteq> f" for g using that e1(3) by simp
  ultimately show ?thesis using e1(2) by (intro exI [of _ e1]) (simp add: unpacked_def Many xs)
qed

lemma run_items:
  assumes "\<forall>(ty, f, p) \<in> set fs. map_of bs f = Some (field_branch (sh ty) ty f) \<and>
      (\<forall>v. pe (slot_of f) = Some v \<longrightarrow> is_many (sh ty) v)"
    and "distinct (names_in fs)"
  shows "\<exists>e'. exec_items cv bs (items_of (names_in fs) pe) e = Some e' \<and>
    (\<forall>(ty, f, p) \<in> set fs. e' (attr_of f) = (case pe (slot_of f) of
       None \<Rightarrow> e (attr_of f) | Some v \<Rightarrow> Some (unpacked cv (sh ty) ty v))) \<and>
    (\<forall>g. g \<notin> set (names_in fs) \<longrightarrow> e' (attr_of g) = e (attr_of g))"
  using assms
proof (induction fs arbitrary: e)
  case Nil
  then show ?case by simp
next
  case (Cons a fs)
  obtain ty f p where a: "a = (ty, f, p)" by (rule prod_cases3)
  have br: "map_of bs f = Some (field_branch (sh ty) ty f)" "\<And>v. pe (slot_of f) = Some v \<Longrightarrow> is_many (sh ty) v"
    using Cons.prems(1) by (auto simp: a)
  have d: "distinct (names_in fs)" and n: "f \<notin> set (names_in fs)" using Cons.prems(2) by (simp_all add: a)
  have prem: "\<forall>(ty, f, p) \<in> set fs. map_of bs f = Some (field_branch (sh ty) ty f) \<and>
      (\<forall>v. pe (slot_of f) = Some v \<longrightarrow> is_many (sh ty) v)" using Cons.prems(1) by simp
  have other: "g \<noteq> f" if "(ty', g, p') \<in> set fs" for ty' g p'
    using that n by (force simp: names_in_def)
  have "\<exists>e1. (case pe (slot_of f) of None \<Rightarrow> Some e
        | Some v \<Rightarrow> exec_all cv [] (field_branch (sh ty) ty f) (e(''key'' \<mapsto> PV f, ''val'' \<mapsto> v))) = Some e1 \<and>
      e1 (attr_of f) = (case pe (slot_of f) of None \<Rightarrow> e (attr_of f) | Some v \<Rightarrow> Some (unpacked cv (sh ty) ty v)) \<and>
      (\<forall>g. g \<noteq> f \<longrightarrow> e1 (attr_of g) = e (attr_of g))"
  proof (cases "pe (slot_of f)")
    case None
    then show ?thesis by simp
  next
    case (Some v)
    from run_branch [OF br(2) [OF Some], of cv ty f e f] Some show ?thesis by simp
  qed
  then obtain e1 where e1: "(case pe (slot_of f) of None \<Rightarrow> Some e
        | Some v \<Rightarrow> exec_all cv [] (field_branch (sh ty) ty f) (e(''key'' \<mapsto> PV f, ''val'' \<mapsto> v))) = Some e1"
      "e1 (attr_of f) = (case pe (slot_of f) of None \<Rightarrow> e (attr_of f) | Some v \<Rightarrow> Some (unpacked cv (sh ty) ty v))"
      "\<forall>g. g \<noteq> f \<longrightarrow> e1 (attr_of g) = e (attr_of g)" by blast
  from Cons.IH [OF prem d, of e1] obtain e2 where
    e2: "exec_items cv bs (items_of (names_in fs) pe) e1 = Some e2"
      "\<forall>(ty, f, p) \<in> set fs. e2 (attr_of f) = (case pe (slot_of f) of
         None \<Rightarrow> e1 (attr_of f) | Some v \<Rightarrow> Some (unpacked cv (sh ty) ty v))"
      "\<forall>g. g \<notin> set (names_in fs) \<longrightarrow> e2 (attr_of g) = e1 (attr_of g)" by blast
  have "exec_items cv bs (items_of (names_in (a # fs)) pe) e = Some e2"
    using e1(1) e2(1) br(1) by (cases "pe (slot_of f)") (simp_all add: a)
  moreover have "\<forall>(ty, f, p) \<in> set (a # fs). e2 (attr_of f) = (case pe (slot_of f) of
       None \<Rightarrow> e (attr_of f) | Some v \<Rightarrow> Some (unpacked cv (sh ty) ty v))"
  proof (clarify)
    fix ty' g p' assume "(ty', g, p') \<in> set (a # fs)"
    then consider "ty' = ty" "g = f" | "(ty', g, p') \<in> set fs" by (auto simp: a)
    then show "e2 (attr_of g) = (case pe (slot_of g) of
       None \<Rightarrow> e (attr_of g) | Some v \<Rightarrow> Some (unpacked cv (sh ty') ty' v))"
    proof cases
      case 1
      show ?thesis unfolding 1 using e2(3) n e1(2) by simp
    next
      case 2
      from e2(2) 2 have "e2 (attr_of g) = (case pe (slot_of g) of
         None \<Rightarrow> e1 (attr_of g) | Some v \<Rightarrow> Some (unpacked cv (sh ty') ty' v))" by fast
      then show ?thesis unfolding e1(3) [rule_format, OF other [OF 2]] .
    qed
  qed
  moreover have "\<forall>g. g \<notin> set (names_in (a # fs)) \<longrightarrow> e2 (attr_of g) = e (attr_of g)"
    using e2(3) e1(3) by (simp add: a)
  ultimately show ?case by blast
qed


subsection \<open>The object crosses the connection\<close>

lemma pack_fields_text:
  assumes "\<forall>(ty, f, p) \<in> set fs. shape_of ds de ty = Some (sh ty)"
  shows "map_res (pack_field u ds de) (List.map elem_of fs) = Inr (List.map render_pack (pack_object sh fs))"
  using assms
proof (induction fs)
  case Nil
  then show ?case by (simp add: pack_object_def)
next
  case (Cons a fs)
  obtain ty f p where a: "a = (ty, f, p)" by (rule prod_cases3)
  then have "pack_field u ds de (ty, Some f, p) = Inr (render_pack (field_prog (sh ty) ty f))"
    using Cons.prems by (intro pack_field_text) auto
  with Cons show ?case by (simp add: a elem_of_def pack_object_def)
qed

fun branch_texts :: "nat \<Rightarrow> (string \<times> pstmt list) list \<Rightarrow> string" where
  "branch_texts n [] = []"
| "branch_texts n ((f, ss) # bs) = branch_text n f ss @ branch_texts (Suc n) bs"

lemma unpack_fields_text:
  assumes "\<forall>(ty, f, p) \<in> set fs. shape_of ds de ty = Some (sh ty)"
  shows "\<exists>ts. count_res (unpack_field u ds de) n (List.map elem_of fs) = Inr ts \<and>
    concat ts = branch_texts n (branches_of sh fs)"
  using assms
proof (induction fs arbitrary: n)
  case Nil
  then show ?case by (simp add: branches_of_def)
next
  case (Cons a fs)
  obtain ty f p where a: "a = (ty, f, p)" by (rule prod_cases3)
  then have "unpack_field u ds de n (ty, Some f, p) = Inr (branch_text n f (field_branch (sh ty) ty f))"
    using Cons.prems by (intro unpack_field_text) auto
  moreover obtain ts where "count_res (unpack_field u ds de) (Suc n) (List.map elem_of fs) = Inr ts"
    "concat ts = branch_texts (Suc n) (branches_of sh fs)" using Cons.IH [of "Suc n"] Cons.prems by auto
  moreover have "elem_of a = (ty, Some f, p)" "branches_of sh (a # fs) = (f, field_branch (sh ty) ty f) # branches_of sh fs"
    by (simp_all add: a elem_of_def branches_of_def)
  ultimately show ?case by simp
qed

lemma branch_found:
  assumes "distinct (names_in fs)" and "(ty, f, p) \<in> set fs"
  shows "map_of (branches_of sh fs) f = Some (field_branch (sh ty) ty f)"
proof (rule map_of_is_SomeI)
  have "List.map fst (branches_of sh fs) = names_in fs" by (auto simp: branches_of_def names_in_def)
  with assms(1) show "distinct (List.map fst (branches_of sh fs))" by simp
  show "(f, field_branch (sh ty) ty f) \<in> set (branches_of sh fs)"
    unfolding branches_of_def set_map by (rule image_eqI [OF _ assms(2)]) simp
qed

lemma object_run:
  assumes vals: "\<forall>(ty, f, p) \<in> set fs. \<exists>v. e (attr_of f) = Some v \<and> is_many (sh ty) v"
    and names: "distinct (names_in fs)"
    and empty: "\<forall>f \<in> set (names_in fs). e (slot_of f) = None"
    and defaults: "\<forall>(ty, f, p) \<in> set fs. sh ty = Many \<longrightarrow> d (attr_of f) = Some (PL [])"
    and codec: "\<forall>(ty, f, p) \<in> set fs. sh ty = Struct \<longrightarrow>
      cv (''protcol_to_'' @ ty) (cv (ty @ ''_to_protcol'') (the (e (attr_of f)))) = the (e (attr_of f))"
  shows "\<exists>e1 e2. exec_packs cv (pack_object sh fs) e = Some e1 \<and>
    exec_items cv (branches_of sh fs) (items_of (names_in fs) e1) d = Some e2 \<and>
    (\<forall>(ty, f, p) \<in> set fs. e2 (attr_of f) = e (attr_of f))"
proof -
  from run_fields [OF vals names empty, of cv] obtain e1 where
    e1: "exec_packs cv (pack_object sh fs) e = Some e1"
      "\<forall>(ty, f, p) \<in> set fs. e1 (slot_of f) = sends cv (sh ty) ty (the (e (attr_of f)))" by blast
  have br: "\<forall>(ty, f, p) \<in> set fs. map_of (branches_of sh fs) f = Some (field_branch (sh ty) ty f) \<and>
      (\<forall>v. e1 (slot_of f) = Some v \<longrightarrow> is_many (sh ty) v)"
    using branch_found [OF names] e1(2) vals
    by (fastforce simp: sends_def packed_def is_many_def split: if_splits)
  from run_items [OF br names, of cv d] obtain e2 where
    e2: "exec_items cv (branches_of sh fs) (items_of (names_in fs) e1) d = Some e2"
      "\<forall>(ty, f, p) \<in> set fs. e2 (attr_of f) = (case e1 (slot_of f) of
         None \<Rightarrow> d (attr_of f) | Some v \<Rightarrow> Some (unpacked cv (sh ty) ty v))" by blast
  have "e2 (attr_of f) = e (attr_of f)" if m: "(ty, f, p) \<in> set fs" for ty f p
  proof -
    from m vals obtain v where v: "e (attr_of f) = Some v" by fast
    from m e1(2) v have s: "e1 (slot_of f) = sends cv (sh ty) ty v" by fastforce
    from m e2(2) have r: "e2 (attr_of f) = (case e1 (slot_of f) of
         None \<Rightarrow> d (attr_of f) | Some v \<Rightarrow> Some (unpacked cv (sh ty) ty v))" by fast
    from m defaults have df: "sh ty = Many \<longrightarrow> d (attr_of f) = Some (PL [])" by fast
    from m codec v have cd: "sh ty = Struct \<longrightarrow> cv (''protcol_to_'' @ ty) (cv (ty @ ''_to_protcol'') v) = v" by fastforce
    show ?thesis
      unfolding r s v using df cd by (cases "sh ty = Many \<and> v = PL []") (auto simp: sends_def packed_def unpacked_def)
  qed
  with e1(1) e2(1) show ?thesis by blast
qed

text \<open>C11: the generated codec of a structure whose fields have distinct identifiers as names and are of basic types,
  enumerations, structures, or lists of basic values or enumerations (not lists of structures or of
  lists): the body of \<open>S_to_protcol\<close> is the packing program and the branches of \<open>protcol_to_S\<close> are the
  unpacking program; packing an object and unpacking the dict into a new object gives every field its
  value back, if the codec of a nested structure gives back the value of the field (which it does not
  for \<open>None\<close>, the default) and an empty list, which is not sent, is the default of its field.\<close>

theorem struct_codec_roundtrip:
  assumes types: "\<forall>(ty, f, p) \<in> set fs. shape_of ds de ty = Some (sh ty)"
    and identifiers: "list_all python_identifier (names_in fs)"
    and names: "distinct (names_in fs)"
    and vals: "\<forall>(ty, f, p) \<in> set fs. \<exists>v. e (attr_of f) = Some v \<and> is_many (sh ty) v"
    and empty: "\<forall>f \<in> set (names_in fs). e (slot_of f) = None"
    and defaults: "\<forall>(ty, f, p) \<in> set fs. sh ty = Many \<longrightarrow> d (attr_of f) = Some (PL [])"
    and codec: "\<forall>(ty, f, p) \<in> set fs. sh ty = Struct \<longrightarrow>
      cv (''protcol_to_'' @ ty) (cv (ty @ ''_to_protcol'') (the (e (attr_of f)))) = the (e (attr_of f))"
  shows "genstructprotocol u name (List.map elem_of fs) ds de = Inr (line (''def '' @ name @ ''_to_protcol(_struct:'' @ name @ ''):'') @
      line ''    if _struct is None:'' @ line ''        return None'' @ line ''    _protocol = {}'' @
      concat (List.map render_pack (pack_object sh fs)) @ ''    return _protocol'' @ eol @ eol) \<and>
    genprotocolstruct u name (List.map elem_of fs) ds de = Inr (line (''def protcol_to_'' @ name @ ''(_protocol:dict):'') @
      line (''    _struct = '' @ name @ ''()'') @ line ''    for (key, val) in _protocol.items():'' @
      branch_texts 0 (branches_of sh fs) @ ''    return _struct'' @ eol @ eol) \<and>
    (\<exists>e1 e2. exec_packs cv (pack_object sh fs) e = Some e1 \<and>
      exec_items cv (branches_of sh fs) (items_of (names_in fs) e1) d = Some e2 \<and>
      (\<forall>(ty, f, p) \<in> set fs. e2 (attr_of f) = e (attr_of f)))"
  using pack_fields_text [OF types, of u] unpack_fields_text [OF types, of u 0]
    object_run [OF vals names empty defaults codec]
  by (auto simp: genstructprotocol_def genprotocolstruct_def)

text \<open>A structure with a number, a nested structure, a list that is empty and one that is not.\<close>

definition demo_fields :: "rpc_arg list" where
  "demo_fields = [(''int32'', ''hp'', None), (''Item'', ''arm'', None), (''string[]'', ''tags'', None), (''string[]'', ''log'', None)]"

definition demo_object :: penv where
  "demo_object = [attr_of ''hp'' \<mapsto> PV ''9'', attr_of ''arm'' \<mapsto> PV ''sword'', attr_of ''tags'' \<mapsto> PL [PV ''a''], attr_of ''log'' \<mapsto> PL []]"

definition demo_default :: penv where
  "demo_default = [attr_of ''hp'' \<mapsto> PV ''0'', attr_of ''arm'' \<mapsto> PV ''None'', attr_of ''tags'' \<mapsto> PL [], attr_of ''log'' \<mapsto> PL []]"

theorem struct_codec_roundtrip_witness:
  "\<exists>e1 e2. exec_packs demo_codec (pack_object demo_shape demo_fields) demo_object = Some e1 \<and>
     exec_items demo_codec (branches_of demo_shape demo_fields) (items_of (names_in demo_fields) e1) demo_default = Some e2 \<and>
     e2 (attr_of ''hp'') = Some (PV ''9'') \<and> e2 (attr_of ''arm'') = Some (PV ''sword'') \<and>
     e2 (attr_of ''tags'') = Some (PL [PV ''a'']) \<and> e2 (attr_of ''log'') = Some (PL [])"
proof -
  have types: "\<forall>(ty, f, p) \<in> set demo_fields. shape_of [(''Item'', [])] [] ty = Some (demo_shape ty)" by code_simp
  have identifiers: "list_all python_identifier (names_in demo_fields)" by code_simp
  have names: "distinct (names_in demo_fields)" by code_simp
  have vals: "\<forall>(ty, f, p) \<in> set demo_fields. \<exists>v. demo_object (attr_of f) = Some v \<and> is_many (demo_shape ty) v"
    by (simp add: demo_fields_def demo_object_def demo_shape_def is_many_def)
  have empty: "\<forall>f \<in> set (names_in demo_fields). demo_object (slot_of f) = None"
    by (simp add: demo_fields_def demo_object_def)
  have defaults: "\<forall>(ty, f, p) \<in> set demo_fields. demo_shape ty = Many \<longrightarrow> demo_default (attr_of f) = Some (PL [])"
    by (simp add: demo_fields_def demo_default_def demo_shape_def)
  have codec: "\<forall>(ty, f, p) \<in> set demo_fields. demo_shape ty = Struct \<longrightarrow>
      demo_codec (''protcol_to_'' @ ty) (demo_codec (ty @ ''_to_protcol'') (the (demo_object (attr_of f)))) = the (demo_object (attr_of f))"
    by (simp add: demo_fields_def demo_object_def demo_shape_def demo_codec_def)
  from struct_codec_roundtrip [OF types identifiers names vals empty defaults codec, THEN conjunct2, THEN conjunct2]
  obtain e1 e2 where r: "exec_packs demo_codec (pack_object demo_shape demo_fields) demo_object = Some e1"
    "exec_items demo_codec (branches_of demo_shape demo_fields) (items_of (names_in demo_fields) e1) demo_default = Some e2"
    "\<forall>(ty, f, p) \<in> set demo_fields. e2 (attr_of f) = demo_object (attr_of f)" by blast
  from r(3) have "e2 (attr_of ''hp'') = Some (PV ''9'')" "e2 (attr_of ''arm'') = Some (PV ''sword'')"
    "e2 (attr_of ''tags'') = Some (PL [PV ''a''])" "e2 (attr_of ''log'') = Some (PL [])"
    by (simp_all add: demo_fields_def demo_object_def)
  with r(1,2) show ?thesis by blast
qed

end
