(* ===== verification/Frames.thy ===== *)
theory Frames
  imports Prelude "HOL-Library.Word"
begin

section \<open>Frames of the physics editor's protocol\<close>

text \<open>
  \<open>PhysicsProtocol.data_received\<close> of \<open>physics_editor_server.py\<close> and the \<open>struct.pack\<close> of the four
  packing functions.  A frame is the length of its body in four bytes, little end first, then
  the body.  A connection keeps the bytes it has not used in a buffer; every call of
  \<open>data_received\<close> appends what arrived and hands out the bodies that are complete.
\<close>

type_synonym byte = "8 word"

subsection \<open>Four bytes, little end first\<close>

fun le_val :: "byte list \<Rightarrow> nat" where
  "le_val [] = 0"
| "le_val (b # bs) = unat b + 256 * le_val bs"

definition unpack_u32 :: "byte list \<Rightarrow> nat" where
  "unpack_u32 bs = le_val (take 4 bs)"

fun le_bytes :: "nat \<Rightarrow> nat \<Rightarrow> byte list" where
  "le_bytes 0 n = []"
| "le_bytes (Suc k) n = word_of_nat n # le_bytes k (n div 256)"

text \<open>\<open>struct.pack("<I", n)\<close> raises on a number that does not fit.\<close>

definition pack_u32 :: "nat \<Rightarrow> pyexn + byte list" where
  "pack_u32 n = (if n < 2 ^ 32 then Inr (le_bytes 4 n) else Inl (Exception ''struct.error''))"

lemma length_le_bytes [simp]: "length (le_bytes k n) = k"
  by (induction k arbitrary: n) simp_all

lemma le_bytes_4:
  "le_bytes 4 n = [word_of_nat n, word_of_nat (n div 256), word_of_nat (n div 256 div 256),
     word_of_nat (n div 256 div 256 div 256)]"
proof -
  have "(4 :: nat) = Suc (Suc (Suc (Suc 0)))" by simp
  then show ?thesis by (simp only: le_bytes.simps)
qed

lemma le_val_le_bytes: "le_val (le_bytes k n) = n mod 256 ^ k"
proof (induction k arbitrary: n)
  case 0
  then show ?case by simp
next
  case (Suc k)
  have "unat (word_of_nat n :: byte) = n mod 256"
    by (simp add: unat_of_nat)
  then show ?case
    by (simp add: Suc.IH mod_mult2_eq)
qed

lemma le_val_bound: "le_val bs < 256 ^ length bs"
proof (induction bs)
  case Nil
  then show ?case by simp
next
  case (Cons b bs)
  have "unat b < 256" using unsigned_less [of b] by simp
  with Cons show ?case by simp
qed

lemma le_bytes_le_val: "le_bytes (length bs) (le_val bs) = bs"
proof (induction bs)
  case Nil
  then show ?case by simp
next
  case (Cons b bs)
  have b: "unat b < 256" using unsigned_less [of b] by simp
  then have "(unat b + 256 * le_val bs) div 256 = le_val bs" by simp
  moreover have z: "(256 :: byte) = 0" by (simp add: word_eq_iff_unsigned)
  have "(word_of_nat (unat b + 256 * le_val bs) :: byte) = b" by (simp, subst z, simp)
  ultimately show ?case by (simp add: Cons.IH)
qed

lemma unpack_pack_u32: "pack_u32 n = Inr h \<Longrightarrow> length h = 4 \<and> unpack_u32 (h @ rest) = n"
  by (auto simp: pack_u32_def unpack_u32_def le_val_le_bytes split: if_splits)

lemma pack_unpack_u32: "4 \<le> length bs \<Longrightarrow> pack_u32 (unpack_u32 bs) = Inr (take 4 bs)"
  using le_val_bound [of "take 4 bs"] le_bytes_le_val [of "take 4 bs"]
  by (simp add: pack_u32_def unpack_u32_def min_absorb2)

subsection \<open>Frames\<close>

definition frame :: "byte list \<Rightarrow> pyexn + byte list" where
  "frame body = bindr (pack_u32 (length body)) (\<lambda>h. Inr (h @ body))"

text \<open>The loop of \<open>data_received\<close>: what stays in the buffer, and the bodies taken out of it.\<close>

function drain :: "byte list \<Rightarrow> byte list \<times> byte list list" where
  "drain buf =
     (if length buf < 4 then (buf, [])
      else let body_len = unpack_u32 buf; total_needed = 4 + body_len
           in if length buf < total_needed then (buf, [])
              else let body = take body_len (drop 4 buf);
                       (rest, bodies) = drain (drop total_needed buf)
                   in (rest, body # bodies))"
  by pat_completeness auto
termination
  by (relation "measure length") auto

declare drain.simps [simp del]

definition data_received :: "byte list \<Rightarrow> byte list \<Rightarrow> byte list \<times> byte list list" where
  "data_received buffer data = drain (buffer @ data)"

lemma apsnd_pair: "apsnd f p = (fst p, f (snd p))"
  by (cases p) simp

text \<open>A buffer without a complete frame, and the step over one.\<close>

definition incomplete :: "byte list \<Rightarrow> bool" where
  "incomplete buf = (length buf < 4 \<or> length buf < 4 + unpack_u32 buf)"

lemma drain_incomplete: "incomplete buf \<Longrightarrow> drain buf = (buf, [])"
  by (subst drain.simps) (auto simp: incomplete_def Let_def)

lemma drain_step:
  "\<not> incomplete buf \<Longrightarrow>
   drain buf = apsnd (Cons (take (unpack_u32 buf) (drop 4 buf))) (drain (drop (4 + unpack_u32 buf) buf))"
  by (subst drain.simps) (simp add: incomplete_def Let_def not_less split_beta apsnd_pair)

lemma complete_append:
  assumes "\<not> incomplete buf"
  shows "\<not> incomplete (buf @ d)" and "unpack_u32 (buf @ d) = unpack_u32 buf"
  using assms by (auto simp: incomplete_def unpack_u32_def)

text \<open>
  Draining in two parts: what the first part leaves in the buffer and the new bytes give the
  rest of the bodies.
\<close>

lemma drain_append:
  "drain (buf @ d) = (case drain buf of (rest, bodies) \<Rightarrow> apsnd ((@) bodies) (drain (rest @ d)))"
proof (induction buf rule: length_induct)
  case (1 buf)
  show ?case
  proof (cases "incomplete buf")
    case True
    then show ?thesis by (simp add: drain_incomplete apsnd_pair)
  next
    case False
    let ?n = "4 + unpack_u32 buf"
    have le: "?n \<le> length buf" using False by (auto simp: incomplete_def)
    then have "length (drop ?n buf) < length buf" by simp
    from 1 [rule_format, OF this] complete_append [OF False, of d] le False
    show ?thesis
      by (simp add: drain_step split_beta apsnd_pair)
  qed
qed

lemma drain_rest_incomplete: "incomplete (fst (drain buf))"
proof (induction buf rule: length_induct)
  case (1 buf)
  show ?case
  proof (cases "incomplete buf")
    case True
    then show ?thesis by (simp add: drain_incomplete)
  next
    case False
    then have "length (drop (4 + unpack_u32 buf) buf) < length buf"
      by (auto simp: incomplete_def)
    with 1 False show ?thesis by (simp add: drain_step)
  qed
qed

lemma drain_frame:
  assumes "frame body = Inr f"
  shows "drain (f @ rest) = apsnd (Cons body) (drain rest)"
proof -
  from assms obtain h where h: "pack_u32 (length body) = Inr h" and f: "f = h @ body"
    by (auto simp: frame_def bindr_Inr)
  from unpack_pack_u32 [OF h] have h4: "length h = 4" and n: "\<And>r. unpack_u32 (h @ r) = length body"
    using unpack_pack_u32 [OF h] by auto
  have "\<not> incomplete (f @ rest)" by (simp add: incomplete_def f h4 n)
  then show ?thesis by (simp add: drain_step f h4 n)
qed

text \<open>The frames of a list of bodies, one after the other.\<close>

fun frames :: "byte list list \<Rightarrow> pyexn + byte list" where
  "frames [] = Inr []"
| "frames (b # bs) = bindr (frame b) (\<lambda>f. bindr (frames bs) (\<lambda>fs. Inr (f @ fs)))"

lemma drain_frames: "frames bodies = Inr fs \<Longrightarrow> drain (fs @ rest) = apsnd ((@) bodies) (drain rest)"
proof (induction bodies arbitrary: fs)
  case Nil
  then show ?case by (simp add: apsnd_pair split_beta)
next
  case (Cons b bs)
  then obtain f fs' where f: "frame b = Inr f" and fs': "frames bs = Inr fs'" and fs: "fs = f @ fs'"
    by (auto simp: bindr_Inr)
  show ?case
    using Cons.IH [OF fs'] drain_frame [OF f, of "fs' @ rest"]
    by (simp add: fs apsnd_pair split_beta)
qed

text \<open>Nothing is lost: the frames of the bodies and the rest are the bytes that arrived.\<close>

lemma drain_lossless: "drain buf = (rest, bodies) \<Longrightarrow> \<exists>fs. frames bodies = Inr fs \<and> buf = fs @ rest"
proof (induction buf arbitrary: bodies rule: length_induct)
  case (1 buf)
  show ?case
  proof (cases "incomplete buf")
    case True
    with 1 show ?thesis by (simp add: drain_incomplete)
  next
    case False
    let ?n = "4 + unpack_u32 buf"
    have le: "?n \<le> length buf" using False by (auto simp: incomplete_def)
    then have lt: "length (drop ?n buf) < length buf" by simp
    obtain bs where bs: "drain (drop ?n buf) = (rest, bs)"
      and bodies: "bodies = take (unpack_u32 buf) (drop 4 buf) # bs"
      using 1(2) drain_step [OF False] by (cases "drain (drop ?n buf)") auto
    obtain fs where fs: "frames bs = Inr fs" and d: "drop ?n buf = fs @ rest"
      using 1(1) lt bs by blast
    have "frame (take (unpack_u32 buf) (drop 4 buf)) = Inr (take ?n buf)"
      using le pack_unpack_u32 [of buf] by (simp add: frame_def min_absorb2 take_add)
    then show ?thesis
      using fs d append_take_drop_id [of ?n buf] by (simp add: bodies)
  qed
qed

subsection \<open>A stream in pieces\<close>

text \<open>What a connection has handed out, and keeps, after a list of pieces.\<close>

fun receive :: "byte list list \<Rightarrow> byte list \<Rightarrow> byte list \<times> byte list list" where
  "receive [] buffer = (buffer, [])"
| "receive (d # ds) buffer =
     (case data_received buffer d of (rest, bodies) \<Rightarrow> apsnd ((@) bodies) (receive ds rest))"

lemma receive_concat:
  "incomplete buffer \<Longrightarrow> receive ds buffer = drain (buffer @ concat ds)"
proof (induction ds arbitrary: buffer)
  case Nil
  then show ?case by (simp add: drain_incomplete)
next
  case (Cons d ds)
  have "incomplete (fst (drain (buffer @ d)))" by (rule drain_rest_incomplete)
  then show ?case
    using Cons.IH [of "fst (drain (buffer @ d))"] drain_append [of "buffer @ d" "concat ds"]
    by (simp add: data_received_def split_beta)
qed

lemma incomplete_Nil [simp]: "incomplete []"
  by (simp add: incomplete_def)

end
