(* ===== verification/Paths.thy ===== *)
theory Paths
  imports Main
begin

section \<open>Paths\<close>

text \<open>
  \<open>os.path.dirname\<close> and \<open>os.path.join\<close> on POSIX, over the characters of a text or of bytes.
\<close>

definition dirname_of :: "'c \<Rightarrow> 'c list \<Rightarrow> 'c list" where
  "dirname_of sep p =
     (let head = rev (dropWhile (\<lambda>c. c \<noteq> sep) (rev p))
      in if head = replicate (length head) sep then head else rev (dropWhile (\<lambda>c. c = sep) (rev head)))"

definition join_of :: "'c \<Rightarrow> 'c list \<Rightarrow> 'c list \<Rightarrow> 'c list" where
  "join_of sep a b =
     (if take 1 b = [sep] then b
      else if a = [] \<or> List.last a = sep then a @ b else a @ [sep] @ b)"

text \<open>A joined path ends in the name of the file.\<close>

lemma join_of_suffix: "\<exists>d. join_of sep a b = d @ b"
  by (cases "take 1 b = [sep]") (auto simp: join_of_def)

end
