(* ===== verification/Py_Values.thy ===== *)
theory Py_Values
  imports Frames Decimal Paths
begin

section \<open>Python values, numbers and paths\<close>

text \<open>
  The values \<open>msgpack.loads\<close> and \<open>json.load\<close> return and the operations the physics scripts make on
  them, each with the exception it raises on a value of another type.  A float is opaque (its
  text); the arithmetic of floats, the text of values and of exceptions, the packing library and
  the file system are the fields of \<open>host\<close>, as are the calls into the native physics engine,
  whose own state is the type variable.
\<close>

type_synonym flt = string

datatype pyv =
    VNone
  | VBool bool
  | VInt int
  | VFloat flt
  | VStr string
  | VBytes "byte list"
  | VList "pyv list"
  | VDict "(pyv \<times> pyv) list"

type_synonym vec3 = "flt \<times> flt \<times> flt"
type_synonym quat = "flt \<times> flt \<times> flt \<times> flt"

record 'n host =
  fl_mul :: "flt \<Rightarrow> flt \<Rightarrow> flt"
  fl_add :: "flt \<Rightarrow> flt \<Rightarrow> flt"
  fl_sub :: "flt \<Rightarrow> flt \<Rightarrow> flt"
  fl_radians :: "flt \<Rightarrow> flt"
  fl_cos :: "flt \<Rightarrow> pyexn + flt"
  fl_sin :: "flt \<Rightarrow> pyexn + flt"
  fl_of_int :: "int \<Rightarrow> pyexn + flt"
  fl_of_text :: "string \<Rightarrow> pyexn + flt"
  fl_of_bytes :: "byte list \<Rightarrow> pyexn + flt"
  fl_zero :: "flt \<Rightarrow> bool"
  fl_is_int :: "flt \<Rightarrow> int \<Rightarrow> bool"
  h_text :: "pyv \<Rightarrow> string"
  h_exn_text :: "pyexn \<Rightarrow> string"
  h_dumps :: "pyv \<Rightarrow> pyexn + byte list"
  h_loads :: "byte list \<Rightarrow> pyexn + pyv"
  h_manifest :: "pyv \<Rightarrow> pyexn + pyv"
  h_is_file :: "pyv \<Rightarrow> bool"
  n_new_world :: "('n, nat) py"
  n_create_scene :: "nat \<Rightarrow> vec3 \<Rightarrow> ('n, int) py"
  n_destroy_scene :: "nat \<Rightarrow> int \<Rightarrow> ('n, bool) py"
  n_step :: "nat \<Rightarrow> int \<Rightarrow> flt \<Rightarrow> ('n, unit) py"
  n_cuboid :: "flt \<Rightarrow> flt \<Rightarrow> flt \<Rightarrow> ('n, nat) py"
  n_gltf_shapes :: "pyv \<Rightarrow> ('n, nat list) py"
  n_add_fixed :: "nat \<Rightarrow> int \<Rightarrow> nat \<Rightarrow> pyv list \<Rightarrow> quat \<Rightarrow> ('n, nat) py"
  n_add_dynamic :: "nat \<Rightarrow> int \<Rightarrow> nat \<Rightarrow> pyv list \<Rightarrow> quat \<Rightarrow> ('n, nat) py"
  n_position :: "nat \<Rightarrow> ('n, vec3) py"
  n_rotation :: "nat \<Rightarrow> ('n, quat) py"
  n_drain_events :: "nat \<Rightarrow> int \<Rightarrow> ('n, (nat \<times> nat) list) py"
  n_cast_ray :: "nat \<Rightarrow> int \<Rightarrow> vec3 \<Rightarrow> vec3 \<Rightarrow> flt \<Rightarrow> ('n, (nat \<times> vec3 \<times> vec3) option) py"

subsection \<open>Operations on values\<close>

fun vget :: "pyv \<Rightarrow> string \<Rightarrow> pyv \<Rightarrow> pyexn + pyv" where
  "vget (VDict d) k dflt = Inr (case dget d (VStr k) of None \<Rightarrow> dflt | Some v \<Rightarrow> v)"
| "vget _ k dflt = Inl AttributeError"

fun vitem :: "pyv \<Rightarrow> string \<Rightarrow> pyexn + pyv" where
  "vitem (VDict d) k = getitem d (VStr k)"
| "vitem _ k = Inl TypeError"

fun viter :: "pyv \<Rightarrow> pyexn + pyv list" where
  "viter (VList xs) = Inr xs"
| "viter (VDict d) = Inr (keys d)"
| "viter (VStr s) = Inr (List.map (\<lambda>c. VStr [c]) s)"
| "viter (VBytes bs) = Inr (List.map (\<lambda>b. VInt (uint b)) bs)"
| "viter _ = Inl TypeError"

fun vlen :: "pyv \<Rightarrow> pyexn + nat" where
  "vlen (VList xs) = Inr (length xs)"
| "vlen (VDict d) = Inr (length d)"
| "vlen (VStr s) = Inr (length s)"
| "vlen (VBytes bs) = Inr (length bs)"
| "vlen _ = Inl TypeError"

fun truthy :: "'n host \<Rightarrow> pyv \<Rightarrow> bool" where
  "truthy h VNone = False"
| "truthy h (VBool b) = b"
| "truthy h (VInt i) = (i \<noteq> 0)"
| "truthy h (VFloat f) = (\<not> fl_zero h f)"
| "truthy h (VStr s) = (s \<noteq> [])"
| "truthy h (VBytes bs) = (bs \<noteq> [])"
| "truthy h (VList xs) = (xs \<noteq> [])"
| "truthy h (VDict d) = (d \<noteq> [])"

definition nth_res :: "'a list \<Rightarrow> nat \<Rightarrow> pyexn + 'a" where
  "nth_res xs i = (if i < length xs then Inr (xs ! i) else Inl IndexError)"

text \<open>\<open>v[i]\<close> for a literal \<open>i\<close>; as a key of a dict an integer equals the float and the boolean of its value.\<close>

fun same_key :: "'n host \<Rightarrow> int \<Rightarrow> pyv \<Rightarrow> bool" where
  "same_key h i (VInt j) = (j = i)"
| "same_key h i (VBool b) = ((if b then 1 else 0) = i)"
| "same_key h i (VFloat f) = fl_is_int h f i"
| "same_key h i _ = False"

fun vindex :: "'n host \<Rightarrow> pyv \<Rightarrow> nat \<Rightarrow> pyexn + pyv" where
  "vindex h (VList xs) i = nth_res xs i"
| "vindex h (VStr s) i = bindr (nth_res s i) (\<lambda>c. Inr (VStr [c]))"
| "vindex h (VBytes bs) i = bindr (nth_res bs i) (\<lambda>b. Inr (VInt (uint b)))"
| "vindex h (VDict d) i =
     (case List.find (\<lambda>(k, v). same_key h (int i) k) d of None \<Rightarrow> Inl KeyError | Some (k, v) \<Rightarrow> Inr v)"
| "vindex h _ i = Inl TypeError"

text \<open>A number in arithmetic, \<open>float(v)\<close>, and the text of a value in an f-string.\<close>

fun number :: "'n host \<Rightarrow> pyv \<Rightarrow> pyexn + flt" where
  "number h (VFloat f) = Inr f"
| "number h (VInt i) = fl_of_int h i"
| "number h (VBool b) = fl_of_int h (if b then 1 else 0)"
| "number h _ = Inl TypeError"

fun to_float :: "'n host \<Rightarrow> pyv \<Rightarrow> pyexn + flt" where
  "to_float h (VStr s) = fl_of_text h s"
| "to_float h (VBytes bs) = fl_of_bytes h bs"
| "to_float h v = number h v"

fun text_of :: "'n host \<Rightarrow> pyv \<Rightarrow> string" where
  "text_of h (VStr s) = s"
| "text_of h v = h_text h v"

subsection \<open>Paths\<close>

text \<open>\<open>os.path.dirname\<close> and \<open>os.path.join\<close> of values.\<close>

fun path_dirname :: "pyv \<Rightarrow> pyexn + pyv" where
  "path_dirname (VStr s) = Inr (VStr (dirname_of (CHR ''/'') s))"
| "path_dirname (VBytes s) = Inr (VBytes (dirname_of 47 s))"
| "path_dirname _ = Inl TypeError"

fun path_join :: "pyv \<Rightarrow> pyv \<Rightarrow> pyexn + pyv" where
  "path_join (VStr a) (VStr b) = Inr (VStr (join_of (CHR ''/'') a b))"
| "path_join (VBytes a) (VBytes b) = Inr (VBytes (join_of 47 a b))"
| "path_join _ _ = Inl TypeError"

end
