(* ===== verification/Scene_Collision.thy ===== *)
theory Scene_Collision
  imports Py_Values
begin

section \<open>Loading the collision bodies of a scene\<close>

text \<open>
  \<open>euler_to_quat\<close> and \<open>load_scene_collision_from_manifest\<close> of \<open>scene_physics.py\<close>.  The loader reads a
  scene manifest, makes native bodies for its models and its procedural objects and returns them
  under keys that end in the number of bodies loaded so far.  The statements run on the state of
  the native engine; the table of bodies is the loop variable.
\<close>

subsection \<open>Rotations\<close>

definition euler_to_quat :: "'n host \<Rightarrow> pyv \<Rightarrow> pyv \<Rightarrow> pyv \<Rightarrow> pyexn + quat" where
  "euler_to_quat h yaw_deg pitch_deg roll_deg =
     (let half = (\<lambda>a. fl_mul h a ''0.5''); mul3 = (\<lambda>a b c. fl_mul h (fl_mul h a b) c) in
      bindr (number h yaw_deg) (\<lambda>yaw. let yaw = fl_radians h yaw in
      bindr (number h pitch_deg) (\<lambda>pitch. let pitch = fl_radians h pitch in
      bindr (number h roll_deg) (\<lambda>roll. let roll = fl_radians h roll in
      bindr (fl_cos h (half yaw)) (\<lambda>cy.
      bindr (fl_sin h (half yaw)) (\<lambda>sy.
      bindr (fl_cos h (half pitch)) (\<lambda>cp.
      bindr (fl_sin h (half pitch)) (\<lambda>sp.
      bindr (fl_cos h (half roll)) (\<lambda>cr.
      bindr (fl_sin h (half roll)) (\<lambda>sr.
        Inr (fl_sub h (mul3 sr cp cy) (mul3 cr sp sy),
             fl_add h (mul3 cr sp cy) (mul3 sr cp sy),
             fl_sub h (mul3 cr cp sy) (mul3 sr sp cy),
             fl_add h (mul3 cr cp cy) (mul3 sr sp sy))))))))))))"

text \<open>\<open>euler_to_quat(*v)\<close>: the value must be iterable and give exactly three arguments.\<close>

definition euler_to_quat_star :: "'n host \<Rightarrow> pyv list \<Rightarrow> pyexn + quat" where
  "euler_to_quat_star h args = (case args of [a, b, c] \<Rightarrow> euler_to_quat h a b c | _ \<Rightarrow> Inl TypeError)"

definition v000 :: pyv where "v000 = VList [VFloat ''0.0'', VFloat ''0.0'', VFloat ''0.0'']"
definition v111 :: pyv where "v111 = VList [VFloat ''1.0'', VFloat ''1.0'', VFloat ''1.0'']"

subsection \<open>Models\<close>

type_synonym bodies = "(string, nat) dict"

text \<open>The key of the next body.\<close>

definition body_key :: "string \<Rightarrow> bodies \<Rightarrow> string" where
  "body_key name d = name @ ''_'' @ nat_str (length d)"

text \<open>The loop over the shapes of one model: the body is made before its key is computed.\<close>

fun add_shapes :: "'n host \<Rightarrow> nat \<Rightarrow> int \<Rightarrow> pyv \<Rightarrow> pyv list \<Rightarrow> quat \<Rightarrow> nat list \<Rightarrow> bodies \<Rightarrow> ('n, bodies) py" where
  "add_shapes h world scene_id model translation rot [] d = ret d"
| "add_shapes h world scene_id model translation rot (shape # shapes) d =
     bindp (n_add_fixed h world scene_id shape translation rot) (\<lambda>body.
     bindp (lift_res (vitem model ''id'')) (\<lambda>i.
       add_shapes h world scene_id model translation rot shapes (dset (body_key (text_of h i) d) body d)))"

definition load_model :: "'n host \<Rightarrow> nat \<Rightarrow> int \<Rightarrow> pyv \<Rightarrow> pyv \<Rightarrow> bodies \<Rightarrow> ('n, bodies) py" where
  "load_model h world scene_id base_dir model d =
     bindp (lift_res (vget model ''collision_enabled'' (VBool False))) (\<lambda>enabled.
     if \<not> truthy h enabled then ret d else
     bindp (lift_res (bindr (vitem model ''path'') (path_join base_dir))) (\<lambda>gltf_path.
     if \<not> h_is_file h gltf_path then ret d else
     bindp (lift_res (vget model ''transform'' (VDict []))) (\<lambda>transform.
     bindp (lift_res (bindr (vget transform ''translation'' v000) viter)) (\<lambda>translation.
     bindp (lift_res (vget transform ''rotation'' v000)) (\<lambda>rotation_euler.
     bindp (lift_res (bindr (viter rotation_euler) (euler_to_quat_star h))) (\<lambda>rot.
     bindp (n_gltf_shapes h gltf_path) (\<lambda>shapes.
       add_shapes h world scene_id model translation rot shapes d)))))))"

fun load_models :: "'n host \<Rightarrow> nat \<Rightarrow> int \<Rightarrow> pyv \<Rightarrow> pyv list \<Rightarrow> bodies \<Rightarrow> ('n, bodies) py" where
  "load_models h world scene_id base_dir [] d = ret d"
| "load_models h world scene_id base_dir (model # models) d =
     bindp (load_model h world scene_id base_dir model d) (load_models h world scene_id base_dir models)"

subsection \<open>Procedural objects\<close>

definition half_of :: "'n host \<Rightarrow> pyv list \<Rightarrow> nat \<Rightarrow> pyexn + flt" where
  "half_of h scale i = bindr (nth_res scale i) (\<lambda>v. bindr (number h v) (\<lambda>f. Inr (fl_mul h f ''0.5'')))"

text \<open>The shape of an object; an object of another type has none and is skipped.\<close>

definition object_shape :: "'n host \<Rightarrow> pyv \<Rightarrow> pyv list \<Rightarrow> ('n, nat option) py" where
  "object_shape h obj_type scale =
     (if obj_type = VStr ''plane'' then
        bindp (lift_res (half_of h scale 0)) (\<lambda>hx.
        bindp (lift_res (half_of h scale 2)) (\<lambda>hz.
        bindp (n_cuboid h hx ''0.01'' hz) (\<lambda>shape. ret (Some shape))))
      else if obj_type = VStr ''cube'' then
        bindp (lift_res (half_of h scale 0)) (\<lambda>hx.
        bindp (lift_res (half_of h scale 1)) (\<lambda>hy.
        bindp (lift_res (half_of h scale 2)) (\<lambda>hz.
        bindp (n_cuboid h hx hy hz) (\<lambda>shape. ret (Some shape)))))
      else ret None)"

definition add_object :: "'n host \<Rightarrow> nat \<Rightarrow> int \<Rightarrow> pyv \<Rightarrow> pyv list \<Rightarrow> quat \<Rightarrow> nat \<Rightarrow> bodies \<Rightarrow> ('n, bodies) py" where
  "add_object h world scene_id obj_def pos rot shape d =
     bindp (lift_res (vget obj_def ''body_kind'' (VStr ''fixed''))) (\<lambda>body_kind.
     bindp (if body_kind = VStr ''dynamic'' then n_add_dynamic h world scene_id shape pos rot
            else n_add_fixed h world scene_id shape pos rot)
       (\<lambda>body. ret (dset (body_key ''proc'' d) body d)))"

text \<open>What the loop reads of an object before it looks at its type; none of it has an effect.\<close>

definition object_args :: "'n host \<Rightarrow> pyv \<Rightarrow> pyexn + pyv \<times> pyv list \<times> pyv list \<times> quat" where
  "object_args h obj_def =
     bindr (vget obj_def ''object_type'' (VStr '''')) (\<lambda>obj_type.
     bindr (bindr (vget obj_def ''position'' v000) viter) (\<lambda>pos.
     bindr (bindr (vget obj_def ''scale'' v111) viter) (\<lambda>scale.
     bindr (bindr (vget obj_def ''rotation_euler'' VNone) (\<lambda>e. viter (if truthy h e then e else v000))) (\<lambda>rot_euler.
     bindr (euler_to_quat_star h rot_euler) (\<lambda>rot. Inr (obj_type, pos, scale, rot))))))"

definition load_object :: "'n host \<Rightarrow> nat \<Rightarrow> int \<Rightarrow> pyv \<Rightarrow> bodies \<Rightarrow> ('n, bodies) py" where
  "load_object h world scene_id obj_def d =
     bindp (lift_res (object_args h obj_def)) (\<lambda>(obj_type, pos, scale, rot).
     bindp (object_shape h obj_type scale) (\<lambda>s. case s of
       None \<Rightarrow> ret d
     | Some shape \<Rightarrow> add_object h world scene_id obj_def pos rot shape d))"

fun load_objects :: "'n host \<Rightarrow> nat \<Rightarrow> int \<Rightarrow> pyv list \<Rightarrow> bodies \<Rightarrow> ('n, bodies) py" where
  "load_objects h world scene_id [] d = ret d"
| "load_objects h world scene_id (obj_def # objects) d =
     bindp (load_object h world scene_id obj_def d) (load_objects h world scene_id objects)"

definition load_scene_collision_from_manifest :: "'n host \<Rightarrow> nat \<Rightarrow> int \<Rightarrow> pyv \<Rightarrow> ('n, bodies) py" where
  "load_scene_collision_from_manifest h physics_world scene_id manifest_path =
     bindp (lift_res (h_manifest h manifest_path)) (\<lambda>manifest.
     bindp (lift_res (path_dirname manifest_path)) (\<lambda>base_dir.
     bindp (lift_res (bindr (vget manifest ''models'' (VList [])) viter)) (\<lambda>models.
     bindp (load_models h physics_world scene_id base_dir models []) (\<lambda>entity_bodies.
     bindp (lift_res (bindr (vget manifest ''objects'' (VList [])) viter)) (\<lambda>objects.
       load_objects h physics_world scene_id objects entity_bodies)))))"

subsection \<open>Keys\<close>

text \<open>
  The key of the i-th body ends in its number, so a key is never taken when a body is stored:
  nothing is overwritten, and the table has one entry per body made.
\<close>

definition numbered :: "bodies \<Rightarrow> bool" where
  "numbered d = (\<forall>i < length d. \<exists>x. fst (d ! i) = x @ ''_'' @ nat_str i)"

lemma numbered_Nil [simp]: "numbered []"
  by (simp add: numbered_def)

lemma body_key_fresh: "numbered d \<Longrightarrow> dget d (body_key name d) = None"
proof (rule ccontr)
  assume n: "numbered d" and "dget d (body_key name d) \<noteq> None"
  then have "body_key name d \<in> fst ` set d" by (simp add: map_of_eq_None_iff)
  then obtain i where i: "i < length d" and k: "fst (d ! i) = body_key name d"
    by (metis (no_types, lifting) image_iff in_set_conv_nth)
  from n i obtain x where "fst (d ! i) = x @ ''_'' @ nat_str i" by (auto simp: numbered_def)
  with k have "i = length d" by (metis body_key_def numbered_inject)
  with i show False by simp
qed

lemma dset_body_key:
  "numbered d \<Longrightarrow> dset (body_key name d) b d = d @ [(body_key name d, b)]"
  by (rule dset_new) (rule body_key_fresh)

lemma numbered_snoc [simp]: "numbered d \<Longrightarrow> numbered (d @ [(body_key name d, b)])"
  by (auto simp: numbered_def nth_append body_key_def less_Suc_eq)

lemma distinct_numbered: "numbered d \<Longrightarrow> wf_dict d"
proof (unfold distinct_conv_nth, intro allI impI)
  fix i j
  assume d: "numbered d" and "i < length (List.map fst d)" "j < length (List.map fst d)" "i \<noteq> j"
  moreover from this obtain x y where "fst (d ! i) = x @ ''_'' @ nat_str i" "fst (d ! j) = y @ ''_'' @ nat_str j"
    unfolding numbered_def by (metis length_map)
  ultimately show "List.map fst d ! i \<noteq> List.map fst d ! j" by (metis length_map nth_map numbered_inject)
qed

lemma bindp_Inr: "bindp m k s = (Inr y, s'') \<longleftrightarrow> (\<exists>x s'. m s = (Inr x, s') \<and> k x s' = (Inr y, s''))"
proof (cases "m s")
  case (Pair r s')
  then show ?thesis by (cases r) auto
qed

lemma ret_Inr: "ret x s = (Inr y, s') \<longleftrightarrow> y = x \<and> s' = s"
  by auto

lemma lift_res_Inr: "lift_res r s = (Inr y, s') \<longleftrightarrow> r = Inr y \<and> s' = s"
  by auto

lemmas runs_to = bindp_Inr ret_Inr lift_res_Inr

subsection \<open>One entry per body\<close>

text \<open>
  A count of the bodies of the native engine: making a body adds one, and making shapes or reading
  them from a file adds none.
\<close>

definition counts_bodies :: "'n host \<Rightarrow> ('n \<Rightarrow> nat) \<Rightarrow> bool" where
  "counts_bodies h c =
     ((\<forall>w sc sh p r s x s'. n_add_fixed h w sc sh p r s = (Inr x, s') \<longrightarrow> c s' = c s + 1) \<and>
      (\<forall>w sc sh p r s x s'. n_add_dynamic h w sc sh p r s = (Inr x, s') \<longrightarrow> c s' = c s + 1) \<and>
      (\<forall>x y z s sh s'. n_cuboid h x y z s = (Inr sh, s') \<longrightarrow> c s' = c s) \<and>
      (\<forall>p s sh s'. n_gltf_shapes h p s = (Inr sh, s') \<longrightarrow> c s' = c s))"

lemma counts_bodiesD:
  assumes "counts_bodies h c"
  shows "n_add_fixed h w sc sh p r s = (Inr x, s') \<Longrightarrow> c s' = c s + 1"
    and "n_add_dynamic h w sc sh p r s = (Inr x, s') \<Longrightarrow> c s' = c s + 1"
    and "n_cuboid h hx hy hz s = (Inr y, s') \<Longrightarrow> c s' = c s"
    and "n_gltf_shapes h path s = (Inr ss, s') \<Longrightarrow> c s' = c s"
  using assms by (cases r, auto simp: counts_bodies_def)+

definition tally :: "('n \<Rightarrow> nat) \<Rightarrow> bodies \<Rightarrow> 'n \<Rightarrow> bodies \<Rightarrow> 'n \<Rightarrow> bool" where
  "tally c d s d' s' = (numbered d' \<and> c s' + length d = c s + length d')"

lemma tally_refl: "numbered d \<Longrightarrow> c s' = c s \<Longrightarrow> tally c d s d s'"
  by (simp add: tally_def)

lemma tally_trans: "tally c d s d' s' \<Longrightarrow> tally c d' s' d'' s'' \<Longrightarrow> tally c d s d'' s''"
  by (simp add: tally_def)

lemma tally_snoc: "numbered d \<Longrightarrow> c s' = c s + 1 \<Longrightarrow> tally c d s (dset (body_key name d) b d) s'"
  by (simp add: tally_def dset_body_key)

lemma tally_numbered: "tally c d s d' s' \<Longrightarrow> numbered d'"
  by (simp add: tally_def)

lemma add_shapes_tally:
  assumes "counts_bodies h c"
  shows "add_shapes h world scene_id model t rot shapes d s = (Inr d', s') \<Longrightarrow> numbered d \<Longrightarrow> tally c d s d' s'"
proof (induction shapes arbitrary: d s)
  case Nil
  then show ?case by (simp add: tally_refl)
next
  case (Cons shape shapes)
  from Cons.prems(1) obtain body s1 i where
    b: "n_add_fixed h world scene_id shape t rot s = (Inr body, s1)" and
    r: "add_shapes h world scene_id model t rot shapes (dset (body_key (text_of h i) d) body d) s1 = (Inr d', s')"
    by (auto simp: runs_to simp del: py_apply)
  have t: "tally c d s (dset (body_key (text_of h i) d) body d) s1"
    by (rule tally_snoc [where c = c, OF Cons.prems(2) counts_bodiesD(1) [OF assms b]])
  show ?case by (rule tally_trans [OF t Cons.IH [OF r tally_numbered [OF t]]])
qed

lemma load_model_tally:
  assumes "counts_bodies h c" and "numbered d"
    and "load_model h world scene_id base_dir model d s = (Inr d', s')"
  shows "tally c d s d' s'"
  using assms(3) unfolding load_model_def
  by (auto simp: runs_to tally_refl assms(2) tally_def dest!: add_shapes_tally [OF assms(1) _ assms(2)]
        counts_bodiesD(4) [OF assms(1)] simp del: py_apply split: if_splits)

lemma load_models_tally:
  assumes "counts_bodies h c"
  shows "load_models h world scene_id base_dir models d s = (Inr d', s') \<Longrightarrow> numbered d \<Longrightarrow> tally c d s d' s'"
proof (induction models arbitrary: d s)
  case Nil
  then show ?case by (simp add: tally_refl)
next
  case (Cons model models)
  then show ?case
    by (auto simp: runs_to simp del: py_apply)
       (metis load_model_tally [OF assms] tally_trans tally_numbered)
qed

lemma object_shape_count:
  assumes "counts_bodies h c" and "object_shape h obj_type scale s = (Inr x, s')"
  shows "c s' = c s"
  using assms(2) unfolding object_shape_def
  by (auto simp: runs_to dest!: counts_bodiesD(3) [OF assms(1)] simp del: py_apply split: if_splits)

lemma add_object_tally:
  assumes "counts_bodies h c" and "numbered d"
    and "add_object h world scene_id obj_def pos rot shape d s = (Inr d', s')"
  shows "tally c d s d' s'"
  using assms(3) unfolding add_object_def
  by (auto simp: runs_to tally_def dset_body_key assms(2) dest!: counts_bodiesD(1,2) [OF assms(1)]
      simp del: py_apply split: if_splits)

lemma load_object_tally:
  assumes c: "counts_bodies h c" and n: "numbered d"
    and r: "load_object h world scene_id obj_def d s = (Inr d', s')"
  shows "tally c d s d' s'"
proof -
  from r obtain t scale x s1 pos rot where x: "object_shape h t scale s = (Inr x, s1)"
    and k: "(case x of None \<Rightarrow> ret d | Some shape \<Rightarrow> add_object h world scene_id obj_def pos rot shape d) s1 =
      (Inr d', s')"
    unfolding load_object_def by (auto simp: bindp_Inr lift_res_Inr simp del: py_apply)
  have s1: "c s1 = c s" by (rule object_shape_count [OF c x])
  show ?thesis
  proof (cases x)
    case None
    with k s1 n show ?thesis by (simp add: tally_def)
  next
    case (Some shape)
    with k have "tally c d s1 d' s'" by (auto intro: add_object_tally [OF c n])
    with s1 show ?thesis by (simp add: tally_def)
  qed
qed

lemma load_objects_tally:
  assumes "counts_bodies h c"
  shows "load_objects h world scene_id objects d s = (Inr d', s') \<Longrightarrow> numbered d \<Longrightarrow> tally c d s d' s'"
proof (induction objects arbitrary: d s)
  case Nil
  then show ?case by (simp add: tally_refl)
next
  case (Cons obj_def objects)
  then show ?case
    by (auto simp: runs_to simp del: py_apply)
       (metis load_object_tally [OF assms] tally_trans tally_numbered)
qed

lemma load_scene_tally:
  assumes c: "counts_bodies h c"
    and r: "load_scene_collision_from_manifest h world scene_id path s = (Inr d, s')"
  shows "tally c [] s d s'"
proof -
  from r obtain base models d1 s1 objects where
    m: "load_models h world scene_id base models [] s = (Inr d1, s1)" and
    ob: "load_objects h world scene_id objects d1 s1 = (Inr d, s')"
    unfolding load_scene_collision_from_manifest_def
    by (auto simp: runs_to simp del: py_apply)
  have t: "tally c [] s d1 s1" by (rule load_models_tally [OF c m]) simp
  show ?thesis by (rule tally_trans [OF t load_objects_tally [OF c ob tally_numbered [OF t]]])
qed

end
