(* ===== verification/Editor_Server.thy ===== *)
theory Editor_Server
  imports Scene_Collision
begin

section \<open>The physics server of the editor\<close>

text \<open>
  \<open>physics_editor_server.py\<close>: requests and responses packed into frames, the handlers of the seven
  methods over the module's globals, and the protocol object of a connection.  A handler is a
  coroutine without an \<open>await\<close>, so a task runs to its end once the loop takes it; the loop takes the
  tasks in the order they were made.  What a connection writes is the list of its
  \<open>transport.write\<close> calls.
\<close>

subsection \<open>Structures and packing\<close>

fun vec3_to_dict :: "vec3 \<Rightarrow> pyv" where
  "vec3_to_dict (x, y, z) = VDict [(VStr ''x'', VFloat x), (VStr ''y'', VFloat y), (VStr ''z'', VFloat z)]"

fun quat_to_dict :: "quat \<Rightarrow> pyv" where
  "quat_to_dict (x, y, z, w) =
     VDict [(VStr ''x'', VFloat x), (VStr ''y'', VFloat y), (VStr ''z'', VFloat z), (VStr ''w'', VFloat w)]"

definition body_snapshot_to_dict :: "string \<Rightarrow> vec3 \<Rightarrow> quat \<Rightarrow> pyv" where
  "body_snapshot_to_dict body_id pos rot =
     VDict [(VStr ''id'', VStr body_id), (VStr ''position'', vec3_to_dict pos), (VStr ''rotation'', quat_to_dict rot)]"

definition ray_hit_to_dict :: "string \<Rightarrow> vec3 \<Rightarrow> vec3 \<Rightarrow> pyv" where
  "ray_hit_to_dict body_id point normal =
     VDict [(VStr ''body_id'', VStr body_id), (VStr ''point'', vec3_to_dict point), (VStr ''normal'', vec3_to_dict normal)]"

definition contact_to_dict :: "string \<Rightarrow> string \<Rightarrow> vec3 \<Rightarrow> vec3 \<Rightarrow> pyv" where
  "contact_to_dict b1 b2 point normal =
     VDict [(VStr ''body1_id'', VStr b1), (VStr ''body2_id'', VStr b2), (VStr ''point'', vec3_to_dict point),
            (VStr ''normal'', vec3_to_dict normal)]"

definition err_tag :: string where "err_tag = ''__err__''"

definition pack_request :: "'n host \<Rightarrow> pyv \<Rightarrow> pyv \<Rightarrow> pyexn + byte list" where
  "pack_request h mname argvs = bindr (h_dumps h (VList [mname, argvs])) frame"

definition unpack_request :: "'n host \<Rightarrow> byte list \<Rightarrow> pyexn + pyv \<times> pyv" where
  "unpack_request h data =
     bindr (h_loads h data) (\<lambda>arr.
     bindr (vindex h arr 0) (\<lambda>mname.
     bindr (vindex h arr 1) (\<lambda>argvs. Inr (mname, argvs))))"

definition pack_response :: "'n host \<Rightarrow> pyv list \<Rightarrow> pyexn + byte list" where
  "pack_response h argvs = bindr (h_dumps h (VList argvs)) frame"

definition pack_error :: "'n host \<Rightarrow> pyv \<Rightarrow> pyexn + byte list" where
  "pack_error h err = bindr (h_dumps h (VList [VStr err_tag, err])) frame"

subsection \<open>The globals\<close>

record 'n editor =
  e_world :: "nat option"
  e_scene_id :: int
  e_bodies :: bodies
  e_native :: 'n

definition new_editor :: "'n \<Rightarrow> 'n editor" where
  "new_editor n = \<lparr>e_world = None, e_scene_id = 0, e_bodies = [], e_native = n\<rparr>"

definition on_native :: "('n, 'a) py \<Rightarrow> ('n editor, 'a) py" where
  "on_native m = (\<lambda>e. case m (e_native e) of (r, n) \<Rightarrow> (r, e\<lparr>e_native := n\<rparr>))"

definition with_globals :: "('n editor \<Rightarrow> ('n editor, 'a) py) \<Rightarrow> ('n editor, 'a) py" where
  "with_globals k = (\<lambda>e. k e e)"

definition editor_load_scene_collision :: "'n host \<Rightarrow> nat \<Rightarrow> pyv \<Rightarrow> ('n editor, bodies) py" where
  "editor_load_scene_collision h world manifest_path = with_globals (\<lambda>e.
     on_native (load_scene_collision_from_manifest h world (e_scene_id e) manifest_path))"

subsection \<open>The handlers\<close>

definition error_reply :: "string \<Rightarrow> pyv list" where
  "error_reply msg = [VStr err_tag, VStr msg]"

definition float_at :: "'n host \<Rightarrow> pyv \<Rightarrow> nat \<Rightarrow> pyexn + flt" where
  "float_at h argvs i = bindr (vindex h argvs i) (to_float h)"

definition vec_at :: "'n host \<Rightarrow> pyv \<Rightarrow> nat \<Rightarrow> pyexn + vec3" where
  "vec_at h argvs i =
     bindr (float_at h argvs i) (\<lambda>x. bindr (float_at h argvs (i + 1)) (\<lambda>y.
     bindr (float_at h argvs (i + 2)) (\<lambda>z. Inr (x, y, z))))"

definition handle_init_physics :: "'n host \<Rightarrow> pyv \<Rightarrow> ('n editor, pyv list) py" where
  "handle_init_physics h argvs =
     bindp (lift_res (if truthy h argvs
         then bindr (vlen argvs) (\<lambda>n. if 3 \<le> n then vec_at h argvs 0 else Inr (''0.0'', ''-9.81'', ''0.0''))
         else Inr (''0.0'', ''-9.81'', ''0.0''))) (\<lambda>gravity.
     bindp (on_native (n_new_world h)) (\<lambda>world.
     bindp (modify (\<lambda>e. e\<lparr>e_world := Some world\<rparr>)) (\<lambda>_.
     bindp (on_native (n_create_scene h world gravity)) (\<lambda>scene_id.
     bindp (modify (\<lambda>e. e\<lparr>e_scene_id := scene_id\<rparr>)) (\<lambda>_.
       ret [VInt scene_id])))))"

definition handle_load_scene :: "'n host \<Rightarrow> pyv \<Rightarrow> ('n editor, pyv list) py" where
  "handle_load_scene h argvs = with_globals (\<lambda>e. case e_world e of
     None \<Rightarrow> ret (error_reply ''physics not initialized, call init_physics first'')
   | Some world \<Rightarrow>
       bindp (lift_res (if truthy h argvs then vindex h argvs 0 else Inr (VStr ''''))) (\<lambda>manifest_path.
       if \<not> truthy h manifest_path then ret (error_reply ''manifest_path is required'') else
       try_except
         (bindp (editor_load_scene_collision h world manifest_path) (\<lambda>loaded.
          bindp (modify (\<lambda>e. e\<lparr>e_bodies := loaded\<rparr>)) (\<lambda>_. ret [VInt (int (length loaded))])))
         (\<lambda>x. ret (error_reply (h_exn_text h x)))))"

definition handle_step_physics :: "'n host \<Rightarrow> pyv \<Rightarrow> ('n editor, pyv list) py" where
  "handle_step_physics h argvs = with_globals (\<lambda>e. case e_world e of
     None \<Rightarrow> ret (error_reply ''physics not initialized'')
   | Some world \<Rightarrow>
       bindp (lift_res (if truthy h argvs then float_at h argvs 0 else Inr ''0.016'')) (\<lambda>dt.
       bindp (on_native (n_step h world (e_scene_id e) dt)) (\<lambda>_. ret [])))"

text \<open>The loop over the loaded bodies: a body whose position or rotation raises is left out.\<close>

fun snapshots :: "'n host \<Rightarrow> bodies \<Rightarrow> pyv list \<Rightarrow> ('n editor, pyv list) py" where
  "snapshots h [] body_list = ret body_list"
| "snapshots h ((body_id, body) # rest) body_list =
     bindp (try_except
         (bindp (on_native (n_position h body)) (\<lambda>pos.
          bindp (on_native (n_rotation h body)) (\<lambda>rot.
            ret (body_list @ [body_snapshot_to_dict body_id pos rot]))))
         (\<lambda>x. ret body_list))
       (snapshots h rest)"

definition handle_get_bodies :: "'n host \<Rightarrow> pyv \<Rightarrow> ('n editor, pyv list) py" where
  "handle_get_bodies h argvs = with_globals (\<lambda>e.
     bindp (snapshots h (e_bodies e) []) (\<lambda>body_list. ret [VList body_list]))"

definition zero3 :: vec3 where "zero3 = (''0.0'', ''0.0'', ''0.0'')"

definition handle_get_contacts :: "'n host \<Rightarrow> pyv \<Rightarrow> ('n editor, pyv list) py" where
  "handle_get_contacts h argvs = with_globals (\<lambda>e. case e_world e of
     None \<Rightarrow> ret (error_reply ''physics not initialized'')
   | Some world \<Rightarrow>
       bindp (on_native (n_drain_events h world (e_scene_id e))) (\<lambda>events.
         ret [VList (List.map (\<lambda>(a, b). contact_to_dict (nat_str a) (nat_str b) zero3 zero3) events)]))"

definition handle_cast_ray :: "'n host \<Rightarrow> pyv \<Rightarrow> ('n editor, pyv list) py" where
  "handle_cast_ray h argvs = with_globals (\<lambda>e. case e_world e of
     None \<Rightarrow> ret (error_reply ''physics not initialized'')
   | Some world \<Rightarrow>
       bindp (lift_res (vlen argvs)) (\<lambda>n.
       if n < 7 then ret (error_reply ''cast_ray requires 7 args: origin(3) + direction(3) + max_toi'') else
       bindp (lift_res (vec_at h argvs 0)) (\<lambda>origin.
       bindp (lift_res (vec_at h argvs 3)) (\<lambda>direction.
       bindp (lift_res (float_at h argvs 6)) (\<lambda>max_toi.
       bindp (on_native (n_cast_ray h world (e_scene_id e) origin direction max_toi)) (\<lambda>hit.
         ret (case hit of
                None \<Rightarrow> [VNone, VBool False]
              | Some (body, point, normal) \<Rightarrow> [ray_hit_to_dict (nat_str body) point normal, VBool True])))))))"

definition handle_reset_physics :: "'n host \<Rightarrow> pyv \<Rightarrow> ('n editor, pyv list) py" where
  "handle_reset_physics h argvs =
     bindp (with_globals (\<lambda>e. case e_world e of
         None \<Rightarrow> ret ()
       | Some world \<Rightarrow> try_except (bindp (on_native (n_destroy_scene h world (e_scene_id e))) (\<lambda>_. ret ()))
                                     (\<lambda>x. ret ())))
       (\<lambda>_. bindp (modify (\<lambda>e. e\<lparr>e_world := None, e_scene_id := 0, e_bodies := []\<rparr>)) (\<lambda>_. ret []))"

text \<open>The method table.  Looking up a list or a dict raises, since neither can be hashed.\<close>

definition methods :: "'n host \<Rightarrow> (pyv \<times> (pyv \<Rightarrow> ('n editor, pyv list) py)) list" where
  "methods h =
     [(VStr ''init_physics'', handle_init_physics h),
      (VStr ''load_scene'', handle_load_scene h),
      (VStr ''step_physics'', handle_step_physics h),
      (VStr ''get_bodies'', handle_get_bodies h),
      (VStr ''get_contacts'', handle_get_contacts h),
      (VStr ''cast_ray'', handle_cast_ray h),
      (VStr ''reset_physics'', handle_reset_physics h)]"

fun hashable :: "pyv \<Rightarrow> bool" where
  "hashable (VList xs) = False"
| "hashable (VDict d) = False"
| "hashable _ = True"

subsection \<open>Answering a request\<close>

text \<open>The body of the outer \<open>try\<close>, up to the bytes given to \<open>transport.write\<close>.\<close>

definition respond :: "'n host \<Rightarrow> byte list \<Rightarrow> ('n editor, byte list) py" where
  "respond h body =
     bindp (lift_res (unpack_request h body)) (\<lambda>(mname, argvs).
     if \<not> hashable mname then raise TypeError else
     case map_of (methods h) mname of
       None \<Rightarrow> lift_res (pack_error h (VStr (''unknown method: '' @ text_of h mname)))
     | Some handler \<Rightarrow>
         bindp (handler argvs) (\<lambda>result.
           lift_res (if 2 \<le> length result \<and> result ! 0 = VStr err_tag then pack_error h (result ! 1)
                     else pack_response h result)))"

text \<open>What a request writes: the response, or the error it ended with; nothing when that cannot be packed.\<close>

definition reply :: "'n host \<Rightarrow> byte list \<Rightarrow> 'n editor \<Rightarrow> byte list option \<times> 'n editor" where
  "reply h body e = (case respond h body e of
     (Inr resp_bytes, e') \<Rightarrow> (Some resp_bytes, e')
   | (Inl x, e') \<Rightarrow> (case pack_error h (VStr (h_exn_text h x)) of
                      Inl _ \<Rightarrow> (None, e')
                    | Inr resp_bytes \<Rightarrow> (Some resp_bytes, e')))"

subsection \<open>Connections and tasks\<close>

record 'n server =
  s_editor :: "'n editor"
  s_buffers :: "(nat, byte list) dict"
  s_tasks :: "(nat \<times> byte list) list"
  s_writes :: "(nat \<times> byte list) list"

definition start_server :: "'n editor \<Rightarrow> 'n server" where
  "start_server e = \<lparr>s_editor = e, s_buffers = [], s_tasks = [], s_writes = []\<rparr>"

definition write_opt :: "nat \<Rightarrow> byte list option \<Rightarrow> (nat \<times> byte list) list" where
  "write_opt c w = (case w of None \<Rightarrow> [] | Some bs \<Rightarrow> [(c, bs)])"

definition handle_request :: "'n host \<Rightarrow> nat \<Rightarrow> byte list \<Rightarrow> 'n server \<Rightarrow> 'n server" where
  "handle_request h c body s = (case reply h body (s_editor s) of
     (w, e) \<Rightarrow> s\<lparr>s_editor := e, s_writes := s_writes s @ write_opt c w\<rparr>)"

text \<open>The loop's turns: a connection is made, receives bytes, is lost, or the first task runs.\<close>

datatype turn = Made nat | Data nat "byte list" | Lost nat | Run

definition connection_made :: "nat \<Rightarrow> 'n server \<Rightarrow> 'n server" where
  "connection_made c s =
     (if has_key (s_buffers s) c then s else s\<lparr>s_buffers := dset c [] (s_buffers s)\<rparr>)"

definition connection_lost :: "nat \<Rightarrow> 'n server \<Rightarrow> 'n server" where
  "connection_lost c s = s"

definition receive_data :: "nat \<Rightarrow> byte list \<Rightarrow> 'n server \<Rightarrow> 'n server" where
  "receive_data c data s = (case dget (s_buffers s) c of
     None \<Rightarrow> s
   | Some buffer \<Rightarrow> (case data_received buffer data of
       (rest, bodies) \<Rightarrow> s\<lparr>s_buffers := dset c rest (s_buffers s),
                           s_tasks := s_tasks s @ List.map (Pair c) bodies\<rparr>))"

fun run_task :: "'n host \<Rightarrow> 'n server \<Rightarrow> 'n server" where
  "run_task h s = (case s_tasks s of
     [] \<Rightarrow> s
   | (c, body) # rest \<Rightarrow> handle_request h c body (s\<lparr>s_tasks := rest\<rparr>))"

fun take_turn :: "'n host \<Rightarrow> turn \<Rightarrow> 'n server \<Rightarrow> 'n server" where
  "take_turn h (Made c) s = connection_made c s"
| "take_turn h (Data c data) s = receive_data c data s"
| "take_turn h (Lost c) s = connection_lost c s"
| "take_turn h Run s = run_task h s"

definition serve :: "'n host \<Rightarrow> turn list \<Rightarrow> 'n server \<Rightarrow> 'n server" where
  "serve h turns s = fold (take_turn h) turns s"

subsection \<open>The loop is a sequential server\<close>

text \<open>The reference: the requests one after the other.\<close>

fun serve_all :: "'n host \<Rightarrow> (nat \<times> byte list) list \<Rightarrow> 'n editor \<Rightarrow> (nat \<times> byte list) list \<times> 'n editor" where
  "serve_all h [] e = ([], e)"
| "serve_all h ((c, body) # rest) e =
     (case reply h body e of (w, e') \<Rightarrow> (case serve_all h rest e' of (ws, e'') \<Rightarrow> (write_opt c w @ ws, e'')))"

lemma serve_all_snoc:
  "serve_all h (xs @ [(c, body)]) e =
   (case serve_all h xs e of (ws, e') \<Rightarrow> (case reply h body e' of (w, e'') \<Rightarrow> (ws @ write_opt c w, e'')))"
  by (induction xs arbitrary: e) (auto split: prod.splits)

text \<open>The bytes a connection received since it was made, and its requests in a list of tasks.\<close>

fun hear :: "nat \<Rightarrow> turn \<Rightarrow> byte list option \<Rightarrow> byte list option" where
  "hear c (Made c') b = (if c' = c \<and> b = None then Some [] else b)"
| "hear c (Data c' data) b = (if c' = c then map_option (\<lambda>x. x @ data) b else b)"
| "hear c (Lost c') b = b"
| "hear c Run b = b"

definition stream_of :: "nat \<Rightarrow> turn list \<Rightarrow> byte list option" where
  "stream_of c turns = fold (hear c) turns None"

definition requests_in :: "byte list option \<Rightarrow> byte list list" where
  "requests_in b = (case b of None \<Rightarrow> [] | Some bytes \<Rightarrow> snd (drain bytes))"

definition of_conn :: "nat \<Rightarrow> (nat \<times> 'b) list \<Rightarrow> 'b list" where
  "of_conn c xs = List.map snd (List.filter (\<lambda>x. fst x = c) xs)"

lemma of_conn_simps [simp]:
  "of_conn c [] = []" "of_conn c ((k, b) # xs) = (if k = c then b # of_conn c xs else of_conn c xs)"
  "of_conn c (xs @ ys) = of_conn c xs @ of_conn c ys"
  "of_conn c (List.map (Pair k) bs) = (if k = c then bs else [])"
  by (simp_all add: of_conn_def) (induction bs; simp)

text \<open>What the state is after some turns, in terms of the requests already served.\<close>

definition serves :: "'n host \<Rightarrow> 'n editor \<Rightarrow> turn list \<Rightarrow> (nat \<times> byte list) list \<Rightarrow> 'n server \<Rightarrow> bool" where
  "serves h e turns served s =
     (serve_all h served e = (s_writes s, s_editor s) \<and>
      (\<forall>c. dget (s_buffers s) c = map_option (\<lambda>b. fst (drain b)) (stream_of c turns)) \<and>
      (\<forall>c. of_conn c (served @ s_tasks s) = requests_in (stream_of c turns)))"

lemma stream_of_snoc: "stream_of c (turns @ [t]) = hear c t (stream_of c turns)"
  by (simp add: stream_of_def)

lemma serves_made: "serves h e turns served s \<Longrightarrow> serves h e (turns @ [Made c]) served (connection_made c s)"
  by (auto simp: serves_def connection_made_def stream_of_snoc requests_in_def has_key_def drain_incomplete
      split: option.splits)

lemma drain_more:
  "drain (b @ data) = (case drain (fst (drain b) @ data) of (rest, bodies) \<Rightarrow> (rest, snd (drain b) @ bodies))"
  using drain_append [of b data] by (simp add: split_beta apsnd_pair)

lemma serves_data: "serves h e turns served s \<Longrightarrow> serves h e (turns @ [Data c data]) served (receive_data c data s)"
proof (cases "stream_of c turns")
  case None
  assume s: "serves h e turns served s"
  with None have "dget (s_buffers s) c = None" by (simp add: serves_def)
  with None s show ?thesis
    by (auto simp: serves_def receive_data_def stream_of_snoc)
next
  case (Some b)
  assume s: "serves h e turns served s"
  with Some have b: "dget (s_buffers s) c = Some (fst (drain b))" by (simp add: serves_def)
  obtain rest bodies where d: "drain (fst (drain b) @ data) = (rest, bodies)" by fastforce
  have "drain (b @ data) = (rest, snd (drain b) @ bodies)" using drain_more [of b data] by (simp add: d)
  moreover have "of_conn c served @ of_conn c (s_tasks s) = snd (drain b)"
    using s Some by (simp add: serves_def requests_in_def)
  ultimately have facts: "drain (b @ data) = (rest, snd (drain b) @ bodies)"
    "of_conn c served @ of_conn c (s_tasks s) = snd (drain b)" by blast+
  have r: "receive_data c data s = s\<lparr>s_buffers := dset c rest (s_buffers s), s_tasks := s_tasks s @ List.map (Pair c) bodies\<rparr>"
    by (simp add: receive_data_def b data_received_def d)
  show ?thesis
    unfolding serves_def r
  proof (intro conjI allI)
    fix k
    show "dget (s_buffers (s\<lparr>s_buffers := dset c rest (s_buffers s), s_tasks := s_tasks s @ List.map (Pair c) bodies\<rparr>)) k =
        map_option (\<lambda>b. fst (drain b)) (stream_of k (turns @ [Data c data]))"
      using s Some facts(1) by (cases "k = c") (simp_all add: serves_def stream_of_snoc)
    show "of_conn k (served @ s_tasks (s\<lparr>s_buffers := dset c rest (s_buffers s), s_tasks := s_tasks s @ List.map (Pair c) bodies\<rparr>)) =
        requests_in (stream_of k (turns @ [Data c data]))"
      using s Some facts by (cases "k = c") (simp_all add: serves_def stream_of_snoc requests_in_def flip: append_assoc)
  qed (use s in \<open>simp add: serves_def\<close>)
qed

lemma serves_run:
  assumes "serves h e turns served s"
  shows "\<exists>served'. serves h e (turns @ [Run]) served' (run_task h s)"
proof (cases "s_tasks s")
  case Nil
  with assms show ?thesis by (auto simp: serves_def stream_of_snoc)
next
  case (Cons t rest)
  obtain c body where t: "t = (c, body)" by fastforce
  obtain w e' where w: "reply h body (s_editor s) = (w, e')" by fastforce
  have tasks: "(served @ [t]) @ rest = served @ s_tasks s" by (simp add: Cons)
  have "serve_all h (served @ [t]) e = (s_writes s @ write_opt c w, e')"
    using assms by (simp add: t serves_def serve_all_snoc w)
  moreover have "of_conn k ((served @ [t]) @ rest) = requests_in (stream_of k (turns @ [Run]))" for k
    using assms unfolding tasks by (simp add: serves_def stream_of_snoc)
  ultimately have "serves h e (turns @ [Run]) (served @ [t]) (run_task h s)"
    using assms by (simp add: serves_def Cons t handle_request_def w stream_of_snoc)
  then show ?thesis by blast
qed

lemma serves_turns: "\<exists>served. serves h e turns served (serve h turns (start_server e))"
proof (induction turns rule: rev_induct)
  case Nil
  have "serves h e [] [] (start_server e)"
    by (simp add: serves_def start_server_def stream_of_def requests_in_def)
  then show ?case by (auto simp: serve_def)
next
  case (snoc t turns)
  then obtain served where s: "serves h e turns served (serve h turns (start_server e))" by blast
  have sn: "serve h (turns @ [t]) (start_server e) = take_turn h t (serve h turns (start_server e))"
    by (simp add: serve_def)
  show ?case
  proof (cases t)
    case (Made c)
    then show ?thesis using serves_made [OF s, of c] sn by auto
  next
    case (Data c data)
    then show ?thesis using serves_data [OF s, of c data] sn by auto
  next
    case (Lost c)
    then have "serves h e (turns @ [t]) served (serve h (turns @ [t]) (start_server e))"
      using s sn by (simp add: serves_def connection_lost_def stream_of_snoc)
    then show ?thesis by blast
  next
    case Run
    then show ?thesis using serves_run [OF s] sn by auto
  qed
qed

text \<open>One write per served request, when every error can be packed.\<close>

definition packs_errors :: "'n host \<Rightarrow> bool" where
  "packs_errors h = (\<forall>x. \<not> isl (pack_error h (VStr (h_exn_text h x))))"

lemma reply_Some:
  assumes "packs_errors h"
  shows "\<exists>w e'. reply h body e = (Some w, e')"
proof (cases "respond h body e")
  case (Pair r e')
  show ?thesis
  proof (cases r)
    case (Inl x)
    have "\<not> isl (pack_error h (VStr (h_exn_text h x)))" using assms by (simp add: packs_errors_def)
    with Pair Inl show ?thesis
      by (cases "pack_error h (VStr (h_exn_text h x))") (auto simp: reply_def)
  qed (simp add: reply_def Pair)
qed

lemma serve_all_writes:
  assumes "packs_errors h"
  shows "List.map fst (fst (serve_all h reqs e)) = List.map fst reqs"
proof (induction reqs arbitrary: e)
  case Nil
  then show ?case by simp
next
  case (Cons r reqs)
  obtain c body where r: "r = (c, body)" by fastforce
  obtain w e' where "reply h body e = (Some w, e')" using reply_Some [OF assms] by blast
  with Cons.IH [of e'] show ?case by (simp add: r write_opt_def split_beta)
qed

lemma length_of_conn: "length (of_conn c xs) = length (List.filter (\<lambda>k. k = c) (List.map fst xs))"
  by (induction xs) (auto simp: of_conn_def)

subsection \<open>Properties\<close>

text \<open>C6: the server answers as a sequential one: whatever the order in which connections are made,
  their bytes arrive in pieces and tasks run, the globals and the writes are those of serving one
  list of requests one after the other, and of that list followed by the waiting tasks every
  connection's part is the list of frames in the bytes it sent, cut where its frames end and not
  where its pieces did.\<close>

theorem editor_serves_sequentially:
  "\<exists>served. serve_all h served e =
       (s_writes (serve h turns (start_server e)), s_editor (serve h turns (start_server e))) \<and>
     (\<forall>c. of_conn c (served @ s_tasks (serve h turns (start_server e))) =
          requests_in (stream_of c turns))"
  using serves_turns [of h e turns] by (auto simp: serves_def)

text \<open>C17: every complete request of a connection is answered by exactly one write or still waits
  for its task, when every error text can be packed: failing handlers, unknown methods and bodies
  that cannot be unpacked are answered too.\<close>

theorem editor_answers_once:
  assumes "packs_errors h"
  shows "length (of_conn c (s_writes (serve h turns (start_server e)))) +
     length (of_conn c (s_tasks (serve h turns (start_server e)))) = length (requests_in (stream_of c turns))"
proof -
  let ?s = "serve h turns (start_server e)"
  obtain served where s: "serves h e turns served ?s" using serves_turns by blast
  then have "List.map fst (s_writes ?s) = List.map fst served"
    using serve_all_writes [OF assms, of served e] by (simp add: serves_def)
  then have "length (of_conn c (s_writes ?s)) = length (of_conn c served)"
    by (simp add: length_of_conn)
  moreover from s have "of_conn c served @ of_conn c (s_tasks ?s) = requests_in (stream_of c turns)"
    by (simp add: serves_def)
  ultimately show ?thesis by (metis length_append)
qed

subsection \<open>Requests of a client\<close>

fun pack_requests :: "'n host \<Rightarrow> (pyv \<times> pyv) list \<Rightarrow> pyexn + byte list" where
  "pack_requests h [] = Inr []"
| "pack_requests h ((mname, argvs) # rest) =
     bindr (pack_request h mname argvs) (\<lambda>b. bindr (pack_requests h rest) (\<lambda>bs. Inr (b @ bs)))"

text \<open>The packing library reads back what it wrote.\<close>

definition packs :: "'n host \<Rightarrow> bool" where
  "packs h = (\<forall>v b. h_dumps h v = Inr b \<longrightarrow> h_loads h b = Inr v)"

lemma stream_of_pieces: "stream_of c (Made c # List.map (Data c) pieces) = Some (concat pieces)"
proof -
  have "fold (hear c) (List.map (Data c) pieces) (Some b) = Some (b @ concat pieces)" for b
    by (induction pieces arbitrary: b) simp_all
  then show ?thesis by (simp add: stream_of_def)
qed

lemma drain_requests:
  assumes "packs h"
  shows "pack_requests h reqs = Inr bytes \<Longrightarrow>
    fst (drain bytes) = [] \<and> List.map (unpack_request h) (snd (drain bytes)) = List.map Inr reqs"
proof (induction reqs arbitrary: bytes)
  case Nil
  then show ?case by (simp add: drain_incomplete)
next
  case (Cons r reqs)
  obtain m a where r: "r = (m, a)" by fastforce
  with Cons.prems obtain body b bs where d: "h_dumps h (VList [m, a]) = Inr body" and f: "frame body = Inr b"
    and bs: "pack_requests h reqs = Inr bs" and bytes: "bytes = b @ bs"
    by (auto simp: bindr_Inr pack_request_def)
  from d assms have "unpack_request h body = Inr (m, a)"
    by (simp add: packs_def unpack_request_def nth_res_def)
  with Cons.IH [OF bs] show ?case by (simp add: bytes drain_frame [OF f] apsnd_pair r)
qed

subsection \<open>Loading and the globals\<close>

lemma load_scene_outcome:
  assumes c: "counts_bodies h c" and r: "handle_load_scene h argvs e = (Inr result, e')"
  shows "(result = [VInt (int (length (e_bodies e')))] \<and> distinct (keys (e_bodies e')) \<and>
          c (e_native e') = c (e_native e) + length (e_bodies e')) \<or>
         ((\<exists>m. result = error_reply m) \<and> e_bodies e' = e_bodies e)"
proof (cases "e_world e")
  case None
  with r show ?thesis by (auto simp: handle_load_scene_def with_globals_def)
next
  case (Some world)
  obtain p where p: "(if truthy h argvs then vindex h argvs 0 else Inr (VStr [])) = Inr p"
    using r Some by (cases "if truthy h argvs then vindex h argvs 0 else Inr (VStr [])")
      (auto simp: handle_load_scene_def with_globals_def)
  obtain l n where l: "load_scene_collision_from_manifest h world (e_scene_id e) p (e_native e) = (l, n)"
    by fastforce
  show ?thesis
  proof (cases l)
    case (Inl x)
    with r Some p l show ?thesis
      by (auto simp: handle_load_scene_def with_globals_def editor_load_scene_collision_def on_native_def
          try_except_def split: if_splits)
  next
    case (Inr d)
    with l have "tally c [] (e_native e) d n" using load_scene_tally [OF c] by blast
    then have "distinct (keys d)" and "c n = c (e_native e) + length d"
      by (auto simp: tally_def keys_def distinct_numbered)
    with r Some p l Inr show ?thesis
      by (auto simp: handle_load_scene_def with_globals_def editor_load_scene_collision_def on_native_def
          try_except_def split: if_splits)
  qed
qed

text \<open>
  A new world does not take the bodies of the old one out of the table: \<open>get_bodies\<close> reports them
  until a scene is loaded or the physics are reset.
\<close>

definition keeps_bodies :: "('n editor, 'a) py \<Rightarrow> bool" where
  "keeps_bodies m = (\<forall>e. e_bodies (state_of (m e)) = e_bodies e)"

lemma keeps_bodies_intros:
  "keeps_bodies (ret x)" "keeps_bodies (lift_res r)" "keeps_bodies (on_native n)"
  "keeps_bodies (modify (\<lambda>e. e\<lparr>e_world := w\<rparr>))" "keeps_bodies (modify (\<lambda>e. e\<lparr>e_scene_id := i\<rparr>))"
  by (simp_all add: keeps_bodies_def on_native_def split: prod.split)

lemma keeps_bodies_bindp: "keeps_bodies m \<Longrightarrow> (\<And>x. keeps_bodies (k x)) \<Longrightarrow> keeps_bodies (bindp m k)"
  unfolding keeps_bodies_def
proof (intro allI)
  fix e
  assume m: "\<forall>e. e_bodies (state_of (m e)) = e_bodies e" and k: "\<And>x. \<forall>e. e_bodies (state_of (k x e)) = e_bodies e"
  show "e_bodies (state_of (bindp m k e)) = e_bodies e"
  proof (cases "m e")
    case (Pair r e')
    with m have "e_bodies e' = e_bodies e" by (metis result_state_simps(2))
    with Pair k show ?thesis by (cases r) simp_all
  qed
qed

lemma init_keeps_bodies: "e_bodies (state_of (handle_init_physics h argvs e)) = e_bodies e"
proof -
  have "keeps_bodies (handle_init_physics h argvs)"
    unfolding handle_init_physics_def by (intro keeps_bodies_bindp keeps_bodies_intros)
  then show ?thesis by (simp add: keeps_bodies_def)
qed

subsection \<open>Properties of the requests and of loading\<close>

text \<open>C16: what a client packs is what the handlers are given: the frames of its requests, sent in
  any pieces, are taken apart into the same methods and arguments in the same order, with nothing
  left in the buffer.\<close>

theorem editor_requests_roundtrip:
  assumes "packs h" and "pack_requests h reqs = Inr (concat pieces)"
  shows "List.map (unpack_request h) (requests_in (stream_of c (Made c # List.map (Data c) pieces))) =
      List.map Inr reqs \<and>
    dget (s_buffers (serve h (Made c # List.map (Data c) pieces) (start_server e))) c = Some []"
proof -
  have s: "stream_of c (Made c # List.map (Data c) pieces) = Some (concat pieces)"
    by (rule stream_of_pieces)
  obtain served where "serves h e (Made c # List.map (Data c) pieces) served
      (serve h (Made c # List.map (Data c) pieces) (start_server e))" using serves_turns by blast
  with drain_requests [OF assms] show ?thesis by (auto simp: serves_def s requests_in_def)
qed

text \<open>C31: loading a scene answers with the number of bodies it made, all of them in the table under
  distinct keys; when it answers with an error the table is the one before.\<close>

theorem editor_load_scene_counts:
  assumes "counts_bodies h c" and "handle_load_scene h argvs e = (Inr result, e')"
  shows "(result = [VInt (int (length (e_bodies e')))] \<and> distinct (keys (e_bodies e')) \<and>
          c (e_native e') = c (e_native e) + length (e_bodies e')) \<or>
         ((\<exists>m. result = error_reply m) \<and> e_bodies e' = e_bodies e)"
  by (rule load_scene_outcome [OF assms])

subsection \<open>An instance\<close>

text \<open>A native engine that only counts its bodies, a library that packs three values, and one cube to load.\<close>

definition demo_cube :: pyv where
  "demo_cube = VDict [(VStr ''objects'', VList [VDict [(VStr ''object_type'', VStr ''cube'')]])]"

definition demo_dumps :: "pyv \<Rightarrow> pyexn + byte list" where
  "demo_dumps v =
     (if v = VList [VStr ''load_scene'', VList [VStr ''m'']] then Inr [1]
      else if v = VList [VStr err_tag, VStr ''e''] then Inr [2]
      else if v = VList [VInt 1] then Inr [3] else Inl TypeError)"

definition demo_loads :: "byte list \<Rightarrow> pyexn + pyv" where
  "demo_loads b =
     (if b = [1] then Inr (VList [VStr ''load_scene'', VList [VStr ''m'']])
      else if b = [2] then Inr (VList [VStr err_tag, VStr ''e''])
      else if b = [3] then Inr (VList [VInt 1]) else Inl ValueError)"

definition demo_host :: "nat host" where
  "demo_host = \<lparr>fl_mul = (\<lambda>a b. a), fl_add = (\<lambda>a b. a), fl_sub = (\<lambda>a b. a), fl_radians = (\<lambda>a. a),
     fl_cos = Inr, fl_sin = Inr, fl_of_int = (\<lambda>i. Inr ''1.0''), fl_of_text = (\<lambda>s. Inl ValueError),
     fl_of_bytes = (\<lambda>b. Inl ValueError), fl_zero = (\<lambda>f. f = ''0.0''), fl_is_int = (\<lambda>f i. False),
     h_text = (\<lambda>v. []), h_exn_text = (\<lambda>x. ''e''), h_dumps = demo_dumps, h_loads = demo_loads,
     h_manifest = (\<lambda>p. Inr demo_cube), h_is_file = (\<lambda>p. False),
     n_new_world = ret 0, n_create_scene = (\<lambda>w g. ret 1), n_destroy_scene = (\<lambda>w i. ret True),
     n_step = (\<lambda>w i dt. ret ()), n_cuboid = (\<lambda>x y z. ret 7), n_gltf_shapes = (\<lambda>p. ret []),
     n_add_fixed = (\<lambda>w i s p r n. (Inr n, n + 1)), n_add_dynamic = (\<lambda>w i s p r n. (Inr n, n + 1)),
     n_position = (\<lambda>b. ret zero3), n_rotation = (\<lambda>b. ret (''0.0'', ''0.0'', ''0.0'', ''1.0'')),
     n_drain_events = (\<lambda>w i. ret []), n_cast_ray = (\<lambda>w i a d t. ret None)\<rparr>"

definition demo_editor :: "nat editor" where
  "demo_editor = (new_editor 0)\<lparr>e_world := Some 0\<rparr>"

lemma demo_packs: "packs demo_host"
  by (simp add: packs_def demo_host_def demo_dumps_def demo_loads_def)

lemma demo_packs_errors: "packs_errors demo_host"
  by (simp add: packs_errors_def pack_error_def demo_host_def demo_dumps_def frame_def pack_u32_def)

lemma demo_counts: "counts_bodies demo_host (\<lambda>n. n)"
  by (simp add: counts_bodies_def demo_host_def)

lemma demo_request: "pack_requests demo_host [(VStr ''load_scene'', VList [VStr ''m''])] = Inr (concat [[1, 0], [0, 0, 1]])"
  by (simp add: pack_request_def demo_host_def demo_dumps_def err_tag_def frame_def pack_u32_def le_bytes_4)

theorem editor_answers_once_witness:
  "length (of_conn 5 (s_writes (serve demo_host [Made 5, Data 5 [1, 0, 0, 0, 9], Run] (start_server demo_editor)))) +
   length (of_conn 5 (s_tasks (serve demo_host [Made 5, Data 5 [1, 0, 0, 0, 9], Run] (start_server demo_editor)))) =
   length (requests_in (stream_of 5 [Made 5, Data 5 [1, 0, 0, 0, 9], Run]))"
  by (rule editor_answers_once [OF demo_packs_errors])

theorem editor_requests_roundtrip_witness:
  "List.map (unpack_request demo_host)
     (requests_in (stream_of 5 (Made 5 # List.map (Data 5) [[1, 0], [0, 0, 1]]))) =
   List.map Inr [(VStr ''load_scene'', VList [VStr ''m''])]"
  using editor_requests_roundtrip [OF demo_packs demo_request, of 5] by blast

lemma demo_load:
  "handle_load_scene demo_host (VList [VStr ''m'']) demo_editor =
     (Inr [VInt 1], demo_editor\<lparr>e_bodies := [(''proc_0'', 0)], e_native := 1\<rparr>)"
  by code_simp

theorem editor_load_scene_counts_witness:
  "\<exists>result e'. handle_load_scene demo_host (VList [VStr ''m'']) demo_editor = (Inr result, e') \<and>
     result = [VInt (int (length (e_bodies e')))] \<and> distinct (keys (e_bodies e')) \<and>
     e_native e' = e_native demo_editor + length (e_bodies e')"
proof (intro exI conjI)
  show "handle_load_scene demo_host (VList [VStr ''m'']) demo_editor =
      (Inr [VInt 1], demo_editor\<lparr>e_bodies := [(''proc_0'', 0)], e_native := 1\<rparr>)" by (rule demo_load)
qed (use editor_load_scene_counts [OF demo_counts demo_load] in \<open>auto simp: error_reply_def\<close>)

end
