(* ===== verification/Ts_Tools.thy ===== *)
theory Ts_Tools
  imports Rpc_Tools
begin

section \<open>Interface compiler, TypeScript: types, defaults and the code of one value\<close>

text \<open>
  \<open>src/rpc/tools/ts/tools.py\<close> and \<open>gen_tools.py\<close>.  The classification of types is the one of the
  Python target, word for word; the texts differ, a type of another file is written with the name
  of its file in front, and the type of the elements of a list is cut out in other ways.
\<close>

subsection \<open>Types\<close>

definition ts_check_in_dependent :: "string \<Rightarrow> dependents \<Rightarrow> bool" where
  "ts_check_in_dependent typestr dependent = check_in_dependent typestr dependent"

definition ts_get_import :: "string \<Rightarrow> dependents \<Rightarrow> string" where
  "ts_get_import typestr dependent = get_import typestr dependent"

definition ts_check_type :: "string \<Rightarrow> dependents \<Rightarrow> dependents \<Rightarrow> pyexn + type_type" where
  "ts_check_type typestr dependent_struct dependent_enum = check_type typestr dependent_struct dependent_enum"

definition ts_check_type_original :: "type_type \<Rightarrow> bool" where
  "ts_check_type_original ty = check_type_original ty"

lemmas ts_same = ts_check_in_dependent_def ts_get_import_def ts_check_type_def ts_check_type_original_def

definition ts_types :: "(string, string) dict" where
  "ts_types = [(''int8'', ''number''), (''int16'', ''number''), (''int32'', ''number''), (''int64'', ''number''),
     (''uint8'', ''number''), (''uint16'', ''number''), (''uint32'', ''number''), (''uint64'', ''number''),
     (''string'', ''string''), (''float'', ''number''), (''double'', ''number''), (''bool'', ''boolean''),
     (''bin'', ''Uint8Array'')]"

text \<open>A name of the file \<open>imp\<close>, empty for the own file.\<close>

definition of_file :: "string \<Rightarrow> string \<Rightarrow> string" where
  "of_file imp name = (if imp = [] then name else imp @ dot @ name)"

lemma child_type_measure: "is_list_type t \<Longrightarrow> length (child_type t) < length t"
  by (auto simp: is_list_type_def child_type_def)

function ts_convert_type :: "string \<Rightarrow> dependents \<Rightarrow> dependents \<Rightarrow> pyexn + string" where
  "ts_convert_type typestr dependent_struct dependent_enum =
     (case dget ts_types typestr of
        Some t \<Rightarrow> Inr t
      | None \<Rightarrow>
          if ts_check_in_dependent typestr dependent_struct then
            Inr (of_file (ts_get_import typestr dependent_struct) typestr)
          else if ts_check_in_dependent typestr dependent_enum then
            Inr (of_file (ts_get_import typestr dependent_enum) typestr)
          else if length typestr < 2 then Inl IndexError
          else if is_list_type typestr then
            bindr (ts_convert_type (child_type typestr) dependent_struct dependent_enum)
              (\<lambda>array_type. Inr (''Array<'' @ array_type @ ''>''))
          else Inl (Exception (''non exist type:'' @ typestr)))"
  by pat_completeness auto
termination
  by (relation "measure (\<lambda>(t, ds, de). length t)") (auto simp: child_type_measure)

declare ts_convert_type.simps [simp del]

subsection \<open>Defaults\<close>

definition ts_convert_parameter ::
  "string \<Rightarrow> string \<Rightarrow> dependents \<Rightarrow> (string, (string \<times> string) list) dict \<Rightarrow> pyexn + string option" where
  "ts_convert_parameter typestr parameter dependent_enum enum =
     (if typestr \<in> {''int8'', ''int16'', ''int32'', ''int64'', ''uint8'', ''uint16'', ''uint32'', ''uint64'', ''string'',
                     ''float'', ''double'', ''bool''}
      then Inr (Some parameter)
      else if ts_check_in_dependent typestr dependent_enum then
        bindr (split_dot1 parameter) (\<lambda>member.
        bindr (getitem enum typestr) (\<lambda>enum_elems.
          if member \<in> set (List.map fst enum_elems) \<and> split_dot0 parameter = typestr then
            Inr (Some (of_file (ts_get_import typestr dependent_enum) (typestr @ dot @ parameter)))
          else Inl (Exception (''parameter:'' @ parameter @ '' not '' @ typestr @ '' member''))))
      else if typestr = ''bin'' then Inr (Some (''Uint8Array.from('' @ parameter @ '')''))
      else Inr None)"

text \<open>The last test reads \<open>typestr[4]\<close> after \<open>typestr[0:4] == 'list'\<close>.\<close>

definition ts_default_parameter ::
  "string \<Rightarrow> dependents \<Rightarrow> dependents \<Rightarrow> (string, (string \<times> string) list) dict \<Rightarrow> pyexn + string" where
  "ts_default_parameter typestr dependent_struct dependent_enum enum =
     (if typestr \<in> {''int8'', ''int16'', ''int32'', ''int64'', ''uint8'', ''uint16'', ''uint32'', ''uint64''}
      then Inr ''0''
      else if typestr = ''string'' then Inr (dq @ dq)
      else if typestr \<in> {''float'', ''double''} then Inr ''0.0''
      else if typestr = ''bool'' then Inr ''false''
      else if ts_check_in_dependent typestr dependent_enum then
        bindr (getitem enum typestr) (\<lambda>enum_elems.
          case enum_elems of
            [] \<Rightarrow> Inl IndexError
          | (key, v) # _ \<Rightarrow> Inr (of_file (ts_get_import typestr dependent_enum) (typestr @ dot @ key)))
      else if typestr = ''bin'' then Inr ''Uint8Array.from([])''
      else if ts_check_in_dependent typestr dependent_struct then Inr ''null''
      else if take 4 typestr = ''list'' then
        (if length typestr = 4 then Inl IndexError
         else if typestr ! 4 = CHR ''<'' \<and> List.last typestr = CHR ''>'' then Inr ''[]'' else Inr ''null'')
      else Inr ''null'')"

subsection \<open>The code that packs a value\<close>

text \<open>The element type of a list is taken with \<open>_type[5:-1]\<close>.\<close>

function ts_gen_type_code_type_to_protcol ::
    "uuids \<Rightarrow> nat \<Rightarrow> string \<Rightarrow> string \<Rightarrow> string \<Rightarrow> type_type \<Rightarrow> string \<Rightarrow> string \<Rightarrow> dependents \<Rightarrow> dependents \<Rightarrow> pyexn + string"
  and ts_gen_list_type_code_type_to_protcol ::
    "uuids \<Rightarrow> nat \<Rightarrow> string \<Rightarrow> string \<Rightarrow> string \<Rightarrow> string \<Rightarrow> string \<Rightarrow> dependents \<Rightarrow> dependents \<Rightarrow> pyexn + string" where
  "ts_gen_type_code_type_to_protcol u depth container c_type ty ty_enum name func_name ds de =
     (if ty_enum = T_List then ts_gen_list_type_code_type_to_protcol u depth container c_type ty name func_name ds de
      else if c_type = ''list'' \<and> ts_check_type_original ty_enum then
        Inr (space_of depth @ container @ ''.push('' @ name @ '');'' @ eol)
      else if c_type = ''list'' \<and> ty_enum = T_Custom then
        Inr (space_of depth @ container @ ''.push('' @ of_file (ts_get_import ty ds) (ty @ ''_to_protcol('' @ name @ ''));'') @ eol)
      else Inl (Exception (''not support type:'' @ ty @ '' in func:'' @ func_name)))"
| "ts_gen_list_type_code_type_to_protcol u depth container c_type ty name func_name ds de =
     (case ts_check_type (slice51 ty) ds de of
        Inl e \<Rightarrow> Inl e
      | Inr child_enum \<Rightarrow>
          bindr (ts_gen_type_code_type_to_protcol u (depth + 1) (''_list_'' @ u3 u name) ''list'' (slice51 ty)
                   child_enum (''v_'' @ u5 u name) func_name ds de) (\<lambda>inner.
            Inr (space_of depth @ ''_list_'' @ u3 u name @ '' = [];'' @ eol @
                 space_of depth @ ''for (let v_'' @ u5 u name @ '' of '' @ name @ '') {'' @ eol @
                 inner @ space_of depth @ ''}'' @ eol @
                 (if c_type = ''list'' then space_of depth @ container @ ''.push(_list_'' @ u3 u name @ '')'' @ eol else []))))"
  by pat_completeness auto
termination
  by (relation "measure (\<lambda>x. case x of
      Inl (u, depth, container, c_type, ty, ty_enum, name, fn, ds, de) \<Rightarrow> 2 * length ty + (if ty_enum = T_List then 2 else 0)
    | Inr (u, depth, container, c_type, ty, name, fn, ds, de) \<Rightarrow> 2 * length ty + 1)")
     (auto simp: ts_same dest: slice51_measure)

declare ts_gen_type_code_type_to_protcol.simps [simp del] ts_gen_list_type_code_type_to_protcol.simps [simp del]

subsection \<open>The code that unpacks a value\<close>

text \<open>The line that makes the list is overwritten by the line of the loop.\<close>

function ts_gen_type_code_protcol_to_type ::
    "uuids \<Rightarrow> nat \<Rightarrow> string \<Rightarrow> string \<Rightarrow> string \<Rightarrow> type_type \<Rightarrow> string \<Rightarrow> string \<Rightarrow> dependents \<Rightarrow> dependents \<Rightarrow> pyexn + string"
  and ts_gen_list_type_code_protcol_to_type ::
    "uuids \<Rightarrow> nat \<Rightarrow> string \<Rightarrow> string \<Rightarrow> string \<Rightarrow> string \<Rightarrow> string \<Rightarrow> dependents \<Rightarrow> dependents \<Rightarrow> pyexn + string" where
  "ts_gen_type_code_protcol_to_type u depth container c_type ty ty_enum name func_name ds de =
     (if ty_enum = T_List then ts_gen_list_type_code_protcol_to_type u depth container c_type ty name func_name ds de
      else if c_type = ''list'' \<and> ts_check_type_original ty_enum then
        Inr (space_of depth @ container @ ''.push('' @ name @ '')'' @ eol)
      else if c_type = ''list'' \<and> ty_enum = T_Custom then
        Inr (space_of depth @ container @ ''.push('' @ of_file (ts_get_import ty ds) (''protcol_to_'' @ ty @ ''('' @ name @ ''))'') @ eol)
      else Inl (Exception (''not support type:'' @ ty @ '' in func:'' @ func_name)))"
| "ts_gen_list_type_code_protcol_to_type u depth container c_type ty name func_name ds de =
     (case ts_check_type (slice51 ty) ds de of
        Inl e \<Rightarrow> Inl e
      | Inr child_enum \<Rightarrow>
          bindr (ts_gen_type_code_protcol_to_type u (depth + 1) (''_list_'' @ u3 u name) ''list'' (slice51 ty)
                   child_enum (''v_'' @ u5 u name) func_name ds de) (\<lambda>inner.
            Inr (space_of depth @ ''for (let v_'' @ u5 u name @ '' of '' @ name @ '') {'' @ eol @
                 inner @ space_of depth @ ''}'' @ eol @
                 (if c_type = ''list'' then space_of depth @ container @ ''.push(_list_'' @ u3 u name @ '')'' @ eol else []))))"
  by pat_completeness auto
termination
  by (relation "measure (\<lambda>x. case x of
      Inl (u, depth, container, c_type, ty, ty_enum, name, fn, ds, de) \<Rightarrow> 2 * length ty + (if ty_enum = T_List then 2 else 0)
    | Inr (u, depth, container, c_type, ty, name, fn, ds, de) \<Rightarrow> 2 * length ty + 1)")
     (auto simp: ts_same dest: slice51_measure)

declare ts_gen_type_code_protcol_to_type.simps [simp del] ts_gen_list_type_code_protcol_to_type.simps [simp del]

subsection \<open>Dictionaries\<close>

text \<open>Two functions that nothing calls, as in Python; the one that unpacks overwrites the line of its loop too.\<close>

definition ts_gen_dict_type_code_type_to_protcol ::
  "uuids \<Rightarrow> nat \<Rightarrow> string \<Rightarrow> string \<Rightarrow> string \<Rightarrow> string \<Rightarrow> string \<Rightarrow> dependents \<Rightarrow> dependents \<Rightarrow> pyexn + string" where
  "ts_gen_dict_type_code_type_to_protcol u depth container c_type ty name func_name ds de =
     bindr (ts_check_type (slice41 ty) ds de) (\<lambda>child_enum.
     bindr (ts_gen_type_code_type_to_protcol u (depth + 1) (''_list_'' @ u3 u name) ''dict'' (slice41 ty)
              child_enum (''v_'' @ u5 u name) func_name ds de) (\<lambda>inner.
       Inr (space_of depth @ ''for (let [k_'' @ u5 u name @ '', v_'' @ u5 u name @ ''] of '' @ name @ '') {'' @ eol @
            inner @ space_of depth @ ''}'' @ eol @
            (if c_type = ''list'' then space_of depth @ container @ ''.push(_dict_'' @ u3 u name @ '');'' @ eol else []))))"

definition ts_gen_dict_type_code_protcol_to_type ::
  "uuids \<Rightarrow> nat \<Rightarrow> string \<Rightarrow> string \<Rightarrow> string \<Rightarrow> string \<Rightarrow> string \<Rightarrow> dependents \<Rightarrow> dependents \<Rightarrow> pyexn + string" where
  "ts_gen_dict_type_code_protcol_to_type u depth container c_type ty name func_name ds de =
     bindr (ts_check_type (slice41 ty) ds de) (\<lambda>child_enum.
     bindr (ts_gen_type_code_protcol_to_type u (depth + 1) (''_list_'' @ u3 u name) ''dict'' (slice41 ty)
              child_enum (''v_'' @ u5 u name) func_name ds de) (\<lambda>inner.
       Inr (space_of depth @ ''    v_'' @ u5 u name @ '' = '' @ name @ ''[k_'' @ u5 u name @ ''];'' @ eol @
            inner @ space_of depth @ ''}'' @ eol @
            (if c_type = ''list'' then space_of depth @ container @ ''.push(_dict_'' @ u3 u name @ '');'' @ eol else []))))"

lemma ts_gen_dict_rejects:
  assumes "ts_check_type (slice41 ty) ds de = Inr k" and "k \<noteq> T_List"
  shows "isl (ts_gen_dict_type_code_type_to_protcol u depth container c_type ty name fn ds de)"
    and "isl (ts_gen_dict_type_code_protcol_to_type u depth container c_type ty name fn ds de)"
  using assms by (simp_all add: ts_gen_dict_type_code_type_to_protcol_def ts_gen_dict_type_code_protcol_to_type_def
      ts_gen_type_code_type_to_protcol.simps ts_gen_type_code_protcol_to_type.simps)

subsection \<open>The code of one argument of a handler\<close>

definition ts_gen_type_code_module ::
  "uuids \<Rightarrow> nat \<Rightarrow> nat \<Rightarrow> string \<Rightarrow> type_type \<Rightarrow> string \<Rightarrow> string \<Rightarrow> dependents \<Rightarrow> dependents \<Rightarrow> pyexn + string" where
  "ts_gen_type_code_module u depth count ty ty_enum name func_name ds de =
     (if ty_enum = T_List then
        bindr (ts_check_type (child_type ty) ds de) (\<lambda>child_enum.
        bindr (ts_gen_type_code_protcol_to_type u (depth + 1) (''_'' @ name) ''list'' (child_type ty) child_enum
                 (''v_'' @ u5 u name) func_name ds de) (\<lambda>inner.
          Inr (space_of depth @ ''let _'' @ name @ '':Array<'' @
                 of_file (ts_get_import (child_type ty) ds) (child_type ty) @ ''> = [];'' @ eol @
               space_of depth @ ''for (let v_'' @ u5 u name @ '' of inArray['' @ nat_str count @ '']) {'' @ eol @
               inner @ space_of depth @ ''}'' @ eol)))
      else if ts_check_type_original ty_enum then
        Inr (space_of depth @ ''let _'' @ name @ '' = inArray['' @ nat_str count @ ''];'' @ eol)
      else
        Inr (space_of depth @ ''let _'' @ name @ '' = '' @
             of_file (ts_get_import ty ds) (''protcol_to_'' @ ty @ ''(inArray['' @ nat_str count @ '']);'') @ eol))"

subsection \<open>The code of a list field of a structure\<close>

text \<open>Every caller passes \<open>list\<close> as the kind of the container.\<close>

function ts_gen_struct_container_protocol ::
    "uuids \<Rightarrow> nat \<Rightarrow> string \<Rightarrow> string \<Rightarrow> string \<Rightarrow> dependents \<Rightarrow> dependents \<Rightarrow> pyexn + string" where
  "ts_gen_struct_container_protocol u depth container array_type value_name ds de =
     (case ts_check_type array_type ds de of
        Inl e \<Rightarrow> Inl e
      | Inr k \<Rightarrow>
          if k = T_List then
            bindr (ts_gen_struct_container_protocol u (depth + 1) (''_array_'' @ u5 u value_name) (child_type array_type)
                     (''v_'' @ u5 u value_name) ds de) (\<lambda>inner.
              Inr (space_of depth @ ''_array_'' @ u5 u value_name @ '' = [];'' @ eol @
                   space_of depth @ ''for (let v_'' @ u5 u value_name @ '' of '' @ value_name @ '') {'' @ eol @
                   inner @ space_of depth @ ''}'' @ eol @
                   space_of depth @ container @ ''.push(_array_'' @ u5 u value_name @ '');'' @ eol))
          else if ts_check_type_original k then Inr (space_of depth @ container @ ''.push('' @ value_name @ '')'' @ eol)
          else Inr (space_of depth @ container @ ''.push('' @
                 of_file (ts_get_import array_type ds) (array_type @ ''_to_protcol('' @ value_name @ ''))'') @ eol))"
  by pat_completeness auto
termination
  by (relation "measure (\<lambda>(u, depth, container, ty, v, ds, de). length ty)") (auto simp: ts_same child_type_shorter)

function ts_gen_struct_protocol_container ::
    "uuids \<Rightarrow> nat \<Rightarrow> string \<Rightarrow> string \<Rightarrow> string \<Rightarrow> dependents \<Rightarrow> dependents \<Rightarrow> pyexn + string" where
  "ts_gen_struct_protocol_container u depth container array_type value_name ds de =
     (case ts_check_type array_type ds de of
        Inl e \<Rightarrow> Inl e
      | Inr k \<Rightarrow>
          if k = T_List then
            bindr (ts_gen_struct_protocol_container u (depth + 1) (''_array_'' @ u5 u value_name) (child_type array_type)
                     (''v_'' @ u5 u value_name) ds de) (\<lambda>inner.
              Inr (space_of depth @ ''_array_'' @ u5 u value_name @ '' = [];'' @ eol @
                   space_of depth @ ''for (let v_'' @ u5 u value_name @ '' of '' @ value_name @ '') {'' @ eol @
                   inner @ space_of depth @ ''}'' @ eol @
                   space_of depth @ container @ ''.push(_array_'' @ u5 u value_name @ '');'' @ eol))
          else if ts_check_type_original k then Inr (space_of depth @ container @ ''.push('' @ value_name @ '');'' @ eol)
          else Inr (space_of depth @ container @ ''.push('' @
                 of_file (ts_get_import array_type ds) (''protcol_to_'' @ array_type @ ''('' @ value_name @ ''));'') @ eol))"
  by pat_completeness auto
termination
  by (relation "measure (\<lambda>(u, depth, container, ty, v, ds, de). length ty)") (auto simp: ts_same child_type_shorter)

declare ts_gen_struct_container_protocol.simps [simp del] ts_gen_struct_protocol_container.simps [simp del]

end
