(* ===== verification/Ts_Gen.thy ===== *)
theory Ts_Gen
  imports Ts_Tools Rpc_Gen
begin

section \<open>Interface compiler: the generators of TypeScript code\<close>

text \<open>
  \<open>src/rpc/gen\<close>, the TypeScript targets: enumerations and structures, the caller of the services a
  client calls on a hub (\<open>client_call_hub\<close>) and the modules of the services a hub calls on a client
  (\<open>hub_call_client\<close>).  The walks over the arguments are those of the Python targets.
\<close>

subsection \<open>Arguments\<close>

text \<open>\<open>name:type\<close>, the same with the default when there is one, and the type alone.\<close>

definition ts_name_type :: "dependents \<Rightarrow> dependents \<Rightarrow> string \<times> string \<times> string option \<Rightarrow> pyexn + string" where
  "ts_name_type ds de a = (case a of (ty, name, parameter) \<Rightarrow>
     bindr (ts_convert_type ty ds de) (\<lambda>t. Inr (name @ '':'' @ t)))"

definition ts_sig_arg :: "dependents \<Rightarrow> dependents \<Rightarrow> (string, (string \<times> string) list) dict \<Rightarrow>
    string \<times> string \<times> string option \<Rightarrow> pyexn + string" where
  "ts_sig_arg ds de enum a = (case a of (ty, name, parameter) \<Rightarrow>
     bindr (ts_convert_type ty ds de) (\<lambda>t. case parameter of
         None \<Rightarrow> Inr (name @ '':'' @ t)
       | Some p \<Rightarrow> bindr (ts_convert_parameter ty p de enum) (\<lambda>v. case v of
             None \<Rightarrow> Inl TypeError
           | Some v \<Rightarrow> Inr (name @ '':'' @ t @ '' = '' @ v))))"

definition ts_type_arg :: "dependents \<Rightarrow> dependents \<Rightarrow> string \<times> string \<times> string option \<Rightarrow> pyexn + string" where
  "ts_type_arg ds de a = (case a of (ty, name, parameter) \<Rightarrow> ts_convert_type ty ds de)"

definition ts_pack_arg :: "uuids \<Rightarrow> string \<Rightarrow> string \<Rightarrow> dependents \<Rightarrow> dependents \<Rightarrow>
    string \<times> string \<times> string option \<Rightarrow> pyexn + string" where
  "ts_pack_arg u container func_name ds de a = (case a of (ty, name, parameter) \<Rightarrow>
     bindr (ts_check_type ty ds de) (\<lambda>k.
       ts_gen_type_code_type_to_protcol u 2 container ''list'' ty k name func_name ds de))"

definition ts_unpack_arg :: "uuids \<Rightarrow> string \<Rightarrow> dependents \<Rightarrow> dependents \<Rightarrow> nat \<Rightarrow>
    string \<times> string \<times> string option \<Rightarrow> pyexn + string" where
  "ts_unpack_arg u func_name ds de count a = (case a of (ty, name, parameter) \<Rightarrow>
     bindr (ts_check_type ty ds de) (\<lambda>k. ts_gen_type_code_module u 2 count ty k name func_name ds de))"

text \<open>\<open>for ... in i[n]\<close> with a counter that starts at \<open>n\<close>.\<close>

definition for_args_from :: "nat \<Rightarrow> (nat \<Rightarrow> string \<times> string \<times> string option \<Rightarrow> pyexn + 'b) \<Rightarrow> func_item \<Rightarrow> pyexn + 'b list" where
  "for_args_from n f x = bindr (args_of x) (count_res (\<lambda>n a. bindr (unpack3 a) (f n)) n)"

definition commas :: "string list \<Rightarrow> string" where
  "commas xs = comma_upto (length xs) 0 xs"

definition ts_callback :: "string \<Rightarrow> string list \<Rightarrow> string" where
  "ts_callback first ts = ''('' @ first @ commas ts @ '') => void''"

subsection \<open>The caller of a service of the hub\<close>

text \<open>
  The method: its signature, the packing of the arguments, what is done with them.  The array of a
  notification has no declared type, the one of a request is \<open>any[]\<close>.
\<close>

definition ts_caller_method :: "uuids \<Rightarrow> string \<Rightarrow> func_item \<Rightarrow> string \<Rightarrow> string \<Rightarrow> dependents \<Rightarrow> dependents \<Rightarrow>
    (string, (string \<times> string) list) dict \<Rightarrow> pyexn + string" where
  "ts_caller_method u func_name i2 decl final ds de enum =
     bindr (for_args (ts_sig_arg ds de enum) i2) (\<lambda>sigs.
     bindr (for_args (ts_pack_arg u (''_argv_'' @ u3 u func_name) func_name ds de) i2) (\<lambda>packs.
       Inr (line (''    public  '' @ func_name @ ''('' @ commas sigs @ '') {'') @
            line (''        let _argv_'' @ u3 u func_name @ decl @ '' = []'') @ concat packs @ final @
            ''    }'' @ eol @ eol)))"

definition ts_on_answer :: "uuids \<Rightarrow> string \<Rightarrow> string \<Rightarrow> string \<Rightarrow> string \<Rightarrow> func_item \<Rightarrow> nat \<Rightarrow>
    dependents \<Rightarrow> dependents \<Rightarrow> pyexn + string" where
  "ts_on_answer u mname cb close func_name args n ds de =
     bindr (for_args_count (ts_unpack_arg u func_name ds de) args) (\<lambda>unpacks.
     bindr (for_args name_arg args) (\<lambda>names.
       Inr (line (''    private '' @ mname @ ''(bin:Uint8Array) {'') @
            line ''        let inArray = decode(bin) as any;'' @ concat unpacks @
            ''        if ('' @ cb @ '') '' @ cb @ ''.call(null, '' @ comma_upto n 0 names @ close @ eol @ eol @
            ''    }'' @ eol @ eol)))"

definition ts_caller_cb :: "uuids \<Rightarrow> string \<Rightarrow> string \<Rightarrow> func_item \<Rightarrow> func_item \<Rightarrow> string \<Rightarrow> string \<Rightarrow>
    dependents \<Rightarrow> dependents \<Rightarrow> pyexn + string" where
  "ts_caller_cb u module_name func_name i4 i6 rsp_fn err_fn ds de =
     bindr (args_of i4) (\<lambda>a4.
     bindr (ts_on_answer u ''on_rsp'' ''this.cb'' '');'' func_name i4 (length a4) ds de) (\<lambda>on_rsp.
     bindr (ts_on_answer u ''on_err'' ''this.err'' '')'' func_name i6 (length a4) ds de) (\<lambda>on_err.
       Inr (line (''export class '' @ module_name @ ''_'' @ func_name @ ''_cb {'') @
            line ''    public entity:engine.subentity|engine.player;'' @
            line (''    public cb:('' @ rsp_fn @ '')|null = null;'') @
            line (''    public err:('' @ err_fn @ '')|null = null;'') @
            line ''    public rsp:engine.callback;'' @
            line ''    public constructor(_cb_uuid:number, _entity:engine.subentity|engine.player) {'' @
            line ''        this.entity = _entity'' @
            line ''        this.rsp = new engine.callback(() => { return this.entity.del_callback(_cb_uuid); });'' @
            ''        this.entity.reg_hub_callback(_cb_uuid, this.rsp)'' @ eol @ eol @
            ''    }'' @ eol @ eol @
            on_rsp @ on_err @
            line (''    public callBack(_cb:'' @ rsp_fn @ '', _err:'' @ err_fn @ '') {'') @
            line ''        this.cb = _cb;'' @ line ''        this.err = _err;'' @
            line ''        this.rsp.callback(this.on_rsp.bind(this), this.on_err.bind(this));'' @
            line ''        return this.rsp;'' @ ''    }'' @ eol @ eol))))"

definition ts_caller_func :: "uuids \<Rightarrow> string \<Rightarrow> dependents \<Rightarrow> dependents \<Rightarrow>
    (string, (string \<times> string) list) dict \<Rightarrow> func_item list \<Rightarrow> pyexn + string \<times> string" where
  "ts_caller_func u module_name ds de enum i =
     bindr (item i 0) (\<lambda>f. bindr (item i 1) (\<lambda>k.
     if k = Word ''ntf'' then
       bindr (word_of f) (\<lambda>func_name. bindr (item i 2) (\<lambda>i2.
       bindr (ts_caller_method u func_name i2 []
         (line (''        this.entity.call_hub_notify('' @ dq @ func_name @ dq @ '', encode(_argv_'' @ u3 u func_name @ ''))''))
         ds de enum) (\<lambda>code. Inr ([], code))))
     else bindr (is_request i) (\<lambda>req.
       if \<not> req then bindr (word_of f) (\<lambda>func_name. wrong_rpc '', must req or ntf'' func_name k) else
       bindr (item i 4) (\<lambda>i4. bindr (for_args (ts_name_type ds de) i4) (\<lambda>t4.
       bindr (item i 6) (\<lambda>i6. bindr (for_args (ts_name_type ds de) i6) (\<lambda>t6.
       bindr (word_of f) (\<lambda>func_name.
       bindr (ts_caller_cb u module_name func_name i4 i6 (ts_callback [] t4) (ts_callback [] t6) ds de) (\<lambda>cb.
       bindr (item i 2) (\<lambda>i2.
       bindr (ts_caller_method u func_name i2 '':any[]''
         (line (''        let _cb_uuid = this.entity.call_hub_request('' @ dq @ func_name @ dq @ '', encode(_argv_'' @
            u3 u func_name @ ''));'') @
          line (''        return new '' @ module_name @ ''_'' @ func_name @ ''_cb(_cb_uuid, this.entity);''))
         ds de enum) (\<lambda>code. Inr (cb @ ''}'' @ eol @ eol, code))))))))))))"

definition ts_gen_entity_caller :: "uuids \<Rightarrow> service_gen" where
  "ts_gen_entity_caller u module_name funcs ds de enum =
     bindr (map_res (ts_caller_func u module_name ds de enum) funcs) (\<lambda>codes.
       Inr (concat (List.map fst codes) @
            line (''export class '' @ module_name @ ''_caller {'') @
            line ''    public entity:engine.subentity|engine.player;'' @
            line ''    public constructor(entity:engine.subentity|engine.player) {'' @
            line ''        this.entity = entity;'' @ ''    }'' @ eol @ eol @
            concat (List.map snd codes) @ line ''}''))"

subsection \<open>The modules of a client\<close>

text \<open>The method that handles a call: the arguments are read from index \<open>start\<close> on.\<close>

definition ts_module_method :: "uuids \<Rightarrow> string \<Rightarrow> string \<Rightarrow> string \<Rightarrow> string \<Rightarrow> string \<Rightarrow> nat \<Rightarrow> func_item \<Rightarrow>
    dependents \<Rightarrow> dependents \<Rightarrow> pyexn + string" where
  "ts_module_method u func_name params first made close start i2 ds de =
     bindr (for_args_from start (ts_unpack_arg u func_name ds de) i2) (\<lambda>unpacks.
     bindr (for_args name_arg i2) (\<lambda>names.
       Inr (line (''    public '' @ func_name @ ''('' @ params @ '', bin:Uint8Array) {'') @
            line ''        let inArray = decode(bin) as any;'' @ concat unpacks @
            line (''        let '' @ first @ '' = '' @ made) @
            line (''        for (let fn of this.on_'' @ func_name @ '') {'') @
            ''            fn('' @ first @ '', '' @ commas names @ close @
            line ''        }'' @ ''    }'' @ eol @ eol)))"

definition ts_session_method :: "uuids \<Rightarrow> string \<Rightarrow> func_item \<Rightarrow> dependents \<Rightarrow> dependents \<Rightarrow> pyexn + string" where
  "ts_session_method u func_name i2 ds de =
     ts_module_method u func_name ''hub_name:string'' ''s'' ''new engine.session(hub_name)'' ('');'' @ eol) 0 i2 ds de"

text \<open>The methods \<open>rsp\<close> and \<open>err\<close> of the answer object.\<close>

definition ts_answer_method :: "uuids \<Rightarrow> string \<Rightarrow> string \<Rightarrow> func_item \<Rightarrow> string \<Rightarrow> dependents \<Rightarrow> dependents \<Rightarrow>
    (string, (string \<times> string) list) dict \<Rightarrow> pyexn + string" where
  "ts_answer_method u mname func_name args call ds de enum =
     bindr (for_args (ts_sig_arg ds de enum) args) (\<lambda>sigs.
     bindr (for_args (ts_pack_arg u (''_argv_'' @ u3 u func_name) func_name ds de) args) (\<lambda>packs.
       Inr (line (''    public '' @ mname @ ''('' @ commas sigs @ '') {'') @
            line ''        if (this.is_rsp) {'' @ line ''            return'' @ line ''        }'' @
            ''        this.is_rsp = false;'' @ eol @ eol @
            line (''        let _argv_'' @ u3 u func_name @ '':any[] = [];'') @ concat packs @
            line (''        this.entity.'' @ call @ ''(this.msg_cb_id, encode(_argv_'' @ u3 u func_name @ ''));'') @
            ''    }'' @ eol @ eol)))"

definition ts_module_rsp :: "uuids \<Rightarrow> string \<Rightarrow> string \<Rightarrow> func_item list \<Rightarrow> dependents \<Rightarrow> dependents \<Rightarrow>
    (string, (string \<times> string) list) dict \<Rightarrow> pyexn + string" where
  "ts_module_rsp u module_name func_name i ds de enum =
     bindr (item i 4) (\<lambda>i4.
     bindr (ts_answer_method u ''rsp'' func_name i4 ''call_hub_response'' ds de enum) (\<lambda>rsp.
     bindr (item i 6) (\<lambda>i6.
     bindr (ts_answer_method u ''err'' func_name i6 ''call_hub_response_error'' ds de enum) (\<lambda>err.
       Inr (line (''export class '' @ module_name @ ''_'' @ func_name @ ''_rsp extends engine.session {'') @
            line ''    public entity:engine.player;'' @ line ''    public is_rsp:boolean = false;'' @
            line ''    public msg_cb_id:number;'' @
            line ''    public constructor(hub_name:string, msg_cb_id:number, entity:engine.player) {'' @
            line ''        super(hub_name);'' @ line ''        this.entity = entity;'' @
            line ''        this.msg_cb_id = msg_cb_id;'' @ ''    }'' @ eol @ eol @
            rsp @ err @ ''}'' @ eol @ eol)))))"

text \<open>One function: the answer class, the declaration, the line of the constructor, the method.\<close>

definition ts_module_func :: "uuids \<Rightarrow> string \<Rightarrow> dependents \<Rightarrow> dependents \<Rightarrow>
    (string, (string \<times> string) list) dict \<Rightarrow> func_item list \<Rightarrow> pyexn + string \<times> string \<times> string \<times> string" where
  "ts_module_func u module_name ds de enum i =
     bindr (item i 0) (\<lambda>f. bindr (item i 1) (\<lambda>k.
     if k = Word ''ntf'' then
       bindr (item i 2) (\<lambda>i2. bindr (for_args (ts_name_type ds de) i2) (\<lambda>ts.
       bindr (word_of f) (\<lambda>func_name.
       bindr (ts_session_method u func_name i2 ds de) (\<lambda>code.
         Inr ([],
              line (''    public on_'' @ func_name @ '':('' @ ts_callback ''s:engine.session, '' ts @ '')[] = []''),
              line (''        this.entity.reg_hub_notify_callback('' @ dq @ func_name @ dq @ '', this.'' @ func_name @ '')''),
              code)))))
     else bindr (is_request i) (\<lambda>req. if \<not> req then wrong_rpc '' must req or ntf'' (str_item f) k else
       bindr (word_of f) (\<lambda>func_name.
       bindr (item i 2) (\<lambda>i2. bindr (for_args (ts_name_type ds de) i2) (\<lambda>ts.
       bindr (ts_module_method u func_name ''hub_name:string, msg_cb_id:number'' ''rsp''
         (''new '' @ module_name @ ''_'' @ func_name @ ''_rsp(hub_name, msg_cb_id, this.entity)'')
         ('')'' @ eol @ '';'' @ eol) 1 i2 ds de) (\<lambda>code.
       bindr (ts_module_rsp u module_name func_name i ds de enum) (\<lambda>rsp.
         Inr (rsp,
              line (''    public on_'' @ func_name @ '':('' @
                ts_callback (module_name @ ''_'' @ func_name @ ''_rsp, '') ts @ '')[] = []''),
              line (''        this.entity.reg_hub_request_callback('' @ dq @ func_name @ dq @ '', this.'' @ func_name @ '')''),
              code)))))))))"

definition ts_gen_entity_module :: "uuids \<Rightarrow> service_gen" where
  "ts_gen_entity_module u module_name funcs ds de enum =
     bindr (map_res (ts_module_func u module_name ds de enum) funcs) (\<lambda>codes.
       Inr (concat (List.map fst codes) @
            line (''export class '' @ module_name @ ''_module {'') @
            line ''    public entity:engine.player;'' @ concat (List.map (\<lambda>c. fst (snd c)) codes) @
            line ''    public constructor(entity:engine.player) {'' @
            ''        this.entity = entity'' @ eol @ eol @ concat (List.map (\<lambda>c. fst (snd (snd c))) codes) @
            ''    }'' @ eol @ eol @
            concat (List.map (\<lambda>c. snd (snd (snd c))) codes) @ line ''}''))"

text \<open>Multicast and global services: notifications only.\<close>

definition ts_mutil_func :: "uuids \<Rightarrow> dependents \<Rightarrow> dependents \<Rightarrow> func_item list \<Rightarrow> pyexn + string \<times> string \<times> string" where
  "ts_mutil_func u ds de i =
     bindr (item i 0) (\<lambda>f. bindr (item i 1) (\<lambda>k.
     if k = Word ''ntf'' then
       bindr (item i 2) (\<lambda>i2. bindr (for_args (ts_name_type ds de) i2) (\<lambda>ts.
       bindr (word_of f) (\<lambda>func_name.
       bindr (ts_session_method u func_name i2 ds de) (\<lambda>code.
         Inr (line (''    public on_'' @ func_name @ '':('' @ ts_callback ''s:engine.session, '' ts @ '')[] = [];''),
              line (''        this.entity.reg_hub_notify_callback('' @ dq @ func_name @ dq @ '', this.'' @ func_name @ '');''),
              code)))))
     else wrong_rpc '' must ntf'' (str_item f) k))"

definition ts_gen_mutil_module :: "uuids \<Rightarrow> service_gen" where
  "ts_gen_mutil_module u module_name funcs ds de enum =
     bindr (map_res (ts_mutil_func u ds de) funcs) (\<lambda>codes.
       Inr (line (''export class '' @ module_name @ ''_module {'') @
            line ''    public entity:engine.player|engine.subentity|engine.receiver;'' @ concat (List.map fst codes) @
            line ''    public constructor(entity:engine.player|engine.subentity|engine.receiver) {'' @
            line ''        this.entity = entity;'' @ concat (List.map (\<lambda>c. fst (snd c)) codes) @
            ''    }'' @ eol @ eol @ concat (List.map (\<lambda>c. snd (snd c)) codes) @ line ''}''))"

definition ts_global_func :: "uuids \<Rightarrow> dependents \<Rightarrow> dependents \<Rightarrow> func_item list \<Rightarrow> pyexn + string \<times> string \<times> string" where
  "ts_global_func u ds de i =
     bindr (item i 0) (\<lambda>f. bindr (item i 1) (\<lambda>k.
     if k = Word ''ntf'' then
       bindr (item i 2) (\<lambda>i2. bindr (for_args (ts_type_arg ds de) i2) (\<lambda>ts.
       bindr (word_of f) (\<lambda>func_name.
       bindr (ts_session_method u func_name i2 ds de) (\<lambda>code.
         Inr (line (''    public on_'' @ func_name @ '':('' @ ts_callback ''session, '' ts @ '')[] = []''),
              line (''        engine.app.instance.register_global_method('' @ dq @ func_name @ dq @ '', this.'' @ func_name @ '')''),
              code)))))
     else wrong_rpc '' must ntf'' (str_item f) k))"

definition ts_gen_global_module :: "uuids \<Rightarrow> service_gen" where
  "ts_gen_global_module u module_name funcs ds de enum =
     bindr (map_res (ts_global_func u ds de) funcs) (\<lambda>codes.
       Inr (line (''export class '' @ module_name @ ''_module {'') @ concat (List.map fst codes) @
            line ''    public constructor() {'' @ concat (List.map (\<lambda>c. fst (snd c)) codes) @
            ''    }'' @ eol @ eol @ concat (List.map (\<lambda>c. snd (snd c)) codes) @ line ''}''))"

subsection \<open>Whole files\<close>

definition ts_client_call_hub_gencaller where
  "ts_client_call_hub_gencaller u = gen_services ''// this caller code is codegen by geese codegen for typescript''
     [(''entity_service'', ts_gen_entity_caller u)]"

definition ts_hub_call_client_genmodule where
  "ts_hub_call_client_genmodule u = gen_services ''// this module code is codegen by geese codegen for typescript''
     [(''entity_service'', ts_gen_entity_module u), (''mutil_service'', ts_gen_mutil_module u),
      (''global_service'', ts_gen_global_module u)]"

subsection \<open>Enumerations and structures\<close>

fun ts_enum_lines :: "string \<Rightarrow> string list \<Rightarrow> (string \<times> string) list \<Rightarrow> pyexn + string" where
  "ts_enum_lines enum_name names [] = Inr []"
| "ts_enum_lines enum_name names ((key, v) # enums) =
     (if key \<in> set names
      then Inl (Exception (''repeat enum elem:'' @ key @ '' in enum:'' @ enum_name))
      else bindr (ts_enum_lines enum_name (names @ [key]) enums) (\<lambda>rest.
        Inr (line (''    '' @ key @ '' = '' @ v @ '','') @ rest)))"

definition ts_genenum :: "pretreatment \<Rightarrow> pyexn + string" where
  "ts_genenum e = bindr (map_res (\<lambda>(enum_name, enums).
       bindr (ts_enum_lines enum_name [] enums) (\<lambda>ls.
         Inr (line (''export enum '' @ enum_name @ '' {'') @ ls @ ''}'' @ eol @ eol))) (pt_enum e))
     (\<lambda>codes. Inr (''// this enum code is codegen by geese codegen for ts'' @ eol @ eol @ concat codes))"

fun ts_struct_lines :: "string \<Rightarrow> dependents \<Rightarrow> dependents \<Rightarrow> (string, (string \<times> string) list) dict \<Rightarrow>
    string list \<Rightarrow> struct_elem list \<Rightarrow> pyexn + string" where
  "ts_struct_lines struct_name ds de enum names [] = Inr []"
| "ts_struct_lines struct_name ds de enum names ((key, None, parameter) # elems) = Inl TypeError"
| "ts_struct_lines struct_name ds de enum names ((key, Some v, parameter) # elems) =
     (if v \<in> set names
      then Inl (Exception (''repeat struct elem:'' @ key @ '' in struct:'' @ struct_name))
      else bindr (ts_convert_type key ds de) (\<lambda>ty.
        bindr (case parameter of
            None \<Rightarrow> ts_default_parameter key ds de enum
          | Some p \<Rightarrow> bindr (ts_convert_parameter key p de enum) (\<lambda>d. case d of None \<Rightarrow> Inl TypeError | Some d \<Rightarrow> Inr d)) (\<lambda>d.
        bindr (ts_struct_lines struct_name ds de enum (names @ [v]) elems) (\<lambda>rest.
          Inr (line (''     public '' @ v @ '':'' @ ty @ '' = '' @ d) @ rest)))))"

definition ts_genmainstruct :: "string \<Rightarrow> struct_elem list \<Rightarrow> dependents \<Rightarrow> dependents \<Rightarrow>
    (string, (string \<times> string) list) dict \<Rightarrow> pyexn + string" where
  "ts_genmainstruct struct_name elems ds de enum =
     bindr (ts_struct_lines struct_name ds de enum [] elems) (\<lambda>ls.
       Inr (line (''export class '' @ struct_name @ '' {'') @ ls @ ''}'' @ eol @ eol))"

definition ts_pack_field :: "uuids \<Rightarrow> dependents \<Rightarrow> dependents \<Rightarrow> struct_elem \<Rightarrow> pyexn + string" where
  "ts_pack_field u ds de x = (case x of (key, name, parameter) \<Rightarrow>
     bindr (ts_check_type key ds de) (\<lambda>k. bindr (field_name name) (\<lambda>v.
       if ts_check_type_original k then
         Inr (line (''    _protocol['' @ dq @ v @ dq @ ''] = _struct.'' @ v))
       else if k = T_Custom then
         Inr (line (''    _protocol['' @ dq @ v @ dq @ ''] = '' @ key @ ''_to_protcol(_struct.'' @ v @ '')''))
       else bindr (ts_gen_struct_container_protocol u 3 (''_array_'' @ v) (child_type key) ''v_'' ds de) (\<lambda>inner.
         Inr (line (''    if (_struct.'' @ v @ '') {'') @ line (''        let _array_'' @ v @ '' = []'') @
              line (''        for (let v_ of _struct.'' @ v @ '') {'') @ inner @ line ''        }'' @
              line (''        _protocol['' @ dq @ v @ dq @ ''] = _array_'' @ v) @ line ''    }'')))))"

definition ts_genstructprotocol :: "uuids \<Rightarrow> string \<Rightarrow> struct_elem list \<Rightarrow> dependents \<Rightarrow> dependents \<Rightarrow> pyexn + string" where
  "ts_genstructprotocol u struct_name elems ds de =
     bindr (map_res (ts_pack_field u ds de) elems) (\<lambda>fields.
       Inr (line (''export function '' @ struct_name @ ''_to_protcol(_struct:'' @ struct_name @ '') {'') @
            line ''    let _protocol:any = {}'' @
            concat fields @ line ''    return _protocol;'' @ ''}'' @ eol @ eol))"

definition ts_unpack_field :: "uuids \<Rightarrow> dependents \<Rightarrow> dependents \<Rightarrow> nat \<Rightarrow> struct_elem \<Rightarrow> pyexn + string" where
  "ts_unpack_field u ds de count x = (case x of (key, name, parameter) \<Rightarrow>
     bindr (ts_check_type key ds de) (\<lambda>k. bindr (ts_convert_type key ds de) (\<lambda>_. bindr (field_name name) (\<lambda>v.
       let test = line ((if count = 0 then ''        if (key == '' else ''        else if (key == '') @ dq @ v @ dq @ '') {'');
           close = line ''        }'' in
       if ts_check_type_original k then Inr (test @ line (''            _struct.'' @ v @ '' = val;'') @ close)
       else if k = T_Custom then
         Inr (test @ line (''            _struct.'' @ v @ '' = protcol_to_'' @ key @ ''(val);'') @ close)
       else bindr (ts_gen_struct_protocol_container u 4 (''_struct.'' @ v) (child_type key) ''v_'' ds de) (\<lambda>inner.
         Inr (test @ line (''            _struct.'' @ v @ '' = []'') @ line ''            for (let v_ of val) {'' @ inner @
              line ''            }'' @ close))))))"

definition ts_genprotocolstruct :: "uuids \<Rightarrow> string \<Rightarrow> struct_elem list \<Rightarrow> dependents \<Rightarrow> dependents \<Rightarrow> pyexn + string" where
  "ts_genprotocolstruct u struct_name elems ds de =
     bindr (count_res (ts_unpack_field u ds de) 0 elems) (\<lambda>fields.
       Inr (line (''export function protcol_to_'' @ struct_name @ ''(_protocol:any) {'') @
            line (''    let _struct = new '' @ struct_name @ ''()'') @
            line ''    for (let key in _protocol) {'' @ line ''        let val = _protocol[key];'' @
            concat fields @ line ''    }'' @ ''    return _struct;'' @ eol @ eol @ ''}'' @ eol @ eol))"

definition ts_genstruct :: "uuids \<Rightarrow> pretreatment \<Rightarrow> pyexn + string" where
  "ts_genstruct u e =
     (let ds = pt_dependent_struct e; de = pt_dependent_enum e;
          enum = (case pt_all_enum e of Some d \<Rightarrow> d | None \<Rightarrow> [])
      in bindr (map_res (\<lambda>(struct_name, elems).
           bindr (ts_genmainstruct struct_name elems ds de enum) (\<lambda>a.
           bindr (ts_genstructprotocol u struct_name elems ds de) (\<lambda>b.
           bindr (ts_genprotocolstruct u struct_name elems ds de) (\<lambda>c. Inr (a @ b @ c))))) (pt_struct e))
         (\<lambda>codes. Inr (line ''// this struct code is codegen by geese codegen for ts'' @ concat codes)))"

end
