(* ===== verification/Ts_Codec.thy ===== *)
theory Ts_Codec
  imports Ts_Gen Rpc_Codec
begin

section \<open>Interface compiler: a hub in Python and a client in TypeScript\<close>

text \<open>
  The code a hub runs to call a client is generated by the Python target, the code the client runs
  to handle the call by the TypeScript target.  Both are renderings of the programs of \<open>Rpc_Codec\<close>,
  so that running one after the other says what the handler gets.
\<close>

subsection \<open>The two targets accept the same types\<close>

lemma ts_types_dom: "dget ts_types t = None \<longleftrightarrow> dget python_types t = None"
  by (simp add: ts_types_def python_types_def)

lemma list_type_check:
  assumes "dget python_types t = None" and "\<not> check_in_dependent t ds" and "\<not> check_in_dependent t de"
    and "is_list_type t"
  shows "check_type t ds de = Inr T_List"
proof -
  have "dget base_types t = None" using assms(1) by (simp add: python_types_def base_types_def split: if_splits)
  with assms show ?thesis by (auto simp: check_type_def is_list_type_def)
qed

lemma accepts_same_types: "(\<exists>x. ts_convert_type t ds de = Inr x) \<longleftrightarrow> (\<exists>y. convert_type t ds de = Inr y)"
proof (induction t ds de rule: convert_type.induct)
  case (1 t ds de)
  show ?case
  proof (cases "dget python_types t = None \<and> \<not> check_in_dependent t ds \<and> \<not> check_in_dependent t de")
    case False
    then show ?thesis
      using ts_types_dom [of t]
      by (auto simp: ts_convert_type.simps [of t] convert_type.simps [of t] ts_same split: option.splits)
  next
    case True
    note t = this
    then have ts: "dget ts_types t = None" by (simp add: ts_types_dom)
    show ?thesis
    proof (cases "is_list_type t")
      case True
      with t have c: "check_type t ds de = Inr T_List" by (intro list_type_check) simp_all
      from True have l: "\<not> length t < 2" by (simp add: is_list_type_def)
      from 1 c t have "(\<exists>x. ts_convert_type (child_type t) ds de = Inr x) \<longleftrightarrow> (\<exists>y. convert_type (child_type t) ds de = Inr y)"
        by simp
      with t ts c l True show ?thesis
        by (simp add: ts_convert_type.simps [of t] convert_type.simps [of t] ts_same bindr_Inr)
    next
      case False
      with t have "check_type t ds de \<noteq> Inr T_List" using check_type_list by blast
      with t ts False show ?thesis
        by (auto simp: ts_convert_type.simps [of t] convert_type.simps [of t] ts_same split: sum.splits)
    qed
  qed
qed

subsection \<open>Rendering a program in TypeScript\<close>

text \<open>\<open>elem\<close> is the text of the element type of the array a program makes.\<close>

fun ts_render :: "string \<Rightarrow> nat \<Rightarrow> pstmt \<Rightarrow> string" where
  "ts_render elem d (S_new x) = space_of d @ ''let '' @ x @ '':Array<'' @ elem @ ''> = [];'' @ eol"
| "ts_render elem d (S_assign x e) = space_of d @ ''let '' @ x @ '' = '' @ exp_text e @ '';'' @ eol"
| "ts_render elem d (S_append c e) = space_of d @ c @ ''.push('' @ exp_text e @ '')'' @ eol"
| "ts_render elem d (S_for v e body) = space_of d @ ''for (let '' @ v @ '' of '' @ exp_text e @ '') {'' @ eol @
     concat (List.map (ts_render elem (d + 1)) body) @ space_of d @ ''}'' @ eol"

definition ts_render_all :: "string \<Rightarrow> nat \<Rightarrow> pstmt list \<Rightarrow> string" where
  "ts_render_all elem d ss = concat (List.map (ts_render elem d) ss)"

text \<open>A program whose functions are renamed, and the machine it runs on.\<close>

fun rename_exp :: "(string \<Rightarrow> string) \<Rightarrow> pexp \<Rightarrow> pexp" where
  "rename_exp r (E_var x) = E_var x"
| "rename_exp r (E_index n) = E_index n"
| "rename_exp r (E_call f e) = E_call (r f) (rename_exp r e)"

fun rename :: "(string \<Rightarrow> string) \<Rightarrow> pstmt \<Rightarrow> pstmt" where
  "rename r (S_new x) = S_new x"
| "rename r (S_assign x e) = S_assign x (rename_exp r e)"
| "rename r (S_append c e) = S_append c (rename_exp r e)"
| "rename r (S_for v e body) = S_for v (rename_exp r e) (List.map (rename r) body)"

lemma rename_exp_val: "exp_val cv arr e (rename_exp r x) = exp_val (\<lambda>f. cv (r f)) arr e x"
  by (induction x) simp_all

lemma rename_exec_aux:
  "cv' = (\<lambda>f. cv (r f)) \<Longrightarrow> exec cv arr (rename r s) e = exec cv' arr s e"
  "cv' = (\<lambda>f. cv (r f)) \<Longrightarrow> exec_all cv arr (List.map (rename r) ss) e = exec_all cv' arr ss e"
proof (induction cv' arr s e and cv' arr ss e rule: exec_exec_all.induct)
  case (4 cv' arr v ex body e)
  then have x: "exp_val cv arr e (rename_exp r ex) = exp_val cv' arr e ex" by (simp add: rename_exp_val)
  show ?case
  proof (cases "exp_val cv' arr e ex")
    case None
    then show ?thesis using x by simp
  next
    case (Some y)
    show ?thesis
    proof (cases y)
      case (PV z)
      then show ?thesis using x Some by simp
    next
      case (PL vs)
      have "(\<lambda>x e. exec_all cv arr (List.map (rename r) body) (e(v \<mapsto> x))) = (\<lambda>x e. exec_all cv' arr body (e(v \<mapsto> x)))"
        by (intro ext) (rule 4 (1) [OF Some PL 4(2)])
      then show ?thesis using x Some PL by simp
    qed
  qed
next
  case (6 cv' arr s ss e)
  then show ?case by (cases "exec cv' arr s e") simp_all
qed (simp_all add: rename_exp_val)

lemmas rename_exec = rename_exec_aux [OF refl]

subsection \<open>What the handler's text is\<close>

text \<open>Functions that unpack a structure are called in the file of the structure.\<close>

definition ts_call :: "dependents \<Rightarrow> string \<Rightarrow> string" where
  "ts_call ds f = (if take 11 f = ''protcol_to_'' then of_file (get_import (drop 11 f) ds) f else f)"

definition ts_elem :: "dependents \<Rightarrow> string \<Rightarrow> string" where
  "ts_elem ds ty = of_file (get_import (child_type ty) ds) (child_type ty)"

fun ts_unpack_code :: "uuids \<Rightarrow> dependents \<Rightarrow> (string \<Rightarrow> shape) \<Rightarrow> nat \<Rightarrow> rpc_arg list \<Rightarrow> string" where
  "ts_unpack_code u ds sh n [] = []"
| "ts_unpack_code u ds sh n ((ty, name, p) # args) =
     ts_render_all (ts_elem ds ty) 2 (List.map (rename (ts_call ds)) (unpack_stmts u (sh ty) n ty name)) @
     ts_unpack_code u ds sh (Suc n) args"

lemma ts_unpack_text:
  assumes "shape_of ds de ty = Some sh"
  shows "ts_unpack_arg u fn ds de n (ty, name, p) =
    Inr (ts_render_all (ts_elem ds ty) 2 (List.map (rename (ts_call ds)) (unpack_stmts u sh n ty name)))"
  using assms
  by (cases rule: shape_cases)
     (auto simp: ts_unpack_arg_def ts_render_all_def ts_gen_type_code_module_def ts_same ts_call_def ts_elem_def
        of_file_def ts_gen_type_code_protcol_to_type.simps loop_var_def)

lemma ts_unpack_texts:
  assumes "\<forall>(ty, name, p) \<in> set args. shape_of ds de ty = Some (sh ty)"
  shows "\<exists>ts. for_args_from n (ts_unpack_arg u fn ds de) (arg_item args) = Inr ts \<and>
    concat ts = ts_unpack_code u ds sh n args"
  using assms
proof (induction args arbitrary: n)
  case Nil
  then show ?case by (simp add: for_args_from_def arg_item_def args_of_def)
next
  case (Cons a args)
  obtain ty name p where a: "a = (ty, name, p)" by (rule prod_cases3)
  from Cons.IH [of "Suc n"] Cons.prems obtain ts where
    ts: "for_args_from (Suc n) (ts_unpack_arg u fn ds de) (arg_item args) = Inr ts"
    "concat ts = ts_unpack_code u ds sh (Suc n) args" by auto
  from Cons.prems a have "ts_unpack_arg u fn ds de n (ty, name, p) =
    Inr (ts_render_all (ts_elem ds ty) 2 (List.map (rename (ts_call ds)) (unpack_stmts u (sh ty) n ty name)))"
    by (intro ts_unpack_text) auto
  with ts a show ?case by (simp add: for_args_from_def arg_item_def args_of_def unpack3_def)
qed

lemma ts_method_text:
  assumes "\<forall>(ty, name, p) \<in> set args. shape_of ds de ty = Some (sh ty)"
    and "ts_module_method u fn params first made close n (arg_item args) ds de = Inr t"
  shows "sublist (line ''        let inArray = decode(bin) as any;'' @ ts_unpack_code u ds sh n args) t"
proof -
  from ts_unpack_texts [OF assms(1)] obtain ts where
    ts: "for_args_from n (ts_unpack_arg u fn ds de) (arg_item args) = Inr ts" "concat ts = ts_unpack_code u ds sh n args"
    by blast
  show ?thesis
  proof (cases "for_args name_arg (arg_item args)")
    case (Inl x)
    then show ?thesis using assms(2) ts(1) by (simp add: ts_module_method_def)
  next
    case (Inr names)
    let ?a = "line (''    public '' @ fn @ ''('' @ params @ '', bin:Uint8Array) {'')"
    obtain z where "t = ?a @ (line ''        let inArray = decode(bin) as any;'' @ ts_unpack_code u ds sh n args) @ z"
      using assms(2) ts Inr by (auto simp: ts_module_method_def)
    then show ?thesis unfolding sublist_def by blast
  qed
qed

subsection \<open>A request of the hub\<close>

lemma ts_request_method:
  assumes "ts_module_func u m ds de enum [Word fn, Word ''req'', i2, Word ''rsp'', i4, Word ''err'', i6] = Inr (a, b, c, code)"
  shows "\<exists>params made close. ts_module_method u fn params ''rsp'' made close 1 i2 ds de = Inr code"
  using assms
  by (auto simp: ts_module_func_def item_def word_of_def is_request_def bindr_Inr)

text \<open>Reading past the end of an array gives \<open>undefined\<close>.\<close>

definition js_array :: "pval list \<Rightarrow> pval list" where
  "js_array vs = vs @ [PV ''undefined'']"

lemma run_shifted:
  assumes types: "\<forall>(ty, name, p) \<in> set args. sh ty = Plain"
    and names: "distinct (List.map (\<lambda>(ty, name, p). name) args)"
    and len: "length vs = length args"
  shows "\<exists>e2. exec_all cv (js_array vs) (unpack_prog u sh 1 args) e = Some e2 \<and>
    (\<forall>i < length args. e2 (''_'' @ fst (snd (args ! i))) = Some (js_array vs ! Suc i))"
proof -
  have plain: "sh (fst (args ! i)) = Plain" if "i < length args" for i
    using types that nth_mem [of i args] by fastforce
  then have "\<forall>i < length args. is_many (sh (fst (args ! i))) (js_array vs ! (1 + i))"
    by (simp add: is_many_def)
  from run_unpacks [OF _ names this, of cv u e] len obtain e2 where
    e2: "exec_all cv (js_array vs) (unpack_prog u sh 1 args) e = Some e2"
      "\<forall>i < length args. case args ! i of (ty, name, p) \<Rightarrow>
         e2 (''_'' @ name) = Some (unpacked cv (sh ty) ty (js_array vs ! (1 + i)))"
    by (auto simp: js_array_def)
  have "e2 (''_'' @ fst (snd (args ! i))) = Some (js_array vs ! Suc i)" if i: "i < length args" for i
  proof -
    obtain ty name p where a: "args ! i = (ty, name, p)" by (rule prod_cases3)
    with e2(2) i plain [OF i] show ?thesis by (fastforce simp: unpacked_def)
  qed
  with e2(1) show ?thesis by blast
qed

subsection \<open>Lists cannot be sent by a client\<close>

text \<open>Names of types neither are empty nor end in a bracket.\<close>

definition proper_names :: "dependents \<Rightarrow> bool" where
  "proper_names d = (\<forall>(t, imp) \<in> set d. t \<noteq> [] \<and> List.last t \<noteq> CHR ''['')"

lemma not_in_dependent:
  "proper_names d \<Longrightarrow> t = [] \<or> List.last t = CHR ''['' \<Longrightarrow> \<not> check_in_dependent t d"
  by (induction d) (auto simp: proper_names_def)

lemma slice51_end: "is_list_type t \<Longrightarrow> slice51 t = [] \<or> List.last (slice51 t) = CHR ''[''"
proof -
  assume "is_list_type t"
  then have "t = take (length t - 2) t @ ''[]''"
    by (metis append_take_drop_id is_list_type_def)
  then obtain xs where "t = xs @ ''[]''" by blast
  then have "slice51 t = drop 5 (xs @ ''['')" by (simp add: slice51_def butlast_append)
  then show ?thesis by (cases "length xs < 5") (simp_all add: last_append)
qed

lemma check_slice51:
  assumes "proper_names ds" and "proper_names de" and "check_type ty ds de = Inr T_List"
  shows "isl (check_type (slice51 ty) ds de)"
proof -
  let ?s = "slice51 ty"
  have e: "?s = [] \<or> List.last ?s = CHR ''[''" using check_type_list [OF assms(3)] slice51_end by blast
  then have b: "dget base_types ?s = None" by (auto simp: base_types_def)
  have l: "List.last t = CHR '']''" if "is_list_type t" for t :: string
  proof -
    from that have "t = take (length t - 2) t @ ''[]''" by (metis append_take_drop_id is_list_type_def)
    then show ?thesis by (metis last_appendR last_ConsR last_ConsL list.distinct(1))
  qed
  have "\<not> is_list_type ?s" using e l [of ?s] by (auto simp: is_list_type_def)
  with b e not_in_dependent [OF assms(1) e] not_in_dependent [OF assms(2) e] show ?thesis
    by (simp add: check_type_def)
qed

lemma pack_list_fails:
  assumes "proper_names ds" and "proper_names de" and "check_type ty ds de = Inr T_List"
  shows "isl (ts_pack_arg u c fn ds de (ty, name, p))"
proof -
  obtain x where x: "check_type (slice51 ty) ds de = Inl x"
    using check_slice51 [OF assms] by (cases "check_type (slice51 ty) ds de") simp_all
  have "ts_gen_list_type_code_type_to_protcol u 2 c ''list'' ty name fn ds de = Inl x"
    by (subst ts_gen_list_type_code_type_to_protcol.simps) (simp add: ts_same x)
  then have "ts_gen_type_code_type_to_protcol u 2 c ''list'' ty T_List name fn ds de = Inl x"
    by (subst ts_gen_type_code_type_to_protcol.simps) simp
  then show ?thesis by (simp add: ts_pack_arg_def ts_same assms(3))
qed

lemma for_args_fails:
  "(ty, name, p) \<in> set args \<Longrightarrow> isl (f (ty, name, p)) \<Longrightarrow> isl (for_args f (arg_item args))"
proof (induction args)
  case (Cons a args)
  show ?case
  proof (cases "a = (ty, name, p)")
    case True
    with Cons.prems show ?thesis
      by (cases "f a") (auto simp: for_args_def arg_item_def args_of_def unpack3_def)
  next
    case False
    with Cons have "isl (for_args f (arg_item args))" by auto
    then show ?thesis
      by (cases "f a"; cases "for_args f (arg_item args)")
         (auto simp: for_args_def arg_item_def args_of_def unpack3_def split: prod.splits)
  qed
qed simp

subsection \<open>Properties\<close>

text \<open>C30: the two targets accept the same types: a type of an interface file has a Python type
  exactly when it has a TypeScript type.\<close>

theorem targets_accept_same_types:
  "(\<exists>x. ts_convert_type t ds de = Inr x) \<longleftrightarrow> (\<exists>y. convert_type t ds de = Inr y)"
  by (rule accepts_same_types)

text \<open>C10: the unpacking code generated for a client in TypeScript undoes the packing code generated for
  a hub in Python: the code of the caller ends in the packing program and the call, the code of the
  method contains the TypeScript text of the unpacking program, and running the two programs one
  after the other raises nothing and gives \<open>_name\<close> the value the hub passed as \<open>name\<close>, for arguments of
  basic types, enumerations, structures and lists of basic values or enumerations, with distinct
  \<open>plain_name\<close>s.  \<open>cv\<close> are the functions of the hub, \<open>cv'\<close> those of the client, which decodes a structure
  with the function of the structure's file and undoes the encoding.  It is about this code, not about
  the registration of the method: the generated constructor registers \<open>this.fn\<close> unbound and
  \<open>src/expand/ts/engine/player.ts\<close> calls it with \<open>call(null, ...)\<close>, so the loop behind the unpacking code
  finds no \<open>this\<close>.\<close>

theorem ts_unpacks_python_packs:
  fixes u :: uuids and fn :: string
  defines "c \<equiv> ''_argv_'' @ u3 u fn"
  assumes types: "\<forall>(ty, name, p) \<in> set args. shape_of ds de ty = Some (sh ty)"
    and caller: "caller_ntf u call fn (arg_item args) ds de enum = Inr sender"
    and handler: "ts_session_method u fn (arg_item args) ds de = Inr receiver"
    and vals: "\<forall>(ty, name, p) \<in> set args. plain_name name \<and> (\<exists>v. e name = Some v \<and> is_many (sh ty) v)"
    and names: "distinct (List.map (\<lambda>(ty, name, p). name) args)"
    and codec: "\<forall>(ty, name, p) \<in> set args. sh ty = Struct \<longrightarrow>
      cv' (ts_call ds (''protcol_to_'' @ ty)) (cv (ty @ ''_to_protcol'') (the (e name))) = the (e name)"
  shows "suffix (render_all 2 (S_new c # pack_prog u c sh args) @
      ''        '' @ call @ ''('' @ dq @ fn @ dq @ '', dumps('' @ c @ ''))'' @ eol @ eol) sender \<and>
    sublist (line ''        let inArray = decode(bin) as any;'' @ ts_unpack_code u ds sh 0 args) receiver \<and>
    (\<exists>e1 arr e2. exec_all cv [] (S_new c # pack_prog u c sh args) e = Some e1 \<and> e1 c = Some (PL arr) \<and>
      length arr = length args \<and>
      exec_all cv' arr (List.map (rename (ts_call ds)) (unpack_prog u sh 0 args)) e' = Some e2 \<and>
      (\<forall>(ty, name, p) \<in> set args. e2 (''_'' @ name) = e name))"
  unfolding rename_exec(2)
proof (intro conjI)
  show "suffix (render_all 2 (S_new c # pack_prog u c sh args) @
      ''        '' @ call @ ''('' @ dq @ fn @ dq @ '', dumps('' @ c @ ''))'' @ eol @ eol) sender"
    unfolding c_def by (rule caller_ntf_text [OF types caller])
  show "sublist (line ''        let inArray = decode(bin) as any;'' @ ts_unpack_code u ds sh 0 args) receiver"
    by (rule ts_method_text [OF types handler [unfolded ts_session_method_def]])
  show "\<exists>e1 arr e2. exec_all cv [] (S_new c # pack_prog u c sh args) e = Some e1 \<and> e1 c = Some (PL arr) \<and>
      length arr = length args \<and> exec_all (\<lambda>f. cv' (ts_call ds f)) arr (unpack_prog u sh 0 args) e' = Some e2 \<and>
      (\<forall>(ty, name, p) \<in> set args. e2 (''_'' @ name) = e name)"
    by (rule roundtrip_run [OF vals names codec c_def [THEN meta_eq_to_obj_eq]])
qed

text \<open>C40: the handler of a request in TypeScript reads its arguments one place too far: its code
  unpacks from index 1, where the hub packs from index 0, so that every argument holds the value of
  the next one and the last holds \<open>undefined\<close>.\<close>

theorem ts_request_args_shifted:
  assumes "ts_module_func u m ds de enum
      [Word fn, Word ''req'', arg_item args, Word ''rsp'', i4, Word ''err'', i6] = Inr (a, b, c, code)"
    and "\<forall>(ty, name, p) \<in> set args. shape_of ds de ty = Some (sh ty) \<and> sh ty = Plain"
    and "distinct (List.map (\<lambda>(ty, name, p). name) args)" and "length vs = length args"
  shows "sublist (line ''        let inArray = decode(bin) as any;'' @ ts_unpack_code u ds sh 1 args) code \<and>
    (\<exists>e2. exec_all cv (js_array vs) (unpack_prog u sh 1 args) e = Some e2 \<and>
      (\<forall>i < length args. e2 (''_'' @ fst (snd (args ! i))) = Some (js_array vs ! Suc i)))"
proof
  from ts_request_method [OF assms(1)] obtain params made close where
    "ts_module_method u fn params ''rsp'' made close 1 (arg_item args) ds de = Inr code" by blast
  then show "sublist (line ''        let inArray = decode(bin) as any;'' @ ts_unpack_code u ds sh 1 args) code"
    by (rule ts_method_text [rotated]) (use assms(2) in blast)
qed (rule run_shifted [OF _ assms(3,4)], use assms(2) in blast)

text \<open>A client in TypeScript cannot call a service with a list: the generator of the caller
  raises on every function one of whose arguments is a list, whatever its elements.\<close>

theorem ts_list_argument_rejected:
  assumes "proper_names ds" and "proper_names de"
    and "(ty, name, p) \<in> set args" and "check_type ty ds de = Inr T_List"
  shows "isl (ts_caller_method u fn (arg_item args) decl final ds de enum)"
proof (cases "for_args (ts_sig_arg ds de enum) (arg_item args)")
  case (Inr sigs)
  have "isl (for_args (ts_pack_arg u (''_argv_'' @ u3 u fn) fn ds de) (arg_item args))"
    by (rule for_args_fails, rule assms(3), rule pack_list_fails [OF assms(1,2,4)])
  then obtain x where "for_args (ts_pack_arg u (''_argv_'' @ u3 u fn) fn ds de) (arg_item args) = Inl x"
    by (cases "for_args (ts_pack_arg u (''_argv_'' @ u3 u fn) fn ds de) (arg_item args)") simp_all
  with Inr show ?thesis by (simp add: ts_caller_method_def)
qed (simp add: ts_caller_method_def)

subsection \<open>Instances\<close>

definition ts_demo_codec :: "string \<Rightarrow> pval \<Rightarrow> pval" where
  "ts_demo_codec f v = (if f = ''items.protcol_to_Item'' then (case v of PL [x] \<Rightarrow> x | _ \<Rightarrow> v) else v)"

definition ts_demo_structs :: dependents where
  "ts_demo_structs = [(''Item'', ''items'')]"

lemma ts_demo_codes:
  "\<not> isl (caller_ntf demo_uuids ''self.entity.call_client'' ''give'' (arg_item demo_args) ts_demo_structs [] [])"
  "\<not> isl (ts_session_method demo_uuids ''give'' (arg_item demo_args) ts_demo_structs [])"
  by code_simp+

theorem ts_unpacks_python_packs_witness:
  "\<exists>e1 arr e2. exec_all demo_codec [] (S_new (''_argv_'' @ ''give'') # pack_prog demo_uuids (''_argv_'' @ ''give'') demo_shape demo_args) demo_env = Some e1 \<and>
     length arr = 3 \<and>
     exec_all ts_demo_codec arr (List.map (rename (ts_call ts_demo_structs)) (unpack_prog demo_uuids demo_shape 0 demo_args)) Map.empty = Some e2 \<and>
     e2 ''_what'' = Some (PV ''sword'')"
proof -
  obtain s where s: "caller_ntf demo_uuids ''self.entity.call_client'' ''give'' (arg_item demo_args) ts_demo_structs [] [] = Inr s"
    using not_isl [OF ts_demo_codes(1)] by blast
  obtain r where r: "ts_session_method demo_uuids ''give'' (arg_item demo_args) ts_demo_structs [] = Inr r"
    using not_isl [OF ts_demo_codes(2)] by blast
  have types: "\<forall>(ty, name, p) \<in> set demo_args. shape_of ts_demo_structs [] ty = Some (demo_shape ty)"
    by code_simp
  have vals: "\<forall>(ty, name, p) \<in> set demo_args. plain_name name \<and>
      (\<exists>v. demo_env name = Some v \<and> is_many (demo_shape ty) v)"
    by (simp add: demo_args_def demo_env_def demo_shape_def is_many_def)
  have codec: "\<forall>(ty, name, p) \<in> set demo_args. demo_shape ty = Struct \<longrightarrow>
      ts_demo_codec (ts_call ts_demo_structs (''protcol_to_'' @ ty)) (demo_codec (ty @ ''_to_protcol'') (the (demo_env name))) =
      the (demo_env name)"
    by (simp add: demo_args_def demo_env_def demo_shape_def demo_codec_def ts_demo_codec_def ts_call_def
        of_file_def ts_demo_structs_def dot_def)
  have names: "distinct (List.map (\<lambda>(ty, name, p). name) demo_args)" by code_simp
  from ts_unpacks_python_packs [OF types s r vals names codec, of Map.empty, unfolded demo_u3, THEN conjunct2, THEN conjunct2]
  obtain e1 arr e2 where run:
    "exec_all demo_codec [] (S_new (''_argv_'' @ ''give'') # pack_prog demo_uuids (''_argv_'' @ ''give'') demo_shape demo_args) demo_env = Some e1"
    "length arr = length demo_args"
    "exec_all ts_demo_codec arr (List.map (rename (ts_call ts_demo_structs)) (unpack_prog demo_uuids demo_shape 0 demo_args)) Map.empty = Some e2"
    "\<forall>(ty, name, p) \<in> set demo_args. e2 (''_'' @ name) = demo_env name" by blast
  have "length arr = 3" "e2 ''_what'' = Some (PV ''sword'')"
    using run(2,4) by (simp_all add: demo_args_def demo_env_def)
  then show ?thesis using run(1,3) by blast
qed

definition ts_demo_request :: "func_item list" where
  "ts_demo_request = [Word ''buy'', Word ''req'', arg_item [(''int32'', ''count'', None), (''string'', ''what'', None)],
     Word ''rsp'', arg_item [], Word ''err'', arg_item []]"

lemma ts_demo_module: "\<not> isl (ts_module_func demo_uuids ''shop'' [] [] [] ts_demo_request)"
  by code_simp

theorem ts_request_args_shifted_witness:
  "\<exists>e2. exec_all demo_codec (js_array [PV ''3'', PV ''sword''])
       (unpack_prog demo_uuids (\<lambda>ty. Plain) 1 [(''int32'', ''count'', None), (''string'', ''what'', None)]) Map.empty = Some e2 \<and>
     e2 ''_count'' = Some (PV ''sword'') \<and> e2 ''_what'' = Some (PV ''undefined'')"
proof -
  let ?args = "[(''int32'', ''count'', None), (''string'', ''what'', None)] :: rpc_arg list"
  obtain a b c code where m: "ts_module_func demo_uuids ''shop'' [] [] []
      [Word ''buy'', Word ''req'', arg_item ?args, Word ''rsp'', arg_item [], Word ''err'', arg_item []] = Inr (a, b, c, code)"
    using not_isl [OF ts_demo_module] unfolding ts_demo_request_def by (metis prod_cases4)
  have types: "\<forall>(ty, name, p) \<in> set ?args. shape_of [] [] ty = Some Plain \<and> Plain = Plain" by code_simp
  from ts_request_args_shifted [OF m types, of "[PV ''3'', PV ''sword'']" demo_codec Map.empty, THEN conjunct2]
  obtain e2 where e2: "exec_all demo_codec (js_array [PV ''3'', PV ''sword'']) (unpack_prog demo_uuids (\<lambda>ty. Plain) 1 ?args) Map.empty = Some e2"
    "\<forall>i < length ?args. e2 (''_'' @ fst (snd (?args ! i))) = Some (js_array [PV ''3'', PV ''sword''] ! Suc i)" by auto
  from e2(2) [rule_format, of 0] e2(2) [rule_format, of 1]
  have "e2 ''_count'' = Some (PV ''sword'')" "e2 ''_what'' = Some (PV ''undefined'')"
    by (simp_all add: js_array_def)
  with e2(1) show ?thesis by blast
qed

theorem ts_list_argument_rejected_witness:
  "isl (ts_caller_method demo_uuids ''give'' (arg_item demo_args) [] [] ts_demo_structs [] [])"
proof -
  have "proper_names ts_demo_structs" "proper_names []" "check_type ''string[]'' ts_demo_structs [] = Inr T_List"
    by code_simp+
  then show ?thesis
    using ts_list_argument_rejected [of ts_demo_structs "[]" "''string[]''" "''names''" None demo_args] by (simp add: demo_args_def)
qed

end
