(* ===== verification/Rpc_Driver.thy ===== *)
theory Rpc_Driver
  imports Ts_Codec Paths
begin

section \<open>Interface compiler: the command lines\<close>

text \<open>
  \<open>src/rpc/genc2h.py\<close>, \<open>genh2c.py\<close> and \<open>genh2h.py\<close>: the files of a directory are parsed together, and
  for each of them the code of the client and of the hub is generated and written.  The disk is the
  directories and files that matter to the run; what a directory holds is the function \<open>ls\<close>, and
  \<open>can_make\<close> says where \<open>os.mkdir\<close> succeeds, \<open>can_open\<close> which files can be opened for writing; a write to
  an open file is taken to succeed.
\<close>

subsection \<open>The disk\<close>

record disk =
  dk_dirs :: "string list"
  dk_files :: "(string, string) dict"

type_synonym listing = "(string \<times> string \<times> string list) list"

text \<open>What a run is given: the names made from uuids, the literals of defaults, the directories.\<close>

record run_env =
  re_uuids :: uuids
  re_eval :: "string \<Rightarrow> pyexn + int list"
  re_ls :: "string \<Rightarrow> listing option"
  re_can_make :: "string \<Rightarrow> bool"
  re_can_open :: "string \<Rightarrow> bool"

definition isdir :: "run_env \<Rightarrow> string \<Rightarrow> disk \<Rightarrow> bool" where
  "isdir v d k = (re_ls v d \<noteq> None \<or> d \<in> set (dk_dirs k))"

definition mkdir :: "run_env \<Rightarrow> string \<Rightarrow> (disk, unit) py" where
  "mkdir v d = (if re_can_make v d then modify (\<lambda>k. k\<lparr>dk_dirs := dk_dirs k @ [d]\<rparr>) else raise (Exception ''OSError''))"

text \<open>\<open>d != None and len(d) > 0\<close>.\<close>

definition given :: "string option \<Rightarrow> bool" where
  "given d = (d \<noteq> None \<and> d \<noteq> Some [])"

definition ensure_dir :: "run_env \<Rightarrow> string option \<Rightarrow> (disk, unit) py" where
  "ensure_dir v d = (\<lambda>k. if given d \<and> \<not> isdir v (the d) k then mkdir v (the d) k else ret () k)"

text \<open>\<open>open(os.path.join(dir, name), 'w')\<close>, one write, \<open>close\<close>.\<close>

definition path_in :: "string \<Rightarrow> string \<Rightarrow> string" where
  "path_in dir fname = join_of (CHR ''/'') dir fname"

definition write_file :: "run_env \<Rightarrow> string \<times> string \<Rightarrow> (disk, unit) py" where
  "write_file v f = (if re_can_open v (fst f) then modify (\<lambda>k. k\<lparr>dk_files := dset (fst f) (snd f) (dk_files k)\<rparr>)
     else raise (Exception ''OSError''))"

definition read_batch :: "run_env \<Rightarrow> string \<Rightarrow> string option \<Rightarrow> pyexn + pretreatment list" where
  "read_batch v inputdir commondir = (case re_ls v inputdir of
     None \<Rightarrow> Inl (Exception ''FileNotFoundError'')
   | Some files \<Rightarrow> (case commondir of
       None \<Rightarrow> batch (re_eval v) files None
     | Some c \<Rightarrow> (case re_ls v c of
         None \<Rightarrow> bindr (read_dir (re_eval v) False files) (\<lambda>_. Inl (Exception ''FileNotFoundError''))
       | Some commons \<Rightarrow> batch (re_eval v) files (Some commons))))"

subsection \<open>The imports of a generated file\<close>

definition python_import_lines :: "string \<Rightarrow> string list \<Rightarrow> string" where
  "python_import_lines side imps =
     line ''from threading import Timer'' @ line ''from collections.abc import Callable'' @
     line ''from enum import *'' @ line ''from .engine import *'' @ line ''from .engine.msgpack import *'' @
     concat (List.map (\<lambda>i. line (''from .'' @ i @ side @ '' import *'')) imps) @ eol"

definition gen_python_import_c :: "string list \<Rightarrow> string" where
  "gen_python_import_c imps = python_import_lines ''_cli'' imps"

definition gen_python_import_h :: "string list \<Rightarrow> string" where
  "gen_python_import_h imps = python_import_lines ''_svr'' imps"

definition gen_ts_import :: "string list \<Rightarrow> string" where
  "gen_ts_import imps =
     line (''import * as engine from '' @ dq @ ''./engine'' @ dq @ '';'') @
     line (''import { encode, decode } from '' @ dq @ ''@msgpack/msgpack'' @ dq @ '';'') @
     concat (List.map (\<lambda>i. line (''import * as '' @ i @ '' from '' @ dq @ ''./'' @ i @ ''_cli'' @ dq @ '';'')) imps)"

subsection \<open>The code of one file\<close>

text \<open>The header, the enumerations and structures, and the code of the services.\<close>

definition python_code :: "uuids \<Rightarrow> (pretreatment \<Rightarrow> pyexn + string) \<Rightarrow> string \<Rightarrow> pretreatment \<Rightarrow> pyexn + string" where
  "python_code u gen header e =
     bindr (genenum e) (\<lambda>enums. bindr (genstruct u e) (\<lambda>structs. bindr (gen e) (\<lambda>services.
       Inr (header @ enums @ structs @ services))))"

definition ts_code :: "uuids \<Rightarrow> (pretreatment \<Rightarrow> pyexn + string) \<Rightarrow> string \<Rightarrow> pretreatment \<Rightarrow> pyexn + string" where
  "ts_code u gen header e =
     bindr (ts_genenum e) (\<lambda>enums. bindr (ts_genstruct u e) (\<lambda>structs. bindr (gen e) (\<lambda>services.
       Inr (header @ enums @ structs @ services))))"

definition out_file :: "string option \<Rightarrow> string \<Rightarrow> string \<Rightarrow> (string \<times> string) list" where
  "out_file dir fname code = (if given dir then [(path_in (the dir) fname, code)] else [])"

text \<open>
  The files written for one parsed file, in their order; nothing is written before all the code of
  the file is there.
\<close>

definition c2h_outputs :: "uuids \<Rightarrow> string \<Rightarrow> string option \<Rightarrow> string option \<Rightarrow> pretreatment \<Rightarrow>
    pyexn + (string \<times> string) list" where
  "c2h_outputs u lang clioutputdir svroutputdir e =
     (if lang = ''python'' then
        bindr (python_code u (client_call_hub_gencaller u) (gen_python_import_c (pt_import e)) e) (\<lambda>c_code.
        bindr (python_code u (client_call_hub_genmodule u) (gen_python_import_h (pt_import e)) e) (\<lambda>s_code.
          Inr (out_file clioutputdir (pt_name e @ ''_cli.py'') (c_code @ eol @ eol) @
               out_file svroutputdir (pt_name e @ ''_svr.py'') (s_code @ eol @ eol))))
      else if lang = ''ts'' then
        bindr (ts_code u (ts_client_call_hub_gencaller u) (gen_ts_import (pt_import e)) e) (\<lambda>c_code.
          Inr (out_file clioutputdir (pt_name e @ ''_cli.ts'') (c_code @ eol @ eol)))
      else Inr [])"

definition h2c_outputs :: "uuids \<Rightarrow> string \<Rightarrow> string option \<Rightarrow> string option \<Rightarrow> pretreatment \<Rightarrow>
    pyexn + (string \<times> string) list" where
  "h2c_outputs u lang clioutputdir svroutputdir e =
     (if lang = ''python'' then
        bindr (python_code u (hub_call_client_genmodule u) (gen_python_import_c (pt_import e)) e) (\<lambda>c_code.
        bindr (python_code u (hub_call_client_gencaller u) (gen_python_import_h (pt_import e)) e) (\<lambda>s_code.
          Inr (out_file clioutputdir (pt_name e @ ''_cli.py'') (c_code @ eol @ eol) @
               out_file svroutputdir (pt_name e @ ''_svr.py'') (s_code @ eol @ eol))))
      else if lang = ''ts'' then
        bindr (ts_code u (ts_hub_call_client_genmodule u) (gen_ts_import (pt_import e)) e) (\<lambda>s_code.
          Inr (out_file clioutputdir (pt_name e @ ''_cli.ts'') (s_code @ eol @ eol)))
      else Inr [])"

definition h2h_outputs :: "uuids \<Rightarrow> string \<Rightarrow> string \<Rightarrow> pretreatment \<Rightarrow> pyexn + (string \<times> string) list" where
  "h2h_outputs u lang outputdir e =
     (if lang = ''python'' then
        bindr (python_code u (hub_call_hub_gencaller u) (gen_python_import_h (pt_import e)) e) (\<lambda>code.
        bindr (hub_call_hub_genmodule u e) (\<lambda>modules.
          Inr [(path_in outputdir (pt_name e @ ''_svr.py''), code @ modules @ eol)]))
      else Inr [])"

subsection \<open>\<open>gen\<close>\<close>

definition gen_file :: "run_env \<Rightarrow> (pretreatment \<Rightarrow> pyexn + (string \<times> string) list) \<Rightarrow> pretreatment \<Rightarrow> (disk, unit) py" where
  "gen_file v outputs e = bindp (lift_res (outputs e)) (\<lambda>fs. for_each (write_file v) fs)"

definition gen_c2h :: "run_env \<Rightarrow> string \<Rightarrow> string \<Rightarrow> string option \<Rightarrow> string option \<Rightarrow> string option \<Rightarrow> (disk, unit) py" where
  "gen_c2h v lang inputdir commondir clioutputdir svroutputdir =
     bindp (ensure_dir v clioutputdir) (\<lambda>_. bindp (ensure_dir v svroutputdir) (\<lambda>_.
     bindp (lift_res (read_batch v inputdir commondir)) (\<lambda>es.
       for_each (gen_file v (c2h_outputs (re_uuids v) lang clioutputdir svroutputdir)) es)))"

definition gen_h2c :: "run_env \<Rightarrow> string \<Rightarrow> string \<Rightarrow> string option \<Rightarrow> string option \<Rightarrow> string option \<Rightarrow> (disk, unit) py" where
  "gen_h2c v lang inputdir commondir clioutputdir svroutputdir =
     bindp (ensure_dir v clioutputdir) (\<lambda>_. bindp (ensure_dir v svroutputdir) (\<lambda>_.
     bindp (lift_res (read_batch v inputdir commondir)) (\<lambda>es.
       for_each (gen_file v (h2c_outputs (re_uuids v) lang clioutputdir svroutputdir)) es)))"

text \<open>\<open>genh2h\<close> makes its directory without asking whether one was given.\<close>

definition gen_h2h :: "run_env \<Rightarrow> string \<Rightarrow> string \<Rightarrow> string option \<Rightarrow> string \<Rightarrow> (disk, unit) py" where
  "gen_h2h v lang inputdir commondir outputdir =
     bindp (\<lambda>k. if isdir v outputdir k then ret () k else mkdir v outputdir k) (\<lambda>_.
     bindp (lift_res (read_batch v inputdir commondir)) (\<lambda>es.
       for_each (gen_file v (h2h_outputs (re_uuids v) lang outputdir)) es))"

subsection \<open>The command lines\<close>

definition argument :: "string list \<Rightarrow> nat \<Rightarrow> (disk, string) py" where
  "argument argv i = lift_res (if i < length argv then Inr (argv ! i) else Inl IndexError)"

text \<open>The main part of \<open>genc2h\<close> and \<open>genh2c\<close>: with a common directory the list is one longer.\<close>

definition main_two :: "(string \<Rightarrow> string \<Rightarrow> string option \<Rightarrow> string option \<Rightarrow> string option \<Rightarrow> (disk, unit) py) \<Rightarrow>
    string list \<Rightarrow> (disk, unit) py" where
  "main_two gen argv =
     (if length argv < 2 then raise (Exception ''SystemExit'') else
      let lang = argv ! 1 in
      if lang = ''python'' then
        (if length argv = 6 then gen lang (argv ! 2) (Some (argv ! 3)) (Some (argv ! 4)) (Some (argv ! 5))
         else bindp (argument argv 2) (\<lambda>i. bindp (argument argv 3) (\<lambda>c. bindp (argument argv 4) (\<lambda>s.
                gen lang i None (Some c) (Some s)))))
      else if lang = ''ts'' then
        (if length argv = 5 then gen lang (argv ! 2) (Some (argv ! 3)) (Some (argv ! 4)) None
         else bindp (argument argv 2) (\<lambda>i. bindp (argument argv 3) (\<lambda>c. gen lang i None (Some c) None)))
      else ret ())"

definition main_c2h :: "run_env \<Rightarrow> string list \<Rightarrow> (disk, unit) py" where
  "main_c2h v = main_two (gen_c2h v)"

definition main_h2c :: "run_env \<Rightarrow> string list \<Rightarrow> (disk, unit) py" where
  "main_h2c v = main_two (gen_h2c v)"

definition main_h2h :: "run_env \<Rightarrow> string list \<Rightarrow> (disk, unit) py" where
  "main_h2h v argv =
     (if length argv < 2 then raise (Exception ''SystemExit'')
      else if length argv = 5 then gen_h2h v (argv ! 1) (argv ! 2) (Some (argv ! 3)) (argv ! 4)
      else bindp (argument argv 1) (\<lambda>l. bindp (argument argv 2) (\<lambda>i. bindp (argument argv 3) (\<lambda>d.
             gen_h2h v l i None d))))"

subsection \<open>Which files a run writes\<close>

definition write_all :: "(string \<times> string) list \<Rightarrow> (string, string) dict \<Rightarrow> (string, string) dict" where
  "write_all fs d = fold (\<lambda>f. dset (fst f) (snd f)) fs d"

text \<open>\<open>opened v fs r written\<close>: the files of \<open>fs\<close> up to the first that cannot be opened.\<close>

definition opened :: "run_env \<Rightarrow> (string \<times> string) list \<Rightarrow> pyexn + unit \<Rightarrow> (string \<times> string) list \<Rightarrow> bool" where
  "opened v fs r written = (case r of
     Inr _ \<Rightarrow> written = fs \<and> (\<forall>f \<in> set fs. re_can_open v (fst f))
   | Inl x \<Rightarrow> x = Exception ''OSError'' \<and> (\<exists>m < length fs. written = take m fs \<and>
       (\<forall>f \<in> set (take m fs). re_can_open v (fst f)) \<and> \<not> re_can_open v (fst (fs ! m))))"

lemma write_files: "\<exists>r written. for_each (write_file v) fs k = (r, k\<lparr>dk_files := write_all written (dk_files k)\<rparr>) \<and>
  opened v fs r written"
proof (induction fs arbitrary: k)
  case Nil
  show ?case by (intro exI [of _ "Inr ()"] exI [of _ "[]"]) (simp add: write_all_def opened_def)
next
  case (Cons f fs)
  show ?case
  proof (cases "re_can_open v (fst f)")
    case False
    then show ?thesis
      by (intro exI [of _ "Inl (Exception ''OSError'')"] exI [of _ "[]"])
        (auto simp: write_file_def write_all_def opened_def intro!: exI [of _ 0])
  next
    case True
    let ?k = "k\<lparr>dk_files := dset (fst f) (snd f) (dk_files k)\<rparr>"
    obtain r w where w: "for_each (write_file v) fs ?k = (r, ?k\<lparr>dk_files := write_all w (dk_files ?k)\<rparr>)"
      and o: "opened v fs r w" using Cons.IH by blast
    have "for_each (write_file v) (f # fs) k = (r, k\<lparr>dk_files := write_all (f # w) (dk_files k)\<rparr>)"
      using w True by (simp add: write_file_def write_all_def)
    moreover have "opened v (f # fs) r (f # w)"
    proof (cases r)
      case (Inr u)
      then show ?thesis using o True by (simp add: opened_def)
    next
      case (Inl x)
      then obtain m where "m < length fs" "w = take m fs" "\<forall>f \<in> set (take m fs). re_can_open v (fst f)"
        "\<not> re_can_open v (fst (fs ! m))" "x = Exception ''OSError''" using o by (auto simp: opened_def)
      then show ?thesis using True Inl by (auto simp: opened_def intro!: exI [of _ "Suc m"])
    qed
    ultimately show ?thesis by blast
  qed
qed

lemma gen_file_Inr:
  assumes "outputs e = Inr fs"
  shows "\<exists>r written. gen_file v outputs e k = (r, k\<lparr>dk_files := write_all written (dk_files k)\<rparr>) \<and>
    opened v fs r written"
  using write_files [of v fs k] by (simp add: gen_file_def assms)

lemma gen_file_Inl: "outputs e = Inl x \<Longrightarrow> gen_file v outputs e k = (Inl x, k)"
  by (simp add: gen_file_def)

text \<open>
  The run over the parsed files stops at the first whose code cannot be generated, of which nothing is
  written, or of which a file cannot be opened, of which the files in front of that one are written.
\<close>

definition stops_at :: "run_env \<Rightarrow> (pretreatment \<Rightarrow> pyexn + (string \<times> string) list) \<Rightarrow> pretreatment list \<Rightarrow>
    pyexn + unit \<Rightarrow> (string \<times> string) list \<Rightarrow> bool" where
  "stops_at v outputs es r written = (\<exists>n fss. map_res outputs (take n es) = Inr fss \<and> opened v (concat fss) (Inr ()) (concat fss) \<and>
     (case r of
        Inr _ \<Rightarrow> n = length es \<and> written = concat fss
      | Inl x \<Rightarrow> n < length es \<and>
          (outputs (es ! n) = Inl x \<and> written = concat fss \<or>
           (\<exists>fs w. outputs (es ! n) = Inr fs \<and> opened v fs (Inl x) w \<and> written = concat fss @ w))))"

lemma stops_at_Cons:
  assumes "stops_at v outputs es r w" and "outputs e = Inr fs" and "opened v fs (Inr ()) fs"
  shows "stops_at v outputs (e # es) r (fs @ w)"
proof -
  obtain n fss where n: "map_res outputs (take n es) = Inr fss" "opened v (concat fss) (Inr ()) (concat fss)"
    and r: "case r of Inr _ \<Rightarrow> n = length es \<and> w = concat fss
      | Inl x \<Rightarrow> n < length es \<and> (outputs (es ! n) = Inl x \<and> w = concat fss \<or>
           (\<exists>fs w'. outputs (es ! n) = Inr fs \<and> opened v fs (Inl x) w' \<and> w = concat fss @ w'))"
    using assms(1) unfolding stops_at_def by blast
  show ?thesis
    unfolding stops_at_def
    by (intro exI [of _ "Suc n"] exI [of _ "fs # fss"])
      (use n r assms(2,3) in \<open>auto simp: opened_def split: sum.splits\<close>)
qed

lemma gen_loop:
  "\<exists>r written. for_each (gen_file v outputs) es k = (r, k\<lparr>dk_files := write_all written (dk_files k)\<rparr>) \<and>
     stops_at v outputs es r written"
proof (induction es arbitrary: k)
  case Nil
  have "stops_at v outputs [] (Inr ()) []" by (simp add: stops_at_def opened_def)
  moreover have "k\<lparr>dk_files := write_all [] (dk_files k)\<rparr> = k" by (simp add: write_all_def)
  ultimately show ?case by (intro exI [of _ "Inr ()"] exI [of _ "[]"]) simp
next
  case (Cons e es)
  show ?case
  proof (cases "outputs e")
    case (Inl x)
    then have "stops_at v outputs (e # es) (Inl x) []"
      unfolding stops_at_def by (intro exI [of _ 0] exI [of _ "[]"]) (simp add: opened_def)
    moreover have "k\<lparr>dk_files := write_all [] (dk_files k)\<rparr> = k" by (simp add: write_all_def)
    ultimately show ?thesis
      by (intro exI [of _ "Inl x"] exI [of _ "[]"]) (simp add: gen_file_Inl [where outputs = outputs, OF Inl])
  next
    case (Inr fs)
    obtain r1 w1 where g: "gen_file v outputs e k = (r1, k\<lparr>dk_files := write_all w1 (dk_files k)\<rparr>)"
      and o: "opened v fs r1 w1" using gen_file_Inr [where outputs = outputs, OF Inr] by blast
    show ?thesis
    proof (cases r1)
      case (Inl x)
      then have "stops_at v outputs (e # es) (Inl x) w1"
        unfolding stops_at_def using o Inr by (intro exI [of _ 0] exI [of _ "[]"]) (simp add: opened_def)
      with g Inl show ?thesis by (intro exI [of _ "Inl x"] exI [of _ w1]) simp
    next
      case ok: (Inr u)
      then have w1: "w1 = fs" "opened v fs (Inr ()) fs" using o by (simp_all add: opened_def)
      let ?k = "k\<lparr>dk_files := write_all fs (dk_files k)\<rparr>"
      obtain r w where w: "for_each (gen_file v outputs) es ?k = (r, ?k\<lparr>dk_files := write_all w (dk_files ?k)\<rparr>)"
        and s: "stops_at v outputs es r w" using Cons.IH by blast
      have "for_each (gen_file v outputs) (e # es) k = (r, k\<lparr>dk_files := write_all (fs @ w) (dk_files k)\<rparr>)"
        using w g w1(1) ok by (simp add: write_all_def)
      then show ?thesis using stops_at_Cons [OF s Inr w1(2)] by blast
    qed
  qed
qed

lemma ensure_dir_files: "dk_files (state_of (ensure_dir v d k)) = dk_files k"
  by (simp add: ensure_dir_def mkdir_def)

text \<open>Making the directories and parsing write no file.\<close>

lemma gen_two_run:
  assumes "bindp (ensure_dir v cli) (\<lambda>_. bindp (ensure_dir v svr) (\<lambda>_.
      bindp (lift_res batch_res) (\<lambda>es. for_each (gen_file v outputs) es))) k = (r, k')"
  shows "(isl r \<and> dk_files k' = dk_files k) \<or>
    (\<exists>es written. batch_res = Inr es \<and> stops_at v outputs es r written \<and> dk_files k' = write_all written (dk_files k))"
proof -
  obtain r1 k1 where 1: "ensure_dir v cli k = (r1, k1)" by fastforce
  obtain r2 k2 where 2: "ensure_dir v svr k1 = (r2, k2)" by fastforce
  have f: "dk_files k1 = dk_files k" "dk_files k2 = dk_files k1"
    using ensure_dir_files [of v cli k] ensure_dir_files [of v svr k1] 1 2 by simp_all
  show ?thesis
  proof (cases "isl r1 \<or> isl r2 \<or> isl batch_res")
    case True
    then show ?thesis using assms 1 2 f by (cases r1; cases r2; cases batch_res) auto
  next
    case False
    then obtain es where es: "batch_res = Inr es" "r1 = Inr ()" "r2 = Inr ()"
      by (cases r1; cases r2; cases batch_res) auto
    from gen_loop [of v outputs es k2] obtain r3 w where
      w: "for_each (gen_file v outputs) es k2 = (r3, k2\<lparr>dk_files := write_all w (dk_files k2)\<rparr>)"
      and s: "stops_at v outputs es r3 w" by blast
    have "r = r3" "dk_files k' = write_all w (dk_files k)" using assms 1 2 es w f by auto
    with s es show ?thesis by blast
  qed
qed

subsection \<open>The two files of a service\<close>

lemma sublist_mid: "sublist x y \<Longrightarrow> sublist x (a @ y @ b)"
  unfolding sublist_def by (metis append.assoc)

lemma sublist_in_concat: "y \<in> set ys \<Longrightarrow> sublist (g y) (concat (List.map g ys))"
proof -
  assume "y \<in> set ys"
  then obtain as bs where "ys = as @ y # bs" by (meson split_list)
  then show ?thesis unfolding sublist_def by auto
qed

lemma map_res_in: "map_res f xs = Inr ys \<Longrightarrow> x \<in> set xs \<Longrightarrow> \<exists>y. f x = Inr y \<and> y \<in> set ys"
  by (induction xs arbitrary: ys) (auto simp: bindr_Inr)

lemma services_contain:
  assumes "gen_services header gens e = Inr t" and "(m, ty, funcs) \<in> set (pt_module e)" and "dget gens ty = Some g"
  shows "\<exists>c. g m funcs (pt_dependent_struct e) (pt_dependent_enum e) (pt_enum e) = Inr c \<and> sublist c t"
proof -
  from assms(1) obtain codes where codes: "map_res (\<lambda>(module_name, ty, funcs). case dget gens ty of
         None \<Rightarrow> Inr []
       | Some g \<Rightarrow> g module_name funcs (pt_dependent_struct e) (pt_dependent_enum e) (pt_enum e)) (pt_module e) = Inr codes"
    and t: "t = line header @ concat codes"
    by (auto simp: gen_services_def bindr_Inr)
  from map_res_in [OF codes assms(2)] assms(3) obtain c where
    c: "g m funcs (pt_dependent_struct e) (pt_dependent_enum e) (pt_enum e) = Inr c" "c \<in> set codes" by auto
  have "sublist c (concat codes)" using sublist_in_concat [OF c(2), of "\<lambda>x. x"] by simp
  with c(1) t show ?thesis using sublist_mid [of c "concat codes" "line header" "[]"] by auto
qed

lemma caller_contains:
  assumes "gen_caller u d m funcs ds de enum = Inr t" and "[Word fn, Word ''ntf'', i2] \<in> set funcs"
  shows "\<exists>code. caller_ntf u (''self.entity.'' @ ct_notify d) fn i2 ds de enum = Inr code \<and> sublist code t"
proof -
  from assms(1) obtain codes where codes: "map_res (caller_func u d m ds de enum) funcs = Inr codes"
    and t: "\<exists>a. t = a @ concat (List.map snd codes)"
    by (auto simp: gen_caller_def bindr_Inr)
  from map_res_in [OF codes assms(2)] obtain y where
    y: "caller_func u d m ds de enum [Word fn, Word ''ntf'', i2] = Inr y" "y \<in> set codes" by blast
  then obtain code where "caller_ntf u (''self.entity.'' @ ct_notify d) fn i2 ds de enum = Inr code" "y = ([], code)"
    by (auto simp: caller_func_def item_def word_of_def bindr_Inr)
  moreover have "sublist (snd y) t" using sublist_in_concat [OF y(2), of snd] t sublist_mid [of "snd y" _ _ "[]"] by auto
  ultimately show ?thesis by auto
qed

lemma module_contains:
  assumes "gen_module u d m funcs ds de enum = Inr t" and "[Word fn, Word ''ntf'', i2] \<in> set funcs"
  shows "\<exists>params first made code. module_method u fn params first made i2 ds de = Inr code \<and> sublist code t"
proof -
  from assms(1) obtain codes where codes: "map_res (module_func u d m ds de enum) funcs = Inr codes"
    and t: "\<exists>a. t = a @ concat (List.map (\<lambda>c. snd (snd c)) codes) @ eol"
    by (auto simp: gen_module_def bindr_Inr)
  from map_res_in [OF codes assms(2)] obtain y where
    y: "module_func u d m ds de enum [Word fn, Word ''ntf'', i2] = Inr y" "y \<in> set codes" by blast
  then obtain params first made code where "module_method u fn params first made i2 ds de = Inr code" "snd (snd y) = code"
    by (auto simp: module_func_def module_ntf_def item_def word_of_def bindr_Inr split: prod.splits)
  moreover have "sublist (snd (snd y)) t"
    using sublist_in_concat [OF y(2), of "\<lambda>c. snd (snd c)"] t sublist_mid by metis
  ultimately show ?thesis by blast
qed

lemma python_code_contains:
  "python_code u gen header e = Inr t \<Longrightarrow> \<exists>c. gen e = Inr c \<and> sublist c t"
  by (auto simp: python_code_def bindr_Inr sublist_def) (metis append.assoc append_Nil2)

subsection \<open>Where the files are\<close>

text \<open>A file name without a leading slash ends up behind the directory.\<close>

definition dir_prefix :: "string \<Rightarrow> string" where
  "dir_prefix d = (if d = [] \<or> List.last d = CHR ''/'' then d else d @ ''/'')"

lemma path_in_prefix: "take 1 fname \<noteq> ''/'' \<Longrightarrow> path_in d fname = dir_prefix d @ fname"
  by (simp add: path_in_def join_of_def dir_prefix_def)

definition file_names :: "pretreatment list \<Rightarrow> bool" where
  "file_names es = (distinct (List.map pt_name es) \<and> (\<forall>e \<in> set es. take 1 (pt_name e) \<noteq> ''/''))"

lemma take1_append: "take 1 n \<noteq> ''/'' \<Longrightarrow> take 1 (n @ ''_'' @ s) \<noteq> ''/''"
  by (cases n) simp_all

definition paths_of :: "string \<Rightarrow> string \<Rightarrow> pretreatment \<Rightarrow> string list" where
  "paths_of cli svr e = [path_in cli (pt_name e @ ''_cli.py''), path_in svr (pt_name e @ ''_svr.py'')]"

lemma cli_svr_differ: "a @ ''_cli.py'' \<noteq> b @ ''_svr.py''"
proof
  assume "a @ ''_cli.py'' = b @ ''_svr.py''"
  then have "drop 3 (rev (a @ ''_cli.py'')) = drop 3 (rev (b @ ''_svr.py''))" by simp
  then show False by simp
qed

lemma distinct_paths:
  assumes "file_names es"
  shows "distinct (concat (List.map (paths_of cli svr) es))"
  using assms
proof (induction es)
  case Nil
  then show ?case by simp
next
  case (Cons e es)
  have ok: "take 1 (pt_name x @ ''_cli.py'') \<noteq> ''/''" "take 1 (pt_name x @ ''_svr.py'') \<noteq> ''/''"
    if "x \<in> set (e # es)" for x
    using Cons.prems that take1_append [of "pt_name x" "''cli.py''"] take1_append [of "pt_name x" "''svr.py''"]
    unfolding file_names_def by auto
  have p: "paths_of cli svr x = [dir_prefix cli @ pt_name x @ ''_cli.py'', dir_prefix svr @ pt_name x @ ''_svr.py'']"
    if "x \<in> set (e # es)" for x
    unfolding paths_of_def path_in_prefix [OF ok(1) [OF that]] path_in_prefix [OF ok(2) [OF that]] ..
  have ne: "a @ b @ ''_cli.py'' \<noteq> c @ d @ ''_svr.py''" for a b c d
    using cli_svr_differ [of "a @ b" "c @ d"] by simp
  have new: "set (paths_of cli svr e) \<inter> set (paths_of cli svr x) = {}" if x: "x \<in> set es" for x
  proof -
    have "pt_name x \<in> pt_name ` set es" using x by (rule imageI)
    then have "pt_name x \<noteq> pt_name e" using Cons.prems unfolding file_names_def by auto
    then show ?thesis using p [of e] p [of x] x ne ne [symmetric] by auto
  qed
  have "distinct (concat (List.map (paths_of cli svr) es))" using Cons by (simp add: file_names_def)
  moreover have "distinct (paths_of cli svr e)" using p [of e] ne by simp
  ultimately show ?case using new by auto
qed

lemma write_all_other: "p \<notin> fst ` set fs \<Longrightarrow> dget (write_all fs d) p = dget d p"
  by (induction fs arbitrary: d) (auto simp: write_all_def)

lemma write_all_get:
  "distinct (List.map fst fs) \<Longrightarrow> (p, c) \<in> set fs \<Longrightarrow> dget (write_all fs d) p = Some c"
proof (induction fs arbitrary: d)
  case (Cons f fs)
  show ?case
  proof (cases "f = (p, c)")
    case True
    with Cons.prems have "p \<notin> fst ` set fs" by auto
    then have "dget (write_all fs (dset p c d)) p = Some c" using write_all_other by fastforce
    with True show ?thesis by (simp add: write_all_def)
  next
    case False
    with Cons show ?thesis by (auto simp: write_all_def)
  qed
qed simp

lemma c2h_outputs_python:
  assumes "c2h_outputs u ''python'' (Some cli) (Some svr) e = Inr fs" and "cli \<noteq> []" and "svr \<noteq> []"
  obtains c s where "python_code u (client_call_hub_gencaller u) (gen_python_import_c (pt_import e)) e = Inr c"
    "python_code u (client_call_hub_genmodule u) (gen_python_import_h (pt_import e)) e = Inr s"
    "fs = [(path_in cli (pt_name e @ ''_cli.py''), c @ eol @ eol), (path_in svr (pt_name e @ ''_svr.py''), s @ eol @ eol)]"
proof -
  have "bindr (python_code u (client_call_hub_gencaller u) (gen_python_import_c (pt_import e)) e) (\<lambda>c_code.
        bindr (python_code u (client_call_hub_genmodule u) (gen_python_import_h (pt_import e)) e) (\<lambda>s_code.
          Inr (out_file (Some cli) (pt_name e @ ''_cli.py'') (c_code @ eol @ eol) @
               out_file (Some svr) (pt_name e @ ''_svr.py'') (s_code @ eol @ eol)))) = Inr fs"
    using assms(1) unfolding c2h_outputs_def by (simp only: if_True refl)
  then obtain c s where cs: "python_code u (client_call_hub_gencaller u) (gen_python_import_c (pt_import e)) e = Inr c"
    "python_code u (client_call_hub_genmodule u) (gen_python_import_h (pt_import e)) e = Inr s"
    and fs: "fs = out_file (Some cli) (pt_name e @ ''_cli.py'') (c @ eol @ eol) @
          out_file (Some svr) (pt_name e @ ''_svr.py'') (s @ eol @ eol)"
    unfolding bindr_Inr by blast
  show thesis by (rule that [OF cs]) (use assms(2,3) in \<open>simp add: fs out_file_def given_def\<close>)
qed

lemma c2h_paths:
  assumes "cli \<noteq> []" and "svr \<noteq> []"
  shows "map_res (c2h_outputs u ''python'' (Some cli) (Some svr)) es = Inr fss \<Longrightarrow>
    List.map fst (concat fss) = concat (List.map (paths_of cli svr) es)"
proof (induction es arbitrary: fss)
  case (Cons e es)
  then obtain fs gs where f: "c2h_outputs u ''python'' (Some cli) (Some svr) e = Inr fs"
    "map_res (c2h_outputs u ''python'' (Some cli) (Some svr)) es = Inr gs" "fss = fs # gs" by (auto simp: bindr_Inr)
  obtain c s where "fs = [(path_in cli (pt_name e @ ''_cli.py''), c @ eol @ eol), (path_in svr (pt_name e @ ''_svr.py''), s @ eol @ eol)]"
    by (rule c2h_outputs_python [OF f(1) assms])
  then have "List.map fst fs = paths_of cli svr e" by (simp only: list.map fst_conv paths_of_def)
  with f Cons.IH show ?case by simp
qed simp

lemma c2h_files:
  assumes run: "gen_c2h v ''python'' inputdir commondir (Some cli) (Some svr) k = (Inr (), k')"
    and es: "read_batch v inputdir commondir = Inr es" and e: "e \<in> set es" and names: "file_names es"
    and dirs: "cli \<noteq> []" "svr \<noteq> []"
  obtains c s where "python_code (re_uuids v) (client_call_hub_gencaller (re_uuids v)) (gen_python_import_c (pt_import e)) e = Inr c"
    "python_code (re_uuids v) (client_call_hub_genmodule (re_uuids v)) (gen_python_import_h (pt_import e)) e = Inr s"
    "dget (dk_files k') (path_in cli (pt_name e @ ''_cli.py'')) = Some (c @ eol @ eol)"
    "dget (dk_files k') (path_in svr (pt_name e @ ''_svr.py'')) = Some (s @ eol @ eol)"
proof -
  let ?out = "c2h_outputs (re_uuids v) ''python'' (Some cli) (Some svr)"
  from gen_two_run [OF run [unfolded gen_c2h_def]] es obtain written where
    w: "stops_at v ?out es (Inr ()) written" "dk_files k' = write_all written (dk_files k)" by auto
  then obtain fss where fss: "map_res ?out es = Inr fss" "written = concat fss"
    unfolding stops_at_def by auto
  have d: "distinct (List.map fst written)"
    unfolding fss(2) c2h_paths [OF dirs fss(1)] by (rule distinct_paths [OF names])
  from map_res_in [OF fss(1) e] obtain fs where fs: "?out e = Inr fs" "fs \<in> set fss" by blast
  obtain c s where
    cs: "python_code (re_uuids v) (client_call_hub_gencaller (re_uuids v)) (gen_python_import_c (pt_import e)) e = Inr c"
    "python_code (re_uuids v) (client_call_hub_genmodule (re_uuids v)) (gen_python_import_h (pt_import e)) e = Inr s"
    "fs = [(path_in cli (pt_name e @ ''_cli.py''), c @ eol @ eol), (path_in svr (pt_name e @ ''_svr.py''), s @ eol @ eol)]"
    by (rule c2h_outputs_python [OF fs(1) dirs])
  have "dget (dk_files k') p = Some x" if "(p, x) \<in> set fs" for p x
    unfolding w(2) by (rule write_all_get [OF d]) (use that fs(2) fss(2) in auto)
  then show thesis by (intro that [OF cs(1,2)]) (simp_all add: cs(3))
qed

lemma caller_in_file:
  assumes "python_code u (client_call_hub_gencaller u) header e = Inr t"
    and "(m, ''entity_service'', funcs) \<in> set (pt_module e)" and "[Word fn, Word ''ntf'', i2] \<in> set funcs"
  shows "\<exists>x. sublist x t \<and> caller_ntf u ''self.entity.call_hub_notify'' fn i2 (pt_dependent_struct e)
      (pt_dependent_enum e) (pt_enum e) = Inr x"
proof -
  obtain c where c: "client_call_hub_gencaller u e = Inr c" "sublist c t"
    using python_code_contains [OF assms(1)] by blast
  from services_contain [OF c(1) [unfolded client_call_hub_gencaller_def] assms(2)] obtain d where
    d: "client_call_hub_entity_caller u m funcs (pt_dependent_struct e) (pt_dependent_enum e) (pt_enum e) = Inr d" "sublist d c"
    by auto
  from caller_contains [OF d(1) [unfolded client_call_hub_entity_caller_def] assms(3)] obtain x where
    x: "caller_ntf u ''self.entity.call_hub_notify'' fn i2 (pt_dependent_struct e) (pt_dependent_enum e) (pt_enum e) = Inr x"
      "sublist x d" by auto
  then show ?thesis using c(2) d(2) sublist_order.order.trans by blast
qed

lemma handler_in_file:
  assumes "python_code u (client_call_hub_genmodule u) header e = Inr t"
    and "(m, ''entity_service'', funcs) \<in> set (pt_module e)" and "[Word fn, Word ''ntf'', i2] \<in> set funcs"
  shows "\<exists>params first made y. sublist y t \<and> module_method u fn params first made i2 (pt_dependent_struct e)
      (pt_dependent_enum e) = Inr y"
proof -
  obtain c where c: "client_call_hub_genmodule u e = Inr c" "sublist c t"
    using python_code_contains [OF assms(1)] by blast
  from services_contain [OF c(1) [unfolded client_call_hub_genmodule_def] assms(2)] obtain d where
    d: "client_call_hub_entity_module u m funcs (pt_dependent_struct e) (pt_dependent_enum e) (pt_enum e) = Inr d" "sublist d c"
    by auto
  from module_contains [OF d(1) [unfolded client_call_hub_entity_module_def] assms(3)] obtain params first made y where
    y: "module_method u fn params first made i2 (pt_dependent_struct e) (pt_dependent_enum e) = Inr y"
      "sublist y d" by auto
  then show ?thesis using c(2) d(2) sublist_order.order.trans by blast
qed

lemma in_file: "sublist x y \<Longrightarrow> sublist y t \<Longrightarrow> sublist x (t @ z)"
  using sublist_order.order.trans sublist_append_rightI by blast

subsection \<open>Properties\<close>

text \<open>C15: a run writes whole files or none: when making the directories or parsing fails no file is
  written, and otherwise the files on disk are exactly those of the parsed files in front of the
  first whose code cannot be generated, all of them when there is none; nothing of that file and
  nothing after it is written.  When a file cannot be opened for writing the run stops there, with the
  files in front of it written.\<close>

theorem c2h_writes_whole_files:
  fixes v :: run_env and lang inputdir :: string and commondir cli svr :: "string option" and k :: disk
  defines "r \<equiv> fst (gen_c2h v lang inputdir commondir cli svr k)"
    and "k' \<equiv> snd (gen_c2h v lang inputdir commondir cli svr k)"
  shows "(isl r \<and> dk_files k' = dk_files k) \<or>
    (\<exists>es written. read_batch v inputdir commondir = Inr es \<and>
       stops_at v (c2h_outputs (re_uuids v) lang cli svr) es r written \<and> dk_files k' = write_all written (dk_files k))"
  by (rule gen_two_run [where v = v and cli = cli and svr = svr and k = k])
     (simp add: r_def k'_def flip: gen_c2h_def)

text \<open>C5: from the interface files to the disk: after a run of \<open>genc2h python\<close> that returns, with both
  directories given and files whose names are distinct and not absolute paths, for every notification of an entity service in any of the files whose arguments are of basic types,
  enumerations, structures, or lists of basic values or enumerations (not lists of structures or of
  lists) and have distinct \<open>plain_name\<close>s, the client's file holds the code that packs the arguments
  and calls it and the hub's file the code that unpacks them, and running one after the other gives
  every argument its value, if decoding a structure undoes encoding it.\<close>

theorem c2h_call_reaches_handler:
  fixes v :: run_env and fn :: string
  defines "u \<equiv> re_uuids v"
  assumes run: "gen_c2h v ''python'' inputdir commondir (Some cli) (Some svr) k = (Inr (), k')"
    and batch: "read_batch v inputdir commondir = Inr es" and e: "e \<in> set es" and files: "file_names es"
    and dirs: "cli \<noteq> []" "svr \<noteq> []"
    and service: "(m, ''entity_service'', funcs) \<in> set (pt_module e)"
    and func: "[Word fn, Word ''ntf'', arg_item args] \<in> set funcs"
    and types: "\<forall>(ty, name, p) \<in> set args. shape_of (pt_dependent_struct e) (pt_dependent_enum e) ty = Some (sh ty)"
    and vals: "\<forall>(ty, name, p) \<in> set args. plain_name name \<and> (\<exists>x. env name = Some x \<and> is_many (sh ty) x)"
    and names: "distinct (List.map (\<lambda>(ty, name, p). name) args)"
    and codec: "\<forall>(ty, name, p) \<in> set args. sh ty = Struct \<longrightarrow>
      cv' (''protcol_to_'' @ ty) (cv (ty @ ''_to_protcol'') (the (env name))) = the (env name)"
  shows "(\<exists>c_code s_code.
      dget (dk_files k') (path_in cli (pt_name e @ ''_cli.py'')) = Some c_code \<and>
      dget (dk_files k') (path_in svr (pt_name e @ ''_svr.py'')) = Some s_code \<and>
      sublist (render_all 2 (S_new (''_argv_'' @ u3 u fn) # pack_prog u (''_argv_'' @ u3 u fn) sh args) @
        ''        self.entity.call_hub_notify('' @ dq @ fn @ dq @ '', dumps(_argv_'' @ u3 u fn @ ''))'' @ eol @ eol) c_code \<and>
      sublist (line ''        inArray = loads(bin)'' @ render_all 2 (unpack_prog u sh 0 args)) s_code) \<and>
    (\<exists>e1 arr e2. exec_all cv [] (S_new (''_argv_'' @ u3 u fn) # pack_prog u (''_argv_'' @ u3 u fn) sh args) env = Some e1 \<and>
      e1 (''_argv_'' @ u3 u fn) = Some (PL arr) \<and> length arr = length args \<and>
      exec_all cv' arr (unpack_prog u sh 0 args) env' = Some e2 \<and>
      (\<forall>(ty, name, p) \<in> set args. e2 (''_'' @ name) = env name))"
proof
  obtain c s where
    c: "python_code u (client_call_hub_gencaller u) (gen_python_import_c (pt_import e)) e = Inr c"
      "dget (dk_files k') (path_in cli (pt_name e @ ''_cli.py'')) = Some (c @ eol @ eol)" and
    s: "python_code u (client_call_hub_genmodule u) (gen_python_import_h (pt_import e)) e = Inr s"
      "dget (dk_files k') (path_in svr (pt_name e @ ''_svr.py'')) = Some (s @ eol @ eol)"
    unfolding u_def by (rule c2h_files [OF run batch e files dirs])
  have "\<exists>x. sublist x c \<and> caller_ntf u ''self.entity.call_hub_notify'' fn (arg_item args) (pt_dependent_struct e)
      (pt_dependent_enum e) (pt_enum e) = Inr x"
    by (rule caller_in_file [OF c(1) service func])
  then obtain x where x: "sublist x c" "caller_ntf u ''self.entity.call_hub_notify'' fn (arg_item args)
      (pt_dependent_struct e) (pt_dependent_enum e) (pt_enum e) = Inr x" by blast
  obtain y params first made where y: "sublist y s" "module_method u fn params first made (arg_item args)
      (pt_dependent_struct e) (pt_dependent_enum e) = Inr y"
    using handler_in_file [OF s(1) service func] by blast
  show "\<exists>c_code s_code. dget (dk_files k') (path_in cli (pt_name e @ ''_cli.py'')) = Some c_code \<and>
      dget (dk_files k') (path_in svr (pt_name e @ ''_svr.py'')) = Some s_code \<and>
      sublist (render_all 2 (S_new (''_argv_'' @ u3 u fn) # pack_prog u (''_argv_'' @ u3 u fn) sh args) @
        ''        self.entity.call_hub_notify('' @ dq @ fn @ dq @ '', dumps(_argv_'' @ u3 u fn @ ''))'' @ eol @ eol) c_code \<and>
      sublist (line ''        inArray = loads(bin)'' @ render_all 2 (unpack_prog u sh 0 args)) s_code"
    using c(2) s(2) in_file [OF suffix_imp_sublist [OF caller_ntf_text [OF types x(2), unfolded append_assoc]] x(1)]
      in_file [OF module_method_text [OF types y(2)] y(1)] by simp
qed (rule roundtrip_run [OF vals names codec refl])

subsection \<open>A run\<close>

definition demo_run :: run_env where
  "demo_run = \<lparr>re_uuids = demo_uuids, re_eval = (\<lambda>_. Inl TypeError),
     re_ls = (\<lambda>d. if d = ''in'' then Some [(''shop'', ''.juggle'',
        [''entity_service shop {'', ''give ntf(int32 count, string what);'', ''}''])] else None),
     re_can_make = (\<lambda>d. True), re_can_open = (\<lambda>p. True)\<rparr>"

definition demo_file :: pretreatment where
  "demo_file = (new_pretreatment ''shop'' [] [(''shop'', ''entity_service'',
     [[Word ''give'', Word ''ntf'', arg_item [(''int32'', ''count'', None), (''string'', ''what'', None)]]])] [] [])
     \<lparr>pt_all_enum := Some []\<rparr>"

lemma demo_batch: "read_batch demo_run ''in'' None = Inr [demo_file]"
  by code_simp

lemma demo_python_codes:
  "\<not> isl (python_code demo_uuids (client_call_hub_gencaller demo_uuids) (gen_python_import_c (pt_import demo_file)) demo_file)"
  "\<not> isl (python_code demo_uuids (client_call_hub_genmodule demo_uuids) (gen_python_import_h (pt_import demo_file)) demo_file)"
  by code_simp+

lemma demo_gen: "\<exists>k'. gen_c2h demo_run ''python'' ''in'' None (Some ''c'') (Some ''s'') \<lparr>dk_dirs = [], dk_files = []\<rparr> = (Inr (), k')"
proof -
  from not_isl [OF demo_python_codes(1)] not_isl [OF demo_python_codes(2)] obtain fs where
    "c2h_outputs demo_uuids ''python'' (Some ''c'') (Some ''s'') demo_file = Inr fs"
    by (auto simp: c2h_outputs_def)
  from gen_file_Inr [where outputs = "c2h_outputs demo_uuids ''python'' (Some ''c'') (Some ''s'')", OF this, of demo_run]
  have g: "\<exists>k'. gen_file demo_run (c2h_outputs demo_uuids ''python'' (Some ''c'') (Some ''s'')) demo_file k = (Inr (), k')" for k
    by (fastforce simp: opened_def demo_run_def split: sum.splits)
  obtain h where "gen_file demo_run (c2h_outputs demo_uuids ''python'' (Some ''c'') (Some ''s'')) demo_file k = (Inr (), h k)" for k
    using g by metis
  moreover have "re_uuids demo_run = demo_uuids" "re_ls demo_run ''c'' = None" "re_ls demo_run ''s'' = None"
    "re_can_make demo_run d" for d by (simp_all add: demo_run_def)
  ultimately show ?thesis
    by (simp add: gen_c2h_def demo_batch ensure_dir_def given_def isdir_def mkdir_def)
qed

theorem c2h_call_reaches_handler_witness:
  "\<exists>arr e2. length arr = 2 \<and>
     exec_all demo_codec arr (unpack_prog demo_uuids (\<lambda>_. Plain) 0 [(''int32'', ''count'', None), (''string'', ''what'', None)])
       Map.empty = Some e2 \<and> e2 ''_what'' = Some (PV ''sword'')"
proof -
  let ?args = "[(''int32'', ''count'', None), (''string'', ''what'', None)] :: rpc_arg list"
  let ?f = "[Word ''give'', Word ''ntf'', arg_item ?args]"
  obtain k' where run: "gen_c2h demo_run ''python'' ''in'' None (Some ''c'') (Some ''s'') \<lparr>dk_dirs = [], dk_files = []\<rparr> = (Inr (), k')"
    using demo_gen by blast
  have files: "file_names [demo_file]" by code_simp
  have e: "demo_file \<in> set [demo_file]" and dirs: "''c'' \<noteq> []" "''s'' \<noteq> []" and func: "?f \<in> set [?f]" by simp_all
  have service: "(''shop'', ''entity_service'', [?f]) \<in> set (pt_module demo_file)"
    by (simp add: demo_file_def new_pretreatment_def)
  have types: "\<forall>(ty, name, p) \<in> set ?args. shape_of (pt_dependent_struct demo_file) (pt_dependent_enum demo_file) ty = Some Plain"
    by code_simp
  have vals: "\<forall>(ty, name, p) \<in> set ?args. plain_name name \<and> (\<exists>v. demo_env name = Some v \<and> is_many Plain v)"
    by (simp add: demo_env_def is_many_def)
  have names: "distinct (List.map (\<lambda>(ty, name, p). name) ?args)" by code_simp
  have codec: "\<forall>(ty, name, p) \<in> set ?args. Plain = Struct \<longrightarrow>
      demo_codec (''protcol_to_'' @ ty) (demo_codec (ty @ ''_to_protcol'') (the (demo_env name))) = the (demo_env name)" by simp
  have u: "re_uuids demo_run = demo_uuids" by (simp add: demo_run_def)
  from c2h_call_reaches_handler [OF run demo_batch e files dirs service func types vals names codec, of Map.empty,
      THEN conjunct2, unfolded u]
  obtain arr e2 where "length arr = length ?args"
    "exec_all demo_codec arr (unpack_prog demo_uuids (\<lambda>_. Plain) 0 ?args) Map.empty = Some e2"
    "\<forall>(ty, name, p) \<in> set ?args. e2 (''_'' @ name) = demo_env name" by blast
  then show ?thesis by (intro exI [of _ arr] exI [of _ e2]) (simp add: demo_env_def)
qed

end
