(* ===== verification/Jump_Game.thy ===== *)
theory Jump_Game
  imports Py_Values
begin

section \<open>The game jump_jump\<close>

text \<open>
  \<open>src/projects/jump_jump/game\<close>: the configuration and the game the engine updates once per frame.
  The engine is reached through a bridge; every call is recorded, and what a call returns is a
  function of the calls made before it.  Floats are opaque, their arithmetic and order are fields of
  \<open>stage\<close>, and so are the draws of \<open>random\<close>, by their number.
\<close>

subsection \<open>Configuration\<close>

type_synonym light = "pyv list \<times> pyv list \<times> pyv"

text \<open>The loop over the directional lights of the manifest.\<close>

fun read_lights :: "pyv list \<Rightarrow> pyexn + light list" where
  "read_lights [] = Inr []"
| "read_lights (dl # dls) =
     bindr (bindr (vitem dl ''direction'') viter) (\<lambda>direction.
     bindr (bindr (vitem dl ''color'') viter) (\<lambda>color.
     bindr (vget dl ''intensity'' (VFloat ''1.2'')) (\<lambda>intensity.
     bindr (read_lights dls) (\<lambda>rest. Inr ((direction, color, intensity) # rest)))))"

text \<open>\<open>data\<close> is what opening and reading the file gives; any exception makes the result \<open>None\<close>.\<close>

definition load_scene_manifest :: "pyexn + pyv \<Rightarrow> (pyv list \<times> light list) option" where
  "load_scene_manifest data = (case
     bindr data (\<lambda>data.
     bindr (vget data ''environment'' (VDict [])) (\<lambda>env.
     bindr (bindr (vget env ''ambient'' (VList [VFloat ''0.12'', VFloat ''0.12'', VFloat ''0.15''])) viter) (\<lambda>ambient.
     bindr (bindr (vget env ''directional_lights'' (VList [])) viter) (\<lambda>dls.
     bindr (read_lights dls) (\<lambda>dir_lights. Inr (ambient, dir_lights))))))
   of Inl _ \<Rightarrow> None | Inr m \<Rightarrow> Some m)"

record config =
  max_charge :: flt
  charge_speed :: flt
  horizontal_force :: flt
  vertical_force :: flt
  player_radius :: flt
  player_half_height :: flt
  platform_base_half_size :: flt
  platform_half_height :: flt
  ground_half_size :: flt
  ground_half_height :: flt
  ground_y :: flt
  min_spawn_dist :: flt
  max_spawn_dist :: flt
  landing_tolerance :: flt
  perfect_landing_dist :: flt
  fall_threshold_y :: flt
  color_ground :: vec3
  color_player :: vec3
  color_platforms :: "vec3 list"
  ambient :: "pyv list"
  directional_dir :: "pyv list"
  directional_color :: "pyv list"
  directional_intensity :: pyv
  gameover_ambient :: "pyv list"
  gameover_dir_color :: "pyv list"
  gameover_dir_intensity :: pyv

definition floats :: "flt list \<Rightarrow> pyv list" where
  "floats xs = List.map VFloat xs"

definition jump_config :: config where
  "jump_config = \<lparr>max_charge = ''8.0'', charge_speed = ''5.0'', horizontal_force = ''1.5'', vertical_force = ''5.0'',
     player_radius = ''0.35'', player_half_height = ''0.5'',
     platform_base_half_size = ''1.0'', platform_half_height = ''0.25'',
     ground_half_size = ''1.2'', ground_half_height = ''0.1'', ground_y = ''-2.0'',
     min_spawn_dist = ''2.5'', max_spawn_dist = ''6.0'', landing_tolerance = ''0.3'',
     perfect_landing_dist = ''0.35'', fall_threshold_y = ''-15.0'',
     color_ground = (''0.35'', ''0.35'', ''0.38''), color_player = (''1.0'', ''0.85'', ''0.1''),
     color_platforms = [(''0.2'', ''0.5'', ''0.9''), (''0.9'', ''0.25'', ''0.25''), (''0.25'', ''0.7'', ''0.35''),
       (''0.6'', ''0.3'', ''0.8''), (''1.0'', ''0.55'', ''0.1'')],
     ambient = floats [''0.12'', ''0.12'', ''0.15''], directional_dir = floats [''-0.3'', ''-1.0'', ''-0.5''],
     directional_color = floats [''1.0'', ''0.95'', ''0.85''], directional_intensity = VFloat ''1.2'',
     gameover_ambient = floats [''0.18'', ''0.06'', ''0.06''], gameover_dir_color = floats [''0.7'', ''0.3'', ''0.3''],
     gameover_dir_intensity = VFloat ''0.9''\<rparr>"

definition post_init :: "pyexn + pyv \<Rightarrow> config \<Rightarrow> config" where
  "post_init data c = (case load_scene_manifest data of
     None \<Rightarrow> c
   | Some (amb, dir_lights) \<Rightarrow>
       let c = c\<lparr>ambient := amb\<rparr> in
       (case dir_lights of
          [] \<Rightarrow> c
        | (d, col, i) # _ \<Rightarrow> c\<lparr>directional_dir := d, directional_color := col, directional_intensity := i\<rparr>))"

subsection \<open>The bridge and the state\<close>

datatype jcall =
    Material_create string vec3 flt flt
  | Build_plane flt flt nat
  | Build_cube flt flt flt nat
  | Light_clear
  | Light_set_ambient "pyv list"
  | Light_add_directional "pyv list" "pyv list" pyv
  | Physics_add_body vec3 vec3
  | Scene_add_static nat vec3 vec3
  | Scene_add_static_with_material nat nat vec3 vec3
  | Scene_add_dynamic_with_material nat nat vec3 vec3
  | Create_player vec3 flt flt
  | Scene_update_transforms
  | Scene_remove_object string
  | Physics_remove_body nat
  | Physics_set_translation nat vec3
  | Physics_set_linvel nat vec3
  | Physics_apply_impulse nat vec3
  | Physics_check_ground nat flt flt
  | Physics_step flt
  | Physics_get_position nat
  | Key_pressed string
  | Key_released string
  | Node_set_scale_y nat flt
  | Node_get_scale_y nat
  | Node_set_translation nat vec3

record stage =
  cfg :: config
  f_add :: "flt \<Rightarrow> flt \<Rightarrow> flt"
  f_sub :: "flt \<Rightarrow> flt \<Rightarrow> flt"
  f_mul :: "flt \<Rightarrow> flt \<Rightarrow> flt"
  f_div :: "flt \<Rightarrow> flt \<Rightarrow> flt"
  f_neg :: "flt \<Rightarrow> flt"
  f_abs :: "flt \<Rightarrow> flt"
  f_square :: "flt \<Rightarrow> flt"
  f_sqrt :: "flt \<Rightarrow> flt"
  f_sin :: "flt \<Rightarrow> flt"
  f_cos :: "flt \<Rightarrow> flt"
  f_less :: "flt \<Rightarrow> flt \<Rightarrow> bool"
  f_le :: "flt \<Rightarrow> flt \<Rightarrow> bool"
  f_of_int :: "int \<Rightarrow> flt"
  random_uniform :: "nat \<Rightarrow> flt \<Rightarrow> flt \<Rightarrow> flt"
  random_choice :: "nat \<Rightarrow> nat list \<Rightarrow> nat"
  a_material :: "jcall list \<Rightarrow> nat"
  a_mesh :: "jcall list \<Rightarrow> nat"
  a_body :: "jcall list \<Rightarrow> nat"
  a_object :: "jcall list \<Rightarrow> string"
  a_node :: "jcall list \<Rightarrow> nat"
  a_pressed :: "jcall list \<Rightarrow> bool"
  a_scale :: "jcall list \<Rightarrow> flt"
  a_ground :: "jcall list \<Rightarrow> bool"
  a_position :: "jcall list \<Rightarrow> vec3"

record platform =
  body_handle :: nat
  entity_id :: string
  center :: vec3
  half_extents :: vec3

record game =
  g_initialized :: bool
  platforms :: "platform list"
  current_platform_idx :: nat
  last_platform_center :: vec3
  is_charging :: bool
  charge_power :: flt
  jump_pending :: bool
  score :: int
  game_over :: bool
  combo_count :: int
  request_restart :: bool
  grounded_was :: bool
  grounded :: bool
  jump_direction_angle :: flt
  player_body_handle :: nat
  player_node_index :: nat
  ground_mesh_idx :: "nat option"
  player_mesh_idx :: "nat option"
  mat_ground :: "nat option"
  mat_player :: "nat option"
  platform_materials :: "nat list"
  was_game_over :: "bool option"
  g_calls :: "jcall list"
  g_draws :: nat

definition math_pi :: flt where "math_pi = ''3.141592653589793''"

definition new_game :: game where
  "new_game = \<lparr>g_initialized = False, platforms = [], current_platform_idx = 1,
     last_platform_center = (''0.0'', ''0.0'', ''0.0''), is_charging = False, charge_power = ''0.0'',
     jump_pending = False, score = 0, game_over = False, combo_count = 0, request_restart = False,
     grounded_was = False, grounded = False, jump_direction_angle = math_pi, player_body_handle = 0,
     player_node_index = 0, ground_mesh_idx = None, player_mesh_idx = None, mat_ground = None,
     mat_player = None, platform_materials = [], was_game_over = None, g_calls = [], g_draws = 0\<rparr>"

text \<open>A call without a result that matters, a call with one, and a draw.\<close>

definition tell :: "jcall \<Rightarrow> game \<Rightarrow> game" where
  "tell c g = g\<lparr>g_calls := g_calls g @ [c]\<rparr>"

definition ask :: "(jcall list \<Rightarrow> 'a) \<Rightarrow> jcall \<Rightarrow> game \<Rightarrow> 'a \<times> game" where
  "ask f c g = (f (g_calls g), tell c g)"

definition uniform :: "stage \<Rightarrow> flt \<Rightarrow> flt \<Rightarrow> game \<Rightarrow> flt \<times> game" where
  "uniform t a b g = (random_uniform t (g_draws g) a b, g\<lparr>g_draws := g_draws g + 1\<rparr>)"

definition twice :: "stage \<Rightarrow> flt \<Rightarrow> flt" where
  "twice t x = f_mul t x ''2''"

text \<open>Python's \<open>min(a, b)\<close> and \<open>max(a, b)\<close> keep the first of two that do not differ.\<close>

definition f_min :: "stage \<Rightarrow> flt \<Rightarrow> flt \<Rightarrow> flt" where
  "f_min t a b = (if f_less t b a then b else a)"

definition f_max :: "stage \<Rightarrow> flt \<Rightarrow> flt \<Rightarrow> flt" where
  "f_max t a b = (if f_less t a b then b else a)"

subsection \<open>Materials and meshes\<close>

fun make_materials :: "stage \<Rightarrow> nat \<Rightarrow> vec3 list \<Rightarrow> game \<Rightarrow> nat list \<times> game" where
  "make_materials t i [] g = ([], g)"
| "make_materials t i (c # cs) g =
     (let (m, g) = ask (a_material t) (Material_create (''plat_'' @ nat_str i) c ''0.0'' ''0.7'') g;
          (ms, g) = make_materials t (Suc i) cs g
      in (m # ms, g))"

definition create_materials :: "stage \<Rightarrow> game \<Rightarrow> game" where
  "create_materials t g =
     (let (m, g) = ask (a_material t) (Material_create ''ground'' (color_ground (cfg t)) ''0.0'' ''0.8'') g;
          g = g\<lparr>mat_ground := Some m\<rparr>;
          (m, g) = ask (a_material t) (Material_create ''player'' (color_player (cfg t)) ''0.0'' ''0.6'') g;
          g = g\<lparr>mat_player := Some m\<rparr>;
          (ms, g) = make_materials t 0 (color_platforms (cfg t)) g
      in g\<lparr>platform_materials := ms\<rparr>)"

definition build_meshes :: "stage \<Rightarrow> game \<Rightarrow> game" where
  "build_meshes t g =
     (let size = twice t (ground_half_size (cfg t));
          (m, g) = ask (a_mesh t) (Build_plane size size (the (mat_ground g))) g;
          g = g\<lparr>ground_mesh_idx := Some m\<rparr>;
          (m, g) = ask (a_mesh t) (Build_cube ''1.0'' ''1.0'' ''1.0'' (the (mat_player g))) g
      in g\<lparr>player_mesh_idx := Some m\<rparr>)"

subsection \<open>Platforms\<close>

definition vec_twice :: "stage \<Rightarrow> vec3 \<Rightarrow> vec3" where
  "vec_twice t v = (case v of (x, y, z) \<Rightarrow> (twice t x, twice t y, twice t z))"

definition add_platform :: "stage \<Rightarrow> nat \<Rightarrow> vec3 \<Rightarrow> vec3 \<Rightarrow> game \<Rightarrow> (nat \<times> string) \<times> game" where
  "add_platform t mesh_idx c half g =
     (let (eid, g) = ask (a_object t) (Scene_add_static mesh_idx c (vec_twice t half)) g;
          (bh, g) = ask (a_body t) (Physics_add_body c half) g
      in ((bh, eid), g))"

definition spawn_platform :: "stage \<Rightarrow> vec3 \<Rightarrow> vec3 \<Rightarrow> nat \<Rightarrow> game \<Rightarrow> platform \<times> game" where
  "spawn_platform t c half material_idx g =
     (let (w, h, d) = vec_twice t half;
          (mesh, g) = ask (a_mesh t) (Build_cube w h d material_idx) g;
          ((bh, eid), g) = add_platform t mesh c half g
      in (\<lparr>body_handle = bh, entity_id = eid, center = c, half_extents = half\<rparr>, g))"

definition random_platform_size :: "stage \<Rightarrow> game \<Rightarrow> vec3 \<times> game" where
  "random_platform_size t g =
     (let (a, g) = uniform t ''0.6'' ''1.6'' g;
          (b, g) = uniform t ''0.6'' ''1.6'' g
      in ((f_mul t (platform_base_half_size (cfg t)) a, platform_half_height (cfg t),
           f_mul t (platform_base_half_size (cfg t)) b), g))"

subsection \<open>The initial scene\<close>

definition normal_light :: "stage \<Rightarrow> game \<Rightarrow> game" where
  "normal_light t g =
     tell (Light_add_directional (directional_dir (cfg t)) (directional_color (cfg t)) (directional_intensity (cfg t)))
       (tell (Light_set_ambient (ambient (cfg t))) g)"

definition create_ground :: "stage \<Rightarrow> game \<Rightarrow> game" where
  "create_ground t g =
     (let c = (''0.0'', ground_y (cfg t), ''0.0'');
          half = (ground_half_size (cfg t), ground_half_height (cfg t), ground_half_size (cfg t));
          (bh, g) = ask (a_body t) (Physics_add_body c half) g;
          (eid, g) = ask (a_object t)
            (Scene_add_static_with_material (the (ground_mesh_idx g)) (the (mat_ground g)) c (vec_twice t half)) g
      in g\<lparr>platforms := [\<lparr>body_handle = bh, entity_id = eid, center = c, half_extents = half\<rparr>]\<rparr>)"

definition place_player :: "stage \<Rightarrow> bool \<Rightarrow> flt \<Rightarrow> game \<Rightarrow> game" where
  "place_player t create_player player_y g =
     (if create_player then
        (let (b, g) = ask (a_body t)
               (Create_player (''0.0'', player_y, ''0.0'') (player_half_height (cfg t)) (player_radius (cfg t))) g;
             g = g\<lparr>player_body_handle := b\<rparr>;
             ps = f_mul t (player_radius (cfg t)) ''2.0'';
             ph = f_add t (f_mul t (player_half_height (cfg t)) ''2.0'') (f_mul t (player_radius (cfg t)) ''2.0'');
             (n, g) = ask (a_node t) (Scene_add_dynamic_with_material (the (player_mesh_idx g)) (the (mat_player g))
               (''0.0'', player_y, ''0.0'') (ps, ph, ps)) g
         in g\<lparr>player_node_index := n\<rparr>)
      else tell (Physics_set_linvel (player_body_handle g) (''0.0'', ''0.0'', ''0.0''))
             (tell (Physics_set_translation (player_body_handle g) (''0.0'', player_y, ''0.0'')) g))"

definition build_gameplay_entities :: "stage \<Rightarrow> bool \<Rightarrow> game \<Rightarrow> game" where
  "build_gameplay_entities t create_player g =
     (let half = (platform_base_half_size (cfg t), platform_half_height (cfg t), platform_base_half_size (cfg t));
          (p, g) = spawn_platform t (''0'', ''0'', ''0'') half (platform_materials g ! 0) g;
          g = g\<lparr>platforms := platforms g @ [p], current_platform_idx := 1\<rparr>;
          (dist, g) = uniform t (min_spawn_dist (cfg t)) (max_spawn_dist (cfg t)) g;
          next_pos = (''0.0'', ''0.0'', f_neg t dist);
          (next_half, g) = random_platform_size t g;
          (p2, g) = spawn_platform t next_pos next_half (platform_materials g ! 1) g;
          g = g\<lparr>platforms := platforms g @ [p2], last_platform_center := next_pos\<rparr>;
          player_y = f_add t (f_add t (player_half_height (cfg t)) (player_radius (cfg t))) (platform_half_height (cfg t))
      in place_player t create_player player_y g)"

definition build_initial_scene :: "stage \<Rightarrow> game \<Rightarrow> game" where
  "build_initial_scene t g =
     tell Scene_update_transforms
       (build_gameplay_entities t True (create_ground t (normal_light t (tell Light_clear g))))"

definition ensure_init :: "stage \<Rightarrow> game \<Rightarrow> game" where
  "ensure_init t g =
     (if g_initialized g then g
      else build_initial_scene t (build_meshes t (create_materials t (g\<lparr>g_initialized := True\<rparr>))))"

subsection \<open>A frame\<close>

definition update_lighting :: "stage \<Rightarrow> game \<Rightarrow> game" where
  "update_lighting t g =
     (if was_game_over g = Some (game_over g) then g
      else
        (let g = tell Light_clear (g\<lparr>was_game_over := Some (game_over g)\<rparr>)
         in if game_over g
            then tell (Light_add_directional (directional_dir (cfg t)) (gameover_dir_color (cfg t))
                         (gameover_dir_intensity (cfg t)))
                   (tell (Light_set_ambient (gameover_ambient (cfg t))) g)
            else normal_light t g))"

definition handle_input :: "stage \<Rightarrow> game \<Rightarrow> game" where
  "handle_input t g =
     (let (pressed, g) = ask (a_pressed t) (Key_pressed ''Space'') g;
          g = (if pressed then g\<lparr>is_charging := True, charge_power := ''0.0''\<rparr> else g);
          (released, g) = ask (a_pressed t) (Key_released ''Space'') g
      in if released \<and> is_charging g
         then g\<lparr>is_charging := False, jump_pending := jump_pending g \<or> f_less t ''0.1'' (charge_power g)\<rparr>
         else g)"

definition charge :: "stage \<Rightarrow> flt \<Rightarrow> game \<Rightarrow> game" where
  "charge t dt g =
     (if is_charging g then
        (let g = g\<lparr>charge_power :=
               f_min t (f_add t (charge_power g) (f_mul t dt (charge_speed (cfg t)))) (max_charge (cfg t))\<rparr>;
             squish = f_sub t ''1.0'' (f_mul t (f_div t (charge_power g) (max_charge (cfg t))) ''0.55'')
         in tell (Node_set_scale_y (player_node_index g) squish) g)
      else
        (let (cur, g) = ask (a_scale t) (Node_get_scale_y (player_node_index g)) g
         in tell (Node_set_scale_y (player_node_index g)
              (f_add t cur (f_mul t (f_mul t (f_sub t ''1.0'' cur) ''10.0'') dt))) g))"

definition jump :: "stage \<Rightarrow> game \<Rightarrow> game" where
  "jump t g =
     (if jump_pending g then
        (let p = charge_power g;
             dx = f_mul t (f_mul t (f_sin t (jump_direction_angle g)) p) (horizontal_force (cfg t));
             dz = f_mul t (f_mul t (f_cos t (jump_direction_angle g)) p) (horizontal_force (cfg t));
             g = tell (Physics_apply_impulse (player_body_handle g)
                   (dx, f_mul t p (vertical_force (cfg t)), dz)) (g\<lparr>jump_pending := False\<rparr>)
         in g\<lparr>charge_power := ''0.0''\<rparr>)
      else g)"

subsection \<open>Landing\<close>

text \<open>The platform under the player: the first one after the ground the loop stops at.\<close>

definition stands_on :: "stage \<Rightarrow> vec3 \<Rightarrow> platform \<Rightarrow> bool" where
  "stands_on t pos plat =
     (let (px, py, pz) = pos;
          (cx, cy, cz) = center plat;
          (hx, hy, hz) = half_extents plat;
          player_bottom = f_sub t py (f_add t (player_half_height (cfg t)) (player_radius (cfg t)));
          plat_top = f_add t cy hy
      in f_less t (f_abs t (f_sub t px cx)) (f_add t hx (f_mul t (player_radius (cfg t)) ''0.5''))
         \<and> f_less t (f_abs t (f_sub t pz cz)) (f_add t hz (f_mul t (player_radius (cfg t)) ''0.5''))
         \<and> f_less t (f_abs t (f_sub t player_bottom plat_top)) (landing_tolerance (cfg t))
         \<and> f_le t (f_sub t plat_top ''0.05'') player_bottom)"

definition landed_on :: "stage \<Rightarrow> vec3 \<Rightarrow> game \<Rightarrow> nat option" where
  "landed_on t pos g = List.find (\<lambda>i. stands_on t pos (platforms g ! i)) [1..<length (platforms g)]"

fun remove_platforms :: "platform list \<Rightarrow> game \<Rightarrow> game" where
  "remove_platforms [] g = g"
| "remove_platforms (p # ps) g =
     remove_platforms ps (tell (Physics_remove_body (body_handle p)) (tell (Scene_remove_object (entity_id p)) g))"

definition cleanup_platforms :: "game \<Rightarrow> game" where
  "cleanup_platforms g =
     (let keep = (\<lambda>i. i = 0 \<or> i = current_platform_idx g);
          to_remove = List.filter (\<lambda>i. \<not> keep i) [1..<length (platforms g)];
          kept = List.filter keep [0..<length (platforms g)];
          g = remove_platforms (List.map ((!) (platforms g)) to_remove) g;
          g = g\<lparr>platforms := List.map ((!) (platforms g)) kept\<rparr>
      in if length (platforms g) \<le> current_platform_idx g
         then g\<lparr>current_platform_idx := length (platforms g) - 1\<rparr> else g)"

definition random_material :: "stage \<Rightarrow> game \<Rightarrow> nat \<times> game" where
  "random_material t g =
     (random_choice t (g_draws g) (platform_materials g), g\<lparr>g_draws := g_draws g + 1\<rparr>)"

definition spawn_next :: "stage \<Rightarrow> game \<Rightarrow> game" where
  "spawn_next t g =
     (let difficulty = f_add t ''1.0'' (f_mul t (f_of_int t (score g)) ''0.04'');
          (dist, g) = uniform t (f_mul t (min_spawn_dist (cfg t)) difficulty)
             (f_mul t (max_spawn_dist (cfg t)) difficulty) g;
          dx = f_mul t (f_sin t (jump_direction_angle g)) dist;
          dz = f_mul t (f_cos t (jump_direction_angle g)) dist;
          (lx, ly, lz) = last_platform_center g;
          next_center = (f_add t lx dx, ''0.0'', f_add t lz dz);
          ((sx, sy, sz), g) = random_platform_size t g;
          scaled = (f_max t (f_div t sx (f_sqrt t difficulty)) ''0.35'', sy,
                    f_max t (f_div t sz (f_sqrt t difficulty)) ''0.35'');
          (angle, g) = uniform t (f_sub t math_pi ''0.6'') (f_add t math_pi ''0.6'') g;
          g = g\<lparr>jump_direction_angle := angle\<rparr>;
          (m, g) = random_material t g;
          (plat, g) = spawn_platform t next_center scaled m g
      in g\<lparr>platforms := platforms g @ [plat]\<rparr>)"

definition land :: "stage \<Rightarrow> vec3 \<Rightarrow> nat \<Rightarrow> game \<Rightarrow> game" where
  "land t pos i g =
     (let (px, py, pz) = pos;
          (cx, cy, cz) = center (platforms g ! i);
          dist = f_sqrt t (f_add t (f_square t (f_sub t px cx)) (f_square t (f_sub t pz cz)));
          g = (if f_less t dist (perfect_landing_dist (cfg t))
               then g\<lparr>score := score g + 2, combo_count := combo_count g + 1\<rparr>
               else g\<lparr>score := score g + 1, combo_count := 0\<rparr>);
          g = g\<lparr>current_platform_idx := i, last_platform_center := (cx, cy, cz)\<rparr>
      in spawn_next t (cleanup_platforms g))"

definition check_landing :: "stage \<Rightarrow> vec3 \<Rightarrow> game \<Rightarrow> game" where
  "check_landing t pos g = (case landed_on t pos g of
     None \<Rightarrow> g
   | Some i \<Rightarrow> if \<not> grounded_was g \<and> grounded g \<and> i \<noteq> current_platform_idx g then land t pos i g else g)"

subsection \<open>Restart and update\<close>

definition reset_round :: "game \<Rightarrow> game" where
  "reset_round g = g\<lparr>score := 0, combo_count := 0, game_over := False, is_charging := False,
     charge_power := ''0.0'', jump_pending := False, request_restart := False, grounded_was := False,
     grounded := False, jump_direction_angle := math_pi\<rparr>"

definition restart :: "stage \<Rightarrow> game \<Rightarrow> game" where
  "restart t g =
     (let g = remove_platforms (tl (platforms g)) g;
          g = g\<lparr>platforms := take 1 (platforms g)\<rparr>
      in tell Scene_update_transforms (build_gameplay_entities t False (reset_round g)))"

type_synonym shown_state = "flt \<times> bool \<times> vec3 \<times> int"

definition frame_state :: "stage \<Rightarrow> game \<Rightarrow> shown_state \<times> game" where
  "frame_state t g =
     (let (pos, g) = ask (a_position t) (Physics_get_position (player_body_handle g)) g;
          frac = (if is_charging g then f_div t (charge_power g) (max_charge (cfg t)) else ''0.0'')
      in ((frac, game_over g, pos, score g), g))"

definition play :: "stage \<Rightarrow> flt \<Rightarrow> game \<Rightarrow> game" where
  "play t dt g =
     (let g = jump t (charge t dt (handle_input t g));
          (on_ground, g) = ask (a_ground t)
             (Physics_check_ground (player_body_handle g) (player_half_height (cfg t)) (player_radius (cfg t))) g;
          g = tell (Physics_step dt) (g\<lparr>grounded := on_ground\<rparr>);
          (pos, g) = ask (a_position t) (Physics_get_position (player_body_handle g)) g;
          g = check_landing t pos (tell (Node_set_translation (player_node_index g) pos) g);
          g = (if f_less t (fst (snd pos)) (fall_threshold_y (cfg t)) then g\<lparr>game_over := True\<rparr> else g)
      in g\<lparr>grounded_was := grounded g\<rparr>)"

definition wait_restart :: "stage \<Rightarrow> game \<Rightarrow> game" where
  "wait_restart t g =
     (let (r, g) = ask (a_pressed t) (Key_pressed ''R'') g;
          g = (if r then g\<lparr>request_restart := True\<rparr> else g)
      in if request_restart g then restart t g else g)"

definition update :: "stage \<Rightarrow> flt \<Rightarrow> game \<Rightarrow> shown_state \<times> game" where
  "update t dt g =
     (let g = update_lighting t (ensure_init t g)
      in frame_state t (if game_over g then wait_restart t g else play t dt g))"

definition frames :: "stage \<Rightarrow> flt list \<Rightarrow> game \<Rightarrow> game" where
  "frames t dts g = fold (\<lambda>dt g. snd (update t dt g)) dts g"

subsection \<open>What the engine holds\<close>

text \<open>
  What is alive after a list of calls, in creation order: the static objects, the fixed bodies and
  the bodies of players; and the list of nodes, each with the id of its object (the node of
  \<open>create_player\<close> has none).  \<open>remove_object\<close> of \<open>src/crates/scene/src/scene.rs\<close> takes the node of the
  object out by \<open>swap_remove\<close>: the last node takes its place.  The calls are taken to succeed.
\<close>

record held =
  past_calls :: "jcall list"
  statics :: "string list"
  fixed :: "nat list"
  movers :: "nat list"
  node_list :: "string option list"

fun position :: "'a \<Rightarrow> 'a list \<Rightarrow> nat option" where
  "position x [] = None"
| "position x (y # ys) = (if x = y then Some 0 else map_option Suc (position x ys))"

definition node_swap_remove :: "string \<Rightarrow> string option list \<Rightarrow> string option list" where
  "node_swap_remove e ns = (case position (Some e) ns of
     None \<Rightarrow> ns
   | Some i \<Rightarrow> butlast (ns[i := last ns]))"

definition engine_step :: "stage \<Rightarrow> jcall \<Rightarrow> held \<Rightarrow> held" where
  "engine_step t c h =
     (let cs = past_calls h; e = a_object t cs; b = a_body t cs; h = h\<lparr>past_calls := cs @ [c]\<rparr>
      in case c of
        Scene_add_static m p s \<Rightarrow> h\<lparr>statics := statics h @ [e], node_list := node_list h @ [Some e]\<rparr>
      | Scene_add_static_with_material m k p s \<Rightarrow>
          h\<lparr>statics := statics h @ [e], node_list := node_list h @ [Some e]\<rparr>
      | Scene_add_dynamic_with_material m k p s \<Rightarrow> h\<lparr>node_list := node_list h @ [Some e]\<rparr>
      | Scene_remove_object x \<Rightarrow>
          h\<lparr>statics := List.filter (\<lambda>y. y \<noteq> x) (statics h), node_list := node_swap_remove x (node_list h)\<rparr>
      | Physics_add_body p s \<Rightarrow> h\<lparr>fixed := fixed h @ [b]\<rparr>
      | Create_player p hh r \<Rightarrow> h\<lparr>movers := movers h @ [b], node_list := node_list h @ [None]\<rparr>
      | Physics_remove_body x \<Rightarrow>
          h\<lparr>fixed := List.filter (\<lambda>y. y \<noteq> x) (fixed h), movers := List.filter (\<lambda>y. y \<noteq> x) (movers h)\<rparr>
      | _ \<Rightarrow> h)"

definition engine :: "stage \<Rightarrow> jcall list \<Rightarrow> held" where
  "engine t cs = fold (engine_step t) cs
     \<lparr>past_calls = [], statics = [], fixed = [], movers = [], node_list = []\<rparr>"

definition static_objects :: "stage \<Rightarrow> jcall list \<Rightarrow> string list" where
  "static_objects t cs = statics (engine t cs)"

definition fixed_bodies :: "stage \<Rightarrow> jcall list \<Rightarrow> nat list" where
  "fixed_bodies t cs = fixed (engine t cs)"

definition player_bodies :: "stage \<Rightarrow> jcall list \<Rightarrow> nat list" where
  "player_bodies t cs = movers (engine t cs)"

definition scene_nodes :: "stage \<Rightarrow> jcall list \<Rightarrow> string option list" where
  "scene_nodes t cs = node_list (engine t cs)"

text \<open>The engine never gives out an id that is alive.\<close>

definition fresh_ids :: "stage \<Rightarrow> bool" where
  "fresh_ids t = (\<forall>cs. a_object t cs \<notin> set (static_objects t cs)
     \<and> a_body t cs \<notin> set (fixed_bodies t cs) \<and> a_body t cs \<notin> set (player_bodies t cs))"

text \<open>
  \<open>scene_add_dynamic_with_material\<close> of \<open>src/crates/py_engine/src/lib.rs\<close> answers with the number of
  nodes there were.
\<close>

definition numbered_nodes :: "stage \<Rightarrow> bool" where
  "numbered_nodes t = (\<forall>cs. a_node t cs = length (scene_nodes t cs))"

lemma past_engine [simp]: "past_calls (engine t cs) = cs"
proof (induction cs rule: rev_induct)
  case (snoc c cs)
  have "engine t (cs @ [c]) = engine_step t c (engine t cs)" by (simp add: engine_def)
  then show ?case by (simp add: engine_step_def Let_def snoc.IH split: jcall.split)
qed (simp add: engine_def)

lemma engine_snoc: "engine t (cs @ [c]) = engine_step t c (engine t cs)"
  by (simp add: engine_def)

lemma engine_nil [simp]:
  "static_objects t [] = []" "fixed_bodies t [] = []" "player_bodies t [] = []" "scene_nodes t [] = []"
  by (simp_all add: static_objects_def fixed_bodies_def player_bodies_def scene_nodes_def engine_def)

lemma static_objects_snoc [simp]:
  "static_objects t (cs @ [c]) = (case c of
      Scene_add_static a b d \<Rightarrow> static_objects t cs @ [a_object t cs]
    | Scene_add_static_with_material a b d e \<Rightarrow> static_objects t cs @ [a_object t cs]
    | Scene_remove_object e \<Rightarrow> List.filter (\<lambda>x. x \<noteq> e) (static_objects t cs)
    | _ \<Rightarrow> static_objects t cs)"
  by (simp add: static_objects_def engine_snoc engine_step_def Let_def split: jcall.split)

lemma fixed_bodies_snoc [simp]:
  "fixed_bodies t (cs @ [c]) = (case c of
      Physics_add_body a b \<Rightarrow> fixed_bodies t cs @ [a_body t cs]
    | Physics_remove_body b \<Rightarrow> List.filter (\<lambda>x. x \<noteq> b) (fixed_bodies t cs)
    | _ \<Rightarrow> fixed_bodies t cs)"
  by (simp add: fixed_bodies_def engine_snoc engine_step_def Let_def split: jcall.split)

lemma player_bodies_snoc [simp]:
  "player_bodies t (cs @ [c]) = (case c of
      Create_player a b d \<Rightarrow> player_bodies t cs @ [a_body t cs]
    | Physics_remove_body b \<Rightarrow> List.filter (\<lambda>x. x \<noteq> b) (player_bodies t cs)
    | _ \<Rightarrow> player_bodies t cs)"
  by (simp add: player_bodies_def engine_snoc engine_step_def Let_def split: jcall.split)

lemma scene_nodes_snoc [simp]:
  "scene_nodes t (cs @ [c]) = (case c of
      Scene_add_static a b d \<Rightarrow> scene_nodes t cs @ [Some (a_object t cs)]
    | Scene_add_static_with_material a b d e \<Rightarrow> scene_nodes t cs @ [Some (a_object t cs)]
    | Scene_add_dynamic_with_material a b d e \<Rightarrow> scene_nodes t cs @ [Some (a_object t cs)]
    | Create_player a b d \<Rightarrow> scene_nodes t cs @ [None]
    | Scene_remove_object e \<Rightarrow> node_swap_remove e (scene_nodes t cs)
    | _ \<Rightarrow> scene_nodes t cs)"
  by (simp add: scene_nodes_def engine_snoc engine_step_def Let_def split: jcall.split)

lemma objects_tell [simp]: "static_objects t (g_calls (tell c g)) = (case c of
      Scene_add_static a b d \<Rightarrow> static_objects t (g_calls g) @ [a_object t (g_calls g)]
    | Scene_add_static_with_material a b d e \<Rightarrow> static_objects t (g_calls g) @ [a_object t (g_calls g)]
    | Scene_remove_object e \<Rightarrow> List.filter (\<lambda>x. x \<noteq> e) (static_objects t (g_calls g))
    | _ \<Rightarrow> static_objects t (g_calls g))"
  by (simp add: tell_def)

lemma bodies_tell [simp]: "fixed_bodies t (g_calls (tell c g)) = (case c of
      Physics_add_body a b \<Rightarrow> fixed_bodies t (g_calls g) @ [a_body t (g_calls g)]
    | Physics_remove_body b \<Rightarrow> List.filter (\<lambda>x. x \<noteq> b) (fixed_bodies t (g_calls g))
    | _ \<Rightarrow> fixed_bodies t (g_calls g))"
  by (simp add: tell_def)

lemma players_tell [simp]: "player_bodies t (g_calls (tell c g)) = (case c of
      Create_player a b d \<Rightarrow> player_bodies t (g_calls g) @ [a_body t (g_calls g)]
    | Physics_remove_body b \<Rightarrow> List.filter (\<lambda>x. x \<noteq> b) (player_bodies t (g_calls g))
    | _ \<Rightarrow> player_bodies t (g_calls g))"
  by (simp add: tell_def)

lemma nodes_tell [simp]: "scene_nodes t (g_calls (tell c g)) = (case c of
      Scene_add_static a b d \<Rightarrow> scene_nodes t (g_calls g) @ [Some (a_object t (g_calls g))]
    | Scene_add_static_with_material a b d e \<Rightarrow> scene_nodes t (g_calls g) @ [Some (a_object t (g_calls g))]
    | Scene_add_dynamic_with_material a b d e \<Rightarrow> scene_nodes t (g_calls g) @ [Some (a_object t (g_calls g))]
    | Create_player a b d \<Rightarrow> scene_nodes t (g_calls g) @ [None]
    | Scene_remove_object e \<Rightarrow> node_swap_remove e (scene_nodes t (g_calls g))
    | _ \<Rightarrow> scene_nodes t (g_calls g))"
  by (simp add: tell_def)

lemma tell_fields [simp]:
  "platforms (tell c g) = platforms g" "current_platform_idx (tell c g) = current_platform_idx g"
  "game_over (tell c g) = game_over g" "score (tell c g) = score g" "charge_power (tell c g) = charge_power g"
  "is_charging (tell c g) = is_charging g" "g_initialized (tell c g) = g_initialized g"
  "player_body_handle (tell c g) = player_body_handle g" "player_node_index (tell c g) = player_node_index g"
  by (simp_all add: tell_def)

subsection \<open>Steps that leave the platforms alone\<close>

text \<open>
  \<open>world\<close> is what the engine holds beside what the game believes; an operation is quiet when it
  changes neither.
\<close>

definition world :: "stage \<Rightarrow> game \<Rightarrow> held \<times> platform list \<times> nat \<times> nat \<times> nat \<times> bool" where
  "world t g = ((engine t (g_calls g))\<lparr>past_calls := []\<rparr>, platforms g, current_platform_idx g, player_body_handle g,
     player_node_index g, g_initialized g)"

lemma world_eq_iff: "world t g' = world t g \<longleftrightarrow>
    static_objects t (g_calls g') = static_objects t (g_calls g) \<and> fixed_bodies t (g_calls g') = fixed_bodies t (g_calls g)
    \<and> player_bodies t (g_calls g') = player_bodies t (g_calls g) \<and> scene_nodes t (g_calls g') = scene_nodes t (g_calls g)
    \<and> platforms g' = platforms g \<and> current_platform_idx g' = current_platform_idx g
    \<and> player_body_handle g' = player_body_handle g \<and> player_node_index g' = player_node_index g
    \<and> g_initialized g' = g_initialized g"
  by (auto simp: world_def static_objects_def fixed_bodies_def player_bodies_def scene_nodes_def
      intro!: held.equality dest: arg_cong [of _ _ statics] arg_cong [of _ _ fixed] arg_cong [of _ _ movers]
        arg_cong [of _ _ node_list])

text \<open>
  What the game knows is what the engine holds: each platform its object and its body, and beside
  them the bodies of players in \<open>mv\<close>.
\<close>

definition tracked :: "stage \<Rightarrow> nat list \<Rightarrow> game \<Rightarrow> bool" where
  "tracked t mv g \<longleftrightarrow> g_initialized g \<and> static_objects t (g_calls g) = List.map entity_id (platforms g)
     \<and> fixed_bodies t (g_calls g) = List.map body_handle (platforms g)
     \<and> distinct (List.map entity_id (platforms g)) \<and> distinct (List.map body_handle (platforms g))
     \<and> player_bodies t (g_calls g) = mv \<and> set mv \<inter> body_handle ` set (platforms g) = {}
     \<and> (mv \<noteq> [] \<longrightarrow> mv = [player_body_handle g])"

named_theorems jump_ops

lemmas [jump_ops] = ask_def uniform_def Let_def world_eq_iff

lemma tracked_world: "world t g' = world t g \<Longrightarrow> tracked t mv g' = tracked t mv g"
  by (simp add: world_eq_iff tracked_def)

lemma world_fields:
  "world t g' = world t g \<Longrightarrow> platforms g' = platforms g \<and> current_platform_idx g' = current_platform_idx g"
  by (simp add: world_eq_iff)

lemma world_light_clear [simp]: "world t (tell Light_clear g) = world t g"
  by (simp add: world_eq_iff)

lemma world_normal_light [simp]: "world t (normal_light t g) = world t g"
  by (simp add: normal_light_def jump_ops)

lemma world_update_lighting [simp]: "world t (update_lighting t g) = world t g"
  by (simp add: update_lighting_def normal_light_def jump_ops)

lemma world_handle_input [simp]: "world t (handle_input t g) = world t g"
  by (simp add: handle_input_def jump_ops)

lemma world_charge [simp]: "world t (charge t dt g) = world t g"
  by (simp add: charge_def jump_ops)

lemma world_jump [simp]: "world t (jump t g) = world t g"
  by (simp add: jump_def jump_ops)

lemma world_place_player [simp]: "world t (place_player t False y g) = world t g"
  by (simp add: place_player_def jump_ops)

lemma world_frame_state [simp]: "world t (snd (frame_state t g)) = world t g"
  by (simp add: frame_state_def jump_ops)

lemma world_random_platform_size [simp]: "world t (snd (random_platform_size t g)) = world t g"
  by (simp add: random_platform_size_def jump_ops)

lemma world_make_materials: "make_materials t i cs g = (ms, g') \<Longrightarrow> world t g' = world t g"
proof (induction cs arbitrary: i g ms)
  case (Cons c cs)
  then show ?case by (fastforce simp: jump_ops split: prod.splits)
qed simp

lemma world_create_materials [simp]: "world t (create_materials t g) = world t g"
  by (auto simp: create_materials_def jump_ops split: prod.splits dest!: world_make_materials)

lemma world_build_meshes [simp]: "world t (build_meshes t g) = world t g"
  by (simp add: build_meshes_def jump_ops)

subsection \<open>Steps that change the platforms\<close>

lemma spawn_platform_world:
  assumes "fresh_ids t" and "spawn_platform t c h m g = (p, g')"
  shows "static_objects t (g_calls g') = static_objects t (g_calls g) @ [entity_id p]"
    and "fixed_bodies t (g_calls g') = fixed_bodies t (g_calls g) @ [body_handle p]"
    and "platforms g' = platforms g" and "current_platform_idx g' = current_platform_idx g"
    and "g_initialized g' = g_initialized g" and "player_bodies t (g_calls g') = player_bodies t (g_calls g)"
    and "player_body_handle g' = player_body_handle g" and "player_node_index g' = player_node_index g"
    and "scene_nodes t (g_calls g') = scene_nodes t (g_calls g) @ [Some (entity_id p)]"
    and "body_handle p \<notin> set (player_bodies t (g_calls g))"
    and "entity_id p \<notin> set (static_objects t (g_calls g))" and "body_handle p \<notin> set (fixed_bodies t (g_calls g))"
proof -
  obtain w hh d where v: "vec_twice t h = (w, hh, d)" by (rule prod_cases3)
  define g1 where "g1 = tell (Build_cube w hh d m) g"
  define g2 where "g2 = tell (Scene_add_static (a_mesh t (g_calls g)) c (vec_twice t h)) g1"
  have p: "entity_id p = a_object t (g_calls g1)" "body_handle p = a_body t (g_calls g2)"
    and g': "g' = tell (Physics_add_body c h) g2"
    using assms(2) by (auto simp: spawn_platform_def add_platform_def v ask_def Let_def g1_def g2_def)
  show "static_objects t (g_calls g') = static_objects t (g_calls g) @ [entity_id p]"
    "fixed_bodies t (g_calls g') = fixed_bodies t (g_calls g) @ [body_handle p]"
    "platforms g' = platforms g" "current_platform_idx g' = current_platform_idx g"
    "g_initialized g' = g_initialized g" "player_bodies t (g_calls g') = player_bodies t (g_calls g)"
    "player_body_handle g' = player_body_handle g" "player_node_index g' = player_node_index g"
    "scene_nodes t (g_calls g') = scene_nodes t (g_calls g) @ [Some (entity_id p)]"
    by (simp_all add: p g' g2_def g1_def)
  have "a_object t (g_calls g1) \<notin> set (static_objects t (g_calls g1))"
    "a_body t (g_calls g2) \<notin> set (fixed_bodies t (g_calls g2))"
    "a_body t (g_calls g2) \<notin> set (player_bodies t (g_calls g2))"
    using assms(1) by (simp_all add: fresh_ids_def)
  then show "entity_id p \<notin> set (static_objects t (g_calls g))" "body_handle p \<notin> set (fixed_bodies t (g_calls g))"
    "body_handle p \<notin> set (player_bodies t (g_calls g))"
    by (simp_all add: p g1_def g2_def)
qed

lemma tracked_spawn:
  assumes "fresh_ids t" and "spawn_platform t c h m g = (p, g')" and "tracked t mv g"
  shows "tracked t mv (g'\<lparr>platforms := platforms g @ [p]\<rparr>)"
  using spawn_platform_world [OF assms(1,2)] assms(3) by (auto simp: tracked_def)

lemma spawn_platform_platforms:
  "spawn_platform t c h m g = (p, g') \<Longrightarrow> platforms g' = platforms g \<and> current_platform_idx g' = current_platform_idx g"
  by (auto simp: spawn_platform_def add_platform_def ask_def Let_def split: prod.splits)

lemma tracked_update [simp]:
  "tracked t mv (g\<lparr>current_platform_idx := i\<rparr>) = tracked t mv g"
  "tracked t mv (g\<lparr>last_platform_center := v\<rparr>) = tracked t mv g"
  "tracked t mv (g\<lparr>g_draws := n\<rparr>) = tracked t mv g"
  "tracked t mv (g\<lparr>jump_direction_angle := x\<rparr>) = tracked t mv g"
  by (simp_all add: tracked_def)

lemma random_platform_size_result:
  assumes "random_platform_size t g = (v, g')"
  shows "tracked t mv g' = tracked t mv g" "platforms g' = platforms g" "current_platform_idx g' = current_platform_idx g"
  using world_random_platform_size [of t g] assms by (simp_all add: tracked_world world_eq_iff tracked_def)

lemma place_player_tracked:
  assumes "fresh_ids t" and "tracked t mv g" and "b \<Longrightarrow> mv = []"
  shows "tracked t (if b then [player_body_handle (place_player t b y g)] else mv) (place_player t b y g)
    \<and> platforms (place_player t b y g) = platforms g
    \<and> current_platform_idx (place_player t b y g) = current_platform_idx g
    \<and> (\<exists>e. scene_nodes t (g_calls (place_player t b y g))
          = scene_nodes t (g_calls g) @ (if b then [None, Some e] else []))
    \<and> (b \<longrightarrow> numbered_nodes t \<longrightarrow>
          player_node_index (place_player t b y g) = Suc (length (scene_nodes t (g_calls g))))"
proof (cases b)
  case True
  have "set (fixed_bodies t (g_calls g)) = body_handle ` set (platforms g)"
    using assms(2) by (simp add: tracked_def)
  then have "a_body t (g_calls g) \<notin> body_handle ` set (platforms g)"
    using assms(1) by (metis fresh_ids_def)
  then show ?thesis
    using assms True by (simp add: place_player_def ask_def Let_def tracked_def numbered_nodes_def)
next
  case False
  then show ?thesis
    using world_place_player [of t y g, unfolded world_eq_iff] assms(2)
      tracked_world [OF world_place_player, of t mv y g] by simp
qed

lemma build_gameplay_entities_ok:
  assumes fresh: "fresh_ids t" and g: "tracked t mv g" "length (platforms g) = 1" and mv: "b \<Longrightarrow> mv = []"
  shows "tracked t (if b then [player_body_handle (build_gameplay_entities t b g)] else mv)
      (build_gameplay_entities t b g) \<and> length (platforms (build_gameplay_entities t b g)) = 3
    \<and> current_platform_idx (build_gameplay_entities t b g) = 1
    \<and> hd (platforms (build_gameplay_entities t b g)) = hd (platforms g)
    \<and> (\<exists>e. scene_nodes t (g_calls (build_gameplay_entities t b g)) = scene_nodes t (g_calls g)
          @ List.map (\<lambda>p. Some (entity_id p)) (tl (platforms (build_gameplay_entities t b g)))
          @ (if b then [None, Some e] else []))
    \<and> (b \<longrightarrow> numbered_nodes t \<longrightarrow>
          player_node_index (build_gameplay_entities t b g) = length (scene_nodes t (g_calls g)) + 3)"
proof -
  let ?b = "platform_base_half_size (cfg t)" and ?h = "platform_half_height (cfg t)"
  obtain p g1 where s1: "spawn_platform t (''0'', ''0'', ''0'') (?b, ?h, ?b) (platform_materials g ! 0) g = (p, g1)"
    by (rule surjective_pairing [THEN that])
  define g2 where "g2 = g1\<lparr>platforms := platforms g1 @ [p], current_platform_idx := 1\<rparr>"
  obtain dist g3 where u: "uniform t (min_spawn_dist (cfg t)) (max_spawn_dist (cfg t)) g2 = (dist, g3)"
    by (rule surjective_pairing [THEN that])
  obtain half g4 where r: "random_platform_size t g3 = (half, g4)"
    by (rule surjective_pairing [THEN that])
  obtain q g5 where s2: "spawn_platform t (''0.0'', ''0.0'', f_neg t dist) half (platform_materials g4 ! 1) g4 = (q, g5)"
    by (rule surjective_pairing [THEN that])
  define g6 where "g6 = g5\<lparr>platforms := platforms g5 @ [q], last_platform_center := (''0.0'', ''0.0'', f_neg t dist)\<rparr>"
  have g3: "g3 = g2\<lparr>g_draws := g_draws g2 + 1\<rparr>" using u by (simp add: uniform_def)
  have 1: "tracked t mv g2" "length (platforms g2) = 2" "current_platform_idx g2 = 1"
    using tracked_spawn [OF fresh s1 g(1)] spawn_platform_platforms [OF s1] g(2) by (simp_all add: g2_def)
  have 2: "tracked t mv g4" "length (platforms g4) = 2" "current_platform_idx g4 = 1"
    using 1 random_platform_size_result [OF r] by (simp_all add: g3)
  have 3: "tracked t mv g6" "length (platforms g6) = 3" "current_platform_idx g6 = 1"
    using tracked_spawn [OF fresh s2 2(1)] spawn_platform_platforms [OF s2] 2 by (simp_all add: g6_def)
  obtain y where e: "build_gameplay_entities t b g = place_player t b y g6"
    using s1 u r s2 unfolding build_gameplay_entities_def g2_def g6_def by simp
  have "g_calls g4 = g_calls g3" using r by (auto simp: random_platform_size_def uniform_def)
  then have 4: "scene_nodes t (g_calls g6) = scene_nodes t (g_calls g) @ List.map (\<lambda>p. Some (entity_id p)) [p, q]"
    using spawn_platform_world(9) [OF fresh s1] spawn_platform_world(9) [OF fresh s2]
    by (simp add: g6_def g3 g2_def)
  obtain a where "platforms g = [a]" using g(2) by (auto simp: length_Suc_conv)
  then have 5: "tl (platforms g6) = [p, q]" "hd (platforms g6) = hd (platforms g)"
    using spawn_platform_platforms [OF s1] spawn_platform_platforms [OF s2] random_platform_size_result [OF r]
    by (simp_all add: g6_def g3 g2_def)
  have "tracked t (if b then [player_body_handle (place_player t b y g6)] else mv) (place_player t b y g6)
      \<and> platforms (place_player t b y g6) = platforms g6
      \<and> current_platform_idx (place_player t b y g6) = current_platform_idx g6
      \<and> (\<exists>e. scene_nodes t (g_calls (place_player t b y g6))
          = scene_nodes t (g_calls g6) @ (if b then [None, Some e] else []))
      \<and> (b \<longrightarrow> numbered_nodes t \<longrightarrow>
          player_node_index (place_player t b y g6) = Suc (length (scene_nodes t (g_calls g6))))"
    by (rule place_player_tracked [OF fresh 3(1) mv])
  then show ?thesis using 3 4 5 unfolding e by auto
qed

lemma remove_platforms_world:
  "static_objects t (g_calls (remove_platforms ps g))
     = List.filter (\<lambda>x. x \<notin> set (List.map entity_id ps)) (static_objects t (g_calls g))
   \<and> fixed_bodies t (g_calls (remove_platforms ps g))
     = List.filter (\<lambda>x. x \<notin> set (List.map body_handle ps)) (fixed_bodies t (g_calls g))
   \<and> platforms (remove_platforms ps g) = platforms g
   \<and> current_platform_idx (remove_platforms ps g) = current_platform_idx g
   \<and> g_initialized (remove_platforms ps g) = g_initialized g
   \<and> player_bodies t (g_calls (remove_platforms ps g))
     = List.filter (\<lambda>x. x \<notin> set (List.map body_handle ps)) (player_bodies t (g_calls g))
   \<and> player_body_handle (remove_platforms ps g) = player_body_handle g
   \<and> player_node_index (remove_platforms ps g) = player_node_index g
   \<and> scene_nodes t (g_calls (remove_platforms ps g))
     = fold (\<lambda>p. node_swap_remove (entity_id p)) ps (scene_nodes t (g_calls g))"
  by (induction ps arbitrary: g) (auto intro!: filter_cong)

lemma three_platforms: "length xs = 3 \<Longrightarrow> \<exists>a b c. xs = [a, b, c]"
  by (auto simp: numeral_3_eq_3 length_Suc_conv)

lemma cleanup_platforms_ok:
  assumes "tracked t mv g" and "length (platforms g) = 3" and "current_platform_idx g = 2"
  shows "tracked t mv (cleanup_platforms g) \<and> length (platforms (cleanup_platforms g)) = 2
    \<and> current_platform_idx (cleanup_platforms g) = 1
    \<and> platforms (cleanup_platforms g) = [platforms g ! 0, platforms g ! 2]
    \<and> scene_nodes t (g_calls (cleanup_platforms g))
        = node_swap_remove (entity_id (platforms g ! 1)) (scene_nodes t (g_calls g))
    \<and> player_node_index (cleanup_platforms g) = player_node_index g"
proof -
  obtain a b c where p: "platforms g = [a, b, c]" using three_platforms [OF assms(2)] by blast
  have "List.filter (\<lambda>i. \<not> (i = 0 \<or> i = (2 :: nat))) [1..<3] = [1]"
    "List.filter (\<lambda>i. i = 0 \<or> i = (2 :: nat)) [0..<3] = [0, 2]"
    by (simp_all add: upt_rec)
  then have "cleanup_platforms g
      = remove_platforms [b] g\<lparr>platforms := [a, c], current_platform_idx := 1\<rparr>"
    by (simp add: cleanup_platforms_def p assms(3) Let_def)
  then show ?thesis
    using assms(1) remove_platforms_world [of t "[b]" g] by (auto simp: tracked_def p)
qed

lemma spawn_next_ok:
  assumes fresh: "fresh_ids t" and g: "tracked t mv g"
  shows "tracked t mv (spawn_next t g) \<and> length (platforms (spawn_next t g)) = Suc (length (platforms g))
    \<and> current_platform_idx (spawn_next t g) = current_platform_idx g
    \<and> scene_nodes t (g_calls (spawn_next t g))
        = scene_nodes t (g_calls g) @ [Some (entity_id (last (platforms (spawn_next t g))))]
    \<and> player_node_index (spawn_next t g) = player_node_index g"
proof -
  let ?d = "f_add t ''1.0'' (f_mul t (f_of_int t (score g)) ''0.04'')"
  obtain dist g1 where u: "uniform t (f_mul t (min_spawn_dist (cfg t)) ?d) (f_mul t (max_spawn_dist (cfg t)) ?d) g = (dist, g1)"
    by (rule surjective_pairing [THEN that])
  obtain sx sy sz g2 where r: "random_platform_size t g1 = ((sx, sy, sz), g2)"
    by (cases "random_platform_size t g1") (auto intro: that)
  obtain angle g3 where w: "uniform t (f_sub t math_pi ''0.6'') (f_add t math_pi ''0.6'') g2 = (angle, g3)"
    by (rule surjective_pairing [THEN that])
  obtain m g4 where c: "random_material t (g3\<lparr>jump_direction_angle := angle\<rparr>) = (m, g4)"
    by (rule surjective_pairing [THEN that])
  have 4: "tracked t mv g4" "platforms g4 = platforms g" "current_platform_idx g4 = current_platform_idx g"
    using g u random_platform_size_result [OF r] w c by (auto simp: uniform_def random_material_def)
  have 5: "g_calls g4 = g_calls g" "player_node_index g4 = player_node_index g"
    using u r w c by (auto simp: uniform_def random_material_def random_platform_size_def)
  obtain lx ly lz where l: "last_platform_center g1 = (lx, ly, lz)" by (rule prod_cases3)
  have "\<exists>at half. spawn_next t g = (let (plat, g) = spawn_platform t at half m g4
      in g\<lparr>platforms := platforms g @ [plat]\<rparr>)"
    unfolding spawn_next_def Let_def u r w c l prod.case by (intro exI) (rule refl)
  then obtain at half where "spawn_next t g = (let (plat, g) = spawn_platform t at half m g4
      in g\<lparr>platforms := platforms g @ [plat]\<rparr>)" by blast
  moreover obtain plat g5 where s: "spawn_platform t at half m g4 = (plat, g5)"
    by (rule surjective_pairing [THEN that])
  ultimately have e: "spawn_next t g = g5\<lparr>platforms := platforms g5 @ [plat]\<rparr>" by simp
  show ?thesis
    using tracked_spawn [OF fresh s 4(1)] spawn_platform_world [OF fresh s] 4 5 by (simp add: e)
qed

definition game_ok :: "stage \<Rightarrow> game \<Rightarrow> bool" where
  "game_ok t g \<longleftrightarrow> (\<exists>b. tracked t [b] g) \<and> length (platforms g) = 3 \<and> current_platform_idx g = 1"

lemma game_ok_world: "world t g' = world t g \<Longrightarrow> game_ok t g' = game_ok t g"
  using tracked_world [of t g' g] world_fields [of t g' g] by (simp add: game_ok_def)

lemma landed_on_range: "landed_on t pos g = Some i \<Longrightarrow> 1 \<le> i \<and> i < length (platforms g)"
  by (auto simp: landed_on_def find_Some_iff)

lemma land_ok:
  assumes fresh: "fresh_ids t" and g: "game_ok t g"
  shows "game_ok t (land t pos 2 g)"
proof -
  obtain px py pz where pos: "pos = (px, py, pz)" by (rule prod_cases3)
  obtain cx cy cz where c: "center (platforms g ! 2) = (cx, cy, cz)" by (rule prod_cases3)
  obtain b where b: "tracked t [b] g" using g by (auto simp: game_ok_def)
  obtain g1 where e: "land t pos 2 g = spawn_next t (cleanup_platforms g1)"
    and g1: "tracked t [b] g1" "platforms g1 = platforms g" "current_platform_idx g1 = 2"
    using b by (auto simp: land_def Let_def pos c tracked_def intro: that)
  show ?thesis
    using cleanup_platforms_ok [of t "[b]" g1] spawn_next_ok [OF fresh, of "[b]" "cleanup_platforms g1"] g g1
    by (auto simp: e game_ok_def)
qed

lemma check_landing_ok:
  assumes "fresh_ids t" and "game_ok t g"
  shows "game_ok t (check_landing t pos g)"
proof (cases "landed_on t pos g")
  case (Some i)
  then have "i = 1 \<or> i = 2" using landed_on_range [OF Some] assms(2) by (auto simp: game_ok_def)
  moreover have "current_platform_idx g = 1" using assms(2) by (simp add: game_ok_def)
  ultimately show ?thesis using land_ok [OF assms, of pos] assms(2) by (auto simp: check_landing_def Some)
qed (simp add: check_landing_def assms(2))

lemma play_ok:
  assumes "fresh_ids t" and "game_ok t g"
  shows "game_ok t (play t dt g)"
proof -
  define g1 where "g1 = jump t (charge t dt (handle_input t g))"
  define g3 where "g3 = tell (Physics_step dt) ((tell (Physics_check_ground (player_body_handle g1)
     (player_half_height (cfg t)) (player_radius (cfg t))) g1)\<lparr>grounded := a_ground t (g_calls g1)\<rparr>)"
  define pos where "pos = a_position t (g_calls g3)"
  define g2 where "g2 = tell (Node_set_translation (player_node_index g3) pos)
     (tell (Physics_get_position (player_body_handle g3)) g3)"
  have e: "play t dt g = (let g = check_landing t pos g2;
      g = (if f_less t (fst (snd pos)) (fall_threshold_y (cfg t)) then g\<lparr>game_over := True\<rparr> else g)
      in g\<lparr>grounded_was := grounded g\<rparr>)"
    by (simp add: play_def ask_def Let_def g1_def g2_def g3_def pos_def)
  have w: "world t g2 = world t g1" by (simp add: g2_def g3_def world_eq_iff)
  have "world t g1 = world t g" by (simp add: g1_def)
  then have "game_ok t g2" using w assms(2) game_ok_world by metis
  then have ok: "game_ok t (check_landing t pos g2)" by (rule check_landing_ok [OF assms(1)])
  have "world t (play t dt g) = world t (check_landing t pos g2)" by (simp add: e Let_def world_eq_iff)
  then show ?thesis using ok game_ok_world by metis
qed

lemma restart_ok:
  assumes "fresh_ids t" and "game_ok t g"
  shows "game_ok t (restart t g)"
proof -
  obtain a b c where p: "platforms g = [a, b, c]"
    using three_platforms [of "platforms g"] assms(2) by (auto simp: game_ok_def)
  obtain h where h: "tracked t [h] g" using assms(2) by (auto simp: game_ok_def)
  define g1 where "g1 = (remove_platforms [b, c] g)\<lparr>platforms := [a]\<rparr>"
  have "tracked t [h] (reset_round g1)" "length (platforms (reset_round g1)) = 1"
    using h remove_platforms_world [of t "[b, c]" g]
    by (auto simp: g1_def tracked_def p reset_round_def)
  then have "game_ok t (build_gameplay_entities t False (reset_round g1))"
    using build_gameplay_entities_ok [OF assms(1), of "[h]" _ False] by (auto simp: game_ok_def)
  moreover have "restart t g = tell Scene_update_transforms (build_gameplay_entities t False (reset_round g1))"
    using remove_platforms_world [of t "[b, c]" g] by (simp add: restart_def g1_def p Let_def)
  ultimately show ?thesis by (simp add: game_ok_def tracked_def)
qed

lemma ensure_init_ok:
  assumes fresh: "fresh_ids t"
  shows "game_ok t (ensure_init t new_game)"
    and "\<exists>e. scene_nodes t (g_calls (ensure_init t new_game))
      = List.map (\<lambda>p. Some (entity_id p)) (platforms (ensure_init t new_game)) @ [None, Some e]"
    and "numbered_nodes t \<Longrightarrow> player_node_index (ensure_init t new_game) = 4"
proof -
  define g1 where "g1 = normal_light t (tell Light_clear
    (build_meshes t (create_materials t (new_game\<lparr>g_initialized := True\<rparr>))))"
  have "world t g1 = world t (new_game\<lparr>g_initialized := True\<rparr>)"
    by (simp add: g1_def)
  then have g2: "tracked t [] (create_ground t g1)" "length (platforms (create_ground t g1)) = 1"
    "scene_nodes t (g_calls (create_ground t g1)) = List.map (\<lambda>p. Some (entity_id p)) (platforms (create_ground t g1))"
    by (simp_all add: create_ground_def ask_def Let_def tracked_def world_eq_iff new_game_def)
  let ?g = "build_gameplay_entities t True (create_ground t g1)"
  have e: "ensure_init t new_game = tell Scene_update_transforms ?g"
    by (simp add: ensure_init_def build_initial_scene_def g1_def new_game_def)
  have ok: "tracked t [player_body_handle ?g] ?g" "length (platforms ?g) = 3" "current_platform_idx ?g = 1"
    "\<exists>e. scene_nodes t (g_calls ?g) = scene_nodes t (g_calls (create_ground t g1))
        @ List.map (\<lambda>p. Some (entity_id p)) (tl (platforms ?g)) @ [None, Some e]"
    "hd (platforms ?g) = hd (platforms (create_ground t g1))"
    "numbered_nodes t \<Longrightarrow> player_node_index ?g = 4"
    using build_gameplay_entities_ok [OF fresh g2(1,2), of True] g2(2,3) by simp_all
  show "game_ok t (ensure_init t new_game)"
    using ok(1-3) by (auto simp: e game_ok_def tracked_def)
  show "\<exists>e. scene_nodes t (g_calls (ensure_init t new_game))
      = List.map (\<lambda>p. Some (entity_id p)) (platforms (ensure_init t new_game)) @ [None, Some e]"
    using ok(2,4,5) g2(2,3) by (cases "platforms ?g"; cases "platforms (create_ground t g1)") (auto simp: e)
  show "numbered_nodes t \<Longrightarrow> player_node_index (ensure_init t new_game) = 4"
    using ok(6) by (simp add: e)
qed

lemma update_ok:
  assumes fresh: "fresh_ids t" and g: "g = new_game \<or> game_ok t g"
  shows "game_ok t (snd (update t dt g))"
proof -
  have "game_ok t (ensure_init t g)"
  proof (cases "game_ok t g")
    case True
    then show ?thesis by (simp add: ensure_init_def game_ok_def tracked_def)
  next
    case False
    then show ?thesis using g ensure_init_ok(1) [OF fresh] by simp
  qed
  then have 1: "game_ok t (update_lighting t (ensure_init t g))" (is "game_ok t ?g")
    using game_ok_world [OF world_update_lighting] by metis
  have "game_ok t (wait_restart t ?g)"
  proof -
    define g2 where "g2 = (let (r, g) = ask (a_pressed t) (Key_pressed ''R'') ?g
      in if r then g\<lparr>request_restart := True\<rparr> else g)"
    have "world t g2 = world t ?g" by (simp add: g2_def ask_def Let_def world_eq_iff del: world_update_lighting)
    then have "game_ok t g2" using 1 game_ok_world by metis
    moreover have "wait_restart t ?g = (if request_restart g2 then restart t g2 else g2)"
      by (simp add: wait_restart_def g2_def ask_def Let_def)
    ultimately show ?thesis using restart_ok [OF fresh, of g2] by simp
  qed
  then have "game_ok t (if game_over ?g then wait_restart t ?g else play t dt ?g)"
    using play_ok [OF fresh 1] by simp
  then show ?thesis
    using game_ok_world [OF world_frame_state] by (simp add: update_def Let_def)
qed

lemma frames_ok:
  "fresh_ids t \<Longrightarrow> g = new_game \<and> dts \<noteq> [] \<or> game_ok t g \<Longrightarrow> game_ok t (frames t dts g)"
  by (induction dts arbitrary: g) (use update_ok in \<open>auto simp: frames_def\<close>)

subsection \<open>The node of the player\<close>

text \<open>
  The game keeps the index of the player's node for ever, but \<open>remove_object\<close> renumbers the nodes.
  In a new game the index is the player's; after the first landing on the next platform it is that
  of the platform just spawned, and \<open>node_set_translation\<close> moves this platform in place of the player.
\<close>

lemma landing_takes_player_node:
  assumes fresh: "fresh_ids t" and n: "numbered_nodes t" and g: "world t g = world t (ensure_init t new_game)"
  shows "let g' = land t pos 2 g in
      scene_nodes t (g_calls g') ! player_node_index g' = Some (entity_id (platforms g' ! 2))"
proof -
  obtain px py pz where pos: "pos = (px, py, pz)" by (rule prod_cases3)
  obtain cx cy cz where c: "center (platforms g ! 2) = (cx, cy, cz)" by (rule prod_cases3)
  have ok: "game_ok t g" using ensure_init_ok(1) [OF fresh] game_ok_world [OF g] by simp
  then obtain b where b: "tracked t [b] g" "length (platforms g) = 3" by (auto simp: game_ok_def)
  then obtain u v w where p: "platforms g = [u, v, w]" using three_platforms by blast
  note same = g [unfolded world_eq_iff]
  have q: "platforms (ensure_init t new_game) = [u, v, w]" using same p by simp
  obtain e where nodes: "scene_nodes t (g_calls g) = List.map (\<lambda>p. Some (entity_id p)) [u, v, w] @ [None, Some e]"
    using ensure_init_ok(2) [OF fresh] same unfolding q by auto
  have idx: "player_node_index g = 4" using ensure_init_ok(3) [OF fresh n] same by simp
  obtain g1 where l: "land t pos 2 g = spawn_next t (cleanup_platforms g1)"
    and g1: "tracked t [b] g1" "platforms g1 = platforms g" "current_platform_idx g1 = 2"
      "g_calls g1 = g_calls g" "player_node_index g1 = player_node_index g"
    using b by (auto simp: land_def Let_def pos c tracked_def intro: that)
  let ?g2 = "cleanup_platforms g1"
  have 2: "tracked t [b] ?g2" "platforms ?g2 = [u, w]" "player_node_index ?g2 = 4"
    "scene_nodes t (g_calls ?g2) = node_swap_remove (entity_id v) (scene_nodes t (g_calls g))"
    using cleanup_platforms_ok [of t "[b]" g1] g1 p idx by simp_all
  have "entity_id u \<noteq> entity_id v" using b p by (simp add: tracked_def)
  then have "scene_nodes t (g_calls ?g2) = [Some (entity_id u), Some e, Some (entity_id w), None]"
    by (simp add: 2(4) nodes node_swap_remove_def)
  moreover have "length (platforms (spawn_next t ?g2)) = 3"
    using spawn_next_ok [OF fresh 2(1)] 2(2) by simp
  then obtain a d f where "platforms (spawn_next t ?g2) = [a, d, f]" using three_platforms by blast
  ultimately show ?thesis
    using spawn_next_ok [OF fresh 2(1)] 2(3) by (simp add: l Let_def)
qed

text \<open>C14: Over any number of frames, with any input and any draws, falls and restarts included, the game
  has the ground and two platforms, \<open>current_platform_idx\<close> is 1, the static objects alive in the
  scene and the fixed bodies alive in the physics world are exactly those of the three platforms,
  each once, and one other body is alive, the one the game has as its player's: landing, cleaning up
  and restarting leave nothing behind.  The calls of the bridge are taken to succeed and its ids to
  be fresh.\<close>

theorem jump_world_tracks:
  assumes "fresh_ids t"
  shows "let g = frames t (dt # dts) new_game in
     length (platforms g) = 3 \<and> current_platform_idx g = 1
     \<and> static_objects t (g_calls g) = List.map entity_id (platforms g) \<and> distinct (List.map entity_id (platforms g))
     \<and> fixed_bodies t (g_calls g) = List.map body_handle (platforms g) \<and> distinct (List.map body_handle (platforms g))
     \<and> player_bodies t (g_calls g) = [player_body_handle g]
     \<and> player_body_handle g \<notin> set (List.map body_handle (platforms g))"
  using frames_ok [OF assms, of new_game "dt # dts"] by (auto simp: Let_def game_ok_def tracked_def)

subsection \<open>An engine\<close>

text \<open>An engine that numbers its objects by the calls made so far, with a player who lands and falls.\<close>

definition paper_stage :: stage where
  "paper_stage = \<lparr>cfg = jump_config, f_add = (\<lambda>a b. a), f_sub = (\<lambda>a b. a), f_mul = (\<lambda>a b. a),
     f_div = (\<lambda>a b. a), f_neg = (\<lambda>a. CHR ''-'' # a), f_abs = (\<lambda>a. a), f_square = (\<lambda>a. a), f_sqrt = (\<lambda>a. a),
     f_sin = (\<lambda>a. a), f_cos = (\<lambda>a. a), f_less = (\<lambda>a b. a \<noteq> b), f_le = (\<lambda>a b. True),
     f_of_int = (\<lambda>i. ''1.0''), random_uniform = (\<lambda>n a b. a), random_choice = (\<lambda>n ms. ms ! 0),
     a_material = length, a_mesh = length, a_body = length, a_object = (\<lambda>cs. nat_str (length cs)),
     a_node = length, a_pressed = (\<lambda>cs. even (length cs)), a_scale = (\<lambda>cs. ''1.0''),
     a_ground = (\<lambda>cs. True), a_position = (\<lambda>cs. (''0'', ''1.0'', ''0''))\<rparr>"

lemma paper_stage_ids:
  "set (static_objects paper_stage cs) \<subseteq> nat_str ` {..<length cs} \<and> set (fixed_bodies paper_stage cs) \<subseteq> {..<length cs}
   \<and> set (player_bodies paper_stage cs) \<subseteq> {..<length cs}"
proof (induction cs rule: rev_induct)
  case (snoc c cs)
  have "{..<length cs} \<subseteq> {..<length (cs @ [c])}" by auto
  then have "set (static_objects paper_stage cs) \<subseteq> nat_str ` {..<length (cs @ [c])}"
    "set (fixed_bodies paper_stage cs) \<subseteq> {..<length (cs @ [c])}"
    "set (player_bodies paper_stage cs) \<subseteq> {..<length (cs @ [c])}"
    using snoc.IH by (meson image_mono subset_trans)+
  then show ?case by (auto simp: paper_stage_def split: jcall.splits)
qed simp

lemma paper_stage_fresh: "fresh_ids paper_stage"
  using paper_stage_ids
  by (force simp: fresh_ids_def paper_stage_def)

theorem jump_world_tracks_witness:
  "fresh_ids paper_stage
   \<and> length (platforms (frames paper_stage [''0.1'', ''0.1'', ''0.1''] new_game)) = 3"
  using paper_stage_fresh jump_world_tracks [OF paper_stage_fresh, of "''0.1''" "[''0.1'', ''0.1'']"]
  by (simp add: Let_def)

end
