(* ===== verification/Physics_Bindings.thy ===== *)
theory Physics_Bindings
  imports Scene_Collision Juggle_Check
begin

section \<open>The physics bindings of the hub\<close>

text \<open>
  \<open>physics.py\<close> and \<open>physics_component.py\<close>, and what \<open>app.py\<close> does with them.  The native classes are one
  function, from the qualified name of what is called and its arguments to a statement on the
  state of the native engine; a native object is an address.  A wrapper holds the address, so it is
  modelled by it.  Arguments by keyword are lists of pairs, bound as Python binds them.
\<close>

subsection \<open>Native values and calls\<close>

datatype nv = Py pyv | Obj nat

type_synonym 'n natives = "string \<Rightarrow> nv list \<Rightarrow> ('n, nv) py"

text \<open>
  The values of the parameters \<open>params\<close>, each with its default: an unknown keyword and one given twice
  raise \<open>TypeError\<close>.
\<close>

definition bind_keywords :: "(string \<times> pyv) list \<Rightarrow> (string \<times> pyv) list \<Rightarrow> pyexn + nv list" where
  "bind_keywords params kwargs =
     (if distinct (List.map fst kwargs) \<and> set (List.map fst kwargs) \<subseteq> set (List.map fst params)
      then Inr (List.map (\<lambda>(k, d). Py (case map_of kwargs k of None \<Rightarrow> d | Some v \<Rightarrow> v)) params)
      else Inl TypeError)"

definition vec_value :: "string \<Rightarrow> string \<Rightarrow> string \<Rightarrow> pyv" where
  "vec_value x y z = VList [VFloat x, VFloat y, VFloat z]"

subsection \<open>Shapes\<close>

definition shape_cuboid :: "'n natives \<Rightarrow> pyv \<Rightarrow> pyv \<Rightarrow> pyv \<Rightarrow> ('n, nv) py" where
  "shape_cuboid N hx hy hz = N ''PhysicsShape.cuboid'' [Py hx, Py hy, Py hz]"

definition shape_ball :: "'n natives \<Rightarrow> pyv \<Rightarrow> ('n, nv) py" where
  "shape_ball N radius = N ''PhysicsShape.ball'' [Py radius]"

definition shape_capsule :: "'n natives \<Rightarrow> pyv \<Rightarrow> pyv \<Rightarrow> ('n, nv) py" where
  "shape_capsule N half_height radius = N ''PhysicsShape.capsule'' [Py half_height, Py radius]"

definition shape_cylinder :: "'n natives \<Rightarrow> pyv \<Rightarrow> pyv \<Rightarrow> ('n, nv) py" where
  "shape_cylinder N half_height radius = N ''PhysicsShape.cylinder'' [Py half_height, Py radius]"

definition shape_trimesh :: "'n natives \<Rightarrow> pyv \<Rightarrow> pyv \<Rightarrow> ('n, nv) py" where
  "shape_trimesh N vertices indices =
     bindp (lift_res (viter vertices)) (\<lambda>vs.
     bindp (lift_res (viter indices)) (\<lambda>is.
       N ''PhysicsShape.trimesh'' [Py (VList vs), Py (VList is)]))"

subsection \<open>Worlds and scenes\<close>

record pscene =
  sc_world :: nv
  sc_id :: nv

definition world_init :: "'n natives \<Rightarrow> nv option \<Rightarrow> ('n, nv) py" where
  "world_init N inner = (case inner of Some w \<Rightarrow> ret w | None \<Rightarrow> N ''PhysicsWorld'' [])"

definition world_create_scene :: "'n natives \<Rightarrow> nv \<Rightarrow> pyv option \<Rightarrow> ('n, pscene) py" where
  "world_create_scene N w gravity =
     bindp (N ''PhysicsWorld.create_scene''
              [w, Py (case gravity of None \<Rightarrow> vec_value ''0.0'' ''-9.81'' ''0.0'' | Some g \<Rightarrow> g)])
       (\<lambda>i. ret \<lparr>sc_world = w, sc_id = i\<rparr>)"

definition world_destroy_scene :: "'n natives \<Rightarrow> nv \<Rightarrow> pscene \<Rightarrow> ('n, nv) py" where
  "world_destroy_scene N w sc = N ''PhysicsWorld.destroy_scene'' [w, sc_id sc]"

definition world_contains_scene :: "'n natives \<Rightarrow> nv \<Rightarrow> nv \<Rightarrow> ('n, nv) py" where
  "world_contains_scene N w scene_id = N ''PhysicsWorld.contains_scene'' [w, scene_id]"

definition world_scene_count :: "'n natives \<Rightarrow> nv \<Rightarrow> ('n, nv) py" where
  "world_scene_count N w = N ''PhysicsWorld.scene_count'' [w]"

text \<open>The world of the process, made by the first call.\<close>

definition get_world :: "'n natives \<Rightarrow> ('n \<times> nv option, nv) py" where
  "get_world N = (\<lambda>(n, singleton). case singleton of
     Some w \<Rightarrow> (Inr w, (n, singleton))
   | None \<Rightarrow> (case world_init N None n of
        (Inl e, n') \<Rightarrow> (Inl e, (n', None))
      | (Inr w, n') \<Rightarrow> (Inr w, (n', Some w))))"

definition scene_step :: "'n natives \<Rightarrow> pscene \<Rightarrow> pyv option \<Rightarrow> ('n, nv) py" where
  "scene_step N sc dt =
     N ''PhysicsWorld.step'' [sc_world sc, sc_id sc, Py (case dt of None \<Rightarrow> VFloat ''0.033'' | Some t \<Rightarrow> t)]"

definition scene_set_gravity :: "'n natives \<Rightarrow> pscene \<Rightarrow> pyv \<Rightarrow> ('n, nv) py" where
  "scene_set_gravity N sc gravity = N ''PhysicsWorld.set_gravity'' [sc_world sc, sc_id sc, Py gravity]"

definition scene_cast_ray :: "'n natives \<Rightarrow> pscene \<Rightarrow> pyv \<Rightarrow> pyv \<Rightarrow> pyv \<Rightarrow> pyv option \<Rightarrow> ('n, nv) py" where
  "scene_cast_ray N sc origin direction max_toi solid =
     N ''cast_ray'' [sc_world sc, sc_id sc, Py origin, Py direction, Py max_toi,
       Py (case solid of None \<Rightarrow> VBool True | Some b \<Rightarrow> b)]"

definition scene_drain_collision_events :: "'n natives \<Rightarrow> pscene \<Rightarrow> ('n, nv) py" where
  "scene_drain_collision_events N sc = N ''PhysicsWorld.drain_collision_events'' [sc_world sc, sc_id sc]"

definition scene_destroy :: "'n natives \<Rightarrow> pscene \<Rightarrow> ('n, nv) py" where
  "scene_destroy N sc = N ''PhysicsWorld.destroy_scene'' [sc_world sc, sc_id sc]"

subsection \<open>Bodies of a scene\<close>

text \<open>The keywords of the three kinds of bodies with their defaults, in the order of the native call.\<close>

definition dynamic_keywords :: "(string \<times> pyv) list" where
  "dynamic_keywords =
     [(''linvel'', vec_value ''0.0'' ''0.0'' ''0.0''), (''angvel'', vec_value ''0.0'' ''0.0'' ''0.0''),
      (''density'', VFloat ''1.0''), (''friction'', VFloat ''0.5''), (''restitution'', VFloat ''0.0''),
      (''gravity_scale'', VFloat ''1.0''), (''can_sleep'', VBool True), (''ccd_enabled'', VBool False),
      (''sensor'', VBool False), (''events'', VBool False)]"

definition fixed_keywords :: "(string \<times> pyv) list" where
  "fixed_keywords = [(''friction'', VFloat ''0.5''), (''restitution'', VFloat ''0.0''),
     (''sensor'', VBool False), (''events'', VBool False)]"

definition kinematic_keywords :: "(string \<times> pyv) list" where
  "kinematic_keywords = [(''velocity_based'', VBool False), (''events'', VBool False)]"

definition add_body :: "'n natives \<Rightarrow> string \<Rightarrow> (string \<times> pyv) list \<Rightarrow> pscene \<Rightarrow> nv \<Rightarrow> pyv \<Rightarrow> pyv \<Rightarrow>
    (string \<times> pyv) list \<Rightarrow> ('n, nv) py" where
  "add_body N name params sc shape position rotation kwargs =
     bindp (lift_res (bind_keywords params kwargs)) (\<lambda>vals.
       N name ([sc_world sc, sc_id sc, shape, Py position, Py rotation] @ vals))"

definition scene_add_dynamic where
  "scene_add_dynamic N = add_body N ''PhysicsBody.add_dynamic'' dynamic_keywords"

definition scene_add_fixed where
  "scene_add_fixed N = add_body N ''PhysicsBody.add_fixed'' fixed_keywords"

definition scene_add_kinematic where
  "scene_add_kinematic N = add_body N ''PhysicsBody.add_kinematic'' kinematic_keywords"

text \<open>The methods of a body that only pass on, and those with a \<open>wake_up\<close>.\<close>

definition body_get :: "'n natives \<Rightarrow> string \<Rightarrow> nv \<Rightarrow> ('n, nv) py" where
  "body_get N name b = N (''PhysicsBody.'' @ name) [b]"

definition body_set :: "'n natives \<Rightarrow> string \<Rightarrow> nv \<Rightarrow> pyv \<Rightarrow> pyv option \<Rightarrow> ('n, nv) py" where
  "body_set N name b v wake_up =
     N (''PhysicsBody.'' @ name) [b, Py v, Py (case wake_up of None \<Rightarrow> VBool True | Some w \<Rightarrow> w)]"

definition body_remove :: "'n natives \<Rightarrow> nv \<Rightarrow> ('n, nv) py" where
  "body_remove N b = body_get N ''remove'' b"

subsection \<open>The component of an entity\<close>

record pcomponent =
  cp_scene :: pscene
  cp_body :: "nv option"

definition lower :: "string \<Rightarrow> string" where
  "lower s = List.map lower_char s"

definition component_init :: "'n natives \<Rightarrow> pscene \<Rightarrow> nv \<Rightarrow> string \<Rightarrow> pyv \<Rightarrow> pyv \<Rightarrow> (string \<times> pyv) list \<Rightarrow>
    ('n, pcomponent) py" where
  "component_init N sc shape kind position rotation kwargs =
     (let kind = lower kind in
      bindp (if kind = ''dynamic'' then scene_add_dynamic N sc shape position rotation kwargs
             else if kind = ''fixed'' \<or> kind = ''static'' then scene_add_fixed N sc shape position rotation kwargs
             else if kind = ''kinematic'' \<or> kind = ''kinematic_position'' then
               scene_add_kinematic N sc shape position rotation kwargs
             else if kind = ''kinematic_velocity'' then
               scene_add_kinematic N sc shape position rotation ((''velocity_based'', VBool True) # kwargs)
             else raise ValueError)
        (\<lambda>b. ret \<lparr>cp_scene = sc, cp_body = Some b\<rparr>))"

text \<open>An attribute of \<open>self._body\<close> raises once the body is gone.\<close>

definition on_body :: "(nv \<Rightarrow> ('n, nv) py) \<Rightarrow> ('n \<times> pcomponent, nv) py" where
  "on_body f = (\<lambda>(n, c). case cp_body c of
     None \<Rightarrow> (Inl AttributeError, (n, c))
   | Some b \<Rightarrow> (case f b n of (r, n') \<Rightarrow> (r, (n', c))))"

definition component_get :: "'n natives \<Rightarrow> string \<Rightarrow> ('n \<times> pcomponent, nv) py" where
  "component_get N name = on_body (body_get N name)"

definition component_set :: "'n natives \<Rightarrow> string \<Rightarrow> pyv \<Rightarrow> ('n \<times> pcomponent, nv) py" where
  "component_set N name v = bindp (on_body (\<lambda>b. body_set N name b v None)) (\<lambda>_. ret (Py VNone))"

definition component_destroy :: "'n natives \<Rightarrow> ('n \<times> pcomponent, nv) py" where
  "component_destroy N = (\<lambda>(n, c). case cp_body c of
     None \<Rightarrow> (Inr (Py (VBool False)), (n, c))
   | Some b \<Rightarrow> (case body_remove N b n of
        (Inl e, n') \<Rightarrow> (Inl e, (n', c))
      | (Inr ok, n') \<Rightarrow> (Inr ok, (n', c\<lparr>cp_body := None\<rparr>))))"

text \<open>
  What an entity can ask of its component: \<open>collider_handle\<close>, \<open>position\<close>, \<open>rotation\<close>, \<open>linvel\<close>, \<open>is_alive\<close>; the
  three setters and the two impulses; \<open>destroy\<close>; and the properties \<open>scene\<close> and \<open>body\<close>, which give the
  wrappers the component holds.
\<close>

definition component_body :: "pcomponent \<Rightarrow> nv" where
  "component_body c = (case cp_body c of None \<Rightarrow> Py VNone | Some b \<Rightarrow> b)"

definition component_scene :: "pcomponent \<Rightarrow> pscene" where
  "component_scene c = cp_scene c"

datatype component_op = Get string | Set string pyv | Destroy | Get_body | Get_scene

datatype component_result = Value nv | Scene_value pscene

definition valued :: "('s, nv) py \<Rightarrow> ('s, component_result) py" where
  "valued m = (\<lambda>s. case m s of (r, s') \<Rightarrow> (map_sum id Value r, s'))"

fun component_do :: "'n natives \<Rightarrow> component_op \<Rightarrow> ('n \<times> pcomponent, component_result) py" where
  "component_do N (Get name) = valued (component_get N name)"
| "component_do N (Set name v) = valued (component_set N name v)"
| "component_do N Destroy = valued (component_destroy N)"
| "component_do N Get_body = (\<lambda>(n, c). (Inr (Value (component_body c)), (n, c)))"
| "component_do N Get_scene = (\<lambda>(n, c). (Inr (Scene_value (component_scene c)), (n, c)))"

fun component_run :: "'n natives \<Rightarrow> component_op list \<Rightarrow> 'n \<times> pcomponent \<Rightarrow>
    (pyexn + component_result) list \<times> 'n \<times> pcomponent" where
  "component_run N [] s = ([], s)"
| "component_run N (x # xs) s =
     (case component_do N x s of (r, s') \<Rightarrow> (case component_run N xs s' of (rs, s'') \<Rightarrow> (r # rs, s'')))"

text \<open>The methods of the class.\<close>

definition component_getters :: "string list" where
  "component_getters = [''collider_handle'', ''position'', ''rotation'', ''linvel'', ''is_alive'']"

definition component_setters :: "string list" where
  "component_setters = [''set_translation'', ''set_rotation'', ''set_linvel'', ''apply_impulse'', ''apply_torque_impulse'']"

fun component_method :: "component_op \<Rightarrow> bool" where
  "component_method (Get name) = (name \<in> set component_getters)"
| "component_method (Set name v) = (name \<in> set component_setters)"
| "component_method _ = True"

subsection \<open>The physics of the application\<close>

text \<open>
  The hook of the main loop is a function of the game or the lambda of \<open>build_scene_physics\<close>, which reads
  the world and the scene when it is called.
\<close>

datatype physics_hook = User_hook nat | Scene_hook

record 'n app_physics =
  ap_native :: 'n
  ap_world :: "nat option"
  ap_scene_id :: int
  ap_bodies :: bodies
  ap_sync :: bool
  ap_tick :: "physics_hook option"
  ap_info :: "(nat \<times> pyv) list"

definition new_app_physics :: "'n \<Rightarrow> 'n app_physics" where
  "new_app_physics n = \<lparr>ap_native = n, ap_world = None, ap_scene_id = 0, ap_bodies = [], ap_sync = False,
     ap_tick = None, ap_info = []\<rparr>"

definition in_native :: "('n, 'a) py \<Rightarrow> ('n app_physics, 'a) py" where
  "in_native m = (\<lambda>a. case m (ap_native a) of (r, n) \<Rightarrow> (r, a\<lparr>ap_native := n\<rparr>))"

definition register_physics_tick :: "physics_hook \<Rightarrow> ('n app_physics, unit) py" where
  "register_physics_tick tick = modify (\<lambda>a. a\<lparr>ap_tick := Some tick\<rparr>)"

definition build_scene_physics :: "'n host \<Rightarrow> pyv \<Rightarrow> ('n app_physics, unit) py" where
  "build_scene_physics h manifest_path =
     bindp (modify (\<lambda>a. a\<lparr>ap_sync := True\<rparr>)) (\<lambda>_.
     bindp (in_native (n_new_world h)) (\<lambda>w.
     bindp (modify (\<lambda>a. a\<lparr>ap_world := Some w\<rparr>)) (\<lambda>_.
     bindp (in_native (n_create_scene h w (''0.0'', ''-9.81'', ''0.0''))) (\<lambda>i.
     bindp (modify (\<lambda>a. a\<lparr>ap_scene_id := i\<rparr>)) (\<lambda>_.
     bindp (in_native (load_scene_collision_from_manifest h w i manifest_path)) (\<lambda>d.
     bindp (modify (\<lambda>a. a\<lparr>ap_bodies := d\<rparr>)) (\<lambda>_.
     bindp (register_physics_tick Scene_hook) (\<lambda>_.
       modify (\<lambda>a. a\<lparr>ap_info := ap_info a @ [(length d, manifest_path)]\<rparr>)))))))))"

definition run_hook :: "'n host \<Rightarrow> (nat \<Rightarrow> flt \<Rightarrow> ('n, unit) py) \<Rightarrow> flt \<Rightarrow> ('n app_physics, unit) py" where
  "run_hook h user dt = (\<lambda>a. case ap_tick a of
     None \<Rightarrow> (Inr (), a)
   | Some (User_hook k) \<Rightarrow> in_native (user k dt) a
   | Some Scene_hook \<Rightarrow> (case ap_world a of
        None \<Rightarrow> (Inl AttributeError, a)
      | Some w \<Rightarrow> in_native (n_step h w (ap_scene_id a) dt) a))"

definition app_cast_ray :: "'n natives \<Rightarrow> pyv \<Rightarrow> pyv \<Rightarrow> pyv \<Rightarrow> bool \<Rightarrow> ('n app_physics, nv) py" where
  "app_cast_ray N origin direction max_toi solid = (\<lambda>a. case ap_world a of
     None \<Rightarrow> (Inr (Py VNone), a)
   | Some w \<Rightarrow> in_native (N ''cast_ray''
       [Obj w, Py (VInt (ap_scene_id a)), Py origin, Py direction, Py max_toi, Py (VBool solid)]) a)"

definition get_contacts :: "'n host \<Rightarrow> ('n app_physics, (nat \<times> nat) list) py" where
  "get_contacts h = (\<lambda>a. case ap_world a of
     None \<Rightarrow> (Inr [], a)
   | Some w \<Rightarrow> in_native (n_drain_events h w (ap_scene_id a)) a)"

subsection \<open>A component after its body\<close>

fun dead_result :: "pcomponent \<Rightarrow> component_op \<Rightarrow> pyexn + component_result" where
  "dead_result c Destroy = Inr (Value (Py (VBool False)))"
| "dead_result c Get_body = Inr (Value (Py VNone))"
| "dead_result c Get_scene = Inr (Scene_value (cp_scene c))"
| "dead_result c _ = Inl AttributeError"

lemma component_dead [simp]: "cp_body c = None \<Longrightarrow> component_do N x (n, c) = (dead_result c x, (n, c))"
  by (cases x) (simp_all add: valued_def component_get_def component_set_def component_destroy_def on_body_def
      component_body_def component_scene_def)

lemma component_run_dead:
  "cp_body c = None \<Longrightarrow> component_run N xs (n, c) = (List.map (dead_result c) xs, (n, c))"
  by (induction xs) simp_all

text \<open>The native engine with a log of its calls: the name and whether the call returned.\<close>

definition logged :: "'n natives \<Rightarrow> ('n \<times> (string \<times> bool) list) natives" where
  "logged N name args = (\<lambda>(n, calls). case N name args n of (r, n') \<Rightarrow> (r, (n', calls @ [(name, \<not> isl r)])))"

abbreviation removed :: "string \<times> bool" where
  "removed \<equiv> (''PhysicsBody.remove'', True)"

lemma component_do_logged:
  assumes "component_method x" and b: "cp_body c = Some b"
    and d: "component_do (logged N) x ((n, calls), c) = (r, ((n', calls'), c'))"
  shows "calls' = calls \<and> c' = c \<or>
    (\<exists>call. calls' = calls @ [call] \<and> (cp_body c' = (if call = removed then None else Some b)))"
proof (cases x)
  case (Get name)
  then have name: "name \<noteq> ''remove''" using assms(1) by (auto simp: component_getters_def)
  obtain r1 n1 where "N (''PhysicsBody.'' @ name) [b] n = (r1, n1)" by fastforce
  then have e: "component_do (logged N) x ((n, calls), c) =
      (map_sum id Value r1, ((n1, calls @ [(''PhysicsBody.'' @ name, \<not> isl r1)]), c))"
    unfolding Get component_do.simps valued_def component_get_def on_body_def body_get_def logged_def prod.case b option.case
    by simp
  from trans [OF d [symmetric] e] have "calls' = calls @ [(''PhysicsBody.'' @ name, \<not> isl r1)]" "c' = c"
    by simp_all
  with name b show ?thesis by (intro disjI2 exI [of _ "(''PhysicsBody.'' @ name, \<not> isl r1)"]) simp
next
  case (Set name v)
  then have name: "name \<noteq> ''remove''" using assms(1) by (auto simp: component_setters_def)
  obtain r1 n1 where "N (''PhysicsBody.'' @ name) [b, Py v, Py (VBool True)] n = (r1, n1)" by fastforce
  then have e: "component_do (logged N) x ((n, calls), c) =
      (case r1 of Inl e \<Rightarrow> Inl e | Inr _ \<Rightarrow> Inr (Value (Py VNone)),
       ((n1, calls @ [(''PhysicsBody.'' @ name, \<not> isl r1)]), c))"
    unfolding Set component_do.simps valued_def component_set_def bindp_def on_body_def body_set_def logged_def prod.case b
      option.case
    by (cases r1) (simp_all add: ret_def)
  from trans [OF d [symmetric] e] have "calls' = calls @ [(''PhysicsBody.'' @ name, \<not> isl r1)]" "c' = c"
    by simp_all
  with name b show ?thesis by (intro disjI2 exI [of _ "(''PhysicsBody.'' @ name, \<not> isl r1)"]) simp
next
  case Destroy
  obtain r1 n1 where "N (''PhysicsBody.'' @ ''remove'') [b] n = (r1, n1)" by fastforce
  then have e: "component_do (logged N) x ((n, calls), c) =
      (map_sum id Value r1, ((n1, calls @ [(''PhysicsBody.remove'', \<not> isl r1)]), if isl r1 then c else c\<lparr>cp_body := None\<rparr>))"
    unfolding Destroy component_do.simps valued_def component_destroy_def body_remove_def body_get_def logged_def prod.case b
      option.case
    by (cases r1) simp_all
  from trans [OF d [symmetric] e] have "calls' = calls @ [(''PhysicsBody.remove'', \<not> isl r1)]"
    "c' = (if isl r1 then c else c\<lparr>cp_body := None\<rparr>)" by simp_all
  with b show ?thesis by (intro disjI2 exI [of _ "(''PhysicsBody.remove'', \<not> isl r1)"]) simp
next
  case Get_body
  then show ?thesis using d by simp
next
  case Get_scene
  then show ?thesis using d by simp
qed

lemma component_run_logged:
  assumes "\<forall>x \<in> set xs. component_method x" and "cp_body c = Some b"
    and "component_run (logged N) xs ((n, calls), c) = (rs, ((n', calls'), c'))"
  shows "\<exists>new. calls' = calls @ new \<and> removed \<notin> set (butlast new)"
  using assms
proof (induction xs arbitrary: n calls c rs)
  case Nil
  then show ?case by simp
next
  case (Cons x xs)
  obtain r n1 calls1 c1 where d: "component_do (logged N) x ((n, calls), c) = (r, ((n1, calls1), c1))"
    by (metis surj_pair)
  obtain rs' where run: "component_run (logged N) xs ((n1, calls1), c1) = (rs', ((n', calls'), c'))"
    using Cons.prems(3) d by (auto split: prod.splits)
  consider "calls1 = calls" "c1 = c" | call where "calls1 = calls @ [call]" "cp_body c1 = (if call = removed then None else Some b)"
    using component_do_logged [OF _ Cons.prems(2) d] Cons.prems(1) by auto
  then show ?case
  proof cases
    case 1
    then show ?thesis using Cons.IH [OF _ _ run] Cons.prems(1,2) by auto
  next
    case call: 2
    show ?thesis
    proof (cases "call = removed")
      case True
      then have "cp_body c1 = None" using call(2) by simp
      then have "calls' = calls1" using run by (simp add: component_run_dead)
      then show ?thesis using call(1) by (intro exI [of _ "[call]"]) simp
    next
      case False
      then obtain new where "calls' = calls1 @ new" "removed \<notin> set (butlast new)"
        using Cons.IH [OF _ _ run] Cons.prems(1) call(2) by auto
      then show ?thesis using call(1) False by (intro exI [of _ "call # new"]) auto
    qed
  qed
qed

text \<open>C19: The body of a component is not used after it was removed: over any sequence of uses of a new
  component, its properties \<open>scene\<close> and \<open>body\<close> included, a removal that returns is the last call that
  reaches the native body, whatever the native calls answer or raise.  (What the game does with the
  wrapper that \<open>body\<close> hands out is not a use of the component.)\<close>

theorem component_no_use_after_remove:
  assumes "\<forall>x \<in> set xs. component_method x" and "cp_body c = Some b"
    and "component_run (logged N) xs ((n, []), c) = (rs, ((n', calls), c'))"
  shows "removed \<notin> set (butlast calls)"
  using component_run_logged [OF assms] by auto

theorem component_no_use_after_remove_witness:
  "let calls = snd (fst (snd (component_run (logged (\<lambda>name args. ret (Py (VBool True)))) [Get ''position'', Destroy, Destroy, Get_body, Get ''position'']
       (((), []), \<lparr>cp_scene = \<lparr>sc_world = Obj 0, sc_id = Obj 1\<rparr>, cp_body = Some (Obj 2)\<rparr>))))
   in calls = [(''PhysicsBody.position'', True), removed] \<and> removed \<notin> set (butlast calls)"
proof -
  let ?c = "\<lparr>cp_scene = \<lparr>sc_world = Obj 0, sc_id = Obj 1\<rparr>, cp_body = Some (Obj 2)\<rparr>"
  let ?c' = "\<lparr>cp_scene = \<lparr>sc_world = Obj 0, sc_id = Obj 1\<rparr>, cp_body = None\<rparr>"
  let ?N = "logged (\<lambda>name args. ret (Py (VBool True)) :: (unit, nv) py)"
  let ?xs = "[Get ''position'', Destroy, Destroy, Get_body, Get ''position'']"
  have run: "component_run ?N ?xs (((), []), ?c) =
      ([Inr (Value (Py (VBool True))), Inr (Value (Py (VBool True))), Inr (Value (Py (VBool False))), Inr (Value (Py VNone)),
        Inl AttributeError],
       (((), [(''PhysicsBody.position'', True), removed]), ?c'))"
    by (simp add: valued_def component_get_def component_destroy_def component_body_def on_body_def body_get_def body_remove_def logged_def)
  have "removed \<notin> set (butlast [(''PhysicsBody.position'', True), removed])"
    by (rule component_no_use_after_remove [OF _ _ run]) (simp_all add: component_getters_def)
  then show ?thesis unfolding run by simp
qed

subsection \<open>The physics of a scene\<close>

text \<open>
  After a load that returns, the hook of the loop steps the scene that was loaded, and the table has
  one entry per body made; after one that raises no hook was registered.
\<close>

lemma in_native_Inr:
  "in_native m a = (Inr x, a') \<longleftrightarrow> (\<exists>n. m (ap_native a) = (Inr x, n) \<and> a' = a\<lparr>ap_native := n\<rparr>)"
  by (auto simp: in_native_def split: prod.splits)

lemma in_native_Inl:
  "in_native m a = (Inl e, a') \<longleftrightarrow> (\<exists>n. m (ap_native a) = (Inl e, n) \<and> a' = a\<lparr>ap_native := n\<rparr>)"
  by (auto simp: in_native_def split: prod.splits)

lemma modify_Inr: "modify f a = (Inr x, a') \<longleftrightarrow> a' = f a"
  by auto

lemma bindp_Inl: "bindp m k s = (Inl e, s'') \<longleftrightarrow>
    m s = (Inl e, s'') \<or> (\<exists>x s'. m s = (Inr x, s') \<and> k x s' = (Inl e, s''))"
  by (cases "m s"; cases "fst (m s)") auto

lemma build_scene_physics_returns:
  assumes r: "build_scene_physics h path a = (Inr (), a')" and c: "counts_bodies h count"
    and worlds: "\<And>n w n'. n_new_world h n = (Inr w, n') \<Longrightarrow> count n' = count n"
    and scenes: "\<And>w g n i n'. n_create_scene h w g n = (Inr i, n') \<Longrightarrow> count n' = count n"
  shows "ap_tick a' = Some Scene_hook \<and> ap_sync a' \<and> distinct (keys (ap_bodies a')) \<and>
    count (ap_native a') = count (ap_native a) + length (ap_bodies a') \<and>
    (\<exists>w. ap_world a' = Some w \<and> run_hook h user dt a' = in_native (n_step h w (ap_scene_id a') dt) a')"
proof -
  from r obtain w n1 i n2 d n3 where
    1: "n_new_world h (ap_native a) = (Inr w, n1)" and
    2: "n_create_scene h w (''0.0'', ''-9.81'', ''0.0'') n1 = (Inr i, n2)" and
    3: "load_scene_collision_from_manifest h w i path n2 = (Inr d, n3)" and
    a': "a' = a\<lparr>ap_sync := True, ap_native := n3, ap_world := Some w, ap_scene_id := i, ap_bodies := d,
      ap_tick := Some Scene_hook, ap_info := ap_info a @ [(length d, path)]\<rparr>"
    by (auto simp: build_scene_physics_def register_physics_tick_def bindp_Inr in_native_Inr modify_Inr
        simp del: py_apply)
  have "tally count [] n2 d n3" by (rule load_scene_tally [OF c 3])
  with worlds [OF 1] scenes [OF 2] show ?thesis
    by (simp add: a' tally_def distinct_numbered keys_def run_hook_def)
qed

lemma build_scene_physics_raises:
  assumes "build_scene_physics h path a = (Inl e, a')"
  shows "ap_tick a' = ap_tick a \<and> ap_bodies a' = ap_bodies a"
  using assms unfolding build_scene_physics_def register_physics_tick_def
  by (auto simp: bindp_Inl in_native_Inl in_native_Inr modify_Inr simp del: py_apply) (auto simp: modify_def)

lemma get_world_once:
  assumes "get_world N s = (Inr w, s')"
  shows "get_world N s' = (Inr w, s')"
  using assms by (auto simp: get_world_def split: prod.splits option.splits sum.splits)

end
