(* ===== verification/Behavior_Tree.thy ===== *)
theory Behavior_Tree
  imports Complex_Main Prelude "HOL-Library.While_Combinator"
begin

section \<open>Behaviour trees\<close>

text \<open>
  \<open>external/behavior3py/b3\<close>: the behaviour trees of the engine.  A tree is ticked; a node is entered,
  opened when it is not open, ticked, closed unless it is running, and left.  What a node remembers
  between ticks is on the blackboard, under the tree and the node.  The package is written for
  Python 2; \<open>python3\<close> says which Python runs it, since the names \<open>xrange\<close> and \<open>itertools.izip\<close> are missing
  from Python 3.

  A statement gives \<open>None\<close> when it does not return: a repeater without a bound may run for ever.  The
  nodes a game adds are \<open>Custom\<close>: they act on a state of their own, \<open>'w\<close>, and not on the memory of other
  nodes.  A node below two parents is two subtrees with the same id.  Times are rationals, read from
  \<open>time.time\<close> by the number of the reading.
\<close>

subsection \<open>Nodes\<close>

datatype status = SUCCESS | FAILURE | RUNNING | ERROR

datatype composite = Sequence | Priority | MemSequence | MemPriority

datatype decorator =
    Inverter
  | Limiter int
  | MaxTime rat
  | Repeater int
  | RepeatUntilFailure int
  | RepeatUntilSuccess int

datatype action = Succeeder | Failer | Runner | Error_action | Wait rat | Custom nat

datatype bnode =
    Composite string composite "bnode list"
  | Decorator string decorator "bnode option"
  | Leaf string action

fun node_id :: "bnode \<Rightarrow> string" where
  "node_id (Composite i k cs) = i"
| "node_id (Decorator i k c) = i"
| "node_id (Leaf i a) = i"

subsection \<open>The blackboard\<close>

datatype bval = BBool bool | BInt int | BTime rat | BNodes "bnode list"

type_synonym memory = "(string, bval) dict"

record tree_memory =
  tm_keys :: memory
  tm_nodes :: "(string, memory) dict"

record blackboard =
  base_memory :: memory
  tree_memories :: "(string, tree_memory) dict"

definition new_blackboard :: blackboard where
  "new_blackboard = \<lparr>base_memory = [], tree_memories = []\<rparr>"

definition new_tree_memory :: tree_memory where
  "new_tree_memory = \<lparr>tm_keys = [(''open_nodes'', BNodes [])], tm_nodes = []\<rparr>"

text \<open>The memory of a tree and of a node are made when they are first asked for.\<close>

definition get_tree_memory :: "string \<Rightarrow> blackboard \<Rightarrow> tree_memory" where
  "get_tree_memory tree_scope bb =
     (case dget (tree_memories bb) tree_scope of None \<Rightarrow> new_tree_memory | Some m \<Rightarrow> m)"

definition put_tree_memory :: "string \<Rightarrow> tree_memory \<Rightarrow> blackboard \<Rightarrow> blackboard" where
  "put_tree_memory tree_scope m bb = bb\<lparr>tree_memories := dset tree_scope m (tree_memories bb)\<rparr>"

definition get_node_memory :: "string \<Rightarrow> tree_memory \<Rightarrow> memory" where
  "get_node_memory node_scope m = (case dget (tm_nodes m) node_scope of None \<Rightarrow> [] | Some d \<Rightarrow> d)"

definition put_node_memory :: "string \<Rightarrow> memory \<Rightarrow> tree_memory \<Rightarrow> tree_memory" where
  "put_node_memory node_scope d m = m\<lparr>tm_nodes := dset node_scope d (tm_nodes m)\<rparr>"

fun get_memory :: "string option \<Rightarrow> string option \<Rightarrow> blackboard \<Rightarrow> memory \<times> blackboard" where
  "get_memory None _ bb = (base_memory bb, bb)"
| "get_memory (Some t) None bb =
     (let m = get_tree_memory t bb in (tm_keys m, put_tree_memory t m bb))"
| "get_memory (Some t) (Some n) bb =
     (let m = get_tree_memory t bb; d = get_node_memory n m
      in (d, put_tree_memory t (put_node_memory n d m) bb))"

fun put_memory :: "string option \<Rightarrow> string option \<Rightarrow> memory \<Rightarrow> blackboard \<Rightarrow> blackboard" where
  "put_memory None _ d bb = bb\<lparr>base_memory := d\<rparr>"
| "put_memory (Some t) None d bb = put_tree_memory t (get_tree_memory t bb\<lparr>tm_keys := d\<rparr>) bb"
| "put_memory (Some t) (Some n) d bb = put_tree_memory t (put_node_memory n d (get_tree_memory t bb)) bb"

definition bb_set :: "string \<Rightarrow> bval \<Rightarrow> string option \<Rightarrow> string option \<Rightarrow> blackboard \<Rightarrow> blackboard" where
  "bb_set key v tree_scope node_scope bb =
     (case get_memory tree_scope node_scope bb of (d, bb) \<Rightarrow> put_memory tree_scope node_scope (dset key v d) bb)"

definition bb_get :: "string \<Rightarrow> string option \<Rightarrow> string option \<Rightarrow> blackboard \<Rightarrow> bval option \<times> blackboard" where
  "bb_get key tree_scope node_scope bb =
     (case get_memory tree_scope node_scope bb of (d, bb) \<Rightarrow> (dget d key, bb))"

subsection \<open>Statements\<close>

text \<open>The fields of the \<open>Tick\<close> object, the blackboard, the readings of the clock so far and the game.\<close>

record 'w bt =
  bt_bb :: blackboard
  bt_open :: "bnode list"
  bt_count :: nat
  bt_clock :: nat
  bt_world :: 'w

type_synonym ('w, 'a) bstep = "'w bt \<Rightarrow> ((pyexn + 'a) \<times> 'w bt) option"

datatype hook = Enter | Open | Close | Exit

record 'w behaviour =
  python3 :: bool
  b_tick :: "nat \<Rightarrow> ('w, status) py"
  b_hook :: "hook \<Rightarrow> nat \<Rightarrow> ('w, unit) py"
  b_time :: "nat \<Rightarrow> rat"

definition bindo :: "('w, 'a) bstep \<Rightarrow> ('a \<Rightarrow> ('w, 'b) bstep) \<Rightarrow> ('w, 'b) bstep" where
  "bindo m k = (\<lambda>s. case m s of
     None \<Rightarrow> None
   | Some (Inl e, s') \<Rightarrow> Some (Inl e, s')
   | Some (Inr x, s') \<Rightarrow> k x s')"

definition reto :: "'a \<Rightarrow> ('w, 'a) bstep" where
  "reto x = (\<lambda>s. Some (Inr x, s))"

definition raiseo :: "pyexn \<Rightarrow> ('w, 'a) bstep" where
  "raiseo e = (\<lambda>s. Some (Inl e, s))"

definition modifyo :: "('w bt \<Rightarrow> 'w bt) \<Rightarrow> ('w, unit) bstep" where
  "modifyo f = (\<lambda>s. Some (Inr (), f s))"

definition in_world :: "('w, 'a) py \<Rightarrow> ('w, 'a) bstep" where
  "in_world m = (\<lambda>s. case m (bt_world s) of (r, w) \<Rightarrow> Some (r, s\<lparr>bt_world := w\<rparr>))"

definition time_now :: "'w behaviour \<Rightarrow> ('w, rat) bstep" where
  "time_now E = (\<lambda>s. Some (Inr (b_time E (bt_clock s)), s\<lparr>bt_clock := bt_clock s + 1\<rparr>))"

definition node_set :: "string \<Rightarrow> string \<Rightarrow> string \<Rightarrow> bval \<Rightarrow> ('w, unit) bstep" where
  "node_set T i key v = modifyo (\<lambda>s. s\<lparr>bt_bb := bb_set key v (Some T) (Some i) (bt_bb s)\<rparr>)"

definition node_get :: "string \<Rightarrow> string \<Rightarrow> string \<Rightarrow> ('w, bval option) bstep" where
  "node_get T i key = (\<lambda>s. case bb_get key (Some T) (Some i) (bt_bb s) of
     (v, bb) \<Rightarrow> Some (Inr v, s\<lparr>bt_bb := bb\<rparr>))"

text \<open>A value that must be a number, as in \<open>i < max_loop\<close>, \<open>xrange(idx, n)\<close> and \<open>t - start\<close>.\<close>

definition int_of :: "bval option \<Rightarrow> ('w, int) bstep" where
  "int_of v = (case v of Some (BInt i) \<Rightarrow> reto i | _ \<Rightarrow> raiseo TypeError)"

definition time_of :: "bval option \<Rightarrow> ('w, rat) bstep" where
  "time_of v = (case v of Some (BTime t) \<Rightarrow> reto t | _ \<Rightarrow> raiseo TypeError)"

subsection \<open>The life cycle of a node\<close>

definition run_hook :: "'w behaviour \<Rightarrow> hook \<Rightarrow> bnode \<Rightarrow> ('w, unit) bstep" where
  "run_hook E h n = (case n of Leaf i (Custom k) \<Rightarrow> in_world (b_hook E h k) | _ \<Rightarrow> reto ())"

text \<open>\<open>open\<close>: what a node puts on the blackboard when it is opened.\<close>

definition open_hook :: "'w behaviour \<Rightarrow> string \<Rightarrow> bnode \<Rightarrow> ('w, unit) bstep" where
  "open_hook E T n = (case n of
     Composite i MemSequence cs \<Rightarrow> node_set T i ''running_child'' (BInt 0)
   | Composite i MemPriority cs \<Rightarrow> node_set T i ''running_child'' (BInt 0)
   | Decorator i (MaxTime m) c \<Rightarrow> bindo (time_now E) (\<lambda>t. node_set T i ''startTime'' (BTime t))
   | Decorator i (Limiter m) c \<Rightarrow> node_set T i ''i'' (BInt 0)
   | Decorator i (Repeater m) c \<Rightarrow> node_set T i ''i'' (BInt 0)
   | Decorator i (RepeatUntilFailure m) c \<Rightarrow> node_set T i ''i'' (BInt 0)
   | Decorator i (RepeatUntilSuccess m) c \<Rightarrow> node_set T i ''i'' (BInt 0)
   | Leaf i (Wait ms) \<Rightarrow> bindo (time_now E) (\<lambda>t. node_set T i ''start_time'' (BTime t))
   | _ \<Rightarrow> run_hook E Open n)"

definition node_enter :: "'w behaviour \<Rightarrow> bnode \<Rightarrow> ('w, unit) bstep" where
  "node_enter E n = bindo (modifyo (\<lambda>s. s\<lparr>bt_count := bt_count s + 1, bt_open := bt_open s @ [n]\<rparr>))
     (\<lambda>_. run_hook E Enter n)"

definition node_open :: "'w behaviour \<Rightarrow> string \<Rightarrow> bnode \<Rightarrow> ('w, unit) bstep" where
  "node_open E T n = bindo (node_set T (node_id n) ''is_open'' (BBool True)) (\<lambda>_. open_hook E T n)"

text \<open>\<open>self._open_nodes.pop()\<close>, whichever node is last.\<close>

definition pop_open :: "('w, unit) bstep" where
  "pop_open = (\<lambda>s. if bt_open s = [] then Some (Inl IndexError, s)
                   else Some (Inr (), s\<lparr>bt_open := butlast (bt_open s)\<rparr>))"

definition node_close :: "'w behaviour \<Rightarrow> string \<Rightarrow> bnode \<Rightarrow> ('w, unit) bstep" where
  "node_close E T n =
     bindo pop_open (\<lambda>_. bindo (node_set T (node_id n) ''is_open'' (BBool False)) (\<lambda>_. run_hook E Close n))"

definition is_open :: "bval option \<Rightarrow> bool" where
  "is_open v = (case v of Some (BBool b) \<Rightarrow> b | _ \<Rightarrow> False)"

definition execute :: "'w behaviour \<Rightarrow> string \<Rightarrow> bnode \<Rightarrow> ('w, status) bstep \<Rightarrow> ('w, status) bstep" where
  "execute E T n tick =
     bindo (node_enter E n) (\<lambda>_.
     bindo (node_get T (node_id n) ''is_open'') (\<lambda>v.
     bindo (if is_open v then reto () else node_open E T n) (\<lambda>_.
     bindo tick (\<lambda>status.
     bindo (if status \<noteq> RUNNING then node_close E T n else reto ()) (\<lambda>_.
     bindo (run_hook E Exit n) (\<lambda>_. reto status))))))"

subsection \<open>Composites\<close>

text \<open>The children one after the other, until one answers something else than \<open>cont\<close>.\<close>

fun run_children :: "status \<Rightarrow> ('w, status) bstep list \<Rightarrow> ('w, status) bstep" where
  "run_children cont [] = reto cont"
| "run_children cont (c # cs) = bindo c (\<lambda>status. if status \<noteq> cont then reto status else run_children cont cs)"

fun run_from :: "string \<Rightarrow> string \<Rightarrow> status \<Rightarrow> int \<Rightarrow> ('w, status) bstep list \<Rightarrow> ('w, status) bstep" where
  "run_from T i cont k [] = reto cont"
| "run_from T i cont k (c # cs) = bindo c (\<lambda>status.
     if status \<noteq> cont then
       bindo (if status = RUNNING then node_set T i ''running_child'' (BInt k) else reto ()) (\<lambda>_. reto status)
     else run_from T i cont (k + 1) cs)"

definition mem_children :: "'w behaviour \<Rightarrow> string \<Rightarrow> string \<Rightarrow> status \<Rightarrow> ('w, status) bstep list \<Rightarrow> ('w, status) bstep" where
  "mem_children E T i cont cs =
     bindo (node_get T i ''running_child'') (\<lambda>v.
     if python3 E then raiseo (Exception ''NameError'')
     else bindo (int_of v) (\<lambda>idx. run_from T i cont idx (drop (nat idx) cs)))"

definition sequence_tick :: "('w, status) bstep list \<Rightarrow> ('w, status) bstep" where
  "sequence_tick cs = run_children SUCCESS cs"

definition priority_tick :: "('w, status) bstep list \<Rightarrow> ('w, status) bstep" where
  "priority_tick cs = run_children FAILURE cs"

definition mem_sequence_tick :: "'w behaviour \<Rightarrow> string \<Rightarrow> string \<Rightarrow> ('w, status) bstep list \<Rightarrow> ('w, status) bstep" where
  "mem_sequence_tick E T i cs = mem_children E T i SUCCESS cs"

definition mem_priority_tick :: "'w behaviour \<Rightarrow> string \<Rightarrow> string \<Rightarrow> ('w, status) bstep list \<Rightarrow> ('w, status) bstep" where
  "mem_priority_tick E T i cs = mem_children E T i FAILURE cs"

definition composite_tick :: "'w behaviour \<Rightarrow> string \<Rightarrow> string \<Rightarrow> composite \<Rightarrow> ('w, status) bstep list \<Rightarrow> ('w, status) bstep" where
  "composite_tick E T i k cs = (case k of
     Sequence \<Rightarrow> sequence_tick cs
   | Priority \<Rightarrow> priority_tick cs
   | MemSequence \<Rightarrow> mem_sequence_tick E T i cs
   | MemPriority \<Rightarrow> mem_priority_tick E T i cs)"

lemmas composite_tick_defs = composite_tick_def sequence_tick_def priority_tick_def mem_sequence_tick_def mem_priority_tick_def

subsection \<open>Decorators\<close>

text \<open>
  The loop of the three repeaters.  The status is unbound (\<open>None\<close>) until the child has run, except in
  \<open>Repeater\<close>, which starts with \<open>SUCCESS\<close>.
\<close>

datatype 'w loop =
    Going int "status option" "'w bt"
  | Left int "status option" "'w bt"
  | Raised pyexn "'w bt"
  | Diverged

fun loop_goes :: "int \<Rightarrow> 'w loop \<Rightarrow> bool" where
  "loop_goes max_loop (Going i st s) = (max_loop < 0 \<or> i < max_loop)"
| "loop_goes max_loop _ = False"

fun loop_step :: "('w, status) bstep \<Rightarrow> status list \<Rightarrow> 'w loop \<Rightarrow> 'w loop" where
  "loop_step child again (Going i st s) = (case child s of
     None \<Rightarrow> Diverged
   | Some (Inl e, s') \<Rightarrow> Raised e s'
   | Some (Inr st', s') \<Rightarrow> if st' \<in> set again then Going (i + 1) (Some st') s' else Left i (Some st') s')"
| "loop_step child again l = l"

fun loop_result :: "'w loop option \<Rightarrow> ((pyexn + int \<times> status option) \<times> 'w bt) option" where
  "loop_result (Some (Going i st s)) = Some (Inr (i, st), s)"
| "loop_result (Some (Left i st s)) = Some (Inr (i, st), s)"
| "loop_result (Some (Raised e s)) = Some (Inl e, s)"
| "loop_result _ = None"

definition repeat_loop :: "('w, status) bstep \<Rightarrow> status list \<Rightarrow> int \<Rightarrow> int \<Rightarrow> status option \<Rightarrow>
    ('w, int \<times> status option) bstep" where
  "repeat_loop child again max_loop i st =
     (\<lambda>s. loop_result (while_option (loop_goes max_loop) (loop_step child again) (Going i st s)))"

definition repeat_tick :: "string \<Rightarrow> string \<Rightarrow> ('w, status) bstep \<Rightarrow> status list \<Rightarrow> int \<Rightarrow> status option \<Rightarrow> ('w, status) bstep" where
  "repeat_tick T i child again max_loop start =
     bindo (bindo (node_get T i ''i'') int_of) (\<lambda>n.
     bindo (repeat_loop child again max_loop n start) (\<lambda>(n, st).
     bindo (node_set T i ''i'' (BInt n)) (\<lambda>_.
       case st of None \<Rightarrow> raiseo UnboundLocalError | Some st \<Rightarrow> reto st)))"

definition limiter_tick :: "string \<Rightarrow> string \<Rightarrow> ('w, status) bstep \<Rightarrow> int \<Rightarrow> ('w, status) bstep" where
  "limiter_tick T i child max_loop =
     bindo (bindo (node_get T i ''i'') int_of) (\<lambda>n.
     if n < max_loop then
       bindo child (\<lambda>status.
       bindo (if status = SUCCESS \<or> status = FAILURE then node_set T i ''i'' (BInt (n + 1)) else reto ())
         (\<lambda>_. reto status))
     else reto FAILURE)"

definition max_time_tick :: "'w behaviour \<Rightarrow> string \<Rightarrow> string \<Rightarrow> ('w, status) bstep \<Rightarrow> rat \<Rightarrow> ('w, status) bstep" where
  "max_time_tick E T i child max_time =
     bindo (time_now E) (\<lambda>curr.
     bindo (node_get T i ''startTime'') (\<lambda>v.
     bindo child (\<lambda>status.
     bindo (time_of v) (\<lambda>start. reto (if curr - start > max_time then FAILURE else status)))))"

fun inverted :: "status \<Rightarrow> status" where
  "inverted SUCCESS = FAILURE"
| "inverted FAILURE = SUCCESS"
| "inverted st = st"

definition inverter_tick :: "('w, status) bstep \<Rightarrow> ('w, status) bstep" where
  "inverter_tick child = bindo child (\<lambda>st. reto (inverted st))"

definition repeater_tick :: "string \<Rightarrow> string \<Rightarrow> ('w, status) bstep \<Rightarrow> int \<Rightarrow> ('w, status) bstep" where
  "repeater_tick T i child max_loop = repeat_tick T i child [SUCCESS, FAILURE] max_loop (Some SUCCESS)"

definition repeat_until_failure_tick :: "string \<Rightarrow> string \<Rightarrow> ('w, status) bstep \<Rightarrow> int \<Rightarrow> ('w, status) bstep" where
  "repeat_until_failure_tick T i child max_loop = repeat_tick T i child [SUCCESS] max_loop None"

definition repeat_until_success_tick :: "string \<Rightarrow> string \<Rightarrow> ('w, status) bstep \<Rightarrow> int \<Rightarrow> ('w, status) bstep" where
  "repeat_until_success_tick T i child max_loop = repeat_tick T i child [FAILURE] max_loop None"

text \<open>A decorator without a child answers \<open>ERROR\<close>.\<close>

definition decorator_tick :: "'w behaviour \<Rightarrow> string \<Rightarrow> string \<Rightarrow> decorator \<Rightarrow> ('w, status) bstep option \<Rightarrow> ('w, status) bstep" where
  "decorator_tick E T i k ch = (case ch of
     None \<Rightarrow> reto ERROR
   | Some child \<Rightarrow> (case k of
        Inverter \<Rightarrow> inverter_tick child
      | Limiter m \<Rightarrow> limiter_tick T i child m
      | MaxTime m \<Rightarrow> max_time_tick E T i child m
      | Repeater m \<Rightarrow> repeater_tick T i child m
      | RepeatUntilFailure m \<Rightarrow> repeat_until_failure_tick T i child m
      | RepeatUntilSuccess m \<Rightarrow> repeat_until_success_tick T i child m))"

lemmas decorator_tick_defs = decorator_tick_def inverter_tick_def repeater_tick_def repeat_until_failure_tick_def
  repeat_until_success_tick_def

subsection \<open>Actions and the execution of a node\<close>

definition wait_tick :: "'w behaviour \<Rightarrow> string \<Rightarrow> string \<Rightarrow> rat \<Rightarrow> ('w, status) bstep" where
  "wait_tick E T i milliseconds =
     bindo (time_now E) (\<lambda>curr.
     bindo (bindo (node_get T i ''start_time'') time_of) (\<lambda>start.
       reto (if curr - start > milliseconds / 1000 then SUCCESS else RUNNING)))"

definition action_tick :: "'w behaviour \<Rightarrow> string \<Rightarrow> string \<Rightarrow> action \<Rightarrow> ('w, status) bstep" where
  "action_tick E T i a = (case a of
     Succeeder \<Rightarrow> reto SUCCESS
   | Failer \<Rightarrow> reto FAILURE
   | Runner \<Rightarrow> reto RUNNING
   | Error_action \<Rightarrow> reto ERROR
   | Wait ms \<Rightarrow> wait_tick E T i ms
   | Custom k \<Rightarrow> in_world (b_tick E k))"

fun exec :: "'w behaviour \<Rightarrow> string \<Rightarrow> bnode \<Rightarrow> ('w, status) bstep" where
  "exec E T (Composite i k cs) =
     execute E T (Composite i k cs) (composite_tick E T i k (List.map (exec E T) cs))"
| "exec E T (Decorator i k ch) =
     execute E T (Decorator i k ch) (decorator_tick E T i k (map_option (exec E T) ch))"
| "exec E T (Leaf i a) = execute E T (Leaf i a) (action_tick E T i a)"

subsection \<open>A tick of the tree\<close>

text \<open>
  The nodes that were open after the last tick are compared with those open now; from the place
  behind the first difference on, the old ones are closed, last first.  Closing pops from the list
  of the nodes that are open now.
\<close>

fun stale_start :: "bnode list \<Rightarrow> bnode list \<Rightarrow> nat" where
  "stale_start (a # as) (b # bs) = (if a \<noteq> b then 1 else Suc (stale_start as bs))"
| "stale_start _ _ = 0"

fun close_all :: "'w behaviour \<Rightarrow> string \<Rightarrow> bnode list \<Rightarrow> ('w, unit) bstep" where
  "close_all E T [] = reto ()"
| "close_all E T (n # ns) = bindo (node_close E T n) (\<lambda>_. close_all E T ns)"

definition nodes_of :: "bval option \<Rightarrow> ('w, bnode list) bstep" where
  "nodes_of v = (case v of Some (BNodes ns) \<Rightarrow> reto ns | _ \<Rightarrow> raiseo TypeError)"

definition tree_get :: "string \<Rightarrow> string \<Rightarrow> ('w, bval option) bstep" where
  "tree_get T key = (\<lambda>s. case bb_get key (Some T) None (bt_bb s) of (v, bb) \<Rightarrow> Some (Inr v, s\<lparr>bt_bb := bb\<rparr>))"

definition tree_set :: "string \<Rightarrow> string \<Rightarrow> bval \<Rightarrow> ('w, unit) bstep" where
  "tree_set T key v = modifyo (\<lambda>s. s\<lparr>bt_bb := bb_set key v (Some T) None (bt_bb s)\<rparr>)"

definition with_tick :: "('w bt \<Rightarrow> ('w, 'a) bstep) \<Rightarrow> ('w, 'a) bstep" where
  "with_tick k = (\<lambda>s. k s s)"

definition close_stale :: "'w behaviour \<Rightarrow> string \<Rightarrow> ('w, unit) bstep" where
  "close_stale E T =
     bindo (tree_get T ''open_nodes'') (\<lambda>v.
     if python3 E then raiseo AttributeError
     else bindo (nodes_of v) (\<lambda>last_open_nodes.
       with_tick (\<lambda>s. close_all E T (rev (drop (stale_start last_open_nodes (bt_open s)) last_open_nodes)))))"

definition tree_tick :: "'w behaviour \<Rightarrow> string \<Rightarrow> bnode option \<Rightarrow> ('w, unit) bstep" where
  "tree_tick E T tree_root =
     bindo (modifyo (\<lambda>s. s\<lparr>bt_open := [], bt_count := 0\<rparr>)) (\<lambda>_.
     bindo (case tree_root of None \<Rightarrow> raiseo AttributeError | Some n \<Rightarrow> exec E T n) (\<lambda>state.
     bindo (close_stale E T) (\<lambda>_.
       with_tick (\<lambda>s. bindo (tree_set T ''open_nodes'' (BNodes (bt_open s)))
         (\<lambda>_. tree_set T ''node_count'' (BInt (int (bt_count s))))))))"

end
