(* ===== verification/Behavior_Ticks.thy ===== *)
theory Behavior_Ticks
  imports Behavior_Tree
begin

section \<open>What a tick of a behaviour tree does\<close>

text \<open>
  The stack of open nodes after a tick is the path to the running node; a tree that ran and then
  finishes raises, because closing the nodes of the last tick pops from the stack of this one.
\<close>

subsection \<open>Steps\<close>

lemma bindo_Inr:
  "bindo m k s = Some (Inr y, s') \<longleftrightarrow> (\<exists>x s1. m s = Some (Inr x, s1) \<and> k x s1 = Some (Inr y, s'))"
  by (auto simp: bindo_def split: option.splits sum.splits)

lemma bindo_Some:
  "bindo m k s = Some (r, s') \<longleftrightarrow>
     (\<exists>e. m s = Some (Inl e, s') \<and> r = Inl e) \<or> (\<exists>x s1. m s = Some (Inr x, s1) \<and> k x s1 = Some (r, s'))"
  by (auto simp: bindo_def split: option.splits sum.splits)

lemma reto_Some [simp]: "reto x s = Some (r, s') \<longleftrightarrow> r = Inr x \<and> s' = s"
  by (auto simp: reto_def)

lemma raiseo_Some [simp]: "raiseo e s = Some (r, s') \<longleftrightarrow> r = Inl e \<and> s' = s"
  by (auto simp: raiseo_def)

lemma modifyo_Some [simp]: "modifyo f s = Some (r, s') \<longleftrightarrow> r = Inr () \<and> s' = f s"
  by (auto simp: modifyo_def)

text \<open>A step that leaves a part of the state as it is, however it ends.\<close>

definition keeps :: "('w bt \<Rightarrow> 'x) \<Rightarrow> ('w, 'a) bstep \<Rightarrow> bool" where
  "keeps f m = (\<forall>s r s'. m s = Some (r, s') \<longrightarrow> f s' = f s)"

lemma keepsD: "keeps f m \<Longrightarrow> m s = Some (r, s') \<Longrightarrow> f s' = f s"
  by (auto simp: keeps_def)

lemma step_keeps_basic [intro]:
  "keeps f (reto x)" "keeps f (raiseo e)" "keeps f (int_of v)" "keeps f (time_of v)" "keeps f (nodes_of v)"
  by (auto simp: keeps_def int_of_def time_of_def nodes_of_def split: option.splits bval.splits)

lemma keeps_bindo [intro]: "keeps f m \<Longrightarrow> (\<And>x. keeps f (k x)) \<Longrightarrow> keeps f (bindo m k)"
  unfolding keeps_def bindo_Some by metis

lemma keeps_if [intro]: "keeps f m \<Longrightarrow> keeps f m' \<Longrightarrow> keeps f (if b then m else m')"
  by simp

lemma keeps_open_basic [intro]:
  "keeps bt_open (node_set T i key v)" "keeps bt_open (node_get T i key)" "keeps bt_open (time_now E)"
  "keeps bt_open (in_world m)" "keeps bt_open (tree_get T key)"
  by (auto simp: keeps_def node_set_def node_get_def time_now_def in_world_def tree_get_def split: prod.splits)

lemma keeps_run_hook [intro]: "keeps bt_open (run_hook E h n)"
  by (auto simp: run_hook_def split: bnode.splits action.splits)

lemma keeps_open_hook [intro]: "keeps bt_open (open_hook E T n)"
  by (auto simp: open_hook_def split: bnode.splits action.splits composite.splits decorator.splits)

subsection \<open>The stack of open nodes\<close>

inductive running_path :: "bnode \<Rightarrow> bnode list \<Rightarrow> bool" where
  leaf_path: "running_path (Leaf i a) [Leaf i a]"
| composite_path: "c \<in> set cs \<Longrightarrow> running_path c p \<Longrightarrow> running_path (Composite i k cs) (Composite i k cs # p)"
| decorator_path: "running_path c p \<Longrightarrow> running_path (Decorator i k (Some c)) (Decorator i k (Some c) # p)"

text \<open>The step pushes a path when it ends running, and nothing when it ends otherwise.\<close>

definition stacks :: "(bnode list \<Rightarrow> bool) \<Rightarrow> ('w, status) bstep \<Rightarrow> bool" where
  "stacks P m = (\<forall>s st s'. m s = Some (Inr st, s') \<longrightarrow>
     (\<exists>p. bt_open s' = bt_open s @ p \<and> (if st = RUNNING then P p else p = [])))"

lemma stacksI:
  "(\<And>s st s'. m s = Some (Inr st, s') \<Longrightarrow>
      \<exists>p. bt_open s' = bt_open s @ p \<and> (if st = RUNNING then P p else p = [])) \<Longrightarrow> stacks P m"
  by (simp add: stacks_def)

lemma stacksD:
  "stacks P m \<Longrightarrow> m s = Some (Inr st, s') \<Longrightarrow>
   \<exists>p. bt_open s' = bt_open s @ p \<and> (if st = RUNNING then P p else p = [])"
  by (simp add: stacks_def)

lemma stacks_mono: "stacks P m \<Longrightarrow> (\<And>p. P p \<Longrightarrow> Q p) \<Longrightarrow> stacks Q m"
  unfolding stacks_def by metis

lemma stacks_reto: "st \<noteq> RUNNING \<Longrightarrow> stacks P (reto st)"
  by (simp add: stacks_def)

lemma stacks_keeps: "keeps bt_open m \<Longrightarrow> stacks (\<lambda>p. p = []) m"
  by (auto simp: stacks_def keeps_def)

lemma stacks_after: "keeps bt_open m \<Longrightarrow> (\<And>x. stacks P (k x)) \<Longrightarrow> stacks P (bindo m k)"
  unfolding stacks_def keeps_def bindo_Inr by metis

lemma stacks_execute:
  assumes "stacks Q tick"
  shows "stacks (\<lambda>p. \<exists>q. p = n # q \<and> Q q) (execute E T n tick)"
proof (rule stacksI)
  fix s st s'
  assume "execute E T n tick s = Some (Inr st, s')"
  then obtain s1 v s2 s3 s4 s5 where
    1: "node_enter E n s = Some (Inr (), s1)" and
    2: "node_get T (node_id n) ''is_open'' s1 = Some (Inr v, s2)" and
    3: "(if is_open v then reto () else node_open E T n) s2 = Some (Inr (), s3)" and
    4: "tick s3 = Some (Inr st, s4)" and
    5: "(if st \<noteq> RUNNING then node_close E T n else reto ()) s4 = Some (Inr (), s5)" and
    6: "run_hook E Exit n s5 = Some (Inr (), s')"
    by (auto simp: execute_def bindo_Inr)
  have "bt_open s1 = bt_open s @ [n]"
    using 1 keepsD [OF keeps_run_hook] by (fastforce simp: node_enter_def bindo_Inr)
  moreover have "bt_open s2 = bt_open s1" using 2 keepsD [OF keeps_open_basic(2)] by blast
  moreover have "keeps bt_open (if is_open v then reto () else node_open E T n)"
    by (auto simp: node_open_def)
  then have "bt_open s3 = bt_open s2" using 3 keepsD by blast
  moreover obtain q where q: "bt_open s4 = bt_open s3 @ q" "if st = RUNNING then Q q else q = []"
    using stacksD [OF assms 4] by blast
  moreover have "bt_open s5 = (if st \<noteq> RUNNING then butlast (bt_open s4) else bt_open s4)"
    using 5 keepsD [OF keeps_run_hook] keepsD [OF keeps_open_basic(1)]
    by (fastforce simp: node_close_def bindo_Inr pop_open_def split: if_splits)
  moreover have "bt_open s' = bt_open s5" using 6 keepsD [OF keeps_run_hook] by blast
  ultimately show "\<exists>p. bt_open s' = bt_open s @ p \<and>
      (if st = RUNNING then \<exists>q. p = n # q \<and> Q q else p = [])"
    by (cases "st = RUNNING") auto
qed

lemma stacks_run_children:
  "cont \<noteq> RUNNING \<Longrightarrow> (\<And>c. c \<in> set cs \<Longrightarrow> stacks P c) \<Longrightarrow> stacks P (run_children cont cs)"
proof (induction cs)
  case Nil
  then show ?case by (simp add: stacks_reto)
next
  case (Cons c cs)
  have IH: "stacks P (run_children cont cs)" using Cons by simp
  show ?case
  proof (rule stacksI)
    fix s st s'
    assume "run_children cont (c # cs) s = Some (Inr st, s')"
    then obtain st1 s1 where c: "c s = Some (Inr st1, s1)"
      and k: "(if st1 \<noteq> cont then reto st1 else run_children cont cs) s1 = Some (Inr st, s')"
      by (auto simp: bindo_Inr)
    have sc: "stacks P c" using Cons.prems(2) by simp
    show "\<exists>p. bt_open s' = bt_open s @ p \<and> (if st = RUNNING then P p else p = [])"
    proof (cases "st1 = cont")
      case True
      with stacksD [OF sc c] Cons.prems(1) have "bt_open s1 = bt_open s" by auto
      moreover have "run_children cont cs s1 = Some (Inr st, s')" using k True by simp
      ultimately show ?thesis using stacksD [OF IH] by metis
    next
      case False
      with k stacksD [OF sc c] show ?thesis by auto
    qed
  qed
qed

lemma stacks_run_from:
  "cont \<noteq> RUNNING \<Longrightarrow> (\<And>c. c \<in> set cs \<Longrightarrow> stacks P c) \<Longrightarrow> stacks P (run_from T i cont k cs)"
proof (induction cs arbitrary: k)
  case Nil
  then show ?case by (simp add: stacks_reto)
next
  case (Cons c cs)
  have IH: "stacks P (run_from T i cont (k + 1) cs)" using Cons by simp
  show ?case
  proof (rule stacksI)
    fix s st s'
    assume "run_from T i cont k (c # cs) s = Some (Inr st, s')"
    then obtain st1 s1 where c: "c s = Some (Inr st1, s1)"
      and k: "(if st1 \<noteq> cont then bindo (if st1 = RUNNING then node_set T i ''running_child'' (BInt k) else reto ())
                 (\<lambda>_. reto st1) else run_from T i cont (k + 1) cs) s1 = Some (Inr st, s')"
      by (auto simp: bindo_Inr)
    have sc: "stacks P c" using Cons.prems(2) by simp
    show "\<exists>p. bt_open s' = bt_open s @ p \<and> (if st = RUNNING then P p else p = [])"
    proof (cases "st1 = cont")
      case True
      with stacksD [OF sc c] Cons.prems(1) have "bt_open s1 = bt_open s" by auto
      moreover have "run_from T i cont (k + 1) cs s1 = Some (Inr st, s')" using k True by simp
      ultimately show ?thesis using stacksD [OF IH] by metis
    next
      case False
      with k have "st = st1" and "bt_open s' = bt_open s1"
        using keepsD [OF keeps_open_basic(1)] by (auto simp: bindo_Inr split: if_splits)
      with stacksD [OF sc c] show ?thesis by auto
    qed
  qed
qed

lemma stacks_repeat_loop:
  assumes child: "stacks P child" and again: "RUNNING \<notin> set again" and start: "start \<noteq> Some RUNNING"
    and r: "repeat_loop child again max_loop i start s = Some (Inr (n, st), s')"
  shows "\<exists>p. bt_open s' = bt_open s @ p \<and> (if st = Some RUNNING then P p else p = [])"
proof -
  define good where "good l = (case l of
      Going i st s1 \<Rightarrow> st \<noteq> Some RUNNING \<and> bt_open s1 = bt_open s
    | Left i st s1 \<Rightarrow> (\<exists>p. bt_open s1 = bt_open s @ p \<and> (if st = Some RUNNING then P p else p = []))
    | _ \<Rightarrow> True)" for l :: "'a loop"
  obtain l where l: "while_option (loop_goes max_loop) (loop_step child again) (Going i start s) = Some l"
    and res: "loop_result (Some l) = Some (Inr (n, st), s')"
    using r by (cases "while_option (loop_goes max_loop) (loop_step child again) (Going i start s)")
      (auto simp: repeat_loop_def)
  have "good l"
  proof (rule while_option_rule [OF _ l])
    show "good (Going i start s)" using start by (simp add: good_def)
  next
    fix l0
    assume g: "good l0" and goes: "loop_goes max_loop l0"
    obtain j st0 s0 where l0: "l0 = Going j st0 s0" using goes by (cases l0) auto
    show "good (loop_step child again l0)"
    proof (cases "child s0")
      case None
      then show ?thesis by (simp add: l0 good_def)
    next
      case (Some x)
      obtain r1 s1 where x: "x = (r1, s1)" by fastforce
      show ?thesis
      proof (cases r1)
        case (Inl e)
        then show ?thesis by (simp add: l0 Some x good_def)
      next
        case (Inr st1)
        then have "child s0 = Some (Inr st1, s1)" by (simp add: Some x)
        from stacksD [OF child this] g again show ?thesis
          by (cases "st1 = RUNNING") (auto simp: l0 Some x Inr good_def)
      qed
    qed
  qed
  with res show ?thesis by (cases l) (auto simp: good_def)
qed

lemma stacks_repeat_tick:
  assumes "stacks P child" and "RUNNING \<notin> set again" and "start \<noteq> Some RUNNING"
  shows "stacks P (repeat_tick T i child again max_loop start)"
proof (rule stacksI)
  fix s st s'
  assume "repeat_tick T i child again max_loop start s = Some (Inr st, s')"
  then obtain n s1 n' st1 s2 s3 where
    1: "bindo (node_get T i ''i'') int_of s = Some (Inr n, s1)" and
    2: "repeat_loop child again max_loop n start s1 = Some (Inr (n', st1), s2)" and
    3: "node_set T i ''i'' (BInt n') s2 = Some (Inr (), s3)" and
    4: "(case st1 of None \<Rightarrow> raiseo UnboundLocalError | Some st \<Rightarrow> reto st) s3 = Some (Inr st, s')"
    by (auto simp: repeat_tick_def bindo_Inr)
  have "keeps bt_open (bindo (node_get T i ''i'') int_of)" by auto
  then have "bt_open s1 = bt_open s" using 1 keepsD by blast
  moreover have "bt_open s3 = bt_open s2" using 3 keepsD [OF keeps_open_basic(1)] by blast
  moreover have "st1 = Some st" "s' = s3" using 4 by (auto split: option.splits)
  ultimately show "\<exists>p. bt_open s' = bt_open s @ p \<and> (if st = RUNNING then P p else p = [])"
    using stacks_repeat_loop [OF assms 2] by simp
qed

lemma stacks_map_status:
  assumes "stacks P m" and "\<And>st. (f st = RUNNING) = (st = RUNNING)"
  shows "stacks P (bindo m (\<lambda>st. reto (f st)))"
  using assms unfolding stacks_def bindo_Inr by fastforce

lemma stacks_then_keeps:
  assumes "stacks P m" and "\<And>st. keeps bt_open (k st)"
  shows "stacks P (bindo m (\<lambda>st. bindo (k st) (\<lambda>_. reto st)))"
  using assms unfolding stacks_def keeps_def bindo_Inr by (metis reto_Some sum.inject(2))

lemma inverted_RUNNING: "(inverted st = RUNNING) = (st = RUNNING)"
  by (cases st) simp_all

fun no_max_time :: "bnode \<Rightarrow> bool" where
  "no_max_time (Composite i k cs) = list_all no_max_time cs"
| "no_max_time (Decorator i k ch) =
     ((case k of MaxTime m \<Rightarrow> False | _ \<Rightarrow> True) \<and> (case ch of None \<Rightarrow> True | Some c \<Rightarrow> no_max_time c))"
| "no_max_time (Leaf i a) = True"

lemma stacks_decorator_tick:
  assumes "\<And>c. ch = Some c \<Longrightarrow> stacks P c" and "case k of MaxTime m \<Rightarrow> False | _ \<Rightarrow> True"
  shows "stacks P (decorator_tick E T i k ch)"
proof (cases ch)
  case None
  then show ?thesis by (simp add: decorator_tick_defs stacks_reto)
next
  case (Some c)
  have c: "stacks P c" by (rule assms(1)) (rule Some)
  show ?thesis
  proof (cases k)
    case Inverter
    then show ?thesis using stacks_map_status [OF c inverted_RUNNING] by (simp add: decorator_tick_defs Some)
  next
    case (Limiter m)
    have "stacks P (if n < m then bindo c (\<lambda>status.
        bindo (if status = SUCCESS \<or> status = FAILURE then node_set T i ''i'' (BInt (n + 1)) else reto ())
          (\<lambda>_. reto status)) else reto FAILURE)" for n
      by (auto intro!: stacks_then_keeps [OF c] stacks_reto)
    then show ?thesis by (auto simp: decorator_tick_defs Some Limiter limiter_tick_def intro!: stacks_after)
  qed (use assms(2) in \<open>auto simp: decorator_tick_defs Some intro!: stacks_repeat_tick [OF c]\<close>)
qed

lemma stacks_composite_tick:
  assumes "\<And>c. c \<in> set cs \<Longrightarrow> stacks P c"
  shows "stacks P (composite_tick E T i k cs)"
proof -
  have drop: "\<And>c n. c \<in> set (drop n cs) \<Longrightarrow> stacks P c" using assms by (meson in_set_dropD)
  have "stacks P (mem_children E T i cont cs)" if "cont \<noteq> RUNNING" for cont
  proof -
    have "stacks P (bindo (int_of v) (\<lambda>idx. run_from T i cont idx (drop (nat idx) cs)))" for v
      by (intro stacks_after stacks_run_from that drop) auto
    then have "stacks P (if python3 E then raiseo (Exception ''NameError'')
        else bindo (int_of v) (\<lambda>idx. run_from T i cont idx (drop (nat idx) cs)))" for v
      by (auto simp: stacks_def)
    then show ?thesis by (auto simp: mem_children_def intro!: stacks_after)
  qed
  then show ?thesis
    by (cases k) (simp_all add: composite_tick_defs stacks_run_children assms)
qed

lemma keeps_action_tick: "keeps bt_open (action_tick E T i a)"
  by (auto simp: action_tick_def wait_tick_def split: action.splits)

lemma exec_stacks: "no_max_time n \<Longrightarrow> stacks (running_path n) (exec E T n)"
proof (induction n)
  case (Composite i k cs)
  let ?n = "Composite i k cs" and ?Q = "\<lambda>q. \<exists>c \<in> set cs. running_path c q"
  have "stacks ?Q (exec E T c)" if "c \<in> set cs" for c
    by (rule stacks_mono [OF Composite.IH]) (use that Composite.prems in \<open>auto simp: list_all_iff\<close>)
  then have c: "stacks ?Q (composite_tick E T i k (List.map (exec E T) cs))"
    by (intro stacks_composite_tick) auto
  show ?case unfolding exec.simps
    by (rule stacks_mono [OF stacks_execute [OF c, where n = ?n]]) (auto intro: composite_path)
next
  case (Decorator i k ch)
  let ?n = "Decorator i k ch" and ?Q = "\<lambda>q. \<exists>c. ch = Some c \<and> running_path c q"
  have "stacks ?Q (exec E T c)" if "ch = Some c" for c
    by (rule stacks_mono [OF Decorator.IH]) (use that Decorator.prems in auto)
  then have c: "stacks ?Q (decorator_tick E T i k (map_option (exec E T) ch))"
    using Decorator.prems by (intro stacks_decorator_tick) auto
  show ?case unfolding exec.simps
    by (rule stacks_mono [OF stacks_execute [OF c, where n = ?n]]) (auto intro: decorator_path)
next
  case (Leaf i a)
  show ?case unfolding exec.simps
    by (rule stacks_mono [OF stacks_execute [OF stacks_keeps [OF keeps_action_tick], where n = "Leaf i a"]]) (auto intro: leaf_path)
qed

subsection \<open>What an execution leaves alone\<close>

fun node_ids :: "bnode \<Rightarrow> string set" where
  "node_ids (Composite i k cs) = insert i (\<Union> (set (List.map node_ids cs)))"
| "node_ids (Decorator i k ch) = insert i (case map_option node_ids ch of None \<Rightarrow> {} | Some s \<Rightarrow> s)"
| "node_ids (Leaf i a) = {i}"

text \<open>
  A part of the state that the bookkeeping of the nodes with the ids \<open>I\<close> does not reach is left alone by
  the execution of a tree of such nodes.
\<close>

locale untouched =
  fixes f :: "'w bt \<Rightarrow> 'x" and T :: string and I :: "string set"
  assumes node_set_keeps: "i \<in> I \<Longrightarrow> keeps f (node_set T i key v)"
    and node_get_keeps: "keeps f (node_get T i key)"
    and time_keeps: "keeps f (time_now E)"
    and hook_keeps: "keeps f (in_world (m :: ('w, unit) py))"
    and world_keeps: "keeps f (in_world (m' :: ('w, status) py))"
    and pop_keeps: "keeps f pop_open"
    and push_keeps: "keeps f (modifyo (\<lambda>s. s\<lparr>bt_count := bt_count s + 1, bt_open := bt_open s @ [n]\<rparr>))"
begin

lemma run_hook_keeps: "keeps f (run_hook E h n)"
  using hook_keeps by (auto simp: run_hook_def split: bnode.splits action.splits)

lemmas keeps_rules = step_keeps_basic keeps_bindo keeps_if node_get_keeps time_keeps hook_keeps world_keeps pop_keeps
  push_keeps run_hook_keeps

lemma open_hook_keeps: "node_id n \<in> I \<Longrightarrow> keeps f (open_hook E T n)"
  by (auto simp: open_hook_def split: bnode.splits action.splits composite.splits decorator.splits
      intro!: keeps_rules node_set_keeps)

lemma execute_keeps:
  assumes "node_id n \<in> I" and "keeps f tick"
  shows "keeps f (execute E T n tick)"
  unfolding execute_def node_enter_def node_open_def node_close_def
  by (rule assms(2) keeps_rules node_set_keeps [OF assms(1)] open_hook_keeps [OF assms(1)])+

lemma run_children_keeps: "(\<And>c. c \<in> set cs \<Longrightarrow> keeps f c) \<Longrightarrow> keeps f (run_children cont cs)"
  by (induction cs) auto

lemma run_from_keeps:
  assumes "i \<in> I"
  shows "(\<And>c. c \<in> set cs \<Longrightarrow> keeps f c) \<Longrightarrow> keeps f (run_from T i cont k cs)"
proof (induction cs arbitrary: k)
  case (Cons c cs)
  then have c: "keeps f c" "\<And>k. keeps f (run_from T i cont k cs)" by simp_all
  show ?case unfolding run_from.simps by (rule c keeps_rules node_set_keeps [OF assms])+
qed auto

lemma repeat_loop_keeps:
  assumes "keeps f child"
  shows "keeps f (repeat_loop child again max_loop i start)"
  unfolding keeps_def
proof (intro allI impI)
  fix s r s'
  assume r: "repeat_loop child again max_loop i start s = Some (r, s')"
  define good where "good l = (case l of Going i st s1 \<Rightarrow> f s1 = f s | Left i st s1 \<Rightarrow> f s1 = f s
    | Raised e s1 \<Rightarrow> f s1 = f s | Diverged \<Rightarrow> True)" for l
  obtain l where l: "while_option (loop_goes max_loop) (loop_step child again) (Going i start s) = Some l"
    and res: "loop_result (Some l) = Some (r, s')"
    using r by (cases "while_option (loop_goes max_loop) (loop_step child again) (Going i start s)")
      (auto simp: repeat_loop_def)
  have "good l"
  proof (rule while_option_rule [OF _ l])
    fix l0
    assume "good l0" and "loop_goes max_loop l0"
    then show "good (loop_step child again l0)"
      using assms by (cases l0) (auto simp: good_def keeps_def split: option.splits prod.splits sum.splits)
  qed (simp add: good_def)
  with res show "f s' = f s" by (cases l) (auto simp: good_def)
qed

lemma decorator_keeps:
  assumes "i \<in> I" and "\<And>c. ch = Some c \<Longrightarrow> keeps f c"
  shows "keeps f (decorator_tick E T i k ch)"
proof (cases ch)
  case (Some c)
  have c: "keeps f c" by (rule assms(2)) (rule Some)
  have "keeps f (case p of (n, st) \<Rightarrow> bindo (node_set T i ''i'' (BInt n))
      (\<lambda>_. case st of None \<Rightarrow> raiseo UnboundLocalError | Some st \<Rightarrow> reto st))" for p
    by (cases p) (auto intro!: keeps_rules node_set_keeps assms(1) split: option.split)
  then have "keeps f (repeat_tick T i c again m start)" for again m start
    unfolding repeat_tick_def by (intro keeps_rules repeat_loop_keeps c)
  moreover have "keeps f (limiter_tick T i c m)" "keeps f (max_time_tick E T i c t)" for m t
    unfolding limiter_tick_def max_time_tick_def by (rule c keeps_rules node_set_keeps [OF assms(1)])+
  ultimately show ?thesis by (cases k) (auto simp: decorator_tick_defs Some intro!: keeps_rules c)
qed (simp add: decorator_tick_defs step_keeps_basic)

lemma composite_keeps:
  assumes i: "i \<in> I" and c: "\<And>c. c \<in> set cs \<Longrightarrow> keeps f c"
  shows "keeps f (composite_tick E T i k cs)"
proof -
  have "\<And>c n. c \<in> set (drop n cs) \<Longrightarrow> keeps f c" using c by (meson in_set_dropD)
  then show ?thesis
    unfolding composite_tick_defs mem_children_def
    by (cases k, simp_all only: composite.case)
      (assumption | rule keeps_rules run_children_keeps run_from_keeps [OF i] c)+
qed

lemma exec_keeps: "node_ids n \<subseteq> I \<Longrightarrow> keeps f (exec E T n)"
proof (induction n)
  case (Composite i k cs)
  have "keeps f (exec E T c)" if "c \<in> set cs" for c
    using Composite.prems that by (intro Composite.IH) auto
  then show ?case using Composite.prems by (auto intro!: execute_keeps composite_keeps)
next
  case (Decorator i k ch)
  then show ?case by (cases ch) (auto intro!: execute_keeps decorator_keeps)
next
  case (Leaf i a)
  have "keeps f (action_tick E T i a)"
    unfolding action_tick_def wait_tick_def by (cases a) (auto intro!: keeps_rules)
  then show ?case using Leaf by (auto intro!: execute_keeps)
qed

end

text \<open>The nodes recorded as open after the last tick.\<close>

definition recorded :: "string \<Rightarrow> 'w bt \<Rightarrow> bval option" where
  "recorded T s = dget (tm_keys (get_tree_memory T (bt_bb s))) ''open_nodes''"

lemma get_put_tree_memory [simp]:
  "get_tree_memory T (put_tree_memory T' m bb) = (if T = T' then m else get_tree_memory T bb)"
  by (simp add: get_tree_memory_def put_tree_memory_def)

lemma tm_keys_put_node_memory [simp]: "tm_keys (put_node_memory i d m) = tm_keys m"
  by (simp add: put_node_memory_def)

interpretation recorded: untouched "recorded T" T' UNIV
  by unfold_locales
    (auto simp: keeps_def recorded_def node_set_def node_get_def bb_set_def bb_get_def time_now_def in_world_def
      pop_open_def modifyo_def Let_def split: prod.splits if_splits)

subsection \<open>Ticks of a tree\<close>

definition new_tick :: "'w bt \<Rightarrow> 'w bt" where
  "new_tick s = s\<lparr>bt_open := [], bt_count := 0\<rparr>"

lemma recorded_new_tick [simp]: "recorded T (new_tick s) = recorded T s"
  by (simp add: recorded_def new_tick_def)

lemma bt_open_new_tick [simp]: "bt_open (new_tick s) = []"
  by (simp add: new_tick_def)

lemma tree_get_open: "\<exists>s'. tree_get T ''open_nodes'' s = Some (Inr (recorded T s), s') \<and> bt_open s' = bt_open s
    \<and> recorded T s' = recorded T s"
  by (auto simp: tree_get_def bb_get_def recorded_def Let_def)

lemma bindo_step: "m s = Some (Inr x, s1) \<Longrightarrow> bindo m k s = k x s1"
  by (simp add: bindo_def)

lemma tree_tick_exec:
  assumes "exec E T n (new_tick s) = Some (Inr st, s1)"
  shows "tree_tick E T (Some n) s = bindo (close_stale E T) (\<lambda>_.
       with_tick (\<lambda>s. bindo (tree_set T ''open_nodes'' (BNodes (bt_open s)))
         (\<lambda>_. tree_set T ''node_count'' (BInt (int (bt_count s)))))) s1"
  using assms by (simp add: tree_tick_def bindo_step modifyo_def new_tick_def)

text \<open>
  The nodes still open from the last tick, when this one ended without a running node: the first to
  be closed finds the stack empty.
\<close>

lemma close_stale_empty:
  assumes "\<not> python3 E" and "recorded T s = Some (BNodes (x # xs))" and "bt_open s = []"
  shows "\<exists>s'. close_stale E T s = Some (Inl IndexError, s') \<and> recorded T s' = recorded T s"
proof -
  obtain s1 where g: "tree_get T ''open_nodes'' s = Some (Inr (recorded T s), s1)" "bt_open s1 = bt_open s"
    "recorded T s1 = recorded T s" using tree_get_open by blast
  obtain y ys where r: "rev (x # xs) = y # ys" by (metis list.exhaust rev_is_Nil_conv list.distinct(1))
  have "close_all E T (rev (x # xs)) s1 = Some (Inl IndexError, s1)"
    using g(2) assms(3) by (simp add: r node_close_def bindo_def pop_open_def del: rev.simps)
  then show ?thesis
    using g assms by (simp add: close_stale_def bindo_def nodes_of_def reto_def with_tick_def del: rev.simps)
qed

text \<open>With nothing recorded and a first tick, nothing is closed and the path is recorded.\<close>

lemma close_stale_first:
  assumes "\<not> python3 E" and "recorded T s = Some (BNodes [])"
  shows "\<exists>s'. close_stale E T s = Some (Inr (), s') \<and> bt_open s' = bt_open s \<and> recorded T s' = recorded T s"
proof -
  obtain s1 where g: "tree_get T ''open_nodes'' s = Some (Inr (recorded T s), s1)" "bt_open s1 = bt_open s"
    "recorded T s1 = recorded T s" using tree_get_open by blast
  then show ?thesis
    using assms by (simp add: close_stale_def bindo_def nodes_of_def reto_def with_tick_def)
qed

lemma recorded_tree_set:
  "recorded T (snd (the (tree_set T key v s))) = (if key = ''open_nodes'' then Some v else recorded T s)"
  by (simp add: tree_set_def modifyo_def recorded_def bb_set_def Let_def)

lemma tree_set_total: "\<exists>s'. tree_set T key v s = Some (Inr (), s') \<and> s' = snd (the (tree_set T key v s))"
  by (simp add: tree_set_def modifyo_def)

lemma record_open:
  "\<exists>s'. with_tick (\<lambda>s. bindo (tree_set T ''open_nodes'' (BNodes (bt_open s)))
         (\<lambda>_. tree_set T ''node_count'' (BInt (int (bt_count s))))) s = Some (Inr (), s')
     \<and> recorded T s' = Some (BNodes (bt_open s))"
proof -
  obtain s1 where 1: "tree_set T ''open_nodes'' (BNodes (bt_open s)) s = Some (Inr (), s1)"
    and r1: "recorded T s1 = Some (BNodes (bt_open s))"
    using tree_set_total recorded_tree_set by (metis (full_types))
  obtain s2 where "tree_set T ''node_count'' (BInt (int (bt_count s))) s1 = Some (Inr (), s2)"
    and "recorded T s2 = recorded T s1"
    using tree_set_total [of T "''node_count''" _ s1] recorded_tree_set [of T "''node_count''" _ s1] by force
  with 1 r1 show ?thesis by (simp add: with_tick_def bindo_def)
qed

text \<open>C39: Under Python 2, for a tree without \<open>MaxTime\<close>: after a tick with an empty record of open nodes that
  leaves the tree running, the nodes recorded as open are a path from the root to a leaf; and every
  tick that starts with this record and in which the tree finishes, with whatever status, raises
  \<open>IndexError\<close> and leaves the record as it was, so that the next tick that finishes raises again.\<close>

theorem running_tree_raises_at_its_end:
  assumes "no_max_time n" and "\<not> python3 E" and "recorded T s = Some (BNodes [])"
    and "exec E T n (new_tick s) = Some (Inr RUNNING, s1)"
  shows "\<exists>s2 p. tree_tick E T (Some n) s = Some (Inr (), s2) \<and> running_path n p \<and> recorded T s2 = Some (BNodes p) \<and>
    (\<forall>s' st s3. recorded T s' = Some (BNodes p) \<and> exec E T n (new_tick s') = Some (Inr st, s3) \<and> st \<noteq> RUNNING \<longrightarrow>
      (\<exists>s4. tree_tick E T (Some n) s' = Some (Inl IndexError, s4) \<and> recorded T s4 = Some (BNodes p)))"
proof -
  obtain p where p: "bt_open s1 = p" "running_path n p"
    using stacksD [OF exec_stacks [OF assms(1)] assms(4)] by auto
  have "recorded T s1 = Some (BNodes [])"
    using keepsD [OF recorded.exec_keeps [OF subset_UNIV] assms(4)] assms(3) by simp
  then obtain s1' where c: "close_stale E T s1 = Some (Inr (), s1')" "bt_open s1' = p"
    using close_stale_first [OF assms(2)] p(1) by metis
  obtain s2 where s2: "with_tick (\<lambda>s. bindo (tree_set T ''open_nodes'' (BNodes (bt_open s)))
         (\<lambda>_. tree_set T ''node_count'' (BInt (int (bt_count s))))) s1' = Some (Inr (), s2)"
    "recorded T s2 = Some (BNodes p)" using record_open [of T s1'] c(2) by metis
  have tick: "tree_tick E T (Some n) s = Some (Inr (), s2)"
    unfolding tree_tick_exec [OF assms(4)] using c(1) s2(1) by (simp add: bindo_def)
  have "\<exists>s4. tree_tick E T (Some n) s' = Some (Inl IndexError, s4) \<and> recorded T s4 = Some (BNodes p)"
    if rec: "recorded T s' = Some (BNodes p)"
      and x: "exec E T n (new_tick s') = Some (Inr st, s3)" "st \<noteq> RUNNING" for s' st s3
  proof -
    have "bt_open s3 = []" using stacksD [OF exec_stacks [OF assms(1)] x(1)] x(2) by simp
    moreover have r: "recorded T s3 = Some (BNodes p)"
      using keepsD [OF recorded.exec_keeps [OF subset_UNIV] x(1)] rec by simp
    moreover obtain y ys where "p = y # ys" using p(2) by (auto elim: running_path.cases)
    ultimately obtain s4 where "close_stale E T s3 = Some (Inl IndexError, s4)" "recorded T s4 = recorded T s3"
      using close_stale_empty [OF assms(2)] by metis
    then show ?thesis unfolding tree_tick_exec [OF x(1)] using r by (simp add: bindo_def)
  qed
  with tick p(2) s2(2) show ?thesis by blast
qed

text \<open>Under Python 3 no tick returns.\<close>

lemma tree_tick_python3:
  assumes "python3 E" and "tree_tick E T r s = Some (x, s')"
  shows "isl x"
  using assms by (auto simp: tree_tick_def close_stale_def bindo_Some)

text \<open>When a tree runs another way than before, the node at which the ways part is not closed.\<close>

lemma stale_start_difference: "a \<noteq> b \<Longrightarrow> stale_start (p @ a # q) (p @ b # r) = Suc (length p)"
  by (induction p) simp_all

lemma difference_not_closed: "a \<noteq> b \<Longrightarrow> drop (stale_start (p @ a # q) (p @ b # r)) (p @ a # q) = q"
  by (simp add: stale_start_difference)

subsection \<open>Trees that return\<close>

definition returns :: "('w, 'a) bstep \<Rightarrow> bool" where
  "returns m = (\<forall>s. m s \<noteq> None)"

lemma returns_basic:
  "returns (reto x)" "returns (raiseo e)" "returns (int_of v)" "returns (time_of v)"
  "returns (node_set T i key w)" "returns (node_get T i key)" "returns (time_now E)" "returns (in_world m)"
  "returns pop_open" "returns (modifyo f)"
  by (auto simp: returns_def reto_def raiseo_def int_of_def time_of_def node_set_def node_get_def time_now_def
      in_world_def pop_open_def modifyo_def split: option.splits bval.splits prod.splits)

lemma returns_bindo: "returns m \<Longrightarrow> (\<And>x. returns (k x)) \<Longrightarrow> returns (bindo m k)"
  by (auto simp: returns_def bindo_def split: option.splits sum.splits)

lemma returns_if: "returns m \<Longrightarrow> returns m' \<Longrightarrow> returns (if b then m else m')"
  by simp

lemma returns_hooks: "returns (run_hook E h n)" "returns (open_hook E T n)"
  by (auto simp: run_hook_def open_hook_def intro!: returns_basic returns_bindo
      split: bnode.splits action.splits composite.splits decorator.splits)

lemmas returns_intros = returns_basic returns_bindo returns_if returns_hooks

lemma returns_execute: "returns tick \<Longrightarrow> returns (execute E T n tick)"
  unfolding execute_def node_enter_def node_open_def node_close_def by (assumption | rule returns_intros)+

lemma returns_run_children: "(\<And>c. c \<in> set cs \<Longrightarrow> returns c) \<Longrightarrow> returns (run_children cont cs)"
proof (induction cs)
  case (Cons c cs)
  then have c: "returns c" "returns (run_children cont cs)" by simp_all
  show ?case unfolding run_children.simps by (rule c returns_intros)+
qed (simp add: returns_basic)

lemma returns_run_from: "(\<And>c. c \<in> set cs \<Longrightarrow> returns c) \<Longrightarrow> returns (run_from T i cont k cs)"
proof (induction cs arbitrary: k)
  case (Cons c cs)
  then have c: "returns c" "\<And>k. returns (run_from T i cont k cs)" by simp_all
  show ?case unfolding run_from.simps by (rule c returns_intros)+
qed (simp add: returns_basic)

text \<open>A loop with a bound returns when its child does.\<close>

fun loop_left :: "int \<Rightarrow> 'w loop \<Rightarrow> nat" where
  "loop_left max_loop (Going i st s) = Suc (nat (max_loop - i))"
| "loop_left max_loop _ = 0"

lemma returns_repeat_loop:
  fixes child :: "('w, status) bstep"
  assumes child: "returns child" and bound: "0 \<le> max_loop"
  shows "returns (repeat_loop child again max_loop i start)"
  unfolding returns_def
proof
  fix s
  have "\<exists>l. while_option (loop_goes max_loop) (loop_step child again) (Going i start s) = Some l"
  proof (rule measure_while_option_Some [where P = "\<lambda>l. l \<noteq> Diverged" and f = "loop_left max_loop"])
    fix l :: "'w loop"
    assume "l \<noteq> Diverged" and "loop_goes max_loop l"
    then show "loop_step child again l \<noteq> Diverged \<and> loop_left max_loop (loop_step child again l) < loop_left max_loop l"
      using child bound
      by (cases l) (auto simp: returns_def split: option.splits prod.splits sum.splits)
  qed simp
  then obtain l where l: "while_option (loop_goes max_loop) (loop_step child again) (Going i start s) = Some l" ..
  have "l \<noteq> Diverged"
  proof (rule while_option_rule [OF _ l])
    fix l0 :: "'w loop"
    assume "l0 \<noteq> Diverged" and "loop_goes max_loop l0"
    then show "loop_step child again l0 \<noteq> Diverged"
      using child by (cases l0) (auto simp: returns_def split: option.splits prod.splits sum.splits)
  qed simp
  then show "repeat_loop child again max_loop i start s \<noteq> None"
    by (cases l) (auto simp: repeat_loop_def l)
qed

fun bounded :: "bnode \<Rightarrow> bool" where
  "bounded (Composite i k cs) = list_all bounded cs"
| "bounded (Decorator i k ch) =
     ((case k of Repeater m \<Rightarrow> 0 \<le> m | RepeatUntilFailure m \<Rightarrow> 0 \<le> m | RepeatUntilSuccess m \<Rightarrow> 0 \<le> m | _ \<Rightarrow> True)
      \<and> (case ch of None \<Rightarrow> True | Some c \<Rightarrow> bounded c))"
| "bounded (Leaf i a) = True"

lemma returns_repeat_tick:
  assumes "returns child" and "0 \<le> max_loop"
  shows "returns (repeat_tick T i child again max_loop start)"
proof -
  have "returns (case p of (n, st) \<Rightarrow> bindo (node_set T i ''i'' (BInt n))
      (\<lambda>_. case st of None \<Rightarrow> raiseo UnboundLocalError | Some st \<Rightarrow> reto st))" for p
    by (cases p) (auto intro!: returns_bindo returns_basic split: option.split)
  then show ?thesis
    unfolding repeat_tick_def by (intro returns_bindo returns_basic returns_repeat_loop assms)
qed

lemma returns_decorator_tick:
  assumes "\<And>c. ch = Some c \<Longrightarrow> returns c"
    and "case k of Repeater m \<Rightarrow> 0 \<le> m | RepeatUntilFailure m \<Rightarrow> 0 \<le> m | RepeatUntilSuccess m \<Rightarrow> 0 \<le> m | _ \<Rightarrow> True"
  shows "returns (decorator_tick E T i k ch)"
proof (cases ch)
  case None
  then show ?thesis by (simp add: decorator_tick_defs returns_basic)
next
  case (Some c)
  have c: "returns c" by (rule assms(1)) (rule Some)
  have "returns (limiter_tick T i c m)" "returns (max_time_tick E T i c t)" for m t
    unfolding limiter_tick_def max_time_tick_def by (rule c returns_intros)+
  then show ?thesis
    using assms(2) returns_repeat_tick [OF c] by (cases k) (auto simp: decorator_tick_defs Some intro!: returns_bindo c returns_basic)
qed

lemma returns_composite_tick:
  assumes c: "\<And>c. c \<in> set cs \<Longrightarrow> returns c"
  shows "returns (composite_tick E T i k cs)"
proof -
  have "\<And>c n. c \<in> set (drop n cs) \<Longrightarrow> returns c" using assms by (meson in_set_dropD)
  then have "returns (mem_children E T i cont cs)" for cont
    unfolding mem_children_def by (intro returns_bindo returns_if returns_basic returns_run_from)
  then show ?thesis using returns_run_children [OF c] by (cases k) (simp_all add: composite_tick_defs)
qed

text \<open>C33: A tree whose repeaters all have a bound returns from every execution, whatever the blackboard
  holds and whatever the nodes of the game answer or raise.\<close>

theorem bounded_tree_returns:
  "bounded n \<Longrightarrow> \<exists>r s'. exec E T n s = Some (r, s')"
proof -
  have "bounded n \<Longrightarrow> returns (exec E T n)"
  proof (induction n)
    case (Composite i k cs)
    then show ?case by (auto simp: list_all_iff intro!: returns_execute returns_composite_tick)
  next
    case (Decorator i k ch)
    then show ?case by (cases ch) (auto intro!: returns_execute returns_decorator_tick)
  next
    case (Leaf i a)
    have "returns (action_tick E T i a)"
      unfolding action_tick_def wait_tick_def
      by (cases a) (auto intro!: returns_basic returns_bindo)
    then show ?case by (auto intro!: returns_execute)
  qed
  moreover assume "bounded n"
  ultimately show ?thesis by (metis returns_def not_None_eq surj_pair)
qed

end
