(* ===== verification/Behavior_Meaning.thy ===== *)
theory Behavior_Meaning
  imports Behavior_Ticks
begin

section \<open>The meaning of a behaviour tree\<close>

text \<open>
  The specification of the nodes that choose: a sequence, a priority, their versions with a memory,
  the inverter and the actions without a clock.  A node means a function on the state of the game
  and on a table of progress, from the id of a node with memory to the child it will go on with.  The execution on the
  blackboard, with its flags and its stack, implements it.
\<close>

subsection \<open>Meaning\<close>

type_synonym progress = "string \<Rightarrow> nat"

fun mean_children :: "status \<Rightarrow> ('s, status) py list \<Rightarrow> ('s, status) py" where
  "mean_children cont [] = ret cont"
| "mean_children cont (c # cs) = bindp c (\<lambda>st. if st \<noteq> cont then ret st else mean_children cont cs)"

fun mean_from :: "string \<Rightarrow> status \<Rightarrow> nat \<Rightarrow> ('w \<times> progress, status) py list \<Rightarrow> ('w \<times> progress, status) py" where
  "mean_from i cont k [] = ret cont"
| "mean_from i cont k (c # cs) = bindp c (\<lambda>st.
     if st \<noteq> cont then
       bindp (if st = RUNNING then modify (\<lambda>(w, p). (w, p(i := k))) else ret ()) (\<lambda>_. ret st)
     else mean_from i cont (Suc k) cs)"

text \<open>
  A node with a memory starts from its progress, and forgets it when it ends.  Under Python 3 it
  raises: \<open>xrange\<close> is not a name.
\<close>

definition mean_mem :: "'w behaviour \<Rightarrow> string \<Rightarrow> status \<Rightarrow> ('w \<times> progress, status) py list \<Rightarrow> ('w \<times> progress, status) py" where
  "mean_mem E i cont cs = (\<lambda>(w, p).
     if python3 E then raise (Exception ''NameError'') (w, p) else
     bindp (mean_from i cont (p i) (drop (p i) cs)) (\<lambda>st.
     bindp (if st \<noteq> RUNNING then modify (\<lambda>(w, p). (w, p(i := 0))) else ret ()) (\<lambda>_. ret st)) (w, p))"

definition on_game :: "('w, 'a) py \<Rightarrow> ('w \<times> progress, 'a) py" where
  "on_game m = (\<lambda>(w, p). case m w of (r, w') \<Rightarrow> (r, (w', p)))"

fun meaning :: "'w behaviour \<Rightarrow> bnode \<Rightarrow> ('w \<times> progress, status) py" where
  "meaning E (Composite i k cs) = (case k of
     Sequence \<Rightarrow> mean_children SUCCESS (List.map (meaning E) cs)
   | Priority \<Rightarrow> mean_children FAILURE (List.map (meaning E) cs)
   | MemSequence \<Rightarrow> mean_mem E i SUCCESS (List.map (meaning E) cs)
   | MemPriority \<Rightarrow> mean_mem E i FAILURE (List.map (meaning E) cs))"
| "meaning E (Decorator i k ch) = (case map_option (meaning E) ch of
     None \<Rightarrow> ret ERROR | Some c \<Rightarrow> bindp c (\<lambda>st. ret (inverted st)))"
| "meaning E (Leaf i a) = (case a of
     Succeeder \<Rightarrow> ret SUCCESS | Failer \<Rightarrow> ret FAILURE | Runner \<Rightarrow> ret RUNNING | Error_action \<Rightarrow> ret ERROR
   | Wait ms \<Rightarrow> ret RUNNING | Custom k \<Rightarrow> on_game (b_tick E k))"

subsection \<open>The trees it is for\<close>

text \<open>
  Composites, inverters and the actions but \<open>Wait\<close>, whose result is that of a clock; \<open>meaning\<close> says nothing
  of \<open>Wait\<close> and of the other decorators (what it gives for them is arbitrary).
  \<open>M\<close> are the ids of the nodes with a memory.  The other nodes have other ids, and no node has the id of
  a node below it.
\<close>

fun choice_tree :: "string set \<Rightarrow> bnode \<Rightarrow> bool" where
  "choice_tree M (Composite i k cs) =
     ((i \<in> M) = (k = MemSequence \<or> k = MemPriority) \<and> (\<forall>c \<in> set cs. i \<notin> node_ids c) \<and> list_all (choice_tree M) cs)"
| "choice_tree M (Decorator i k ch) =
     (k = Inverter \<and> i \<notin> M \<and> (case ch of None \<Rightarrow> True | Some c \<Rightarrow> choice_tree M c))"
| "choice_tree M (Leaf i a) = (i \<notin> M \<and> (case a of Wait ms \<Rightarrow> False | _ \<Rightarrow> True))"

definition quiet_hooks :: "'w behaviour \<Rightarrow> bool" where
  "quiet_hooks E = (\<forall>h k w. b_hook E h k w = (Inr (), w))"

subsection \<open>The blackboard as a table of progress\<close>

definition node_memory :: "string \<Rightarrow> string \<Rightarrow> 'w bt \<Rightarrow> memory" where
  "node_memory T i s = get_node_memory i (get_tree_memory T (bt_bb s))"

lemma get_put_node_memory [simp]:
  "get_node_memory i (put_node_memory j d m) = (if i = j then d else get_node_memory i m)"
  by (simp add: get_node_memory_def put_node_memory_def)

lemma node_set_memory: "node_set T i key v s = Some (Inr (), s') \<Longrightarrow>
    node_memory T j s' = (if j = i then dset key v (node_memory T i s) else node_memory T j s)
    \<and> bt_world s' = bt_world s \<and> bt_open s' = bt_open s"
  by (auto simp: node_set_def modifyo_def node_memory_def bb_set_def Let_def)

lemma node_get_memory: "\<exists>s'. node_get T i key s = Some (Inr (dget (node_memory T i s) key), s') \<and>
    node_memory T j s' = node_memory T j s \<and> bt_world s' = bt_world s \<and> bt_open s' = bt_open s"
  by (auto simp: node_get_def node_memory_def bb_get_def Let_def)

definition flag_open :: "string \<Rightarrow> string \<Rightarrow> 'w bt \<Rightarrow> bool" where
  "flag_open T i s = is_open (dget (node_memory T i s) ''is_open'')"

definition progress_of :: "string \<Rightarrow> string set \<Rightarrow> 'w bt \<Rightarrow> progress" where
  "progress_of T M s i =
     (if i \<in> M \<and> flag_open T i s
      then case dget (node_memory T i s) ''running_child'' of Some (BInt k) \<Rightarrow> nat k | _ \<Rightarrow> 0
      else 0)"

definition abs_state :: "string \<Rightarrow> string set \<Rightarrow> 'w bt \<Rightarrow> 'w \<times> progress" where
  "abs_state T M s = (bt_world s, progress_of T M s)"

text \<open>An open node with a memory knows its child.\<close>

definition memory_ok :: "string \<Rightarrow> string set \<Rightarrow> 'w bt \<Rightarrow> bool" where
  "memory_ok T M s = (\<forall>i \<in> M. flag_open T i s \<longrightarrow>
     (\<exists>k. dget (node_memory T i s) ''running_child'' = Some (BInt (int k))))"

definition simulates :: "string \<Rightarrow> string set \<Rightarrow> ('w, 'a) bstep \<Rightarrow> ('w \<times> progress, 'a) py \<Rightarrow> bool" where
  "simulates T M m f = (\<forall>s. memory_ok T M s \<longrightarrow>
     (\<exists>r s'. m s = Some (r, s') \<and> memory_ok T M s' \<and> f (abs_state T M s) = (r, abs_state T M s')))"

lemma simulatesD:
  "simulates T M m f \<Longrightarrow> memory_ok T M s \<Longrightarrow>
   \<exists>r s'. m s = Some (r, s') \<and> memory_ok T M s' \<and> f (abs_state T M s) = (r, abs_state T M s')"
  by (simp add: simulates_def)

lemma simulates_reto: "simulates T M (reto x) (ret x)"
  by (simp add: simulates_def reto_def ret_def)

lemma simulates_if:
  "simulates T M m f \<Longrightarrow> simulates T M m' f' \<Longrightarrow> simulates T M (if b then m else m') (if b then f else f')"
  by simp

lemma simulates_bindo:
  fixes m :: "('w, 'a) bstep"
  assumes "simulates T M m f" and "\<And>x. simulates T M (k x) (g x)"
  shows "simulates T M (bindo m k) (bindp f g)"
  unfolding simulates_def
proof (intro allI impI)
  fix s :: "'w bt"
  assume "memory_ok T M s"
  from simulatesD [OF assms(1) this] obtain r s1 where
    1: "m s = Some (r, s1)" "memory_ok T M s1" "f (abs_state T M s) = (r, abs_state T M s1)" by blast
  show "\<exists>r s'. bindo m k s = Some (r, s') \<and> memory_ok T M s' \<and> bindp f g (abs_state T M s) = (r, abs_state T M s')"
  proof (cases r)
    case (Inl e)
    then show ?thesis using 1 by (simp add: bindo_def bindp_def)
  next
    case (Inr x)
    from simulatesD [OF assms(2) 1(2), of x] 1 Inr show ?thesis by (simp add: bindo_def bindp_def)
  qed
qed

lemma simulates_run_children:
  "list_all2 (simulates T M) ms fs \<Longrightarrow> simulates T M (run_children cont ms) (mean_children cont fs)"
proof (induction ms fs rule: list_all2_induct)
  case Nil
  show ?case unfolding run_children.simps mean_children.simps by (rule simulates_reto)
next
  case (Cons m ms f fs)
  have "simulates T M (if st \<noteq> cont then reto st else run_children cont ms)
      (if st \<noteq> cont then ret st else mean_children cont fs)" for st
    by (rule simulates_if [OF simulates_reto Cons.IH])
  then show ?case unfolding run_children.simps mean_children.simps by (rule simulates_bindo [OF Cons.hyps(1)])
qed

lemma simulates_in_world:
  fixes m :: "('w, 'a) py"
  shows "simulates T M (in_world m) (on_game m)"
  unfolding simulates_def
proof (intro allI impI)
  fix s :: "'w bt"
  assume "memory_ok T M s"
  obtain r w where m: "m (bt_world s) = (r, w)" by fastforce
  have "memory_ok T M (s\<lparr>bt_world := w\<rparr>)"
    using \<open>memory_ok T M s\<close> by (simp add: memory_ok_def flag_open_def node_memory_def)
  moreover have "progress_of T M (s\<lparr>bt_world := w\<rparr>) = progress_of T M s"
    by (rule ext) (simp add: progress_of_def flag_open_def node_memory_def)
  ultimately show "\<exists>r s'. in_world m s = Some (r, s') \<and> memory_ok T M s' \<and>
      on_game m (abs_state T M s) = (r, abs_state T M s')"
    by (simp add: in_world_def on_game_def abs_state_def m)
qed

subsection \<open>Nodes without a memory\<close>

text \<open>What the bookkeeping of a node does not touch: the game and the progress.\<close>

lemma progress_cong:
  assumes "\<And>j. j \<in> M \<Longrightarrow> node_memory T j s' = node_memory T j s"
  shows "progress_of T M s' = progress_of T M s" and "memory_ok T M s' = memory_ok T M s"
  using assms by (auto simp: progress_of_def memory_ok_def flag_open_def fun_eq_iff)

definition neutral :: "string \<Rightarrow> string set \<Rightarrow> ('w, 'a) bstep \<Rightarrow> bool" where
  "neutral T M m = (\<forall>s. \<exists>x s'. m s = Some (Inr x, s') \<and> bt_world s' = bt_world s \<and>
     (\<forall>j \<in> M. node_memory T j s' = node_memory T j s))"

lemma neutralD: "neutral T M m \<Longrightarrow> memory_ok T M s \<Longrightarrow>
    \<exists>x s'. m s = Some (Inr x, s') \<and> memory_ok T M s' \<and> abs_state T M s' = abs_state T M s"
  unfolding neutral_def abs_state_def using progress_cong by metis

lemma neutral_reto: "neutral T M (reto x)"
  by (simp add: neutral_def reto_def)

lemma neutral_bindo:
  assumes "neutral T M m" and "\<And>x. neutral T M (k x)"
  shows "neutral T M (bindo m k)"
  unfolding neutral_def
proof
  fix s
  from assms(1) obtain x s1 where 1: "m s = Some (Inr x, s1)" "bt_world s1 = bt_world s"
    "\<forall>j \<in> M. node_memory T j s1 = node_memory T j s" unfolding neutral_def by blast
  from assms(2) [of x] obtain y s2 where "k x s1 = Some (Inr y, s2)" "bt_world s2 = bt_world s1"
    "\<forall>j \<in> M. node_memory T j s2 = node_memory T j s1" unfolding neutral_def by blast
  with 1 show "\<exists>x s'. bindo m k s = Some (Inr x, s') \<and> bt_world s' = bt_world s \<and>
      (\<forall>j \<in> M. node_memory T j s' = node_memory T j s)" by (simp add: bindo_def)
qed

lemma neutral_node_set: "i \<notin> M \<Longrightarrow> neutral T M (node_set T i key v)"
  unfolding neutral_def
proof
  fix s :: "'w bt"
  assume i: "i \<notin> M"
  obtain s' where "node_set T i key v s = Some (Inr (), s')" by (simp add: node_set_def modifyo_def)
  then show "\<exists>x s'. node_set T i key v s = Some (Inr x, s') \<and> bt_world s' = bt_world s \<and>
      (\<forall>j \<in> M. node_memory T j s' = node_memory T j s)"
    using node_set_memory i by metis
qed

lemma neutral_node_get: "neutral T M (node_get T i key)"
  unfolding neutral_def by (auto simp: node_get_def node_memory_def bb_get_def Let_def)

lemma neutral_run_hook: "quiet_hooks E \<Longrightarrow> neutral T M (run_hook E h n)"
  by (auto simp: run_hook_def neutral_def reto_def in_world_def quiet_hooks_def node_memory_def
      split: bnode.splits action.splits)

lemma neutral_enter: "quiet_hooks E \<Longrightarrow> neutral T M (node_enter E n)"
  unfolding node_enter_def
  by (rule neutral_bindo [OF _ neutral_run_hook]) (auto simp: neutral_def modifyo_def node_memory_def)

interpretation others: untouched "node_memory T i" T "UNIV - {i}"
  by unfold_locales
    (auto simp: keeps_def node_memory_def node_set_def node_get_def bb_set_def bb_get_def time_now_def in_world_def
      pop_open_def modifyo_def Let_def split: prod.splits if_splits)

subsection \<open>The beginning and the end of a node\<close>

definition begin_node :: "'w behaviour \<Rightarrow> string \<Rightarrow> bnode \<Rightarrow> ('w, unit) bstep" where
  "begin_node E T n =
     bindo (node_enter E n) (\<lambda>_.
     bindo (node_get T (node_id n) ''is_open'') (\<lambda>v. if is_open v then reto () else node_open E T n))"

definition end_node :: "'w behaviour \<Rightarrow> string \<Rightarrow> bnode \<Rightarrow> status \<Rightarrow> ('w, unit) bstep" where
  "end_node E T n st = bindo (if st \<noteq> RUNNING then node_close E T n else reto ()) (\<lambda>_. run_hook E Exit n)"

lemma bindo_assoc: "bindo (bindo m k) k' = bindo m (\<lambda>x. bindo (k x) k')"
  by (auto simp: bindo_def fun_eq_iff split: option.splits sum.splits)

lemma execute_parts:
  "execute E T n tick = bindo (begin_node E T n) (\<lambda>_. bindo tick (\<lambda>st. bindo (end_node E T n st) (\<lambda>_. reto st)))"
  by (simp add: execute_def begin_node_def end_node_def bindo_assoc)

text \<open>A node gets onto the stack.\<close>

lemma begin_node_open: "begin_node E T n s = Some (r, s') \<Longrightarrow> bt_open s' = bt_open s @ [n]"
proof -
  assume b: "begin_node E T n s = Some (r, s')"
  have k: "keeps bt_open (bindo (run_hook E Enter n) (\<lambda>_.
      bindo (node_get T (node_id n) ''is_open'') (\<lambda>v. if is_open v then reto () else node_open E T n)))"
    unfolding node_open_def
    by (rule keeps_bindo keeps_if step_keeps_basic keeps_open_basic keeps_run_hook keeps_open_hook)+
  have "begin_node E T n s = bindo (run_hook E Enter n) (\<lambda>_.
      bindo (node_get T (node_id n) ''is_open'') (\<lambda>v. if is_open v then reto () else node_open E T n))
      (s\<lparr>bt_count := bt_count s + 1, bt_open := bt_open s @ [n]\<rparr>)"
    by (simp add: begin_node_def node_enter_def bindo_assoc bindo_step modifyo_def)
  with b keepsD [OF k] show ?thesis by fastforce
qed

lemma begin_plain:
  assumes "quiet_hooks E" and "node_id n \<notin> M" and "neutral T M (open_hook E T n)"
  shows "neutral T M (begin_node E T n)"
  unfolding begin_node_def node_open_def
  using assms by (intro neutral_bindo neutral_enter neutral_node_get)
    (auto intro!: neutral_reto neutral_bindo neutral_node_set)

lemma neutral_pop:
  "neutral T M k \<Longrightarrow> bt_open s \<noteq> [] \<Longrightarrow> memory_ok T M s \<Longrightarrow>
   \<exists>x s'. bindo pop_open (\<lambda>_. k) s = Some (Inr x, s') \<and> memory_ok T M s' \<and> abs_state T M s' = abs_state T M s"
proof -
  assume k: "neutral T M k" and "bt_open s \<noteq> []" and ok: "memory_ok T M s"
  then have "bindo pop_open (\<lambda>_. k) s = k (s\<lparr>bt_open := butlast (bt_open s)\<rparr>)"
    by (simp add: bindo_def pop_open_def)
  moreover have "memory_ok T M (s\<lparr>bt_open := butlast (bt_open s)\<rparr>)"
    "abs_state T M (s\<lparr>bt_open := butlast (bt_open s)\<rparr>) = abs_state T M s"
    using ok progress_cong [of M T "s\<lparr>bt_open := butlast (bt_open s)\<rparr>" s]
    by (simp_all add: node_memory_def abs_state_def)
  ultimately show ?thesis using neutralD [OF k] by metis
qed

lemma end_plain:
  assumes "quiet_hooks E" and "node_id n \<notin> M" and "st \<noteq> RUNNING \<Longrightarrow> bt_open s \<noteq> []" and "memory_ok T M s"
  shows "\<exists>s'. end_node E T n st s = Some (Inr (), s') \<and> memory_ok T M s' \<and> abs_state T M s' = abs_state T M s"
proof (cases "st = RUNNING")
  case True
  then show ?thesis
    using neutralD [OF neutral_run_hook [OF assms(1)] assms(4)] by (simp add: end_node_def bindo_def reto_def)
next
  case False
  have "neutral T M (bindo (node_set T (node_id n) ''is_open'' (BBool False))
      (\<lambda>_. bindo (run_hook E Close n) (\<lambda>_. run_hook E Exit n)))"
    by (intro neutral_bindo neutral_node_set neutral_run_hook assms)
  from neutral_pop [OF this assms(3) [OF False] assms(4)] False show ?thesis
    by (simp add: end_node_def node_close_def bindo_assoc)
qed

lemma simulates_execute:
  fixes tick :: "('w, status) bstep"
  assumes q: "quiet_hooks E" and i: "node_id n \<notin> M" and h: "neutral T M (open_hook E T n)"
    and sim: "simulates T M tick g" and stk: "stacks Q tick"
  shows "simulates T M (execute E T n tick) g"
  unfolding simulates_def
proof (intro allI impI)
  fix s :: "'w bt"
  assume ok: "memory_ok T M s"
  obtain s1 where 1: "begin_node E T n s = Some (Inr (), s1)" "memory_ok T M s1" "abs_state T M s1 = abs_state T M s"
    using neutralD [OF begin_plain [OF q i h] ok] by auto
  obtain r s2 where 2: "tick s1 = Some (r, s2)" "memory_ok T M s2" "g (abs_state T M s1) = (r, abs_state T M s2)"
    using simulatesD [OF sim 1(2)] by blast
  show "\<exists>r s'. execute E T n tick s = Some (r, s') \<and> memory_ok T M s' \<and> g (abs_state T M s) = (r, abs_state T M s')"
  proof (cases r)
    case (Inl e)
    then show ?thesis using 1 2 by (simp add: execute_parts bindo_def)
  next
    case (Inr st)
    then have "bt_open s2 \<noteq> []" using stacksD [OF stk, of s1 st s2] 2(1) begin_node_open [OF 1(1)] by auto
    then obtain s3 where "end_node E T n st s2 = Some (Inr (), s3)" "memory_ok T M s3"
      "abs_state T M s3 = abs_state T M s2" using end_plain [OF q i _ 2(2)] by blast
    then show ?thesis using 1 2 Inr by (simp add: execute_parts bindo_def reto_def)
  qed
qed

subsection \<open>Nodes with a memory\<close>



lemma node_set_total: "\<exists>s'. node_set T i key v s = Some (Inr (), s')"
  by (simp add: node_set_def modifyo_def)

lemma begin_mem:
  assumes q: "quiet_hooks E" and i: "i \<in> M" "node_id n = i" and h: "open_hook E T n = node_set T i ''running_child'' (BInt 0)"
    and ok: "memory_ok T M s"
  shows "\<exists>s'. begin_node E T n s = Some (Inr (), s') \<and> memory_ok T M s' \<and> abs_state T M s' = abs_state T M s
    \<and> flag_open T i s'"
proof -
  obtain s1 where 1: "node_enter E n s = Some (Inr (), s1)" "memory_ok T M s1" "abs_state T M s1 = abs_state T M s"
    using neutralD [OF neutral_enter [OF q] ok] by auto
  obtain s2 where 2: "node_get T i ''is_open'' s1 = Some (Inr (dget (node_memory T i s1) ''is_open''), s2)"
    "\<And>j. node_memory T j s2 = node_memory T j s1" "bt_world s2 = bt_world s1"
    by (auto simp: node_get_def node_memory_def bb_get_def Let_def)
  have same: "memory_ok T M s2" "abs_state T M s2 = abs_state T M s1" "flag_open T i s2 = flag_open T i s1"
    using 1(2) progress_cong [of M T s2 s1] 2(2,3) by (simp_all add: abs_state_def flag_open_def)
  show ?thesis
  proof (cases "flag_open T i s1")
    case True
    then show ?thesis using 1 2(1) same i(2) by (simp add: begin_node_def bindo_def flag_open_def reto_def)
  next
    case False
    obtain s3 where 3: "node_set T i ''is_open'' (BBool True) s2 = Some (Inr (), s3)" using node_set_total by blast
    obtain s4 where 4: "node_set T i ''running_child'' (BInt 0) s3 = Some (Inr (), s4)" using node_set_total by blast
    have m: "node_memory T j s4 = (if j = i then dset ''running_child'' (BInt 0) (dset ''is_open'' (BBool True) (node_memory T i s2))
        else node_memory T j s2)" and w: "bt_world s4 = bt_world s2" for j
      using node_set_memory [OF 3, of j] node_set_memory [OF 4, of j] node_set_memory [OF 3, of i] by auto
    have "flag_open T i s4" by (simp add: flag_open_def m is_open_def)
    moreover have "progress_of T M s4 = progress_of T M s2"
      using False same(3) by (auto simp: fun_eq_iff progress_of_def flag_open_def m is_open_def)
    moreover have "memory_ok T M s4"
      using same(1) by (auto simp: memory_ok_def flag_open_def m intro: exI [of _ 0])
    moreover have "begin_node E T n s = Some (Inr (), s4)"
      using 1(1) 2(1) 3 4 False i(2) by (simp add: begin_node_def bindo_def flag_open_def node_open_def h)
    ultimately show ?thesis using 1 same w by (simp add: abs_state_def)
  qed
qed

lemma end_mem:
  assumes q: "quiet_hooks E" and i: "i \<in> M" "node_id n = i" and open_: "st \<noteq> RUNNING \<Longrightarrow> bt_open s \<noteq> []"
    and ok: "memory_ok T M s" and a: "abs_state T M s = (w, p)"
  shows "\<exists>s'. end_node E T n st s = Some (Inr (), s') \<and> memory_ok T M s' \<and>
    abs_state T M s' = (w, if st \<noteq> RUNNING then p(i := 0) else p)"
proof (cases "st = RUNNING")
  case True
  then show ?thesis
    using neutralD [OF neutral_run_hook [OF q] ok] a by (simp add: end_node_def bindo_def reto_def)
next
  case False
  define s1 where "s1 = s\<lparr>bt_open := butlast (bt_open s)\<rparr>"
  have 1: "pop_open s = Some (Inr (), s1)" using open_ [OF False] by (simp add: pop_open_def s1_def)
  obtain s2 where 2: "node_set T i ''is_open'' (BBool False) s1 = Some (Inr (), s2)" using node_set_total by blast
  have m: "node_memory T j s2 = (if j = i then dset ''is_open'' (BBool False) (node_memory T i s) else node_memory T j s)"
    and w2: "bt_world s2 = bt_world s" for j
    using node_set_memory [OF 2, of j] by (auto simp: s1_def node_memory_def)
  have "progress_of T M s2 = (progress_of T M s)(i := 0)"
    by (auto simp: fun_eq_iff progress_of_def flag_open_def m is_open_def)
  then have abs2: "abs_state T M s2 = (w, p(i := 0))" using a w2 by (auto simp: abs_state_def)
  have ok2: "memory_ok T M s2" using ok by (auto simp: memory_ok_def flag_open_def m is_open_def)
  have "neutral T M (bindo (run_hook E Close n) (\<lambda>_. run_hook E Exit n))"
    by (intro neutral_bindo neutral_run_hook q)
  from neutralD [OF this ok2] obtain s3 where
    "bindo (run_hook E Close n) (\<lambda>_. run_hook E Exit n) s2 = Some (Inr (), s3)" "memory_ok T M s3"
    "abs_state T M s3 = abs_state T M s2" by auto
  then show ?thesis
    using False 1 2 i(2) abs2 by (simp add: end_node_def node_close_def bindo_assoc bindo_step)
qed

text \<open>The loop over the children from the remembered one on.\<close>

lemma run_from_simulates:
  assumes "list_all2 (simulates T M) ms fs" and "\<forall>m \<in> set ms. keeps (node_memory T i) m" and "i \<in> M"
    and "memory_ok T M s" and "flag_open T i s"
  shows "\<exists>r s'. run_from T i cont (int k) ms s = Some (r, s') \<and> memory_ok T M s' \<and>
    mean_from i cont k fs (abs_state T M s) = (r, abs_state T M s')"
  using assms
proof (induction ms fs arbitrary: k s rule: list_all2_induct)
  case Nil
  then show ?case by (simp add: reto_def)
next
  case (Cons m ms f fs)
  obtain r s1 where 1: "m s = Some (r, s1)" "memory_ok T M s1" "f (abs_state T M s) = (r, abs_state T M s1)"
    using simulatesD [OF Cons.hyps(1) Cons.prems(3)] by blast
  have "keeps (node_memory T i) m" using Cons.prems(1) by simp
  then have "node_memory T i s1 = node_memory T i s" using 1(1) by (rule keepsD)
  then have fl: "flag_open T i s1" using Cons.prems(4) by (simp add: flag_open_def)
  show ?case
  proof (cases r)
    case (Inl e)
    then show ?thesis using 1 by (simp add: bindo_def bindp_def)
  next
    case (Inr st)
    show ?thesis
    proof (cases "st = cont")
      case True
      have "int (Suc k) = int k + 1" by simp
      then show ?thesis
        using Cons.IH [of s1 "Suc k"] Cons.prems 1 fl Inr True by (simp add: bindo_def bindp_def add.commute)
    next
      case False
      show ?thesis
      proof (cases "st = RUNNING")
        case True
        obtain s2 where 2: "node_set T i ''running_child'' (BInt (int k)) s1 = Some (Inr (), s2)"
          using node_set_total by blast
        have m: "node_memory T j s2 = (if j = i then dset ''running_child'' (BInt (int k)) (node_memory T i s1)
            else node_memory T j s1)" and w2: "bt_world s2 = bt_world s1" for j
          using node_set_memory [OF 2, of j] by auto
        have "progress_of T M s2 = (progress_of T M s1)(i := k)"
          using fl Cons.prems(2) by (auto simp: fun_eq_iff progress_of_def flag_open_def m)
        moreover have "memory_ok T M s2" using 1(2) by (auto simp: memory_ok_def flag_open_def m)
        ultimately show ?thesis
          using 1 2 w2 Inr True False by (simp add: bindo_def bindp_def abs_state_def reto_def)
      next
        case notr: False
        then show ?thesis using 1 Inr False by (simp add: bindo_def bindp_def reto_def)
      qed
    qed
  qed
qed

lemma mem_simulates:
  fixes ms :: "('w, status) bstep list"
  assumes q: "quiet_hooks E" and i: "i \<in> M" "node_id n = i"
    and h: "open_hook E T n = node_set T i ''running_child'' (BInt 0)"
    and sim: "list_all2 (simulates T M) ms fs" and kp: "\<forall>m \<in> set ms. keeps (node_memory T i) m"
    and stk: "stacks Q (mem_children E T i cont ms)"
  shows "simulates T M (execute E T n (mem_children E T i cont ms)) (mean_mem E i cont fs)"
  unfolding simulates_def
proof (intro allI impI)
  fix s :: "'w bt"
  assume ok: "memory_ok T M s"
  obtain s1 where 1: "begin_node E T n s = Some (Inr (), s1)" "memory_ok T M s1" "abs_state T M s1 = abs_state T M s"
    "flag_open T i s1" using begin_mem [OF q i h ok] by blast
  obtain k where k: "dget (node_memory T i s1) ''running_child'' = Some (BInt (int k))"
    using 1(2,4) i(1) by (auto simp: memory_ok_def)
  then have pk: "progress_of T M s1 i = k" using 1(4) i(1) by (simp add: progress_of_def)
  have as: "abs_state T M s = (bt_world s1, progress_of T M s1)" using 1(3) by (simp add: abs_state_def)
  show "\<exists>r s'. execute E T n (mem_children E T i cont ms) s = Some (r, s') \<and> memory_ok T M s' \<and>
      mean_mem E i cont fs (abs_state T M s) = (r, abs_state T M s')"
  proof (cases "python3 E")
    case True
    obtain s2 where 2: "node_get T i ''running_child'' s1 = Some (Inr (Some (BInt (int k))), s2)"
      "\<And>j. node_memory T j s2 = node_memory T j s1" "bt_world s2 = bt_world s1"
      using k by (auto simp: node_get_def node_memory_def bb_get_def Let_def)
    have "memory_ok T M s2" "abs_state T M s2 = (bt_world s1, progress_of T M s1)"
      using 1(2) progress_cong [of M T s2 s1] 2(2,3) by (simp_all add: abs_state_def)
    then show ?thesis
      using 1(1) 2(1) True by (simp add: execute_parts mem_children_def bindo_def raiseo_def mean_mem_def as)
  next
    case p3: False
    obtain s2 where 2: "node_get T i ''running_child'' s1 = Some (Inr (Some (BInt (int k))), s2)"
      "\<And>j. node_memory T j s2 = node_memory T j s1" "bt_world s2 = bt_world s1"
      using k by (auto simp: node_get_def node_memory_def bb_get_def Let_def)
    have same: "memory_ok T M s2" "abs_state T M s2 = abs_state T M s1" "flag_open T i s2"
      using 1(2,4) progress_cong [of M T s2 s1] 2(2,3) by (simp_all add: abs_state_def flag_open_def)
    have "list_all2 (simulates T M) (drop k ms) (drop k fs)" using sim by (rule list_all2_dropI)
    moreover have "\<forall>m \<in> set (drop k ms). keeps (node_memory T i) m" using kp by (meson in_set_dropD)
    ultimately obtain r s3 where 3: "run_from T i cont (int k) (drop k ms) s2 = Some (r, s3)" "memory_ok T M s3"
      "mean_from i cont k (drop k fs) (abs_state T M s2) = (r, abs_state T M s3)"
      using run_from_simulates [OF _ _ i(1) same(1,3)] by blast
    have tick: "mem_children E T i cont ms s1 = Some (r, s3)"
      using 2(1) 3(1) p3 by (simp add: mem_children_def bindo_def int_of_def reto_def)
    have pk2: "abs_state T M s = (bt_world s1, progress_of T M s1)" "abs_state T M s2 = (bt_world s1, progress_of T M s1)"
      using 1(3) same(2) by (simp_all add: abs_state_def)
    show ?thesis
    proof (cases r)
      case (Inl e)
      then show ?thesis
        using 1(1) tick 3 by (simp add: execute_parts bindo_def mean_mem_def p3 pk2 pk bindp_def)
    next
      case (Inr st)
      have "st \<noteq> RUNNING \<Longrightarrow> bt_open s3 \<noteq> []"
        using stacksD [OF stk, of s1 st s3] tick Inr begin_node_open [OF 1(1)] by auto
      from end_mem [OF q i this 3(2), where w = "bt_world s3" and p = "progress_of T M s3"] obtain s4 where
        4: "end_node E T n st s3 = Some (Inr (), s4)" "memory_ok T M s4"
        "abs_state T M s4 = (bt_world s3, if st \<noteq> RUNNING then (progress_of T M s3)(i := 0) else progress_of T M s3)"
        by (auto simp: abs_state_def)
      have "mean_mem E i cont fs (abs_state T M s) = (r, abs_state T M s4)"
        using 3(3) Inr 4(3) by (simp add: mean_mem_def p3 pk2 pk bindp_def) (simp add: abs_state_def)
      then show ?thesis
        using 1(1) tick 4 Inr by (simp add: execute_parts bindo_def reto_def)
    qed
  qed
qed

lemma simulates_invert:
  "simulates T M m f \<Longrightarrow> simulates T M (bindo m (\<lambda>st. reto (inverted st))) (bindp f (\<lambda>st. ret (inverted st)))"
  by (rule simulates_bindo [OF _ simulates_reto])

lemma choice_tree_no_max_time: "choice_tree M n \<Longrightarrow> no_max_time n"
  by (induction n) (auto simp: list_all_iff split: option.splits)

text \<open>The execution of a tree implements its meaning.\<close>

lemma exec_simulates:
  fixes E :: "'w behaviour"
  assumes q: "quiet_hooks E"
  shows "choice_tree M n \<Longrightarrow> simulates T M (exec E T n) (meaning E n)"
proof (induction n)
  case (Composite i k cs)
  let ?n = "Composite i k cs" and ?ms = "List.map (exec E T) cs" and ?fs = "List.map (meaning E) cs"
  have all: "list_all2 (simulates T M) ?ms ?fs"
    using Composite by (auto simp: list_all2_conv_all_nth list_all_length)
  have stk: "stacks (\<lambda>q. True) (composite_tick E T i k ?ms)"
    using Composite.prems exec_stacks choice_tree_no_max_time
    by (intro stacks_composite_tick) (fastforce simp: list_all_iff intro: stacks_mono)
  have kp: "\<forall>m \<in> set ?ms. keeps (node_memory T i) m"
    using Composite.prems by (auto intro!: others.exec_keeps)
  show ?case
  proof (cases k)
    case Sequence
    then show ?thesis
      using Composite.prems simulates_execute [OF q, of ?n M T] simulates_run_children [OF all] stk neutral_run_hook [OF q]
      by (simp add: composite_tick_defs open_hook_def)
  next
    case Priority
    then show ?thesis
      using Composite.prems simulates_execute [OF q, of ?n M T] simulates_run_children [OF all] stk neutral_run_hook [OF q]
      by (simp add: composite_tick_defs open_hook_def)
  next
    case MemSequence
    then show ?thesis
      using Composite.prems mem_simulates [OF q, of i M ?n T ?ms ?fs] all kp stk
      by (simp add: composite_tick_defs open_hook_def)
  next
    case MemPriority
    then show ?thesis
      using Composite.prems mem_simulates [OF q, of i M ?n T ?ms ?fs] all kp stk
      by (simp add: composite_tick_defs open_hook_def)
  qed
next
  case (Decorator i k ch)
  show ?case
  proof (cases ch)
    case None
    have k: "k = Inverter" "i \<notin> M" using Decorator.prems by simp_all
    have "stacks (\<lambda>q. True) (reto ERROR :: ('w, status) bstep)" by (rule stacks_reto) simp
    from simulates_execute [OF q, of "Decorator i k ch" M T, OF _ _ simulates_reto this]
    show ?thesis using k neutral_run_hook [OF q] by (simp add: None decorator_tick_defs open_hook_def del: py_apply)
  next
    case (Some c)
    have k: "k = Inverter" "i \<notin> M" "choice_tree M c" using Decorator.prems Some by simp_all
    have s: "simulates T M (exec E T c) (meaning E c)" using Decorator.IH Some k(3) by simp
    have "stacks (running_path c) (bindo (exec E T c) (\<lambda>st. reto (inverted st)))"
      by (rule stacks_map_status [OF exec_stacks [OF choice_tree_no_max_time [OF k(3)]] inverted_RUNNING])
    from simulates_execute [OF q, of "Decorator i k ch" M T, OF _ _ simulates_invert [OF s] this]
    show ?thesis using k neutral_run_hook [OF q] by (simp add: Some decorator_tick_defs open_hook_def del: py_apply)
  qed
next
  case (Leaf i a)
  have st: "stacks (\<lambda>p. p = []) (action_tick E T i a)" by (rule stacks_keeps [OF keeps_action_tick])
  have "simulates T M (action_tick E T i a) (meaning E (Leaf i a))"
    using Leaf.prems by (cases a) (auto simp: action_tick_def simulates_reto simulates_in_world simp del: py_apply)
  from simulates_execute [OF q, of "Leaf i a" M T, OF _ _ this st]
  show ?case using Leaf.prems neutral_run_hook [OF q] by (cases a) (simp_all add: open_hook_def del: py_apply)
qed

subsection \<open>Properties\<close>

lemma memory_ok_new: "bt_bb s = new_blackboard \<Longrightarrow> memory_ok T M s"
  by (simp add: memory_ok_def flag_open_def node_memory_def get_tree_memory_def new_tree_memory_def
      get_node_memory_def new_blackboard_def is_open_def)

text \<open>C18: A behaviour tree of sequences, priorities, their versions with a memory, inverters and actions other
  than \<open>Wait\<close> does what it means, for games whose hooks (\<open>enter\<close>, \<open>open\<close>, \<open>close\<close>, \<open>exit\<close>) do nothing: every
  execution returns, and its status (or what a node of the game raises), the state of the game and
  the child each node with a memory goes on with are those of the specification, in which a node with
  a memory resumes at the child that ran and forgets it when it ends, and raises \<open>NameError\<close> under
  Python 3.  The flags and the stack of the blackboard cannot be seen.  The nodes with a memory are
  \<open>M\<close>, and no node has the id of a node below it.\<close>

theorem tree_implements_meaning:
  assumes "quiet_hooks E" and "choice_tree M n" and "memory_ok T M s"
  shows "\<exists>r s'. exec E T n s = Some (r, s') \<and> memory_ok T M s' \<and>
    meaning E n (bt_world s, progress_of T M s) = (r, (bt_world s', progress_of T M s'))"
  using simulatesD [OF exec_simulates [OF assms(1,2)] assms(3)] by (simp add: abs_state_def)

subsection \<open>An instance\<close>

text \<open>
  Two jobs in a row that remember: the first succeeds at once, the second runs once.  The game counts
  how often each was asked.
\<close>

definition demo_behaviour :: "(nat \<times> nat) behaviour" where
  "demo_behaviour = \<lparr>python3 = False,
     b_tick = (\<lambda>k (a, b). if k = 0 then (Inr SUCCESS, (a + 1, b))
                else (Inr (if b = 0 then RUNNING else SUCCESS), (a, b + 1))),
     b_hook = (\<lambda>h k. ret ()), b_time = (\<lambda>n. 0)\<rparr>"

definition demo_tree :: bnode where
  "demo_tree = Composite ''m'' MemSequence [Leaf ''a'' (Custom 0), Leaf ''b'' (Custom 1)]"

definition demo_state :: "(nat \<times> nat) bt" where
  "demo_state = \<lparr>bt_bb = new_blackboard, bt_open = [], bt_count = 0, bt_clock = 0, bt_world = (0, 0)\<rparr>"

lemma demo_quiet: "quiet_hooks demo_behaviour" "\<not> python3 demo_behaviour"
  by (simp_all add: quiet_hooks_def demo_behaviour_def)

lemma demo_choice: "choice_tree {''m''} demo_tree" "no_max_time demo_tree"
  by (simp_all add: demo_tree_def)

lemma demo_memory: "memory_ok ''T'' {''m''} demo_state"
  by (rule memory_ok_new) (simp add: demo_state_def)

lemma demo_no_progress: "progress_of ''T'' {''m''} demo_state = (\<lambda>i. 0)"
  by (simp add: fun_eq_iff progress_of_def flag_open_def node_memory_def get_tree_memory_def new_tree_memory_def
      get_node_memory_def new_blackboard_def is_open_def demo_state_def)

lemma demo_meaning:
  "meaning demo_behaviour demo_tree ((0, 0), \<lambda>i. 0) = (Inr RUNNING, ((1, 1), (\<lambda>i. 0)(''m'' := 1)))"
  by (simp add: demo_tree_def mean_mem_def on_game_def demo_behaviour_def)

text \<open>The first execution runs, and remembers the second job.\<close>

theorem tree_implements_meaning_witness:
  "\<exists>s'. exec demo_behaviour ''T'' demo_tree demo_state = Some (Inr RUNNING, s') \<and>
     bt_world s' = (1, 1) \<and> progress_of ''T'' {''m''} s' ''m'' = 1"
proof -
  obtain r s' where e: "exec demo_behaviour ''T'' demo_tree demo_state = Some (r, s')" and
    m: "meaning demo_behaviour demo_tree (bt_world demo_state, progress_of ''T'' {''m''} demo_state) =
      (r, (bt_world s', progress_of ''T'' {''m''} s'))"
    using tree_implements_meaning [OF demo_quiet(1) demo_choice(1) demo_memory] by blast
  have "bt_world demo_state = (0, 0)" by (simp add: demo_state_def)
  with m demo_meaning have "(r, (bt_world s', progress_of ''T'' {''m''} s')) = (Inr RUNNING, ((1, 1), (\<lambda>i. 0)(''m'' := 1)))"
    by (simp only: demo_no_progress)
  then have "r = Inr RUNNING" "bt_world s' = (1, 1)" "progress_of ''T'' {''m''} s' = (\<lambda>i. 0)(''m'' := 1)" by blast+
  then show ?thesis using e by simp
qed

theorem bounded_tree_returns_witness: "\<exists>r s'. exec demo_behaviour ''T'' demo_tree demo_state = Some (r, s')"
  by (rule bounded_tree_returns) (simp add: demo_tree_def)

text \<open>The tree that ran once raises when it ends.\<close>

lemma demo_recorded: "recorded ''T'' demo_state = Some (BNodes [])"
  by (simp add: recorded_def get_tree_memory_def new_tree_memory_def new_blackboard_def demo_state_def)

lemma demo_first: "\<exists>s1. exec demo_behaviour ''T'' demo_tree (new_tick demo_state) = Some (Inr RUNNING, s1)"
proof -
  have d: "new_tick demo_state = demo_state" by (simp add: new_tick_def demo_state_def)
  have "abs_state ''T'' {''m''} demo_state = ((0, 0), \<lambda>i. 0)"
    by (simp add: abs_state_def demo_no_progress) (simp add: demo_state_def)
  then show ?thesis
    using simulatesD [OF exec_simulates [OF demo_quiet(1) demo_choice(1), of "''T''"] demo_memory] demo_meaning d by auto
qed


lemma demo_second: "map_option fst (bindo (tree_tick demo_behaviour ''T'' (Some demo_tree))
    (\<lambda>_ s. exec demo_behaviour ''T'' demo_tree (new_tick s)) demo_state) = Some (Inr SUCCESS)"
  by code_simp

theorem running_tree_raises_at_its_end_witness:
  "\<exists>s2 s4. tree_tick demo_behaviour ''T'' (Some demo_tree) demo_state = Some (Inr (), s2) \<and>
     tree_tick demo_behaviour ''T'' (Some demo_tree) s2 = Some (Inl IndexError, s4)"
proof -
  obtain s1 where "exec demo_behaviour ''T'' demo_tree (new_tick demo_state) = Some (Inr RUNNING, s1)"
    using demo_first by blast
  from running_tree_raises_at_its_end [OF demo_choice(2) demo_quiet(2) demo_recorded this] obtain s2 p where
    s2: "tree_tick demo_behaviour ''T'' (Some demo_tree) demo_state = Some (Inr (), s2)" and
    raises: "\<And>st s3. exec demo_behaviour ''T'' demo_tree (new_tick s2) = Some (Inr st, s3) \<Longrightarrow> st \<noteq> RUNNING \<Longrightarrow>
      \<exists>s4. tree_tick demo_behaviour ''T'' (Some demo_tree) s2 = Some (Inl IndexError, s4)" by blast
  obtain s3 where "exec demo_behaviour ''T'' demo_tree (new_tick s2) = Some (Inr SUCCESS, s3)"
    using demo_second s2 by (auto simp: bindo_def)
  from raises [OF this] s2 show ?thesis by simp
qed

end
