(* ===== verification/Behavior_Load.thy ===== *)
theory Behavior_Load
  imports Py_Values
begin

section \<open>Loading and dumping behaviour trees\<close>

text \<open>
  \<open>BehaviorTree.load\<close> and \<open>dump\<close> of \<open>external/behavior3py/b3/core/behaviortree.py\<close>, on the objects they
  make and read: a graph of nodes, in which a node refers to its children by their addresses (for a
  loaded graph the keys of the data).  The data are those of the editor of behaviour trees: any key may be
  missing, and the values have the types that \<open>dump\<close> gives them.  Names with two underscores, which
  every module has, are not names of nodes.
\<close>

subsection \<open>Classes\<close>

datatype category = Cat_composite | Cat_decorator | Cat_action | Cat_condition | Cat_none | Cat_missing

text \<open>What \<open>hasattr(b3, name)\<close> finds: a class of nodes, one that asks for a child, another class, or no class.\<close>

datatype b3_attr = Node_class category | Child_class | Other_class | Not_callable

definition b3_names :: "(string, b3_attr) dict" where
  "b3_names =
    [(''Sequence'', Node_class Cat_composite), (''Priority'', Node_class Cat_composite),
     (''MemPriority'', Node_class Cat_composite), (''MemSequence'', Node_class Cat_composite),
     (''Composite'', Node_class Cat_composite), (''Inverter'', Node_class Cat_decorator),
     (''Decorator'', Node_class Cat_decorator), (''Succeeder'', Node_class Cat_action),
     (''Failer'', Node_class Cat_action), (''Runner'', Node_class Cat_action), (''Error'', Node_class Cat_action),
     (''Wait'', Node_class Cat_action), (''Action'', Node_class Cat_action),
     (''Condition'', Node_class Cat_condition), (''BaseNode'', Node_class Cat_none),
     (''Limiter'', Child_class), (''MaxTime'', Child_class), (''Repeater'', Child_class),
     (''RepeatUntilFailure'', Child_class), (''RepeatUntilSuccess'', Child_class),
     (''Tick'', Other_class), (''Blackboard'', Other_class), (''BehaviorTree'', Other_class),
     (''VERSION'', Not_callable), (''SUCCESS'', Not_callable), (''FAILURE'', Not_callable),
     (''RUNNING'', Not_callable), (''ERROR'', Not_callable), (''COMPOSITE'', Not_callable),
     (''DECORATOR'', Not_callable), (''ACTION'', Not_callable), (''CONDITION'', Not_callable),
     (''core'', Not_callable), (''composites'', Not_callable), (''actions'', Not_callable),
     (''decorators'', Not_callable)]"

type_synonym props = "(string, pyv) dict"

text \<open>
  A class of the game has its name, its category, a title and a description if it sets them, and the
  other attributes of its new objects, as its constructor leaves them without arguments.
\<close>

datatype node_class = B3 string | Game_class string category "string option" "string option" props

fun class_name :: "node_class \<Rightarrow> string" where
  "class_name (B3 n) = n"
| "class_name (Game_class n c t d own) = n"

fun class_category :: "node_class \<Rightarrow> category" where
  "class_category (B3 n) = (case dget b3_names n of
     Some (Node_class c) \<Rightarrow> c | Some Child_class \<Rightarrow> Cat_decorator | _ \<Rightarrow> Cat_missing)"
| "class_category (Game_class n c t d own) = c"

text \<open>
  What the constructors set beside the id, the title, the description and the properties, without
  arguments: \<open>parameters\<close> of every node, and the \<open>end_time\<close> of a \<open>Wait\<close>, \<open>0/1000.\<close> by default.
\<close>

fun own_state :: "node_class \<Rightarrow> props" where
  "own_state (Game_class n c t d own) = own"
| "own_state (B3 n) = (''parameters'', VDict []) # (if n = ''Wait'' then [(''end_time'', VFloat ''0.0'')] else [])"

text \<open>A new object: \<open>None\<close> is an attribute it does not have.\<close>

record fresh =
  fr_id :: "string option"
  fr_title :: "string option"
  fr_description :: "string option"
  fr_properties :: "props option"
  fr_own :: props

text \<open>\<open>a or b\<close> of texts.\<close>

definition or_text :: "string \<Rightarrow> string \<Rightarrow> string" where
  "or_text a b = (if a = [] then b else a)"

definition base_node :: "string \<Rightarrow> string \<Rightarrow> string option \<Rightarrow> string option \<Rightarrow> props \<Rightarrow> fresh" where
  "base_node uuid n t d own = \<lparr>fr_id = Some uuid,
     fr_title = Some (case t of None \<Rightarrow> n | Some t \<Rightarrow> or_text t n),
     fr_description = Some (case d of None \<Rightarrow> [] | Some d \<Rightarrow> d), fr_properties = Some [], fr_own = own\<rparr>"

fun instantiate :: "string \<Rightarrow> node_class \<Rightarrow> pyexn + fresh" where
  "instantiate uuid (Game_class n c t d own) = Inr (base_node uuid n t d own)"
| "instantiate uuid (B3 n) = (case dget b3_names n of
     Some (Node_class c) \<Rightarrow> Inr (base_node uuid n None None (own_state (B3 n)))
   | Some Other_class \<Rightarrow>
       Inr (if n = ''BehaviorTree'' then base_node uuid n (Some ''Behavior3'') None []
            else \<lparr>fr_id = None, fr_title = None, fr_description = None, fr_properties = None, fr_own = []\<rparr>)
   | _ \<Rightarrow> Inl TypeError)"

subsection \<open>Objects and data\<close>

record nattr =
  na_class :: node_class
  na_id :: string
  na_title :: string
  na_description :: string
  na_properties :: props
  na_own :: props

text \<open>\<open>child\<close> starts as the empty list, which is not a node.\<close>

record nobj =
  ob_attr :: nattr
  ob_children :: "string list"
  ob_child :: "string option"

type_synonym graph = "(string, nobj) dict"

record btree =
  tree_title :: string
  tree_description :: string
  tree_properties :: props
  tree_root :: "(string \<times> graph) option"

record spec =
  sp_id :: "string option"
  sp_name :: "string option"
  sp_title :: "string option"
  sp_description :: "string option"
  sp_properties :: "props option"
  sp_children :: "string list option"
  sp_child :: "string option"

record custom =
  cu_name :: string
  cu_title :: string
  cu_category :: category

record tree_data =
  td_title :: "string option"
  td_description :: "string option"
  td_root :: "string option option"
  td_properties :: "props option"
  td_nodes :: "(string, spec) dict option"
  td_custom :: "custom list"

definition new_tree :: btree where
  "new_tree = \<lparr>tree_title = ''Behavior3'', tree_description = [], tree_properties = [], tree_root = None\<rparr>"

text \<open>\<open>data[key]\<close>.\<close>

definition at_key :: "'a option \<Rightarrow> pyexn + 'a" where
  "at_key v = (case v of None \<Rightarrow> Inl KeyError | Some x \<Rightarrow> Inr x)"

text \<open>\<open>spec[key] or node.attribute\<close>.\<close>

definition or_attr :: "'a list option \<Rightarrow> 'a list option \<Rightarrow> pyexn + 'a list" where
  "or_attr v a = bindr (at_key v) (\<lambda>x. if x \<noteq> [] then Inr x else case a of None \<Rightarrow> Inl AttributeError | Some y \<Rightarrow> Inr y)"

subsection \<open>load\<close>

text \<open>The error for an unknown name is misspelt in the code, so that the name of the exception is unknown too.\<close>

definition find_class :: "(string, node_class) dict \<Rightarrow> string \<Rightarrow> pyexn + node_class" where
  "find_class names n = (case dget names n of
     Some cls \<Rightarrow> Inr cls
   | None \<Rightarrow> (case dget b3_names n of Some _ \<Rightarrow> Inr (B3 n) | None \<Rightarrow> Inl (Exception ''NameError'')))"

definition load_node :: "(string, node_class) dict \<Rightarrow> string \<Rightarrow> spec \<Rightarrow> pyexn + nobj" where
  "load_node names uuid spec =
     bindr (at_key (sp_name spec)) (\<lambda>n.
     bindr (find_class names n) (\<lambda>cls.
     bindr (instantiate uuid cls) (\<lambda>node.
     bindr (or_attr (sp_id spec) (fr_id node)) (\<lambda>i.
     bindr (or_attr (sp_title spec) (fr_title node)) (\<lambda>t.
     bindr (or_attr (sp_description spec) (fr_description node)) (\<lambda>d.
     bindr (or_attr (sp_properties spec) (fr_properties node)) (\<lambda>p.
       Inr \<lparr>ob_attr = \<lparr>na_class = cls, na_id = i, na_title = t, na_description = d, na_properties = p,
              na_own = fr_own node\<rparr>,
            ob_children = [], ob_child = None\<rparr>)))))))"

text \<open>The first loop: one object for every key; \<open>uuid k\<close> is the id made for key number \<open>k\<close>.\<close>

fun load_nodes :: "(string, node_class) dict \<Rightarrow> (nat \<Rightarrow> string) \<Rightarrow> nat \<Rightarrow> (string, spec) dict \<Rightarrow> graph \<Rightarrow> pyexn + graph" where
  "load_nodes names uuid k [] nodes = Inr nodes"
| "load_nodes names uuid k ((key, spec) # specs) nodes =
     bindr (load_node names (uuid k) spec) (\<lambda>ob. load_nodes names uuid (Suc k) specs (dset key ob nodes))"

fun link_children :: "string \<Rightarrow> string list \<Rightarrow> graph \<Rightarrow> pyexn + graph" where
  "link_children key [] nodes = Inr nodes"
| "link_children key (cid # cids) nodes =
     bindr (getitem nodes cid) (\<lambda>_.
     bindr (getitem nodes key) (\<lambda>ob.
       link_children key cids (dset key (ob\<lparr>ob_children := ob_children ob @ [cid]\<rparr>) nodes)))"

definition link_node :: "string \<Rightarrow> spec \<Rightarrow> graph \<Rightarrow> pyexn + graph" where
  "link_node key spec nodes =
     bindr (getitem nodes key) (\<lambda>ob.
     case (class_category (na_class (ob_attr ob)), sp_children spec, sp_child spec) of
       (Cat_missing, _, _) \<Rightarrow> Inl AttributeError
     | (Cat_composite, Some cids, _) \<Rightarrow> link_children key cids nodes
     | (Cat_decorator, _, Some cid) \<Rightarrow>
         bindr (getitem nodes cid) (\<lambda>_. Inr (dset key (ob\<lparr>ob_child := Some cid\<rparr>) nodes))
     | _ \<Rightarrow> Inr nodes)"

text \<open>The second loop.\<close>

fun link_nodes :: "(string, spec) dict \<Rightarrow> graph \<Rightarrow> pyexn + graph" where
  "link_nodes [] nodes = Inr nodes"
| "link_nodes ((key, spec) # specs) nodes = bindr (link_node key spec nodes) (link_nodes specs)"

definition load :: "(string, node_class) dict \<Rightarrow> (nat \<Rightarrow> string) \<Rightarrow> tree_data \<Rightarrow> (btree, unit) py" where
  "load names uuid data = block
     [bindp (lift_res (at_key (td_title data))) (\<lambda>t. modify (\<lambda>tree. tree\<lparr>tree_title := or_text t (tree_title tree)\<rparr>)),
      bindp (lift_res (at_key (td_description data))) (\<lambda>d.
        modify (\<lambda>tree. tree\<lparr>tree_description := or_text d (tree_description tree)\<rparr>)),
      bindp (lift_res (at_key (td_properties data))) (\<lambda>p.
        modify (\<lambda>tree. tree\<lparr>tree_properties := (if p \<noteq> [] then p else tree_properties tree)\<rparr>)),
      bindp (lift_res (at_key (td_nodes data))) (\<lambda>specs.
      bindp (lift_res (bindr (load_nodes names uuid 0 specs []) (link_nodes specs))) (\<lambda>nodes.
      bindp (lift_res (at_key (td_root data))) (\<lambda>r. case r of
        None \<Rightarrow> ret ()
      | Some i \<Rightarrow> if i = [] then ret ()
          else bindp (lift_res (getitem nodes i)) (\<lambda>_. modify (\<lambda>tree. tree\<lparr>tree_root := Some (i, nodes)\<rparr>)))))]"

subsection \<open>dump\<close>

text \<open>\<open>c.id\<close> of the children.  References always lead to an object, so the error is never met.\<close>

fun ids_at :: "graph \<Rightarrow> string list \<Rightarrow> pyexn + string list" where
  "ids_at g [] = Inr []"
| "ids_at g (a # as) = bindr (getitem g a) (\<lambda>ob. bindr (ids_at g as) (\<lambda>is. Inr (na_id (ob_attr ob) # is)))"

record dumped =
  du_nodes :: "(string, spec) dict"
  du_custom :: "custom list"

definition plain_spec :: "nattr \<Rightarrow> spec" where
  "plain_spec at = \<lparr>sp_id = Some (na_id at), sp_name = Some (class_name (na_class at)), sp_title = Some (na_title at),
     sp_description = Some (na_description at), sp_properties = Some (na_properties at),
     sp_children = None, sp_child = None\<rparr>"

definition note_custom :: "nattr \<Rightarrow> custom list \<Rightarrow> custom list" where
  "note_custom at cus =
     (let n = class_name (na_class at) in
      if \<not> has_key b3_names n \<and> n \<notin> set (List.map cu_name cus)
      then cus @ [\<lparr>cu_name = n, cu_title = na_title at, cu_category = class_category (na_class at)\<rparr>]
      else cus)"

text \<open>
  One node: what it pushes on the stack (the top first, so that \<open>reversed(children)\<close> leaves the first
  child on top) and its spec.
\<close>

definition dump_node :: "graph \<Rightarrow> string \<Rightarrow> dumped \<Rightarrow> pyexn + string list \<times> dumped" where
  "dump_node g a st =
     bindr (getitem g a) (\<lambda>ob.
     let at = ob_attr ob;
         put = (\<lambda>sp. \<lparr>du_nodes = dset (na_id at) sp (du_nodes st), du_custom = note_custom at (du_custom st)\<rparr>)
     in case class_category (na_class at) of
       Cat_composite \<Rightarrow>
         bindr (ids_at g (rev (ob_children ob))) (\<lambda>is. Inr (ob_children ob, put (plain_spec at\<lparr>sp_children := Some is\<rparr>)))
     | Cat_decorator \<Rightarrow> (case ob_child ob of
         None \<Rightarrow> Inl AttributeError
       | Some c \<Rightarrow> bindr (getitem g c) (\<lambda>ch. Inr ([c], put (plain_spec at\<lparr>sp_child := Some (na_id (ob_attr ch))\<rparr>))))
     | _ \<Rightarrow> Inr ([], put (plain_spec at)))"

partial_function (option) dump_loop :: "graph \<Rightarrow> string list \<Rightarrow> dumped \<Rightarrow> (pyexn + dumped) option" where
  "dump_loop g stack st = (case stack of
     [] \<Rightarrow> Some (Inr st)
   | a # stack \<Rightarrow> (case dump_node g a st of
       Inl e \<Rightarrow> Some (Inl e)
     | Inr r \<Rightarrow> dump_loop g (fst r @ stack) (snd r)))"

definition dump_with :: "btree \<Rightarrow> string option \<Rightarrow> dumped \<Rightarrow> tree_data" where
  "dump_with tree r st = \<lparr>td_title = Some (tree_title tree), td_description = Some (tree_description tree),
     td_root = Some r, td_properties = Some (tree_properties tree), td_nodes = Some (du_nodes st),
     td_custom = du_custom st\<rparr>"

definition dump :: "btree \<Rightarrow> (pyexn + tree_data) option" where
  "dump tree = (case tree_root tree of
     None \<Rightarrow> Some (Inr (dump_with tree None \<lparr>du_nodes = [], du_custom = []\<rparr>))
   | Some (a, g) \<Rightarrow> (case getitem g a of
       Inl e \<Rightarrow> Some (Inl e)
     | Inr ob \<Rightarrow> map_option (map_sum id (dump_with tree (Some (na_id (ob_attr ob)))))
         (dump_loop g [a] \<lparr>du_nodes = [], du_custom = []\<rparr>)))"


subsection \<open>Trees\<close>

text \<open>A tree as a value, and the graph it is laid out in.\<close>

datatype ntree = Node nattr "ntree list"

fun na_of :: "ntree \<Rightarrow> nattr" where
  "na_of (Node at ts) = at"

fun mirror :: "ntree \<Rightarrow> ntree" where
  "mirror (Node at ts) = Node at (rev (List.map mirror ts))"

fun change_nodes :: "(nattr \<Rightarrow> nattr) \<Rightarrow> ntree \<Rightarrow> ntree" where
  "change_nodes f (Node at ts) = Node (f at) (List.map (change_nodes f) ts)"

fun attrs :: "ntree \<Rightarrow> nattr list" where
  "attrs (Node at ts) = at # concat (List.map attrs ts)"

abbreviation tree_ids :: "ntree \<Rightarrow> string list" where
  "tree_ids t \<equiv> List.map na_id (attrs t)"

definition successors :: "nobj \<Rightarrow> string list" where
  "successors ob = (case class_category (na_class (ob_attr ob)) of
     Cat_composite \<Rightarrow> ob_children ob
   | Cat_decorator \<Rightarrow> (case ob_child ob of None \<Rightarrow> [] | Some c \<Rightarrow> [c])
   | _ \<Rightarrow> [])"

inductive represents :: "graph \<Rightarrow> string \<Rightarrow> ntree \<Rightarrow> bool" for g where
  node: "dget g a = Some ob \<Longrightarrow> ob_attr ob = at \<Longrightarrow>
     (class_category (na_class at) = Cat_decorator \<Longrightarrow> ob_child ob \<noteq> None) \<Longrightarrow>
     list_all2 (represents g) (successors ob) ts \<Longrightarrow> represents g a (Node at ts)"

inductive_cases represents_Node: "represents g a (Node at ts)"

lemma mirror_mirror: "mirror (mirror t) = t"
  by (induction t) (simp add: rev_map map_idI)

lemma represents_getitem: "represents g a t \<Longrightarrow> \<exists>ob. getitem g a = Inr ob \<and> ob_attr ob = na_of t"
  by (cases t) (auto elim!: represents_Node)

lemma ids_at_represents:
  "list_all2 (represents g) as ts \<Longrightarrow> ids_at g as = Inr (List.map (\<lambda>t. na_id (na_of t)) ts)"
  by (induction rule: list_all2_induct) (auto dest!: represents_getitem)

subsection \<open>What dump writes\<close>

definition spec_of :: "nattr \<Rightarrow> string list \<Rightarrow> spec" where
  "spec_of at cids = (case class_category (na_class at) of
     Cat_composite \<Rightarrow> plain_spec at\<lparr>sp_children := Some (rev cids)\<rparr>
   | Cat_decorator \<Rightarrow> plain_spec at\<lparr>sp_child := Some (hd cids)\<rparr>
   | _ \<Rightarrow> plain_spec at)"

text \<open>The nodes of a tree in the order \<open>dump\<close> meets them, each with the ids of its children.\<close>

fun rows :: "ntree \<Rightarrow> (nattr \<times> string list) list" where
  "rows (Node at ts) = (at, List.map (\<lambda>t. na_id (na_of t)) ts) # concat (List.map rows ts)"

definition specs_of :: "(nattr \<times> string list) list \<Rightarrow> (string, spec) dict" where
  "specs_of = List.map (\<lambda>(at, cids). (na_id at, spec_of at cids))"

lemma specs_of_simps [simp]:
  "specs_of [] = []" "specs_of ((at, cids) # rs) = (na_id at, spec_of at cids) # specs_of rs"
  "specs_of (rs @ rs') = specs_of rs @ specs_of rs'"
  by (simp_all add: specs_of_def)

lemma attrs_rows: "List.map fst (rows t) = attrs t"
  by (induction t) (simp add: map_concat comp_def cong: map_cong)

definition noted :: "nattr list \<Rightarrow> custom list \<Rightarrow> custom list" where
  "noted ats cus = fold note_custom ats cus"

lemma dump_node_represents:
  assumes "represents g a (Node at ts)" and "na_id at \<notin> set (keys (du_nodes st))"
  shows "\<exists>as. list_all2 (represents g) as ts \<and> dump_node g a st = Inr (as,
    \<lparr>du_nodes = du_nodes st @ [(na_id at, spec_of at (List.map (\<lambda>t. na_id (na_of t)) ts))],
     du_custom = note_custom at (du_custom st)\<rparr>)"
proof -
  obtain ob where ob: "dget g a = Some ob" "ob_attr ob = at"
    "class_category (na_class at) = Cat_decorator \<Longrightarrow> ob_child ob \<noteq> None"
    and kids: "list_all2 (represents g) (successors ob) ts"
    using assms(1) by (auto elim: represents_Node)
  have new: "dset (na_id at) sp (du_nodes st) = du_nodes st @ [(na_id at, sp)]" for sp
    using assms(2) by (intro dset_new) (simp add: map_of_eq_None_iff keys_def)
  have ids: "ids_at g (rev (successors ob)) = Inr (rev (List.map (\<lambda>t. na_id (na_of t)) ts))"
    using ids_at_represents [of g "rev (successors ob)" "rev ts"] kids by (simp add: rev_map)
  have "dump_node g a st = Inr (successors ob,
    \<lparr>du_nodes = du_nodes st @ [(na_id at, spec_of at (List.map (\<lambda>t. na_id (na_of t)) ts))],
     du_custom = note_custom at (du_custom st)\<rparr>)"
  proof (cases "class_category (na_class at) = Cat_decorator")
    case True
    then obtain c where c: "ob_child ob = Some c" using ob(3) by auto
    then have "successors ob = [c]" using True ob(2) by (simp add: successors_def)
    moreover then obtain t where "ts = [t]" "represents g c t" using kids by (auto simp: list_all2_Cons1)
    moreover then obtain ch where "getitem g c = Inr ch" "ob_attr ch = na_of t"
      using represents_getitem by blast
    ultimately show ?thesis
      using True ob(1,2) c by (simp add: dump_node_def new spec_of_def)
  next
    case False
    then show ?thesis
      using ob ids by (cases "class_category (na_class at)")
        (simp_all add: dump_node_def new spec_of_def successors_def)
  qed
  then show ?thesis using kids by blast
qed

lemma dump_loop_forest:
  assumes "list_all2 (represents g) as ts"
    and "distinct (concat (List.map tree_ids ts))"
    and "set (concat (List.map tree_ids ts)) \<inter> set (keys (du_nodes st)) = {}"
  shows "dump_loop g (as @ rest) st = dump_loop g rest
    \<lparr>du_nodes = du_nodes st @ specs_of (concat (List.map rows ts)),
     du_custom = noted (concat (List.map attrs ts)) (du_custom st)\<rparr>"
  using assms
proof (induction "size_list size ts" arbitrary: as ts rest st rule: less_induct)
  case less
  show ?case
  proof (cases ts)
    case Nil
    then show ?thesis using less.prems(1) by (cases st) (simp add: noted_def)
  next
    case (Cons t us)
    obtain at ks where t: "t = Node at ks" by (cases t)
    obtain a bs where as: "as = a # bs" "represents g a (Node at ks)" "list_all2 (represents g) bs us"
      using less.prems(1) Cons t by (auto simp: list_all2_Cons2)
    have fresh: "na_id at \<notin> set (keys (du_nodes st))" using less.prems(3) Cons t by auto
    obtain cs where cs: "list_all2 (represents g) cs ks"
      "dump_node g a st = Inr (cs,
        \<lparr>du_nodes = du_nodes st @ [(na_id at, spec_of at (List.map (\<lambda>t. na_id (na_of t)) ks))],
         du_custom = note_custom at (du_custom st)\<rparr>)" (is "_ = Inr (cs, ?st)")
      using dump_node_represents [OF as(2) fresh] by blast
    have "dump_loop g (as @ rest) st = dump_loop g ((cs @ bs) @ rest) ?st"
      by (subst dump_loop.simps) (simp add: as(1) cs(2))
    also have "list_all2 (represents g) (cs @ bs) (ks @ us)"
      using cs(1) as(3) by (rule list_all2_appendI)
    then have "dump_loop g ((cs @ bs) @ rest) ?st = dump_loop g rest
      \<lparr>du_nodes = du_nodes ?st @ specs_of (concat (List.map rows (ks @ us))),
       du_custom = noted (concat (List.map attrs (ks @ us))) (du_custom ?st)\<rparr>"
    proof (rule less.hyps [rotated])
      show "size_list size (ks @ us) < size_list size ts" by (simp add: Cons t size_list_append)
      show "distinct (concat (List.map tree_ids (ks @ us)))"
        using less.prems(2) by (simp add: Cons t map_concat comp_def)
      show "set (concat (List.map tree_ids (ks @ us))) \<inter> set (keys (du_nodes ?st)) = {}"
        using less.prems(2,3) by (auto simp: Cons t keys_def map_concat comp_def)
    qed
    finally show ?thesis by (simp add: Cons t noted_def)
  qed
qed


subsection \<open>What load makes of it\<close>

text \<open>
  A node survives when its class can be made without arguments and found under its own name, when it
  has an id and a title, and when an empty description is not filled in by its class.
\<close>

definition loadable :: "(string, node_class) dict \<Rightarrow> nattr \<Rightarrow> bool" where
  "loadable names at =
     (na_id at \<noteq> [] \<and> na_title at \<noteq> [] \<and> class_category (na_class at) \<noteq> Cat_missing \<and>
      find_class names (class_name (na_class at)) = Inr (na_class at) \<and>
      (case instantiate [] (na_class at) of
         Inl e \<Rightarrow> False
       | Inr fr \<Rightarrow> na_description at \<noteq> [] \<or> fr_description fr = Some []))"

text \<open>The other attributes are those of a new object of the class.\<close>

definition renew :: "nattr \<Rightarrow> nattr" where
  "renew at = at\<lparr>na_own := own_state (na_class at)\<rparr>"

lemma renew_fields [simp]:
  "na_class (renew at) = na_class at" "na_id (renew at) = na_id at" "na_title (renew at) = na_title at"
  "na_description (renew at) = na_description at" "na_properties (renew at) = na_properties at"
  by (simp_all add: renew_def)

definition bare :: "nattr \<Rightarrow> nobj" where
  "bare at = \<lparr>ob_attr = renew at, ob_children = [], ob_child = None\<rparr>"

definition linked :: "nattr \<Rightarrow> string list \<Rightarrow> nobj" where
  "linked at cids = \<lparr>ob_attr = renew at,
     ob_children = (if class_category (na_class at) = Cat_composite then rev cids else []),
     ob_child = (if class_category (na_class at) = Cat_decorator then Some (hd cids) else None)\<rparr>"

lemma spec_of_fields [simp]:
  "sp_id (spec_of at cids) = Some (na_id at)" "sp_name (spec_of at cids) = Some (class_name (na_class at))"
  "sp_title (spec_of at cids) = Some (na_title at)" "sp_description (spec_of at cids) = Some (na_description at)"
  "sp_properties (spec_of at cids) = Some (na_properties at)"
  "sp_children (spec_of at cids) = (if class_category (na_class at) = Cat_composite then Some (rev cids) else None)"
  "sp_child (spec_of at cids) = (if class_category (na_class at) = Cat_decorator then Some (hd cids) else None)"
  by (simp_all add: spec_of_def plain_spec_def split: category.split)

lemma load_node_spec:
  assumes "loadable names at"
  shows "load_node names uuid (spec_of at cids) = Inr (bare at)"
proof -
  obtain t d where "instantiate uuid (na_class at) = Inr \<lparr>fr_id = Some uuid, fr_title = Some t,
      fr_description = Some d, fr_properties = Some [], fr_own = own_state (na_class at)\<rparr>" "na_description at = [] \<Longrightarrow> d = []"
    using assms by (cases "na_class at")
      (auto simp: loadable_def base_node_def split: option.splits b3_attr.splits if_splits)
  then show ?thesis
    using assms by (auto simp: load_node_def loadable_def at_key_def or_attr_def bare_def renew_def)
qed

lemma load_nodes_specs:
  assumes "\<forall>(at, cids) \<in> set rs. loadable names at" and "distinct (List.map (\<lambda>r. na_id (fst r)) rs)"
    and "\<forall>(at, cids) \<in> set rs. dget nodes (na_id at) = None"
  shows "load_nodes names uuid k (specs_of rs) nodes = Inr (nodes @ List.map (\<lambda>(at, cids). (na_id at, bare at)) rs)"
  using assms
proof (induction rs arbitrary: k nodes)
  case Nil
  then show ?case by simp
next
  case (Cons r rs)
  obtain at cids where r: "r = (at, cids)" by (cases r)
  have "\<forall>(at', cids') \<in> set rs. dget (dset (na_id at) (bare at) nodes) (na_id at') = None"
    using Cons.prems(2,3) by (force simp: r)
  from Cons.IH [OF _ _ this, of "Suc k"] show ?case
    using Cons.prems load_node_spec [of names at] by (simp add: r dset_new)
qed

lemma link_children_dget:
  assumes "dget g key = Some ob" and "\<forall>c \<in> set cids. dget g c \<noteq> None"
  shows "\<exists>g'. link_children key cids g = Inr g' \<and>
    (\<forall>k. dget g' k = (if k = key then Some (ob\<lparr>ob_children := ob_children ob @ cids\<rparr>) else dget g k))"
  using assms
proof (induction cids arbitrary: g ob)
  case Nil
  then show ?case by auto
next
  case (Cons c cids)
  obtain ch where ch: "dget g c = Some ch" using Cons.prems(2) by auto
  let ?ob = "ob\<lparr>ob_children := ob_children ob @ [c]\<rparr>"
  have "dget (dset key ?ob g) key = Some ?ob" "\<forall>c \<in> set cids. dget (dset key ?ob g) c \<noteq> None"
    using Cons.prems(2) by auto
  from Cons.IH [OF this] show ?case using Cons.prems(1) ch by auto
qed

lemma link_node_dget:
  assumes "dget g (na_id at) = Some (bare at)" and "\<forall>c \<in> set cids. dget g c \<noteq> None"
    and "class_category (na_class at) = Cat_decorator \<Longrightarrow> cids \<noteq> []"
    and "class_category (na_class at) \<noteq> Cat_missing"
  shows "\<exists>g'. link_node (na_id at) (spec_of at cids) g = Inr g' \<and>
    (\<forall>k. dget g' k = (if k = na_id at then Some (linked at cids) else dget g k))"
proof (cases "class_category (na_class at)")
  case Cat_composite
  then show ?thesis
    using link_children_dget [OF assms(1), of "rev cids"] assms(1,2)
    by (auto simp: link_node_def linked_def bare_def)
next
  case Cat_decorator
  then obtain ch where "dget g (hd cids) = Some ch" using assms(2,3) by force
  then show ?thesis
    using Cat_decorator assms(1) by (auto simp: link_node_def linked_def bare_def)
qed (use assms(1,4) in \<open>auto simp: link_node_def linked_def bare_def\<close>)

definition linkable :: "graph \<Rightarrow> nattr \<times> string list \<Rightarrow> bool" where
  "linkable g r = (dget g (na_id (fst r)) = Some (bare (fst r)) \<and> (\<forall>c \<in> set (snd r). dget g c \<noteq> None) \<and>
     (class_category (na_class (fst r)) = Cat_decorator \<longrightarrow> snd r \<noteq> []) \<and>
     class_category (na_class (fst r)) \<noteq> Cat_missing)"

lemma link_nodes_dget:
  assumes "distinct (List.map (\<lambda>r. na_id (fst r)) rs)" and "\<forall>r \<in> set rs. linkable g r"
  shows "\<exists>g'. link_nodes (specs_of rs) g = Inr g' \<and>
    (\<forall>r \<in> set rs. dget g' (na_id (fst r)) = Some (linked (fst r) (snd r))) \<and>
    (\<forall>k. k \<notin> (\<lambda>r. na_id (fst r)) ` set rs \<longrightarrow> dget g' k = dget g k)"
  using assms
proof (induction rs arbitrary: g)
  case Nil
  then show ?case by simp
next
  case (Cons r rs)
  obtain at cids where r: "r = (at, cids)" by (cases r)
  obtain g1 where 1: "link_node (na_id at) (spec_of at cids) g = Inr g1"
    "\<And>k. dget g1 k = (if k = na_id at then Some (linked at cids) else dget g k)"
    using link_node_dget [of g at cids] Cons.prems(2) by (auto simp: r linkable_def)
  have new: "na_id at \<notin> (\<lambda>r. na_id (fst r)) ` set rs" using Cons.prems(1) by (simp add: r)
  have ok: "linkable g1 q" if "q \<in> set rs" for q
  proof -
    have "na_id (fst q) \<in> (\<lambda>r. na_id (fst r)) ` set rs" using that by simp
    with new have "na_id (fst q) \<noteq> na_id at" by metis
    moreover have "linkable g q" using Cons.prems(2) that by simp
    ultimately show ?thesis by (auto simp: linkable_def 1(2))
  qed
  obtain g' where 2: "link_nodes (specs_of rs) g1 = Inr g'"
    "\<forall>r \<in> set rs. dget g' (na_id (fst r)) = Some (linked (fst r) (snd r))"
    "\<forall>k. k \<notin> (\<lambda>r. na_id (fst r)) ` set rs \<longrightarrow> dget g' k = dget g1 k"
    using Cons.IH [of g1] ok Cons.prems(1) by auto
  have "dget g' (na_id at) = Some (linked at cids)" using 2(3) new 1(2) by simp
  moreover have "dget g' k = dget g k" if "k \<notin> (\<lambda>r. na_id (fst r)) ` set (r # rs)" for k
    using 2(3) 1(2) that by (simp add: r)
  ultimately show ?case using 1(1) 2(1,2) by (auto simp: r)
qed


text \<open>A decorator has one child, and a node without children has none.\<close>

fun shaped :: "ntree \<Rightarrow> bool" where
  "shaped (Node at ts) =
     ((case class_category (na_class at) of
         Cat_composite \<Rightarrow> True
       | Cat_decorator \<Rightarrow> length ts = 1
       | _ \<Rightarrow> ts = []) \<and> list_all shaped ts)"

lemma represents_shaped: "represents g a t \<Longrightarrow> shaped t"
proof (induction rule: represents.induct)
  case (node a ob at ts)
  have "length (successors ob) = length ts" using node.IH by (rule list_all2_lengthD)
  moreover have "list_all shaped ts" using node.IH by (auto simp: list_all2_conv_all_nth list_all_length)
  ultimately show ?case
    using node.hyps(2,3) by (auto simp: successors_def split: category.splits option.splits)
qed

lemma na_of_mirror [simp]: "na_of (mirror t) = na_of t"
  by (cases t) simp

lemma successors_linked:
  "shaped (Node at ts) \<Longrightarrow> successors (linked at (List.map f ts)) = rev (List.map f ts)"
  by (cases "class_category (na_class at)") (auto simp: successors_def linked_def length_Suc_conv)

text \<open>The tree with the nodes \<open>load\<close> makes.\<close>

abbreviation reloaded :: "ntree \<Rightarrow> ntree" where
  "reloaded t \<equiv> mirror (change_nodes renew t)"

lemma represents_mirror:
  assumes "shaped t" and "\<forall>r \<in> set (rows t). dget g (na_id (fst r)) = Some (linked (fst r) (snd r))"
  shows "represents g (na_id (na_of t)) (reloaded t)"
  using assms
proof (induction t)
  case (Node at ts)
  let ?ids = "List.map (\<lambda>t. na_id (na_of t)) ts"
  have "list_all2 (represents g) ?ids (List.map reloaded ts)"
    using Node by (auto simp: list_all2_conv_all_nth list_all_length)
  then have "list_all2 (represents g) (rev ?ids) (rev (List.map reloaded ts))"
    by (simp only: list_all2_rev)
  then have "list_all2 (represents g) (successors (linked at ?ids)) (rev (List.map reloaded ts))"
    by (simp only: successors_linked [OF Node.prems(1)])
  then show ?case
    using Node.prems(2) by (auto simp: linked_def comp_def intro!: represents.node)
qed

lemma row_kids: "r \<in> set (rows t) \<Longrightarrow> c \<in> set (snd r) \<Longrightarrow> c \<in> set (tree_ids t)"
proof (induction t arbitrary: r)
  case (Node at ts)
  have top: "na_id (na_of t) \<in> set (tree_ids t)" for t by (cases t) simp
  from Node.prems(1) consider "r = (at, List.map (\<lambda>t. na_id (na_of t)) ts)" | t where "t \<in> set ts" "r \<in> set (rows t)"
    by auto
  then show ?case
  proof cases
    case 1
    then obtain t where "t \<in> set ts" "c = na_id (na_of t)" using Node.prems(2) by auto
    then show ?thesis using top [of t] by auto
  next
    case 2
    then have "c \<in> set (tree_ids t)" using Node.IH Node.prems(2) by blast
    then show ?thesis using 2 by auto
  qed
qed

lemma row_shaped:
  "shaped t \<Longrightarrow> r \<in> set (rows t) \<Longrightarrow> class_category (na_class (fst r)) = Cat_decorator \<Longrightarrow> snd r \<noteq> []"
  by (induction t) (auto simp: list_all_iff)

lemma load_nodes_tree:
  assumes "shaped t" and "distinct (tree_ids t)" and "\<forall>at \<in> set (attrs t). loadable names at"
  shows "\<exists>g. bindr (load_nodes names uuid 0 (specs_of (rows t)) []) (link_nodes (specs_of (rows t))) = Inr g \<and>
    represents g (na_id (na_of t)) (reloaded t)"
proof -
  let ?g = "List.map (\<lambda>(at, cids). (na_id at, bare at)) (rows t)"
  have ids: "List.map (\<lambda>r. na_id (fst r)) (rows t) = tree_ids t"
    by (simp flip: attrs_rows)
  have at: "loadable names (fst r)" if "r \<in> set (rows t)" for r
    using assms(3) that by (auto simp flip: attrs_rows)
  have load: "load_nodes names uuid 0 (specs_of (rows t)) [] = Inr ?g"
    using load_nodes_specs [of "rows t" names "[]" uuid 0] at assms(2) ids by (simp add: case_prod_beta)
  have wf: "wf_dict ?g" using assms(2) ids by (simp add: comp_def case_prod_beta)
  have bare: "dget ?g (na_id (fst r)) = Some (bare (fst r))" if "r \<in> set (rows t)" for r
    using wf that by (auto intro!: map_of_is_SomeI simp: image_iff case_prod_beta)
  have "dget ?g c \<noteq> None" if "c \<in> set (tree_ids t)" for c
    using that by (auto simp: map_of_eq_None_iff image_iff case_prod_beta simp flip: ids)
  then have "linkable ?g r" if "r \<in> set (rows t)" for r
    using that bare at row_kids row_shaped [OF assms(1)] by (auto simp: linkable_def loadable_def)
  then obtain g where "link_nodes (specs_of (rows t)) ?g = Inr g"
    "\<forall>r \<in> set (rows t). dget g (na_id (fst r)) = Some (linked (fst r) (snd r))"
    using link_nodes_dget [of "rows t" ?g] assms(2) ids by auto
  then show ?thesis using load represents_mirror [OF assms(1)] by auto
qed

subsection \<open>Properties\<close>

lemma dump_represents:
  assumes "tree_root tree = Some (a, g)" and "represents g a t" and "distinct (tree_ids t)"
  shows "dump tree = Some (Inr (dump_with tree (Some (na_id (na_of t)))
    \<lparr>du_nodes = specs_of (rows t), du_custom = noted (attrs t) []\<rparr>))"
proof -
  have "dump_loop g ([a] @ []) \<lparr>du_nodes = [], du_custom = []\<rparr> = dump_loop g []
      \<lparr>du_nodes = specs_of (rows t), du_custom = noted (attrs t) []\<rparr>"
    using dump_loop_forest [of g "[a]" "[t]" "\<lparr>du_nodes = [], du_custom = []\<rparr>" "[]"] assms(2,3)
    by (simp add: keys_def)
  then show ?thesis
    using represents_getitem [OF assms(2)] assms(1) by (auto simp: dump_def dump_loop.simps [of g "[]"])
qed

text \<open>C20: Dumping a behaviour tree and loading the data into a new tree succeeds and gives the tree back in a
  mirror: the same title, description and properties of the tree, and nodes with the same classes, ids,
  titles, descriptions and properties, but the children of every node are in the opposite order, and
  every other attribute of a node, as the \<open>end_time\<close> of a \<open>Wait\<close>, is that of a new object of its class.
  It is for finite trees of nodes with distinct ids, ids and titles that are not empty, whose classes are
  found under their names and can be made without arguments (not \<open>Limiter\<close>, \<open>MaxTime\<close> and the
  repeaters) and do not fill in a description that is empty, and for a tree whose title is not empty.\<close>

theorem dump_load_mirrors:
  assumes "tree_root tree = Some (a, g)" and "represents g a t" and "distinct (tree_ids t)"
    and "\<forall>at \<in> set (attrs t). loadable names at" and "tree_title tree \<noteq> []"
  shows "\<exists>data tree'. dump tree = Some (Inr data) \<and> load names uuid data new_tree = (Inr (), tree') \<and>
    tree_title tree' = tree_title tree \<and> tree_description tree' = tree_description tree \<and>
    tree_properties tree' = tree_properties tree \<and>
    (\<exists>i g'. tree_root tree' = Some (i, g') \<and> represents g' i (reloaded t))"
proof -
  obtain g' where g': "bindr (load_nodes names uuid 0 (specs_of (rows t)) []) (link_nodes (specs_of (rows t))) = Inr g'"
    "represents g' (na_id (na_of t)) (reloaded t)"
    using load_nodes_tree [OF represents_shaped [OF assms(2)] assms(3,4)] by blast
  have "na_id (na_of t) \<noteq> []" using assms(4) by (cases t) (simp add: loadable_def)
  moreover obtain ob where "getitem g' (na_id (na_of t)) = Inr ob" using represents_getitem [OF g'(2)] by blast
  ultimately show ?thesis
    using g' assms(5) dump_represents [OF assms(1-3)]
    by (auto simp: load_def dump_with_def new_tree_def at_key_def or_text_def)
qed


text \<open>A sequence of a failer and a wait of five seconds.\<close>

definition plain_node :: "string \<Rightarrow> string \<Rightarrow> nattr" where
  "plain_node i n = \<lparr>na_class = B3 n, na_id = i, na_title = n, na_description = [], na_properties = [],
     na_own = own_state (B3 n)\<rparr>"

definition long_wait :: nattr where
  "long_wait = plain_node ''3'' ''Wait''\<lparr>na_own := [(''parameters'', VDict []), (''end_time'', VFloat ''5.0'')]\<rparr>"

definition pair_tree :: ntree where
  "pair_tree = Node (plain_node ''1'' ''Sequence'')
     [Node (plain_node ''2'' ''Failer'') [], Node long_wait []]"

definition pair_graph :: graph where
  "pair_graph =
     [(''1'', \<lparr>ob_attr = plain_node ''1'' ''Sequence'', ob_children = [''2'', ''3''], ob_child = None\<rparr>),
      (''2'', \<lparr>ob_attr = plain_node ''2'' ''Failer'', ob_children = [], ob_child = None\<rparr>),
      (''3'', \<lparr>ob_attr = long_wait, ob_children = [], ob_child = None\<rparr>)]"

definition pair_object :: btree where
  "pair_object = new_tree\<lparr>tree_root := Some (''1'', pair_graph)\<rparr>"

lemma pair_represented: "represents pair_graph ''1'' pair_tree"
  by (auto simp: pair_tree_def pair_graph_def successors_def plain_node_def long_wait_def b3_names_def intro!: represents.node)

lemma pair_conditions:
  "tree_root pair_object = Some (''1'', pair_graph)" "distinct (tree_ids pair_tree)"
  "\<forall>at \<in> set (attrs pair_tree). loadable [] at" "tree_title pair_object \<noteq> []"
  by (simp_all add: pair_object_def new_tree_def pair_tree_def plain_node_def long_wait_def loadable_def find_class_def
      b3_names_def base_node_def)

theorem dump_load_mirrors_witness:
  "\<exists>data tree' i g'. dump pair_object = Some (Inr data) \<and> load [] (\<lambda>k. []) data new_tree = (Inr (), tree') \<and>
     tree_root tree' = Some (i, g') \<and> represents g' i (Node (plain_node ''1'' ''Sequence'')
       [Node (plain_node ''3'' ''Wait'') [], Node (plain_node ''2'' ''Failer'') []])"
  using dump_load_mirrors [OF pair_conditions(1) pair_represented pair_conditions(2-4), of "\<lambda>k. []"]
  by (simp add: pair_tree_def long_wait_def plain_node_def renew_def) blast

subsection \<open>Cycles\<close>

text \<open>A graph that is loaded may have a cycle, and then \<open>dump\<close> does not return.\<close>

lemma dump_node_pushes:
  "dump_node g a st = Inr (as, st') \<Longrightarrow> \<exists>ob. dget g a = Some ob \<and> as = successors ob"
  by (cases "dget g a"; simp; cases "class_category (na_class (ob_attr (the (dget g a))))"; cases "ob_child (the (dget g a))")
    (auto simp: dump_node_def bindr_Inr successors_def Let_def)

lemma dump_loop_avoids:
  assumes "dump_loop g stack st = Some (Inr st')"
    and "\<And>a ob. a \<in> C \<Longrightarrow> dget g a = Some ob \<Longrightarrow> set (successors ob) \<inter> C \<noteq> {}"
  shows "set stack \<inter> C = {}"
proof -
  define P where "P stack r = (\<forall>st'. r = Inr st' \<longrightarrow> set stack \<inter> C = {})" for stack and r :: "pyexn + dumped"
  have "P stack (Inr st')"
  proof (rule dump_loop.raw_induct [OF _ assms(1), of "\<lambda>h stack st r. h = g \<longrightarrow> P stack r", rule_format])
    fix f h stack st r
    assume IH: "\<And>h stack st r. f h stack st = Some r \<Longrightarrow> h = g \<Longrightarrow> P stack r" and h: "h = g"
      and body: "(case stack of [] \<Rightarrow> Some (Inr st) | a # stack \<Rightarrow> (case dump_node h a st of
          Inl e \<Rightarrow> Some (Inl e) | Inr r \<Rightarrow> f h (fst r @ stack) (snd r))) = Some r"
    show "P stack r"
    proof (cases stack)
      case (Cons a rest)
      show ?thesis
      proof (cases "dump_node g a st")
        case (Inl e)
        then show ?thesis using body h Cons by (auto simp: P_def)
      next
        case (Inr p)
        then obtain ob where ob: "dget g a = Some ob" "fst p = successors ob"
          using dump_node_pushes [of g a st "fst p" "snd p"] by auto
        have "f g (fst p @ rest) (snd p) = Some r" using body h Cons Inr by simp
        then have "P (fst p @ rest) r" using IH by blast
        then show ?thesis using assms(2) [OF _ ob(1)] ob(2) Cons by (auto simp: P_def)
      qed
    qed (simp add: P_def)
  qed simp
  then show ?thesis by (simp add: P_def)
qed

lemma map_data: "map_sum id f r = Inr y \<Longrightarrow> \<exists>z. r = Inr z"
  by (cases r) auto

text \<open>
  \<open>C\<close> is a set of nodes that each have a child in \<open>C\<close>; a tree whose top is one of them is not dumped.
\<close>

lemma cyclic_tree_not_dumped:
  assumes "tree_root tree = Some (a, g)" and "a \<in> C"
    and "\<And>a ob. a \<in> C \<Longrightarrow> dget g a = Some ob \<Longrightarrow> set (successors ob) \<inter> C \<noteq> {}"
  shows "dump tree \<noteq> Some (Inr data)"
proof
  assume "dump tree = Some (Inr data)"
  then obtain st where "dump_loop g [a] \<lparr>du_nodes = [], du_custom = []\<rparr> = Some (Inr st)"
    using assms(1) by (auto simp: dump_def split: sum.splits dest!: map_data)
  from dump_loop_avoids [OF this assms(3)] assms(2) show False by simp
qed

definition own_child :: spec where
  "own_child = spec_of (plain_node ''1'' ''Sequence'') [''1'']"

lemma cyclic_tree_loads:
  "\<exists>tree g. load [] (\<lambda>k. []) (dump_with new_tree (Some ''1'') \<lparr>du_nodes = [(''1'', own_child)], du_custom = []\<rparr>) new_tree =
     (Inr (), tree) \<and> tree_root tree = Some (''1'', g) \<and> (\<forall>ob. dget g ''1'' = Some ob \<longrightarrow> successors ob = [''1''])"
proof -
  have b3: "class_category (B3 ''Sequence'') = Cat_composite" by (simp add: b3_names_def)
  have "loadable [] (plain_node ''1'' ''Sequence'')" using pair_conditions(3) by (simp add: pair_tree_def)
  from load_node_spec [OF this] show ?thesis
    by (simp add: own_child_def load_def link_node_def dump_with_def at_key_def new_tree_def successors_def bare_def
        b3 plain_node_def del: class_category.simps)
qed

end
