(* ===== verification/Login.thy ===== *)
theory Login
  imports Conn_Msg_Handle
begin

section \<open>Logging, sessions and the login service\<close>

text \<open>
  \<open>base_entity.py\<close>, \<open>base_dbproxy_handle.py\<close>, \<open>session.py\<close>, \<open>global_.py\<close> and \<open>login.py\<close>: the small
  classes the rest of the hub and the generated code are built on.  The two coroutines of the
  login handler belong to the game and are parameters.
\<close>

subsection \<open>Log lines of an entity\<close>

text \<open>
  \<open>"{} entity:{}, ".format(type, id) + format.format(argv)\<close>.  The tuple of the arguments is passed
  as one argument, so what the second \<open>format\<close> gives, or raises when the template has
  more than one field, is \<open>formatted\<close>.
\<close>

definition base_entity_log :: "string \<Rightarrow> string \<Rightarrow> string \<Rightarrow> pyexn + string \<Rightarrow> (hub, unit) py" where
  "base_entity_log level entity_type entity_id formatted =
     bindp (lift_res formatted)
       (\<lambda>text. cast (Log level (entity_type @ '' entity:'' @ entity_id @ '', '' @ text)))"

definition base_entity_trace :: "string \<Rightarrow> string \<Rightarrow> pyexn + string \<Rightarrow> (hub, unit) py" where
  "base_entity_trace = base_entity_log ''trace''"

definition base_entity_debug :: "string \<Rightarrow> string \<Rightarrow> pyexn + string \<Rightarrow> (hub, unit) py" where
  "base_entity_debug = base_entity_log ''debug''"

definition base_entity_info :: "string \<Rightarrow> string \<Rightarrow> pyexn + string \<Rightarrow> (hub, unit) py" where
  "base_entity_info = base_entity_log ''info''"

definition base_entity_warn :: "string \<Rightarrow> string \<Rightarrow> pyexn + string \<Rightarrow> (hub, unit) py" where
  "base_entity_warn = base_entity_log ''warn''"

definition base_entity_error :: "string \<Rightarrow> string \<Rightarrow> pyexn + string \<Rightarrow> (hub, unit) py" where
  "base_entity_error = base_entity_log ''error''"

subsection \<open>Handles, sessions, the global entity\<close>

definition base_dbproxy_handle_init :: "env \<Rightarrow> (hub, string) py" where
  "base_dbproxy_handle_init env = get_dbproxy env"

record session =
  ss_source :: string

definition new_session :: "string \<Rightarrow> session" where
  "new_session source = \<lparr>ss_source = source\<rparr>"

text \<open>\<open>self.conn_client_gate\<close>: a \<open>global_entity\<close> has no such attribute.\<close>

definition global_call_client :: "string \<Rightarrow> bytes \<Rightarrow> (hub, unit) py" where
  "global_call_client method argvs = raise AttributeError"

subsection \<open>The login service\<close>

record login_events =
  on_login :: "string \<Rightarrow> string \<Rightarrow> string \<Rightarrow> bytes \<Rightarrow> (hub, unit) py"
  on_reconnect :: "string \<Rightarrow> string \<Rightarrow> string \<Rightarrow> bytes \<Rightarrow> (hub, unit) py"

definition login_init :: "env \<Rightarrow> (hub, string) py" where
  "login_init env = base_dbproxy_handle_init env"

definition replace_client ::
  "env \<Rightarrow> string \<Rightarrow> string \<Rightarrow> string \<Rightarrow> string \<Rightarrow> string \<Rightarrow> bytes \<Rightarrow> bool \<Rightarrow> string \<Rightarrow> (hub, unit) py" where
  "replace_client env old_gate_name old_conn_id new_gate_name new_conn_id sdk_uuid argvs is_replace prompt_info =
     bindp (hub_call_replace_client env old_gate_name old_conn_id new_gate_name new_conn_id sdk_uuid argvs
              is_replace prompt_info)
       (\<lambda>_. ret ())"

definition login_service_login :: "login_events \<Rightarrow> string \<Rightarrow> string \<Rightarrow> string \<Rightarrow> bytes \<Rightarrow> (hub, unit) py" where
  "login_service_login h gate_name conn_id sdk_uuid argvs = on_login h gate_name conn_id sdk_uuid argvs"

definition login_service_reconnect :: "login_events \<Rightarrow> string \<Rightarrow> string \<Rightarrow> string \<Rightarrow> bytes \<Rightarrow> (hub, unit) py" where
  "login_service_reconnect h gate_name conn_id sdk_uuid argvs = on_reconnect h gate_name conn_id sdk_uuid argvs"

text \<open>
  The event loop starts the coroutines of the login service in the order they were handed over;
  one that raises ends itself only.  The other coroutines are steps of \<open>Player\<close> and \<open>Dbproxy\<close>.
\<close>

fun run_login :: "login_events \<Rightarrow> coro \<Rightarrow> hub \<Rightarrow> hub" where
  "run_login h (Co_login gate_name conn_id sdk_uuid argvs) s =
     state_of (login_service_login h gate_name conn_id sdk_uuid argvs s)"
| "run_login h (Co_reconnect gate_name conn_id sdk_uuid argvs) s =
     state_of (login_service_reconnect h gate_name conn_id sdk_uuid argvs s)"
| "run_login h _ s = s"

end
