(* ===== verification/Conn_Dispatch.thy ===== *)
theory Conn_Dispatch
  imports App Context Login
begin

section \<open>The messages of the pump, as one dispatch\<close>

text \<open>
  \<open>app.poll_conn_msg\<close> hands \<open>conn_msg_handle\<close> to the native pump, which calls one of its methods per
  message, by name, and keeps what the method raises to itself.  Here a message is a value,
  the whole handler one function of it, and what the main loop does to the tables of the
  players follows from what every message does.  A hub may be built without a login service
  or a player service: \<open>app.__init__\<close> leaves \<open>login_handle\<close> and \<open>player_mgr\<close> at \<open>None\<close>, and the
  methods that use them raise.
\<close>

subsection \<open>Messages\<close>

datatype conn_msg =
    M_client_request_login string string string bytes
  | M_client_request_reconnect string string string bytes
  | M_transfer_msg_end string bool
  | M_transfer_entity_control string bool bool string string
  | M_client_disconnnect string string
  | M_kick_off_client string string
  | M_client_request_service string string string bytes
  | M_client_call_rpc string string string int string bytes
  | M_client_call_rsp string string int bytes
  | M_client_call_err string string int bytes
  | M_client_call_ntf string string string bytes
  | M_rge_hub string
  | M_query_service_entity string string
  | M_create_service_entity string bool string string string bytes
  | M_forward_client_request_service string string string string bytes
  | M_forward_client_request_service_ext string string "(string \<times> string \<times> bytes) list"
  | M_call_hub_rpc string string int string bytes
  | M_call_hub_rsp string string int bytes
  | M_call_hub_err string string int bytes
  | M_call_hub_ntf string string string bytes
  | M_wait_migrate_entity string string
  | M_migrate_entity string string string string string "string list" "string list" bytes
  | M_create_migrate_entity string string
  | M_migrate_entity_complete string string string

text \<open>Which of the two optional services the process built.\<close>

record built =
  login_handle :: bool
  player_mgr :: bool

definition built_init :: built where
  "built_init = \<lparr>login_handle = False, player_mgr = False\<rparr>"

definition build_login_service :: "built \<Rightarrow> built" where
  "build_login_service b = b\<lparr>login_handle := True\<rparr>"

definition build_player_service :: "built \<Rightarrow> built" where
  "build_player_service b = b\<lparr>player_mgr := True\<rparr>"

text \<open>\<open>app().login_handle.x\<close> and \<open>app().player_mgr.x\<close>: \<open>None\<close> has no such attribute.\<close>

definition of_service :: "bool \<Rightarrow> (hub, unit) py \<Rightarrow> (hub, unit) py" where
  "of_service is_built m = (if is_built then m else raise AttributeError)"

fun conn_handle :: "built \<Rightarrow> env \<Rightarrow> conn_msg \<Rightarrow> (hub, unit) py" where
  "conn_handle b env (M_client_request_login g c u a) =
     of_service (login_handle b) (on_client_request_login env g c u a)"
| "conn_handle b env (M_client_request_reconnect g c k a) =
     of_service (login_handle b) (on_client_request_reconnect env g c k a)"
| "conn_handle b env (M_transfer_msg_end c kick) = modify (do_transfer_msg_end c kick)"
| "conn_handle b env (M_transfer_entity_control k m r g c) =
     of_service (player_mgr b) (on_transfer_entity_control env k m r g c)"
| "conn_handle b env (M_client_disconnnect g c) = of_service (player_mgr b) (on_client_disconnnect env g c)"
| "conn_handle b env (M_kick_off_client g c) = of_service (player_mgr b) (on_kick_off_client env g c)"
| "conn_handle b env (M_client_request_service n g c a) = on_client_request_service env n g c a"
| "conn_handle b env (M_client_call_rpc g c k i m a) =
     of_service (player_mgr b) (on_client_call_rpc env g c k i m a)"
| "conn_handle b env (M_client_call_rsp g k i a) = of_service (player_mgr b) (on_client_call_rsp env g k i a)"
| "conn_handle b env (M_client_call_err g k i a) = of_service (player_mgr b) (on_client_call_err env g k i a)"
| "conn_handle b env (M_client_call_ntf g k m a) = of_service (player_mgr b) (on_client_call_ntf env g k m a)"
| "conn_handle b env (M_rge_hub h) = on_rge_hub h"
| "conn_handle b env (M_query_service_entity h n) = on_query_service_entity env h n"
| "conn_handle b env (M_create_service_entity h m n k t a) = on_create_service_entity env h m n k t a"
| "conn_handle b env (M_forward_client_request_service h n g c a) =
     on_forward_client_request_service env h n g c a"
| "conn_handle b env (M_forward_client_request_service_ext h n info) =
     on_forward_client_request_service_ext env h n info"
| "conn_handle b env (M_call_hub_rpc h k i m a) = of_service (player_mgr b) (on_call_hub_rpc env h k i m a)"
| "conn_handle b env (M_call_hub_rsp h k i a) = on_call_hub_rsp env h k i a"
| "conn_handle b env (M_call_hub_err h k i a) = on_call_hub_err env h k i a"
| "conn_handle b env (M_call_hub_ntf h k m a) = of_service (player_mgr b) (on_call_hub_ntf env h k m a)"
| "conn_handle b env (M_wait_migrate_entity h k) = on_wait_migrate_entity h k"
| "conn_handle b env (M_migrate_entity h t k g c gs hs a) = on_migrate_entity env h t k g c gs hs a"
| "conn_handle b env (M_create_migrate_entity h k) =
     of_service (player_mgr b) (on_create_migrate_entity h k)"
| "conn_handle b env (M_migrate_entity_complete h src k) = on_migrate_entity_complete h src k"

subsection \<open>The pump\<close>

text \<open>
  \<open>GateCallbackMsgHandle\<close> and \<open>HubCallbackMsgHandle\<close> of the native hub (\<open>gate_msg_handle.rs\<close>,
  \<open>hub_msg_handle.rs\<close>) turn an event into a call of a method of the handler: its name, and how
  many arguments it is given.  An event with a field missing is skipped there; a message here
  has all its fields.
\<close>

fun gate_calls :: "conn_msg \<Rightarrow> (string \<times> nat) list" where
  "gate_calls (M_client_request_login g c u a) = [(''on_client_request_login'', 4)]"
| "gate_calls (M_client_request_reconnect g c k a) = [(''on_client_request_reconnect'', 4)]"
| "gate_calls (M_transfer_msg_end c kick) = [(''do_transfer_msg_end'', 2)]"
| "gate_calls (M_transfer_entity_control k m r g c) = [(''on_transfer_entity_control'', 5)]"
| "gate_calls (M_kick_off_client g c) = [(''on_client_kick_off'', 2)]"
| "gate_calls (M_client_disconnnect g c) = [(''on_client_disconnnect'', 2)]"
| "gate_calls (M_client_request_service n g c a) = [(''on_client_request_service'', 4)]"
| "gate_calls (M_client_call_rpc g c k i m a) = [(''on_client_call_rpc'', 6)]"
| "gate_calls (M_client_call_rsp g k i a) = [(''on_client_call_rsp'', 4)]"
| "gate_calls (M_client_call_err g k i a) = [(''on_client_call_err'', 4)]"
| "gate_calls (M_client_call_ntf g k m a) = [(''on_client_call_ntf'', 4)]"
| "gate_calls m = []"

fun hub_calls :: "conn_msg \<Rightarrow> (string \<times> nat) list" where
  "hub_calls (M_rge_hub h) = [(''on_rge_hub'', 1)]"
| "hub_calls (M_query_service_entity h n) = [(''on_query_service_entity'', 2)]"
| "hub_calls (M_create_service_entity h m n k t a) = [(''on_create_service_entity'', 6)]"
| "hub_calls (M_forward_client_request_service h n g c a) = [(''on_forward_client_request_service'', 5)]"
| "hub_calls (M_forward_client_request_service_ext h n info) =
     [(''on_forward_client_request_service_ext'', 3)]"
| "hub_calls (M_call_hub_rpc h k i m a) = [(''on_call_hub_rpc'', 5)]"
| "hub_calls (M_call_hub_rsp h k i a) = [(''on_call_hub_rsp'', 4)]"
| "hub_calls (M_call_hub_err h k i a) = [(''on_call_hub_err'', 4)]"
| "hub_calls (M_call_hub_ntf h k m a) = [(''on_call_hub_ntf'', 4)]"
| "hub_calls (M_wait_migrate_entity h k) = [(''on_wait_migrate_entity'', 2)]"
| "hub_calls (M_migrate_entity h t k g c gs hs a) = [(''on_migrate_entity'', 8)]"
| "hub_calls (M_create_migrate_entity h k) = [(''on_create_migrate_entity'', 3)]"
| "hub_calls (M_migrate_entity_complete h src k) = [(''on_migrate_entity_complete'', 3)]"
| "hub_calls m = []"

text \<open>The methods of the class, each with the number of its parameters after \<open>self\<close>.\<close>

definition conn_methods :: "(string, nat) dict" where
  "conn_methods =
     [(''on_client_request_login'', 4), (''on_client_request_reconnect'', 4), (''do_transfer_msg_end'', 2),
      (''on_transfer_entity_control'', 5), (''on_client_disconnnect'', 2), (''on_kick_off_client'', 2),
      (''on_client_request_service'', 4), (''on_client_call_rpc'', 6), (''on_client_call_rsp'', 4),
      (''on_client_call_err'', 4), (''on_client_call_ntf'', 4), (''on_rge_hub'', 1),
      (''on_query_service_entity'', 2), (''on_create_service_entity'', 6),
      (''on_forward_client_request_service'', 5), (''on_forward_client_request_service_ext'', 3),
      (''on_call_hub_rpc'', 5), (''on_call_hub_rsp'', 4), (''on_call_hub_err'', 4), (''on_call_hub_ntf'', 4),
      (''on_wait_migrate_entity'', 2), (''on_migrate_entity'', 8), (''on_create_migrate_entity'', 2),
      (''on_migrate_entity_complete'', 3)]"

text \<open>
  A call of a method by its name: there is no attribute of another name, and no method takes
  another number of arguments.
\<close>

definition call_method :: "built \<Rightarrow> env \<Rightarrow> conn_msg \<Rightarrow> string \<times> nat \<Rightarrow> (hub, unit) py" where
  "call_method b env m call =
     (case dget conn_methods (fst call) of
        None \<Rightarrow> raise AttributeError
      | Some n \<Rightarrow> if snd call \<noteq> n then raise TypeError else conn_handle b env m)"

text \<open>\<open>if let Err(e) = py_handle.call_method1(...) { error!(...) }\<close>, a log line of the native side.\<close>

definition pump_conn_msg :: "built \<Rightarrow> env \<Rightarrow> conn_msg \<Rightarrow> (hub, unit) py" where
  "pump_conn_msg b env m =
     for_each (\<lambda>call. try_except (call_method b env m call) (\<lambda>e. ret ())) (gate_calls m @ hub_calls m)"

text \<open>The messages whose handler starts with the player manager.\<close>

fun needs_players :: "conn_msg \<Rightarrow> bool" where
  "needs_players (M_transfer_entity_control k m r g c) = True"
| "needs_players (M_client_disconnnect g c) = True"
| "needs_players (M_kick_off_client g c) = True"
| "needs_players (M_client_call_rpc g c k i m a) = True"
| "needs_players (M_client_call_rsp g k i a) = True"
| "needs_players (M_client_call_err g k i a) = True"
| "needs_players (M_client_call_ntf g k m a) = True"
| "needs_players (M_call_hub_rpc h k i m a) = True"
| "needs_players (M_call_hub_ntf h k m a) = True"
| "needs_players (M_create_migrate_entity h k) = True"
| "needs_players m = False"

text \<open>
  The messages that reach a method which finds the services it uses.  The class has no
  \<open>on_client_kick_off\<close>, and its \<open>on_create_migrate_entity\<close> takes two arguments.
\<close>

definition handled :: "built \<Rightarrow> conn_msg \<Rightarrow> bool" where
  "handled b m = (case m of
     M_kick_off_client _ _ \<Rightarrow> False
   | M_create_migrate_entity _ _ \<Rightarrow> False
   | M_client_request_login _ _ _ _ \<Rightarrow> login_handle b
   | M_client_request_reconnect _ _ _ _ \<Rightarrow> login_handle b
   | _ \<Rightarrow> needs_players m \<longrightarrow> player_mgr b)"

definition all_built :: built where
  "all_built = build_login_service (build_player_service built_init)"

lemma pump_handled:
  "pump_conn_msg b env m s =
     (Inr (), if handled b m then state_of (conn_handle all_built env m s) else s)"
  by (cases m) (auto simp: pump_conn_msg_def call_method_def conn_methods_def handled_def all_built_def
      built_init_def build_login_service_def build_player_service_def of_service_def try_except_def split: prod.split sum.split)

subsection \<open>Statements that keep an invariant\<close>

definition preserves :: "('s \<Rightarrow> bool) \<Rightarrow> ('s, 'a) py \<Rightarrow> bool" where
  "preserves I m = (\<forall>s. I s \<longrightarrow> I (state_of (m s)))"

lemma preservesI: "(\<And>s. I s \<Longrightarrow> I (state_of (m s))) \<Longrightarrow> preserves I m"
  by (simp add: preserves_def)

lemma preservesD: "preserves I m \<Longrightarrow> I s \<Longrightarrow> I (state_of (m s))"
  by (simp add: preserves_def)

named_theorems kept

lemma preserves_basic [kept]:
  "preserves I (ret x)" "preserves I (raise e)" "preserves I (lift_res r)"
  by (simp_all add: preserves_def)

lemma preserves_modify: "(\<And>s. I s \<Longrightarrow> I (f s)) \<Longrightarrow> preserves I (modify f)"
  by (simp add: preserves_def)

lemma preserves_bindp [kept]:
  assumes "preserves I m" and "\<And>x. preserves I (k x)"
  shows "preserves I (bindp m k)"
proof (rule preservesI)
  fix s
  assume "I s"
  then show "I (state_of (bindp m k s))"
    using preservesD [OF assms(1)] preservesD [OF assms(2)]
    by (cases "m s"; cases "fst (m s)") fastforce+
qed

lemma preserves_read [kept]: "(\<And>s. preserves I (m s)) \<Longrightarrow> preserves I (read m)"
  by (simp add: preserves_def)

lemma preserves_block [kept]: "(\<And>m. m \<in> set ms \<Longrightarrow> preserves I m) \<Longrightarrow> preserves I (block ms)"
  by (induction ms) (simp_all add: kept)

lemma preserves_for_each [kept]: "(\<And>x. preserves I (body x)) \<Longrightarrow> preserves I (for_each body xs)"
  by (induction xs) (simp_all add: kept)

lemma preserves_if [kept]: "preserves I m \<Longrightarrow> preserves I m' \<Longrightarrow> preserves I (if b then m else m')"
  by simp

lemma preserves_of_service [kept]: "preserves I m \<Longrightarrow> preserves I (of_service b m)"
  by (simp add: of_service_def kept)

subsection \<open>The tables of the players\<close>

text \<open>
  What is left of \<open>index_ok\<close> when a client may be moved to a connection that is taken: ids are
  right, no list is empty or names a player twice, and a player is only in the list of its
  own connection.
\<close>

definition listed_once :: "hub \<Rightarrow> bool" where
  "listed_once s = (
     (\<forall>k p. dget (players s) k = Some p \<longrightarrow> p_entity_id (pobj s p) = k) \<and>
     (\<forall>c l. dget (conn_id_players s) c = Some l \<longrightarrow>
        l \<noteq> [] \<and> distinct l \<and> (\<forall>p \<in> set l. p_client_conn_id (pobj s p) = c)))"

lemma listed_onceI:
  assumes "\<And>k p. dget (players s) k = Some p \<Longrightarrow> p_entity_id (pobj s p) = k"
    and "\<And>c l. dget (conn_id_players s) c = Some l \<Longrightarrow>
           l \<noteq> [] \<and> distinct l \<and> (\<forall>p \<in> set l. p_client_conn_id (pobj s p) = c)"
  shows "listed_once s"
  using assms unfolding listed_once_def by blast

lemma listed_onceD:
  assumes "listed_once s"
  shows "dget (players s) k = Some p \<Longrightarrow> p_entity_id (pobj s p) = k"
    and "dget (conn_id_players s) c = Some l \<Longrightarrow>
      l \<noteq> [] \<and> distinct l \<and> (\<forall>p \<in> set l. p_client_conn_id (pobj s p) = c)"
  using assms unfolding listed_once_def by blast+

lemma index_ok_listed_once: "index_ok s \<Longrightarrow> listed_once s"
  by (rule listed_onceI) (auto dest: index_ok_id index_ok_list)

lemma listed_once_member:
  "listed_once s \<Longrightarrow> p \<in> set (get_player_by_conn_id s c) \<Longrightarrow> p_client_conn_id (pobj s p) = c"
  by (cases "dget (conn_id_players s) c") (auto simp: get_player_by_conn_id_def dest: listed_onceD(2))

lemma listed_once_distinct: "listed_once s \<Longrightarrow> distinct (get_player_by_conn_id s c)"
  by (auto simp: get_player_by_conn_id_def dest: listed_onceD(2) split: option.splits)

text \<open>It reads the two tables, and of a player its id and its connection.\<close>

lemma listed_once_cong:
  assumes "players t = players s" "conn_id_players t = conn_id_players s"
    and "\<And>p. p_entity_id (pobj t p) = p_entity_id (pobj s p)"
    and "\<And>p. p_client_conn_id (pobj t p) = p_client_conn_id (pobj s p)"
  shows "listed_once t = listed_once s"
  using assms by (simp add: listed_once_def)

lemma listed_once_emit: "listed_once (emit c s) = listed_once s"
  by (rule listed_once_cong) simp_all

lemma preserves_cast [kept]:
  "preserves listed_once (cast c)" "preserves listed_once (send env c)"
  "preserves listed_once (app_log l m)"
  by (simp_all add: preserves_def listed_once_def)

lemma preserves_other_fields:
  assumes "\<And>s. players (f s) = players s" "\<And>s. conn_id_players (f s) = conn_id_players s"
    and "\<And>s. pobj (f s) = pobj s"
  shows "preserves listed_once (modify f)"
  by (rule preserves_modify) (simp add: listed_once_def assms)

lemma preserves_upd_player:
  assumes "\<And>x. p_entity_id (f x) = p_entity_id x" "\<And>x. p_client_conn_id (f x) = p_client_conn_id x"
  shows "preserves listed_once (modify (upd_player p f))"
  by (rule preserves_modify) (simp add: listed_once_def assms)

lemma del_player_listed_once: "listed_once s \<Longrightarrow> listed_once (del_player k i s)"
  by (rule listed_onceI) (auto simp: dget_del_player dest: listed_onceD split: if_splits)

lemma del_player_list_listed_once: "listed_once s \<Longrightarrow> listed_once (del_player_list c s)"
  by (rule listed_onceI) (auto dest: listed_onceD split: if_splits)

lemma detach_listed_once: "listed_once s \<Longrightarrow> listed_once (detach_player_conn p s)"
proof (cases "dget (conn_id_players s) (p_client_conn_id (pobj s p))")
  case None
  then show "listed_once s \<Longrightarrow> ?thesis" by (simp add: detach_player_conn_def)
next
  case (Some l)
  assume ok: "listed_once s"
  note l = listed_onceD(2) [OF ok Some]
  have "set (remove1 p l) \<subseteq> set l" by (rule set_remove1_subset)
  then show ?thesis
    unfolding detach_eq [OF Some]
    using l by (intro listed_onceI) (auto dest: listed_onceD [OF ok] split: if_splits)
qed

text \<open>A new player keeps it, whoever had its id or its connection before.\<close>

lemma add_player_listed_once: 
  assumes ok: "listed_once s"
  shows "listed_once (add_player p s)"
proof -
  have ok': "listed_once (taken_over p s)"
    using ok by (auto simp: taken_over_def detach_listed_once split: option.split)
  show ?thesis
  proof (rule listed_onceI)
    fix k q
    assume "dget (players (add_player p s)) k = Some q"
    then show "p_entity_id (pobj (add_player p s) q) = k"
      using listed_onceD(1) [OF ok] by (auto split: if_splits)
  next
    fix c l
    assume l: "dget (conn_id_players (add_player p s)) c = Some l"
    then have "l = get_player_by_conn_id (add_player p s) c"
      by (simp add: get_player_by_conn_id_def)
    then have eq: "l = (if c = p_client_conn_id (pobj s p)
        then append_new p (get_player_by_conn_id (taken_over p s) c)
        else get_player_by_conn_id (taken_over p s) c)" by (simp add: add_player_lists)
    have "l \<noteq> []"
    proof (cases "c = p_client_conn_id (pobj s p)")
      case True
      then show ?thesis by (auto simp: eq append_new_def)
    next
      case False
      then have "dget (conn_id_players (taken_over p s)) c = Some l"
        using l unfolding add_player_def taken_over_def [symmetric] Let_def
        by (auto split: option.splits if_splits)
      then show ?thesis using listed_onceD(2) [OF ok'] by blast
    qed
    then show "l \<noteq> [] \<and> distinct l \<and> (\<forall>q \<in> set l. p_client_conn_id (pobj (add_player p s) q) = c)"
      using listed_once_distinct [OF ok'] listed_once_member [OF ok'] by (auto simp: eq split: if_splits)
  qed
qed

subsection \<open>Every message keeps them\<close>

text \<open>
  What is asked of the application: the callables it registered and the methods it overrides
  keep the invariant, as every operation of the player manager does, and the transfer hook
  leaves the manager alone and does not raise.
\<close>

definition civil :: "env \<Rightarrow> bool" where
  "civil env = (
     (\<forall>f a. preserves listed_once (env_invoke env f a)) \<and>
     (\<forall>p. preserves listed_once (env_player_offline env p)) \<and>
     (\<forall>f g c a. preserves listed_once (env_service_client_query env f g c a)) \<and>
     (\<forall>f i. preserves listed_once (env_service_client_query_ext env f i)) \<and>
     (\<forall>f h. preserves listed_once (env_service_hub_query env f h)) \<and>
     (\<forall>f e. preserves listed_once (env_service_on_migrate env f e)) \<and>
     (\<forall>f m h k a. preserves listed_once (env_creator env f m h k a)) \<and>
     (\<forall>f k g c gs hs a. preserves listed_once (env_migrate_creator env f k g c gs hs a)) \<and>
     (\<forall>q g c. hook_ok (env_on_transfer_conn env q g c)))"

lemma civil_calls [kept]:
  assumes "civil env"
  shows "preserves listed_once (env_invoke env f args)" "preserves listed_once (env_player_offline env p)"
    "preserves listed_once (env_service_client_query env f g c a)"
    "preserves listed_once (env_service_client_query_ext env f i)"
    "preserves listed_once (env_service_hub_query env f h)"
    "preserves listed_once (env_service_on_migrate env f e)"
    "preserves listed_once (env_creator env f m h k a)"
    "preserves listed_once (env_migrate_creator env f k g c gs hs a)"
  using assms by (simp_all add: civil_def)

lemma preserves_dispatch [kept]:
  "civil env \<Longrightarrow> preserves listed_once (dispatch env t m args tpl)"
  "civil env \<Longrightarrow> preserves listed_once (call_fn env f args)"
  by (auto simp: dispatch_def call_fn_def intro: kept split: option.split)

lemma preserves_get_service [kept]: "preserves listed_once (get_service n)"
  by (simp add: preserves_def get_service_def)

lemma preserves_upd [kept]:
  "preserves listed_once (modify (upd_sub x f))" "preserves listed_once (modify (upd_entity e h))"
  by (rule preserves_other_fields; simp add: upd_sub_def upd_entity_def)+

lemma preserves_drop_callback [kept]:
  "preserves listed_once (player_drop_callback p i)" "preserves listed_once (sub_drop_callback x i)"
  by (auto simp: preserves_def player_drop_callback_def sub_drop_callback_def listed_once_def upd_sub_def
      split: sum.split)

lemma preserves_do_transfer_msg_end [kept]: "preserves listed_once (modify (do_transfer_msg_end c k))"
  by (rule preserves_modify) (auto simp: do_transfer_msg_end_def listed_once_def split: option.split)

text \<open>A transfer, to whatever connection: its players are the list of that connection.\<close>

lemma update_player_conn_listed_once:
  assumes env: "civil env" and ok: "listed_once s"
  shows "listed_once (state_of (update_player_conn env k m r g c s))"
proof (cases "dget (players s) k")
  case None
  then show ?thesis using ok by (simp add: update_player_conn_def)
next
  case (Some p)
  let ?u = "state_of (update_player_conn env k m r g c s)"
  have "\<And>q. hook_ok (env_on_transfer_conn env q g c)" using env unfolding civil_def by blast
  from update_player_conn_tables [OF Some this] have tab: "conn_tables g c p s ?u" .
  then have u: "players ?u = players s"
    "\<And>q. pobj ?u q = (if q \<in> set (movers p s) then moved g c (pobj s q) else pobj s q)"
    "\<And>d. dget (conn_id_players ?u) d = (if d = c then Some (movers p s)
           else if d = p_client_conn_id (pobj s p) then None else dget (conn_id_players s) d)"
    unfolding conn_tables_def by simp_all
  have old: "p_client_conn_id (pobj s q) = p_client_conn_id (pobj s p)" if "q \<in> set (movers p s)" for q
    using that listed_once_member [OF ok] by (auto simp: movers_def)
  show ?thesis
  proof (rule listed_onceI)
    fix k' q
    assume "dget (players ?u) k' = Some q"
    then show "p_entity_id (pobj ?u q) = k'" using listed_onceD(1) [OF ok] u(1,2) by auto
  next
    fix d l
    assume l: "dget (conn_id_players ?u) d = Some l"
    show "l \<noteq> [] \<and> distinct l \<and> (\<forall>q \<in> set l. p_client_conn_id (pobj ?u q) = d)"
    proof (cases "d = c")
      case True
      with l have "l = movers p s" by (simp add: u(3))
      then show ?thesis
        using True listed_once_distinct [OF ok] by (auto simp: u(2) movers_def append_new_def)
    next
      case False
      with l have "d \<noteq> p_client_conn_id (pobj s p)" "dget (conn_id_players s) d = Some l"
        by (auto simp: u(3) split: if_splits)
      with listed_onceD(2) [OF ok this(2)] old show ?thesis by (fastforce simp: u(2))
    qed
  qed
qed

lemma preserves_update_conn [kept]:
  assumes "civil env"
  shows "preserves listed_once (update_player_conn env k m r g c)"
    and "preserves listed_once (update_entity_conn env k r g c)"
proof -
  show "preserves listed_once (update_player_conn env k m r g c)"
    using update_player_conn_listed_once [OF assms] by (rule preservesI)
  show "preserves listed_once (update_entity_conn env k r g c)"
    unfolding update_entity_conn_def Let_def by (auto intro!: kept split: option.split)
qed

lemma preserves_player_offline [kept]:
  assumes "civil env"
  shows "preserves listed_once (player_offline env c)"
proof -
  have "preserves listed_once (modify (del_player k i))" "preserves listed_once (modify (del_player_list c))"
    for k i c by (rule preserves_modify, simp add: del_player_listed_once del_player_list_listed_once)+
  note del = this
  have "preserves listed_once (offline_one env c p)" for p
    unfolding offline_one_def by (auto intro!: kept del assms)
  then show ?thesis unfolding player_offline_def by (auto intro!: kept del)
qed

lemma preserves_cases [kept]:
  "(\<And>x y. preserves I (f x y)) \<Longrightarrow> preserves I (case z of (x, y) \<Rightarrow> f x y)"
  "preserves I m \<Longrightarrow> (\<And>x. preserves I (h x)) \<Longrightarrow> preserves I (case v of None \<Rightarrow> m | Some x \<Rightarrow> h x)"
  by (simp_all split: prod.split option.split)

lemmas player_handler_defs =
  player_handle_client_request_def player_handle_client_notify_def player_handle_client_response_def
  player_handle_client_response_error_def player_handle_hub_request_def player_handle_hub_notify_def

lemmas entity_handler_defs =
  entity_handle_client_request_def entity_handle_client_notify_def entity_handle_hub_request_def
  entity_handle_hub_notify_def sub_handle_hub_response_def sub_handle_hub_response_error_def
  sub_handle_hub_notify_def receiver_handle_hub_notify_def

lemma preserves_player_handlers [kept]:
  assumes "civil env"
  shows "preserves listed_once (player_handle_client_request env p g c m i a)"
    "preserves listed_once (player_handle_client_notify env p g m a)"
    "preserves listed_once (player_handle_client_response env p g i a)"
    "preserves listed_once (player_handle_client_response_error env p g i a)"
    "preserves listed_once (player_handle_hub_request env p h m i a)"
    "preserves listed_once (player_handle_hub_notify env p h m a)"
  using assms unfolding player_handler_defs by (auto intro!: kept)

lemma preserves_entity_handlers [kept]:
  assumes "civil env"
  shows "preserves listed_once (entity_handle_client_request env e g c m i a)"
    "preserves listed_once (entity_handle_client_notify env e g m a)"
    "preserves listed_once (entity_handle_hub_request env e h m i a)"
    "preserves listed_once (entity_handle_hub_notify env e h m a)"
    "preserves listed_once (sub_handle_hub_response env x h i a)"
    "preserves listed_once (sub_handle_hub_response_error env x h i a)"
    "preserves listed_once (sub_handle_hub_notify env x h m a)"
    "preserves listed_once (receiver_handle_hub_notify env x h m a)"
  using assms unfolding entity_handler_defs by (auto intro!: kept)

lemma preserves_coros [kept]: "preserves listed_once (modify (\<lambda>s. s\<lparr>coros := f s\<rparr>))"
  by (rule preserves_other_fields) simp_all

lemmas client_message_defs =
  on_client_request_login_def on_client_request_reconnect_def on_transfer_entity_control_def
  on_client_disconnnect_def on_kick_off_client_def on_client_request_service_def on_client_call_rpc_def
  on_client_call_rsp_def on_client_call_err_def on_client_call_ntf_def

lemmas hub_message_defs =
  on_rge_hub_def on_query_service_entity_def on_create_service_entity_def app_create_entity_def
  app_create_migrate_entity_def on_forward_client_request_service_def
  on_forward_client_request_service_ext_def on_call_hub_rpc_def on_call_hub_rsp_def on_call_hub_err_def
  on_call_hub_ntf_def on_wait_migrate_entity_def on_migrate_entity_def on_create_migrate_entity_def
  on_migrate_entity_complete_def sub_do_cache_msg_def

lemma conn_handle_keeps:
  assumes "civil env"
  shows "preserves listed_once (conn_handle b env m)"
  using assms by (cases m) (auto simp: client_message_defs hub_message_defs intro!: kept)

text \<open>Draining the pump, and a turn of the loop.\<close>

lemma drain_keeps:
  assumes "\<And>m. preserves I (handle m)" and "I s"
  shows "I (snd (snd (drain handle ms s)))"
  using assms(2)
proof (induction ms arbitrary: s)
  case Nil
  then show ?case by simp
next
  case (Cons m ms)
  from preservesD [OF assms(1) Cons.prems] have "I (state_of (handle m s))" .
  then show ?case
    using Cons.IH by (cases "handle m s"; cases "fst (handle m s)") auto
qed

definition loop_ok :: "(hub \<Rightarrow> bool) \<Rightarrow> poll_vars \<times> 'm list \<times> hub \<Rightarrow> bool" where
  "loop_ok I w = (physics_last_time (fst w) = None \<and> I (snd (snd w)))"

lemma preserves_in_hub [kept]: "preserves I m \<Longrightarrow> preserves (loop_ok I) (in_hub m)"
  by (auto simp: preserves_def in_hub_def loop_ok_def split: prod.split)

lemma preserves_try [kept]:
  assumes "preserves I m" "\<And>e. preserves I (h e)"
  shows "preserves I (try_except m h)"
proof (rule preservesI)
  fix s
  assume "I s"
  then show "I (state_of (try_except m h s))"
    using preservesD [OF assms(1)] preservesD [OF assms(2)]
    by (cases "m s"; cases "fst (m s)") (fastforce simp: try_except_def)+
qed

lemma preserves_logs [kept]:
  "preserves listed_once (app_error t)" "preserves listed_once (app_warn t)"
  by (simp_all add: app_error_def app_warn_def kept)

definition turn_civil :: "(hub \<Rightarrow> bool) \<Rightarrow> 'm turn \<Rightarrow> bool" where
  "turn_civil I tn = (\<forall>update. tn_update tn = Some update \<longrightarrow> preserves I update)"

lemma poll_turn_keeps:
  fixes tn :: "'m turn"
  assumes handle: "\<And>m. preserves listed_once (handle m)" and hooks: "turn_civil listed_once tn"
  shows "preserves (loop_ok listed_once) (poll_turn handle tn)"
proof -
  have conn: "preserves (loop_ok listed_once) (turn_conn handle tn)"
  proof (rule preservesI, clarify)
    fix v :: poll_vars and q :: "'m list" and s :: hub
    assume ok: "loop_ok listed_once (v, q, s)"
    then have "listed_once s" by (simp add: loop_ok_def)
    obtain r rest t where t: "drain handle (q @ tn_msgs tn) s = (r, rest, t)" by (rule prod_cases3)
    with drain_keeps [of listed_once handle, OF handle \<open>listed_once s\<close>, of "q @ tn_msgs tn"]
    have "listed_once t" by simp
    then show "loop_ok listed_once (state_of (turn_conn handle tn (v, q, s)))"
      using t ok by (cases r) (simp_all add: turn_conn_def poll_conn_msg_def loop_ok_def listed_once_emit)
  qed
  have physics: "preserves (loop_ok listed_once) (turn_physics tn)"
    by (rule preservesI) (auto simp: loop_ok_def turn_physics_apply listed_once_emit)
  have health: "preserves (loop_ok listed_once) (turn_health tn)"
    unfolding turn_health_def
    by (intro preserves_read preserves_cases preserves_if preserves_block)
       (auto intro!: kept preserves_modify, auto simp: loop_ok_def listed_once_def)
  have update: "preserves (loop_ok listed_once) (turn_update tn)"
    using hooks unfolding turn_update_def turn_civil_def
    by (cases "tn_update tn") (auto intro!: kept)
  show ?thesis unfolding poll_turn_def
    using conn physics health update by (auto intro!: kept)
qed

lemma poll_loop_keeps:
  assumes "\<And>m. preserves listed_once (handle m)" and "\<forall>tn \<in> set tns. turn_civil listed_once tn"
  shows "preserves (loop_ok listed_once) (poll_loop handle tns)"
  using assms(2)
proof (induction tns)
  case Nil
  then show ?case by (simp add: preserves_def)
next
  case (Cons tn tns)
  then show ?case unfolding poll_loop.simps
    by (intro preserves_read) (auto intro!: kept poll_turn_keeps assms(1))
qed

lemma preserves_save_entity [kept]: "preserves listed_once (save_entity env db coll v)"
proof (rule preservesI)
  fix s
  assume "listed_once s"
  then show "listed_once (state_of (save_entity env db coll v s))"
    by (cases "v_is_dirty (vobj s v)")
       (simp_all add: save_entity_clean save_entity_dirty save_pre_def upd_save_def listed_once_def
          reg_updata_object_callback_def)
qed

lemma poll_keeps:
  assumes "\<And>m. preserves listed_once (handle m)" and "\<forall>tn \<in> set tns. turn_civil listed_once tn"
    and "listed_once s"
  shows "listed_once (snd (snd (state_of (poll env coll handle tns (v, q, s)))))"
proof -
  have "preserves (loop_ok listed_once)
     (block [poll_loop handle tns, read (\<lambda>(_, _, s). if is_run s then ret () else
        in_hub (for_each_entity (\<lambda>v. save_entity env (fst (coll v)) (snd (coll v)) v)))])"
    unfolding for_each_entity_def by (auto intro!: kept poll_loop_keeps assms(1,2))
  moreover have "loop_ok listed_once (poll_start, q, emit (Set_health_state True) s)"
    using assms(3) by (simp add: loop_ok_def listed_once_def)
  ultimately have "loop_ok listed_once (state_of (poll env coll handle tns (v, q, s)))"
    unfolding poll_split by (auto dest: preservesD)
  then show ?thesis by (simp add: loop_ok_def)
qed

lemma pump_keeps: "civil env \<Longrightarrow> preserves listed_once (pump_conn_msg b env m)"
  by (rule preservesI) (simp add: pump_handled preservesD [OF conn_handle_keeps])

lemma quiet_turn_civil: "tn_update tn = None \<Longrightarrow> turn_civil I tn"
  by (simp add: turn_civil_def)

subsection \<open>Properties\<close>

text \<open>C12: the main loop, over any messages in any order, transfers to any connection included, with
  callables of the game that keep the tables as the manager's own operations do and may raise, but a
  transfer hook (\<open>on_transfer_conn\<close>) that leaves the tables and the objects of the players alone and
  does not raise: a registered player has its own id, and a player is in the list of one connection
  only, its own, once.\<close>

theorem main_loop_lists_once:
  fixes coll :: "nat \<Rightarrow> string \<times> string" and b :: built and v :: poll_vars and q :: "conn_msg list"
  assumes ok: "listed_once s" and env: "civil env"
    and hooks: "\<forall>tn \<in> set tns. turn_civil listed_once tn"
  defines "t \<equiv> snd (snd (state_of (poll env coll (pump_conn_msg b env) tns (v, q, s))))"
  shows "(get_player t k = Some p \<longrightarrow> p_entity_id (pobj t p) = k) \<and>
    distinct (get_player_by_conn_id t c) \<and>
    (p \<in> set (get_player_by_conn_id t c) \<longrightarrow> p_client_conn_id (pobj t p) = c) \<and>
    (p \<in> set (get_player_by_conn_id t c) \<and> p \<in> set (get_player_by_conn_id t d) \<longrightarrow> c = d)"
proof -
  have "listed_once t"
    unfolding t_def by (rule poll_keeps [OF pump_keeps [OF env] hooks ok])
  then show ?thesis
    using listed_onceD(1) listed_once_distinct listed_once_member unfolding get_player_def by blast
qed

definition transfer_turn :: "conn_msg turn" where
  "transfer_turn = \<lparr>tn_msgs = [M_transfer_entity_control ''hero'' True False ''g1'' ''c1'',
       M_client_call_rpc ''g1'' ''c1'' ''pet'' 1 ''leave'' [], M_client_disconnnect ''g1'' ''c1''],
     tn_conn_cost = 0, tn_now = 0, tn_tick = 5, tn_physics_tick = None, tn_flush_physics = ret (),
     tn_update = None, tn_update_cost = 0\<rparr>"

text \<open>An application whose every callable unregisters the pet.\<close>

definition leaving_env :: env where
  "leaving_env = quiet_env\<lparr>env_invoke := (\<lambda>f a. modify (del_player ''pet'' None))\<rparr>"

lemma leaving_env_civil: "civil leaving_env"
  unfolding civil_def leaving_env_def quiet_env_def
  by (simp add: kept) (rule preserves_modify, rule del_player_listed_once)

theorem main_loop_lists_once_witness:
  "distinct (get_player_by_conn_id (snd (snd (state_of (poll leaving_env (\<lambda>_. ('''', ''''))
     (pump_conn_msg all_built leaving_env) [transfer_turn] (poll_start, [],
       add_player 2 (add_player 0 two_sessions)))))) ''c1'')"
proof -
  have "turn_civil listed_once transfer_turn" by (rule quiet_turn_civil) (simp add: transfer_turn_def)
  then show ?thesis
    using main_loop_lists_once [OF index_ok_listed_once [OF two_sessions_pets_ok] leaving_env_civil,
      of "[transfer_turn]"] by simp
qed

text \<open>C13: the pump takes every message, in order, whatever the handlers raise.  A kick-off and the
  report that a migrated entity was created never reach a handler, a message for a service
  the hub did not build has no effect, and each other message runs its handler.\<close>

theorem pump_takes_handled:
  "poll_conn_msg (pump_conn_msg b env) ms s =
     (Inr (), [], fold (\<lambda>m s. state_of (conn_handle all_built env m s)) (List.filter (handled b) ms) s)"
proof -
  have "drain (pump_conn_msg b env) ms s =
     (Inr (), [], fold (\<lambda>m s. state_of (conn_handle all_built env m s)) (List.filter (handled b) ms) s)"
    by (induction ms arbitrary: s) (simp_all add: pump_handled)
  then show ?thesis by (simp add: poll_conn_msg_def)
qed

end
