(* ===== verification/Run_Game.thy ===== *)
theory Run_Game
  imports Prelude
begin

section \<open>The launcher of games\<close>

text \<open>
  \<open>crates/game_runtime/run_game.py\<close>: finds the native libraries, prepares the search paths and
  hands the game to the native loop.  The file system, the environment variables and the
  operations on paths are the record \<open>launch_host\<close>; the calls into native code are recorded in
  order, and what each raises is a parameter.  The result is the status of \<open>sys.exit\<close>, or \<open>None\<close>
  when \<open>main\<close> returns.
\<close>

subsection \<open>The machine and the arguments\<close>

datatype launch =
    Print_error string
  | Add_sys_path string
  | Add_dll_directory string
  | Load_library string
  | Run_game_rust string string string string int int
  | Load_native string string
  | Import_module string
  | Run_game_native string string string int int

record launch_host =
  m_platform :: string
  m_script_dir :: string
  m_environ :: "(string, string) dict"
  m_isfile :: "string \<Rightarrow> bool"
  m_abspath :: "string \<Rightarrow> string"
  m_normpath :: "string \<Rightarrow> string"
  m_dirname :: "string \<Rightarrow> string"
  m_join :: "string list \<Rightarrow> string"
  m_has_dll_directory :: bool
  m_module_vars :: "string \<Rightarrow> (string \<times> bool) list"
  m_native :: "launch \<Rightarrow> pyexn + unit"

text \<open>The namespace \<open>argparse\<close> makes of the command line.\<close>

record run_args =
  a_project_dir :: string
  a_game_module :: string
  a_cls :: "string option"
  a_title :: "string option"
  a_width :: int
  a_height :: int
  a_direct :: bool

subsection \<open>Finding the libraries\<close>

definition library_ext :: "launch_host \<Rightarrow> string" where
  "library_ext h =
     (if m_platform h = ''win32'' then ''.dll''
      else if m_platform h = ''darwin'' then ''.dylib'' else ''.so'')"

definition build_path :: "launch_host \<Rightarrow> string \<Rightarrow> string" where
  "build_path h profile = m_join h [m_script_dir h, ''target'', profile, ''geese_game'' @ library_ext h]"

definition game_library :: "launch_host \<Rightarrow> string" where
  "game_library h =
     (let found = (case dget (m_environ h) ''GEESE_GAME_DLL'' of None \<Rightarrow> '''' | Some d \<Rightarrow> d);
          dll = (if found \<noteq> '''' \<and> m_isfile h found then found else build_path h ''debug'')
      in if \<not> m_isfile h dll then build_path h ''release'' else dll)"

text \<open>\<open>os.environ.get(...) or os.path.join(...)\<close>.\<close>

definition engine_library :: "launch_host \<Rightarrow> string" where
  "engine_library h =
     (let dflt = m_join h [m_normpath h (m_join h [m_script_dir h, ''..'', ''..'']), ''crates'', ''py_engine'',
                           ''target'', ''debug'', ''py_engine'' @ library_ext h]
      in case dget (m_environ h) ''GEESE_ENGINE_PATH'' of
           None \<Rightarrow> dflt
         | Some d \<Rightarrow> if d = '''' then dflt else d)"

subsection \<open>Launching\<close>

definition do_launch :: "launch_host \<Rightarrow> launch \<Rightarrow> (launch list, unit) py" where
  "do_launch h c = bindp (modify (\<lambda>cs. cs @ [c])) (\<lambda>_. lift_res (m_native h c))"

definition record_launch :: "launch \<Rightarrow> (launch list, unit) py" where
  "record_launch c = modify (\<lambda>cs. cs @ [c])"

definition die_with :: "string \<Rightarrow> (launch list, int option) py" where
  "die_with msg = bindp (record_launch (Print_error msg)) (\<lambda>_. ret (Some 1))"

text \<open>A text argument that is absent or empty gives way to its default.\<close>

definition or_else :: "string option \<Rightarrow> string \<Rightarrow> string" where
  "or_else v dflt = (case v of None \<Rightarrow> dflt | Some t \<Rightarrow> if t = '''' then dflt else t)"

text \<open>The first class of the module with an \<open>update\<close>, in the order of its variables.\<close>

definition detect_class :: "(string \<times> bool) list \<Rightarrow> string" where
  "detect_class vs = (case List.find snd vs of None \<Rightarrow> '''' | Some (n, _) \<Rightarrow> n)"

definition run_direct :: "launch_host \<Rightarrow> run_args \<Rightarrow> string \<Rightarrow> (launch list, int option) py" where
  "run_direct h a dll = bindp (block
     [(if m_has_dll_directory h then do_launch h (Add_dll_directory (m_dirname h dll)) else ret ()),
      do_launch h (Load_library dll),
      do_launch h (Run_game_rust (m_abspath h (a_project_dir a)) (a_game_module a)
        (or_else (a_cls a) ''JumpGame'') (or_else (a_title a) (a_game_module a)) (a_width a) (a_height a))])
     (\<lambda>_. ret None)"

definition run_pyo3 :: "launch_host \<Rightarrow> run_args \<Rightarrow> string \<Rightarrow> (launch list, int option) py" where
  "run_pyo3 h a dll =
     (let engine = engine_library h in
      if \<not> m_isfile h engine then die_with (''[ERROR] py_engine not found: '' @ engine)
      else bindp (block
        [(if m_has_dll_directory h then block
            [do_launch h (Add_dll_directory (m_dirname h engine)),
             do_launch h (Add_dll_directory (m_dirname h dll))] else ret ()),
         do_launch h (Load_native ''py_engine'' engine),
         do_launch h (Load_native ''geese_game'' dll),
         do_launch h (Import_module (a_game_module a)),
         do_launch h (Run_game_native (a_game_module a)
           (case a_cls a of None \<Rightarrow> detect_class (m_module_vars h (a_game_module a)) | Some c \<Rightarrow> c)
           (or_else (a_title a) (a_game_module a)) (a_width a) (a_height a))])
        (\<lambda>_. ret None))"

definition run_game_main :: "launch_host \<Rightarrow> run_args \<Rightarrow> (launch list, int option) py" where
  "run_game_main h a =
     (let dll = game_library h in
      if \<not> m_isfile h dll then die_with (''[ERROR] geese_game not found: '' @ dll)
      else bindp (record_launch (Add_sys_path
             (m_normpath h (m_join h [m_abspath h (a_project_dir a), ''game'']))))
        (\<lambda>_. if a_direct a then run_direct h a dll else run_pyo3 h a dll))"

subsection \<open>Facts\<close>

lemma game_library_found:
  "m_isfile h (game_library h) \<longleftrightarrow>
     (\<exists>d. dget (m_environ h) ''GEESE_GAME_DLL'' = Some d \<and> d \<noteq> '''' \<and> m_isfile h d) \<or>
     m_isfile h (build_path h ''debug'') \<or> m_isfile h (build_path h ''release'')"
  by (auto simp: game_library_def Let_def split: option.splits)

lemma detect_class_first:
  "detect_class (xs @ (n, True) # ys) = n" if "\<forall>x \<in> set xs. \<not> snd x"
  using that by (induction xs) (auto simp: detect_class_def)

text \<open>
  A run in which no native call raises either ends by handing the game to the native loop, its
  last call, or exits with status 1 having loaded nothing.
\<close>

lemma run_game_launches:
  assumes "\<And>c. m_native h c = Inr ()"
  obtains (ran) cs where "run_game_main h a [] = (Inr None, cs)"
      "(\<exists>p c t. last cs = Run_game_rust p (a_game_module a) c t (a_width a) (a_height a)) \<or>
       (\<exists>c t. last cs = Run_game_native (a_game_module a) c t (a_width a) (a_height a))"
      "m_isfile h (game_library h)"
    | (died) cs where "run_game_main h a [] = (Inr (Some 1), cs)" "\<exists>msg. last cs = Print_error msg"
      "\<not> m_isfile h (game_library h) \<or> \<not> a_direct a \<and> \<not> m_isfile h (engine_library h)"
  using assms
  by (cases "m_isfile h (game_library h)"; cases "a_direct a"; cases "m_isfile h (engine_library h)";
      cases "m_has_dll_directory h")
     (auto simp: run_game_main_def run_direct_def run_pyo3_def die_with_def record_launch_def do_launch_def
        Let_def)

end
