(* ===== verification/Spec2Isabelle.thy ===== *)
theory Spec2Isabelle
  imports Hub_Sessions Save Dbproxy Context Aoi App Physics_Sync Rank Juggle_Roundtrip Juggle_Check
    Client_Scene Client_Requests Rpc_Struct Editor_Server Rpc_Driver Jump_Game
    Physics_Bindings Behavior_Meaning Behavior_Load Conn_Dispatch Run_Game
begin

text \<open>
  The Python of geese, a game server framework: the hub, the client, the interface compiler, the
  physics server of the editor, a game and behaviour trees.

  A hub process (\<open>src/server/engine\<close>) owns players and entities and talks to gates (clients), to
  other hubs and to a database proxy through a native context.  A client
  (\<open>src/client/engine\<close>) mirrors the entities the hub shows it and calls back.  The code of the
  calls between them is written by the interface compiler (\<open>src/rpc\<close>) from \<open>.juggle\<close> files, in Python and
  in TypeScript.  The editor asks a server of its own (\<open>src/crates/editor/scripts\<close>) to run the
  collision bodies of a scene, which it loads with the code of the hub.

  Conventions.  An object is an address (a \<open>nat\<close>) into a store kept in the state record, so that
  aliasing is that of the program.  A Python dict is an association list in insertion order
  (\<open>dict\<close>, with \<open>dset\<close>, \<open>ddel\<close>, \<open>getitem\<close>, where a missing key is \<open>KeyError\<close>).  A method is a function from the
  state to a result and a state (\<open>('s, 'a) py\<close> in \<open>Prelude\<close>): \<open>Inl\<close> an exception, with the state
  left as it was when it was raised.  A call into the native code is a constructor appended to the
  outbox; its answer is a parameter, as are the hooks of the game (\<open>env\<close>, \<open>cenv\<close>), \<open>uuid\<close>, \<open>msgpack\<close>, redis and
  floats.  Asynchronous work is in the state as pending coroutines and timers, and an event that
  lets one run is an operation of its own.  Integers are \<open>int\<close>, as Python's.

  The hub.
  \<^item> \<open>Hub_State\<close>, \<open>Callback\<close>, \<open>Context\<close>: the state of the process, \<open>callback.py\<close>, the methods of
    \<open>context.py\<close> that do more than pass on.
  \<^item> \<open>Player\<close>, \<open>Player_Manager\<close>: \<open>player.py\<close>; \<open>index_ok\<close> ties the table of players to the table of
    connections, and takeover, transfer and disconnection keep it.
  \<^item> \<open>Entity\<close>, \<open>Subentity\<close>, \<open>Service\<close>: \<open>entity.py\<close>, \<open>subentity.py\<close>, \<open>receiver.py\<close>, \<open>service.py\<close>; the
    calls of a sub-entity over any interleaving with its migration.
  \<^item> \<open>Dbproxy\<close>, \<open>Save\<close>: \<open>dbproxy.py\<close>, \<open>dbproxy_msg_handle.py\<close>, \<open>get_guid.py\<close>, \<open>save.py\<close>; the open requests and
    what a save may lose.
  \<^item> \<open>Conn_Msg_Handle\<close>: the handlers of \<open>conn_msg_handle.py\<close>, which compose the parts above.
  \<^item> \<open>Login\<close>: \<open>base_entity.py\<close>, \<open>base_dbproxy_handle.py\<close>, \<open>session.py\<close>, \<open>global_.py\<close>, \<open>login.py\<close>.
  \<^item> \<open>Conn_Dispatch\<close>: the messages as values, the handler as one function of them, the calls by name the
    native pump makes of it (\<open>server/lib/hub/src/gate_msg_handle.rs\<close>, \<open>hub_msg_handle.rs\<close>), hubs that build no
    login or no player service, and what the main loop keeps over any messages.  Elsewhere
    both services are taken as built.
  \<^item> \<open>Hub_Sessions\<close>: the handlers as a step relation over the players of a hub, and the invariant of
    every hub it reaches.
  \<^item> \<open>App\<close>: \<open>app.py\<close>.  A run of \<open>poll\<close> takes the list of its turns, each with what the turn reads
    (messages, time); a run that needs more turns than the list has is still open at its end.
  \<^item> \<open>Group_State\<close>, \<open>Group\<close>, \<open>Scene_Physics\<close>, \<open>Aoi\<close>, \<open>Physics_Sync\<close>, \<open>Rank\<close>: \<open>group.py\<close>, \<open>scene_physics.py\<close>, \<open>aoi.py\<close>,
    \<open>physics_sync.py\<close>, \<open>rank.py\<close>.
  \<^item> \<open>Py_Values\<close>, \<open>Paths\<close>, \<open>Scene_Collision\<close>: the values of \<open>json\<close> and \<open>msgpack\<close> with the exceptions of their
    operations, and \<open>load_scene_collision_from_manifest\<close> of \<open>scene_physics.py\<close> over them.
  \<^item> \<open>Physics_Bindings\<close>: \<open>physics.py\<close>, \<open>physics_component.py\<close> and the physics functions of \<open>app.py\<close>.  A native object
    is a handle, and its calls are parameters; a body is not used after it was removed.

  The client.
  \<^item> \<open>Client_State\<close>, \<open>Client_Entities\<close>: players, remote entities and receivers, with a counter of request ids
    for every class of players; the locale
    \<open>open_requests\<close> states what a table of open requests promises, and is interpreted on each.
  \<^item> \<open>Client_Events\<close>: \<open>event_system.py\<close>, whose loop reads the list it changes and may not end (a
    partial function), and \<open>animation_events.py\<close> with the abstract table it implements.
  \<^item> \<open>Client_App\<close>, \<open>Client_Scene\<close>: \<open>app.py\<close>, \<open>conn_msg_handle.py\<close>, \<open>scene_object_receiver.py\<close>; the last
    theory carries the messages of the hub's scene to a client.
  \<^item> \<open>Client_Requests\<close>: client, gate and hub composed; requests in flight and their answers.

  The interface compiler.
  \<^item> \<open>Juggle_Text\<close>, \<open>Juggle_Check\<close>, \<open>Juggle_Machines\<close>: the lexical passes, the check of defaults
    and the machines of the parser, one character at a time.
  \<^item> \<open>Juggle_Roundtrip\<close>: a printer of interface files and the proof that parsing inverts it.
  \<^item> \<open>Juggle_Process\<close>: \<open>postprocess.py\<close> and the run over several files.
  \<^item> \<open>Decimal\<close>, \<open>Rpc_Tools\<close>, \<open>Rpc_Gen\<close>: the generators of Python code, text by text.
  \<^item> \<open>Rpc_Codec\<close>: what the generated text does.  The packing and the unpacking code are shown to be
    renderings of small programs, and the programs are run one after the other.
  \<^item> \<open>Rpc_Struct\<close>: the same for the two functions generated for a structure.
  \<^item> \<open>Ts_Tools\<close>, \<open>Ts_Gen\<close>: the generators of TypeScript (\<open>tools/ts\<close>, \<open>gen/*/ts\<close>).  \<open>Ts_Codec\<close> renders the same
    unpacking programs as TypeScript: what a hub in Python packs this code unpacks.  The round trips are
    for flat arguments with names that are plain, and take the codec of a structure to be inverse.
  \<^item> \<open>Rpc_Driver\<close>: \<open>genc2h.py\<close>, \<open>genh2c.py\<close>, \<open>genh2h.py\<close> over a disk, from the interface files of two
    directories to the generated files.  Making a directory and opening a file may fail, a write to an
    open file is taken to succeed.

  The editor and the game.
  \<^item> \<open>Frames\<close>, \<open>Editor_Server\<close>: \<open>physics_editor_server.py\<close>.  A run takes the list of the turns of the event
    loop (a connection is made, bytes arrive, a task runs), in any order; no bound is needed.
  \<^item> \<open>Jump_Game\<close>: \<open>projects/jump_jump/game\<close>.  Every call of the engine is recorded, and what the engine
    holds is computed from the calls: its objects, its bodies and the list of the nodes of its scene
    (\<open>crates/scene/src/scene.rs\<close>), in which the node of the player does not keep its index.
  \<^item> \<open>Run_Game\<close>: \<open>crates/game_runtime/run_game.py\<close>, which finds the native libraries and starts a game.

  Behaviour trees (\<open>external/behavior3py/b3\<close>).
  \<^item> \<open>Behavior_Tree\<close>: the blackboard, the nodes and a tick of a tree.  A step gives \<open>None\<close> when it does not
    return: the loop of a repeater is a \<open>while_option\<close>, and \<open>bounded_tree_returns\<close> shows that trees without
    unbounded repeaters always return.
  \<^item> \<open>Behavior_Ticks\<close>: the stack of open nodes is the path to the running node; what closing the nodes of
    the last tick does to it.
  \<^item> \<open>Behavior_Meaning\<close>: the specification of sequences, priorities and their versions with a memory,
    inverters and actions, without flags and stack, and the simulation.  \<open>Wait\<close> and the other decorators
    are outside of the specification.
  \<^item> \<open>Behavior_Load\<close>: \<open>load\<close> and \<open>dump\<close> on graphs of nodes; \<open>dump\<close> walks the graph with a stack and does not
    return from a cycle, which is a partial function.

  What the properties say.  Identity and index invariants of players and views, order and
  exactly-once delivery of calls, round trips (joining and leaving, parsing, arguments of a call),
  refinement (scene to client, marker table, the asynchronous server of the editor to a sequential
  one, behaviour trees to their meaning), liveness of the main loop of the hub and of the editor's
  answers, what the native pump does with a message whose handler raises, the interface files
  followed to the files on disk and to the values a handler gets, and, where the code does not do
  what it means to, the behaviour it has.

  Not modelled: the vendored packages (redis, pymongo, bson, msgpack), the native servers, the
  files the interface compiler generated, samples and copies of the engine; the client's re-exports
  of native classes (\<open>camera.py\<close>, \<open>scene.py\<close>); scripts that load the desktop library or
  drive a running server.  The arithmetic of
  floats is a parameter everywhere.  The \<open>gen_dict\<close> functions of the two \<open>gen_tools.py\<close>, which nothing
  calls, are modelled and no property is about them.
\<close>

end
